(* ===== verification/Prelude.thy ===== *)
theory Prelude
  imports Main "HOL-Library.Word" "HOL-Library.Char_ord"
begin

text \<open>
  Shared vocabulary of the development: the Go values the sources compute with (error values,
  64-bit integers, byte strings, instants), the early-return chains of the \<open>Validate\<close>
  methods, and the lemmas about them that the component theories rely on.
\<close>

section \<open>Lemma collections\<close>

named_theorems validate_defs \<open>definitions of the Validate methods\<close>
named_theorems enum_simps \<open>facts on string enumerations\<close>

section \<open>Errors\<close>

text \<open>
  A Go \<open>error\<close>: a plain text error, a text wrapping another error (\<open>%w\<close>), a sentinel or
  failure code used as an error, or a \<open>*failure.Failure\<close> (internal/core/failure/failure.go) with
  its code, message, retry flag, details and cause.  A nil error is \<open>None\<close>.
\<close>

datatype goerr =
    Errorf string
  | Wrapf string goerr
  | CodeErr string
  | Typed (fl_Code: string) (fl_Message: string) (fl_Retryable: bool)
      (fl_Details: "(string \<times> string) list") (fl_Cause: "goerr option")

type_synonym 'a result = "goerr + 'a"

text \<open>A sequence of checks with early return: the first error wins.\<close>

fun first_error :: "goerr option list \<Rightarrow> goerr option" where
  "first_error [] = None"
| "first_error (None # xs) = first_error xs"
| "first_error (Some e # xs) = Some e"

definition reject :: "bool \<Rightarrow> goerr \<Rightarrow> goerr option" where
  "reject bad e = (if bad then Some e else None)"

lemma reject_eq_None [simp]: "reject b e = None \<longleftrightarrow> \<not> b"
  by (simp add: reject_def)

lemma reject_eq_Some [simp]: "reject b e = Some e' \<longleftrightarrow> b \<and> e' = e"
  by (auto simp: reject_def)

lemma first_error_Cons:
  "first_error (x # xs) = (case x of None \<Rightarrow> first_error xs | Some e \<Rightarrow> Some e)"
  by (cases x) simp_all

lemma first_error_eq_None [simp]: "first_error xs = None \<longleftrightarrow> (\<forall>x\<in>set xs. x = None)"
  by (induction xs rule: first_error.induct) auto

lemma first_error_append:
  "first_error (xs @ ys) = (case first_error xs of None \<Rightarrow> first_error ys | Some e \<Rightarrow> Some e)"
  by (induction xs rule: first_error.induct) auto

lemma first_error_mem: "first_error xs = Some e \<Longrightarrow> Some e \<in> set xs"
  by (induction xs rule: first_error.induct) auto

text \<open>Sequencing of computations that return a value or an error.\<close>

definition bind_result :: "'a result \<Rightarrow> ('a \<Rightarrow> 'b result) \<Rightarrow> 'b result" where
  "bind_result r f = (case r of Inl e \<Rightarrow> Inl e | Inr x \<Rightarrow> f x)"

definition guard_result :: "goerr option \<Rightarrow> 'a result \<Rightarrow> 'a result" where
  "guard_result e r = (case e of Some x \<Rightarrow> Inl x | None \<Rightarrow> r)"

lemma bind_result_simps [simp]:
  "bind_result (Inl e) f = Inl e" "bind_result (Inr x) f = f x"
  by (simp_all add: bind_result_def)

lemma bind_result_eq_Inr [simp]:
  "bind_result r f = Inr y \<longleftrightarrow> (\<exists>x. r = Inr x \<and> f x = Inr y)"
  by (cases r) auto

lemma guard_result_simps [simp]:
  "guard_result None r = r" "guard_result (Some e) r = Inl e"
  by (simp_all add: guard_result_def)

lemma guard_result_eq_Inr [simp]: "guard_result e r = Inr y \<longleftrightarrow> e = None \<and> r = Inr y"
  by (cases e) auto

section \<open>Machine integers\<close>

text \<open>
  \<open>int\<close> and \<open>int64\<close> of Go (64 bits on the supported platforms) are integers whose sums are
  wrapped by \<open>int64\<close>; \<open>uint64\<close> is a 64-bit word.
\<close>

definition int64 :: "int \<Rightarrow> int" where
  "int64 x = (x + 2 ^ 63) mod 2 ^ 64 - 2 ^ 63"

definition max_int64 :: int where
  "max_int64 = 2 ^ 63 - 1"

type_synonym uint64 = "64 word"

lemma int64_bounds: "- (2 ^ 63) \<le> int64 x" "int64 x < 2 ^ 63"
proof -
  have "0 \<le> (x + 2 ^ 63) mod 2 ^ 64" "(x + 2 ^ 63) mod 2 ^ 64 < (2::int) ^ 64"
    by (rule pos_mod_sign, simp) (rule pos_mod_bound, simp)
  then show "- (2 ^ 63) \<le> int64 x" "int64 x < 2 ^ 63"
    unfolding int64_def by simp_all
qed

lemma int64_id: "- (2 ^ 63) \<le> x \<Longrightarrow> x < 2 ^ 63 \<Longrightarrow> int64 x = x"
  unfolding int64_def by (subst mod_pos_pos_trivial) simp_all

lemma int64_overflow: "2 ^ 63 \<le> x \<Longrightarrow> x < 2 ^ 64 \<Longrightarrow> int64 x = x - 2 ^ 64"
proof -
  assume a: "2 ^ 63 \<le> x" "x < 2 ^ 64"
  have "(x + 2 ^ 63) mod 2 ^ 64 = (x - 2 ^ 63 + 2 ^ 64) mod (2::int) ^ 64"
    by (simp add: add.commute)
  also have "\<dots> = (x - 2 ^ 63) mod 2 ^ 64"
    by (rule mod_add_self2)
  also have "\<dots> = x - 2 ^ 63"
    using a by (intro mod_pos_pos_trivial) simp_all
  finally show ?thesis unfolding int64_def by simp
qed

text \<open>A sum of two non-negative \<open>int64\<close> values that comes out non-negative did not wrap.\<close>

lemma int64_add_exact:
  assumes "0 \<le> a" "a < 2 ^ 63" "0 \<le> b" "b < 2 ^ 63" "0 \<le> int64 (a + b)"
  shows "int64 (a + b) = a + b"
proof (cases "a + b < 2 ^ 63")
  case True
  with assms show ?thesis by (intro int64_id) simp_all
next
  case False
  with assms have "int64 (a + b) = a + b - 2 ^ 64" by (intro int64_overflow) simp_all
  with assms show ?thesis by simp
qed

section \<open>Instants\<close>

text \<open>
  \<open>time.Time\<close> as nanoseconds since Go's zero time: \<open>IsZero\<close>, \<open>Before\<close>, \<open>After\<close> and
  \<open>Equal\<close> compare instants, and \<open>UTC\<close> keeps the instant.
\<close>

type_synonym time = int

definition IsZero :: "time \<Rightarrow> bool" where
  "IsZero t \<longleftrightarrow> t = 0"

section \<open>Bytes and identifiers\<close>

text \<open>Go strings are byte strings; a \<open>char\<close> is one byte.\<close>

definition is_lower :: "char \<Rightarrow> bool" where
  "is_lower c \<longleftrightarrow> CHR ''a'' \<le> c \<and> c \<le> CHR ''z''"

definition is_upper :: "char \<Rightarrow> bool" where
  "is_upper c \<longleftrightarrow> CHR ''A'' \<le> c \<and> c \<le> CHR ''Z''"

definition is_digit :: "char \<Rightarrow> bool" where
  "is_digit c \<longleftrightarrow> CHR ''0'' \<le> c \<and> c \<le> CHR ''9''"

definition is_alnum :: "char \<Rightarrow> bool" where
  "is_alnum c \<longleftrightarrow> is_lower c \<or> is_upper c \<or> is_digit c"

lemmas byte_class_defs = is_lower_def is_upper_def is_digit_def is_alnum_def

text \<open>
  The two identifier grammars shared by the core packages: non-empty, bounded, and over a byte
  class; the second one restricts the first byte further.
\<close>

definition bytes_over :: "(char \<Rightarrow> bool) \<Rightarrow> nat \<Rightarrow> string \<Rightarrow> bool" where
  "bytes_over p n v \<longleftrightarrow> v \<noteq> [] \<and> length v \<le> n \<and> list_all p v"

definition bytes_headed :: "(char \<Rightarrow> bool) \<Rightarrow> (char \<Rightarrow> bool) \<Rightarrow> nat \<Rightarrow> string \<Rightarrow> bool" where
  "bytes_headed h p n v \<longleftrightarrow> v \<noteq> [] \<and> length v \<le> n \<and> h (hd v) \<and> list_all p (tl v)"

lemma bytes_headed_imp_over:
  assumes "bytes_headed h p n v" "\<And>c. h c \<Longrightarrow> p c"
  shows "bytes_over p n v"
  using assms by (cases v) (auto simp: bytes_over_def bytes_headed_def)

lemma bytes_over_mono:
  assumes "bytes_over p m v" "m \<le> n" "\<And>c. p c \<Longrightarrow> q c"
  shows "bytes_over q n v"
  using assms by (auto simp: bytes_over_def list_all_iff)

lemma not_bytes_over_Nil [simp]: "\<not> bytes_over p n []"
  by (simp add: bytes_over_def)

lemma not_bytes_headed_Nil [simp]: "\<not> bytes_headed h p n []"
  by (simp add: bytes_headed_def)

section \<open>Printed integers\<close>

text \<open>\<open>fmt.Sprint\<close> of an unsigned and of a signed integer.\<close>

definition digit_char :: "nat \<Rightarrow> char" where
  "digit_char d = char_of (48 + d)"

fun decimal :: "nat \<Rightarrow> string" where
  "decimal n = (if n < 10 then [digit_char n] else decimal (n div 10) @ [digit_char (n mod 10)])"

declare decimal.simps [simp del]

definition sprint_uint :: "uint64 \<Rightarrow> string" where
  "sprint_uint w = decimal (unat w)"

definition sprint_int :: "int \<Rightarrow> string" where
  "sprint_int i = (if i < 0 then CHR ''-'' # decimal (nat (- i)) else decimal (nat i))"

section \<open>Error chains\<close>

text \<open>\<open>errors.Is\<close> for a plain target: the error or one that it wraps.\<close>

fun errors_Is :: "goerr \<Rightarrow> goerr \<Rightarrow> bool" where
  "errors_Is (Errorf s) t \<longleftrightarrow> t = Errorf s"
| "errors_Is (CodeErr c) t \<longleftrightarrow> t = CodeErr c"
| "errors_Is (Wrapf s e) t \<longleftrightarrow> t = Wrapf s e \<or> errors_Is e t"
| "errors_Is (Typed c m r d e) t \<longleftrightarrow> t = Typed c m r d e \<or> (case e of None \<Rightarrow> False | Some e' \<Rightarrow> errors_Is e' t)"

lemma errors_Is_refl [simp]: "errors_Is e e"
  by (cases e) auto

section \<open>Lists\<close>

lemma sum_list_map_filter_split:
  fixes f :: "'a \<Rightarrow> int"
  shows "sum_list (map f (filter p xs)) + sum_list (map f (filter (\<lambda>x. \<not> p x) xs))
    = sum_list (map f xs)"
  by (induction xs) auto

lemma sum_list_nonneg_int:
  fixes xs :: "int list"
  shows "(\<And>x. x \<in> set xs \<Longrightarrow> 0 \<le> x) \<Longrightarrow> 0 \<le> sum_list xs"
  by (induction xs) auto

lemma find_Some_iff_mem: "find P xs = Some x \<Longrightarrow> x \<in> set xs \<and> P x"
  by (auto simp: find_Some_iff)

end
