(* ===== verification/InputLog.thy ===== *)
theory InputLog
  imports Prelude
begin

text \<open>
  The contract of a durable input ledger, as its clients rely on it: a session's input is a
  sequence of accepted byte chunks at consecutive offsets, closed at most once by an end of
  file; every other request leaves the ledger as it was.  The in-memory ledger
  (internal/core/session/input.go) and the persistent supervisor ledger
  (internal/adapter/supervisor/ledger.go) both provide it; the theories Session and
  SupervisorLedger interpret the locale on their models.
\<close>

section \<open>Offsets of a chunk sequence\<close>

definition total_bytes :: "string list \<Rightarrow> int" where
  "total_bytes log = sum_list (map (\<lambda>b. int (length b)) log)"

fun place :: "int \<Rightarrow> string list \<Rightarrow> (int \<times> string) list" where
  "place off [] = []"
| "place off (b # bs) = (off, b) # place (off + int (length b)) bs"

lemma total_bytes_simps [simp]:
  "total_bytes [] = 0" "total_bytes (b # bs) = int (length b) + total_bytes bs"
  "total_bytes (xs @ ys) = total_bytes xs + total_bytes ys"
  by (simp_all add: total_bytes_def)

lemma total_bytes_nonneg: "0 \<le> total_bytes log"
  by (induction log) simp_all

lemma place_append: "place off (xs @ ys) = place off xs @ place (off + total_bytes xs) ys"
  by (induction xs arbitrary: off) (simp_all add: add.assoc)

lemma place_bounds:
  "(p, b) \<in> set (place off log) \<Longrightarrow> off \<le> p \<and> p + int (length b) \<le> off + total_bytes log"
proof (induction log arbitrary: off)
  case (Cons c cs)
  then show ?case
    using total_bytes_nonneg [of cs] by (cases "(p, b) = (off, c)") (auto dest: Cons.IH)
qed simp

lemma place_lt_total:
  assumes "(p, b) \<in> set (place 0 log)" "b \<noteq> []"
  shows "p < total_bytes log"
  using place_bounds [OF assms(1)] assms(2) by (cases b) simp_all

lemma snd_place: "map snd (place off log) = log"
  by (induction log arbitrary: off) simp_all

lemma map_of_place_Some:
  "map_of (place 0 log) p = Some b \<Longrightarrow> (p, b) \<in> set (place 0 log)"
  by (rule map_of_SomeD)

text \<open>Non-empty chunks have distinct offsets.\<close>

lemma place_map_of:
  "[] \<notin> set log \<Longrightarrow> (p, b) \<in> set (place off log) \<Longrightarrow> map_of (place off log) p = Some b"
proof (induction log arbitrary: off)
  case (Cons c cs)
  show ?case
  proof (cases "(p, b) \<in> set (place (off + int (length c)) cs)")
    case True
    with place_bounds [OF True] Cons show ?thesis by (cases c) auto
  qed (use Cons.prems in auto)
qed simp

lemma map_of_place_total:
  assumes "[] \<notin> set log"
  shows "map_of (place 0 log) (total_bytes log) = None"
proof (rule ccontr)
  assume "map_of (place 0 log) (total_bytes log) \<noteq> None"
  then obtain b where b: "(total_bytes log, b) \<in> set (place 0 log)"
    by (auto dest: map_of_SomeD)
  then have "b \<in> set (map snd (place 0 log))" by force
  then have "b \<in> set log" by (simp only: snd_place)
  with assms have "b \<noteq> []" by auto
  with place_lt_total [OF b] show False by simp
qed

lemma map_of_place_snoc:
  assumes "[] \<notin> set log"
  shows "map_of (place 0 (log @ [b])) p
    = (if p = total_bytes log then Some b else map_of (place 0 log) p)"
  using map_of_place_total [OF assms] by (auto simp: place_append map_add_def split: option.splits)

section \<open>The contract\<close>

datatype admission = Accepted | Duplicate | Refused

datatype request = Chars int string | Eof int

text \<open>A client run: the ledger after the requests, and the verdict of each of them.\<close>

fun run_requests :: "('l \<Rightarrow> request \<Rightarrow> admission \<times> 'l) \<Rightarrow> 'l \<Rightarrow> request list \<Rightarrow> (request \<times> admission) list \<times> 'l" where
  "run_requests submit l [] = ([], l)"
| "run_requests submit l (r # rs) = (let (a, l1) = submit l r; (as, l2) = run_requests submit l1 rs in ((r, a) # as, l2))"

fun accepted_chunks :: "(request \<times> admission) list \<Rightarrow> string list" where
  "accepted_chunks [] = []"
| "accepted_chunks ((Chars off b, Accepted) # xs) = b # accepted_chunks xs"
| "accepted_chunks (_ # xs) = accepted_chunks xs"

lemma accepted_chunks_Cons:
  "accepted_chunks (x # xs) = accepted_chunks [x] @ accepted_chunks xs"
proof (cases x)
  case (Pair r a)
  then show ?thesis by (cases r; cases a) simp_all
qed

fun request_bytes :: "request list \<Rightarrow> int" where
  "request_bytes [] = 0"
| "request_bytes (Chars off b # rs) = int (length b) + request_bytes rs"
| "request_bytes (Eof off # rs) = request_bytes rs"

lemma request_bytes_nonneg: "0 \<le> request_bytes rs"
  by (induction rs rule: request_bytes.induct) simp_all

lemma request_bytes_Cons: "request_bytes (r # rs) = request_bytes [r] + request_bytes rs"
  by (cases r) simp_all

lemma accepted_chunks_bytes: "total_bytes (accepted_chunks [(r, a)]) \<le> request_bytes [r]"
  by (cases r; cases a) simp_all

text \<open>
  Offsets are \<open>int64\<close>: the contract speaks of sessions whose accepted and submitted input
  stays below \<open>2 ^ 63\<close> bytes, so that the end offset does not wrap around.
\<close>

locale input_log =
  fixes submit :: "'l \<Rightarrow> request \<Rightarrow> admission \<times> 'l"
    and rep :: "'l \<Rightarrow> string list \<Rightarrow> bool \<Rightarrow> bool"
  assumes chars_accepted:
      "rep l log c \<Longrightarrow> total_bytes log + int (length b) < 2 ^ 63 \<Longrightarrow>
        submit l (Chars off b) = (Accepted, l') \<Longrightarrow>
        \<not> c \<and> off = total_bytes log \<and> b \<noteq> [] \<and> rep l' (log @ [b]) False"
    and eof_accepted:
      "rep l log c \<Longrightarrow> submit l (Eof off) = (Accepted, l') \<Longrightarrow>
        \<not> c \<and> off = total_bytes log \<and> rep l' log True"
    and not_accepted:
      "rep l log c \<Longrightarrow> submit l r = (a, l') \<Longrightarrow> a \<noteq> Accepted \<Longrightarrow> l' = l"
begin

lemma submit_rep:
  assumes "rep l log c" "submit l r = (a, l')" "total_bytes log + request_bytes [r] < 2 ^ 63"
  shows "\<exists>c'. rep l' (log @ accepted_chunks [(r, a)]) c'"
proof (cases "a = Accepted")
  case True
  show ?thesis
  proof (cases r)
    case (Chars off b)
    then show ?thesis using assms True chars_accepted [of l log c b off l'] by auto
  next
    case (Eof off)
    then show ?thesis using assms True eof_accepted [of l log c off l'] by auto
  qed
next
  case False
  then have "l' = l" using assms not_accepted by blast
  moreover have "accepted_chunks [(r, a)] = []"
    using False by (cases r; cases a) simp_all
  ultimately show ?thesis using assms(1) by auto
qed

text \<open>One step of a run, with the room that is left for the rest of it.\<close>

lemma run_step:
  assumes "rep l log c" "run_requests submit l (r # rs) = (vs, l')"
    and "total_bytes log + request_bytes (r # rs) < 2 ^ 63"
  obtains a l1 as c1 where "submit l r = (a, l1)" "run_requests submit l1 rs = (as, l')"
    "vs = (r, a) # as" "rep l1 (log @ accepted_chunks [(r, a)]) c1"
    "total_bytes (log @ accepted_chunks [(r, a)]) + request_bytes rs < 2 ^ 63"
proof -
  obtain a l1 where s: "submit l r = (a, l1)" by fastforce
  obtain as where r: "run_requests submit l1 rs = (as, l')" and vs: "vs = (r, a) # as"
    using assms(2) s by (auto split: prod.splits)
  have room: "total_bytes log + request_bytes [r] < 2 ^ 63"
    using assms(3) request_bytes_Cons [of r rs] request_bytes_nonneg [of rs] by linarith
  obtain c1 where "rep l1 (log @ accepted_chunks [(r, a)]) c1"
    using submit_rep [OF assms(1) s room] by blast
  moreover have "total_bytes (log @ accepted_chunks [(r, a)]) + request_bytes rs < 2 ^ 63"
    using assms(3) request_bytes_Cons [of r rs] accepted_chunks_bytes [of r a]
    unfolding total_bytes_simps by linarith
  ultimately show ?thesis using s r vs that by blast
qed

text \<open>However often a client retries, the ledger holds exactly the accepted chunks, in order.\<close>

lemma run_rep:
  assumes "rep l log c" "run_requests submit l rs = (vs, l')"
    and "total_bytes log + request_bytes rs < 2 ^ 63"
  shows "\<exists>c'. rep l' (log @ accepted_chunks vs) c'"
  using assms
proof (induction rs arbitrary: l log c vs)
  case Nil
  then show ?case by auto
next
  case (Cons r rs)
  from Cons.prems obtain a l1 as c1 where
    "run_requests submit l1 rs = (as, l')" "vs = (r, a) # as"
    "rep l1 (log @ accepted_chunks [(r, a)]) c1"
    "total_bytes (log @ accepted_chunks [(r, a)]) + request_bytes rs < 2 ^ 63"
    by (rule run_step)
  with Cons.IH show ?case
    using accepted_chunks_Cons [of "(r, a)" as] by fastforce
qed

text \<open>An offset below the end of the accepted input is never accepted again.\<close>

lemma offset_accepted_once:
  assumes "rep l log c" "run_requests submit l rs = (vs, l')" "off < total_bytes log"
    and "total_bytes log + request_bytes rs < 2 ^ 63"
  shows "(Chars off b, Accepted) \<notin> set vs"
  using assms
proof (induction rs arbitrary: l log c vs)
  case Nil
  then show ?case by auto
next
  case (Cons r rs)
  from Cons.prems(1,2,4) obtain a l1 as c1 where st: "submit l r = (a, l1)"
    "run_requests submit l1 rs = (as, l')" "vs = (r, a) # as"
    "rep l1 (log @ accepted_chunks [(r, a)]) c1"
    "total_bytes (log @ accepted_chunks [(r, a)]) + request_bytes rs < 2 ^ 63"
    by (rule run_step)
  have "off < total_bytes (log @ accepted_chunks [(r, a)])"
    using Cons.prems(3) total_bytes_nonneg [of "accepted_chunks [(r, a)]"]
    unfolding total_bytes_simps by linarith
  from Cons.IH [OF st(4,2) this st(5)] have "(Chars off b, Accepted) \<notin> set as" .
  moreover have "(r, a) \<noteq> (Chars off b, Accepted)"
  proof
    assume eq: "(r, a) = (Chars off b, Accepted)"
    have "total_bytes log + int (length b) < 2 ^ 63"
      using Cons.prems(4) eq request_bytes_nonneg [of rs] by simp
    from chars_accepted [OF Cons.prems(1) this] st(1) eq Cons.prems(3) show False by blast
  qed
  ultimately show ?case unfolding st(3) by auto
qed

text \<open>Two accepted chunks of one run never share an offset.\<close>

lemma accepted_offsets_distinct:
  assumes "rep l log c" "run_requests submit l rs = (vs, l')"
    and "total_bytes log + request_bytes rs < 2 ^ 63"
    and "vs = xs @ (Chars off b, Accepted) # ys"
  shows "(Chars off b', Accepted) \<notin> set ys"
  using assms
proof (induction rs arbitrary: l log c vs xs)
  case Nil
  then show ?case by simp
next
  case (Cons r rs)
  from Cons.prems(1-3) obtain a l1 as c1 where st: "submit l r = (a, l1)"
    "run_requests submit l1 rs = (as, l')" "vs = (r, a) # as"
    "rep l1 (log @ accepted_chunks [(r, a)]) c1"
    "total_bytes (log @ accepted_chunks [(r, a)]) + request_bytes rs < 2 ^ 63"
    by (rule run_step)
  show ?case
  proof (cases xs)
    case Nil
    with st(3) Cons.prems(4) have eq: "r = Chars off b" "a = Accepted" "as = ys" by auto
    have "total_bytes log + int (length b) < 2 ^ 63"
      using Cons.prems(3) eq request_bytes_nonneg [of rs] by simp
    then have "off = total_bytes log" "b \<noteq> []"
      using chars_accepted [OF Cons.prems(1)] st(1) eq by blast+
    then have "off < total_bytes (log @ accepted_chunks [(r, a)])" using eq by simp
    from offset_accepted_once [OF st(4,2) this st(5)] eq show ?thesis by simp
  next
    case (Cons x xs')
    with st(3) Cons.prems(4) have "as = xs' @ (Chars off b, Accepted) # ys" by simp
    from Cons.IH [OF st(4,2,5) this] show ?thesis .
  qed
qed

end

end
