(* ===== verification/Session.thy ===== *)
theory Session
  imports InputLog
begin

text \<open>
  internal/core/session: the life cycle of an execution session (state.go), the in-memory input
  ledger (input.go) and the kill ledger (kill.go).
\<close>

section \<open>Session states (state.go)\<close>

text \<open>
  \<open>State\<close> and \<open>Outcome\<close> are string types with named constants; any other string is
  \<open>OtherState\<close> or \<open>OtherOutcome\<close>.
\<close>

datatype State =
    Starting | Running | Finalizing | Completed | Failed | TimedOut | Killed | Abandoned
  | OtherState string

datatype Outcome =
    NoOutcome | Success | FailureOutcome | Timeout | KilledOutcome | Ambiguous
  | OtherOutcome string

definition Terminal :: "State \<Rightarrow> bool" where
  "Terminal s \<longleftrightarrow>
     s = Completed \<or> s = Failed \<or> s = TimedOut \<or> s = Killed \<or> s = Abandoned"

fun CanTransition :: "State \<Rightarrow> State \<Rightarrow> bool" where
  "CanTransition Starting to \<longleftrightarrow> to = Running \<or> to = Finalizing \<or> to = Abandoned"
| "CanTransition Running to \<longleftrightarrow> to = Finalizing \<or> to = Abandoned"
| "CanTransition Finalizing to \<longleftrightarrow>
     to = Completed \<or> to = Failed \<or> to = TimedOut \<or> to = Killed \<or> to = Abandoned"
| "CanTransition _ to \<longleftrightarrow> False"

text \<open>Sequences of admitted transitions.\<close>

inductive lifecycle :: "State \<Rightarrow> State list \<Rightarrow> State \<Rightarrow> bool" where
  lifecycle_nil: "lifecycle s [] s"
| lifecycle_cons: "CanTransition s t \<Longrightarrow> lifecycle t ts u \<Longrightarrow> lifecycle s (t # ts) u"

inductive_cases lifecycle_NilE [elim!]: "lifecycle s [] u"
inductive_cases lifecycle_ConsE [elim!]: "lifecycle s (t # ts) u"

text \<open>How many transitions a state can still make.\<close>

fun remaining :: "State \<Rightarrow> nat" where
  "remaining Starting = 3"
| "remaining Running = 2"
| "remaining Finalizing = 1"
| "remaining _ = 0"

lemma CanTransition_remaining: "CanTransition s t \<Longrightarrow> remaining t < remaining s"
  by (cases s) auto

lemma lifecycle_length: "lifecycle s ts u \<Longrightarrow> length ts + remaining u \<le> remaining s"
  by (induction rule: lifecycle.induct) (auto dest: CanTransition_remaining)

lemma lifecycle_maximal:
  "lifecycle s ts u \<Longrightarrow> \<not> (\<exists>v. CanTransition u v) \<Longrightarrow> remaining u = 0"
  by (cases u) auto

section \<open>The input ledger (input.go)\<close>

text \<open>
  \<open>sha256.Sum256\<close> is a parameter \<open>sha\<close> of the operations that use it; a record keeps the
  digest of its bytes, never the bytes.
\<close>

record InputRecord =
  ir_Kind :: string
  ir_Offset :: int
  ir_Length :: int
  ir_Hash :: string

record InputResult =
  res_Record :: InputRecord
  res_AcceptedBytes :: int
  res_NextOffset :: int
  res_Duplicate :: bool

record InputLedger =
  il_maxQueued :: int
  il_queued :: int
  il_tty :: bool
  il_closed :: bool
  il_next :: int
  il_entries :: "int \<rightharpoonup> InputRecord"

definition zero_record :: InputRecord where
  "zero_record = \<lparr>ir_Kind = [], ir_Offset = 0, ir_Length = 0, ir_Hash = replicate 32 (CHR 0x00)\<rparr>"

definition NewInputLedger :: "int \<Rightarrow> bool \<Rightarrow> InputLedger" where
  "NewInputLedger m t = \<lparr>il_maxQueued = m, il_queued = 0, il_tty = t, il_closed = False, il_next = 0,
     il_entries = Map.empty\<rparr>"

definition only_next :: "InputLedger \<Rightarrow> InputResult" where
  "only_next l = \<lparr>res_Record = zero_record, res_AcceptedBytes = 0, res_NextOffset = il_next l,
     res_Duplicate = False\<rparr>"

definition chars_record :: "(string \<Rightarrow> string) \<Rightarrow> int \<Rightarrow> string \<Rightarrow> InputRecord" where
  "chars_record sha off b =
     \<lparr>ir_Kind = ''chars'', ir_Offset = off, ir_Length = int (length b), ir_Hash = sha b\<rparr>"

definition eof_record :: "int \<Rightarrow> InputRecord" where
  "eof_record off = zero_record\<lparr>ir_Kind := ''eof'', ir_Offset := off\<rparr>"

definition AcceptChars ::
  "(string \<Rightarrow> string) \<Rightarrow> InputLedger \<Rightarrow> int \<Rightarrow> string
     \<Rightarrow> InputResult \<times> goerr option \<times> InputLedger" where
  "AcceptChars sha l off b =
     (if il_closed l then (only_next l, Some (Errorf ''input_closed''), l)
      else if b = [] then (only_next l, Some (Errorf ''empty input''), l)
      else let rec = chars_record sha off b in
        case il_entries l off of
          Some old \<Rightarrow>
            if old = rec
            then (\<lparr>res_Record = old, res_AcceptedBytes = 0, res_NextOffset = il_next l,
                   res_Duplicate = True\<rparr>, None, l)
            else (only_next l, Some (Errorf ''input_conflict''), l)
        | None \<Rightarrow>
            if off < il_next l then (only_next l, Some (Errorf ''input_conflict''), l)
            else if off > il_next l then (only_next l, Some (Errorf ''input_gap''), l)
            else if int64 (il_queued l + int (length b)) > il_maxQueued l
            then (only_next l, Some (Errorf ''input_backpressure''), l)
            else let l' = l\<lparr>il_entries := (il_entries l)(off \<mapsto> rec),
                            il_next := int64 (il_next l + int (length b)),
                            il_queued := int64 (il_queued l + int (length b))\<rparr>
              in (\<lparr>res_Record = rec, res_AcceptedBytes = int (length b),
                   res_NextOffset = il_next l', res_Duplicate = False\<rparr>, None, l'))"

definition AcceptEOF ::
  "InputLedger \<Rightarrow> int \<Rightarrow> InputResult \<times> goerr option \<times> InputLedger" where
  "AcceptEOF l off =
     (if il_tty l then (only_next l, Some (Errorf ''input_eof_unsupported''), l)
      else let rec = eof_record off in
        if il_entries l off = Some rec
        then (\<lparr>res_Record = rec, res_AcceptedBytes = 0, res_NextOffset = il_next l,
               res_Duplicate = True\<rparr>, None, l)
        else if il_closed l then (only_next l, Some (Errorf ''input_closed''), l)
        else if off < il_next l then (only_next l, Some (Errorf ''input_conflict''), l)
        else if off > il_next l then (only_next l, Some (Errorf ''input_gap''), l)
        else let l' = l\<lparr>il_entries := (il_entries l)(off \<mapsto> rec), il_closed := True\<rparr>
          in (\<lparr>res_Record = rec, res_AcceptedBytes = 0, res_NextOffset = il_next l',
               res_Duplicate = False\<rparr>, None, l'))"

definition Delivered :: "InputLedger \<Rightarrow> int \<Rightarrow> InputLedger" where
  "Delivered l n = (let q = int64 (il_queued l - n) in l\<lparr>il_queued := (if q < 0 then 0 else q)\<rparr>)"

lemmas ledger_defs = AcceptChars_def AcceptEOF_def only_next_def Let_def

text \<open>Verdicts of the ledger, and the chunk sequence a ledger represents.\<close>

definition verdict :: "InputResult \<Rightarrow> goerr option \<Rightarrow> admission" where
  "verdict r e = (if e \<noteq> None then Refused else if res_Duplicate r then Duplicate else Accepted)"

definition session_submit ::
  "(string \<Rightarrow> string) \<Rightarrow> InputLedger \<Rightarrow> request \<Rightarrow> admission \<times> InputLedger" where
  "session_submit sha l r =
     (case r of
        Chars off b \<Rightarrow> (case AcceptChars sha l off b of (res, e, l') \<Rightarrow> (verdict res e, l'))
      | Eof off \<Rightarrow> (case AcceptEOF l off of (res, e, l') \<Rightarrow> (verdict res e, l')))"

definition entry_at ::
  "(string \<Rightarrow> string) \<Rightarrow> string list \<Rightarrow> bool \<Rightarrow> int \<Rightarrow> InputRecord option" where
  "entry_at sha log c off =
     (case map_of (place 0 log) off of
        Some b \<Rightarrow> Some (chars_record sha off b)
      | None \<Rightarrow> if c \<and> off = total_bytes log then Some (eof_record off) else None)"

definition session_rep ::
  "(string \<Rightarrow> string) \<Rightarrow> InputLedger \<Rightarrow> string list \<Rightarrow> bool \<Rightarrow> bool" where
  "session_rep sha l log c \<longleftrightarrow> [] \<notin> set log \<and> total_bytes log < 2 ^ 63 \<and>
     il_next l = total_bytes log \<and> il_closed l = c \<and> il_entries l = entry_at sha log c"

lemma entry_at_snoc:
  "[] \<notin> set log \<Longrightarrow> (entry_at sha log False)(total_bytes log \<mapsto> chars_record sha (total_bytes log) b)
     = entry_at sha (log @ [b]) False"
  by (rule ext) (simp add: entry_at_def map_of_place_snoc)

lemma entry_at_close:
  "[] \<notin> set log \<Longrightarrow> (entry_at sha log False)(total_bytes log \<mapsto> eof_record (total_bytes log))
     = entry_at sha log True"
  by (rule ext) (simp add: entry_at_def map_of_place_total split: option.splits)

lemma AcceptChars_accepted:
  assumes "AcceptChars sha l off b = (r, None, l')" "\<not> res_Duplicate r"
  shows "\<not> il_closed l \<and> b \<noteq> [] \<and> off = il_next l \<and> il_entries l off = None \<and>
    int64 (il_queued l + int (length b)) \<le> il_maxQueued l \<and>
    l' = l\<lparr>il_entries := (il_entries l)(off \<mapsto> chars_record sha off b),
           il_next := int64 (il_next l + int (length b)),
           il_queued := int64 (il_queued l + int (length b))\<rparr>"
  using assms by (auto simp: ledger_defs split: if_splits option.splits)

lemma AcceptEOF_accepted:
  assumes "AcceptEOF l off = (r, None, l')" "\<not> res_Duplicate r"
  shows "\<not> il_tty l \<and> \<not> il_closed l \<and> off = il_next l \<and>
    l' = l\<lparr>il_entries := (il_entries l)(off \<mapsto> eof_record off), il_closed := True\<rparr>"
  using assms by (auto simp: ledger_defs split: if_splits)

lemma AcceptChars_unchanged:
  "AcceptChars sha l off b = (r, e, l') \<Longrightarrow> e \<noteq> None \<or> res_Duplicate r \<Longrightarrow> l' = l"
  by (auto simp: ledger_defs split: if_splits option.splits)

lemma AcceptEOF_unchanged:
  "AcceptEOF l off = (r, e, l') \<Longrightarrow> e \<noteq> None \<or> res_Duplicate r \<Longrightarrow> l' = l"
  by (auto simp: ledger_defs split: if_splits)

lemma verdict_Accepted [simp]: "verdict r e = Accepted \<longleftrightarrow> e = None \<and> \<not> res_Duplicate r"
  by (simp add: verdict_def)

lemma Accepted_verdict [simp]: "Accepted = verdict r e \<longleftrightarrow> e = None \<and> \<not> res_Duplicate r"
  by (auto simp: verdict_def)

interpretation session_log: input_log "session_submit sha" "session_rep sha" for sha
proof
  fix l log c b off l'
  assume rep: "session_rep sha l log c" and room: "total_bytes log + int (length b) < 2 ^ 63"
    and "session_submit sha l (Chars off b) = (Accepted, l')"
  then obtain r where "AcceptChars sha l off b = (r, None, l')" "\<not> res_Duplicate r"
    by (auto simp: session_submit_def split: prod.splits)
  note a = AcceptChars_accepted [OF this]
  have "int64 (total_bytes log + int (length b)) = total_bytes log + int (length b)"
    using room total_bytes_nonneg [of log] by (intro int64_id) simp_all
  then show "\<not> c \<and> off = total_bytes log \<and> b \<noteq> [] \<and> session_rep sha l' (log @ [b]) False"
    using rep a room by (auto simp: session_rep_def entry_at_snoc)
next
  fix l log c off l'
  assume rep: "session_rep sha l log c" and "session_submit sha l (Eof off) = (Accepted, l')"
  then obtain r where "AcceptEOF l off = (r, None, l')" "\<not> res_Duplicate r"
    by (auto simp: session_submit_def split: prod.splits)
  from AcceptEOF_accepted [OF this]
  show "\<not> c \<and> off = total_bytes log \<and> session_rep sha l' log True"
    using rep by (auto simp: session_rep_def entry_at_close)
next
  fix l log c r a l'
  assume "session_submit sha l r = (a, l')" "a \<noteq> Accepted"
  then show "l' = l"
    by (cases r) (auto simp: session_submit_def split: prod.splits
      dest: AcceptChars_unchanged AcceptEOF_unchanged)
qed

lemma session_rep_new: "session_rep sha (NewInputLedger m t) [] False"
  by (auto simp: session_rep_def NewInputLedger_def entry_at_def)

text \<open>An accepted chunk is recognised again as long as the input is open.\<close>

lemma AcceptChars_retry:
  assumes "session_rep sha l log False" "(off, b) \<in> set (place 0 log)"
  shows "\<exists>r. AcceptChars sha l off b = (r, None, l) \<and> res_Duplicate r \<and>
    res_Record r = chars_record sha off b \<and> res_NextOffset r = il_next l"
proof -
  have "b \<in> set (map snd (place 0 log))" using assms(2) by force
  then have ne: "b \<noteq> []" using assms(1) unfolding snd_place session_rep_def by auto
  have "map_of (place 0 log) off = Some b"
    using assms by (auto simp: session_rep_def intro: place_map_of)
  then show ?thesis
    using assms(1) ne by (auto simp: ledger_defs session_rep_def entry_at_def)
qed

section \<open>The kill ledger (kill.go)\<close>

record KillAttempt =
  ka_ID :: string
  ka_Signal :: string
  ka_Attempted :: bool
  ka_Succeeded :: bool
  ka_Needed :: bool

type_synonym KillLedger = "string \<rightharpoonup> KillAttempt"

definition zero_attempt :: KillAttempt where
  "zero_attempt = \<lparr>ka_ID = [], ka_Signal = [], ka_Attempted = False, ka_Succeeded = False,
     ka_Needed = False\<rparr>"

definition Admit ::
  "KillLedger \<Rightarrow> string \<Rightarrow> string \<Rightarrow> bool
     \<Rightarrow> (KillAttempt \<times> bool \<times> goerr option) \<times> KillLedger" where
  "Admit l i sig terminal =
     (if i = [] then ((zero_attempt, False, Some (Errorf ''invalid kill_id'')), l)
      else if sig \<noteq> ''INT'' \<and> sig \<noteq> ''TERM'' \<and> sig \<noteq> ''KILL''
      then ((zero_attempt, False, Some (Errorf ''invalid signal'')), l)
      else case l i of
          Some old \<Rightarrow>
            if ka_Signal old \<noteq> sig
            then ((zero_attempt, False, Some (Errorf ''kill_conflict'')), l)
            else ((old, False, None), l)
        | None \<Rightarrow>
            let a = \<lparr>ka_ID = i, ka_Signal = sig, ka_Attempted = False, ka_Succeeded = False,
                     ka_Needed = \<not> terminal\<rparr>
            in ((a, \<not> terminal, None), l(i \<mapsto> a)))"

definition Record :: "KillLedger \<Rightarrow> KillAttempt \<Rightarrow> KillLedger" where
  "Record l a = l(ka_ID a \<mapsto> a)"

text \<open>A run of the kill ledger: the identifiers whose signal the caller is told to send.\<close>

datatype kill_event = AdmitKill string string bool | RecordKill KillAttempt

fun kill_step :: "KillLedger \<Rightarrow> kill_event \<Rightarrow> string list \<times> KillLedger" where
  "kill_step l (AdmitKill i sig terminal) =
     (case Admit l i sig terminal of ((a, send, e), l') \<Rightarrow> (if send then [i] else [], l'))"
| "kill_step l (RecordKill a) = ([], Record l a)"

fun kill_run :: "KillLedger \<Rightarrow> kill_event list \<Rightarrow> string list" where
  "kill_run l [] = []"
| "kill_run l (ev # evs) = (case kill_step l ev of (is, l') \<Rightarrow> is @ kill_run l' evs)"

lemma Admit_send:
  "Admit l i sig terminal = ((a, True, e), l') \<Longrightarrow>
    l i = None \<and> \<not> terminal \<and> e = None \<and> ka_Needed a \<and> ka_Signal a = sig \<and> l' = l(i \<mapsto> a)"
  by (auto simp: Admit_def Let_def split: if_splits option.splits)

lemma Admit_dom: "Admit l i sig terminal = (r, l') \<Longrightarrow> dom l \<subseteq> dom l'"
  by (auto simp: Admit_def Let_def split: if_splits option.splits)

lemma kill_step_props:
  assumes "kill_step l ev = (is, l')"
  shows "dom l \<subseteq> dom l'" "distinct is" "set is \<inter> dom l = {}" "set is \<subseteq> dom l'"
  using assms by (cases ev; auto split: prod.splits if_splits
    dest: Admit_send Admit_dom simp: Record_def)+

lemma kill_run_fresh: "distinct (kill_run l evs) \<and> set (kill_run l evs) \<inter> dom l = {}"
proof (induction evs arbitrary: l)
  case (Cons ev evs)
  obtain "is" l' where s: "kill_step l ev = (is, l')" by fastforce
  note k = kill_step_props [OF s] and ih = Cons.IH [of l']
  from k ih have "distinct (is @ kill_run l' evs)" by auto
  moreover from k ih have "set (is @ kill_run l' evs) \<inter> dom l = {}"
    unfolding set_append by blast
  ultimately show ?case using s by simp
qed simp

section \<open>Bounds of the input queue\<close>

definition queue_ok :: "InputLedger \<Rightarrow> bool" where
  "queue_ok l \<longleftrightarrow> 0 \<le> il_queued l \<and> il_queued l \<le> il_maxQueued l"

lemma AcceptChars_queue:
  assumes "queue_ok l" "il_maxQueued l + int (length b) < 2 ^ 63"
    and "AcceptChars sha l off b = (r, e, l')"
  shows "queue_ok l' \<and> il_maxQueued l' = il_maxQueued l"
proof (cases "e = None \<and> \<not> res_Duplicate r")
  case True
  with assms(3) have a: "AcceptChars sha l off b = (r, None, l')" "\<not> res_Duplicate r" by auto
  have "int64 (il_queued l + int (length b)) = il_queued l + int (length b)"
    using assms(1,2) by (intro int64_id) (auto simp: queue_ok_def)
  with AcceptChars_accepted [OF a] assms(1) show ?thesis by (auto simp: queue_ok_def)
next
  case False
  with AcceptChars_unchanged assms(3) have "l' = l" by blast
  with assms(1) show ?thesis by simp
qed

lemma Delivered_queue:
  assumes "queue_ok l" "il_maxQueued l < 2 ^ 63" "0 \<le> n" "n < 2 ^ 63"
  shows "queue_ok (Delivered l n)"
proof -
  have "int64 (il_queued l - n) = il_queued l - n"
    using assms by (intro int64_id) (auto simp: queue_ok_def)
  with assms show ?thesis by (auto simp: queue_ok_def Delivered_def Let_def)
qed

section \<open>Properties\<close>




definition retry_requests :: "request list" where
  "retry_requests = [Chars 0 ''ab'', Chars 0 ''ab'', Chars 5 ''x'', Chars 2 ''c'', Eof 3, Chars 3 ''d'']"


text \<open>
  The kill ledger tells its caller to send a signal at most once per kill identifier: over
  any interleaving of admissions (retries included) and recorded results, the identifiers to be
  signalled are pairwise distinct and none of them was already known to the ledger.
\<close>

theorem kill_signal_at_most_once:
  "distinct (kill_run l evs) \<and> (\<forall>i\<in>set (kill_run l evs). l i = None)"
  using kill_run_fresh [of l evs] by (auto simp: dom_def)

theorem kill_signal_at_most_once_witness:
  "kill_run Map.empty [AdmitKill ''k1'' ''TERM'' False, AdmitKill ''k1'' ''TERM'' False,
     AdmitKill ''k2'' ''KILL'' True, AdmitKill ''k3'' ''HUP'' False] = [''k1''] \<and>
   distinct (kill_run Map.empty [AdmitKill ''k1'' ''TERM'' False, AdmitKill ''k1'' ''TERM'' False,
     AdmitKill ''k2'' ''KILL'' True, AdmitKill ''k3'' ''HUP'' False])"
  using kill_signal_at_most_once [of Map.empty "[AdmitKill ''k1'' ''TERM'' False,
     AdmitKill ''k1'' ''TERM'' False, AdmitKill ''k2'' ''KILL'' True, AdmitKill ''k3'' ''HUP'' False]"]
  by (simp add: Admit_def Let_def)

end
