(* ===== verification/GoText.thy ===== *)
theory GoText
  imports Prelude
begin

text \<open>
  The part of Go's text handling the sources use: ranging over the runes of a byte string
  (\<open>for _, r := range s\<close>: an invalid byte reads as U+FFFD and advances by one), the encoding
  \<open>string(runes)\<close>, \<open>unicode.IsControl\<close>, \<open>unicode.IsSpace\<close> and \<open>strings.TrimSpace\<close>.
\<close>

section \<open>UTF-8\<close>

definition cont :: "nat \<Rightarrow> bool" where
  "cont b \<longleftrightarrow> 0x80 \<le> b \<and> b \<le> 0xBF"

text \<open>Ranges admitted for the second byte after a given first byte (utf8.acceptRanges).\<close>

definition second3 :: "nat \<Rightarrow> nat \<Rightarrow> bool" where
  "second3 b0 b1 \<longleftrightarrow> cont b1 \<and> (b0 = 0xE0 \<longrightarrow> 0xA0 \<le> b1) \<and> (b0 = 0xED \<longrightarrow> b1 \<le> 0x9F)"

definition second4 :: "nat \<Rightarrow> nat \<Rightarrow> bool" where
  "second4 b0 b1 \<longleftrightarrow> cont b1 \<and> (b0 = 0xF0 \<longrightarrow> 0x90 \<le> b1) \<and> (b0 = 0xF4 \<longrightarrow> b1 \<le> 0x8F)"

definition RuneError :: nat where
  "RuneError = 0xFFFD"

text \<open>\<open>utf8.DecodeRune\<close>: the rune at the front and the number of bytes it takes.\<close>

fun decode_rune :: "nat list \<Rightarrow> nat \<times> nat" where
  "decode_rune [] = (RuneError, 0)"
| "decode_rune (b0 # bs) =
     (if b0 < 0x80 then (b0, 1)
      else if 0xC2 \<le> b0 \<and> b0 \<le> 0xDF then
        (case bs of
           b1 # _ \<Rightarrow> if cont b1 then ((b0 - 0xC0) * 64 + (b1 - 0x80), 2) else (RuneError, 1)
         | [] \<Rightarrow> (RuneError, 1))
      else if 0xE0 \<le> b0 \<and> b0 \<le> 0xEF then
        (case bs of
           b1 # b2 # _ \<Rightarrow>
             if second3 b0 b1 \<and> cont b2
             then ((b0 - 0xE0) * 4096 + (b1 - 0x80) * 64 + (b2 - 0x80), 3) else (RuneError, 1)
         | _ \<Rightarrow> (RuneError, 1))
      else if 0xF0 \<le> b0 \<and> b0 \<le> 0xF4 then
        (case bs of
           b1 # b2 # b3 # _ \<Rightarrow>
             if second4 b0 b1 \<and> cont b2 \<and> cont b3
             then ((b0 - 0xF0) * 262144 + (b1 - 0x80) * 4096 + (b2 - 0x80) * 64 + (b3 - 0x80), 4)
             else (RuneError, 1)
         | _ \<Rightarrow> (RuneError, 1))
      else (RuneError, 1))"

function runes_of :: "nat list \<Rightarrow> nat list" where
  "runes_of [] = []"
| "runes_of (b # bs) =
     (let (r, w) = decode_rune (b # bs) in r # runes_of (drop (w - 1) bs))"
  by pat_completeness auto
termination
  by (relation "measure length") auto

definition runes :: "string \<Rightarrow> nat list" where
  "runes s = runes_of (map of_char s)"

definition encode_rune :: "nat \<Rightarrow> nat list" where
  "encode_rune r =
     (if r < 0x80 then [r]
      else if r < 0x800 then [0xC0 + r div 64, 0x80 + r mod 64]
      else if 0xD800 \<le> r \<and> r \<le> 0xDFFF \<or> 0x10FFFF < r then [0xEF, 0xBF, 0xBD]
      else if r < 0x10000 then [0xE0 + r div 4096, 0x80 + (r div 64) mod 64, 0x80 + r mod 64]
      else [0xF0 + r div 262144, 0x80 + (r div 4096) mod 64, 0x80 + (r div 64) mod 64,
            0x80 + r mod 64])"

definition string_of_runes :: "nat list \<Rightarrow> string" where
  "string_of_runes rs = map char_of (concat (map encode_rune rs))"

text \<open>Unicode scalar values: what ranging over a string can produce.\<close>

definition scalar :: "nat \<Rightarrow> bool" where
  "scalar r \<longleftrightarrow> r < 0xD800 \<or> (0xE000 \<le> r \<and> r \<le> 0x10FFFF)"

lemma encode_rune_bytes: "b \<in> set (encode_rune r) \<Longrightarrow> b < 256"
  by (auto simp: encode_rune_def split: if_splits)

lemma div_64_64: "r div 64 = (r div 4096) * 64 + (r div 64) mod (64::nat)"
  using div_mult2_eq [of r 64 64] div_mult_mod_eq [of "r div 64" 64] by simp

lemma decode_encode_rune:
  assumes "scalar r"
  shows "decode_rune (encode_rune r @ rest) = (r, length (encode_rune r))"
proof -
  consider "r < 0x80" | "0x80 \<le> r" "r < 0x800" | "0x800 \<le> r" "r < 0x10000" | "0x10000 \<le> r"
    by linarith
  then show ?thesis
  proof cases
    case 1
    then show ?thesis by (simp add: encode_rune_def)
  next
    case 2
    define q m where "q = r div 64" and "m = r mod 64"
    have r: "r = q * 64 + m" "m < 64" "2 \<le> q" "q < 32"
      using 2 by (auto simp: q_def m_def less_mult_imp_div_less)
    have e: "encode_rune r = [0xC0 + q, 0x80 + m]"
      using 2 by (simp add: encode_rune_def q_def m_def)
    show ?thesis unfolding e using r by (simp add: cont_def)
  next
    case 3
    define a b c where "a = r div 4096" and "b = (r div 64) mod 64" and "c = r mod 64"
    have q: "r div 64 = a * 64 + b" using div_64_64 [of r] by (simp add: a_def b_def)
    have r: "r = a * 4096 + b * 64 + c" using q div_mult_mod_eq [of r 64] by (simp add: c_def)
    have bd: "b < 64" "c < 64" "a < 16" using 3 by (auto simp: a_def b_def c_def less_mult_imp_div_less)
    have e: "encode_rune r = [0xE0 + a, 0x80 + b, 0x80 + c]"
      using 3 assms by (auto simp: encode_rune_def scalar_def a_def b_def c_def)
    have "second3 (0xE0 + a) (0x80 + b)"
      using r bd 3 assms by (auto simp: second3_def cont_def scalar_def)
    then show ?thesis unfolding e using bd r by (simp add: cont_def)
  next
    case 4
    define a b c d where "a = r div 262144" and "b = (r div 4096) mod 64"
      and "c = (r div 64) mod 64" and "d = r mod 64"
    have p: "r div 4096 = a * 64 + b" using div_64_64 [of "r div 64"]
      by (simp add: a_def b_def div_mult2_eq [symmetric])
    have q: "r div 64 = (r div 4096) * 64 + c" using div_64_64 [of r] by (simp add: c_def)
    have r: "r = a * 262144 + b * 4096 + c * 64 + d"
      using p q div_mult_mod_eq [of r 64] by (simp add: d_def)
    have bd: "b < 64" "c < 64" "d < 64" "a < 5"
      using assms by (auto simp: a_def b_def c_def d_def scalar_def less_mult_imp_div_less)
    have e: "encode_rune r = [0xF0 + a, 0x80 + b, 0x80 + c, 0x80 + d]"
      using 4 assms by (simp add: encode_rune_def scalar_def a_def b_def c_def d_def)
    have "second4 (0xF0 + a) (0x80 + b)"
      using r bd 4 assms by (auto simp: second4_def cont_def scalar_def)
    then show ?thesis unfolding e using bd r by (simp add: cont_def)
  qed
qed

lemma encode_rune_ne: "encode_rune r \<noteq> []"
  by (simp add: encode_rune_def)

lemma runes_of_encode:
  "list_all scalar rs \<Longrightarrow> runes_of (concat (map encode_rune rs)) = rs"
proof (induction rs)
  case (Cons r rs)
  obtain b bs where e: "encode_rune r = b # bs" using encode_rune_ne by (cases "encode_rune r") auto
  have "decode_rune (b # bs @ concat (map encode_rune rs)) = (r, Suc (length bs))"
    using decode_encode_rune [of r "concat (map encode_rune rs)"] Cons.prems e by simp
  then show ?case using Cons e by simp
qed simp

text \<open>Encoding scalar values and ranging over the result gives them back.\<close>

lemma runes_string_of_runes: "list_all scalar rs \<Longrightarrow> runes (string_of_runes rs) = rs"
proof -
  assume s: "list_all scalar rs"
  have "map (of_char \<circ> (char_of :: nat \<Rightarrow> char)) (concat (map encode_rune rs))
      = concat (map encode_rune rs)"
    by (rule map_idI) (auto dest: encode_rune_bytes)
  then show ?thesis using runes_of_encode [OF s] by (simp add: runes_def string_of_runes_def)
qed

lemma scalar3: "x \<le> 12 \<or> x = 13 \<and> y < 32 \<or> 14 \<le> x \<Longrightarrow> x < 16 \<Longrightarrow> y < 64 \<Longrightarrow> z < 64 \<Longrightarrow>
    scalar (x * 4096 + y * 64 + z)"
  unfolding scalar_def by linarith

lemma scalar4: "x = 0 \<and> 16 \<le> y \<or> 1 \<le> x \<and> x \<le> 3 \<or> x = 4 \<and> y < 16 \<Longrightarrow> y < 64 \<Longrightarrow> z < 64 \<Longrightarrow>
    w < 64 \<Longrightarrow> scalar (x * 262144 + y * 4096 + z * 64 + w)"
  unfolding scalar_def by linarith

lemma second3_scalar:
  assumes "0xE0 \<le> b0" "b0 \<le> 0xEF" "second3 b0 b1" "cont b2"
  shows "scalar ((b0 - 0xE0) * 4096 + (b1 - 0x80) * 64 + (b2 - 0x80))"
  using assms by (intro scalar3) (auto simp: second3_def cont_def)

lemma second4_scalar:
  assumes "0xF0 \<le> b0" "b0 \<le> 0xF4" "second4 b0 b1" "cont b2" "cont b3"
  shows "scalar ((b0 - 0xF0) * 262144 + (b1 - 0x80) * 4096 + (b2 - 0x80) * 64 + (b3 - 0x80))"
  using assms by (intro scalar4) (auto simp: second4_def cont_def)

lemma decode_rune_scalar: "scalar (fst (decode_rune bs))"
proof (cases bs)
  case Nil
  then show ?thesis by (simp add: scalar_def RuneError_def)
next
  case (Cons b0 cs)
  have err: "scalar RuneError" by (simp add: scalar_def RuneError_def)
  have two: "scalar ((b0 - 0xC0) * 64 + (b1 - 0x80))" if "b0 \<le> 0xDF" "cont b1" for b1
    using that by (auto simp: scalar_def cont_def)
  show ?thesis
  proof (cases "b0 < 0x80")
    case True
    then show ?thesis using Cons by (simp add: scalar_def)
  next
    case False
    then show ?thesis
      unfolding Cons decode_rune.simps
      by (simp add: err two second3_scalar second4_scalar del: One_nat_def split: list.split)
  qed
qed

lemma runes_of_scalar: "list_all scalar (runes_of bs)"
proof (induction bs rule: runes_of.induct)
  case (2 b bs)
  then show ?case using decode_rune_scalar [of "b # bs"] by (auto split: prod.splits)
qed simp

lemma runes_scalar: "list_all scalar (runes s)"
  by (simp add: runes_def runes_of_scalar)

section \<open>Control characters and white space\<close>

definition IsControl :: "nat \<Rightarrow> bool" where
  "IsControl r \<longleftrightarrow> r < 0x20 \<or> (0x7F \<le> r \<and> r < 0xA0)"

definition IsSpace :: "nat \<Rightarrow> bool" where
  "IsSpace r \<longleftrightarrow> (9 \<le> r \<and> r \<le> 13) \<or> r = 0x20 \<or> r = 0x85 \<or> r = 0xA0 \<or> r = 0x1680 \<or>
     (0x2000 \<le> r \<and> r \<le> 0x200A) \<or> r = 0x2028 \<or> r = 0x2029 \<or> r = 0x202F \<or> r = 0x205F \<or> r = 0x3000"

text \<open>\<open>strings.TrimSpace\<close>, on the runes of the string.\<close>

definition trim_runes :: "nat list \<Rightarrow> nat list" where
  "trim_runes rs = rev (dropWhile IsSpace (rev (dropWhile IsSpace rs)))"

lemma set_trim_runes: "set (trim_runes rs) \<subseteq> set rs"
  by (auto simp: trim_runes_def dest!: set_dropWhileD)

end
