(* ===== verification/Failure.thy ===== *)
theory Failure
  imports GoText
begin

text \<open>
  internal/core/failure/failure.go: the stable public failure codes, the table of public facts
  about them, and the projection of arbitrary errors onto that table.  Only the details a code
  allows, cleaned and bounded, ever leave the process.
\<close>

section \<open>Codes and their public facts\<close>

record publicSpec =
  ps_message :: string
  ps_retryable :: bool
  ps_details :: "string list"

text \<open>The code constants, in the order of the source.\<close>

definition codes :: "string list" where
  "codes = [
    ''invalid_input'',
    ''feature_unavailable'',
    ''operation_conflict'',
    ''operation_metadata_conflict'',
    ''workspace_not_found'',
    ''decision_context_unavailable'',
    ''decision_episode_not_found'',
    ''decision_candidate_not_found'',
    ''decision_experiment_not_found'',
    ''decision_protocol_rejected'',
    ''workspace_stale'',
    ''workspace_root_missing'',
    ''activity_not_found'',
    ''workspace_address_escape'',
    ''manifest_invalid'',
    ''manifest_review_required'',
    ''project_readiness_unavailable'',
    ''project_requirement_invalid'',
    ''toolchain_missing'',
    ''toolchain_version_unknown'',
    ''toolchain_incompatible'',
    ''project_command_not_found'',
    ''project_command_not_parameterized'',
    ''parameter_unknown'',
    ''parameter_missing'',
    ''parameter_invalid'',
    ''parameter_kind_unsupported'',
    ''parameter_validation_unavailable'',
    ''project_command_binding_conflict'',
    ''output_compacted'',
    ''output_unavailable'',
    ''output_out_of_range'',
    ''output_continuation_invalid'',
    ''output_continuation_expired'',
    ''identity_observation_failed'',
    ''event_cursor_invalid'',
    ''event_cursor_expired'',
    ''evidence_cursor_invalid'',
    ''evidence_cursor_expired'',
    ''event_continuity_unavailable'',
    ''structured_adapter_unavailable'',
    ''structured_adapter_unsupported'',
    ''structured_result_malformed'',
    ''structured_result_partial'',
    ''structured_result_budget_exceeded'',
    ''structured_result_not_found'',
    ''telemetry_unavailable'',
    ''telemetry_partial'',
    ''telemetry_budget_exceeded'',
    ''telemetry_incompatible_history'',
    ''resource_observation_unavailable'',
    ''resource_observation_partial'',
    ''resource_limit_unsupported'',
    ''repro_not_found'',
    ''repro_materialization_unavailable'',
    ''repro_source_unavailable'',
    ''repro_reference_compacted'',
    ''environment_observation_unavailable'',
    ''toolchain_probe_unavailable'',
    ''toolchain_probe_timeout'',
    ''toolchain_probe_unsupported'',
    ''process_not_found'',
    ''process_access_denied'',
    ''process_identity_changed'',
    ''process_observation_incomplete'',
    ''process_limit_exceeded'',
    ''port_observation_unavailable'',
    ''mutation_scope_invalid'',
    ''mutation_scope_binding_conflict'',
    ''mutation_metadata_conflict'',
    ''mutation_scope_capacity_exceeded'',
    ''persistent_session_name_conflict'',
    ''persistent_session_ownership_lost'',
    ''supervisor_unavailable'',
    ''supervisor_protocol_mismatch'',
    ''supervisor_auth_failed'',
    ''supervisor_state_conflict'',
    ''persistent_recovery_output_conflict'',
    ''persistent_history_exhausted'',
    ''persistent_input_history_exhausted'',
    ''persistent_kill_history_exhausted'',
    ''persistence_ambiguous'',
    ''stale_control_generation'',
    ''session_control_not_owned'',
    ''delegated_session_unavailable'',
    ''delegated_provider_lost'',
    ''delegated_provider_mismatch'',
    ''delegated_reconcile_blocked'',
    ''handoff_conflict'',
    ''handoff_not_pending'',
    ''handoff_expired'',
    ''handoff_client_lost'',
    ''handoff_reclaim_blocked'',
    ''terminal_launcher_unavailable'',
    ''terminal_launch_failed'',
    ''terminal_launch_unknown'',
    ''terminal_identity_ambiguous'',
    ''human_control_unreachable'',
    ''human_client_not_proven'',
    ''private_output_barrier_failed'',
    ''privacy_release_unproven'',
    ''shell_integration_unavailable'',
    ''shell_integration_lost'',
    ''requirement_unsupported'',
    ''requirement_not_satisfied'',
    ''shell_identity_changed'',
    ''context_exec_unavailable'',
    ''context_exec_stale_generation'',
    ''context_exec_not_agent_owned'',
    ''context_exec_privacy_blocked'',
    ''context_exec_boundary_unproven'',
    ''context_helper_auth_failed'',
    ''context_helper_lost'',
    ''context_exec_ambiguous'',
    ''invalid_daemon_response'',
    ''runtime_version_mismatch'',
    ''media_path_not_found'',
    ''media_path_unsafe'',
    ''media_not_regular'',
    ''media_too_large'',
    ''media_type_unsupported'',
    ''media_invalid_image'',
    ''media_dimensions_exceeded'',
    ''media_source_changed'',
    ''media_read_timeout'',
    ''media_read_failed'',
    ''capacity_exceeded'',
    ''session_not_found'',
    ''persistence_unavailable'',
    ''storage_reserve_exhausted'',
    ''internal'',
    ''checkpoint_provider_unavailable'',
    ''checkpoint_create_conflict'',
    ''checkpoint_scope_invalid'',
    ''checkpoint_scope_too_large'',
    ''checkpoint_path_unsupported'',
    ''checkpoint_submodule_boundary_unsupported'',
    ''checkpoint_budget_exceeded'',
    ''checkpoint_not_found'',
    ''checkpoint_expired'',
    ''checkpoint_restore_request_conflict'',
    ''checkpoint_restore_conflict'',
    ''checkpoint_restore_partial'',
    ''checkpoint_restore_failed'',
    ''input_trace_provider_unavailable'',
    ''input_trace_required_unavailable'',
    ''input_trace_startup_budget_exceeded'',
    ''input_trace_unsupported'',
    ''input_trace_partial'',
    ''input_trace_budget_exceeded'',
    ''input_trace_late_attach'',
    ''input_trace_ownership_lost'',
    ''input_trace_not_found'']"

abbreviation InvalidInput :: string where
  "InvalidInput \<equiv> ''invalid_input''"

abbreviation FeatureUnavailable :: string where
  "FeatureUnavailable \<equiv> ''feature_unavailable''"

abbreviation OperationConflict :: string where
  "OperationConflict \<equiv> ''operation_conflict''"

abbreviation OperationMetadataConflict :: string where
  "OperationMetadataConflict \<equiv> ''operation_metadata_conflict''"

abbreviation CapacityExceeded :: string where
  "CapacityExceeded \<equiv> ''capacity_exceeded''"

abbreviation SessionNotFound :: string where
  "SessionNotFound \<equiv> ''session_not_found''"

abbreviation PersistenceUnavailable :: string where
  "PersistenceUnavailable \<equiv> ''persistence_unavailable''"

abbreviation StorageReserveExhausted :: string where
  "StorageReserveExhausted \<equiv> ''storage_reserve_exhausted''"

abbreviation Internal :: string where
  "Internal \<equiv> ''internal''"

abbreviation PersistentInputHistoryExhausted :: string where
  "PersistentInputHistoryExhausted \<equiv> ''persistent_input_history_exhausted''"

abbreviation PersistentKillHistoryExhausted :: string where
  "PersistentKillHistoryExhausted \<equiv> ''persistent_kill_history_exhausted''"

abbreviation StaleControlGeneration :: string where
  "StaleControlGeneration \<equiv> ''stale_control_generation''"

abbreviation SessionControlNotOwned :: string where
  "SessionControlNotOwned \<equiv> ''session_control_not_owned''"

abbreviation DelegatedProviderMismatch :: string where
  "DelegatedProviderMismatch \<equiv> ''delegated_provider_mismatch''"

abbreviation DelegatedReconcileBlocked :: string where
  "DelegatedReconcileBlocked \<equiv> ''delegated_reconcile_blocked''"

abbreviation HandoffConflict :: string where
  "HandoffConflict \<equiv> ''handoff_conflict''"

abbreviation HandoffNotPending :: string where
  "HandoffNotPending \<equiv> ''handoff_not_pending''"

abbreviation HandoffExpired :: string where
  "HandoffExpired \<equiv> ''handoff_expired''"

abbreviation HandoffClientLost :: string where
  "HandoffClientLost \<equiv> ''handoff_client_lost''"

abbreviation HandoffReclaimBlocked :: string where
  "HandoffReclaimBlocked \<equiv> ''handoff_reclaim_blocked''"

abbreviation HumanClientNotProven :: string where
  "HumanClientNotProven \<equiv> ''human_client_not_proven''"

abbreviation PrivateOutputBarrierFailed :: string where
  "PrivateOutputBarrierFailed \<equiv> ''private_output_barrier_failed''"

text \<open>The table of public facts, in two halves.\<close>

definition publicSpecs_1 :: "(string \<times> publicSpec) list" where
  "publicSpecs_1 = [
    (''invalid_input'', \<lparr>ps_message = ''invalid input'', ps_retryable = False, ps_details = [''field'', ''reason'']\<rparr>),
    (''feature_unavailable'', \<lparr>ps_message = ''feature unavailable'', ps_retryable = False, ps_details = [''feature'', ''required_version'']\<rparr>),
    (''operation_conflict'', \<lparr>ps_message = ''operation conflicts with an existing intent'', ps_retryable = False, ps_details = [''operation_id'']\<rparr>),
    (''operation_metadata_conflict'', \<lparr>ps_message = ''operation metadata conflicts with existing metadata'', ps_retryable = False, ps_details = [''operation_id'', ''field'']\<rparr>),
    (''workspace_not_found'', \<lparr>ps_message = ''workspace not found'', ps_retryable = False, ps_details = [''workspace_id'']\<rparr>),
    (''decision_context_unavailable'', \<lparr>ps_message = ''decision context unavailable'', ps_retryable = False, ps_details = []\<rparr>),
    (''decision_episode_not_found'', \<lparr>ps_message = ''decision episode not found'', ps_retryable = False, ps_details = []\<rparr>),
    (''decision_candidate_not_found'', \<lparr>ps_message = ''decision candidate not found'', ps_retryable = False, ps_details = []\<rparr>),
    (''decision_experiment_not_found'', \<lparr>ps_message = ''decision experiment not found'', ps_retryable = False, ps_details = []\<rparr>),
    (''decision_protocol_rejected'', \<lparr>ps_message = ''decision protocol rejected'', ps_retryable = False, ps_details = [''reason'']\<rparr>),
    (''workspace_stale'', \<lparr>ps_message = ''workspace registration is stale'', ps_retryable = False, ps_details = [''workspace_id'', ''reason'']\<rparr>),
    (''workspace_root_missing'', \<lparr>ps_message = ''workspace root is missing'', ps_retryable = False, ps_details = [''workspace_id'', ''reason'']\<rparr>),
    (''activity_not_found'', \<lparr>ps_message = ''activity not found'', ps_retryable = False, ps_details = [''activity_id'']\<rparr>),
    (''workspace_address_escape'', \<lparr>ps_message = ''workspace address escapes registered root'', ps_retryable = False, ps_details = [''workspace_id'', ''cwd'']\<rparr>),
    (''manifest_invalid'', \<lparr>ps_message = ''project manifest is invalid'', ps_retryable = False, ps_details = [''field'', ''reason'']\<rparr>),
    (''manifest_review_required'', \<lparr>ps_message = ''project manifest review required'', ps_retryable = False, ps_details = [''manifest_version'', ''reason'']\<rparr>),
    (''project_readiness_unavailable'', \<lparr>ps_message = ''project readiness unavailable'', ps_retryable = True, ps_details = [''workspace_id'', ''reason'']\<rparr>),
    (''project_requirement_invalid'', \<lparr>ps_message = ''project requirement invalid'', ps_retryable = False, ps_details = [''requirement'', ''kind'', ''reason'']\<rparr>),
    (''toolchain_missing'', \<lparr>ps_message = ''required toolchain missing'', ps_retryable = False, ps_details = [''toolchain'']\<rparr>),
    (''toolchain_version_unknown'', \<lparr>ps_message = ''toolchain version unknown'', ps_retryable = True, ps_details = [''toolchain'', ''reason'']\<rparr>),
    (''toolchain_incompatible'', \<lparr>ps_message = ''toolchain incompatible'', ps_retryable = False, ps_details = [''toolchain'', ''reason'']\<rparr>),
    (''project_command_not_found'', \<lparr>ps_message = ''project command not found'', ps_retryable = False, ps_details = [''command'']\<rparr>),
    (''project_command_not_parameterized'', \<lparr>ps_message = ''project command is not parameterized'', ps_retryable = False, ps_details = [''command'']\<rparr>),
    (''parameter_unknown'', \<lparr>ps_message = ''project command parameter unknown'', ps_retryable = False, ps_details = [''command'', ''parameter'']\<rparr>),
    (''parameter_missing'', \<lparr>ps_message = ''project command parameter missing'', ps_retryable = False, ps_details = [''command'', ''parameter'']\<rparr>),
    (''parameter_invalid'', \<lparr>ps_message = ''project command parameter invalid'', ps_retryable = False, ps_details = [''command'', ''parameter'', ''kind'', ''reason'']\<rparr>),
    (''parameter_kind_unsupported'', \<lparr>ps_message = ''project command parameter kind unsupported'', ps_retryable = False, ps_details = [''command'', ''parameter'', ''kind'']\<rparr>),
    (''parameter_validation_unavailable'', \<lparr>ps_message = ''project command parameter validation unavailable'', ps_retryable = True, ps_details = [''command'', ''parameter'', ''kind'', ''provider'', ''reason'']\<rparr>),
    (''project_command_binding_conflict'', \<lparr>ps_message = ''project command binding conflicts with admitted operation'', ps_retryable = False, ps_details = [''operation_id'', ''command'']\<rparr>),
    (''output_compacted'', \<lparr>ps_message = ''retained output has been compacted'', ps_retryable = False, ps_details = [''session_id'']\<rparr>),
    (''output_unavailable'', \<lparr>ps_message = ''retained output unavailable'', ps_retryable = True, ps_details = [''session_id'', ''reason'']\<rparr>),
    (''output_out_of_range'', \<lparr>ps_message = ''output selector is out of range'', ps_retryable = False, ps_details = [''session_id'', ''reason'']\<rparr>),
    (''output_continuation_invalid'', \<lparr>ps_message = ''output continuation is invalid'', ps_retryable = False, ps_details = [''reason'']\<rparr>),
    (''output_continuation_expired'', \<lparr>ps_message = ''output continuation has expired'', ps_retryable = False, ps_details = [''reason'']\<rparr>),
    (''identity_observation_failed'', \<lparr>ps_message = ''identity observation failed'', ps_retryable = True, ps_details = [''provider'', ''reason'']\<rparr>),
    (''event_cursor_invalid'', \<lparr>ps_message = ''event cursor is invalid'', ps_retryable = False, ps_details = [''reason'']\<rparr>),
    (''event_cursor_expired'', \<lparr>ps_message = ''event cursor has expired'', ps_retryable = False, ps_details = [''reason'']\<rparr>),
    (''evidence_cursor_invalid'', \<lparr>ps_message = ''evidence cursor is invalid'', ps_retryable = False, ps_details = [''reason'']\<rparr>),
    (''evidence_cursor_expired'', \<lparr>ps_message = ''evidence cursor has expired'', ps_retryable = False, ps_details = [''reason'']\<rparr>),
    (''event_continuity_unavailable'', \<lparr>ps_message = ''event continuity unavailable'', ps_retryable = True, ps_details = [''reason'']\<rparr>),
    (''structured_adapter_unavailable'', \<lparr>ps_message = ''structured adapter unavailable'', ps_retryable = True, ps_details = [''adapter'', ''reason'']\<rparr>),
    (''structured_adapter_unsupported'', \<lparr>ps_message = ''structured adapter unsupported'', ps_retryable = False, ps_details = [''adapter'']\<rparr>),
    (''structured_result_malformed'', \<lparr>ps_message = ''structured result malformed'', ps_retryable = False, ps_details = [''adapter'', ''reason'']\<rparr>),
    (''structured_result_partial'', \<lparr>ps_message = ''structured result partial'', ps_retryable = False, ps_details = [''adapter'', ''reason'']\<rparr>),
    (''structured_result_budget_exceeded'', \<lparr>ps_message = ''structured result budget exceeded'', ps_retryable = True, ps_details = [''adapter'', ''reason'']\<rparr>),
    (''structured_result_not_found'', \<lparr>ps_message = ''structured result not found'', ps_retryable = False, ps_details = [''operation_id'', ''derivation_key'']\<rparr>),
    (''telemetry_unavailable'', \<lparr>ps_message = ''execution telemetry unavailable'', ps_retryable = True, ps_details = [''operation_id'', ''reason'']\<rparr>),
    (''telemetry_partial'', \<lparr>ps_message = ''execution telemetry partial'', ps_retryable = False, ps_details = [''operation_id'', ''reason'']\<rparr>),
    (''telemetry_budget_exceeded'', \<lparr>ps_message = ''execution telemetry budget exceeded'', ps_retryable = True, ps_details = [''operation_id'', ''reason'']\<rparr>),
    (''telemetry_incompatible_history'', \<lparr>ps_message = ''execution telemetry history incompatible'', ps_retryable = False, ps_details = [''operation_id'', ''reason'']\<rparr>),
    (''resource_observation_unavailable'', \<lparr>ps_message = ''resource observation unavailable'', ps_retryable = False, ps_details = [''metric'', ''reason'']\<rparr>),
    (''resource_observation_partial'', \<lparr>ps_message = ''resource observation partial'', ps_retryable = False, ps_details = [''metric'', ''reason'']\<rparr>),
    (''resource_limit_unsupported'', \<lparr>ps_message = ''resource limit unsupported'', ps_retryable = False, ps_details = [''metric'', ''reason'']\<rparr>),
    (''repro_not_found'', \<lparr>ps_message = ''reproduction capsule not found'', ps_retryable = False, ps_details = [''repro_id'']\<rparr>),
    (''repro_materialization_unavailable'', \<lparr>ps_message = ''reproduction materialization unavailable'', ps_retryable = True, ps_details = [''operation_id'', ''reason'']\<rparr>),
    (''repro_source_unavailable'', \<lparr>ps_message = ''reproduction source unavailable'', ps_retryable = False, ps_details = [''repro_id'', ''reason'']\<rparr>),
    (''repro_reference_compacted'', \<lparr>ps_message = ''reproduction reference compacted'', ps_retryable = False, ps_details = [''repro_id'', ''ref_id'']\<rparr>),
    (''environment_observation_unavailable'', \<lparr>ps_message = ''environment observation unavailable'', ps_retryable = True, ps_details = [''reason'']\<rparr>),
    (''toolchain_probe_unavailable'', \<lparr>ps_message = ''toolchain probe unavailable'', ps_retryable = True, ps_details = [''toolchain'', ''reason'']\<rparr>),
    (''toolchain_probe_timeout'', \<lparr>ps_message = ''toolchain probe timed out'', ps_retryable = True, ps_details = [''toolchain'']\<rparr>),
    (''toolchain_probe_unsupported'', \<lparr>ps_message = ''toolchain probe unsupported'', ps_retryable = False, ps_details = [''toolchain'']\<rparr>),
    (''process_not_found'', \<lparr>ps_message = ''process not found'', ps_retryable = False, ps_details = [''pid'']\<rparr>),
    (''process_access_denied'', \<lparr>ps_message = ''process access denied'', ps_retryable = False, ps_details = [''pid'']\<rparr>),
    (''process_identity_changed'', \<lparr>ps_message = ''process identity changed during observation'', ps_retryable = True, ps_details = [''pid'']\<rparr>),
    (''process_observation_incomplete'', \<lparr>ps_message = ''process observation incomplete'', ps_retryable = True, ps_details = [''pid'', ''reason'']\<rparr>),
    (''process_limit_exceeded'', \<lparr>ps_message = ''process observation limit exceeded'', ps_retryable = False, ps_details = [''reason'']\<rparr>),
    (''port_observation_unavailable'', \<lparr>ps_message = ''port observation unavailable'', ps_retryable = True, ps_details = [''pid'', ''reason'']\<rparr>),
    (''mutation_scope_invalid'', \<lparr>ps_message = ''mutation scope is invalid'', ps_retryable = False, ps_details = [''scope_id'', ''field'', ''reason'']\<rparr>),
    (''mutation_scope_binding_conflict'', \<lparr>ps_message = ''mutation scope binding conflicts with existing binding'', ps_retryable = False, ps_details = [''scope_id'']\<rparr>),
    (''mutation_metadata_conflict'', \<lparr>ps_message = ''mutation metadata conflicts with existing mutation'', ps_retryable = False, ps_details = [''mutation_id'', ''scope_id'', ''field'']\<rparr>),
    (''mutation_scope_capacity_exceeded'', \<lparr>ps_message = ''mutation scope capacity exceeded'', ps_retryable = True, ps_details = [''scope_id'', ''workspace_id'', ''activity_id'', ''reason'']\<rparr>),
    (''persistent_session_name_conflict'', \<lparr>ps_message = ''persistent session name conflicts with existing binding'', ps_retryable = False, ps_details = [''session_id'', ''session_name'', ''reason'']\<rparr>),
    (''persistent_session_ownership_lost'', \<lparr>ps_message = ''persistent session ownership lost'', ps_retryable = False, ps_details = [''session_id'', ''session_name'', ''reason'']\<rparr>),
    (''supervisor_unavailable'', \<lparr>ps_message = ''persistent session supervisor unavailable'', ps_retryable = True, ps_details = [''session_id'', ''session_name'', ''reason'']\<rparr>),
    (''supervisor_protocol_mismatch'', \<lparr>ps_message = ''persistent session supervisor protocol mismatch'', ps_retryable = False, ps_details = [''session_id'', ''session_name'', ''reason'', ''required_version'']\<rparr>),
    (''supervisor_auth_failed'', \<lparr>ps_message = ''persistent session supervisor authentication failed'', ps_retryable = False, ps_details = [''session_id'', ''session_name'', ''reason'']\<rparr>),
    (''supervisor_state_conflict'', \<lparr>ps_message = ''persistent session supervisor state conflict'', ps_retryable = False, ps_details = [''session_id'', ''session_name'', ''reason'']\<rparr>),
    (''persistent_recovery_output_conflict'', \<lparr>ps_message = ''persistent recovery output conflicts with canonical output'', ps_retryable = False, ps_details = [''session_id'', ''reason'']\<rparr>)]"

definition publicSpecs_2 :: "(string \<times> publicSpec) list" where
  "publicSpecs_2 = [
    (''persistent_history_exhausted'', \<lparr>ps_message = ''persistent session history capacity exhausted'', ps_retryable = True, ps_details = [''session_id'', ''reason'']\<rparr>),
    (''persistent_input_history_exhausted'', \<lparr>ps_message = ''persistent input history capacity exhausted'', ps_retryable = True, ps_details = [''session_id'', ''reason'']\<rparr>),
    (''persistent_kill_history_exhausted'', \<lparr>ps_message = ''persistent kill history capacity exhausted'', ps_retryable = True, ps_details = [''session_id'', ''reason'']\<rparr>),
    (''persistence_ambiguous'', \<lparr>ps_message = ''persistence result is ambiguous'', ps_retryable = True, ps_details = []\<rparr>),
    (''stale_control_generation'', \<lparr>ps_message = ''stale delegated session control generation'', ps_retryable = False, ps_details = [''session_id'', ''expected_epoch'', ''current_epoch'']\<rparr>),
    (''session_control_not_owned'', \<lparr>ps_message = ''delegated session control is not owned by the caller'', ps_retryable = False, ps_details = [''session_id'', ''owner'', ''required_owner'', ''current_epoch'']\<rparr>),
    (''delegated_session_unavailable'', \<lparr>ps_message = ''delegated session unavailable'', ps_retryable = True, ps_details = [''session_id'', ''platform'', ''reason'']\<rparr>),
    (''delegated_provider_lost'', \<lparr>ps_message = ''delegated session provider lost'', ps_retryable = True, ps_details = [''session_id'', ''provider_id'', ''provider_version'', ''reason'']\<rparr>),
    (''delegated_provider_mismatch'', \<lparr>ps_message = ''delegated session provider mismatch'', ps_retryable = False, ps_details = [''session_id'', ''provider_id'', ''provider_version'', ''expected_provider_id'', ''expected_provider_version'']\<rparr>),
    (''delegated_reconcile_blocked'', \<lparr>ps_message = ''delegated session reconciliation blocked'', ps_retryable = True, ps_details = [''session_id'', ''provider_id'', ''current_epoch'', ''reason'']\<rparr>),
    (''handoff_conflict'', \<lparr>ps_message = ''handoff conflicts with existing state'', ps_retryable = False, ps_details = [''handoff_id'', ''control_id'', ''phase'']\<rparr>),
    (''handoff_not_pending'', \<lparr>ps_message = ''handoff action is not pending'', ps_retryable = False, ps_details = [''handoff_id'', ''phase'']\<rparr>),
    (''handoff_expired'', \<lparr>ps_message = ''handoff expired'', ps_retryable = False, ps_details = [''handoff_id'']\<rparr>),
    (''handoff_client_lost'', \<lparr>ps_message = ''handoff human client lost'', ps_retryable = True, ps_details = [''handoff_id'', ''reason'']\<rparr>),
    (''handoff_reclaim_blocked'', \<lparr>ps_message = ''handoff reclaim blocked'', ps_retryable = True, ps_details = [''handoff_id'', ''reason'', ''phase'']\<rparr>),
    (''terminal_launcher_unavailable'', \<lparr>ps_message = ''terminal launcher unavailable'', ps_retryable = False, ps_details = [''provider_id'', ''reason'']\<rparr>),
    (''terminal_launch_failed'', \<lparr>ps_message = ''terminal launch failed'', ps_retryable = False, ps_details = [''provider_id'', ''reason'']\<rparr>),
    (''terminal_launch_unknown'', \<lparr>ps_message = ''terminal launch outcome unknown'', ps_retryable = True, ps_details = [''provider_id'', ''reason'']\<rparr>),
    (''terminal_identity_ambiguous'', \<lparr>ps_message = ''terminal identity is ambiguous'', ps_retryable = False, ps_details = [''provider_id'', ''reason'']\<rparr>),
    (''human_control_unreachable'', \<lparr>ps_message = ''human control is unreachable'', ps_retryable = True, ps_details = [''handoff_id'', ''reason'']\<rparr>),
    (''human_client_not_proven'', \<lparr>ps_message = ''human client identity not proven'', ps_retryable = True, ps_details = [''handoff_id'', ''reason'']\<rparr>),
    (''private_output_barrier_failed'', \<lparr>ps_message = ''private output barrier failed'', ps_retryable = True, ps_details = [''handoff_id'', ''reason'']\<rparr>),
    (''privacy_release_unproven'', \<lparr>ps_message = ''privacy release unproven'', ps_retryable = True, ps_details = [''handoff_id'', ''reason'']\<rparr>),
    (''shell_integration_unavailable'', \<lparr>ps_message = ''shell integration unavailable'', ps_retryable = False, ps_details = [''handoff_id'', ''shell'', ''reason'']\<rparr>),
    (''shell_integration_lost'', \<lparr>ps_message = ''shell integration lost'', ps_retryable = True, ps_details = [''handoff_id'', ''shell'', ''reason'']\<rparr>),
    (''requirement_unsupported'', \<lparr>ps_message = ''shell requirement unsupported'', ps_retryable = False, ps_details = [''handoff_id'', ''kind'', ''shell'', ''reason'']\<rparr>),
    (''requirement_not_satisfied'', \<lparr>ps_message = ''shell requirement not satisfied'', ps_retryable = False, ps_details = [''handoff_id'', ''kind'', ''shell'', ''reason'']\<rparr>),
    (''shell_identity_changed'', \<lparr>ps_message = ''shell identity changed'', ps_retryable = True, ps_details = [''handoff_id'', ''shell'', ''reason'']\<rparr>),
    (''context_exec_unavailable'', \<lparr>ps_message = ''context execution unavailable'', ps_retryable = False, ps_details = [''context_exec_id'', ''session_id'', ''reason'']\<rparr>),
    (''context_exec_stale_generation'', \<lparr>ps_message = ''context execution generation is stale'', ps_retryable = True, ps_details = [''context_exec_id'', ''session_id'', ''authority_epoch'', ''reason'']\<rparr>),
    (''context_exec_not_agent_owned'', \<lparr>ps_message = ''context execution requires agent ownership'', ps_retryable = False, ps_details = [''context_exec_id'', ''session_id'', ''authority_epoch'', ''reason'']\<rparr>),
    (''context_exec_privacy_blocked'', \<lparr>ps_message = ''context execution blocked by privacy state'', ps_retryable = True, ps_details = [''context_exec_id'', ''session_id'', ''authority_epoch'', ''reason'']\<rparr>),
    (''context_exec_boundary_unproven'', \<lparr>ps_message = ''context execution boundary unproven'', ps_retryable = True, ps_details = [''context_exec_id'', ''session_id'', ''authority_epoch'', ''reason'']\<rparr>),
    (''context_helper_auth_failed'', \<lparr>ps_message = ''context helper authentication failed'', ps_retryable = False, ps_details = [''context_exec_id'', ''session_id'', ''reason'']\<rparr>),
    (''context_helper_lost'', \<lparr>ps_message = ''context helper lost'', ps_retryable = True, ps_details = [''context_exec_id'', ''session_id'', ''reason'']\<rparr>),
    (''context_exec_ambiguous'', \<lparr>ps_message = ''context execution outcome ambiguous'', ps_retryable = False, ps_details = [''context_exec_id'', ''session_id'', ''reason'']\<rparr>),
    (''invalid_daemon_response'', \<lparr>ps_message = ''invalid daemon response'', ps_retryable = False, ps_details = []\<rparr>),
    (''runtime_version_mismatch'', \<lparr>ps_message = ''ShellBeam MCP and daemon builds do not match'', ps_retryable = False, ps_details = [''mcp_revision'', ''daemon_revision'', ''reason'', ''recovery'']\<rparr>),
    (''media_path_not_found'', \<lparr>ps_message = ''media path not found'', ps_retryable = False, ps_details = []\<rparr>),
    (''media_path_unsafe'', \<lparr>ps_message = ''media path is unsafe'', ps_retryable = False, ps_details = []\<rparr>),
    (''media_not_regular'', \<lparr>ps_message = ''media path is not a regular file'', ps_retryable = False, ps_details = []\<rparr>),
    (''media_too_large'', \<lparr>ps_message = ''media exceeds byte limit'', ps_retryable = False, ps_details = [''limit'', ''byte_size'']\<rparr>),
    (''media_type_unsupported'', \<lparr>ps_message = ''media type unsupported'', ps_retryable = False, ps_details = [''mime_type'', ''format'']\<rparr>),
    (''media_invalid_image'', \<lparr>ps_message = ''media image is invalid'', ps_retryable = False, ps_details = [''format'', ''reason'']\<rparr>),
    (''media_dimensions_exceeded'', \<lparr>ps_message = ''media dimensions exceed limits'', ps_retryable = False, ps_details = [''width'', ''height'', ''limit'']\<rparr>),
    (''media_source_changed'', \<lparr>ps_message = ''media source changed during read'', ps_retryable = True, ps_details = []\<rparr>),
    (''media_read_timeout'', \<lparr>ps_message = ''media read timed out'', ps_retryable = False, ps_details = []\<rparr>),
    (''media_read_failed'', \<lparr>ps_message = ''media read failed'', ps_retryable = False, ps_details = [''reason'']\<rparr>),
    (''capacity_exceeded'', \<lparr>ps_message = ''capacity exceeded'', ps_retryable = True, ps_details = [''active'', ''limit'', ''retry_after_ms'']\<rparr>),
    (''session_not_found'', \<lparr>ps_message = ''session not found'', ps_retryable = False, ps_details = [''session_id'', ''reason'']\<rparr>),
    (''persistence_unavailable'', \<lparr>ps_message = ''persistence unavailable'', ps_retryable = True, ps_details = []\<rparr>),
    (''storage_reserve_exhausted'', \<lparr>ps_message = ''storage reserve exhausted'', ps_retryable = True, ps_details = []\<rparr>),
    (''internal'', \<lparr>ps_message = ''internal error'', ps_retryable = False, ps_details = []\<rparr>),
    (''checkpoint_provider_unavailable'', \<lparr>ps_message = ''checkpoint provider unavailable'', ps_retryable = True, ps_details = [''provider'', ''reason'']\<rparr>),
    (''checkpoint_create_conflict'', \<lparr>ps_message = ''checkpoint create request conflicts with existing binding'', ps_retryable = False, ps_details = [''checkpoint_create_id'']\<rparr>),
    (''checkpoint_scope_invalid'', \<lparr>ps_message = ''checkpoint scope is invalid'', ps_retryable = False, ps_details = [''field'', ''reason'']\<rparr>),
    (''checkpoint_scope_too_large'', \<lparr>ps_message = ''checkpoint scope exceeds limit'', ps_retryable = False, ps_details = [''field'', ''reason'', ''limit'']\<rparr>),
    (''checkpoint_path_unsupported'', \<lparr>ps_message = ''checkpoint path is unsupported'', ps_retryable = False, ps_details = [''path'', ''reason'']\<rparr>),
    (''checkpoint_submodule_boundary_unsupported'', \<lparr>ps_message = ''checkpoint submodule boundary is unsupported'', ps_retryable = False, ps_details = [''path'']\<rparr>),
    (''checkpoint_budget_exceeded'', \<lparr>ps_message = ''checkpoint budget exceeded'', ps_retryable = False, ps_details = [''field'', ''reason'', ''limit'']\<rparr>),
    (''checkpoint_not_found'', \<lparr>ps_message = ''checkpoint not found'', ps_retryable = False, ps_details = [''checkpoint_id'']\<rparr>),
    (''checkpoint_expired'', \<lparr>ps_message = ''checkpoint expired'', ps_retryable = False, ps_details = [''checkpoint_id'']\<rparr>),
    (''checkpoint_restore_request_conflict'', \<lparr>ps_message = ''checkpoint restore request conflicts with existing binding'', ps_retryable = False, ps_details = [''restore_id'']\<rparr>),
    (''checkpoint_restore_conflict'', \<lparr>ps_message = ''checkpoint restore path conflicts with current state'', ps_retryable = False, ps_details = [''restore_id'', ''checkpoint_id'', ''path'']\<rparr>),
    (''checkpoint_restore_partial'', \<lparr>ps_message = ''checkpoint restore is partial'', ps_retryable = False, ps_details = [''restore_id'', ''checkpoint_id'']\<rparr>),
    (''checkpoint_restore_failed'', \<lparr>ps_message = ''checkpoint restore failed'', ps_retryable = True, ps_details = [''restore_id'', ''checkpoint_id'', ''reason'']\<rparr>),
    (''input_trace_provider_unavailable'', \<lparr>ps_message = ''input trace provider unavailable'', ps_retryable = True, ps_details = [''provider'', ''platform'', ''reason'']\<rparr>),
    (''input_trace_required_unavailable'', \<lparr>ps_message = ''required input tracing unavailable'', ps_retryable = False, ps_details = [''provider'', ''platform'', ''reason'']\<rparr>),
    (''input_trace_startup_budget_exceeded'', \<lparr>ps_message = ''input trace startup budget exceeded'', ps_retryable = True, ps_details = [''provider'', ''limit_ms'', ''reason'']\<rparr>),
    (''input_trace_unsupported'', \<lparr>ps_message = ''input tracing unsupported'', ps_retryable = False, ps_details = [''provider'', ''platform'', ''reason'']\<rparr>),
    (''input_trace_partial'', \<lparr>ps_message = ''input trace partial'', ps_retryable = False, ps_details = [''trace_id'', ''reason'']\<rparr>),
    (''input_trace_budget_exceeded'', \<lparr>ps_message = ''input trace budget exceeded'', ps_retryable = False, ps_details = [''trace_id'', ''limit'', ''reason'']\<rparr>),
    (''input_trace_late_attach'', \<lparr>ps_message = ''input trace attached late'', ps_retryable = False, ps_details = [''trace_id'', ''reason'']\<rparr>),
    (''input_trace_ownership_lost'', \<lparr>ps_message = ''input trace ownership lost'', ps_retryable = False, ps_details = [''trace_id'', ''reason'']\<rparr>),
    (''input_trace_not_found'', \<lparr>ps_message = ''input trace not found'', ps_retryable = False, ps_details = [''operation_id'', ''trace_id'']\<rparr>)]"

definition publicSpecs :: "string \<rightharpoonup> publicSpec" where
  "publicSpecs = map_of (publicSpecs_1 @ publicSpecs_2)"

definition legacyCodes :: "string \<rightharpoonup> string" where
  "legacyCodes = map_of [
    (''operation_conflict'', OperationConflict),
    (''operation_metadata_conflict'', OperationMetadataConflict),
    (''capacity_exceeded'', CapacityExceeded),
    (''session_not_found'', SessionNotFound),
    (''persistence_unavailable'', PersistenceUnavailable),
    (''storage_reserve_exhausted'', StorageReserveExhausted),
    (''invalid operation id'', InvalidInput),
    (''invalid session id'', InvalidInput),
    (''command is empty'', InvalidInput),
    (''cwd must be absolute'', InvalidInput),
    (''timeout must be non-negative'', InvalidInput),
    (''cursor_out_of_range'', InvalidInput),
    (''invalid max'', InvalidInput),
    (''session_not_live'', InvalidInput),
    (''session_not_writable'', InvalidInput),
    (''input_closed'', InvalidInput),
    (''empty input'', InvalidInput),
    (''input_conflict'', OperationMetadataConflict),
    (''input_gap'', InvalidInput),
    (''input_backpressure'', CapacityExceeded),
    (''input_eof_unsupported'', InvalidInput),
    (''invalid kill_id'', InvalidInput),
    (''invalid signal'', InvalidInput),
    (''kill_conflict'', OperationMetadataConflict),
    (''unknown_action'', InvalidInput)]"

section \<open>Safe details\<close>

text \<open>
  The loop over the runes of the trimmed value: a control character gives the empty string, the
  257th rune ends the loop (after its own control check), everything before it is kept.
\<close>

definition safeDetailValue :: "string \<Rightarrow> string" where
  "safeDetailValue value =
     (let rs = trim_runes (runes value) in
      if rs = [] then []
      else if list_ex IsControl (take 257 rs) then []
      else string_of_runes (take 256 rs))"

text \<open>
  The loop over the details map.  Go ranges over a map in an arbitrary order; the model takes the
  entries in the order of the list, and \<open>filterDetails_complete\<close> below shows that for the codes
  of the table the order does not matter.
\<close>

fun filter_loop :: "string list \<Rightarrow> (string \<times> string) list \<Rightarrow> (string \<times> string) list
    \<Rightarrow> (string \<times> string) list" where
  "filter_loop allowed out [] = out"
| "filter_loop allowed out ((k, v) # rest) =
     (if k \<notin> set allowed \<or> 8 \<le> length out then filter_loop allowed out rest
      else let v' = safeDetailValue v in
        filter_loop allowed (if v' \<noteq> [] then out @ [(k, v')] else out) rest)"

definition filterDetails :: "string list \<Rightarrow> (string \<times> string) list \<Rightarrow> (string \<times> string) list" where
  "filterDetails allowed details =
     (if allowed = [] \<or> details = [] then [] else filter_loop allowed [] details)"

section \<open>Construction and projection\<close>

text \<open>
  \<open>New\<close>: an unknown code becomes Internal.  \<open>publicSpecs\<close> is consulted once; the code
  Internal is always present.
\<close>

definition internal_spec :: publicSpec where
  "internal_spec = (case publicSpecs Internal of Some p \<Rightarrow> p
     | None \<Rightarrow> \<lparr>ps_message = [], ps_retryable = False, ps_details = []\<rparr>)"

definition failure_New :: "string \<Rightarrow> (string \<times> string) list \<Rightarrow> goerr option \<Rightarrow> goerr" where
  "failure_New code details cause =
     (case publicSpecs code of
        Some p \<Rightarrow> Typed code (ps_message p) (ps_retryable p) (filterDetails (ps_details p) details) cause
      | None \<Rightarrow> Typed Internal (ps_message internal_spec) (ps_retryable internal_spec)
                 (filterDetails (ps_details internal_spec) details) cause)"

text \<open>\<open>errors.As(err, &typed)\<close>: the first typed failure of the chain of wrapped errors.\<close>

fun as_failure :: "goerr \<Rightarrow> goerr option" where
  "as_failure (Typed c m r d e) = Some (Typed c m r d e)"
| "as_failure (Wrapf s e) = as_failure e"
| "as_failure (Errorf s) = None"
| "as_failure (CodeErr c) = None"

text \<open>The text of an error; \<open>fmt.Errorf\<close> with \<open>%w\<close> appends the text of the cause.\<close>

fun error_text :: "goerr \<Rightarrow> string" where
  "error_text (Errorf s) = s"
| "error_text (Wrapf s e) = s @ '': '' @ error_text e"
| "error_text (CodeErr c) = c"
| "error_text (Typed c m r d e) = c"

definition Normalize :: "goerr option \<Rightarrow> goerr option" where
  "Normalize err =
     (case err of
        None \<Rightarrow> None
      | Some e \<Rightarrow>
          (case as_failure e of
             Some _ \<Rightarrow> Some e
           | None \<Rightarrow>
               let raw = error_text e;
                   code = (case legacyCodes raw of
                             Some c \<Rightarrow> c
                           | None \<Rightarrow> if publicSpecs raw \<noteq> None then raw else Internal)
               in Some (failure_New code [] (Some e))))"

definition Public :: "goerr option \<Rightarrow> goerr" where
  "Public err =
     (case err of
        None \<Rightarrow> failure_New Internal [] None
      | Some e \<Rightarrow>
          (case as_failure e of
             Some t \<Rightarrow> failure_New (fl_Code t) (fl_Details t) None
           | None \<Rightarrow>
               (case Normalize (Some e) of
                  Some n \<Rightarrow>
                    (case as_failure n of
                       Some t \<Rightarrow> failure_New (fl_Code t) (fl_Details t) None
                     | None \<Rightarrow> failure_New Internal [] None)
                | None \<Rightarrow> failure_New Internal [] None)))"

text \<open>\<open>errors.Is(err, code)\<close>: a wrapped error is a code, or a typed failure with that code.\<close>

fun is_code :: "goerr \<Rightarrow> string \<Rightarrow> bool" where
  "is_code (Typed c m r d e) code \<longleftrightarrow> c = code \<or> (case e of None \<Rightarrow> False | Some e' \<Rightarrow> is_code e' code)"
| "is_code (Wrapf s e) code \<longleftrightarrow> is_code e code"
| "is_code (CodeErr c) code \<longleftrightarrow> c = code"
| "is_code (Errorf s) code \<longleftrightarrow> False"

section \<open>Facts of the table\<close>

lemma table_codes: "map fst (publicSpecs_1 @ publicSpecs_2) = codes"
  unfolding publicSpecs_1_def publicSpecs_2_def codes_def by simp

lemma table_keys: "list_all (\<lambda>(c, p). length (ps_details p) \<le> 8) (publicSpecs_1 @ publicSpecs_2)"
  unfolding publicSpecs_1_def publicSpecs_2_def by simp

lemma publicSpecs_dom: "publicSpecs c \<noteq> None \<longleftrightarrow> c \<in> set codes"
  unfolding publicSpecs_def table_codes [symmetric] by (simp add: map_of_eq_None_iff)

lemma publicSpecs_keys: "publicSpecs c = Some p \<Longrightarrow> length (ps_details p) \<le> 8"
  using table_keys unfolding publicSpecs_def list_all_iff by (auto dest!: map_of_SomeD)

lemma Internal_code: "Internal \<in> set codes"
  by (simp add: codes_def)

lemma internal_spec_Some: "publicSpecs Internal = Some internal_spec"
  using publicSpecs_dom [of Internal] Internal_code by (auto simp: internal_spec_def)

text \<open>The failure that \<open>New\<close> builds, by the code it ends up with.\<close>

definition known_code :: "string \<Rightarrow> string" where
  "known_code c = (if c \<in> set codes then c else Internal)"

lemma failure_New_eq:
  "failure_New c d e = (case publicSpecs (known_code c) of
     Some p \<Rightarrow> Typed (known_code c) (ps_message p) (ps_retryable p) (filterDetails (ps_details p) d) e
   | None \<Rightarrow> undefined)"
  using publicSpecs_dom [of c] internal_spec_Some
  by (cases "publicSpecs c") (auto simp: failure_New_def known_code_def)

lemma failure_New_code: "fl_Code (failure_New c d e) = known_code c"
  using publicSpecs_dom [of c] by (auto simp: failure_New_def known_code_def split: option.splits)

lemma failure_New_cause: "fl_Cause (failure_New c d e) = e"
  by (auto simp: failure_New_def split: option.splits)

lemma as_failure_New [simp]: "as_failure (failure_New c d e) = Some (failure_New c d e)"
  by (auto simp: failure_New_def split: option.splits)

lemma failure_New_Typed: "\<exists>c' m r d' e'. failure_New c d e = Typed c' m r d' e'"
  by (auto simp: failure_New_def split: option.splits)

section \<open>Facts of the detail filter\<close>

lemma trim_ne_head: "trim_runes rs \<noteq> [] \<Longrightarrow> \<not> IsSpace (hd (trim_runes rs))"
proof -
  assume ne: "trim_runes rs \<noteq> []"
  define xs where "xs = dropWhile IsSpace rs"
  have t: "trim_runes rs = rev (dropWhile IsSpace (rev xs))" by (simp add: trim_runes_def xs_def)
  obtain ys where "rev xs = ys @ dropWhile IsSpace (rev xs)"
    by (metis takeWhile_dropWhile_id)
  then have xs: "xs = trim_runes rs @ rev ys" unfolding t by (metis rev_append rev_rev_ident)
  then have "hd xs = hd (trim_runes rs)" using ne by simp
  moreover have "xs \<noteq> []" using xs ne by simp
  ultimately show ?thesis using hd_dropWhile [of IsSpace rs] unfolding xs_def by metis
qed

lemma safeDetailValue_runes:
  assumes "safeDetailValue v \<noteq> []"
  shows "runes (safeDetailValue v) = take 256 (trim_runes (runes v))"
    "list_all (\<lambda>r. \<not> IsControl r) (take 256 (trim_runes (runes v)))"
proof -
  let ?rs = "trim_runes (runes v)"
  from assms have ok: "\<not> list_ex IsControl (take 257 ?rs)"
    and eq: "safeDetailValue v = string_of_runes (take 256 ?rs)"
    by (auto simp: safeDetailValue_def Let_def split: if_splits)
  have "list_all scalar (take 256 ?rs)"
    using runes_scalar [of v] set_trim_runes [of "runes v"]
    by (auto simp: list_all_iff dest!: in_set_takeD)
  then show "runes (safeDetailValue v) = take 256 ?rs"
    unfolding eq by (rule runes_string_of_runes)
  have "set (take 256 ?rs) \<subseteq> set (take 257 ?rs)"
    by (rule set_take_subset_set_take) simp
  with ok show "list_all (\<lambda>r. \<not> IsControl r) (take 256 ?rs)"
    by (auto simp: list_all_iff list_ex_iff)
qed

definition safe_value :: "string \<Rightarrow> bool" where
  "safe_value v \<longleftrightarrow> v \<noteq> [] \<and> length (runes v) \<le> 256 \<and> list_all (\<lambda>r. \<not> IsControl r) (runes v)"

lemma safeDetailValue_safe: "safeDetailValue v \<noteq> [] \<Longrightarrow> safe_value (safeDetailValue v)"
  unfolding safe_value_def using safeDetailValue_runes [of v] by simp

definition safe_details :: "string list \<Rightarrow> (string \<times> string) list \<Rightarrow> bool" where
  "safe_details allowed d \<longleftrightarrow> length d \<le> 8 \<and> (\<forall>(k, v)\<in>set d. k \<in> set allowed \<and> safe_value v)"

lemma filter_loop_safe:
  "safe_details allowed out \<Longrightarrow> safe_details allowed (filter_loop allowed out d)"
proof (induction allowed out d rule: filter_loop.induct)
  case (2 allowed out k v rest)
  let ?v = "safeDetailValue v"
  have "safe_details allowed (if ?v \<noteq> [] then out @ [(k, ?v)] else out)"
    if "k \<in> set allowed" "\<not> 8 \<le> length out"
    using that "2.prems" safeDetailValue_safe [of v] by (auto simp: safe_details_def)
  with 2 show ?case by (simp add: Let_def)
qed simp

lemma filterDetails_safe: "safe_details allowed (filterDetails allowed d)"
  using filter_loop_safe [of allowed "[]" d] by (auto simp: filterDetails_def safe_details_def)

text \<open>With at most eight allowed keys and distinct keys, the cap of eight entries never bites.\<close>

definition keep :: "string list \<Rightarrow> (string \<times> string) list \<Rightarrow> (string \<times> string) list" where
  "keep allowed d = map (\<lambda>(k, v). (k, safeDetailValue v))
     (filter (\<lambda>(k, v). k \<in> set allowed \<and> safeDetailValue v \<noteq> []) d)"

lemma filter_loop_keep:
  assumes "set (map fst (out @ d)) \<inter> set allowed \<subseteq> set allowed" "distinct (map fst (out @ d))"
    and "set (map fst out) \<subseteq> set allowed" "length allowed \<le> 8"
  shows "filter_loop allowed out d = out @ keep allowed d"
  using assms
proof (induction allowed out d rule: filter_loop.induct)
  case (1 allowed out)
  then show ?case by (simp add: keep_def)
next
  case (2 allowed out k v rest)
  show ?case
  proof (cases "k \<in> set allowed")
    case False
    then show ?thesis using 2 by (auto simp: keep_def)
  next
    case True
    have "card (set (map fst out) \<union> {k}) \<le> card (set allowed)"
      using 2(5) True by (intro card_mono) auto
    moreover have "card (set (map fst out) \<union> {k}) = Suc (length out)"
      using "2.prems"(2) by (auto simp: card_insert_if distinct_card [of "map fst out", simplified])
    ultimately have "length out < 8" using card_length [of allowed] "2.prems"(4) by linarith
    then show ?thesis using 2(2) [of "safeDetailValue v"] "2.prems" True
      by (auto simp: keep_def Let_def)
  qed
qed

lemma filterDetails_complete:
  assumes "distinct (map fst d)" "length allowed \<le> 8"
  shows "filterDetails allowed d = keep allowed d"
  using filter_loop_keep [of "[]" d allowed] assms by (auto simp: filterDetails_def keep_def)

lemma map_of_keep:
  "distinct (map fst d) \<Longrightarrow> map_of (keep allowed d) k =
     (if k \<in> set allowed then case map_of d k of None \<Rightarrow> None
        | Some v \<Rightarrow> if safeDetailValue v = [] then None else Some (safeDetailValue v)
      else None)"
proof (induction d)
  case (Cons a d)
  obtain k' v where a: "a = (k', v)" by fastforce
  show ?case
  proof (cases "k = k'")
    case True
    then have "map_of d k = None" using Cons.prems a by (simp add: map_of_eq_None_iff)
    with True Cons a show ?thesis by (simp add: keep_def)
  next
    case False
    with Cons a show ?thesis by (simp add: keep_def)
  qed
qed (simp add: keep_def)

section \<open>Properties\<close>

text \<open>
  C28: What leaves the process is always a public fact. For every error, typed or not, nil
  included, the public projection has a code of the table with exactly that code's message and
  retry flag, carries no cause, and its details use only the keys allowed for that code, at most
  eight of them, each with a non-empty value of at most 256 runes and without control characters.
\<close>

theorem Public_is_safe:
  "\<exists>code p det. publicSpecs code = Some p \<and>
     Public err = Typed code (ps_message p) (ps_retryable p) det None \<and> safe_details (ps_details p) det"
proof -
  have N: "\<exists>code p det. publicSpecs code = Some p \<and>
     failure_New c d None = Typed code (ps_message p) (ps_retryable p) det None \<and>
     safe_details (ps_details p) det" for c d
  proof (cases "publicSpecs c")
    case None
    then show ?thesis using internal_spec_Some filterDetails_safe
      by (auto simp: failure_New_def)
  next
    case (Some p)
    then show ?thesis using filterDetails_safe by (auto simp: failure_New_def)
  qed
  have "\<exists>c d. Public err = failure_New c d None"
    by (auto simp: Public_def split: option.split)
  then show ?thesis using N by metis
qed

text \<open>
  Detail filtering is complete and does not depend on the order in which Go ranges over the
  details map: for every code of the table and every details map, a key is present in the built
  failure if and only if the code allows it and its cleaned value is not empty, and then it holds
  the cleaned value. The cap of eight entries never drops anything.
\<close>

theorem failure_New_details_complete:
  assumes "publicSpecs code = Some p" "distinct (map fst d)"
  shows "map_of (fl_Details (failure_New code d cause)) k =
     (if k \<in> set (ps_details p) then case map_of d k of None \<Rightarrow> None
        | Some v \<Rightarrow> if safeDetailValue v = [] then None else Some (safeDetailValue v)
      else None)"
  using assms publicSpecs_keys [OF assms(1)]
  by (simp add: failure_New_def filterDetails_complete map_of_keep)

theorem failure_New_details_complete_witness:
  "map_of (fl_Details (failure_New InvalidInput [(''field'', ''mutation''), (''secret'', ''x'')] None)) ''secret''
     = None \<and>
   map_of (fl_Details (failure_New InvalidInput [(''field'', ''mutation''), (''secret'', ''x'')] None)) ''field''
     = Some (safeDetailValue ''mutation'')"
proof -
  have p: "publicSpecs InvalidInput = Some \<lparr>ps_message = ''invalid input'',
      ps_retryable = False, ps_details = [''field'', ''reason'']\<rparr>"
    unfolding publicSpecs_def publicSpecs_1_def append_Cons map_of.simps(2) fst_conv snd_conv
    by (rule fun_upd_same)
  have d: "distinct (map fst [(''field'', ''mutation''), (''secret'', ''x'')])" by simp
  have "safeDetailValue ''mutation'' \<noteq> []"
    by (simp add: safeDetailValue_def runes_def trim_runes_def IsSpace_def IsControl_def
      string_of_runes_def encode_rune_def)
  then show ?thesis
    using failure_New_details_complete [OF p d, of None "''secret''"]
      failure_New_details_complete [OF p d, of None "''field''"] by simp
qed

end
