(* ===== verification/Storage.thy ===== *)
theory Storage
  imports Failure "HOL-Library.AList" "HOL-Library.List_Lexorder"
begin

text \<open>
  The private files of the daemon's store: reading a JSON file
  (internal/adapter/store/events_private.go, \<open>readPrivateJSON\<close>) and the atomic writer
  (atomic.go, atomic_create.go) with its three outcomes and the durability it reports
  (internal/app/daemon/store_port.go).  A directory is the list of its files by name; a file holds
  a decoded value, or it cannot be read (wrong permissions, too large, not JSON).
\<close>

section \<open>Files\<close>

datatype 'a content = Good 'a | Bad string

type_synonym 'a dir = "(string \<times> 'a content) list"

definition ErrNotFound :: goerr where
  "ErrNotFound = CodeErr ''not found''"

definition os_ErrExist :: goerr where
  "os_ErrExist = CodeErr ''file already exists''"

definition readPrivateJSON :: "'a dir \<Rightarrow> string \<Rightarrow> 'a result" where
  "readPrivateJSON d k =
     (case map_of d k of None \<Rightarrow> Inl ErrNotFound | Some (Good x) \<Rightarrow> Inr x | Some (Bad s) \<Rightarrow> Inl (Errorf s))"

definition is_not_found :: "goerr \<Rightarrow> bool" where
  "is_not_found e = errors_Is e ErrNotFound"

definition is_exist :: "goerr option \<Rightarrow> bool" where
  "is_exist e = (case e of None \<Rightarrow> False | Some x \<Rightarrow> errors_Is x os_ErrExist)"

text \<open>\<open>os.ReadDir\<close> lists the entries by name.\<close>

definition ReadDir :: "'a dir \<Rightarrow> string list" where
  "ReadDir d = sort (remdups (map fst d))"

section \<open>The atomic writer\<close>

text \<open>
  What a write can do: succeed, fail before the link or rename (nothing changes), or fail after it
  (the parent directory cannot be synced: the file already holds the new value).
\<close>

datatype file_write = WriteOk | WriteFailed goerr | WriteUnsynced goerr

datatype Durability = NoDurableChange | DurableChange | AmbiguousChange | UnsetDurability

record StoreResult =
  sr_Durability :: Durability
  sr_ObservationSeq :: uint64
  sr_Err :: "goerr option"

definition store_result :: "Durability \<Rightarrow> goerr option \<Rightarrow> StoreResult" where
  "store_result d e = \<lparr>sr_Durability = d, sr_ObservationSeq = 0, sr_Err = e\<rparr>"

lemma store_result_sel [simp]:
  "sr_Durability (store_result d e) = d" "sr_Err (store_result d e) = e"
  "sr_ObservationSeq (store_result d e) = 0"
  by (simp_all add: store_result_def)

definition put_file :: "string \<Rightarrow> 'a \<Rightarrow> 'a dir \<Rightarrow> 'a dir" where
  "put_file k v d = AList.update k (Good v) d"

definition atomic_Replace :: "file_write \<Rightarrow> 'a dir \<Rightarrow> string \<Rightarrow> 'a \<Rightarrow> StoreResult \<times> 'a dir" where
  "atomic_Replace io d k v =
     (case io of
        WriteFailed e \<Rightarrow> (store_result NoDurableChange (Some e), d)
      | WriteUnsynced e \<Rightarrow> (store_result AmbiguousChange (Some e), put_file k v d)
      | WriteOk \<Rightarrow> (store_result DurableChange None, put_file k v d))"

definition atomic_Create :: "file_write \<Rightarrow> 'a dir \<Rightarrow> string \<Rightarrow> 'a \<Rightarrow> StoreResult \<times> 'a dir" where
  "atomic_Create io d k v =
     (case io of
        WriteFailed e \<Rightarrow> (store_result NoDurableChange (Some e), d)
      | _ \<Rightarrow>
          if map_of d k \<noteq> None then (store_result NoDurableChange (Some os_ErrExist), d)
          else (case io of
              WriteUnsynced e \<Rightarrow> (store_result AmbiguousChange (Some e), put_file k v d)
            | _ \<Rightarrow> (store_result DurableChange None, put_file k v d)))"

text \<open>
  \<open>os.Remove\<close> of a file that may be missing, followed by a sync of its directory: it can fail
  before the removal or after it.
\<close>

definition remove_file :: "file_write \<Rightarrow> 'a dir \<Rightarrow> string \<Rightarrow> goerr option \<times> 'a dir" where
  "remove_file io d k =
     (case io of
        WriteFailed e \<Rightarrow> (Some e, d)
      | WriteUnsynced e \<Rightarrow> (Some e, AList.delete k d)
      | WriteOk \<Rightarrow> (None, AList.delete k d))"

text \<open>The outcomes of the writes to come; when none is prescribed, a write succeeds.\<close>

definition next_io :: "file_write list \<Rightarrow> file_write \<times> file_write list" where
  "next_io ios = (case ios of [] \<Rightarrow> (WriteOk, []) | x # xs \<Rightarrow> (x, xs))"

text \<open>
  Create-or-match: an existing file is compared, a missing one is created, and when the creation
  finds a file after all the procedure starts over.
\<close>

lemma readPrivateJSON_not_found:
  "readPrivateJSON d k = Inl e \<Longrightarrow> is_not_found e \<Longrightarrow> map_of d k = None"
  by (auto simp: readPrivateJSON_def is_not_found_def ErrNotFound_def split: option.splits content.splits)

function ensure_file ::
  "('a \<Rightarrow> StoreResult) \<Rightarrow> 'a dir \<Rightarrow> string \<Rightarrow> 'a \<Rightarrow> file_write list \<Rightarrow> StoreResult \<times> 'a dir \<times> file_write list" where
  "ensure_file matched d k v ios =
     (case readPrivateJSON d k of
        Inr existing \<Rightarrow> (matched existing, d, ios)
      | Inl e \<Rightarrow>
          if \<not> is_not_found e then (store_result NoDurableChange (Some e), d, ios)
          else let w = next_io ios; c = atomic_Create (fst w) d k v in
            if is_exist (sr_Err (fst c)) then ensure_file matched (snd c) k v (snd w)
            else (fst c, snd c, snd w))"
  by pat_completeness auto

termination
proof (relation "measure (\<lambda>(_, _, _, _, ios). length ios)", simp_all, goal_cases)
  case (1 d k v ios e)
  then have "ios \<noteq> []"
    using readPrivateJSON_not_found [of d k e]
    by (auto simp: next_io_def atomic_Create_def is_exist_def)
  then show ?case by (cases ios) (simp_all add: next_io_def)
qed

declare ensure_file.simps [simp del]

section \<open>Facts on files\<close>

lemma map_of_put_file [simp]: "map_of (put_file k v d) = (map_of d)(k \<mapsto> Good v)"
  by (simp add: put_file_def update_conv')

lemma readPrivateJSON_put [simp]:
  "readPrivateJSON (put_file k v d) j = (if j = k then Inr v else readPrivateJSON d j)"
  by (simp add: readPrivateJSON_def)

lemma readPrivateJSON_delete [simp]:
  "readPrivateJSON (AList.delete k d) j = (if j = k then Inl ErrNotFound else readPrivateJSON d j)"
  by (simp add: readPrivateJSON_def delete_conv')

lemma readPrivateJSON_Inr: "readPrivateJSON d k = Inr x \<longleftrightarrow> map_of d k = Some (Good x)"
  by (auto simp: readPrivateJSON_def split: option.splits content.splits)

lemma is_not_found_ErrNotFound [simp]: "is_not_found ErrNotFound"
  by (simp add: is_not_found_def)

lemma is_exist_simps [simp]: "\<not> is_exist None" "is_exist (Some os_ErrExist)"
  by (simp_all add: is_exist_def)

text \<open>A write leaves the directory as it was or with exactly the new file.\<close>

lemma atomic_Replace_dir:
  "atomic_Replace io d k v = (res, d') \<Longrightarrow> d' = d \<or> d' = put_file k v d"
  by (auto simp: atomic_Replace_def split: file_write.splits)

lemma atomic_Replace_ok:
  "atomic_Replace io d k v = (res, d') \<Longrightarrow> sr_Err res = None \<Longrightarrow> d' = put_file k v d"
  by (auto simp: atomic_Replace_def split: file_write.splits)

lemma atomic_Create_dir:
  "atomic_Create io d k v = (res, d') \<Longrightarrow> d' = d \<or> (map_of d k = None \<and> d' = put_file k v d)"
  by (auto simp: atomic_Create_def split: file_write.splits if_splits)

lemma atomic_Create_ok:
  "atomic_Create io d k v = (res, d') \<Longrightarrow> sr_Err res = None \<Longrightarrow> map_of d k = None \<and> d' = put_file k v d"
  by (auto simp: atomic_Create_def split: file_write.splits if_splits)

lemma remove_file_dir:
  "remove_file io d k = (e, d') \<Longrightarrow> d' = d \<or> d' = AList.delete k d"
  by (auto simp: remove_file_def split: file_write.splits)

lemma remove_file_ok: "remove_file io d k = (None, d') \<Longrightarrow> d' = AList.delete k d"
  by (auto simp: remove_file_def split: file_write.splits)

end
