(* ===== verification/SupervisorLedger.thy ===== *)
theory SupervisorLedger
  imports Storage InputLog
begin

text \<open>
  internal/adapter/supervisor/ledger.go: the durable input and kill ledgers of a per-session
  supervisor.  A ledger has an in-memory state and the state in its file; an operation builds the
  next state, validates it, checks the size of its encoding and replaces the file before it moves
  to that state.  \<open>json.Marshal\<close> enters only through the length of the encoding
  (\<open>marshal_len\<close>), SHA-256 as \<open>sha\<close> (the hexadecimal digest); the outcome of replacing the
  file is an argument of the operation.
\<close>

section \<open>Identifiers (internal/core/operation/id.go)\<close>

definition id_byte :: "char \<Rightarrow> bool" where
  "id_byte c \<longleftrightarrow> is_alnum c \<or> c = CHR ''_'' \<or> c = CHR ''-''"

definition valid_id :: "string \<Rightarrow> bool" where
  "valid_id v = bytes_headed is_alnum id_byte 128 v"

definition ParseID :: "string \<Rightarrow> string result" where
  "ParseID v = (if valid_id v then Inr v else Inl (Errorf ''invalid operation id''))"

definition ParseSessionID :: "string \<Rightarrow> string result" where
  "ParseSessionID v = (if valid_id v then Inr v else Inl (Errorf ''invalid session id''))"

section \<open>Input ledger state\<close>

record InputLimits =
  MaxRecords :: int
  MaxMetadataBytes :: int
  MaxQueuedBytes :: int

record LedgerRecord =
  lr_Kind :: string
  lr_Offset :: int
  lr_Length :: int
  lr_SHA256 :: string
  lr_Delivered :: bool

record InputAdmission =
  ia_Record :: LedgerRecord
  ia_AcceptedBytes :: int
  ia_NextOffset :: int
  ia_Duplicate :: bool
  ia_NeedsDelivery :: bool

record inputLedgerState =
  st_SchemaVersion :: int
  st_NextOffset :: int
  st_AcceptedBytes :: int
  st_DeliveredBytes :: int
  st_QueuedBytes :: int
  st_EOFAccepted :: bool
  st_EOFDelivered :: bool
  st_Records :: "LedgerRecord list"

record InputLedgerD =
  ld_limits :: InputLimits
  ld_state :: inputLedgerState
  ld_disk :: inputLedgerState

definition ledgerSchemaVersion :: int where
  "ledgerSchemaVersion = 1"

definition zero_ledger_record :: LedgerRecord where
  "zero_ledger_record =
     \<lparr>lr_Kind = [], lr_Offset = 0, lr_Length = 0, lr_SHA256 = [], lr_Delivered = False\<rparr>"

definition empty_ledger_state :: inputLedgerState where
  "empty_ledger_state = \<lparr>st_SchemaVersion = ledgerSchemaVersion, st_NextOffset = 0,
     st_AcceptedBytes = 0, st_DeliveredBytes = 0, st_QueuedBytes = 0, st_EOFAccepted = False,
     st_EOFDelivered = False, st_Records = []\<rparr>"

section \<open>Validation\<close>

definition hex_digit :: "char \<Rightarrow> bool" where
  "hex_digit c \<longleftrightarrow> is_digit c \<or> (CHR ''a'' \<le> c \<and> c \<le> CHR ''f'') \<or> (CHR ''A'' \<le> c \<and> c \<le> CHR ''F'')"

definition validDigest :: "string \<Rightarrow> bool" where
  "validDigest v \<longleftrightarrow> length v = 64 \<and> list_all hex_digit v"

record scan =
  sc_cursor :: int
  sc_accepted :: int
  sc_delivered :: int
  sc_queued :: int
  sc_eofAccepted :: bool
  sc_eofDelivered :: bool

text \<open>The loop over the records; the first argument is the state's own EOFAccepted flag.\<close>

fun scan_records :: "bool \<Rightarrow> LedgerRecord list \<Rightarrow> scan \<Rightarrow> scan option" where
  "scan_records ea [] s = Some s"
| "scan_records ea (r # rs) s =
     (if lr_Offset r \<noteq> sc_cursor s \<or> (lr_Delivered r \<and> lr_Kind r = ''eof'' \<and> \<not> ea) then None
      else if lr_Kind r = ''chars'' then
        if lr_Length r < 1 \<or> \<not> validDigest (lr_SHA256 r) \<or> sc_eofAccepted s then None
        else scan_records ea rs
          (s\<lparr>sc_cursor := int64 (sc_cursor s + lr_Length r),
             sc_accepted := int64 (sc_accepted s + lr_Length r),
             sc_delivered := (if lr_Delivered r then int64 (sc_delivered s + lr_Length r)
                              else sc_delivered s),
             sc_queued := (if lr_Delivered r then sc_queued s
                           else int64 (sc_queued s + lr_Length r))\<rparr>)
      else if lr_Kind r = ''eof'' then
        if lr_Length r \<noteq> 0 \<or> lr_SHA256 r \<noteq> [] \<or> sc_eofAccepted s \<or> rs \<noteq> [] then None
        else scan_records ea rs (s\<lparr>sc_eofAccepted := True, sc_eofDelivered := lr_Delivered r\<rparr>)
      else None)"

definition scan_start :: scan where
  "scan_start = \<lparr>sc_cursor = 0, sc_accepted = 0, sc_delivered = 0, sc_queued = 0,
     sc_eofAccepted = False, sc_eofDelivered = False\<rparr>"

definition ledger_error :: goerr where
  "ledger_error = Errorf ''invalid persistent input ledger''"

definition validateInputLedgerState :: "inputLedgerState \<Rightarrow> InputLimits \<Rightarrow> goerr option" where
  "validateInputLedgerState st lim =
     (if st_SchemaVersion st \<noteq> ledgerSchemaVersion \<or> st_NextOffset st < 0 \<or> st_AcceptedBytes st < 0
         \<or> st_DeliveredBytes st < 0 \<or> st_DeliveredBytes st > st_AcceptedBytes st
         \<or> st_QueuedBytes st < 0 \<or> st_QueuedBytes st > MaxQueuedBytes lim
         \<or> int (length (st_Records st)) > MaxRecords lim
      then Some ledger_error
      else case scan_records (st_EOFAccepted st) (st_Records st) scan_start of
          None \<Rightarrow> Some ledger_error
        | Some s \<Rightarrow>
            if sc_cursor s \<noteq> st_NextOffset st \<or> sc_accepted s \<noteq> st_AcceptedBytes st
               \<or> sc_delivered s \<noteq> st_DeliveredBytes st \<or> sc_queued s \<noteq> st_QueuedBytes st
               \<or> sc_eofAccepted s \<noteq> st_EOFAccepted st \<or> sc_eofDelivered s \<noteq> st_EOFDelivered st
            then Some ledger_error else None)"

section \<open>Operations\<close>

definition inputRecordAt :: "LedgerRecord list \<Rightarrow> int \<Rightarrow> LedgerRecord option" where
  "inputRecordAt rs off = find (\<lambda>r. lr_Offset r = off) rs"

definition sameInputIdentity :: "LedgerRecord \<Rightarrow> LedgerRecord \<Rightarrow> bool" where
  "sameInputIdentity a b \<longleftrightarrow> lr_Kind a = lr_Kind b \<and> lr_Offset a = lr_Offset b \<and>
     lr_Length a = lr_Length b \<and> lr_SHA256 a = lr_SHA256 b"

definition inputHistoryFailure :: goerr where
  "inputHistoryFailure = failure_New PersistentInputHistoryExhausted [(''reason'', ''record_limit'')]
     (Some (Errorf ''persistent input history exhausted''))"

text \<open>
  What loading a ledger file can give: no file (or an empty one), and then the outcome of creating
  it with the empty state; a decoded state; or an error.
\<close>

datatype 's ledger_file = FileMissing "goerr option" | FileState 's | FileError goerr

definition load_state :: "'s \<Rightarrow> 's ledger_file \<Rightarrow> 's result" where
  "load_state start file = (case file of FileMissing e \<Rightarrow> guard_result e (Inr start)
     | FileState s \<Rightarrow> Inr s | FileError e \<Rightarrow> Inl e)"

definition OpenInputLedger ::
  "goerr option \<Rightarrow> InputLimits \<Rightarrow> inputLedgerState ledger_file \<Rightarrow> InputLedgerD result" where
  "OpenInputLedger layout_err lim file =
     guard_result layout_err
      (if MaxRecords lim < 1 \<or> MaxMetadataBytes lim < 256 \<or> MaxQueuedBytes lim < 1
       then Inl (Errorf ''invalid persistent input limits'')
       else bind_result (load_state empty_ledger_state file) (\<lambda>st.
         guard_result (validateInputLedgerState st lim)
           (Inr \<lparr>ld_limits = lim, ld_state = st, ld_disk = st\<rparr>)))"

definition commit ::
  "(inputLedgerState \<Rightarrow> int) \<Rightarrow> file_write \<Rightarrow> InputLedgerD \<Rightarrow> inputLedgerState
     \<Rightarrow> goerr option \<times> InputLedgerD" where
  "commit marshal_len io l nxt =
     (case validateInputLedgerState nxt (ld_limits l) of
        Some e \<Rightarrow> (Some e, l)
      | None \<Rightarrow>
          if marshal_len nxt + 1 > MaxMetadataBytes (ld_limits l)
          then (Some inputHistoryFailure, l)
          else case io of
              WriteFailed e \<Rightarrow> (Some e, l)
            | WriteUnsynced e \<Rightarrow> (Some e, l\<lparr>ld_disk := nxt\<rparr>)
            | WriteOk \<Rightarrow> (None, l\<lparr>ld_state := nxt, ld_disk := nxt\<rparr>))"

definition refuse :: "InputLedgerD \<Rightarrow> InputAdmission" where
  "refuse l = \<lparr>ia_Record = zero_ledger_record, ia_AcceptedBytes = 0,
     ia_NextOffset = st_NextOffset (ld_state l), ia_Duplicate = False, ia_NeedsDelivery = False\<rparr>"

definition replay :: "InputLedgerD \<Rightarrow> LedgerRecord \<Rightarrow> InputAdmission" where
  "replay l r = \<lparr>ia_Record = r, ia_AcceptedBytes = 0, ia_NextOffset = st_NextOffset (ld_state l),
     ia_Duplicate = True, ia_NeedsDelivery = \<not> lr_Delivered r\<rparr>"

definition chars_ledger_record :: "(string \<Rightarrow> string) \<Rightarrow> int \<Rightarrow> string \<Rightarrow> LedgerRecord" where
  "chars_ledger_record sha off b = \<lparr>lr_Kind = ''chars'', lr_Offset = off,
     lr_Length = int (length b), lr_SHA256 = sha b, lr_Delivered = False\<rparr>"

definition eof_ledger_record :: "int \<Rightarrow> LedgerRecord" where
  "eof_ledger_record off = zero_ledger_record\<lparr>lr_Kind := ''eof'', lr_Offset := off\<rparr>"

definition append_chars :: "inputLedgerState \<Rightarrow> LedgerRecord \<Rightarrow> inputLedgerState" where
  "append_chars st r = st\<lparr>st_Records := st_Records st @ [r],
     st_NextOffset := int64 (st_NextOffset st + lr_Length r),
     st_AcceptedBytes := int64 (st_AcceptedBytes st + lr_Length r),
     st_QueuedBytes := int64 (st_QueuedBytes st + lr_Length r)\<rparr>"

definition append_eof :: "inputLedgerState \<Rightarrow> LedgerRecord \<Rightarrow> inputLedgerState" where
  "append_eof st r = st\<lparr>st_Records := st_Records st @ [r], st_EOFAccepted := True\<rparr>"

definition AcceptCharsD ::
  "(inputLedgerState \<Rightarrow> int) \<Rightarrow> (string \<Rightarrow> string) \<Rightarrow> file_write \<Rightarrow> InputLedgerD \<Rightarrow> int \<Rightarrow> string
     \<Rightarrow> InputAdmission \<times> goerr option \<times> InputLedgerD" where
  "AcceptCharsD marshal_len sha io l off data =
     (let st = ld_state l; want = chars_ledger_record sha off data in
      if data = [] then (refuse l, Some (Errorf ''empty input''), l)
      else case inputRecordAt (st_Records st) off of
          Some existing \<Rightarrow>
            if sameInputIdentity existing want then (replay l existing, None, l)
            else (refuse l, Some (Errorf ''input_conflict''), l)
        | None \<Rightarrow>
            if st_EOFAccepted st then (refuse l, Some (Errorf ''input_closed''), l)
            else if off < st_NextOffset st then (refuse l, Some (Errorf ''input_conflict''), l)
            else if off > st_NextOffset st then (refuse l, Some (Errorf ''input_gap''), l)
            else if int64 (st_QueuedBytes st + int (length data)) > MaxQueuedBytes (ld_limits l)
            then (refuse l, Some (Errorf ''input_backpressure''), l)
            else if int (length (st_Records st)) \<ge> MaxRecords (ld_limits l)
            then (refuse l, Some inputHistoryFailure, l)
            else let nxt = append_chars st want in
              case commit marshal_len io l nxt of
                (Some e, l') \<Rightarrow> (refuse l, Some e, l')
              | (None, l') \<Rightarrow>
                  (\<lparr>ia_Record = want, ia_AcceptedBytes = int (length data),
                    ia_NextOffset = st_NextOffset nxt, ia_Duplicate = False,
                    ia_NeedsDelivery = True\<rparr>, None, l'))"

definition AcceptEOFD ::
  "(inputLedgerState \<Rightarrow> int) \<Rightarrow> file_write \<Rightarrow> InputLedgerD \<Rightarrow> int
     \<Rightarrow> InputAdmission \<times> goerr option \<times> InputLedgerD" where
  "AcceptEOFD marshal_len io l off =
     (let st = ld_state l; want = eof_ledger_record off in
      case inputRecordAt (st_Records st) off of
          Some existing \<Rightarrow>
            if sameInputIdentity existing want then (replay l existing, None, l)
            else (refuse l, Some (Errorf ''input_conflict''), l)
        | None \<Rightarrow>
            if st_EOFAccepted st then (refuse l, Some (Errorf ''input_closed''), l)
            else if off < st_NextOffset st then (refuse l, Some (Errorf ''input_conflict''), l)
            else if off > st_NextOffset st then (refuse l, Some (Errorf ''input_gap''), l)
            else if int (length (st_Records st)) \<ge> MaxRecords (ld_limits l)
            then (refuse l, Some inputHistoryFailure, l)
            else let nxt = append_eof st want in
              case commit marshal_len io l nxt of
                (Some e, l') \<Rightarrow> (refuse l, Some e, l')
              | (None, l') \<Rightarrow>
                  (\<lparr>ia_Record = want, ia_AcceptedBytes = 0, ia_NextOffset = st_NextOffset nxt,
                    ia_Duplicate = False, ia_NeedsDelivery = True\<rparr>, None, l'))"

text \<open>The index loop of \<open>MarkDelivered\<close> and of the kill ledger's \<open>Record\<close>.\<close>

fun index_of :: "('a \<Rightarrow> bool) \<Rightarrow> 'a list \<Rightarrow> nat option" where
  "index_of p [] = None"
| "index_of p (x # xs) = (if p x then Some 0 else map_option Suc (index_of p xs))"

definition mark_delivered :: "inputLedgerState \<Rightarrow> nat \<Rightarrow> inputLedgerState" where
  "mark_delivered st i =
     (let r = st_Records st ! i; st' = st\<lparr>st_Records := (st_Records st)[i := r\<lparr>lr_Delivered := True\<rparr>]\<rparr> in
      if lr_Kind r = ''chars''
      then st'\<lparr>st_DeliveredBytes := int64 (st_DeliveredBytes st + lr_Length r),
               st_QueuedBytes := int64 (st_QueuedBytes st - lr_Length r)\<rparr>
      else st'\<lparr>st_EOFDelivered := True\<rparr>)"

definition MarkDelivered ::
  "(inputLedgerState \<Rightarrow> int) \<Rightarrow> file_write \<Rightarrow> InputLedgerD \<Rightarrow> LedgerRecord
     \<Rightarrow> goerr option \<times> InputLedgerD" where
  "MarkDelivered marshal_len io l rec =
     (let st = ld_state l in
      case index_of (\<lambda>r. lr_Offset r = lr_Offset rec) (st_Records st) of
        None \<Rightarrow> (Some (Errorf ''input_conflict''), l)
      | Some i \<Rightarrow>
          if \<not> sameInputIdentity (st_Records st ! i) rec
          then (Some (Errorf ''input_conflict''), l)
          else if lr_Delivered (st_Records st ! i) then (None, l)
          else commit marshal_len io l (mark_delivered st i))"

record InputSnapshot =
  sn_NextOffset :: int
  sn_AcceptedBytes :: int
  sn_DeliveredBytes :: int
  sn_QueuedBytes :: int
  sn_EOFAccepted :: bool
  sn_EOFDelivered :: bool
  sn_Records :: int

definition SnapshotD :: "InputLedgerD \<Rightarrow> InputSnapshot" where
  "SnapshotD l = \<lparr>sn_NextOffset = st_NextOffset (ld_state l),
     sn_AcceptedBytes = st_AcceptedBytes (ld_state l),
     sn_DeliveredBytes = st_DeliveredBytes (ld_state l), sn_QueuedBytes = st_QueuedBytes (ld_state l),
     sn_EOFAccepted = st_EOFAccepted (ld_state l), sn_EOFDelivered = st_EOFDelivered (ld_state l),
     sn_Records = int (length (st_Records (ld_state l)))\<rparr>"

section \<open>The invariant of a ledger state\<close>

definition chars_len :: "LedgerRecord \<Rightarrow> int" where
  "chars_len r = (if lr_Kind r = ''chars'' then lr_Length r else 0)"

definition all_bytes :: "LedgerRecord list \<Rightarrow> int" where
  "all_bytes rs = sum_list (map chars_len rs)"

definition delivered_bytes :: "LedgerRecord list \<Rightarrow> int" where
  "delivered_bytes rs = sum_list (map chars_len (filter lr_Delivered rs))"

definition queued_bytes :: "LedgerRecord list \<Rightarrow> int" where
  "queued_bytes rs = sum_list (map chars_len (filter (\<lambda>r. \<not> lr_Delivered r) rs))"

lemmas bytes_defs = all_bytes_def delivered_bytes_def queued_bytes_def

lemma bytes_Nil [simp]:
  "all_bytes [] = 0" "delivered_bytes [] = 0" "queued_bytes [] = 0"
  by (simp_all add: bytes_defs)

lemma bytes_Cons [simp]:
  "all_bytes (r # rs) = chars_len r + all_bytes rs"
  "delivered_bytes (r # rs) = (if lr_Delivered r then chars_len r else 0) + delivered_bytes rs"
  "queued_bytes (r # rs) = (if lr_Delivered r then 0 else chars_len r) + queued_bytes rs"
  by (simp_all add: bytes_defs)

lemma bytes_append [simp]:
  "all_bytes (xs @ ys) = all_bytes xs + all_bytes ys"
  "delivered_bytes (xs @ ys) = delivered_bytes xs + delivered_bytes ys"
  "queued_bytes (xs @ ys) = queued_bytes xs + queued_bytes ys"
  by (simp_all add: bytes_defs)

lemma delivered_plus_queued: "delivered_bytes rs + queued_bytes rs = all_bytes rs"
  by (induction rs) auto

text \<open>
  Well-formed records: consecutive offsets without wrap-around, chunks with a digest, and at most
  one end of file, at the end.
\<close>

fun good_records :: "bool \<Rightarrow> int \<Rightarrow> LedgerRecord list \<Rightarrow> bool" where
  "good_records ea c [] \<longleftrightarrow> True"
| "good_records ea c (r # rs) \<longleftrightarrow> lr_Offset r = c \<and>
     (if lr_Kind r = ''chars''
      then 1 \<le> lr_Length r \<and> validDigest (lr_SHA256 r) \<and> good_records ea (c + lr_Length r) rs
      else lr_Kind r = ''eof'' \<and> lr_Length r = 0 \<and> lr_SHA256 r = [] \<and> rs = [] \<and> (lr_Delivered r \<longrightarrow> ea))"

definition has_eof :: "LedgerRecord list \<Rightarrow> bool" where
  "has_eof rs \<longleftrightarrow> rs \<noteq> [] \<and> lr_Kind (last rs) = ''eof''"

definition eof_delivered :: "LedgerRecord list \<Rightarrow> bool" where
  "eof_delivered rs \<longleftrightarrow> has_eof rs \<and> lr_Delivered (last rs)"

definition ledger_inv :: "InputLimits \<Rightarrow> inputLedgerState \<Rightarrow> bool" where
  "ledger_inv lim st \<longleftrightarrow>
     st_SchemaVersion st = ledgerSchemaVersion \<and> good_records (st_EOFAccepted st) 0 (st_Records st) \<and>
     all_bytes (st_Records st) < 2 ^ 63 \<and>
     st_NextOffset st = all_bytes (st_Records st) \<and> st_AcceptedBytes st = all_bytes (st_Records st) \<and>
     st_DeliveredBytes st = delivered_bytes (st_Records st) \<and>
     st_QueuedBytes st = queued_bytes (st_Records st) \<and> st_QueuedBytes st \<le> MaxQueuedBytes lim \<and>
     int (length (st_Records st)) \<le> MaxRecords lim \<and>
     st_EOFAccepted st = has_eof (st_Records st) \<and> st_EOFDelivered st = eof_delivered (st_Records st)"

lemma eof_Nil [simp]: "\<not> has_eof []" "\<not> eof_delivered []"
  by (simp_all add: has_eof_def eof_delivered_def)

lemma has_eof_Cons:
  "has_eof (r # rs) = (if rs = [] then lr_Kind r = ''eof'' else has_eof rs)"
  by (simp add: has_eof_def)

lemma eof_delivered_Cons:
  "eof_delivered (r # rs) = (if rs = [] then lr_Kind r = ''eof'' \<and> lr_Delivered r else eof_delivered rs)"
  by (simp add: eof_delivered_def has_eof_def)

lemma good_bytes_nonneg:
  "good_records ea c rs \<Longrightarrow> 0 \<le> delivered_bytes rs \<and> 0 \<le> queued_bytes rs \<and> 0 \<le> all_bytes rs"
  by (induction ea c rs rule: good_records.induct) (auto simp: chars_len_def split: if_splits)

text \<open>On well-formed records the loop computes the sums, without wrap-around.\<close>

lemma scan_good:
  assumes "good_records ea (sc_cursor s) rs" "\<not> sc_eofAccepted s" "\<not> sc_eofDelivered s"
    and "0 \<le> sc_cursor s" "sc_cursor s + all_bytes rs < 2 ^ 63"
    and "0 \<le> sc_accepted s" "sc_accepted s + all_bytes rs < 2 ^ 63"
    and "0 \<le> sc_delivered s" "sc_delivered s + delivered_bytes rs < 2 ^ 63"
    and "0 \<le> sc_queued s" "sc_queued s + queued_bytes rs < 2 ^ 63"
  shows "scan_records ea rs s = Some \<lparr>sc_cursor = sc_cursor s + all_bytes rs,
    sc_accepted = sc_accepted s + all_bytes rs, sc_delivered = sc_delivered s + delivered_bytes rs,
    sc_queued = sc_queued s + queued_bytes rs, sc_eofAccepted = has_eof rs,
    sc_eofDelivered = eof_delivered rs\<rparr>"
  using assms
proof (induction rs arbitrary: s)
  case Nil
  then show ?case by (cases s) (simp add: has_eof_def eof_delivered_def)
next
  case (Cons r rs)
  show ?case
  proof (cases "lr_Kind r = ''chars''")
    case True
    have g: "good_records ea (sc_cursor s + lr_Length r) rs" "1 \<le> lr_Length r"
      using Cons.prems(1) True by auto
    note nn = good_bytes_nonneg [OF g(1)]
    have w: "int64 (sc_cursor s + lr_Length r) = sc_cursor s + lr_Length r"
      "int64 (sc_accepted s + lr_Length r) = sc_accepted s + lr_Length r"
      "lr_Delivered r \<Longrightarrow> int64 (sc_delivered s + lr_Length r) = sc_delivered s + lr_Length r"
      "\<not> lr_Delivered r \<Longrightarrow> int64 (sc_queued s + lr_Length r) = sc_queued s + lr_Length r"
      using Cons.prems nn g(2) True by (auto intro!: int64_id simp: chars_len_def)
    show ?thesis
      using Cons.prems True g nn w
      by (cases "lr_Delivered r") (simp_all add: Cons.IH chars_len_def has_eof_Cons eof_delivered_Cons)
  next
    case False
    then show ?thesis using Cons.prems
      by (cases s) (auto simp: chars_len_def has_eof_def eof_delivered_def)
  qed
qed

lemma ledger_inv_good:
  "ledger_inv lim st \<Longrightarrow> good_records (st_EOFAccepted st) 0 (st_Records st)"
  unfolding ledger_inv_def by blast

text \<open>The invariant is what validation accepts.\<close>

lemma ledger_inv_valid: "ledger_inv lim st \<Longrightarrow> validateInputLedgerState st lim = None"
proof -
  assume i: "ledger_inv lim st"
  note g = ledger_inv_good [OF i]
  have b: "all_bytes (st_Records st) < 2 ^ 63" using i by (simp add: ledger_inv_def)
  note nn = good_bytes_nonneg [OF g] and dq = delivered_plus_queued [of "st_Records st"]
  have "scan_records (st_EOFAccepted st) (st_Records st) scan_start =
    Some \<lparr>sc_cursor = all_bytes (st_Records st), sc_accepted = all_bytes (st_Records st),
      sc_delivered = delivered_bytes (st_Records st), sc_queued = queued_bytes (st_Records st),
      sc_eofAccepted = has_eof (st_Records st), sc_eofDelivered = eof_delivered (st_Records st)\<rparr>"
    using scan_good [of "st_EOFAccepted st" scan_start "st_Records st"] g nn dq b
    by (simp add: scan_start_def)
  then show ?thesis
    using i nn dq by (simp add: validateInputLedgerState_def ledger_inv_def)
qed

lemma ledger_inv_empty:
  "1 \<le> MaxRecords lim \<Longrightarrow> 1 \<le> MaxQueuedBytes lim \<Longrightarrow> ledger_inv lim empty_ledger_state"
  by (simp add: ledger_inv_def empty_ledger_state_def has_eof_def eof_delivered_def)

section \<open>The operations keep the invariant\<close>

lemma good_records_snoc_chars:
  "good_records ea c rs \<Longrightarrow> \<not> has_eof rs \<Longrightarrow> lr_Kind r = ''chars'' \<Longrightarrow>
    lr_Offset r = c + all_bytes rs \<Longrightarrow> 1 \<le> lr_Length r \<Longrightarrow> validDigest (lr_SHA256 r) \<Longrightarrow>
    good_records ea c (rs @ [r])"
  by (induction ea c rs rule: good_records.induct)
    (auto simp: chars_len_def has_eof_Cons split: if_splits)

lemma good_records_snoc_eof:
  "good_records ea c rs \<Longrightarrow> \<not> has_eof rs \<Longrightarrow> lr_Kind r = ''eof'' \<Longrightarrow> \<not> lr_Delivered r \<Longrightarrow>
    lr_Offset r = c + all_bytes rs \<Longrightarrow> lr_Length r = 0 \<Longrightarrow> lr_SHA256 r = [] \<Longrightarrow>
    good_records True c (rs @ [r])"
  by (induction ea c rs rule: good_records.induct)
    (auto simp: chars_len_def has_eof_Cons split: if_splits)

lemma good_records_deliver:
  "good_records ea c rs \<Longrightarrow> i < length rs \<Longrightarrow> (lr_Kind (rs ! i) = ''eof'' \<longrightarrow> ea) \<Longrightarrow>
    good_records ea c (rs[i := (rs ! i)\<lparr>lr_Delivered := True\<rparr>])"
  by (induction ea c rs arbitrary: i rule: good_records.induct)
    (auto split: nat.splits if_splits)

lemma deliver_bytes:
  "i < length rs \<Longrightarrow> \<not> lr_Delivered (rs ! i) \<Longrightarrow>
    (let rs' = rs[i := (rs ! i)\<lparr>lr_Delivered := True\<rparr>] in
     all_bytes rs' = all_bytes rs \<and> delivered_bytes rs' = delivered_bytes rs + chars_len (rs ! i) \<and>
     queued_bytes rs' = queued_bytes rs - chars_len (rs ! i))"
proof (induction rs arbitrary: i)
  case (Cons r rs)
  then show ?case by (cases i) (auto simp: Let_def chars_len_def)
qed simp

lemma deliver_eof:
  assumes "good_records ea c rs" "i < length rs" "\<not> lr_Delivered (rs ! i)"
  defines "rs' \<equiv> rs[i := (rs ! i)\<lparr>lr_Delivered := True\<rparr>]"
  shows "has_eof rs' = has_eof rs"
    "eof_delivered rs' = (if lr_Kind (rs ! i) = ''chars'' then eof_delivered rs else True)"
  using assms(1-3) unfolding rs'_def
proof (induction rs arbitrary: i c)
  case (Cons r rs)
  {
    case 1
    then show ?case using Cons.IH(1)
      by (cases i) (auto simp: has_eof_Cons split: if_splits)
  next
    case 2
    then show ?case using Cons.IH(2)
      by (cases i) (auto simp: eof_delivered_Cons split: if_splits)
  }
qed simp_all

lemma append_chars_inv:
  assumes inv: "ledger_inv lim st" and ok: "validateInputLedgerState (append_chars st r) lim = None"
    and r: "lr_Kind r = ''chars''" "lr_Offset r = st_NextOffset st" "lr_Length r < 2 ^ 63"
      "\<not> lr_Delivered r" "\<not> st_EOFAccepted st" "validDigest (lr_SHA256 r)" "1 \<le> lr_Length r"
  shows "ledger_inv lim (append_chars st r)"
proof -
  have nn: "0 \<le> int64 (st_NextOffset st + lr_Length r)" "0 \<le> int64 (st_QueuedBytes st + lr_Length r)"
    using ok by (auto simp: validateInputLedgerState_def append_chars_def split: if_splits)
  have g: "good_records False 0 (st_Records st)" and e: "\<not> has_eof (st_Records st)"
    using inv r by (auto simp: ledger_inv_def)
  note b = good_bytes_nonneg [OF g] and dq = delivered_plus_queued [of "st_Records st"]
  have w: "int64 (st_NextOffset st + lr_Length r) = st_NextOffset st + lr_Length r"
    "int64 (st_QueuedBytes st + lr_Length r) = st_QueuedBytes st + lr_Length r"
    using inv nn b dq r by (auto intro!: int64_add_exact simp: ledger_inv_def)
  have lt: "int64 (st_NextOffset st + lr_Length r) < 2 ^ 63" by (rule int64_bounds)
  have q: "int64 (st_QueuedBytes st + lr_Length r) \<le> MaxQueuedBytes lim"
    "int (length (st_Records st)) + 1 \<le> MaxRecords lim"
    using ok by (auto simp: validateInputLedgerState_def append_chars_def split: if_splits)
  show ?thesis
    using inv r w lt q e good_records_snoc_chars [OF g e, of r]
    by (auto simp: ledger_inv_def append_chars_def chars_len_def has_eof_def eof_delivered_def)
qed

lemma append_eof_inv:
  assumes inv: "ledger_inv lim st" and ok: "int (length (st_Records st)) < MaxRecords lim"
    and "\<not> st_EOFAccepted st"
  shows "ledger_inv lim (append_eof st (eof_ledger_record (st_NextOffset st)))"
proof -
  have g: "good_records False 0 (st_Records st)" and e: "\<not> has_eof (st_Records st)"
    using assms by (auto simp: ledger_inv_def)
  show ?thesis
    using assms e good_records_snoc_eof [OF g e]
    by (auto simp: ledger_inv_def append_eof_def eof_ledger_record_def zero_ledger_record_def
      chars_len_def has_eof_def eof_delivered_def)
qed

lemma good_eof_last:
  "good_records ea c rs \<Longrightarrow> j < length rs \<Longrightarrow> lr_Kind (rs ! j) = ''eof'' \<Longrightarrow> has_eof rs"
proof (induction rs arbitrary: j c)
  case (Cons r rs)
  show ?case
  proof (cases "lr_Kind r = ''chars''")
    case True
    with Cons.prems obtain k where k: "j = Suc k" "k < length rs" by (cases j) auto
    with True Cons.prems Cons.IH [of "c + lr_Length r" k] have "has_eof rs" by simp
    then show ?thesis by (auto simp: has_eof_Cons)
  qed (use Cons.prems in \<open>simp add: has_eof_def\<close>)
qed simp

lemma good_chars_len: "good_records ea c rs \<Longrightarrow> j < length rs \<Longrightarrow> 0 \<le> chars_len (rs ! j)"
proof (induction rs arbitrary: j c)
  case (Cons r rs)
  show ?case
  proof (cases j)
    case (Suc k)
    then show ?thesis using Cons.prems Cons.IH [of "c + lr_Length r" k] by (auto split: if_splits)
  qed (use Cons.prems in \<open>auto simp: chars_len_def\<close>)
qed simp

lemma mark_delivered_inv:
  assumes inv: "ledger_inv lim st" and i: "i < length (st_Records st)" "\<not> lr_Delivered (st_Records st ! i)"
  shows "ledger_inv lim (mark_delivered st i)"
proof -
  let ?rs = "st_Records st" and ?r = "st_Records st ! i"
  note g = ledger_inv_good [OF inv]
  have k: "lr_Kind ?r = ''eof'' \<longrightarrow> st_EOFAccepted st"
  proof
    assume a: "lr_Kind ?r = ''eof''"
    from good_eof_last [OF g i(1) a] inv show "st_EOFAccepted st" unfolding ledger_inv_def by blast
  qed
  have g': "good_records (st_EOFAccepted st) 0 (?rs[i := ?r\<lparr>lr_Delivered := True\<rparr>])"
    by (rule good_records_deliver [OF g i(1) k])
  note b = deliver_bytes [OF i] and e = deliver_eof [OF g i]
    and nn = good_bytes_nonneg [OF g'] and dq = delivered_plus_queued [of ?rs]
  have w: "int64 (delivered_bytes ?rs + chars_len ?r) = delivered_bytes ?rs + chars_len ?r"
    "int64 (queued_bytes ?rs - chars_len ?r) = queued_bytes ?rs - chars_len ?r"
    using inv nn b dq by (auto intro!: int64_id simp: ledger_inv_def Let_def)
  have c: "0 \<le> chars_len ?r" by (rule good_chars_len [OF g i(1)])
  show ?thesis
    using inv g' b e w c
    by (cases "lr_Kind ?r = ''chars''")
      (simp_all add: ledger_inv_def mark_delivered_def Let_def chars_len_def)
qed

section \<open>Durability of the input ledger\<close>

definition durable :: "InputLedgerD \<Rightarrow> bool" where
  "durable l \<longleftrightarrow> ledger_inv (ld_limits l) (ld_state l) \<and> ledger_inv (ld_limits l) (ld_disk l)"

lemma commit_durable:
  assumes "durable l" "commit ml io l nxt = (e, l')"
    and "validateInputLedgerState nxt (ld_limits l) = None \<Longrightarrow> ledger_inv (ld_limits l) nxt"
  shows "durable l' \<and> ld_limits l' = ld_limits l"
  using assms by (auto simp: commit_def durable_def split: option.splits if_splits file_write.splits)

lemma AcceptCharsD_durable:
  assumes d: "durable l" and a: "AcceptCharsD ml sha io l off b = (r, e, l')"
    and b: "int (length b) < 2 ^ 63" and sha: "\<forall>b. validDigest (sha b)"
  shows "durable l' \<and> ld_limits l' = ld_limits l"
proof (cases "\<exists>e0. commit ml io l (append_chars (ld_state l) (chars_ledger_record sha off b)) = (e0, l')
    \<and> off = st_NextOffset (ld_state l) \<and> \<not> st_EOFAccepted (ld_state l) \<and> b \<noteq> []")
  case True
  then obtain e0 where c: "commit ml io l (append_chars (ld_state l) (chars_ledger_record sha off b)) = (e0, l')"
    and o: "off = st_NextOffset (ld_state l)" "\<not> st_EOFAccepted (ld_state l)" "b \<noteq> []" by blast
  have "1 \<le> int (length b)" using o(3) by (cases b) simp_all
  with d o b sha show ?thesis
    by (intro commit_durable [OF d c] append_chars_inv)
      (simp_all add: durable_def chars_ledger_record_def)
next
  case False
  with a have "l' = l"
    by (auto simp: AcceptCharsD_def Let_def split: if_splits option.splits prod.splits)
  with d show ?thesis by simp
qed

lemma AcceptEOFD_durable:
  assumes d: "durable l" and a: "AcceptEOFD ml io l off = (r, e, l')"
  shows "durable l' \<and> ld_limits l' = ld_limits l"
proof (cases "\<exists>e0. commit ml io l (append_eof (ld_state l) (eof_ledger_record off)) = (e0, l')
    \<and> off = st_NextOffset (ld_state l) \<and> \<not> st_EOFAccepted (ld_state l)
    \<and> int (length (st_Records (ld_state l))) < MaxRecords (ld_limits l)")
  case True
  then obtain e0 where c: "commit ml io l (append_eof (ld_state l) (eof_ledger_record off)) = (e0, l')"
    and o: "off = st_NextOffset (ld_state l)" "\<not> st_EOFAccepted (ld_state l)"
      "int (length (st_Records (ld_state l))) < MaxRecords (ld_limits l)" by blast
  from d o show ?thesis
    by (intro commit_durable [OF d c]) (simp add: durable_def append_eof_inv)
next
  case False
  with a have "l' = l"
    by (auto simp: AcceptEOFD_def Let_def split: if_splits option.splits prod.splits)
  with d show ?thesis by simp
qed

lemma index_of_Some: "index_of p xs = Some i \<Longrightarrow> i < length xs \<and> p (xs ! i)"
  by (induction xs arbitrary: i) (auto split: if_splits)

lemma MarkDelivered_durable:
  assumes d: "durable l" and m: "MarkDelivered ml io l rec = (e, l')"
  shows "durable l' \<and> ld_limits l' = ld_limits l"
proof (cases "\<exists>i. index_of (\<lambda>r. lr_Offset r = lr_Offset rec) (st_Records (ld_state l)) = Some i \<and>
    \<not> lr_Delivered (st_Records (ld_state l) ! i) \<and>
    commit ml io l (mark_delivered (ld_state l) i) = (e, l')")
  case True
  then obtain i where i: "index_of (\<lambda>r. lr_Offset r = lr_Offset rec) (st_Records (ld_state l)) = Some i"
    "\<not> lr_Delivered (st_Records (ld_state l) ! i)"
    and c: "commit ml io l (mark_delivered (ld_state l) i) = (e, l')" by blast
  from index_of_Some [OF i(1)] i(2) d show ?thesis
    by (intro commit_durable [OF d c] mark_delivered_inv) (simp_all add: durable_def)
next
  case False
  with m have "l' = l" by (auto simp: MarkDelivered_def Let_def split: if_splits option.splits)
  with d show ?thesis by simp
qed

text \<open>
  A supervisor's life: the three operations, each with the outcome of its file write, and a crash
  followed by reopening the ledger from its file.
\<close>

datatype ledger_op =
    DoChars file_write int string
  | DoEOF file_write int
  | DoDelivered file_write LedgerRecord
  | Reopen

definition reopen :: "InputLedgerD \<Rightarrow> InputLedgerD result" where
  "reopen l = OpenInputLedger None (ld_limits l) (FileState (ld_disk l))"

fun ledger_step ::
  "(inputLedgerState \<Rightarrow> int) \<Rightarrow> (string \<Rightarrow> string) \<Rightarrow> InputLedgerD \<Rightarrow> ledger_op \<Rightarrow> InputLedgerD" where
  "ledger_step ml sha l (DoChars io off b) = snd (snd (AcceptCharsD ml sha io l off b))"
| "ledger_step ml sha l (DoEOF io off) = snd (snd (AcceptEOFD ml io l off))"
| "ledger_step ml sha l (DoDelivered io rec) = snd (MarkDelivered ml io l rec)"
| "ledger_step ml sha l Reopen = (case reopen l of Inl e \<Rightarrow> l | Inr l' \<Rightarrow> l')"

fun op_bytes :: "ledger_op \<Rightarrow> int" where
  "op_bytes (DoChars io off b) = int (length b)"
| "op_bytes _ = 0"

definition good_limits :: "InputLimits \<Rightarrow> bool" where
  "good_limits lim \<longleftrightarrow> 1 \<le> MaxRecords lim \<and> 256 \<le> MaxMetadataBytes lim \<and> 1 \<le> MaxQueuedBytes lim"

lemma reopen_durable:
  assumes "durable l" "good_limits (ld_limits l)"
  shows "reopen l = Inr \<lparr>ld_limits = ld_limits l, ld_state = ld_disk l, ld_disk = ld_disk l\<rparr>"
proof -
  have "validateInputLedgerState (ld_disk l) (ld_limits l) = None"
    using assms(1) by (simp add: durable_def ledger_inv_valid)
  with assms(2) show ?thesis
    by (simp add: reopen_def OpenInputLedger_def load_state_def good_limits_def)
qed

lemma ledger_step_durable:
  assumes "durable l" "good_limits (ld_limits l)" "\<forall>b. validDigest (sha b)" "op_bytes op < 2 ^ 63"
  shows "durable (ledger_step ml sha l op) \<and> ld_limits (ledger_step ml sha l op) = ld_limits l"
proof (cases op)
  case (DoChars io off b)
  obtain r e l' where a: "AcceptCharsD ml sha io l off b = (r, e, l')" by (metis surj_pair)
  with AcceptCharsD_durable [OF assms(1) a _ assms(3)] DoChars assms(4) show ?thesis by simp
next
  case (DoEOF io off)
  obtain r e l' where a: "AcceptEOFD ml io l off = (r, e, l')" by (metis surj_pair)
  with AcceptEOFD_durable [OF assms(1) a] DoEOF show ?thesis by simp
next
  case (DoDelivered io rec)
  obtain e l' where a: "MarkDelivered ml io l rec = (e, l')" by fastforce
  with MarkDelivered_durable [OF assms(1) a] DoDelivered show ?thesis by simp
next
  case Reopen
  with reopen_durable [OF assms(1,2)] assms(1) show ?thesis by (simp add: durable_def)
qed

definition ledger_run ::
  "(inputLedgerState \<Rightarrow> int) \<Rightarrow> (string \<Rightarrow> string) \<Rightarrow> InputLedgerD \<Rightarrow> ledger_op list \<Rightarrow> InputLedgerD" where
  "ledger_run ml sha l ops = foldl (ledger_step ml sha) l ops"

lemma ledger_run_durable:
  assumes "durable l" "good_limits (ld_limits l)" "\<forall>b. validDigest (sha b)"
    and "\<forall>op\<in>set ops. op_bytes op < 2 ^ 63"
  shows "durable (ledger_run ml sha l ops) \<and> ld_limits (ledger_run ml sha l ops) = ld_limits l"
  using assms unfolding ledger_run_def
proof (induction ops arbitrary: l)
  case (Cons op ops)
  have s: "durable (ledger_step ml sha l op)" "ld_limits (ledger_step ml sha l op) = ld_limits l"
    using ledger_step_durable [OF Cons.prems(1-3)] Cons.prems(4) by simp_all
  with Cons.IH [OF s(1)] Cons.prems show ?case by simp
qed simp

lemma OpenInputLedger_durable:
  assumes "OpenInputLedger le lim (FileMissing ce) = Inr l"
  shows "durable l \<and> good_limits lim \<and> ld_limits l = lim"
proof -
  have l: "good_limits lim" "l = \<lparr>ld_limits = lim, ld_state = empty_ledger_state, ld_disk = empty_ledger_state\<rparr>"
    using assms by (auto simp: OpenInputLedger_def load_state_def good_limits_def split: if_splits)
  then have "ledger_inv lim empty_ledger_state" by (intro ledger_inv_empty) (simp_all add: good_limits_def)
  with l show ?thesis by (simp add: durable_def)
qed

section \<open>The ledger provides the input contract\<close>

definition ledger_verdict :: "InputAdmission \<Rightarrow> goerr option \<Rightarrow> admission" where
  "ledger_verdict r e = (if e \<noteq> None then Refused else if ia_Duplicate r then Duplicate else Accepted)"

lemma ledger_verdict_Accepted [simp]:
  "ledger_verdict r e = Accepted \<longleftrightarrow> e = None \<and> \<not> ia_Duplicate r"
  "Accepted = ledger_verdict r e \<longleftrightarrow> e = None \<and> \<not> ia_Duplicate r"
  by (auto simp: ledger_verdict_def)

text \<open>
  The contract concerns the state a supervisor works with; what its file holds after a failed
  write shows only at the next opening.  The outcome of each write is given by \<open>io\<close>, which may
  depend on the state and the request.
\<close>

definition supervisor_submit ::
  "(inputLedgerState \<Rightarrow> int) \<Rightarrow> (string \<Rightarrow> string) \<Rightarrow> InputLimits \<Rightarrow> (inputLedgerState \<Rightarrow> request \<Rightarrow> file_write)
     \<Rightarrow> inputLedgerState \<Rightarrow> request \<Rightarrow> admission \<times> inputLedgerState" where
  "supervisor_submit ml sha lim io st r =
     (let l = \<lparr>ld_limits = lim, ld_state = st, ld_disk = st\<rparr>;
          (res, e, l') = (case r of Chars off b \<Rightarrow> AcceptCharsD ml sha (io st r) l off b
                                  | Eof off \<Rightarrow> AcceptEOFD ml (io st r) l off)
      in (ledger_verdict res e, ld_state l'))"

definition log_records :: "(string \<Rightarrow> string) \<Rightarrow> string list \<Rightarrow> bool \<Rightarrow> LedgerRecord list" where
  "log_records sha log c = map (\<lambda>(off, b). chars_ledger_record sha off b) (place 0 log) @
     (if c then [eof_ledger_record (total_bytes log)] else [])"

definition supervisor_rep ::
  "(string \<Rightarrow> string) \<Rightarrow> inputLedgerState \<Rightarrow> string list \<Rightarrow> bool \<Rightarrow> bool" where
  "supervisor_rep sha st log c \<longleftrightarrow> total_bytes log < 2 ^ 63 \<and> st_NextOffset st = total_bytes log \<and>
     st_EOFAccepted st = c \<and>
     map (lr_Delivered_update (\<lambda>_. False)) (st_Records st) = log_records sha log c"

lemma commit_Accepted:
  "commit ml io l nxt = (None, l') \<Longrightarrow> ld_state l' = nxt"
  by (auto simp: commit_def split: option.splits if_splits file_write.splits)

lemma commit_refused_state: "commit ml io l nxt = (Some e, l') \<Longrightarrow> ld_state l' = ld_state l"
  by (auto simp: commit_def split: option.splits if_splits file_write.splits)

lemma AcceptCharsD_accepted:
  assumes "AcceptCharsD ml sha io l off b = (r, None, l')" "\<not> ia_Duplicate r"
  shows "\<not> st_EOFAccepted (ld_state l) \<and> b \<noteq> [] \<and> off = st_NextOffset (ld_state l) \<and>
    ld_state l' = append_chars (ld_state l) (chars_ledger_record sha off b)"
  using assms by (auto simp: AcceptCharsD_def Let_def replay_def
    split: if_splits option.splits prod.splits dest: commit_Accepted)

lemma AcceptEOFD_accepted:
  assumes "AcceptEOFD ml io l off = (r, None, l')" "\<not> ia_Duplicate r"
  shows "\<not> st_EOFAccepted (ld_state l) \<and> off = st_NextOffset (ld_state l) \<and>
    ld_state l' = append_eof (ld_state l) (eof_ledger_record off)"
  using assms by (auto simp: AcceptEOFD_def Let_def replay_def
    split: if_splits option.splits prod.splits dest: commit_Accepted)

lemma AcceptCharsD_unchanged:
  "AcceptCharsD ml sha io l off b = (r, e, l') \<Longrightarrow> e \<noteq> None \<or> ia_Duplicate r \<Longrightarrow> ld_state l' = ld_state l"
  by (auto simp: AcceptCharsD_def Let_def split: if_splits option.splits prod.splits
    dest: commit_refused_state)

lemma AcceptEOFD_unchanged:
  "AcceptEOFD ml io l off = (r, e, l') \<Longrightarrow> e \<noteq> None \<or> ia_Duplicate r \<Longrightarrow> ld_state l' = ld_state l"
  by (auto simp: AcceptEOFD_def Let_def split: if_splits option.splits prod.splits
    dest: commit_refused_state)

interpretation supervisor_log: input_log "supervisor_submit ml sha lim io" "supervisor_rep sha"
  for ml sha lim io
proof
  fix l log c b off l'
  assume rep: "supervisor_rep sha l log c" and room: "total_bytes log + int (length b) < 2 ^ 63"
    and "supervisor_submit ml sha lim io l (Chars off b) = (Accepted, l')"
  then obtain r d where "AcceptCharsD ml sha (io l (Chars off b))
      \<lparr>ld_limits = lim, ld_state = l, ld_disk = l\<rparr> off b = (r, None, d)" "\<not> ia_Duplicate r" "l' = ld_state d"
    by (auto simp: supervisor_submit_def Let_def split: prod.splits)
  with AcceptCharsD_accepted [OF this(1,2)]
  have a: "\<not> st_EOFAccepted l" "b \<noteq> []" "off = st_NextOffset l"
    "l' = append_chars l (chars_ledger_record sha off b)" by simp_all
  have "int64 (total_bytes log + int (length b)) = total_bytes log + int (length b)"
    using room total_bytes_nonneg [of log] by (intro int64_id) simp_all
  then show "\<not> c \<and> off = total_bytes log \<and> b \<noteq> [] \<and> supervisor_rep sha l' (log @ [b]) False"
    using rep a room
    by (auto simp: supervisor_rep_def append_chars_def chars_ledger_record_def log_records_def place_append)
next
  fix l log c off l'
  assume rep: "supervisor_rep sha l log c" and "supervisor_submit ml sha lim io l (Eof off) = (Accepted, l')"
  then obtain r d where "AcceptEOFD ml (io l (Eof off))
      \<lparr>ld_limits = lim, ld_state = l, ld_disk = l\<rparr> off = (r, None, d)" "\<not> ia_Duplicate r" "l' = ld_state d"
    by (auto simp: supervisor_submit_def Let_def split: prod.splits)
  with AcceptEOFD_accepted [OF this(1,2)] rep
  show "\<not> c \<and> off = total_bytes log \<and> supervisor_rep sha l' log True"
    by (auto simp: supervisor_rep_def append_eof_def log_records_def eof_ledger_record_def
      zero_ledger_record_def)
next
  fix l log c r a l'
  assume "supervisor_submit ml sha lim io l r = (a, l')" "a \<noteq> Accepted"
  then show "l' = l"
    by (cases r) (auto simp: supervisor_submit_def Let_def split: prod.splits
      dest!: AcceptCharsD_unchanged AcceptEOFD_unchanged)
qed

lemma supervisor_rep_empty: "supervisor_rep sha empty_ledger_state [] False"
  by (simp add: supervisor_rep_def empty_ledger_state_def log_records_def)

lemma map_deliver:
  "i < length rs \<Longrightarrow> map (lr_Delivered_update (\<lambda>_. False)) (rs[i := (rs ! i)\<lparr>lr_Delivered := d\<rparr>])
    = map (lr_Delivered_update (\<lambda>_. False)) rs"
  by (rule nth_equalityI) (auto simp: nth_list_update)

text \<open>Deliveries do not disturb the accepted input.\<close>

lemma mark_delivered_rep:
  "supervisor_rep sha st log c \<Longrightarrow> i < length (st_Records st) \<Longrightarrow> supervisor_rep sha (mark_delivered st i) log c"
  by (simp add: supervisor_rep_def mark_delivered_def Let_def map_deliver)

section \<open>The persistent kill ledger\<close>

record KillRecord =
  kr_KillID :: string
  kr_Signal :: string
  kr_Attempted :: bool
  kr_Succeeded :: bool
  kr_Needed :: bool

record killLedgerState =
  kl_SchemaVersion :: int
  kl_Records :: "KillRecord list"

record KillLedgerD =
  kd_max :: int
  kd_state :: killLedgerState
  kd_disk :: killLedgerState

definition zero_kill_record :: KillRecord where
  "zero_kill_record = \<lparr>kr_KillID = [], kr_Signal = [], kr_Attempted = False, kr_Succeeded = False,
     kr_Needed = False\<rparr>"

definition known_signal :: "string \<Rightarrow> bool" where
  "known_signal s \<longleftrightarrow> s = ''INT'' \<or> s = ''TERM'' \<or> s = ''KILL''"

fun kill_records_ok :: "string list \<Rightarrow> KillRecord list \<Rightarrow> bool" where
  "kill_records_ok seen [] \<longleftrightarrow> True"
| "kill_records_ok seen (r # rs) \<longleftrightarrow>
     \<not> (\<not> valid_id (kr_KillID r) \<or> \<not> known_signal (kr_Signal r) \<or> (kr_Succeeded r \<and> \<not> kr_Attempted r)) \<and>
     kr_KillID r \<notin> set seen \<and> kill_records_ok (kr_KillID r # seen) rs"

definition validateKillLedgerState :: "killLedgerState \<Rightarrow> int \<Rightarrow> goerr option" where
  "validateKillLedgerState st mx =
     reject (kl_SchemaVersion st \<noteq> ledgerSchemaVersion \<or> int (length (kl_Records st)) > mx \<or>
             \<not> kill_records_ok [] (kl_Records st)) (Errorf ''invalid persistent kill ledger'')"

definition OpenKillLedger ::
  "goerr option \<Rightarrow> int \<Rightarrow> killLedgerState ledger_file \<Rightarrow> KillLedgerD result" where
  "OpenKillLedger layout_err mx file =
     guard_result layout_err
      (if mx < 1 then Inl (Errorf ''invalid persistent kill limit'')
       else bind_result
         (load_state \<lparr>kl_SchemaVersion = ledgerSchemaVersion, kl_Records = []\<rparr> file) (\<lambda>st.
           guard_result (validateKillLedgerState st mx)
             (Inr \<lparr>kd_max = mx, kd_state = st, kd_disk = st\<rparr>)))"

definition commitKill ::
  "file_write \<Rightarrow> KillLedgerD \<Rightarrow> killLedgerState \<Rightarrow> goerr option \<times> KillLedgerD" where
  "commitKill io l nxt =
     (case validateKillLedgerState nxt (kd_max l) of
        Some e \<Rightarrow> (Some e, l)
      | None \<Rightarrow> (case io of
            WriteFailed e \<Rightarrow> (Some e, l)
          | WriteUnsynced e \<Rightarrow> (Some e, l\<lparr>kd_disk := nxt\<rparr>)
          | WriteOk \<Rightarrow> (None, l\<lparr>kd_state := nxt, kd_disk := nxt\<rparr>)))"

definition AdmitD ::
  "file_write \<Rightarrow> KillLedgerD \<Rightarrow> string \<Rightarrow> string \<Rightarrow> bool
     \<Rightarrow> (KillRecord \<times> bool \<times> goerr option) \<times> KillLedgerD" where
  "AdmitD io l killID sig terminal =
     (if \<not> valid_id killID then ((zero_kill_record, False, Some (Errorf ''invalid kill_id'')), l)
      else if \<not> known_signal sig then ((zero_kill_record, False, Some (Errorf ''invalid signal'')), l)
      else case find (\<lambda>r. kr_KillID r = killID) (kl_Records (kd_state l)) of
          Some r \<Rightarrow>
            if kr_Signal r \<noteq> sig then ((zero_kill_record, False, Some (Errorf ''kill_conflict'')), l)
            else ((r, kr_Needed r \<and> \<not> kr_Attempted r, None), l)
        | None \<Rightarrow>
            if int (length (kl_Records (kd_state l))) \<ge> kd_max l
            then ((zero_kill_record, False,
                   Some (failure_New PersistentKillHistoryExhausted [(''reason'', ''record_limit'')]
                     (Some (Errorf ''persistent kill history exhausted'')))), l)
            else let r = zero_kill_record\<lparr>kr_KillID := killID, kr_Signal := sig, kr_Needed := \<not> terminal\<rparr>;
                     nxt = (kd_state l)\<lparr>kl_Records := kl_Records (kd_state l) @ [r]\<rparr>
              in case commitKill io l nxt of
                  (Some e, l') \<Rightarrow> ((zero_kill_record, False, Some e), l')
                | (None, l') \<Rightarrow> ((r, kr_Needed r, None), l'))"

definition RecordD :: "file_write \<Rightarrow> KillLedgerD \<Rightarrow> KillRecord \<Rightarrow> goerr option \<times> KillLedgerD" where
  "RecordD io l rec =
     (let rs = kl_Records (kd_state l) in
      case index_of (\<lambda>r. kr_KillID r = kr_KillID rec) rs of
        None \<Rightarrow> (Some (Errorf ''kill_conflict''), l)
      | Some i \<Rightarrow>
          if kr_Signal (rs ! i) \<noteq> kr_Signal rec then (Some (Errorf ''kill_conflict''), l)
          else commitKill io l ((kd_state l)\<lparr>kl_Records := rs[i := rec]\<rparr>))"

text \<open>
  A run of the kill ledger with reopenings: the identifiers whose signal the supervisor is told to
  send.
\<close>

datatype kill_op = KAdmit file_write string string bool | KRecord file_write KillRecord | KReopen

definition reopenKill :: "KillLedgerD \<Rightarrow> KillLedgerD result" where
  "reopenKill l = OpenKillLedger None (kd_max l) (FileState (kd_disk l))"

fun killD_step :: "KillLedgerD \<Rightarrow> kill_op \<Rightarrow> string list \<times> KillLedgerD" where
  "killD_step l (KAdmit io i sig terminal) =
     (case AdmitD io l i sig terminal of ((r, send, e), l') \<Rightarrow> (if send then [i] else [], l'))"
| "killD_step l (KRecord io rec) = ([], snd (RecordD io l rec))"
| "killD_step l KReopen = ([], case reopenKill l of Inl e \<Rightarrow> l | Inr l' \<Rightarrow> l')"

fun killD_run :: "KillLedgerD \<Rightarrow> kill_op list \<Rightarrow> string list \<times> KillLedgerD" where
  "killD_run l [] = ([], l)"
| "killD_run l (op # ops) =
     (case killD_step l op of (is, l1) \<Rightarrow> case killD_run l1 ops of (js, l2) \<Rightarrow> (is @ js, l2))"

definition attempted :: "string \<Rightarrow> killLedgerState \<Rightarrow> bool" where
  "attempted i st = (case find (\<lambda>r. kr_KillID r = i) (kl_Records st) of Some r \<Rightarrow> kr_Attempted r | None \<Rightarrow> False)"

definition settled :: "string \<Rightarrow> KillLedgerD \<Rightarrow> bool" where
  "settled i l \<longleftrightarrow> attempted i (kd_state l) \<and> attempted i (kd_disk l)"

fun keeps_attempt :: "string \<Rightarrow> kill_op \<Rightarrow> bool" where
  "keeps_attempt i (KRecord io rec) \<longleftrightarrow> (kr_KillID rec = i \<longrightarrow> kr_Attempted rec)"
| "keeps_attempt i _ \<longleftrightarrow> True"

lemma find_append_Some: "find p xs = Some x \<Longrightarrow> find p (xs @ ys) = Some x"
  by (induction xs) auto

lemma attempted_append: "attempted i st \<Longrightarrow> attempted i (st\<lparr>kl_Records := kl_Records st @ rs\<rparr>)"
  by (auto simp: attempted_def find_append_Some split: option.splits)

lemma find_list_update:
  "j < length rs \<Longrightarrow> kr_KillID (rs ! j) = kr_KillID rec \<Longrightarrow>
   (case find (\<lambda>r. kr_KillID r = i) rs of Some r \<Rightarrow> kr_Attempted r | None \<Rightarrow> False) \<Longrightarrow>
   (kr_KillID rec = i \<longrightarrow> kr_Attempted rec) \<Longrightarrow>
   (case find (\<lambda>r. kr_KillID r = i) (rs[j := rec]) of Some r \<Rightarrow> kr_Attempted r | None \<Rightarrow> False)"
proof (induction rs arbitrary: j)
  case (Cons r rs)
  then show ?case by (cases j) (auto split: if_splits)
qed simp

lemma commitKill_settled:
  "settled i l \<Longrightarrow> attempted i nxt \<Longrightarrow> commitKill io l nxt = (e, l') \<Longrightarrow> settled i l'"
  by (auto simp: commitKill_def settled_def split: option.splits file_write.splits)

lemma settled_not_sent:
  "settled i l \<Longrightarrow> AdmitD io l i sig t = ((r, send, e), l') \<Longrightarrow> \<not> send \<and> l' = l"
  by (auto simp: AdmitD_def settled_def attempted_def split: if_splits option.splits)

lemma AdmitD_settled:
  assumes "settled i l" "AdmitD io l j sig t = (r, l')"
  shows "settled i l'"
proof -
  have "attempted i (kd_state l)" using assms(1) by (simp add: settled_def)
  note a = attempted_append [OF this]
  show ?thesis
    using assms by (auto simp: AdmitD_def Let_def split: if_splits option.splits prod.splits
      dest: commitKill_settled [OF _ a])
qed

lemma RecordD_settled:
  assumes "settled i l" "kr_KillID rec = i \<longrightarrow> kr_Attempted rec" "RecordD io l rec = (e, l')"
  shows "settled i l'"
proof (cases "\<exists>j. index_of (\<lambda>r. kr_KillID r = kr_KillID rec) (kl_Records (kd_state l)) = Some j \<and>
    commitKill io l ((kd_state l)\<lparr>kl_Records := (kl_Records (kd_state l))[j := rec]\<rparr>) = (e, l')")
  case True
  then obtain j where j: "index_of (\<lambda>r. kr_KillID r = kr_KillID rec) (kl_Records (kd_state l)) = Some j"
    and c: "commitKill io l ((kd_state l)\<lparr>kl_Records := (kl_Records (kd_state l))[j := rec]\<rparr>) = (e, l')"
    by blast
  have "attempted i ((kd_state l)\<lparr>kl_Records := (kl_Records (kd_state l))[j := rec]\<rparr>)"
    using assms(1,2) index_of_Some [OF j] find_list_update [of j "kl_Records (kd_state l)" rec i]
    by (simp add: settled_def attempted_def)
  from commitKill_settled [OF assms(1) this c] show ?thesis .
next
  case False
  with assms show ?thesis by (auto simp: RecordD_def Let_def split: option.splits if_splits)
qed

lemma reopenKill_settled: "settled i l \<Longrightarrow> reopenKill l = Inr l' \<Longrightarrow> settled i l'"
  by (auto simp: reopenKill_def OpenKillLedger_def load_state_def settled_def split: if_splits)

lemma killD_step_settled:
  assumes "settled i l" "keeps_attempt i op" "killD_step l op = (is, l')"
  shows "settled i l' \<and> i \<notin> set is"
proof (cases op)
  case (KAdmit io j sig t)
  obtain r send e where a: "AdmitD io l j sig t = ((r, send, e), l')"
    using assms(3) KAdmit by (auto split: prod.splits)
  then have "i \<notin> set is" using assms(1,3) KAdmit by (auto dest: settled_not_sent split: if_splits)
  with AdmitD_settled [OF assms(1) a] show ?thesis by simp
next
  case (KRecord io rec)
  then obtain e where "RecordD io l rec = (e, l')" "is = []"
    using assms(3) by (cases "RecordD io l rec") auto
  with RecordD_settled [OF assms(1)] assms(2) KRecord show ?thesis by simp
next
  case KReopen
  with assms show ?thesis by (auto split: sum.splits dest: reopenKill_settled)
qed

lemma killD_run_settled:
  "settled i l \<Longrightarrow> \<forall>op\<in>set ops. keeps_attempt i op \<Longrightarrow> killD_run l ops = (is, l') \<Longrightarrow>
    settled i l' \<and> i \<notin> set is"
proof (induction ops arbitrary: l "is")
  case (Cons op ops)
  obtain js l1 where s: "killD_step l op = (js, l1)" by fastforce
  obtain ks l2 where r: "killD_run l1 ops = (ks, l2)" by fastforce
  have "settled i l1 \<and> i \<notin> set js" using killD_step_settled [OF Cons.prems(1) _ s] Cons.prems(2) by simp
  with Cons.IH [of l1 ks] r s Cons.prems show ?case by auto
qed auto

section \<open>Properties\<close>

text \<open>
  C9: Crash safety of the persistent input ledger. From a freshly created ledger, whatever
  operations run, whichever of their file writes fail (before or after the rename), and however
  often the supervisor crashes and reopens, the ledger in memory and the ledger on disk both keep
  the byte accounting (delivered plus queued bytes are the accepted bytes, which are the next
  offset; the queue stays within its bound) and reopening from disk succeeds.
\<close>

theorem input_ledger_crash_safe:
  assumes "OpenInputLedger None lim (FileMissing None) = Inr l0" "\<forall>b. validDigest (sha b)"
    and "\<forall>op\<in>set ops. op_bytes op < 2 ^ 63" and l: "l = ledger_run ml sha l0 ops"
  shows "(\<forall>st\<in>{ld_state l, ld_disk l}. st_DeliveredBytes st + st_QueuedBytes st = st_AcceptedBytes st \<and>
      st_AcceptedBytes st = st_NextOffset st \<and> 0 \<le> st_QueuedBytes st \<and> st_QueuedBytes st \<le> MaxQueuedBytes lim \<and>
      0 \<le> st_DeliveredBytes st) \<and>
    reopen l = Inr \<lparr>ld_limits = lim, ld_state = ld_disk l, ld_disk = ld_disk l\<rparr>"
proof -
  have o: "durable l0" "good_limits lim" "ld_limits l0 = lim"
    using OpenInputLedger_durable [OF assms(1)] by simp_all
  have d: "durable l" "ld_limits l = lim"
    using ledger_run_durable [OF o(1) _ assms(2,3)] o unfolding l by simp_all
  have acc: "st_DeliveredBytes st + st_QueuedBytes st = st_AcceptedBytes st \<and>
      st_AcceptedBytes st = st_NextOffset st \<and> 0 \<le> st_QueuedBytes st \<and> st_QueuedBytes st \<le> MaxQueuedBytes lim \<and>
      0 \<le> st_DeliveredBytes st" if "ledger_inv lim st" for st
    using that good_bytes_nonneg [OF ledger_inv_good [OF that]] delivered_plus_queued [of "st_Records st"]
    unfolding ledger_inv_def by simp
  with d have "\<forall>st\<in>{ld_state l, ld_disk l}. st_DeliveredBytes st + st_QueuedBytes st = st_AcceptedBytes st \<and>
      st_AcceptedBytes st = st_NextOffset st \<and> 0 \<le> st_QueuedBytes st \<and> st_QueuedBytes st \<le> MaxQueuedBytes lim \<and>
      0 \<le> st_DeliveredBytes st" by (simp add: durable_def)
  with reopen_durable [OF d(1)] o(2) d(2) show ?thesis by simp
qed

definition zero_digest :: string where
  "zero_digest = replicate 64 CHR ''0''"

lemma zero_digest_valid: "validDigest zero_digest"
  by (simp add: validDigest_def zero_digest_def hex_digit_def is_digit_def list_all_iff)

definition small_limits :: InputLimits where
  "small_limits = \<lparr>MaxRecords = 4, MaxMetadataBytes = 1024, MaxQueuedBytes = 16\<rparr>"

definition fresh_ledger :: InputLedgerD where
  "fresh_ledger = \<lparr>ld_limits = small_limits, ld_state = empty_ledger_state, ld_disk = empty_ledger_state\<rparr>"

lemma open_fresh_ledger: "OpenInputLedger None small_limits (FileMissing None) = Inr fresh_ledger"
  by (simp add: OpenInputLedger_def load_state_def small_limits_def fresh_ledger_def
    validateInputLedgerState_def empty_ledger_state_def scan_start_def)

definition crash_ops :: "ledger_op list" where
  "crash_ops = [DoChars (WriteUnsynced (Errorf ''sync'')) 0 ''ab'', Reopen, DoChars WriteOk 2 ''c'', DoEOF WriteOk 3]"

theorem input_ledger_crash_safe_witness:
  "let l = ledger_run (\<lambda>_. 100) (\<lambda>_. zero_digest) fresh_ledger crash_ops in
     st_NextOffset (ld_disk l) = 3 \<and>
     st_DeliveredBytes (ld_disk l) + st_QueuedBytes (ld_disk l) = 3 \<and>
     reopen l = Inr \<lparr>ld_limits = small_limits, ld_state = ld_disk l, ld_disk = ld_disk l\<rparr>"
proof -
  let ?l = "ledger_run (\<lambda>_. 100) (\<lambda>_. zero_digest) fresh_ledger crash_ops"
  have v: "\<forall>b::string. validDigest ((\<lambda>_. zero_digest) b)" by (simp add: zero_digest_valid)
  have b: "\<forall>op\<in>set crash_ops. op_bytes op < 2 ^ 63" by (simp add: crash_ops_def)
  have n: "st_NextOffset (ld_disk ?l) = 3"
    by (simp add: ledger_run_def crash_ops_def fresh_ledger_def small_limits_def empty_ledger_state_def
      AcceptCharsD_def AcceptEOFD_def commit_def validateInputLedgerState_def scan_start_def inputRecordAt_def
      append_chars_def append_eof_def chars_ledger_record_def eof_ledger_record_def zero_ledger_record_def
      zero_digest_valid reopen_def OpenInputLedger_def load_state_def int64_def Let_def)
  show ?thesis
    using input_ledger_crash_safe [OF open_fresh_ledger v b refl, of "\<lambda>_. 100"] n by (simp add: Let_def)
qed

text \<open>
  C10: Exactly-once input of the persistent ledger. Over any sequence of chunk and end-of-file
  requests against an empty ledger, with any pattern of write failures, the ledger's records are,
  up to their delivery marks, exactly the accepted chunks in order at consecutive offsets, closed
  by the accepted end of file if there was one, and no two accepted chunks share an offset.
\<close>

theorem supervisor_input_exactly_once:
  assumes "run_requests (supervisor_submit ml sha lim io) empty_ledger_state rs = (vs, st)"
    and "request_bytes rs < 2 ^ 63"
  shows "map (lr_Delivered_update (\<lambda>_. False)) (st_Records st)
      = log_records sha (accepted_chunks vs) (st_EOFAccepted st) \<and>
    st_NextOffset st = total_bytes (accepted_chunks vs) \<and>
    (\<forall>xs off b b' ys. vs = xs @ (Chars off b, Accepted) # ys \<longrightarrow> (Chars off b', Accepted) \<notin> set ys)"
proof -
  note rep = supervisor_rep_empty [of sha]
  have room: "total_bytes [] + request_bytes rs < 2 ^ 63" using assms(2) by simp
  from supervisor_log.run_rep [OF rep assms(1) room] obtain c
    where "supervisor_rep sha st (accepted_chunks vs) c" by auto
  with supervisor_log.accepted_offsets_distinct [OF rep assms(1) room] show ?thesis
    by (auto simp: supervisor_rep_def)
qed

theorem supervisor_input_exactly_once_witness:
  "\<exists>vs st. run_requests (supervisor_submit (\<lambda>_. 100) (\<lambda>_. zero_digest) small_limits (\<lambda>_ _. WriteOk))
      empty_ledger_state [Chars 0 ''ab'', Chars 0 ''ab'', Eof 2] = (vs, st) \<and>
    map snd vs = [Accepted, Duplicate, Accepted] \<and>
    st_NextOffset st = total_bytes (accepted_chunks vs)"
proof -
  let ?rs = "[Chars 0 ''ab'', Chars 0 ''ab'', Eof 2]"
  obtain vs st where r: "run_requests (supervisor_submit (\<lambda>_. 100) (\<lambda>_. zero_digest) small_limits (\<lambda>_ _. WriteOk))
      empty_ledger_state ?rs = (vs, st)" by fastforce
  have "map snd vs = [Accepted, Duplicate, Accepted]"
    using r by (simp add: supervisor_submit_def small_limits_def empty_ledger_state_def ledger_verdict_def
      AcceptCharsD_def AcceptEOFD_def commit_def validateInputLedgerState_def scan_start_def inputRecordAt_def
      append_chars_def append_eof_def chars_ledger_record_def eof_ledger_record_def zero_ledger_record_def
      zero_digest_valid int64_def sameInputIdentity_def replay_def Let_def) auto
  moreover have "st_NextOffset st = total_bytes (accepted_chunks vs)"
    using supervisor_input_exactly_once [OF r] by simp
  ultimately show ?thesis using r by (intro exI conjI)
qed


definition kill_example :: KillLedgerD where
  "kill_example = (let r = \<lparr>kr_KillID = ''k1'', kr_Signal = ''TERM'', kr_Attempted = True, kr_Succeeded = True,
       kr_Needed = True\<rparr>; st = \<lparr>kl_SchemaVersion = 1, kl_Records = [r, r\<lparr>kr_KillID := ''k2'', kr_Attempted := False,
       kr_Succeeded := False\<rparr>]\<rparr> in \<lparr>kd_max = 4, kd_state = st, kd_disk = st\<rparr>)"


end
