(* ===== verification/Delegated.thy ===== *)
theory Delegated
  imports Failure
begin

text \<open>
  internal/core/delegatedsession: ownership and authority epochs of a delegated session, the
  identity and admission of its mutations, the binding of a session to its provider, and the
  authority that a reconciliation grants.  The observations and proofs of the provider ports
  (internal/app/delegatedsession/ports.go) are the records at the end.
\<close>

section \<open>Epochs and owners (authority.go)\<close>

type_synonym AuthorityEpoch = uint64

definition epoch_Validate :: "AuthorityEpoch \<Rightarrow> goerr option" where
  "epoch_Validate e = reject (e < 1) (Errorf ''invalid delegated authority epoch'')"

datatype Owner = OwnerNone | OwnerAgent | OwnerHuman | OtherOwner string

fun owner_string :: "Owner \<Rightarrow> string" where
  "owner_string OwnerNone = ''none''"
| "owner_string OwnerAgent = ''agent''"
| "owner_string OwnerHuman = ''human''"
| "owner_string (OtherOwner s) = s"

fun owner_Validate :: "Owner \<Rightarrow> goerr option" where
  "owner_Validate (OtherOwner s) = Some (Errorf ''invalid delegated owner'')"
| "owner_Validate _ = None"

section \<open>Identifiers, providers and bindings (types.go)\<close>

definition opaque_byte :: "char \<Rightarrow> bool" where
  "opaque_byte c \<longleftrightarrow> is_alnum c \<or> c = CHR ''_'' \<or> c = CHR ''-'' \<or> c = CHR ''.''"

definition delegated_validOpaque :: "string \<Rightarrow> nat \<Rightarrow> bool" where
  "delegated_validOpaque v mx = bytes_over opaque_byte mx v"

definition validSessionName :: "string \<Rightarrow> bool" where
  "validSessionName v \<longleftrightarrow> 1 \<le> length v \<and> length v \<le> 128 \<and>
     (\<forall>r\<in>set (runes v). \<not> (r < 32 \<or> r = 127 \<or> r = 47 \<or> r = 92))"

definition ModeDelegatedInteractive :: string where
  "ModeDelegatedInteractive = ''delegated_interactive''"

definition ValidateMode :: "string \<Rightarrow> goerr option" where
  "ValidateMode mode = reject (mode \<noteq> ModeDelegatedInteractive) (Errorf ''invalid delegated session mode'')"

record ProviderIdentity =
  pi_ID :: string
  pi_Version :: int

definition ProviderIdentity_Validate :: "ProviderIdentity \<Rightarrow> goerr option" where
  "ProviderIdentity_Validate p =
     reject (\<not> delegated_validOpaque (pi_ID p) 128 \<or> pi_Version p < 1)
       (Errorf ''invalid delegated provider identity'')"

datatype Lifecycle =
    LifecycleProvisioning
  | LifecycleLive
  | LifecycleTerminal
  | LifecycleLost
  | OtherLifecycle string

fun lifecycle_Validate :: "Lifecycle \<Rightarrow> goerr option" where
  "lifecycle_Validate (OtherLifecycle s) = Some (Errorf ''invalid delegated session lifecycle'')"
| "lifecycle_Validate _ = None"

record Binding =
  bd_SchemaVersion :: int
  bd_SessionID :: string
  bd_OperationID :: string
  bd_SessionName :: string
  bd_SessionMode :: string
  bd_AuthorityEpoch :: AuthorityEpoch
  bd_DesiredOwner :: Owner
  bd_ProviderID :: string
  bd_ProviderVersion :: int
  bd_Lifecycle :: Lifecycle
  bd_CreatedAt :: time
  bd_UpdatedAt :: time

definition bd_ProviderIdentity :: "Binding \<Rightarrow> ProviderIdentity" where
  "bd_ProviderIdentity b = \<lparr>pi_ID = bd_ProviderID b, pi_Version = bd_ProviderVersion b\<rparr>"

definition Binding_Validate :: "Binding \<Rightarrow> goerr option" where
  "Binding_Validate b = first_error [
     reject (bd_SchemaVersion b \<noteq> 1 \<or> \<not> delegated_validOpaque (bd_SessionID b) 128 \<or>
             \<not> delegated_validOpaque (bd_OperationID b) 128) (Errorf ''invalid delegated session binding''),
     reject (bd_SessionName b \<noteq> [] \<and> \<not> validSessionName (bd_SessionName b))
       (Errorf ''invalid delegated session name''),
     ValidateMode (bd_SessionMode b),
     ProviderIdentity_Validate (bd_ProviderIdentity b),
     epoch_Validate (bd_AuthorityEpoch b),
     owner_Validate (bd_DesiredOwner b),
     lifecycle_Validate (bd_Lifecycle b),
     reject (IsZero (bd_CreatedAt b) \<or> IsZero (bd_UpdatedAt b) \<or> bd_UpdatedAt b < bd_CreatedAt b)
       (Errorf ''invalid delegated session timestamps'')]"

record ProviderRef =
  pr_SchemaVersion :: int
  pr_SessionID :: string
  pr_ProviderID :: string
  pr_ProviderVersion :: int
  pr_Ref :: string
  pr_CreatedAt :: time
  pr_UpdatedAt :: time

definition ProviderRef_Validate :: "ProviderRef \<Rightarrow> goerr option" where
  "ProviderRef_Validate r = first_error [
     reject (pr_SchemaVersion r \<noteq> 1 \<or> \<not> delegated_validOpaque (pr_SessionID r) 128 \<or>
             \<not> delegated_validOpaque (pr_Ref r) 256) (Errorf ''invalid delegated provider ref''),
     ProviderIdentity_Validate \<lparr>pi_ID = pr_ProviderID r, pi_Version = pr_ProviderVersion r\<rparr>,
     reject (IsZero (pr_CreatedAt r) \<or> IsZero (pr_UpdatedAt r) \<or> pr_UpdatedAt r < pr_CreatedAt r)
       (Errorf ''invalid delegated provider ref timestamps'')]"

section \<open>Mutations (mutation.go)\<close>

datatype MutationKind =
    MutationWrite
  | MutationSignal
  | MutationKill
  | MutationResize
  | MutationTransfer
  | MutationHumanControl
  | MutationProviderAuthority
  | OtherMutationKind string

fun MutationKind_Validate :: "MutationKind \<Rightarrow> goerr option" where
  "MutationKind_Validate (OtherMutationKind s) = Some (Errorf ''invalid delegated mutation kind'')"
| "MutationKind_Validate _ = None"

record MutationIdentity =
  mi_SessionID :: string
  mi_Epoch :: AuthorityEpoch
  mi_Kind :: MutationKind
  mi_IdempotencyID :: string
  mi_Offset :: int
  mi_NextOffset :: int
  mi_Fingerprint :: string

definition MutationIdentity_Validate :: "MutationIdentity \<Rightarrow> goerr option" where
  "MutationIdentity_Validate m = first_error [
     reject (\<not> delegated_validOpaque (mi_SessionID m) 128 \<or> \<not> delegated_validOpaque (mi_Fingerprint m) 128)
       (Errorf ''invalid delegated mutation identity''),
     epoch_Validate (mi_Epoch m),
     MutationKind_Validate (mi_Kind m),
     (if mi_Kind m = MutationWrite
      then reject (mi_IdempotencyID m \<noteq> [] \<or> mi_Offset m < 0 \<or> mi_NextOffset m \<le> mi_Offset m)
             (Errorf ''invalid delegated write identity'')
      else reject (\<not> delegated_validOpaque (mi_IdempotencyID m) 128 \<or> mi_Offset m \<noteq> -1 \<or> mi_NextOffset m \<noteq> -1)
             (Errorf ''invalid delegated control identity''))]"

datatype MutationState =
    MutationReserved
  | MutationDelivered
  | MutationCompleted
  | MutationFailed
  | MutationOutcomeUnknown
  | OtherMutationState string

fun MutationState_Validate :: "MutationState \<Rightarrow> goerr option" where
  "MutationState_Validate (OtherMutationState s) = Some (Errorf ''invalid delegated mutation state'')"
| "MutationState_Validate _ = None"

record MutationRecord =
  mr_SchemaVersion :: int
  mr_Identity :: MutationIdentity
  mr_State :: MutationState
  mr_Outcome :: string
  mr_CreatedAt :: time
  mr_UpdatedAt :: time

definition MutationRecordSchemaVersion :: int where
  "MutationRecordSchemaVersion = 2"

definition MutationRecord_Validate :: "MutationRecord \<Rightarrow> goerr option" where
  "MutationRecord_Validate r = first_error [
     reject (mr_SchemaVersion r \<noteq> MutationRecordSchemaVersion) (Errorf ''invalid delegated mutation record schema''),
     MutationIdentity_Validate (mr_Identity r),
     MutationState_Validate (mr_State r),
     reject (mr_Outcome r \<noteq> [] \<and> \<not> delegated_validOpaque (mr_Outcome r) 256)
       (Errorf ''invalid delegated mutation outcome''),
     reject (IsZero (mr_CreatedAt r) \<or> IsZero (mr_UpdatedAt r) \<or> mr_UpdatedAt r < mr_CreatedAt r)
       (Errorf ''invalid delegated mutation timestamps'')]"

record MutationContext =
  mc_CurrentEpoch :: AuthorityEpoch
  mc_CurrentOwner :: Owner

datatype AdmissionAction = AdmissionReplay | AdmissionReserve

record AdmissionDecision =
  ad_Action :: AdmissionAction
  ad_Record :: MutationRecord

text \<open>The zero MutationRecord with the given identity.\<close>

definition identity_record :: "MutationIdentity \<Rightarrow> MutationRecord" where
  "identity_record i = \<lparr>mr_SchemaVersion = 0, mr_Identity = i, mr_State = OtherMutationState [],
     mr_Outcome = [], mr_CreatedAt = 0, mr_UpdatedAt = 0\<rparr>"

definition DecideMutation ::
  "MutationRecord option \<Rightarrow> MutationIdentity \<Rightarrow> MutationContext \<Rightarrow> AdmissionDecision result" where
  "DecideMutation known incoming ctx =
     (case known of
        Some k \<Rightarrow>
          if mr_Identity k \<noteq> incoming then Inl (failure_New OperationConflict [] None)
          else Inr \<lparr>ad_Action = AdmissionReplay, ad_Record = k\<rparr>
      | None \<Rightarrow>
          (case MutationIdentity_Validate incoming of
             Some err \<Rightarrow> Inl (failure_New InvalidInput [(''field'', ''mutation'')] (Some err))
           | None \<Rightarrow>
               if mi_Epoch incoming \<noteq> mc_CurrentEpoch ctx
               then Inl (failure_New StaleControlGeneration
                 [(''session_id'', mi_SessionID incoming),
                  (''expected_epoch'', sprint_uint (mc_CurrentEpoch ctx)),
                  (''current_epoch'', sprint_uint (mi_Epoch incoming))] None)
               else if mc_CurrentOwner ctx \<noteq> OwnerAgent
               then Inl (failure_New SessionControlNotOwned
                 [(''session_id'', mi_SessionID incoming),
                  (''owner'', owner_string (mc_CurrentOwner ctx)),
                  (''required_owner'', owner_string OwnerAgent),
                  (''current_epoch'', sprint_uint (mc_CurrentEpoch ctx))] None)
               else Inr \<lparr>ad_Action = AdmissionReserve, ad_Record = identity_record incoming\<rparr>))"

section \<open>Reconciliation (reconcile.go)\<close>

record ReconcileInput =
  ri_Epoch :: AuthorityEpoch
  ri_DesiredOwner :: Owner
  ri_ObservedOwner :: Owner
  ri_ProviderIdentity :: ProviderIdentity
  ri_ProviderCurrent :: bool

record EffectiveAuthority =
  ea_Epoch :: AuthorityEpoch
  ea_Owner :: Owner
  ea_Fenced :: bool

definition ReconcileAuthority :: "ReconcileInput \<Rightarrow> EffectiveAuthority" where
  "ReconcileAuthority i =
     (let fenced = \<lparr>ea_Epoch = ri_Epoch i, ea_Owner = OwnerNone, ea_Fenced = True\<rparr> in
      if epoch_Validate (ri_Epoch i) \<noteq> None \<or> ProviderIdentity_Validate (ri_ProviderIdentity i) \<noteq> None \<or>
         \<not> ri_ProviderCurrent i then fenced
      else if owner_Validate (ri_DesiredOwner i) \<noteq> None \<or> owner_Validate (ri_ObservedOwner i) \<noteq> None
      then fenced
      else if ri_DesiredOwner i \<noteq> OwnerAgent \<or> ri_ObservedOwner i \<noteq> OwnerAgent then fenced
      else \<lparr>ea_Epoch = ri_Epoch i, ea_Owner = OwnerAgent, ea_Fenced = False\<rparr>)"

section \<open>Provider ports (internal/app/delegatedsession/ports.go)\<close>

record Observation =
  ob_Provider :: ProviderIdentity
  ob_ProviderCurrent :: bool
  ob_ProviderGeneration :: string
  ob_Owner :: Owner
  ob_Terminal :: bool
  ob_ExitCode :: "int option"
  ob_PanePID :: int
  ob_CurrentCommand :: string
  ob_PaneTTY :: string
  ob_CWD :: string
  ob_OutputBytes :: int

record ProviderClientRef =
  cr_Ref :: string

definition ProviderClientRef_Validate :: "ProviderClientRef \<Rightarrow> goerr option" where
  "ProviderClientRef_Validate r =
     reject (\<not> delegated_validOpaque (cr_Ref r) 256) (Errorf ''invalid provider client ref'')"

record HumanAttachResult =
  at_ClientRef :: ProviderClientRef
  at_ObservedOwner :: Owner

record HumanClientObservation =
  ho_ClientRef :: ProviderClientRef
  ho_Present :: bool
  ho_ReadOnly :: bool
  ho_ObservedOwner :: Owner
  ho_ProviderGeneration :: string

record IngressFenceProof =
  fp_ClientRef :: ProviderClientRef
  fp_AuthorityEpoch :: AuthorityEpoch
  fp_ProviderGeneration :: string
  fp_Fenced :: bool

record HumanControlSpec =
  cs_HandoffID :: string
  cs_AuthorityEpoch :: AuthorityEpoch

record PrivacySpec =
  ps_HandoffID :: string
  ps_AuthorityEpoch :: AuthorityEpoch

record PrivacyHandle =
  ph_OpaqueRef :: string
  ph_Generation :: string

definition PrivacyHandle_Validate :: "PrivacyHandle \<Rightarrow> goerr option" where
  "PrivacyHandle_Validate h =
     reject (\<not> delegated_validOpaque (ph_OpaqueRef h) 128 \<or> \<not> delegated_validOpaque (ph_Generation h) 128)
       (Errorf ''invalid privacy handle'')"

record PrivateObservationProof =
  pp_Handle :: PrivacyHandle
  pp_ProviderGeneration :: string
  pp_PrivateFromFirstByte :: bool
  pp_ObservedAt :: time

definition PrivateObservationProof_Validate :: "PrivateObservationProof \<Rightarrow> goerr option" where
  "PrivateObservationProof_Validate p = first_error [
     PrivacyHandle_Validate (pp_Handle p),
     reject (\<not> delegated_validOpaque (pp_ProviderGeneration p) 128 \<or> \<not> pp_PrivateFromFirstByte p \<or>
             IsZero (pp_ObservedAt p)) (Errorf ''invalid private observation proof'')]"

lemmas delegated_validate_defs [validate_defs] =
  ProviderIdentity_Validate_def ValidateMode_def Binding_Validate_def
  ProviderRef_Validate_def MutationIdentity_Validate_def MutationRecord_Validate_def

lemma epoch_Validate_None [simp]: "epoch_Validate e = None \<longleftrightarrow> e \<noteq> 0"
  by (simp add: epoch_Validate_def)

lemma owner_Validate_None: "owner_Validate x = None \<longleftrightarrow> (\<forall>s. x \<noteq> OtherOwner s)"
  by (cases x) auto

lemma MutationKind_Validate_None: "MutationKind_Validate x = None \<longleftrightarrow> (\<forall>s. x \<noteq> OtherMutationKind s)"
  by (cases x) auto

section \<open>Properties\<close>

text \<open>
  Admission of a delegated mutation. A new mutation is reserved exactly when nothing is known
  under its key, its identity is well formed, it names the current epoch, and the agent owns the
  session; a known one is replayed exactly when it is the same mutation, with the stored record,
  whoever owns the session by now.
\<close>

lemma DecideMutation_admits:
  "((\<exists>r. DecideMutation known incoming ctx = Inr \<lparr>ad_Action = AdmissionReserve, ad_Record = r\<rparr>) \<longleftrightarrow>
     known = None \<and> MutationIdentity_Validate incoming = None \<and> mi_Epoch incoming = mc_CurrentEpoch ctx \<and>
     mc_CurrentOwner ctx = OwnerAgent) \<and>
   (DecideMutation known incoming ctx = Inr \<lparr>ad_Action = AdmissionReplay, ad_Record = r\<rparr> \<longleftrightarrow>
     known = Some r \<and> mr_Identity r = incoming)"
  by (auto simp: DecideMutation_def split: option.splits if_splits)

text \<open>
  Authority is granted only on full proof. Reconciliation leaves the session unfenced exactly
  when the epoch is positive, the provider identity is well formed and the provider current, and
  both the desired and the observed owner are the agent; in every other case it reports no owner
  and a fence, for the same epoch.
\<close>

lemma ReconcileAuthority_unfenced_iff:
  "(ReconcileAuthority i = \<lparr>ea_Epoch = ri_Epoch i, ea_Owner = OwnerAgent, ea_Fenced = False\<rparr> \<longleftrightarrow>
      ri_Epoch i \<noteq> 0 \<and> ProviderIdentity_Validate (ri_ProviderIdentity i) = None \<and> ri_ProviderCurrent i \<and>
      ri_DesiredOwner i = OwnerAgent \<and> ri_ObservedOwner i = OwnerAgent) \<and>
   (ReconcileAuthority i = \<lparr>ea_Epoch = ri_Epoch i, ea_Owner = OwnerNone, ea_Fenced = True\<rparr> \<or>
    ReconcileAuthority i = \<lparr>ea_Epoch = ri_Epoch i, ea_Owner = OwnerAgent, ea_Fenced = False\<rparr>)"
  by (auto simp: ReconcileAuthority_def Let_def)

end
