(* ===== verification/Handoff.thy ===== *)
theory Handoff
  imports Delegated
begin

text \<open>
  internal/core/interactivehandoff: requests to hand a delegated session over to a human, the
  durable state of a handoff, its public projection, and the admission of human control signals.
\<close>

section \<open>Requests (types.go)\<close>

definition handoff_byte :: "char \<Rightarrow> bool" where
  "handoff_byte c \<longleftrightarrow> is_alnum c \<or> c = CHR ''_'' \<or> c = CHR ''-''"

definition handoff_validOpaque :: "string \<Rightarrow> nat \<Rightarrow> bool" where
  "handoff_validOpaque v mx = bytes_headed is_alnum handoff_byte mx v"

definition is_alpha :: "char \<Rightarrow> bool" where
  "is_alpha c \<longleftrightarrow> is_lower c \<or> is_upper c"

definition validEnvironmentName :: "string \<Rightarrow> bool" where
  "validEnvironmentName v =
     bytes_headed (\<lambda>c. c = CHR ''_'' \<or> is_alpha c) (\<lambda>c. c = CHR ''_'' \<or> is_alnum c) 128 v"

datatype Reason =
    ReasonCredentialRequired
  | ReasonAuthenticationRequired
  | ReasonHumanConfirmation
  | ReasonComplexInteractiveUI
  | ReasonManualIntervention
  | OtherReason string

fun Reason_Validate :: "Reason \<Rightarrow> goerr option" where
  "Reason_Validate (OtherReason s) = Some (Errorf ''invalid handoff reason'')"
| "Reason_Validate _ = None"

datatype Privacy = PrivacyStandard | PrivacySecret | OtherPrivacy string

fun Privacy_Validate :: "Privacy \<Rightarrow> goerr option" where
  "Privacy_Validate (OtherPrivacy s) = Some (Errorf ''invalid handoff privacy'')"
| "Privacy_Validate _ = None"

datatype CompletionKind =
    CompletionEnvironmentExportedNonempty
  | CompletionManualReady
  | OtherCompletion string

record Completion =
  cp_Kind :: CompletionKind
  cp_Name :: string

definition Completion_Validate :: "Completion \<Rightarrow> goerr option" where
  "Completion_Validate v =
     (case cp_Kind v of
        CompletionManualReady \<Rightarrow>
          reject (cp_Name v \<noteq> []) (Errorf ''manual ready completion must not name a requirement'')
      | CompletionEnvironmentExportedNonempty \<Rightarrow>
          reject (\<not> validEnvironmentName (cp_Name v)) (Errorf ''invalid environment completion name'')
      | OtherCompletion s \<Rightarrow> Some (Errorf ''invalid handoff completion''))"

record Request =
  rq_HandoffID :: string
  rq_SessionID :: string
  rq_Reason :: Reason
  rq_Privacy :: Privacy
  rq_Completion :: Completion

definition ValidateHandoffID :: "string \<Rightarrow> goerr option" where
  "ValidateHandoffID v =
     reject (\<not> handoff_validOpaque v 128) (failure_New InvalidInput [(''field'', ''handoff_id'')] None)"

definition wrap_field :: "string \<Rightarrow> goerr option \<Rightarrow> goerr option" where
  "wrap_field f e = (case e of None \<Rightarrow> None | Some err \<Rightarrow> Some (failure_New InvalidInput [(''field'', f)] (Some err)))"

definition Request_Validate :: "Request \<Rightarrow> goerr option" where
  "Request_Validate v = first_error [
     reject (ValidateHandoffID (rq_HandoffID v) \<noteq> None \<or> \<not> handoff_validOpaque (rq_SessionID v) 128)
       (failure_New InvalidInput [(''field'', ''handoff_identity'')] None),
     wrap_field ''reason'' (Reason_Validate (rq_Reason v)),
     wrap_field ''privacy'' (Privacy_Validate (rq_Privacy v)),
     wrap_field ''completion'' (Completion_Validate (rq_Completion v))]"

definition Request_ValidateH4 :: "Request \<Rightarrow> goerr option" where
  "Request_ValidateH4 v = Request_Validate v"

definition Request_ValidateH2 :: "Request \<Rightarrow> goerr option" where
  "Request_ValidateH2 v = first_error [
     Request_Validate v,
     reject (rq_Privacy v = PrivacySecret) (failure_New FeatureUnavailable [(''feature'', ''secret_handoff'')] None),
     reject (cp_Kind (rq_Completion v) \<noteq> CompletionManualReady)
       (failure_New FeatureUnavailable [(''feature'', ''automatic_handoff_completion'')] None)]"

section \<open>States (state.go)\<close>

datatype Phase =
    PhaseAgentOwned
  | PhaseAgentFencing
  | PhaseHumanConnecting
  | PhaseHumanOwned
  | PhaseHumanFencing
  | PhaseReclaimPending
  | PhaseAborted
  | OtherPhase string

fun phase_string :: "Phase \<Rightarrow> string" where
  "phase_string PhaseAgentOwned = ''agent_owned''"
| "phase_string PhaseAgentFencing = ''agent_fencing''"
| "phase_string PhaseHumanConnecting = ''human_connecting''"
| "phase_string PhaseHumanOwned = ''human_owned''"
| "phase_string PhaseHumanFencing = ''human_fencing''"
| "phase_string PhaseReclaimPending = ''reclaim_pending''"
| "phase_string PhaseAborted = ''aborted''"
| "phase_string (OtherPhase s) = s"

fun Phase_Validate :: "Phase \<Rightarrow> goerr option" where
  "Phase_Validate (OtherPhase s) = Some (Errorf ''invalid handoff phase'')"
| "Phase_Validate _ = None"

datatype IngressState = IngressUnknown | IngressFenced | IngressWritable | OtherIngress string

fun Ingress_Validate :: "IngressState \<Rightarrow> goerr option" where
  "Ingress_Validate (OtherIngress s) = Some (Errorf ''invalid ingress state'')"
| "Ingress_Validate _ = None"

datatype BoundaryKind =
    BoundaryNone
  | BoundaryShell
  | BoundaryProcess
  | BoundaryProviderOrdered
  | BoundaryHumanAttested
  | OtherBoundary string

record TransferBoundary =
  tb_Kind :: BoundaryKind
  tb_Established :: bool

definition TransferBoundary_Validate :: "TransferBoundary \<Rightarrow> goerr option" where
  "TransferBoundary_Validate v =
     (case tb_Kind v of
        BoundaryNone \<Rightarrow> reject (tb_Established v) (Errorf ''none transfer boundary cannot be established'')
      | OtherBoundary s \<Rightarrow> Some (Errorf ''invalid transfer boundary'')
      | _ \<Rightarrow> reject (\<not> tb_Established v) (Errorf ''transfer boundary not established''))"

datatype PrivacyState = PrivacyStateStandard | PrivacyPrivate | OtherPrivacyState string

fun PrivacyState_Validate :: "PrivacyState \<Rightarrow> goerr option" where
  "PrivacyState_Validate (OtherPrivacyState s) = Some (Errorf ''invalid privacy state'')"
| "PrivacyState_Validate _ = None"

datatype PrivacyReleaseState =
    PrivacyReleaseNotRequired
  | PrivacyReleasePending
  | PrivacyReleaseProven
  | OtherPrivacyRelease string

fun PrivacyRelease_Validate :: "PrivacyReleaseState \<Rightarrow> goerr option" where
  "PrivacyRelease_Validate (OtherPrivacyRelease s) = Some (Errorf ''invalid privacy release state'')"
| "PrivacyRelease_Validate _ = None"

datatype CaptureState = CapturePublic | CapturePrivate | OtherCapture string

fun CaptureState_Validate :: "CaptureState \<Rightarrow> goerr option" where
  "CaptureState_Validate (OtherCapture s) = Some (Errorf ''invalid capture state'')"
| "CaptureState_Validate _ = None"

record HumanClientRef =
  hc_Ref :: string

definition HumanClientRef_Validate :: "HumanClientRef \<Rightarrow> goerr option" where
  "HumanClientRef_Validate v =
     reject (\<not> handoff_validOpaque (hc_Ref v) 256) (Errorf ''invalid human client ref'')"

record HandoffState =
  hs_SchemaVersion :: int
  hs_HandoffID :: string
  hs_SessionID :: string
  hs_Phase :: Phase
  hs_AuthorityEpoch :: AuthorityEpoch
  hs_DesiredOwner :: Owner
  hs_ProviderOwner :: Owner
  hs_AgentIngress :: IngressState
  hs_HumanIngress :: IngressState
  hs_TransferBoundary :: TransferBoundary
  hs_PrivacyState :: PrivacyState
  hs_PrivacyRelease :: PrivacyReleaseState
  hs_CaptureState :: CaptureState
  hs_HumanClient :: "HumanClientRef option"
  hs_ProviderGeneration :: string
  hs_FailureCode :: string

definition HandoffState_Validate :: "HandoffState \<Rightarrow> goerr option" where
  "HandoffState_Validate v = first_error [
     reject (hs_SchemaVersion v \<noteq> 1 \<or> \<not> handoff_validOpaque (hs_HandoffID v) 128 \<or>
             \<not> handoff_validOpaque (hs_SessionID v) 128 \<or> \<not> handoff_validOpaque (hs_ProviderGeneration v) 256)
       (Errorf ''invalid handoff state identity''),
     Phase_Validate (hs_Phase v),
     epoch_Validate (hs_AuthorityEpoch v),
     owner_Validate (hs_DesiredOwner v),
     owner_Validate (hs_ProviderOwner v),
     Ingress_Validate (hs_AgentIngress v),
     Ingress_Validate (hs_HumanIngress v),
     reject (hs_AgentIngress v = IngressWritable \<and> hs_HumanIngress v = IngressWritable)
       (Errorf ''dual writable ingress''),
     TransferBoundary_Validate (hs_TransferBoundary v),
     PrivacyState_Validate (hs_PrivacyState v),
     PrivacyRelease_Validate (hs_PrivacyRelease v),
     CaptureState_Validate (hs_CaptureState v),
     (case hs_HumanClient v of None \<Rightarrow> None | Some c \<Rightarrow> HumanClientRef_Validate c),
     reject (hs_HumanIngress v = IngressWritable \<and> hs_HumanClient v = None)
       (Errorf ''human writable without proven client ref''),
     reject (hs_FailureCode v \<noteq> [] \<and> hs_FailureCode v \<noteq> HandoffClientLost \<and>
             hs_FailureCode v \<noteq> HandoffReclaimBlocked \<and> hs_FailureCode v \<noteq> HandoffExpired)
       (Errorf ''invalid handoff failure code''),
     reject (hs_PrivacyState v = PrivacyStateStandard \<and>
             (hs_PrivacyRelease v \<noteq> PrivacyReleaseNotRequired \<or> hs_CaptureState v \<noteq> CapturePublic))
       (Errorf ''standard privacy state mismatch''),
     reject (hs_PrivacyState v = PrivacyPrivate \<and> hs_PrivacyRelease v = PrivacyReleaseNotRequired)
       (Errorf ''private privacy state requires release proof state''),
     reject (hs_PrivacyState v = PrivacyPrivate \<and> hs_CaptureState v = CapturePublic \<and>
             hs_PrivacyRelease v \<noteq> PrivacyReleaseProven)
       (Errorf ''public capture requires proven privacy release'')]"

definition State_ValidateH4 :: "HandoffState \<Rightarrow> goerr option" where
  "State_ValidateH4 v = HandoffState_Validate v"

definition State_ValidateH2 :: "HandoffState \<Rightarrow> goerr option" where
  "State_ValidateH2 v = first_error [
     HandoffState_Validate v,
     reject (hs_PrivacyState v \<noteq> PrivacyStateStandard \<or> hs_PrivacyRelease v \<noteq> PrivacyReleaseNotRequired \<or>
             hs_CaptureState v \<noteq> CapturePublic)
       (failure_New FeatureUnavailable [(''feature'', ''secret_handoff'')] None)]"

section \<open>Human control (control.go)\<close>

datatype HumanControlKind =
    HumanControlReady
  | HumanControlAbort
  | HumanControlStatus
  | HumanControlResume
  | HumanControlTerminate
  | HumanControlRequestControl
  | OtherControl string

fun HumanControlKind_Validate :: "HumanControlKind \<Rightarrow> goerr option" where
  "HumanControlKind_Validate (OtherControl s) = Some (Errorf ''invalid human control kind'')"
| "HumanControlKind_Validate _ = None"

record ControlSignal =
  sg_HandoffID :: string
  sg_AuthorityEpoch :: AuthorityEpoch
  sg_ControlID :: string
  sg_Kind :: HumanControlKind

definition ControlSignal_Validate :: "ControlSignal \<Rightarrow> goerr option" where
  "ControlSignal_Validate v = first_error [
     reject (\<not> handoff_validOpaque (sg_HandoffID v) 128 \<or> \<not> handoff_validOpaque (sg_ControlID v) 128)
       (failure_New InvalidInput [(''field'', ''human_control'')] None),
     wrap_field ''authority_epoch'' (epoch_Validate (sg_AuthorityEpoch v)),
     wrap_field ''human_control_kind'' (HumanControlKind_Validate (sg_Kind v))]"

datatype ControlAction = ControlReplay | ControlReserve

record ControlDecision =
  cd_Action :: ControlAction
  cd_Signal :: ControlSignal

definition DecideControl ::
  "ControlSignal option \<Rightarrow> ControlSignal \<Rightarrow> AuthorityEpoch \<Rightarrow> ControlDecision result" where
  "DecideControl existing incoming currentEpoch =
     (case existing of
        Some old \<Rightarrow>
          if old \<noteq> incoming
          then Inl (failure_New HandoffConflict [(''handoff_id'', sg_HandoffID incoming),
                      (''control_id'', sg_ControlID incoming)] None)
          else Inr \<lparr>cd_Action = ControlReplay, cd_Signal = old\<rparr>
      | None \<Rightarrow>
          guard_result (ControlSignal_Validate incoming)
            (if sg_AuthorityEpoch incoming \<noteq> currentEpoch
             then Inl (failure_New StaleControlGeneration
                    [(''expected_epoch'', sprint_uint currentEpoch),
                     (''current_epoch'', sprint_uint (sg_AuthorityEpoch incoming))] None)
             else Inr \<lparr>cd_Action = ControlReserve, cd_Signal = incoming\<rparr>))"

section \<open>Projection (projection.go)\<close>

datatype DerivedStatus =
    StatusUnknown
  | StatusAgentOwned
  | StatusHumanOwned
  | StatusAgentFencing
  | StatusHumanConnecting
  | StatusHumanFencing
  | StatusReclaimPending
  | StatusReclaimBlocked
  | StatusAborted

definition ProjectStatus :: "HandoffState \<Rightarrow> DerivedStatus" where
  "ProjectStatus v =
     (if HandoffState_Validate v \<noteq> None then StatusUnknown
      else case hs_Phase v of
        PhaseAgentOwned \<Rightarrow>
          if hs_DesiredOwner v = OwnerAgent \<and> hs_ProviderOwner v = OwnerAgent \<and>
             hs_AgentIngress v = IngressWritable \<and> hs_HumanIngress v = IngressFenced
          then StatusAgentOwned else StatusUnknown
      | PhaseHumanOwned \<Rightarrow>
          if hs_DesiredOwner v = OwnerHuman \<and> hs_ProviderOwner v = OwnerHuman \<and>
             hs_AgentIngress v = IngressFenced \<and> hs_HumanIngress v = IngressWritable \<and>
             hs_HumanClient v \<noteq> None
          then StatusHumanOwned else StatusUnknown
      | PhaseAgentFencing \<Rightarrow> StatusAgentFencing
      | PhaseHumanConnecting \<Rightarrow> StatusHumanConnecting
      | PhaseHumanFencing \<Rightarrow> StatusHumanFencing
      | PhaseReclaimPending \<Rightarrow>
          if tb_Established (hs_TransferBoundary v) then StatusReclaimPending else StatusReclaimBlocked
      | PhaseAborted \<Rightarrow>
          if hs_AgentIngress v = IngressFenced \<and> hs_HumanIngress v = IngressFenced
          then if hs_DesiredOwner v = OwnerAgent \<and> \<not> tb_Established (hs_TransferBoundary v)
               then StatusReclaimBlocked else StatusAborted
          else StatusUnknown
      | OtherPhase s \<Rightarrow> StatusUnknown)"

record PublicState =
  pb_SchemaVersion :: int
  pb_HandoffID :: string
  pb_SessionID :: string
  pb_AuthorityEpoch :: AuthorityEpoch
  pb_Status :: DerivedStatus
  pb_AgentIngress :: IngressState
  pb_HumanIngress :: IngressState
  pb_TransferBoundary :: TransferBoundary
  pb_PrivacyState :: PrivacyState
  pb_PrivacyRelease :: PrivacyReleaseState
  pb_CaptureState :: CaptureState
  pb_Attached :: bool
  pb_FailureCode :: string
  pb_CreatedAt :: "time option"
  pb_UpdatedAt :: "time option"
  pb_AttachArgv :: "string list"

text \<open>The zero values of the privacy fields are the empty strings, which are omitted.\<close>

definition ProjectPublicState :: "HandoffState \<Rightarrow> time \<Rightarrow> time \<Rightarrow> PublicState result" where
  "ProjectPublicState v createdAt updatedAt =
     guard_result (State_ValidateH4 v)
      (if IsZero createdAt \<noteq> IsZero updatedAt \<or> (\<not> IsZero createdAt \<and> updatedAt < createdAt)
       then Inl (Errorf ''invalid public handoff timestamps'')
       else let status = ProjectStatus v;
                shown = hs_PrivacyState v \<noteq> PrivacyStateStandard \<or>
                        hs_PrivacyRelease v \<noteq> PrivacyReleaseNotRequired \<or> hs_CaptureState v \<noteq> CapturePublic
            in Inr \<lparr>pb_SchemaVersion = 1, pb_HandoffID = hs_HandoffID v, pb_SessionID = hs_SessionID v,
                 pb_AuthorityEpoch = hs_AuthorityEpoch v, pb_Status = status,
                 pb_AgentIngress = hs_AgentIngress v, pb_HumanIngress = hs_HumanIngress v,
                 pb_TransferBoundary = hs_TransferBoundary v,
                 pb_PrivacyState = (if shown then hs_PrivacyState v else OtherPrivacyState []),
                 pb_PrivacyRelease = (if shown then hs_PrivacyRelease v else OtherPrivacyRelease []),
                 pb_CaptureState = (if shown then hs_CaptureState v else OtherCapture []),
                 pb_Attached = (hs_HumanClient v \<noteq> None),
                 pb_FailureCode = (if hs_FailureCode v \<noteq> [] then hs_FailureCode v
                   else if status = StatusReclaimBlocked then HandoffReclaimBlocked else []),
                 pb_CreatedAt = (if IsZero createdAt then None else Some createdAt),
                 pb_UpdatedAt = (if IsZero createdAt then None else Some updatedAt),
                 pb_AttachArgv = (if hs_Phase v = PhaseHumanConnecting \<and> hs_HumanClient v = None
                   then [''shellbeam'', ''session'', ''attach'', ''--handoff-id'', hs_HandoffID v] else [])\<rparr>)"

section \<open>Facts on validation\<close>

lemmas handoff_validate_defs [validate_defs] =
  HandoffState_Validate_def State_ValidateH4_def State_ValidateH2_def TransferBoundary_Validate_def
  HumanClientRef_Validate_def

lemma wrap_field_None [simp]: "wrap_field f e = None \<longleftrightarrow> e = None"
  by (simp add: wrap_field_def split: option.splits)

lemma Phase_Validate_None: "Phase_Validate x = None \<longleftrightarrow> (\<forall>s. x \<noteq> OtherPhase s)"
  by (cases x) auto

lemma Ingress_Validate_None: "Ingress_Validate x = None \<longleftrightarrow> (\<forall>s. x \<noteq> OtherIngress s)"
  by (cases x) auto

lemma ControlSignal_Validate_epoch: "ControlSignal_Validate v = None \<Longrightarrow> sg_AuthorityEpoch v \<noteq> 0"
  by (simp add: ControlSignal_Validate_def)

lemma HandoffState_Validate_facts:
  assumes "HandoffState_Validate v = None"
  shows "hs_AuthorityEpoch v \<noteq> 0" "\<not> (hs_AgentIngress v = IngressWritable \<and> hs_HumanIngress v = IngressWritable)"
    "hs_HumanIngress v = IngressWritable \<Longrightarrow> hs_HumanClient v \<noteq> None"
    "hs_PrivacyState v = PrivacyPrivate \<Longrightarrow> hs_CaptureState v = CapturePublic \<Longrightarrow>
      hs_PrivacyRelease v = PrivacyReleaseProven"
  using assms by (auto simp: HandoffState_Validate_def)

lemma ProjectStatus_facts:
  "ProjectStatus v = StatusAgentOwned \<Longrightarrow> hs_DesiredOwner v = OwnerAgent \<and>
    hs_AgentIngress v = IngressWritable \<and> hs_HumanIngress v = IngressFenced"
  "ProjectStatus v = StatusHumanOwned \<Longrightarrow> hs_DesiredOwner v = OwnerHuman \<and>
    hs_AgentIngress v = IngressFenced \<and> hs_HumanClient v \<noteq> None"
  "ProjectStatus v = StatusAborted \<Longrightarrow> hs_AgentIngress v = IngressFenced \<and> hs_HumanIngress v = IngressFenced"
  by (auto simp: ProjectStatus_def split: if_splits Phase.splits)

lemma ProjectPublicState_fields:
  assumes "ProjectPublicState v c u = Inr p"
  shows "HandoffState_Validate v = None" "pb_Status p = ProjectStatus v"
    "pb_AgentIngress p = hs_AgentIngress v" "pb_HumanIngress p = hs_HumanIngress v"
    "pb_Attached p \<longleftrightarrow> hs_HumanClient v \<noteq> None"
    "pb_PrivacyState p = PrivacyPrivate \<Longrightarrow> hs_PrivacyState v = PrivacyPrivate \<and>
      pb_CaptureState p = hs_CaptureState v \<and> pb_PrivacyRelease p = hs_PrivacyRelease v"
  using assms by (auto simp: ProjectPublicState_def State_ValidateH4_def Let_def split: if_splits)

section \<open>Properties\<close>

text \<open>
  What the public status of a handoff promises. A status other than unknown is only projected
  for a valid state; the status agent-owned means that the human side is fenced and the agent side
  writable, human-owned that the agent side is fenced and a proven human client holds the session,
  aborted that both sides are fenced, and in no public state are both sides writable or private
  output shown as public without a proven release.
\<close>

theorem public_status_sound:
  assumes "ProjectPublicState v c u = Inr p"
  shows "pb_Status p = ProjectStatus v \<and>
    (pb_Status p = StatusAgentOwned \<longrightarrow> pb_HumanIngress p = IngressFenced \<and> pb_AgentIngress p = IngressWritable \<and>
       hs_DesiredOwner v = OwnerAgent) \<and>
    (pb_Status p = StatusHumanOwned \<longrightarrow> pb_AgentIngress p = IngressFenced \<and> pb_Attached p \<and>
       hs_DesiredOwner v = OwnerHuman) \<and>
    (pb_Status p = StatusAborted \<longrightarrow> pb_AgentIngress p = IngressFenced \<and> pb_HumanIngress p = IngressFenced) \<and>
    \<not> (pb_AgentIngress p = IngressWritable \<and> pb_HumanIngress p = IngressWritable) \<and>
    (pb_PrivacyState p = PrivacyPrivate \<and> pb_CaptureState p = CapturePublic \<longrightarrow>
       pb_PrivacyRelease p = PrivacyReleaseProven)"
proof -
  note p = ProjectPublicState_fields [OF assms]
  note f = HandoffState_Validate_facts [OF p(1)]
  from p(6) f(4) have "pb_PrivacyState p = PrivacyPrivate \<and> pb_CaptureState p = CapturePublic \<longrightarrow>
    pb_PrivacyRelease p = PrivacyReleaseProven" by auto
  with p(2-5) f(2) ProjectStatus_facts [of v] show ?thesis by simp
qed

definition human_owned_state :: HandoffState where
  "human_owned_state = \<lparr>hs_SchemaVersion = 1, hs_HandoffID = ''h1'', hs_SessionID = ''s1'',
     hs_Phase = PhaseHumanOwned, hs_AuthorityEpoch = 2, hs_DesiredOwner = OwnerHuman, hs_ProviderOwner = OwnerHuman,
     hs_AgentIngress = IngressFenced, hs_HumanIngress = IngressWritable,
     hs_TransferBoundary = \<lparr>tb_Kind = BoundaryProviderOrdered, tb_Established = True\<rparr>,
     hs_PrivacyState = PrivacyStateStandard, hs_PrivacyRelease = PrivacyReleaseNotRequired,
     hs_CaptureState = CapturePublic, hs_HumanClient = Some \<lparr>hc_Ref = ''c1''\<rparr>, hs_ProviderGeneration = ''g1'',
     hs_FailureCode = []\<rparr>"

lemmas opaque_defs = handoff_validOpaque_def bytes_headed_def handoff_byte_def byte_class_defs

lemma human_owned_state_valid: "HandoffState_Validate human_owned_state = None"
  by (simp add: HandoffState_Validate_def human_owned_state_def TransferBoundary_Validate_def
    HumanClientRef_Validate_def opaque_defs)

theorem public_status_sound_witness:
  "\<exists>p. ProjectPublicState human_owned_state 0 0 = Inr p \<and> pb_Status p = StatusHumanOwned \<and> pb_Attached p"
proof -
  obtain p where p: "ProjectPublicState human_owned_state 0 0 = Inr p"
    by (simp add: ProjectPublicState_def State_ValidateH4_def human_owned_state_valid IsZero_def Let_def)
  have "ProjectStatus human_owned_state = StatusHumanOwned"
    by (simp add: ProjectStatus_def human_owned_state_valid) (simp add: human_owned_state_def)
  with p public_status_sound [OF p] show ?thesis by auto
qed

end
