(* ===== verification/Capture.thy ===== *)
theory Capture
  imports Prelude
begin

text \<open>
  How complete the captured output of a session is (internal/core/receipt/capture_quality.go).  A
  valid capture truth is the same thing as a set of reasons; adding a reason inserts it there.
\<close>

section \<open>Capture truths\<close>

datatype CaptureQuality = CaptureComplete | CapturePartial | CaptureIncomplete | OtherQuality string

datatype CaptureReason =
    CaptureReasonPrivateIntervalsOmitted
  | CaptureReasonProviderLost
  | CaptureReasonTransportGap
  | OtherCaptureReason string

record CaptureTruth =
  ct_Quality :: CaptureQuality
  ct_Reasons :: "CaptureReason list"
  ct_OutputComplete :: bool

definition CompleteCaptureTruth :: CaptureTruth where
  "CompleteCaptureTruth = \<lparr>ct_Quality = CaptureComplete, ct_Reasons = [], ct_OutputComplete = True\<rparr>"

fun captureReasonRank :: "CaptureReason \<Rightarrow> int \<times> bool" where
  "captureReasonRank CaptureReasonPrivateIntervalsOmitted = (0, True)"
| "captureReasonRank CaptureReasonTransportGap = (1, True)"
| "captureReasonRank CaptureReasonProviderLost = (2, True)"
| "captureReasonRank (OtherCaptureReason s) = (0, False)"

text \<open>The loop of the validation; it returns whether a loss was among the reasons.\<close>

fun check_reasons :: "CaptureReason set \<Rightarrow> int \<Rightarrow> bool \<Rightarrow> CaptureReason list \<Rightarrow> bool option" where
  "check_reasons seen previous cause [] = Some cause"
| "check_reasons seen previous cause (reason # reasons) =
     (case captureReasonRank reason of (rank, known) \<Rightarrow>
        if \<not> known \<or> reason \<in> seen \<or> rank \<le> previous then None
        else check_reasons (insert reason seen) rank
          (cause \<or> reason = CaptureReasonProviderLost \<or> reason = CaptureReasonTransportGap) reasons)"

definition ValidateCaptureTruth :: "CaptureQuality \<Rightarrow> CaptureReason list \<Rightarrow> bool \<Rightarrow> goerr option" where
  "ValidateCaptureTruth quality reasons complete =
     (if quality = CaptureComplete then reject (\<not> complete \<or> reasons \<noteq> []) (Errorf ''complete capture truth mismatch'')
      else if complete then Some (Errorf ''non-complete capture cannot claim output complete'')
      else case check_reasons {} (- 1) False reasons of
          None \<Rightarrow> Some (Errorf ''invalid capture reason set'')
        | Some cause \<Rightarrow>
            (case quality of
               CapturePartial \<Rightarrow> reject (reasons \<noteq> [CaptureReasonPrivateIntervalsOmitted]) (Errorf ''partial capture reason mismatch'')
             | CaptureIncomplete \<Rightarrow> reject (\<not> cause) (Errorf ''incomplete capture lacks loss cause'')
             | _ \<Rightarrow> Some (Errorf ''invalid capture quality'')))"

definition CaptureTruth_Validate :: "CaptureTruth \<Rightarrow> goerr option" where
  "CaptureTruth_Validate v = ValidateCaptureTruth (ct_Quality v) (ct_Reasons v) (ct_OutputComplete v)"

text \<open>
  \<open>dedupe\<close> is the loop with the map \<open>seen\<close>; \<open>sort.Slice\<close> with the rank as key leaves no choice
  once the reasons are distinct and known.
\<close>

fun dedupe :: "CaptureReason list \<Rightarrow> CaptureReason list \<Rightarrow> CaptureReason list" where
  "dedupe acc [] = acc"
| "dedupe acc (x # xs) = dedupe (if x \<in> set acc then acc else acc @ [x]) xs"

definition WithReason :: "CaptureTruth \<Rightarrow> CaptureReason \<Rightarrow> CaptureTruth result" where
  "WithReason v reason =
     guard_result (CaptureTruth_Validate v)
      (if \<not> snd (captureReasonRank reason) then Inl (Errorf ''invalid capture reason'')
       else let kept = dedupe [] (ct_Reasons v);
                reasons = sort_key (\<lambda>r. fst (captureReasonRank r)) (if reason \<in> set kept then kept else kept @ [reason]);
                out = \<lparr>ct_Quality = (if reasons = [CaptureReasonPrivateIntervalsOmitted] then CapturePartial else CaptureIncomplete),
                       ct_Reasons = reasons, ct_OutputComplete = False\<rparr>
            in guard_result (CaptureTruth_Validate out) (Inr out))"

definition sameCaptureTruth :: "CaptureTruth \<Rightarrow> CaptureTruth \<Rightarrow> bool" where
  "sameCaptureTruth a b \<longleftrightarrow> \<not> (ct_Quality a \<noteq> ct_Quality b \<or> ct_OutputComplete a \<noteq> ct_OutputComplete b \<or>
     length (ct_Reasons a) \<noteq> length (ct_Reasons b)) \<and> (\<forall>i < length (ct_Reasons a). ct_Reasons a ! i = ct_Reasons b ! i)"

section \<open>Truths are sets of reasons\<close>

text \<open>The canonical truth of a set of reasons.\<close>

definition known_reasons :: "CaptureReason list" where
  "known_reasons = [CaptureReasonPrivateIntervalsOmitted, CaptureReasonTransportGap, CaptureReasonProviderLost]"

definition truth_of :: "CaptureReason set \<Rightarrow> CaptureTruth" where
  "truth_of A = \<lparr>ct_Quality = (if A = {} then CaptureComplete
       else if A = {CaptureReasonPrivateIntervalsOmitted} then CapturePartial else CaptureIncomplete),
     ct_Reasons = filter (\<lambda>r. r \<in> A) known_reasons, ct_OutputComplete = (A = {})\<rparr>"

lemma known_rank: "snd (captureReasonRank r) \<longleftrightarrow> r \<in> set known_reasons"
  by (cases r) (auto simp: known_reasons_def)

lemma rank_inj: "r \<in> set known_reasons \<Longrightarrow> r' \<in> set known_reasons \<Longrightarrow>
    fst (captureReasonRank r) = fst (captureReasonRank r') \<Longrightarrow> r = r'"
  by (auto simp: known_reasons_def)

lemma known_sorted: "sorted_wrt (\<lambda>a b. fst (captureReasonRank a) < fst (captureReasonRank b)) known_reasons"
  by (simp add: known_reasons_def)

lemma check_reasons_iff:
  "check_reasons seen p c xs = None \<longleftrightarrow> \<not> (set xs \<subseteq> set known_reasons \<and> set xs \<inter> seen = {} \<and>
     (\<forall>x \<in> set xs. p < fst (captureReasonRank x)) \<and> sorted_wrt (\<lambda>a b. fst (captureReasonRank a) < fst (captureReasonRank b)) xs)"
proof (induction xs arbitrary: seen p c)
  case (Cons x xs)
  obtain rank known where x: "captureReasonRank x = (rank, known)" by fastforce
  have known: "known \<longleftrightarrow> x \<in> set known_reasons" using known_rank [of x] by (simp add: x)
  show ?case
  proof (cases "known \<and> x \<notin> seen \<and> p < rank")
    case False
    then show ?thesis by (auto simp: x known)
  next
    case True
    let ?r = "\<lambda>y. fst (captureReasonRank y)"
    have rest: "set xs \<inter> insert x seen = {} \<and> (\<forall>y \<in> set xs. rank < ?r y) \<longleftrightarrow>
        set xs \<inter> seen = {} \<and> (\<forall>y \<in> set xs. p < ?r y) \<and> (\<forall>y \<in> set xs. rank < ?r y)"
      using True x by (metis disjoint_insert(1) fst_conv less_irrefl order.strict_trans)
    show ?thesis using True rest by (simp add: x known Cons.IH) blast
  qed
qed simp

lemma check_reasons_cause:
  "check_reasons seen p c xs = Some d \<Longrightarrow> d = (c \<or> CaptureReasonProviderLost \<in> set xs \<or> CaptureReasonTransportGap \<in> set xs)"
  by (induction xs arbitrary: seen p c) (auto split: prod.splits if_splits)

text \<open>Ranked lists of known reasons are determined by their sets.\<close>

lemma ranked_unique:
  assumes "sorted_wrt (\<lambda>a b. fst (captureReasonRank a) < fst (captureReasonRank b)) xs" "set xs \<subseteq> set known_reasons"
  shows "xs = filter (\<lambda>r. r \<in> set xs) known_reasons"
proof -
  have inj: "inj_on (\<lambda>r. fst (captureReasonRank r)) (set known_reasons)"
    by (auto simp: inj_on_def intro: rank_inj)
  have "map (\<lambda>r. fst (captureReasonRank r)) xs = map (\<lambda>r. fst (captureReasonRank r)) (filter (\<lambda>r. r \<in> set xs) known_reasons)"
  proof (rule strict_sorted_equal)
    show "sorted_wrt (<) (map (\<lambda>r. fst (captureReasonRank r)) (filter (\<lambda>r. r \<in> set xs) known_reasons))"
      using known_sorted by (simp add: sorted_wrt_map sorted_wrt_filter)
  qed (use assms in \<open>auto simp: sorted_wrt_map\<close>)
  then show ?thesis by (rule map_inj_on) (use inj assms(2) in \<open>auto intro: inj_on_subset\<close>)
qed

lemma reason_sets:
  assumes "A \<subseteq> set known_reasons"
  shows "A \<in> Pow {CaptureReasonPrivateIntervalsOmitted, CaptureReasonTransportGap, CaptureReasonProviderLost}"
  using assms by (auto simp: known_reasons_def)

lemma truth_of_valid: "A \<subseteq> set known_reasons \<Longrightarrow> CaptureTruth_Validate (truth_of A) = None"
  using reason_sets [of A]
  by (auto simp: Pow_insert truth_of_def CaptureTruth_Validate_def ValidateCaptureTruth_def known_reasons_def)

lemma valid_truth:
  assumes "CaptureTruth_Validate v = None"
  shows "v = truth_of (set (ct_Reasons v))" "set (ct_Reasons v) \<subseteq> set known_reasons"
proof -
  let ?A = "set (ct_Reasons v)"
  have "v = truth_of ?A \<and> ?A \<subseteq> set known_reasons"
  proof (cases "ct_Quality v = CaptureComplete")
    case True
    with assms show ?thesis
      by (cases v) (auto simp: CaptureTruth_Validate_def ValidateCaptureTruth_def truth_of_def known_reasons_def)
  next
    case False
    with assms obtain cause where check: "check_reasons {} (- 1) False (ct_Reasons v) = Some cause" and part: "\<not> ct_OutputComplete v"
      "ct_Quality v = CapturePartial \<and> ct_Reasons v = [CaptureReasonPrivateIntervalsOmitted] \<or> ct_Quality v = CaptureIncomplete \<and> cause"
      by (auto simp: CaptureTruth_Validate_def ValidateCaptureTruth_def split: if_splits option.splits CaptureQuality.splits)
    from check check_reasons_iff [of "{}" "- 1" False "ct_Reasons v"] have known: "?A \<subseteq> set known_reasons"
      and ranked: "sorted_wrt (\<lambda>a b. fst (captureReasonRank a) < fst (captureReasonRank b)) (ct_Reasons v)" by auto
    from check_reasons_cause [OF check] part(2) have "?A \<noteq> {}"
      "ct_Quality v = (if ?A = {CaptureReasonPrivateIntervalsOmitted} then CapturePartial else CaptureIncomplete)" by auto
    with part(1) ranked_unique [OF ranked known] known show ?thesis by (cases v) (auto simp: truth_of_def)
  qed
  then show "v = truth_of ?A" "?A \<subseteq> set known_reasons" by auto
qed

lemma WithReason_inserts:
  assumes "A \<subseteq> set known_reasons" "r \<in> set known_reasons"
  shows "WithReason (truth_of A) r = Inr (truth_of (insert r A))"
proof -
  have rs: "r \<in> {CaptureReasonPrivateIntervalsOmitted, CaptureReasonTransportGap, CaptureReasonProviderLost}"
    using assms(2) by (auto simp: known_reasons_def)
  have all: "insert r A \<subseteq> set known_reasons" using assms by simp
  let ?kept = "dedupe [] (ct_Reasons (truth_of A))"
  let ?reasons = "sort_key (\<lambda>r. fst (captureReasonRank r)) (if r \<in> set ?kept then ?kept else ?kept @ [r])"
  have reasons: "?reasons = ct_Reasons (truth_of (insert r A))"
    using reason_sets [OF assms(1)] rs by (auto simp: Pow_insert truth_of_def known_reasons_def)
  have quality: "(ct_Reasons (truth_of (insert r A)) = [CaptureReasonPrivateIntervalsOmitted]) = (insert r A = {CaptureReasonPrivateIntervalsOmitted})"
    using reason_sets [OF assms(1)] rs by (auto simp: Pow_insert truth_of_def known_reasons_def)
  have out: "\<lparr>ct_Quality = (if ct_Reasons (truth_of (insert r A)) = [CaptureReasonPrivateIntervalsOmitted] then CapturePartial else CaptureIncomplete),
       ct_Reasons = ct_Reasons (truth_of (insert r A)), ct_OutputComplete = False\<rparr> = truth_of (insert r A)"
    unfolding quality by (simp add: truth_of_def)
  show ?thesis
    using known_rank [of r] assms(2) truth_of_valid [OF assms(1)] truth_of_valid [OF all]
    unfolding WithReason_def Let_def reasons out by simp
qed

lemma sameCaptureTruth_iff: "sameCaptureTruth a b \<longleftrightarrow> a = b"
  by (cases a; cases b) (auto simp: sameCaptureTruth_def list_eq_iff_nth_eq)

end
