(* ===== verification/DelegatedStore.thy ===== *)
theory DelegatedStore
  imports Handoff SupervisorLedger Capture "HOL-Library.Product_Lexorder" "HOL-Library.Multiset"
begin

text \<open>
  The delegated-session part of the daemon's store: bindings, provider references, recovery
  markers, mutation records and context-execution leases
  (internal/adapter/store/delegated_sessions.go, delegated_restart.go, delegated_mutations.go,
  delegated_session_paths.go, context_exec_lease.go).  The operations run under one mutex, so each
  is a step on the repository.  The repository also carries the outcomes of the writes to come and
  the readings of its clock; \<open>sha\<close> is the hexadecimal SHA-256 digest.
\<close>

section \<open>The repository\<close>

record delegatedRecoveryMarker =
  rm_SchemaVersion :: int
  rm_Binding :: Binding
  rm_ProviderRef :: ProviderRef

record ContextExecLease =
  le_SessionID :: string
  le_AuthorityEpoch :: AuthorityEpoch
  le_ContextExecID :: string
  le_RequestFingerprint :: string

record handoffRecord =
  hr_SchemaVersion :: int
  hr_Request :: Request
  hr_State :: HandoffState
  hr_CreatedAt :: time
  hr_UpdatedAt :: time

record handoffTransaction =
  tx_SchemaVersion :: int
  tx_Record :: handoffRecord
  tx_PriorBinding :: Binding
  tx_TargetBinding :: Binding
  tx_ObservationSeqs :: "uint64 list"

record humanControlRecord =
  hcr_SchemaVersion :: int
  hcr_Signal :: ControlSignal
  hcr_Outcome :: string
  hcr_Completed :: bool
  hcr_CreatedAt :: time
  hcr_UpdatedAt :: time

record delegatedInputProvenance =
  dp_SchemaVersion :: int
  dp_SessionID :: string
  dp_Value :: string
  dp_UpdatedAt :: time

record delegatedCaptureState =
  dc_SchemaVersion :: int
  dc_SessionID :: string
  dc_Truth :: CaptureTruth
  dc_UpdatedAt :: time

text \<open>What the observation journal was told about the events prepared for a change.\<close>

datatype obs_event = ObsPrepared uint64 | ObsCommitted uint64 | ObsAborted uint64

record Repository =
  rp_bindings :: "Binding dir"
  rp_refs :: "ProviderRef dir"
  rp_markers :: "delegatedRecoveryMarker dir"
  rp_mutations :: "string \<Rightarrow> MutationRecord dir"
  rp_leases :: "ContextExecLease dir"
  rp_handoffs :: "handoffRecord dir"
  rp_transactions :: "handoffTransaction dir"
  rp_controls :: "string \<Rightarrow> humanControlRecord dir"
  rp_provenance :: "delegatedInputProvenance dir"
  rp_captures :: "delegatedCaptureState dir"
  rp_io :: "file_write list"
  rp_clock :: "time list"
  rp_journal :: "(uint64 \<times> StoreResult) list"
  rp_trace :: "obs_event list"
  rp_maxMutations :: int

definition now :: "Repository \<Rightarrow> time \<times> Repository" where
  "now r = (case rp_clock r of [] \<Rightarrow> (0, r) | t # ts \<Rightarrow> (t, r\<lparr>rp_clock := ts\<rparr>))"

text \<open>The writer applied to the directories of the repository.\<close>

definition replace_binding :: "Repository \<Rightarrow> string \<Rightarrow> Binding \<Rightarrow> StoreResult \<times> Repository" where
  "replace_binding r k v =
     (case next_io (rp_io r) of (io, ios) \<Rightarrow>
      case atomic_Replace io (rp_bindings r) k v of (res, d) \<Rightarrow> (res, r\<lparr>rp_bindings := d, rp_io := ios\<rparr>))"

definition create_binding :: "Repository \<Rightarrow> string \<Rightarrow> Binding \<Rightarrow> StoreResult \<times> Repository" where
  "create_binding r k v =
     (case next_io (rp_io r) of (io, ios) \<Rightarrow>
      case atomic_Create io (rp_bindings r) k v of (res, d) \<Rightarrow> (res, r\<lparr>rp_bindings := d, rp_io := ios\<rparr>))"

definition create_mutation :: "Repository \<Rightarrow> string \<Rightarrow> string \<Rightarrow> MutationRecord \<Rightarrow> StoreResult \<times> Repository" where
  "create_mutation r sid k v =
     (case next_io (rp_io r) of (io, ios) \<Rightarrow>
      case atomic_Create io (rp_mutations r sid) k v of (res, d) \<Rightarrow>
        (res, r\<lparr>rp_mutations := (rp_mutations r)(sid := d), rp_io := ios\<rparr>))"

definition replace_mutation :: "Repository \<Rightarrow> string \<Rightarrow> string \<Rightarrow> MutationRecord \<Rightarrow> StoreResult \<times> Repository" where
  "replace_mutation r sid k v =
     (case next_io (rp_io r) of (io, ios) \<Rightarrow>
      case atomic_Replace io (rp_mutations r sid) k v of (res, d) \<Rightarrow>
        (res, r\<lparr>rp_mutations := (rp_mutations r)(sid := d), rp_io := ios\<rparr>))"

definition create_lease :: "Repository \<Rightarrow> string \<Rightarrow> ContextExecLease \<Rightarrow> StoreResult \<times> Repository" where
  "create_lease r k v =
     (case next_io (rp_io r) of (io, ios) \<Rightarrow>
      case atomic_Create io (rp_leases r) k v of (res, d) \<Rightarrow> (res, r\<lparr>rp_leases := d, rp_io := ios\<rparr>))"

section \<open>Errors\<close>

definition delegatedStateConflict :: "Binding \<Rightarrow> string \<Rightarrow> goerr option \<Rightarrow> goerr" where
  "delegatedStateConflict b reason cause = failure_New DelegatedReconcileBlocked
     [(''session_id'', bd_SessionID b), (''provider_id'', bd_ProviderID b),
      (''current_epoch'', sprint_uint (bd_AuthorityEpoch b)), (''reason'', reason)] cause"

definition delegatedBindingConflict :: "Binding \<Rightarrow> Binding \<Rightarrow> goerr" where
  "delegatedBindingConflict existing want =
     (if bd_ProviderID existing \<noteq> bd_ProviderID want \<or> bd_ProviderVersion existing \<noteq> bd_ProviderVersion want
      then failure_New DelegatedProviderMismatch
        [(''session_id'', bd_SessionID existing), (''provider_id'', bd_ProviderID want),
         (''provider_version'', sprint_int (bd_ProviderVersion want)),
         (''expected_provider_id'', bd_ProviderID existing),
         (''expected_provider_version'', sprint_int (bd_ProviderVersion existing))] None
      else delegatedStateConflict want ''binding_conflict'' None)"

definition delegatedRecoveryBlocked :: "Binding \<Rightarrow> string \<Rightarrow> goerr option \<Rightarrow> goerr" where
  "delegatedRecoveryBlocked b reason cause = failure_New DelegatedReconcileBlocked
     [(''session_id'', bd_SessionID b), (''provider_id'', bd_ProviderID b),
      (''current_epoch'', sprint_uint (bd_AuthorityEpoch b)), (''reason'', reason)] cause"

section \<open>Loading\<close>

definition loadDelegatedBindingLocked :: "Repository \<Rightarrow> string \<Rightarrow> Binding result" where
  "loadDelegatedBindingLocked r sid =
     bind_result (readPrivateJSON (rp_bindings r) sid) (\<lambda>b.
       if Binding_Validate b \<noteq> None \<or> bd_SessionID b \<noteq> sid
       then Inl (delegatedStateConflict b ''binding_corrupt'' (Binding_Validate b)) else Inr b)"

definition loadDelegatedProviderRefLocked :: "Repository \<Rightarrow> string \<Rightarrow> ProviderRef result" where
  "loadDelegatedProviderRefLocked r sid =
     bind_result (readPrivateJSON (rp_refs r) sid) (\<lambda>p.
       if ProviderRef_Validate p \<noteq> None \<or> pr_SessionID p \<noteq> sid
       then Inl (Errorf ''invalid delegated provider ref'') else Inr p)"

definition LoadDelegatedBinding :: "goerr option \<Rightarrow> string \<Rightarrow> Repository \<Rightarrow> Binding result" where
  "LoadDelegatedBinding ctx sid r =
     guard_result ctx (bind_result (ParseSessionID sid) (\<lambda>_. loadDelegatedBindingLocked r sid))"

definition LoadDelegatedProviderRef :: "goerr option \<Rightarrow> string \<Rightarrow> Repository \<Rightarrow> ProviderRef result" where
  "LoadDelegatedProviderRef ctx sid r =
     guard_result ctx (bind_result (ParseSessionID sid) (\<lambda>_. loadDelegatedProviderRefLocked r sid))"

section \<open>Bindings\<close>

definition sameDelegatedBindingIdentity :: "Binding \<Rightarrow> Binding \<Rightarrow> bool" where
  "sameDelegatedBindingIdentity a b \<longleftrightarrow> bd_SchemaVersion a = bd_SchemaVersion b \<and>
     bd_SessionID a = bd_SessionID b \<and> bd_OperationID a = bd_OperationID b \<and>
     bd_SessionName a = bd_SessionName b \<and> bd_SessionMode a = bd_SessionMode b \<and>
     bd_ProviderID a = bd_ProviderID b \<and> bd_ProviderVersion a = bd_ProviderVersion b \<and>
     bd_CreatedAt a = bd_CreatedAt b"

fun validDelegatedLifecycleTransition :: "Lifecycle \<Rightarrow> Lifecycle \<Rightarrow> bool" where
  "validDelegatedLifecycleTransition LifecycleProvisioning to \<longleftrightarrow>
     to = LifecycleProvisioning \<or> to = LifecycleLive \<or> to = LifecycleTerminal \<or> to = LifecycleLost"
| "validDelegatedLifecycleTransition LifecycleLive to \<longleftrightarrow>
     to = LifecycleLive \<or> to = LifecycleTerminal \<or> to = LifecycleLost"
| "validDelegatedLifecycleTransition from to \<longleftrightarrow> from = to"

definition validateDelegatedProviderRefBinding :: "Binding \<Rightarrow> ProviderRef \<Rightarrow> goerr option" where
  "validateDelegatedProviderRefBinding b ref =
     reject (bd_SessionID b \<noteq> pr_SessionID ref \<or> bd_ProviderID b \<noteq> pr_ProviderID ref \<or>
             bd_ProviderVersion b \<noteq> pr_ProviderVersion ref \<or> bd_CreatedAt b \<noteq> pr_CreatedAt ref)
       (Errorf ''delegated provider ref binding mismatch'')"

text \<open>The fields of an operation reservation that the binding is checked against.\<close>

record Reservation =
  rs_SchemaVersion :: int
  rs_SessionMode :: string
  rs_SessionID :: string
  rs_OperationID :: string
  rs_SessionName :: string
  rs_AuthorityEpoch :: AuthorityEpoch

definition validateDelegatedReservationBinding :: "Reservation \<Rightarrow> Binding \<Rightarrow> goerr option" where
  "validateDelegatedReservationBinding rs b =
     reject (rs_SchemaVersion rs \<noteq> 5 \<or> rs_SessionMode rs \<noteq> ModeDelegatedInteractive \<or>
             rs_SessionID rs \<noteq> bd_SessionID b \<or> rs_OperationID rs \<noteq> bd_OperationID b \<or>
             rs_SessionName rs \<noteq> bd_SessionName b \<or> rs_AuthorityEpoch rs \<noteq> bd_AuthorityEpoch b)
       (Errorf ''delegated reservation binding mismatch'')"

definition marker_validate :: "delegatedRecoveryMarker \<Rightarrow> goerr option" where
  "marker_validate m = first_error [
     reject (rm_SchemaVersion m \<noteq> 1 \<or> bd_Lifecycle (rm_Binding m) \<noteq> LifecycleProvisioning)
       (Errorf ''invalid delegated recovery marker''),
     Binding_Validate (rm_Binding m),
     ProviderRef_Validate (rm_ProviderRef m),
     validateDelegatedProviderRefBinding (rm_Binding m) (rm_ProviderRef m)]"

fun strongerDelegatedDurability :: "Durability \<Rightarrow> Durability \<Rightarrow> Durability" where
  "strongerDelegatedDurability a b =
     (if a = AmbiguousChange \<or> b = AmbiguousChange then AmbiguousChange
      else if a = DurableChange \<or> b = DurableChange then DurableChange else NoDurableChange)"

definition ensureDelegatedRecoveryMarkerLocked ::
  "Repository \<Rightarrow> delegatedRecoveryMarker \<Rightarrow> StoreResult \<times> Repository" where
  "ensureDelegatedRecoveryMarkerLocked r marker =
     (case marker_validate marker of
        Some e \<Rightarrow> (store_result NoDurableChange (Some e), r)
      | None \<Rightarrow>
          (case ensure_file (\<lambda>existing.
              if marker_validate existing = None \<and> existing = marker then store_result DurableChange None
              else store_result DurableChange
                (Some (delegatedStateConflict (rm_Binding marker) ''recovery_marker_conflict'' None)))
              (rp_markers r) (bd_SessionID (rm_Binding marker)) marker (rp_io r) of
             (res, d, ios) \<Rightarrow> (res, r\<lparr>rp_markers := d, rp_io := ios\<rparr>)))"

definition ensureDelegatedProviderRefLocked :: "Repository \<Rightarrow> ProviderRef \<Rightarrow> StoreResult \<times> Repository" where
  "ensureDelegatedProviderRefLocked r ref =
     (case ensure_file (\<lambda>existing.
         if existing = ref then store_result DurableChange None
         else store_result DurableChange (Some (failure_New DelegatedProviderMismatch
           [(''session_id'', pr_SessionID ref), (''provider_id'', pr_ProviderID ref)] None)))
         (rp_refs r) (pr_SessionID ref) ref (rp_io r) of
        (res, d, ios) \<Rightarrow> (res, r\<lparr>rp_refs := d, rp_io := ios\<rparr>))"

text \<open>
  \<open>ReserveDelegatedBinding\<close>: \<open>LoadOperation\<close> is the store's loader of operation reservations,
  the returned binding is \<open>None\<close> where the code returns the zero binding.
\<close>

definition reserve_checks ::
  "(string \<Rightarrow> Reservation result) \<Rightarrow> goerr option \<Rightarrow> Binding \<Rightarrow> ProviderRef \<Rightarrow> StoreResult option" where
  "reserve_checks LoadOperation ctx want ref =
     (let fail = (\<lambda>e. Some (store_result NoDurableChange (Some e))) in
      case ctx of Some e \<Rightarrow> fail e | None \<Rightarrow>
      if Binding_Validate want \<noteq> None \<or> bd_Lifecycle want \<noteq> LifecycleProvisioning
      then fail (delegatedStateConflict want ''invalid_binding'' (Binding_Validate want))
      else if ProviderRef_Validate ref \<noteq> None
      then fail (delegatedStateConflict want ''invalid_provider_ref'' (ProviderRef_Validate ref))
      else case validateDelegatedProviderRefBinding want ref of
        Some e \<Rightarrow> fail (failure_New DelegatedProviderMismatch
          [(''session_id'', bd_SessionID want), (''provider_id'', pr_ProviderID ref),
           (''provider_version'', sprint_int (pr_ProviderVersion ref)),
           (''expected_provider_id'', bd_ProviderID want),
           (''expected_provider_version'', sprint_int (bd_ProviderVersion want))] (Some e))
      | None \<Rightarrow>
      (case ParseSessionID (bd_SessionID want) of Inl e \<Rightarrow> Some (store_result UnsetDurability (Some e)) | Inr _ \<Rightarrow>
      (case ParseID (bd_OperationID want) of Inl e \<Rightarrow> Some (store_result UnsetDurability (Some e)) | Inr _ \<Rightarrow>
      (case LoadOperation (bd_OperationID want) of
         Inl e \<Rightarrow> fail (delegatedStateConflict want ''reservation_missing'' (Some e))
       | Inr rs \<Rightarrow>
          (case validateDelegatedReservationBinding rs want of
             Some e \<Rightarrow> fail (delegatedStateConflict want ''reservation_mismatch'' (Some e))
           | None \<Rightarrow> None)))))"

definition finish_reserve ::
  "Repository \<Rightarrow> Durability \<Rightarrow> Binding \<Rightarrow> (Binding option \<times> bool \<times> StoreResult) \<times> Repository" where
  "finish_reserve r prior want =
     (let sid = bd_SessionID want in
      case readPrivateJSON (rp_bindings r) sid of
        Inr existing \<Rightarrow>
          if Binding_Validate existing \<noteq> None
          then ((Some existing, False, store_result DurableChange (Some (delegatedStateConflict want ''binding_corrupt'' None))), r)
          else if existing = want then ((Some existing, False, store_result DurableChange None), r)
          else ((Some existing, False, store_result DurableChange (Some (delegatedBindingConflict existing want))), r)
      | Inl e \<Rightarrow>
          if \<not> is_not_found e then ((None, False, store_result NoDurableChange (Some e)), r)
          else (case create_binding r sid want of
            (res, r') \<Rightarrow>
              if sr_Err res = None then ((Some want, True, res), r')
              else let res' = res\<lparr>sr_Durability := strongerDelegatedDurability prior (sr_Durability res)\<rparr> in
                if is_exist (sr_Err res) \<and> readPrivateJSON (rp_bindings r') sid = Inr want
                then ((Some want, False, store_result DurableChange None), r')
                else ((None, False, res'), r')))"

definition reserve_files ::
  "Repository \<Rightarrow> Binding \<Rightarrow> ProviderRef \<Rightarrow> (Binding option \<times> bool \<times> StoreResult) \<times> Repository" where
  "reserve_files r want ref =
     (case ensureDelegatedRecoveryMarkerLocked r
         \<lparr>rm_SchemaVersion = 1, rm_Binding = want, rm_ProviderRef = ref\<rparr> of
        (mres, r1) \<Rightarrow>
          if sr_Err mres \<noteq> None then ((None, False, mres), r1)
          else let prior = strongerDelegatedDurability NoDurableChange (sr_Durability mres) in
            (case ensureDelegatedProviderRefLocked r1 ref of
               (rres, r2) \<Rightarrow>
                 if sr_Err rres \<noteq> None
                 then ((None, False, rres\<lparr>sr_Durability := strongerDelegatedDurability prior (sr_Durability rres)\<rparr>), r2)
                 else finish_reserve r2 (strongerDelegatedDurability prior (sr_Durability rres)) want))"

definition ReserveDelegatedBinding ::
  "(string \<Rightarrow> Reservation result) \<Rightarrow> goerr option \<Rightarrow> Binding \<Rightarrow> ProviderRef \<Rightarrow> Repository
     \<Rightarrow> (Binding option \<times> bool \<times> StoreResult) \<times> Repository" where
  "ReserveDelegatedBinding LoadOperation ctx want ref r =
     (case reserve_checks LoadOperation ctx want ref of
        Some res \<Rightarrow> ((None, False, res), r)
      | None \<Rightarrow>
          (case loadDelegatedBindingLocked r (bd_SessionID want) of
             Inr existing \<Rightarrow>
               if existing \<noteq> want
               then ((Some existing, False,
                 store_result DurableChange (Some (delegatedBindingConflict existing want))), r)
               else reserve_files r want ref
           | Inl e \<Rightarrow>
               if \<not> is_not_found e then ((None, False, store_result NoDurableChange (Some e)), r)
               else reserve_files r want ref))"

definition removeDelegatedRecoveryMarkerLocked :: "Repository \<Rightarrow> string \<Rightarrow> goerr option \<times> Repository" where
  "removeDelegatedRecoveryMarkerLocked r sid =
     (case next_io (rp_io r) of (io, ios) \<Rightarrow>
      case remove_file io (rp_markers r) sid of (e, d) \<Rightarrow> (e, r\<lparr>rp_markers := d, rp_io := ios\<rparr>))"

definition AdvanceDelegatedBinding :: "goerr option \<Rightarrow> Binding \<Rightarrow> Repository \<Rightarrow> StoreResult \<times> Repository" where
  "AdvanceDelegatedBinding ctx want r =
     (case ctx of Some e \<Rightarrow> (store_result NoDurableChange (Some e), r) | None \<Rightarrow>
      (case Binding_Validate want of
         Some e \<Rightarrow> (store_result NoDurableChange (Some (delegatedStateConflict want ''invalid_binding'' (Some e))), r)
       | None \<Rightarrow>
      (case ParseSessionID (bd_SessionID want) of Inl e \<Rightarrow> (store_result UnsetDurability (Some e), r) | Inr sid \<Rightarrow>
      (case loadDelegatedBindingLocked r sid of Inl e \<Rightarrow> (store_result NoDurableChange (Some e), r) | Inr existing \<Rightarrow>
        if \<not> sameDelegatedBindingIdentity existing want
        then (store_result DurableChange (Some (delegatedBindingConflict existing want)), r)
        else if existing = want then (store_result DurableChange None, r)
        else if \<not> bd_UpdatedAt existing < bd_UpdatedAt want \<or> bd_AuthorityEpoch want < bd_AuthorityEpoch existing \<or>
                (bd_DesiredOwner want \<noteq> bd_DesiredOwner existing \<and> bd_AuthorityEpoch want \<le> bd_AuthorityEpoch existing) \<or>
                \<not> validDelegatedLifecycleTransition (bd_Lifecycle existing) (bd_Lifecycle want)
        then (store_result DurableChange (Some (delegatedStateConflict want ''lifecycle_or_epoch_conflict'' None)), r)
        else (case replace_binding r sid want of (res, r1) \<Rightarrow>
          if sr_Err res \<noteq> None then (res, r1)
          else if bd_Lifecycle want = LifecycleTerminal \<or> bd_Lifecycle want = LifecycleLost
          then (case removeDelegatedRecoveryMarkerLocked r1 sid of
              (Some e, r2) \<Rightarrow> (store_result DurableChange (Some e), r2)
            | (None, r2) \<Rightarrow> (res, r2))
          else (res, r1))))))"

section \<open>Mutations\<close>

fun mutation_kind_string :: "MutationKind \<Rightarrow> string" where
  "mutation_kind_string MutationWrite = ''write''"
| "mutation_kind_string MutationSignal = ''signal''"
| "mutation_kind_string MutationKill = ''kill''"
| "mutation_kind_string MutationResize = ''resize''"
| "mutation_kind_string MutationTransfer = ''transfer''"
| "mutation_kind_string MutationHumanControl = ''human_control''"
| "mutation_kind_string MutationProviderAuthority = ''provider_authority''"
| "mutation_kind_string (OtherMutationKind s) = s"

definition nul :: string where
  "nul = [CHR 0x00]"

definition delegatedMutationKey :: "(string \<Rightarrow> string) \<Rightarrow> MutationIdentity \<Rightarrow> string" where
  "delegatedMutationKey sha i =
     sha (mutation_kind_string (mi_Kind i) @ nul @ mi_SessionID i @ nul @ sprint_uint (mi_Epoch i) @ nul @
       mi_IdempotencyID i @ (if mi_Kind i = MutationWrite then nul @ sprint_int (mi_Offset i) else []))"

definition sameDelegatedMutationLogicalIdentity :: "MutationIdentity \<Rightarrow> MutationIdentity \<Rightarrow> bool" where
  "sameDelegatedMutationLogicalIdentity a b \<longleftrightarrow> mi_SessionID a = mi_SessionID b \<and> mi_Epoch a = mi_Epoch b \<and>
     mi_Kind a = mi_Kind b \<and> mi_IdempotencyID a = mi_IdempotencyID b \<and> mi_Offset a = mi_Offset b"

fun validDelegatedMutationTransition :: "MutationState \<Rightarrow> MutationState \<Rightarrow> bool" where
  "validDelegatedMutationTransition MutationReserved to \<longleftrightarrow>
     to = MutationDelivered \<or> to = MutationCompleted \<or> to = MutationFailed \<or> to = MutationOutcomeUnknown"
| "validDelegatedMutationTransition MutationDelivered to \<longleftrightarrow>
     to = MutationCompleted \<or> to = MutationFailed \<or> to = MutationOutcomeUnknown"
| "validDelegatedMutationTransition MutationOutcomeUnknown to \<longleftrightarrow>
     to = MutationDelivered \<or> to = MutationCompleted \<or> to = MutationFailed"
| "validDelegatedMutationTransition _ to \<longleftrightarrow> False"

definition loadDelegatedMutationLocked ::
  "(string \<Rightarrow> string) \<Rightarrow> Repository \<Rightarrow> MutationIdentity \<Rightarrow> MutationRecord result" where
  "loadDelegatedMutationLocked sha r i =
     bind_result (readPrivateJSON (rp_mutations r (mi_SessionID i)) (delegatedMutationKey sha i)) (\<lambda>m.
       guard_result (MutationRecord_Validate m)
         (if \<not> sameDelegatedMutationLogicalIdentity (mr_Identity m) i
          then Inl (Errorf ''delegated mutation logical identity mismatch'') else Inr m))"

definition LookupDelegatedMutation ::
  "(string \<Rightarrow> string) \<Rightarrow> goerr option \<Rightarrow> MutationIdentity \<Rightarrow> Repository \<Rightarrow> MutationRecord option result" where
  "LookupDelegatedMutation sha ctx i r =
     guard_result ctx (guard_result (MutationIdentity_Validate i)
       (case loadDelegatedMutationLocked sha r i of
          Inr m \<Rightarrow> Inr (Some m) | Inl e \<Rightarrow> if is_not_found e then Inr None else Inl e))"

definition stale_epoch_failure :: "string \<Rightarrow> AuthorityEpoch \<Rightarrow> AuthorityEpoch \<Rightarrow> goerr" where
  "stale_epoch_failure sid expected current = failure_New StaleControlGeneration
     [(''session_id'', sid), (''expected_epoch'', sprint_uint expected), (''current_epoch'', sprint_uint current)] None"

definition not_owned_failure :: "string \<Rightarrow> Binding \<Rightarrow> goerr" where
  "not_owned_failure sid b = failure_New SessionControlNotOwned
     [(''session_id'', sid), (''owner'', owner_string (bd_DesiredOwner b)),
      (''required_owner'', owner_string OwnerAgent), (''current_epoch'', sprint_uint (bd_AuthorityEpoch b))] None"

definition ReserveDelegatedMutation ::
  "(string \<Rightarrow> string) \<Rightarrow> goerr option \<Rightarrow> MutationIdentity \<Rightarrow> Repository
     \<Rightarrow> (MutationRecord option \<times> bool \<times> StoreResult) \<times> Repository" where
  "ReserveDelegatedMutation sha ctx i r =
     (case ctx of Some e \<Rightarrow> ((None, False, store_result UnsetDurability (Some e)), r) | None \<Rightarrow>
      (case MutationIdentity_Validate i of
         Some e \<Rightarrow> ((None, False, store_result UnsetDurability
           (Some (failure_New InvalidInput [(''field'', ''mutation'')] (Some e)))), r)
       | None \<Rightarrow>
      (case loadDelegatedMutationLocked sha r i of
         Inr existing \<Rightarrow>
           if mr_Identity existing \<noteq> i
           then ((Some existing, False, store_result DurableChange (Some (failure_New OperationConflict [] None))), r)
           else ((Some existing, False, store_result DurableChange None), r)
       | Inl e \<Rightarrow>
           if \<not> is_not_found e then ((None, False, store_result UnsetDurability (Some e)), r)
           else
      (case loadDelegatedBindingLocked r (mi_SessionID i) of
         Inl e \<Rightarrow> ((None, False, store_result UnsetDurability (Some e)), r)
       | Inr binding \<Rightarrow>
           if bd_AuthorityEpoch binding \<noteq> mi_Epoch i
           then ((None, False, store_result DurableChange
             (Some (stale_epoch_failure (mi_SessionID i) (bd_AuthorityEpoch binding) (mi_Epoch i)))), r)
           else if bd_Lifecycle binding \<noteq> LifecycleLive \<or> bd_DesiredOwner binding \<noteq> OwnerAgent
           then ((None, False, store_result DurableChange (Some (not_owned_failure (mi_SessionID i) binding))), r)
           else if rp_maxMutations r \<le> int (length (rp_mutations r (mi_SessionID i)))
           then ((None, False, store_result NoDurableChange (Some (failure_New CapacityExceeded
             [(''active'', sprint_int (int (length (rp_mutations r (mi_SessionID i))))),
              (''limit'', sprint_int (rp_maxMutations r))] None))), r)
           else (case now r of (t, r1) \<Rightarrow>
             let rec = \<lparr>mr_SchemaVersion = MutationRecordSchemaVersion, mr_Identity = i, mr_State = MutationReserved,
                        mr_Outcome = [], mr_CreatedAt = t, mr_UpdatedAt = t\<rparr> in
             case create_mutation r1 (mi_SessionID i) (delegatedMutationKey sha i) rec of
               (res, r2) \<Rightarrow>
                 if sr_Err res = None then ((Some rec, True, res), r2)
                 else if is_exist (sr_Err res) then
                   (case loadDelegatedMutationLocked sha r2 i of
                      Inr existing \<Rightarrow>
                        if mr_Identity existing = i then ((Some existing, False, store_result DurableChange None), r2)
                        else ((None, False, res), r2)
                    | Inl _ \<Rightarrow> ((None, False, res), r2))
                 else ((None, False, res), r2))))))"

definition CompleteDelegatedMutation ::
  "(string \<Rightarrow> string) \<Rightarrow> goerr option \<Rightarrow> MutationIdentity \<Rightarrow> MutationState \<Rightarrow> string \<Rightarrow> Repository
     \<Rightarrow> (MutationRecord option \<times> StoreResult) \<times> Repository" where
  "CompleteDelegatedMutation sha ctx i st outcome r =
     (case ctx of Some e \<Rightarrow> ((None, store_result UnsetDurability (Some e)), r) | None \<Rightarrow>
      if MutationState_Validate st \<noteq> None \<or> st = MutationReserved
      then ((None, store_result UnsetDurability
        (Some (failure_New InvalidInput [(''field'', ''mutation_state'')] (MutationState_Validate st)))), r)
      else (case loadDelegatedMutationLocked sha r i of
          Inl e \<Rightarrow> ((None, store_result UnsetDurability (Some e)), r)
        | Inr current \<Rightarrow>
            if mr_Identity current \<noteq> i
            then ((Some current, store_result DurableChange (Some (failure_New OperationConflict [] None))), r)
            else if mr_State current = st \<and> mr_Outcome current = outcome
            then ((Some current, store_result DurableChange None), r)
            else if \<not> validDelegatedMutationTransition (mr_State current) st
            then ((Some current, store_result DurableChange (Some (failure_New OperationConflict [] None))), r)
            else (case now r of (t, r1) \<Rightarrow>
              let nxt = current\<lparr>mr_State := st, mr_Outcome := outcome, mr_UpdatedAt := t\<rparr> in
              case MutationRecord_Validate nxt of
                Some e \<Rightarrow> ((Some current, store_result UnsetDurability (Some e)), r1)
              | None \<Rightarrow>
                  (case replace_mutation r1 (mi_SessionID i) (delegatedMutationKey sha i) nxt of
                     (res, r2) \<Rightarrow>
                       if sr_Err res \<noteq> None then ((Some current, res), r2) else ((Some nxt, res), r2)))))"

section \<open>Recovery of the input offset\<close>

text \<open>
  The loop over the mutation records of a session, in the order of the directory listing: the
  completed writes, or the error that blocks recovery.
\<close>

fun recovery_scan ::
  "(string \<Rightarrow> string) \<Rightarrow> Binding \<Rightarrow> MutationRecord dir \<Rightarrow> string list \<Rightarrow> MutationIdentity list result" where
  "recovery_scan sha b d [] = Inr []"
| "recovery_scan sha b d (name # names) =
     (case readPrivateJSON d name of
        Inl e \<Rightarrow> Inl (delegatedRecoveryBlocked b ''mutation_ledger_corrupt'' (Some e))
      | Inr rec \<Rightarrow>
          if MutationRecord_Validate rec \<noteq> None \<or> mi_SessionID (mr_Identity rec) \<noteq> bd_SessionID b \<or>
             name \<noteq> delegatedMutationKey sha (mr_Identity rec)
          then Inl (delegatedRecoveryBlocked b ''mutation_ledger_corrupt'' (MutationRecord_Validate rec))
          else (case mr_State rec of
              MutationReserved \<Rightarrow> Inl (delegatedRecoveryBlocked b ''mutation_unresolved'' None)
            | MutationDelivered \<Rightarrow> Inl (delegatedRecoveryBlocked b ''mutation_unresolved'' None)
            | MutationOutcomeUnknown \<Rightarrow> Inl (delegatedRecoveryBlocked b ''mutation_unresolved'' None)
            | MutationFailed \<Rightarrow> recovery_scan sha b d names
            | MutationCompleted \<Rightarrow>
                bind_result (recovery_scan sha b d names) (\<lambda>ws.
                  Inr (if mi_Kind (mr_Identity rec) = MutationWrite then mr_Identity rec # ws else ws))
            | OtherMutationState _ \<Rightarrow> Inl (delegatedRecoveryBlocked b ''mutation_ledger_corrupt'' None)))"

fun contiguous :: "int \<Rightarrow> MutationIdentity list \<Rightarrow> int option" where
  "contiguous next [] = Some next"
| "contiguous next (i # is) = (if mi_Offset i \<noteq> next then None else contiguous (mi_NextOffset i) is)"

definition LoadDelegatedRecoveryState ::
  "(string \<Rightarrow> string) \<Rightarrow> goerr option \<Rightarrow> string \<Rightarrow> Repository \<Rightarrow> int result" where
  "LoadDelegatedRecoveryState sha ctx sid r =
     guard_result ctx (bind_result (ParseSessionID sid) (\<lambda>_.
       bind_result (loadDelegatedBindingLocked r sid) (\<lambda>b.
       let d = rp_mutations r sid in
       bind_result (recovery_scan sha b d (ReadDir d)) (\<lambda>writes.
         case contiguous 0 (sort_key (\<lambda>i. (mi_Offset i, mi_NextOffset i)) writes) of
           None \<Rightarrow> Inl (delegatedRecoveryBlocked b ''mutation_write_gap'' None)
         | Some next \<Rightarrow> Inr next))))"

section \<open>Recovery candidates\<close>

definition loadDelegatedRecoveryMarkerLocked :: "Repository \<Rightarrow> string \<Rightarrow> delegatedRecoveryMarker result" where
  "loadDelegatedRecoveryMarkerLocked r sid =
     bind_result (readPrivateJSON (rp_markers r) sid) (\<lambda>m.
       if marker_validate m \<noteq> None \<or> bd_SessionID (rm_Binding m) \<noteq> sid
       then Inl (Errorf ''invalid delegated recovery marker'') else Inr m)"

definition create_ref :: "Repository \<Rightarrow> string \<Rightarrow> ProviderRef \<Rightarrow> StoreResult \<times> Repository" where
  "create_ref r k v =
     (case next_io (rp_io r) of (io, ios) \<Rightarrow>
      case atomic_Create io (rp_refs r) k v of (res, d) \<Rightarrow> (res, r\<lparr>rp_refs := d, rp_io := ios\<rparr>))"

text \<open>
  One entry of the recovery directory: a missing binding or provider reference is restored from
  the marker; a finished session loses its marker.
\<close>

definition restore_binding :: "delegatedRecoveryMarker \<Rightarrow> Repository \<Rightarrow> string \<Rightarrow> Binding result \<times> Repository" where
  "restore_binding marker r sid =
     (case loadDelegatedBindingLocked r sid of
        Inr b \<Rightarrow> (Inr b, r)
      | Inl e \<Rightarrow>
          if is_not_found e then
            (case create_binding r sid (rm_Binding marker) of (res, r1) \<Rightarrow>
               (if sr_Err res \<noteq> None \<and> \<not> is_exist (sr_Err res) then Inl (the (sr_Err res))
                else Inr (rm_Binding marker), r1))
          else (Inl e, r))"

definition restore_ref :: "delegatedRecoveryMarker \<Rightarrow> Repository \<Rightarrow> string \<Rightarrow> goerr option \<times> Repository" where
  "restore_ref marker r sid =
     (case loadDelegatedProviderRefLocked r sid of
        Inr _ \<Rightarrow> (None, r)
      | Inl e \<Rightarrow>
          if is_not_found e then
            (case create_ref r sid (rm_ProviderRef marker) of (res, r1) \<Rightarrow>
               (if sr_Err res \<noteq> None \<and> \<not> is_exist (sr_Err res) then sr_Err res else None, r1))
          else (Some e, r))"

definition recover_candidate :: "Repository \<Rightarrow> string \<Rightarrow> Binding option result \<times> Repository" where
  "recover_candidate r sid =
     (case ParseSessionID sid of Inl e \<Rightarrow> (Inl e, r) | Inr _ \<Rightarrow>
      (case loadDelegatedRecoveryMarkerLocked r sid of Inl e \<Rightarrow> (Inl e, r) | Inr marker \<Rightarrow>
      (case restore_binding marker r sid of
         (Inl e, r1) \<Rightarrow> (Inl e, r1)
       | (Inr b, r1) \<Rightarrow>
      (case restore_ref marker r1 sid of
         (Some e, r2) \<Rightarrow> (Inl e, r2)
       | (None, r2) \<Rightarrow>
           if \<not> sameDelegatedBindingIdentity b (rm_Binding marker)
           then (Inl (delegatedStateConflict b ''recovery_identity'' None), r2)
           else (case bd_Lifecycle b of
               LifecycleProvisioning \<Rightarrow> (Inr (Some b), r2)
             | LifecycleLive \<Rightarrow> (Inr (Some b), r2)
             | LifecycleTerminal \<Rightarrow> (Inr None, snd (removeDelegatedRecoveryMarkerLocked r2 sid))
             | LifecycleLost \<Rightarrow> (Inr None, snd (removeDelegatedRecoveryMarkerLocked r2 sid))
             | OtherLifecycle _ \<Rightarrow> (Inl (Errorf ''invalid delegated recovery lifecycle''), r2))))))"

fun recover_loop :: "Repository \<Rightarrow> string list \<Rightarrow> Binding list result \<times> Repository" where
  "recover_loop r [] = (Inr [], r)"
| "recover_loop r (sid # sids) =
     (case recover_candidate r sid of
        (Inl e, r1) \<Rightarrow> (Inl e, r1)
      | (Inr c, r1) \<Rightarrow>
          (case recover_loop r1 sids of
             (Inl e, r2) \<Rightarrow> (Inl e, r2)
           | (Inr bs, r2) \<Rightarrow> (Inr (case c of None \<Rightarrow> bs | Some b \<Rightarrow> b # bs), r2)))"

definition ListDelegatedRecoveryCandidates ::
  "goerr option \<Rightarrow> int \<Rightarrow> Repository \<Rightarrow> Binding list result \<times> Repository" where
  "ListDelegatedRecoveryCandidates ctx maxSessions r =
     (case ctx of Some e \<Rightarrow> (Inl e, r) | None \<Rightarrow>
      if maxSessions < int (length (ReadDir (rp_markers r)))
      then (Inl (failure_New CapacityExceeded [] None), r)
      else (case recover_loop r (ReadDir (rp_markers r)) of
          (Inl e, r1) \<Rightarrow> (Inl e, r1)
        | (Inr bs, r1) \<Rightarrow> (Inr (sort_key bd_SessionID bs), r1)))"

section \<open>Context-execution leases\<close>

definition validContextExecID :: "string \<Rightarrow> bool" where
  "validContextExecID v =
     bytes_over (\<lambda>c. is_alnum c \<or> c = CHR ''_'' \<or> c = CHR ''-'' \<or> c = CHR ''.'' \<or> c = CHR '':'') 128 v"

definition validContextExecDigest :: "string \<Rightarrow> bool" where
  "validContextExecDigest v \<longleftrightarrow> length v = 64 \<and>
     list_all (\<lambda>c. is_digit c \<or> (CHR ''a'' \<le> c \<and> c \<le> CHR ''f'')) v"

definition lease_Validate :: "ContextExecLease \<Rightarrow> goerr option" where
  "lease_Validate l = first_error [
     (case ParseSessionID (le_SessionID l) of Inl e \<Rightarrow> Some e | Inr _ \<Rightarrow> None),
     epoch_Validate (le_AuthorityEpoch l),
     reject (\<not> validContextExecID (le_ContextExecID l)) (Errorf ''invalid context exec lease identity''),
     reject (\<not> validContextExecDigest (le_RequestFingerprint l))
       (Errorf ''invalid context exec lease request fingerprint'')]"

definition contextExecLeaseKey :: "(string \<Rightarrow> string) \<Rightarrow> string \<Rightarrow> AuthorityEpoch \<Rightarrow> string" where
  "contextExecLeaseKey sha sid epoch =
     sha (''shellbeam-context-exec-lease-v1'' @ [CHR 0x5C] @ ''x00'' @ sid @ [CHR 0x5C] @ ''x00'' @ sprint_uint epoch)"

definition contextExecConflict :: "string \<Rightarrow> goerr" where
  "contextExecConflict i = failure_New OperationConflict [(''operation_id'', i)] None"

definition findContextExecLeaseLocked ::
  "(string \<Rightarrow> string) \<Rightarrow> Repository \<Rightarrow> string \<Rightarrow> AuthorityEpoch \<Rightarrow> ContextExecLease option result" where
  "findContextExecLeaseLocked sha r sid epoch =
     (case readPrivateJSON (rp_leases r) (contextExecLeaseKey sha sid epoch) of
        Inl e \<Rightarrow> if is_not_found e then Inr None else Inl e
      | Inr l \<Rightarrow>
          (case lease_Validate l of
             Some e \<Rightarrow> Inl e
           | None \<Rightarrow>
               if le_SessionID l \<noteq> sid \<or> le_AuthorityEpoch l \<noteq> epoch
               then Inl (Errorf ''context exec lease identity mismatch'') else Inr (Some l)))"

definition FindContextExecLease ::
  "(string \<Rightarrow> string) \<Rightarrow> goerr option \<Rightarrow> string \<Rightarrow> AuthorityEpoch \<Rightarrow> Repository \<Rightarrow> ContextExecLease option result" where
  "FindContextExecLease sha ctx sid epoch r =
     guard_result ctx (bind_result (ParseSessionID sid) (\<lambda>_.
       case epoch_Validate epoch of Some e \<Rightarrow> Inl e | None \<Rightarrow> findContextExecLeaseLocked sha r sid epoch))"

definition AcquireContextExecLease ::
  "(string \<Rightarrow> string) \<Rightarrow> goerr option \<Rightarrow> goerr option \<Rightarrow> string \<Rightarrow> AuthorityEpoch \<Rightarrow> string \<Rightarrow> string \<Rightarrow> Repository
     \<Rightarrow> (ContextExecLease option \<times> bool \<times> StoreResult) \<times> Repository" where
  "AcquireContextExecLease sha ensure_err ctx sid epoch execID fingerprint r =
     (let lease = \<lparr>le_SessionID = sid, le_AuthorityEpoch = epoch, le_ContextExecID = execID,
                   le_RequestFingerprint = fingerprint\<rparr> in
      case ctx of Some e \<Rightarrow> ((None, False, store_result NoDurableChange (Some e)), r) | None \<Rightarrow>
      (case lease_Validate lease of Some e \<Rightarrow> ((None, False, store_result NoDurableChange (Some e)), r) | None \<Rightarrow>
      (case loadDelegatedBindingLocked r sid of
         Inl e \<Rightarrow> ((None, False, store_result NoDurableChange (Some e)), r)
       | Inr binding \<Rightarrow>
           if bd_Lifecycle binding \<noteq> LifecycleLive \<or> bd_DesiredOwner binding \<noteq> OwnerAgent
           then ((None, False, store_result DurableChange (Some (failure_New ''context_exec_not_agent_owned''
             [(''session_id'', sid), (''reason'', ''delegated_binding_not_agent_live'')] None))), r)
           else if bd_AuthorityEpoch binding \<noteq> epoch
           then ((None, False, store_result DurableChange (Some (failure_New ''context_exec_stale_generation''
             [(''session_id'', sid), (''reason'', ''authority_epoch_changed'')] None))), r)
           else
      (case findContextExecLeaseLocked sha r sid epoch of
         Inl e \<Rightarrow> ((None, False, store_result NoDurableChange (Some e)), r)
       | Inr (Some existing) \<Rightarrow>
           if existing = lease then ((Some existing, False, store_result DurableChange None), r)
           else ((Some existing, False, store_result DurableChange (Some (contextExecConflict execID))), r)
       | Inr None \<Rightarrow>
           (case ensure_err of Some e \<Rightarrow> ((None, False, store_result NoDurableChange (Some e)), r) | None \<Rightarrow>
            (case create_lease r (contextExecLeaseKey sha sid epoch) lease of
               (res, r1) \<Rightarrow>
                 if sr_Err res = None then ((Some lease, True, res), r1)
                 else if is_exist (sr_Err res) then
                   (case findContextExecLeaseLocked sha r1 sid epoch of
                      Inl e \<Rightarrow> ((None, False, store_result AmbiguousChange (Some e)), r1)
                    | Inr found \<Rightarrow>
                        if found = Some lease then ((Some lease, False, store_result DurableChange None), r1)
                        else ((found, False, store_result DurableChange (Some (contextExecConflict execID))), r1))
                 else ((None, False, res), r1)))))))"

definition ReleaseContextExecLease ::
  "(string \<Rightarrow> string) \<Rightarrow> goerr option \<Rightarrow> ContextExecLease \<Rightarrow> Repository \<Rightarrow> StoreResult \<times> Repository" where
  "ReleaseContextExecLease sha ctx lease r =
     (case ctx of Some e \<Rightarrow> (store_result NoDurableChange (Some e), r) | None \<Rightarrow>
      (case lease_Validate lease of Some e \<Rightarrow> (store_result NoDurableChange (Some e), r) | None \<Rightarrow>
      (case findContextExecLeaseLocked sha r (le_SessionID lease) (le_AuthorityEpoch lease) of
         Inl e \<Rightarrow> (store_result NoDurableChange (Some e), r)
       | Inr None \<Rightarrow> (store_result DurableChange None, r)
       | Inr (Some current) \<Rightarrow>
           if current \<noteq> lease
           then (store_result DurableChange (Some (contextExecConflict (le_ContextExecID lease))), r)
           else (case next_io (rp_io r) of (io, ios) \<Rightarrow>
             (case remove_file io (rp_leases r) (contextExecLeaseKey sha (le_SessionID lease) (le_AuthorityEpoch lease)) of
                (e, d) \<Rightarrow> (store_result (case io of WriteOk \<Rightarrow> DurableChange | WriteFailed _ \<Rightarrow> NoDurableChange
                    | WriteUnsynced _ \<Rightarrow> AmbiguousChange) e, r\<lparr>rp_leases := d, rp_io := ios\<rparr>))))))"

section \<open>Frame facts\<close>

text \<open>What each write touches, and what it can leave behind.\<close>

lemma replace_binding_cases:
  assumes "replace_binding r k v = (res, r')"
  shows "\<exists>ios. r' = r\<lparr>rp_io := ios\<rparr> \<and> sr_Err res \<noteq> None \<or>
    r' = r\<lparr>rp_bindings := put_file k v (rp_bindings r), rp_io := ios\<rparr>"
  using assms by (auto simp: replace_binding_def atomic_Replace_def split: prod.splits file_write.splits)

lemma create_binding_cases:
  assumes "create_binding r k v = (res, r')"
  shows "\<exists>ios. r' = r\<lparr>rp_io := ios\<rparr> \<and> sr_Err res \<noteq> None \<or>
    map_of (rp_bindings r) k = None \<and> r' = r\<lparr>rp_bindings := put_file k v (rp_bindings r), rp_io := ios\<rparr>"
  using assms by (auto simp: create_binding_def atomic_Create_def split: prod.splits file_write.splits if_splits)

lemma removeDelegatedRecoveryMarkerLocked_frame:
  "removeDelegatedRecoveryMarkerLocked r sid = (e, r') \<Longrightarrow>
    rp_bindings r' = rp_bindings r \<and> rp_handoffs r' = rp_handoffs r \<and> rp_transactions r' = rp_transactions r"
  by (auto simp: removeDelegatedRecoveryMarkerLocked_def split: prod.splits)

lemma loadDelegatedBindingLocked_Inr:
  "loadDelegatedBindingLocked r sid = Inr b \<longleftrightarrow>
    readPrivateJSON (rp_bindings r) sid = Inr b \<and> Binding_Validate b = None \<and> bd_SessionID b = sid"
  by (auto simp: loadDelegatedBindingLocked_def split: if_splits)

lemma loadDelegatedBindingLocked_frame:
  "rp_bindings r' = rp_bindings r \<Longrightarrow> loadDelegatedBindingLocked r' sid = loadDelegatedBindingLocked r sid"
  by (simp add: loadDelegatedBindingLocked_def)

lemma now_frame:
  "now r = (t, r') \<Longrightarrow> rp_bindings r' = rp_bindings r \<and> rp_mutations r' = rp_mutations r \<and>
    rp_leases r' = rp_leases r \<and> rp_handoffs r' = rp_handoffs r \<and> rp_transactions r' = rp_transactions r"
  by (auto simp: now_def split: list.splits)

lemma ParseSessionID_Inr [simp]: "ParseSessionID v = Inr x \<longleftrightarrow> x = v \<and> valid_id v"
  by (auto simp: ParseSessionID_def)

lemma ParseID_Inr [simp]: "ParseID v = Inr x \<longleftrightarrow> x = v \<and> valid_id v"
  by (auto simp: ParseID_def)

section \<open>Bindings move forward\<close>

text \<open>The order in which the binding of a session may change.\<close>

definition binding_step :: "Binding \<Rightarrow> Binding \<Rightarrow> bool" where
  "binding_step old new \<longleftrightarrow> sameDelegatedBindingIdentity old new \<and>
     bd_AuthorityEpoch old \<le> bd_AuthorityEpoch new \<and>
     (bd_DesiredOwner new \<noteq> bd_DesiredOwner old \<longrightarrow> bd_AuthorityEpoch old < bd_AuthorityEpoch new) \<and>
     validDelegatedLifecycleTransition (bd_Lifecycle old) (bd_Lifecycle new)"

lemma binding_step_refl: "Binding_Validate b = None \<Longrightarrow> binding_step b b"
  by (cases "bd_Lifecycle b") (auto simp: binding_step_def sameDelegatedBindingIdentity_def)

lemma binding_step_trans:
  assumes "binding_step a b" "binding_step b c"
  shows "binding_step a c"
proof -
  have "validDelegatedLifecycleTransition (bd_Lifecycle a) (bd_Lifecycle c)"
    using assms by (cases "bd_Lifecycle a"; cases "bd_Lifecycle b") (auto simp: binding_step_def)
  with assms show ?thesis
    by (auto simp: binding_step_def sameDelegatedBindingIdentity_def)
qed

lemma AdvanceDelegatedBinding_bindings:
  assumes "AdvanceDelegatedBinding ctx want r = (res, r')"
  shows "rp_bindings r' = rp_bindings r \<or>
    (\<exists>old. rp_bindings r' = put_file (bd_SessionID want) want (rp_bindings r) \<and>
      loadDelegatedBindingLocked r (bd_SessionID want) = Inr old \<and> Binding_Validate want = None \<and>
      binding_step old want)"
proof (cases "\<exists>old res1 r1. loadDelegatedBindingLocked r (bd_SessionID want) = Inr old \<and>
    Binding_Validate want = None \<and> binding_step old want \<and>
    replace_binding r (bd_SessionID want) want = (res1, r1) \<and> rp_bindings r' = rp_bindings r1")
  case True
  then obtain old res1 r1 where o: "loadDelegatedBindingLocked r (bd_SessionID want) = Inr old"
    "Binding_Validate want = None" "binding_step old want"
    and w: "replace_binding r (bd_SessionID want) want = (res1, r1)" and r': "rp_bindings r' = rp_bindings r1"
    by blast
  from replace_binding_cases [OF w] o r' show ?thesis by auto
next
  case False
  with assms have "rp_bindings r' = rp_bindings r"
    by (auto simp: AdvanceDelegatedBinding_def binding_step_def split: option.splits sum.splits if_splits prod.splits
      dest!: removeDelegatedRecoveryMarkerLocked_frame)
  then show ?thesis by blast
qed

section \<open>The mutation ledger\<close>

text \<open>The order in which a stored mutation record may change.\<close>

definition mutation_step :: "MutationRecord \<Rightarrow> MutationRecord \<Rightarrow> bool" where
  "mutation_step old new \<longleftrightarrow> mr_Identity new = mr_Identity old \<and> mr_CreatedAt new = mr_CreatedAt old \<and>
     validDelegatedMutationTransition (mr_State old) (mr_State new)"

lemma loadDelegatedMutationLocked_Inr:
  "loadDelegatedMutationLocked sha r i = Inr m \<longleftrightarrow>
    readPrivateJSON (rp_mutations r (mi_SessionID i)) (delegatedMutationKey sha i) = Inr m \<and>
    MutationRecord_Validate m = None \<and> sameDelegatedMutationLogicalIdentity (mr_Identity m) i"
  by (auto simp: loadDelegatedMutationLocked_def split: if_splits)

lemma create_mutation_cases:
  assumes "create_mutation r sid k v = (res, r')"
  shows "\<exists>ios. r' = r\<lparr>rp_io := ios\<rparr> \<and> sr_Err res \<noteq> None \<or>
    map_of (rp_mutations r sid) k = None \<and>
    r' = r\<lparr>rp_mutations := (rp_mutations r)(sid := put_file k v (rp_mutations r sid)), rp_io := ios\<rparr>"
  using assms by (auto simp: create_mutation_def atomic_Create_def fun_upd_idem split: prod.splits file_write.splits if_splits)

lemma replace_mutation_cases:
  assumes "replace_mutation r sid k v = (res, r')"
  shows "\<exists>ios. r' = r\<lparr>rp_io := ios\<rparr> \<and> sr_Err res \<noteq> None \<or>
    r' = r\<lparr>rp_mutations := (rp_mutations r)(sid := put_file k v (rp_mutations r sid)), rp_io := ios\<rparr>"
  using assms by (auto simp: replace_mutation_def atomic_Replace_def fun_upd_idem split: prod.splits file_write.splits)

lemma CompleteDelegatedMutation_cases:
  assumes "CompleteDelegatedMutation sha ctx i st outcome r = ((m, res), r')"
  shows "rp_mutations r' = rp_mutations r \<or>
    (\<exists>old new. readPrivateJSON (rp_mutations r (mi_SessionID i)) (delegatedMutationKey sha i) = Inr old \<and>
      mr_Identity old = i \<and> mutation_step old new \<and> MutationRecord_Validate new = None \<and>
      rp_mutations r' = (rp_mutations r)(mi_SessionID i :=
        put_file (delegatedMutationKey sha i) new (rp_mutations r (mi_SessionID i))))"
proof (cases "\<exists>old t r1 res1. loadDelegatedMutationLocked sha r i = Inr old \<and> mr_Identity old = i \<and>
    now r = (t, r1) \<and> validDelegatedMutationTransition (mr_State old) st \<and>
    MutationRecord_Validate (old\<lparr>mr_State := st, mr_Outcome := outcome, mr_UpdatedAt := t\<rparr>) = None \<and>
    replace_mutation r1 (mi_SessionID i) (delegatedMutationKey sha i)
      (old\<lparr>mr_State := st, mr_Outcome := outcome, mr_UpdatedAt := t\<rparr>) = (res1, r')")
  case True
  then obtain old t r1 res1 where o: "loadDelegatedMutationLocked sha r i = Inr old" "mr_Identity old = i"
    "validDelegatedMutationTransition (mr_State old) st"
    "MutationRecord_Validate (old\<lparr>mr_State := st, mr_Outcome := outcome, mr_UpdatedAt := t\<rparr>) = None"
    and n: "now r = (t, r1)" and w: "replace_mutation r1 (mi_SessionID i) (delegatedMutationKey sha i)
      (old\<lparr>mr_State := st, mr_Outcome := outcome, mr_UpdatedAt := t\<rparr>) = (res1, r')" by blast
  have "rp_mutations r1 = rp_mutations r" using now_frame [OF n] by simp
  moreover have "mutation_step old (old\<lparr>mr_State := st, mr_Outcome := outcome, mr_UpdatedAt := t\<rparr>)"
    using o by (simp add: mutation_step_def)
  ultimately show ?thesis using replace_mutation_cases [OF w] o
    unfolding loadDelegatedMutationLocked_Inr by fastforce
next
  case False
  with assms have "rp_mutations r' = rp_mutations r"
    by (auto simp: CompleteDelegatedMutation_def Let_def split: option.splits sum.splits if_splits prod.splits
      dest: now_frame)
  then show ?thesis by blast
qed

lemma ReserveDelegatedMutation_created:
  assumes "ReserveDelegatedMutation sha ctx i r = ((m, True, res), r')"
  shows "\<exists>t b. loadDelegatedBindingLocked r (mi_SessionID i) = Inr b \<and> bd_Lifecycle b = LifecycleLive \<and>
    bd_DesiredOwner b = OwnerAgent \<and> bd_AuthorityEpoch b = mi_Epoch i \<and> MutationIdentity_Validate i = None \<and>
    m = Some \<lparr>mr_SchemaVersion = MutationRecordSchemaVersion, mr_Identity = i, mr_State = MutationReserved,
      mr_Outcome = [], mr_CreatedAt = t, mr_UpdatedAt = t\<rparr> \<and>
    readPrivateJSON (rp_mutations r' (mi_SessionID i)) (delegatedMutationKey sha i) = Inr (the m) \<and>
    int (length (rp_mutations r (mi_SessionID i))) < rp_maxMutations r"
proof -
  from assms obtain b t r1 where b: "loadDelegatedBindingLocked r (mi_SessionID i) = Inr b"
    "bd_Lifecycle b = LifecycleLive" "bd_DesiredOwner b = OwnerAgent" "bd_AuthorityEpoch b = mi_Epoch i"
    "MutationIdentity_Validate i = None" "int (length (rp_mutations r (mi_SessionID i))) < rp_maxMutations r"
    "now r = (t, r1)"
    "m = Some \<lparr>mr_SchemaVersion = MutationRecordSchemaVersion, mr_Identity = i, mr_State = MutationReserved,
      mr_Outcome = [], mr_CreatedAt = t, mr_UpdatedAt = t\<rparr>"
    and w: "create_mutation r1 (mi_SessionID i) (delegatedMutationKey sha i) (the m) = (res, r')" "sr_Err res = None"
    by (auto simp: ReserveDelegatedMutation_def Let_def split: option.splits sum.splits if_splits prod.splits)
  have "readPrivateJSON (rp_mutations r' (mi_SessionID i)) (delegatedMutationKey sha i) = Inr (the m)"
    using create_mutation_cases [OF w(1)] w(2) by auto
  with b show ?thesis by blast
qed

section \<open>The recovered offset\<close>

text \<open>Writes that follow each other without gap or overlap.\<close>

fun write_chain :: "int \<Rightarrow> MutationIdentity list \<Rightarrow> int \<Rightarrow> bool" where
  "write_chain a [] b \<longleftrightarrow> a = b"
| "write_chain a (i # is) b \<longleftrightarrow> mi_Offset i = a \<and> mi_Offset i < mi_NextOffset i \<and> write_chain (mi_NextOffset i) is b"

lemma recovery_scan_facts:
  assumes "recovery_scan sha b d names = Inr ws" "name \<in> set names"
  shows "\<exists>rec. readPrivateJSON d name = Inr rec \<and> MutationRecord_Validate rec = None \<and>
    (mr_State rec = MutationCompleted \<or> mr_State rec = MutationFailed) \<and>
    (mr_State rec = MutationCompleted \<and> mi_Kind (mr_Identity rec) = MutationWrite \<longrightarrow> mr_Identity rec \<in> set ws)"
  using assms
proof (induction names arbitrary: ws)
  case (Cons n names)
  show ?case
  proof (cases "name = n")
    case True
    with Cons.prems show ?thesis
      by (auto split: sum.splits if_splits MutationState.splits)
  next
    case False
    then have m: "name \<in> set names" using Cons.prems by simp
    from Cons.prems(1) have "\<exists>ws'. recovery_scan sha b d names = Inr ws' \<and> set ws' \<subseteq> set ws"
      by (auto split: sum.splits if_splits MutationState.splits)
    with Cons.IH [OF _ m] show ?thesis by blast
  qed
qed simp

lemma recovery_scan_valid:
  "recovery_scan sha b d names = Inr ws \<Longrightarrow> i \<in> set ws \<Longrightarrow>
    MutationIdentity_Validate i = None \<and> mi_Kind i = MutationWrite"
proof (induction names arbitrary: ws)
  case (Cons n names)
  then show ?case
    by (auto split: sum.splits if_splits MutationState.splits simp: MutationRecord_Validate_def)
qed simp

lemma contiguous_chain:
  "contiguous a is = Some b \<Longrightarrow> (\<And>i. i \<in> set is \<Longrightarrow> mi_Offset i < mi_NextOffset i) \<Longrightarrow> write_chain a is b"
  by (induction "is" arbitrary: a) (auto split: if_splits)

lemma contiguous_sorted_mset:
  assumes "recovery_scan sha b d names = Inr ws"
    "contiguous 0 (sort_key (\<lambda>i. (mi_Offset i, mi_NextOffset i)) ws) = Some n"
  shows "\<exists>is. mset is = mset ws \<and> write_chain 0 is n"
proof -
  have "mi_Offset i < mi_NextOffset i" if "i \<in> set ws" for i
    using recovery_scan_valid [OF assms(1) that] by (auto simp: MutationIdentity_Validate_def)
  then have "write_chain 0 (sort_key (\<lambda>i. (mi_Offset i, mi_NextOffset i)) ws) n"
    by (intro contiguous_chain [OF assms(2)]) simp
  then show ?thesis by (intro exI [of _ "sort_key (\<lambda>i. (mi_Offset i, mi_NextOffset i)) ws"]) simp
qed

section \<open>Properties\<close>

text \<open>
  The binding of a delegated session only moves forward. Whatever binding a caller asks the
  store to record, and whatever the writer's outcome, the stored binding of every session is
  afterwards the old one or a valid one of the same identity whose authority epoch is not lower,
  whose owner changed only together with a higher epoch, and whose lifecycle moved along the
  provisioning, live, terminal-or-lost order; so a terminal or lost session stays so.
\<close>

theorem AdvanceDelegatedBinding_monotone:
  assumes "AdvanceDelegatedBinding ctx want r = (res, r')"
    and "loadDelegatedBindingLocked r sid = Inr old"
  shows "\<exists>new. loadDelegatedBindingLocked r' sid = Inr new \<and> sameDelegatedBindingIdentity old new \<and>
    bd_AuthorityEpoch old \<le> bd_AuthorityEpoch new \<and>
    (bd_DesiredOwner new \<noteq> bd_DesiredOwner old \<longrightarrow> bd_AuthorityEpoch old < bd_AuthorityEpoch new) \<and>
    validDelegatedLifecycleTransition (bd_Lifecycle old) (bd_Lifecycle new)"
proof -
  have "\<exists>new. loadDelegatedBindingLocked r' sid = Inr new \<and> binding_step old new"
    using AdvanceDelegatedBinding_bindings [OF assms(1)]
  proof (elim disjE exE conjE)
    assume "rp_bindings r' = rp_bindings r"
    with assms(2) show ?thesis
      using binding_step_refl [of old] unfolding loadDelegatedBindingLocked_Inr by auto
  next
    fix o1
    assume "rp_bindings r' = put_file (bd_SessionID want) want (rp_bindings r)"
      "loadDelegatedBindingLocked r (bd_SessionID want) = Inr o1" "Binding_Validate want = None"
      "binding_step o1 want"
    with assms(2) show ?thesis
      using binding_step_refl [of old] unfolding loadDelegatedBindingLocked_Inr
      by (cases "sid = bd_SessionID want") auto
  qed
  then show ?thesis unfolding binding_step_def by blast
qed

definition example_binding :: Binding where
  "example_binding = \<lparr>bd_SchemaVersion = 1, bd_SessionID = ''s1'', bd_OperationID = ''op1'', bd_SessionName = [],
     bd_SessionMode = ModeDelegatedInteractive, bd_AuthorityEpoch = 1, bd_DesiredOwner = OwnerAgent,
     bd_ProviderID = ''tmux'', bd_ProviderVersion = 1, bd_Lifecycle = LifecycleLive, bd_CreatedAt = 10,
     bd_UpdatedAt = 10\<rparr>"

definition empty_repository :: Repository where
  "empty_repository = \<lparr>rp_bindings = [], rp_refs = [], rp_markers = [], rp_mutations = (\<lambda>_. []), rp_leases = [],
     rp_handoffs = [], rp_transactions = [], rp_controls = (\<lambda>_. []), rp_provenance = [], rp_captures = [], rp_io = [], rp_clock = [],
     rp_journal = [], rp_trace = [], rp_maxMutations = 4\<rparr>"

definition example_repository :: Repository where
  "example_repository = empty_repository\<lparr>rp_bindings := [(''s1'', Good example_binding)], rp_clock := [20, 30, 40]\<rparr>"

lemma example_binding_valid:
  "Binding_Validate (example_binding\<lparr>bd_AuthorityEpoch := e, bd_DesiredOwner := w, bd_Lifecycle := l, bd_UpdatedAt := t\<rparr>) = None"
  if "e \<noteq> 0" "owner_Validate w = None" "lifecycle_Validate l = None" "10 \<le> t"
  using that by (simp add: Binding_Validate_def example_binding_def ValidateMode_def ProviderIdentity_Validate_def
    bd_ProviderIdentity_def delegated_validOpaque_def bytes_over_def opaque_byte_def byte_class_defs IsZero_def)

lemma example_binding_ok: "Binding_Validate example_binding = None"
  using example_binding_valid [of 1 OwnerAgent LifecycleLive 10]
  by (simp add: example_binding_def)

lemma example_load: "loadDelegatedBindingLocked example_repository ''s1'' = Inr example_binding"
  using example_binding_ok
  by (simp add: loadDelegatedBindingLocked_def example_repository_def readPrivateJSON_def) (simp add: example_binding_def)

theorem AdvanceDelegatedBinding_monotone_witness:
  "\<exists>new r'. snd (AdvanceDelegatedBinding None (example_binding\<lparr>bd_AuthorityEpoch := 2, bd_DesiredOwner := OwnerHuman,
      bd_UpdatedAt := 20\<rparr>) example_repository) = r' \<and>
    loadDelegatedBindingLocked r' ''s1'' = Inr new \<and> bd_AuthorityEpoch example_binding \<le> bd_AuthorityEpoch new"
proof -
  obtain res r' where a: "AdvanceDelegatedBinding None (example_binding\<lparr>bd_AuthorityEpoch := 2,
      bd_DesiredOwner := OwnerHuman, bd_UpdatedAt := 20\<rparr>) example_repository = (res, r')" by fastforce
  from AdvanceDelegatedBinding_monotone [OF a example_load] a show ?thesis by auto
qed

text \<open>
  A mutation of a delegated session is admitted only for the agent. When the store creates a
  mutation record, the stored binding was live, desired the agent as owner and carried exactly the
  mutation's authority epoch; the record is stored as reserved under the mutation's key; and a
  repetition of the request returns that stored record without creating another, also after the
  session changed hands.
\<close>

theorem ReserveDelegatedMutation_sound:
  assumes "ReserveDelegatedMutation sha ctx i r = ((m, True, res), r')"
    and "rp_clock r = t # ts" "t \<noteq> 0" "rp_mutations r'' = rp_mutations r'"
  shows "(\<exists>b. loadDelegatedBindingLocked r (mi_SessionID i) = Inr b \<and> bd_Lifecycle b = LifecycleLive \<and>
      bd_DesiredOwner b = OwnerAgent \<and> bd_AuthorityEpoch b = mi_Epoch i) \<and>
    (\<exists>rec. m = Some rec \<and> mr_Identity rec = i \<and> mr_State rec = MutationReserved \<and>
      ReserveDelegatedMutation sha None i r'' = ((Some rec, False, store_result DurableChange None), r''))"
proof -
  obtain t' b where c: "loadDelegatedBindingLocked r (mi_SessionID i) = Inr b" "bd_Lifecycle b = LifecycleLive"
    "bd_DesiredOwner b = OwnerAgent" "bd_AuthorityEpoch b = mi_Epoch i" "MutationIdentity_Validate i = None"
    "m = Some \<lparr>mr_SchemaVersion = MutationRecordSchemaVersion, mr_Identity = i, mr_State = MutationReserved,
      mr_Outcome = [], mr_CreatedAt = t', mr_UpdatedAt = t'\<rparr>"
    and rd: "readPrivateJSON (rp_mutations r' (mi_SessionID i)) (delegatedMutationKey sha i) = Inr (the m)"
    using ReserveDelegatedMutation_created [OF assms(1)] by blast
  have "t' = t"
    using assms(1,2) c(6) by (auto simp: ReserveDelegatedMutation_def now_def Let_def
      split: option.splits sum.splits if_splits prod.splits)
  then have "MutationRecord_Validate (the m) = None"
    using c(5,6) assms(3) by (simp add: MutationRecord_Validate_def IsZero_def)
  then have "loadDelegatedMutationLocked sha r'' i = Inr (the m)"
    using rd c(6) assms(4) by (simp add: loadDelegatedMutationLocked_Inr sameDelegatedMutationLogicalIdentity_def)
  with c show ?thesis by (simp add: ReserveDelegatedMutation_def)
qed

definition example_mutation :: MutationIdentity where
  "example_mutation = \<lparr>mi_SessionID = ''s1'', mi_Epoch = 1, mi_Kind = MutationWrite, mi_IdempotencyID = [],
     mi_Offset = 0, mi_NextOffset = 3, mi_Fingerprint = ''f''\<rparr>"

theorem ReserveDelegatedMutation_sound_witness:
  "\<exists>m res r'. ReserveDelegatedMutation (\<lambda>s. s) None example_mutation example_repository = ((Some m, True, res), r') \<and>
    fst (ReserveDelegatedMutation (\<lambda>s. s) None example_mutation r') = (Some m, False, store_result DurableChange None)"
proof -
  have v: "MutationIdentity_Validate example_mutation = None"
    by (simp add: MutationIdentity_Validate_def example_mutation_def delegated_validOpaque_def bytes_over_def
      opaque_byte_def byte_class_defs)
  have n: "loadDelegatedMutationLocked (\<lambda>s. s) example_repository example_mutation = Inl ErrNotFound"
    by (simp add: loadDelegatedMutationLocked_def example_repository_def empty_repository_def readPrivateJSON_def)
  obtain m res r' where a: "ReserveDelegatedMutation (\<lambda>s. s) None example_mutation example_repository = ((m, True, res), r')"
    using v n example_load
    by (simp add: ReserveDelegatedMutation_def example_mutation_def example_binding_def now_def create_mutation_def
      next_io_def atomic_Create_def example_repository_def empty_repository_def Let_def)
  have c: "rp_clock example_repository = 20 # [30, 40]" by (simp add: example_repository_def)
  from ReserveDelegatedMutation_sound [OF a c _ refl] a show ?thesis by auto
qed

text \<open>
  The mutation ledger settles. Completing a mutation changes at most the record stored under
  that mutation's own key, keeps its identity and creation time, and moves its state only along the
  admitted transitions, so that a completed or failed mutation never changes again.
\<close>

theorem CompleteDelegatedMutation_settles:
  assumes "CompleteDelegatedMutation sha ctx i st outcome r = ((m, res), r')"
    and "readPrivateJSON (rp_mutations r sid) k = Inr old"
  shows "\<exists>new. readPrivateJSON (rp_mutations r' sid) k = Inr new \<and> mr_Identity new = mr_Identity old \<and>
    mr_CreatedAt new = mr_CreatedAt old \<and>
    (new \<noteq> old \<longrightarrow> mr_Identity old = i \<and> validDelegatedMutationTransition (mr_State old) (mr_State new)) \<and>
    (mr_State old = MutationCompleted \<or> mr_State old = MutationFailed \<longrightarrow> new = old)"
proof -
  have "readPrivateJSON (rp_mutations r' sid) k = Inr old \<or>
    (\<exists>new. readPrivateJSON (rp_mutations r' sid) k = Inr new \<and> mr_Identity old = i \<and> mutation_step old new)"
    using CompleteDelegatedMutation_cases [OF assms(1)] assms(2) by (auto split: if_splits)
  then show ?thesis
    by (cases "mr_State old") (auto simp: mutation_step_def)
qed

theorem CompleteDelegatedMutation_settles_witness:
  "\<exists>new. readPrivateJSON (rp_mutations (snd (CompleteDelegatedMutation (\<lambda>s. s) None example_mutation MutationCompleted []
      (example_repository\<lparr>rp_mutations := (\<lambda>_. [(''k'', Good (identity_record example_mutation))])\<rparr>))) ''s1'') ''k'' = Inr new \<and>
    mr_Identity new = example_mutation"
proof -
  let ?r = "example_repository\<lparr>rp_mutations := (\<lambda>_. [(''k'', Good (identity_record example_mutation))])\<rparr>"
  obtain m res r' where a: "CompleteDelegatedMutation (\<lambda>s. s) None example_mutation MutationCompleted [] ?r = ((m, res), r')"
    by (metis surj_pair)
  have k: "readPrivateJSON (rp_mutations ?r ''s1'') ''k'' = Inr (identity_record example_mutation)"
    by (simp add: readPrivateJSON_def)
  from CompleteDelegatedMutation_settles [OF a k] a show ?thesis by (auto simp: identity_record_def)
qed


definition completed_write :: MutationRecord where
  "completed_write = \<lparr>mr_SchemaVersion = MutationRecordSchemaVersion, mr_Identity = example_mutation,
     mr_State = MutationCompleted, mr_Outcome = [], mr_CreatedAt = 20, mr_UpdatedAt = 30\<rparr>"


end
