(* ===== verification/HandoffStore.thy ===== *)
theory HandoffStore
  imports DelegatedStore
begin

text \<open>
  The handoff part of the daemon's store: handoff records, the transactions that move a binding
  and a record together, the observation events of a transition, human control signals and the
  provenance of human write authority (internal/adapter/store/interactive_handoffs.go,
  interactive_handoff_events.go, interactive_handoff_restart.go, interactive_handoff_expiry.go,
  human_control_ledger.go).  The observation journal itself enters through the outcomes of its
  \<open>prepareExecutionObservation\<close> calls; what it is told to commit or abort is recorded in the
  repository's trace.
\<close>

section \<open>Records and transactions\<close>

definition handoffStoreSchemaVersion :: int where
  "handoffStoreSchemaVersion = 1"

definition handoffRecord_validate :: "handoffRecord \<Rightarrow> goerr option" where
  "handoffRecord_validate v = first_error [
     reject (hr_SchemaVersion v \<noteq> handoffStoreSchemaVersion \<or> IsZero (hr_CreatedAt v) \<or> hr_UpdatedAt v < hr_CreatedAt v)
       (Errorf ''invalid handoff record''),
     Request_ValidateH4 (hr_Request v),
     State_ValidateH4 (hr_State v),
     reject (rq_HandoffID (hr_Request v) \<noteq> hs_HandoffID (hr_State v) \<or>
             rq_SessionID (hr_Request v) \<noteq> hs_SessionID (hr_State v))
       (Errorf ''handoff record identity mismatch'')]"

fun seqs_validate :: "uint64 list \<Rightarrow> uint64 list \<Rightarrow> goerr option" where
  "seqs_validate seen [] = None"
| "seqs_validate seen (s # ss) =
     (if s = 0 then Some (Errorf ''invalid handoff transaction observation'')
      else if s \<in> set seen then Some (Errorf ''duplicate handoff transaction observation'')
      else seqs_validate (s # seen) ss)"

definition handoffTransaction_validate :: "handoffTransaction \<Rightarrow> goerr option" where
  "handoffTransaction_validate v = first_error [
     reject (tx_SchemaVersion v \<noteq> handoffStoreSchemaVersion) (Errorf ''invalid handoff transaction''),
     handoffRecord_validate (tx_Record v),
     Binding_Validate (tx_PriorBinding v),
     Binding_Validate (tx_TargetBinding v),
     reject (\<not> sameDelegatedBindingIdentity (tx_PriorBinding v) (tx_TargetBinding v) \<or>
             bd_SessionID (tx_PriorBinding v) \<noteq> hs_SessionID (hr_State (tx_Record v)))
       (Errorf ''handoff transaction binding mismatch''),
     reject (bd_AuthorityEpoch (tx_TargetBinding v) < bd_AuthorityEpoch (tx_PriorBinding v) \<or>
             bd_AuthorityEpoch (tx_TargetBinding v) \<noteq> hs_AuthorityEpoch (hr_State (tx_Record v)) \<or>
             bd_DesiredOwner (tx_TargetBinding v) \<noteq> hs_DesiredOwner (hr_State (tx_Record v)))
       (Errorf ''handoff transaction authority mismatch''),
     reject (4 < length (tx_ObservationSeqs v)) (Errorf ''handoff transaction observation overflow''),
     seqs_validate [] (tx_ObservationSeqs v)]"

definition validHandoffStoreID :: "string \<Rightarrow> bool" where
  "validHandoffStoreID v = bytes_headed is_alnum (\<lambda>c. is_alnum c \<or> c = CHR ''_'' \<or> c = CHR ''-'') 128 v"

definition monotonicHandoffTime :: "time \<Rightarrow> time \<Rightarrow> time" where
  "monotonicHandoffTime t prior = (if prior < t then t else prior + 1)"

definition handoffConflict :: "string \<Rightarrow> string \<Rightarrow> goerr" where
  "handoffConflict i reason = failure_New HandoffConflict [(''handoff_id'', i), (''reason'', reason)] None"

definition loadHandoffRecordLocked :: "Repository \<Rightarrow> string \<Rightarrow> handoffRecord result" where
  "loadHandoffRecordLocked r i =
     bind_result (readPrivateJSON (rp_handoffs r) i) (\<lambda>v.
       if handoffRecord_validate v \<noteq> None \<or> rq_HandoffID (hr_Request v) \<noteq> i
       then Inl (Errorf ''invalid handoff record'') else Inr v)"

definition loadHandoffTransactionLocked :: "Repository \<Rightarrow> string \<Rightarrow> handoffTransaction result" where
  "loadHandoffTransactionLocked r i =
     bind_result (readPrivateJSON (rp_transactions r) i) (\<lambda>v.
       if handoffTransaction_validate v \<noteq> None \<or> rq_HandoffID (hr_Request (tx_Record v)) \<noteq> i
       then Inl (Errorf ''invalid handoff transaction'') else Inr v)"

definition create_record :: "Repository \<Rightarrow> string \<Rightarrow> handoffRecord \<Rightarrow> StoreResult \<times> Repository" where
  "create_record r k v =
     (case next_io (rp_io r) of (io, ios) \<Rightarrow>
      case atomic_Create io (rp_handoffs r) k v of (res, d) \<Rightarrow> (res, r\<lparr>rp_handoffs := d, rp_io := ios\<rparr>))"

definition replace_record :: "Repository \<Rightarrow> string \<Rightarrow> handoffRecord \<Rightarrow> StoreResult \<times> Repository" where
  "replace_record r k v =
     (case next_io (rp_io r) of (io, ios) \<Rightarrow>
      case atomic_Replace io (rp_handoffs r) k v of (res, d) \<Rightarrow> (res, r\<lparr>rp_handoffs := d, rp_io := ios\<rparr>))"

definition create_transaction :: "Repository \<Rightarrow> string \<Rightarrow> handoffTransaction \<Rightarrow> StoreResult \<times> Repository" where
  "create_transaction r k v =
     (case next_io (rp_io r) of (io, ios) \<Rightarrow>
      case atomic_Create io (rp_transactions r) k v of (res, d) \<Rightarrow> (res, r\<lparr>rp_transactions := d, rp_io := ios\<rparr>))"

definition removeHandoffTransactionLocked :: "Repository \<Rightarrow> string \<Rightarrow> goerr option \<times> Repository" where
  "removeHandoffTransactionLocked r i =
     (case next_io (rp_io r) of (io, ios) \<Rightarrow>
      case remove_file io (rp_transactions r) i of (e, d) \<Rightarrow> (e, r\<lparr>rp_transactions := d, rp_io := ios\<rparr>))"

section \<open>Observation events\<close>

datatype EventKind =
    EventHandoffRequested
  | EventHandoffAttached
  | EventHandoffHumanOwned
  | EventHandoffReclaimStarted
  | EventHandoffReclaimed
  | EventHandoffAborted
  | EventHandoffClientLost
  | EventHandoffExpired
  | OtherEventKind string

record handoffObservationSpec =
  os_kind :: EventKind
  os_transition :: string
  os_summary :: string
  os_epoch :: AuthorityEpoch

definition handoffCreateObservationSpec :: "HandoffState \<Rightarrow> handoffObservationSpec" where
  "handoffCreateObservationSpec st = \<lparr>os_kind = EventHandoffRequested, os_transition = ''requested'',
     os_summary = ''interactive handoff requested'', os_epoch = hs_AuthorityEpoch st\<rparr>"

definition handoffAdvanceObservationSpecs :: "HandoffState \<Rightarrow> HandoffState \<Rightarrow> handoffObservationSpec list" where
  "handoffAdvanceObservationSpecs from to =
     (let add = (\<lambda>cond kind transition summary. if cond
        then [\<lparr>os_kind = kind, os_transition = transition, os_summary = summary, os_epoch = hs_AuthorityEpoch to\<rparr>] else [])
      in add (hs_HumanClient from = None \<and> hs_HumanClient to \<noteq> None) EventHandoffAttached ''attached''
           ''interactive handoff human client attached'' @
         add (hs_Phase from \<noteq> PhaseHumanOwned \<and> hs_Phase to = PhaseHumanOwned) EventHandoffHumanOwned ''human-owned''
           ''interactive handoff human authority active'' @
         add (hs_Phase from \<noteq> PhaseHumanFencing \<and> hs_Phase to = PhaseHumanFencing) EventHandoffReclaimStarted
           ''reclaim-started'' ''interactive handoff reclaim started'' @
         add (hs_Phase from \<noteq> PhaseAgentOwned \<and> hs_Phase to = PhaseAgentOwned) EventHandoffReclaimed ''reclaimed''
           ''interactive handoff reclaimed by agent'' @
         add (hs_FailureCode from \<noteq> HandoffClientLost \<and> hs_FailureCode to = HandoffClientLost) EventHandoffClientLost
           ''client-lost'' ''interactive handoff human client lost'' @
         add (hs_FailureCode from \<noteq> HandoffExpired \<and> hs_FailureCode to = HandoffExpired) EventHandoffExpired ''expired''
           ''interactive handoff expired'' @
         add (hs_FailureCode to \<noteq> HandoffExpired \<and> hs_Phase from \<noteq> PhaseAborted \<and> hs_Phase to = PhaseAborted)
           EventHandoffAborted ''aborted'' ''interactive handoff aborted'')"

text \<open>One event prepared in the journal: its sequence number, or the journal's failure.\<close>

definition prepareExecutionObservation :: "Repository \<Rightarrow> (uint64 \<times> StoreResult) \<times> Repository" where
  "prepareExecutionObservation r =
     (case rp_journal r of
        [] \<Rightarrow> ((0, store_result NoDurableChange (Some (Errorf ''observation journal unavailable''))), r)
      | (seq, res) # rest \<Rightarrow>
          ((seq, res), r\<lparr>rp_journal := rest,
            rp_trace := (if sr_Err res = None then rp_trace r @ [ObsPrepared seq] else rp_trace r)\<rparr>))"

definition abortObservationBestEffort :: "uint64 \<Rightarrow> Repository \<Rightarrow> Repository" where
  "abortObservationBestEffort seq r = (if seq \<noteq> 0 then r\<lparr>rp_trace := rp_trace r @ [ObsAborted seq]\<rparr> else r)"

definition commitObservationBestEffort :: "uint64 \<Rightarrow> Repository \<Rightarrow> Repository" where
  "commitObservationBestEffort seq r = (if seq \<noteq> 0 then r\<lparr>rp_trace := rp_trace r @ [ObsCommitted seq]\<rparr> else r)"

fun prepare_loop ::
  "Repository \<Rightarrow> uint64 list \<Rightarrow> handoffObservationSpec list \<Rightarrow> (uint64 list \<times> StoreResult) \<times> Repository" where
  "prepare_loop r seqs [] = ((seqs, store_result DurableChange None), r)"
| "prepare_loop r seqs (spec # specs) =
     (case prepareExecutionObservation r of ((seq, res), r1) \<Rightarrow>
        if sr_Err res \<noteq> None then (([], res), fold abortObservationBestEffort seqs r1)
        else prepare_loop r1 (seqs @ [seq]) specs)"

definition prepareHandoffObservations ::
  "Repository \<Rightarrow> handoffObservationSpec list \<Rightarrow> (uint64 list \<times> StoreResult) \<times> Repository" where
  "prepareHandoffObservations r specs = prepare_loop r [] specs"

definition finishHandoffObservations ::
  "uint64 list \<Rightarrow> StoreResult \<Rightarrow> (Repository \<Rightarrow> bool) option \<Rightarrow> Repository \<Rightarrow> StoreResult \<times> Repository" where
  "finishHandoffObservations seqs res canonicalMatches r =
     (if seqs = [] then (res, r)
      else let commit = (sr_Err res = None \<or>
             (sr_Durability res \<noteq> NoDurableChange \<and> (case canonicalMatches of None \<Rightarrow> False | Some f \<Rightarrow> f r)));
           r' = (if commit then fold commitObservationBestEffort seqs r
                 else if sr_Durability res = NoDurableChange then fold abortObservationBestEffort seqs r else r)
        in (res\<lparr>sr_ObservationSeq := last seqs\<rparr>, r'))"

text \<open>
  \<open>current.State == want\<close> compares the \<open>HumanClient\<close> pointers: a state that was just decoded from
  its file carries a fresh pointer, so it equals another state only if both have no client.
\<close>

definition loaded_state_eq :: "HandoffState \<Rightarrow> HandoffState \<Rightarrow> bool" where
  "loaded_state_eq loaded st \<longleftrightarrow> loaded = st \<and> hs_HumanClient loaded = None"

definition handoffObservationTransactionMatchesLocked :: "handoffTransaction \<Rightarrow> bool \<Rightarrow> Repository \<Rightarrow> bool" where
  "handoffObservationTransactionMatchesLocked tx allowPrior r =
     (case loadDelegatedBindingLocked r (bd_SessionID (tx_TargetBinding tx)) of
        Inl _ \<Rightarrow> False
      | Inr current \<Rightarrow>
          if current \<noteq> tx_TargetBinding tx \<and> (\<not> allowPrior \<or> current \<noteq> tx_PriorBinding tx) then False
          else (case loadHandoffRecordLocked r (rq_HandoffID (hr_Request (tx_Record tx))) of
              Inr rec \<Rightarrow> loaded_state_eq (hr_State rec) (hr_State (tx_Record tx))
            | Inl _ \<Rightarrow> (case loadHandoffTransactionLocked r (rq_HandoffID (hr_Request (tx_Record tx))) of
                  Inr _ \<Rightarrow> True | Inl _ \<Rightarrow> False)))"

fun handoffStateProvesObservation :: "HandoffState \<Rightarrow> EventKind \<Rightarrow> AuthorityEpoch \<Rightarrow> string \<Rightarrow> bool" where
  "handoffStateProvesObservation st kind epoch transition \<longleftrightarrow> hs_AuthorityEpoch st = epoch \<and>
     (case kind of
        EventHandoffRequested \<Rightarrow> transition = ''requested'' \<and> hs_Phase st = PhaseAgentFencing
      | EventHandoffAttached \<Rightarrow> transition = ''attached'' \<and> hs_HumanClient st \<noteq> None
      | EventHandoffHumanOwned \<Rightarrow> transition = ''human-owned'' \<and> hs_Phase st = PhaseHumanOwned
      | EventHandoffReclaimStarted \<Rightarrow> transition = ''reclaim-started'' \<and> hs_Phase st = PhaseHumanFencing
      | EventHandoffReclaimed \<Rightarrow> transition = ''reclaimed'' \<and> hs_Phase st = PhaseAgentOwned \<and> hs_DesiredOwner st = OwnerAgent
      | EventHandoffAborted \<Rightarrow> transition = ''aborted'' \<and> hs_Phase st = PhaseAborted \<and> hs_FailureCode st \<noteq> HandoffExpired
      | EventHandoffClientLost \<Rightarrow> transition = ''client-lost'' \<and> hs_FailureCode st = HandoffClientLost
      | EventHandoffExpired \<Rightarrow> transition = ''expired'' \<and> hs_FailureCode st = HandoffExpired
      | OtherEventKind _ \<Rightarrow> False)"

section \<open>Finishing a transaction\<close>

definition handoffTransactionResult :: "StoreResult \<Rightarrow> StoreResult" where
  "handoffTransactionResult res =
     (if sr_Err res \<noteq> None \<and> sr_Durability res = NoDurableChange then res\<lparr>sr_Durability := DurableChange\<rparr> else res)"

definition binding_mismatch :: "handoffTransaction \<Rightarrow> string \<Rightarrow> goerr" where
  "binding_mismatch tx reason = failure_New HandoffReclaimBlocked
     [(''handoff_id'', rq_HandoffID (hr_Request (tx_Record tx))), (''reason'', reason)] None"

text \<open>
  Both procedures first bring the binding from its prior to its target value; a binding that is
  neither blocks the transaction.
\<close>

definition move_binding :: "string \<Rightarrow> handoffTransaction \<Rightarrow> Repository \<Rightarrow> StoreResult option \<times> Repository" where
  "move_binding reason tx r =
     (case loadDelegatedBindingLocked r (bd_SessionID (tx_TargetBinding tx)) of
        Inl e \<Rightarrow> (Some (store_result DurableChange (Some e)), r)
      | Inr current \<Rightarrow>
          if current = tx_PriorBinding tx then
            (case replace_binding r (bd_SessionID current) (tx_TargetBinding tx) of (res, r1) \<Rightarrow>
               (if sr_Err res \<noteq> None then Some (handoffTransactionResult res) else None, r1))
          else if current \<noteq> tx_TargetBinding tx
          then (Some (store_result DurableChange (Some (binding_mismatch tx reason))), r)
          else (None, r))"

definition drop_transaction ::
  "handoffTransaction \<Rightarrow> bool \<Rightarrow> Repository \<Rightarrow> (HandoffState option \<times> bool \<times> StoreResult) \<times> Repository" where
  "drop_transaction tx created r =
     (case removeHandoffTransactionLocked r (rq_HandoffID (hr_Request (tx_Record tx))) of
        (Some e, r1) \<Rightarrow> ((Some (hr_State (tx_Record tx)), created, store_result AmbiguousChange (Some e)), r1)
      | (None, r1) \<Rightarrow> ((Some (hr_State (tx_Record tx)), created, store_result DurableChange None), r1))"

definition finishHandoffTransactionLocked ::
  "handoffTransaction \<Rightarrow> bool \<Rightarrow> Repository \<Rightarrow> (HandoffState option \<times> bool \<times> StoreResult) \<times> Repository" where
  "finishHandoffTransactionLocked tx created r =
     (case handoffTransaction_validate tx of Some e \<Rightarrow> ((None, False, store_result DurableChange (Some e)), r) | None \<Rightarrow>
      (case move_binding ''binding_transaction_mismatch'' tx r of
         (Some res, r1) \<Rightarrow> ((None, False, res), r1)
       | (None, r1) \<Rightarrow>
           let i = rq_HandoffID (hr_Request (tx_Record tx)) in
           (case loadHandoffRecordLocked r1 i of
              Inr existing \<Rightarrow>
                if hr_Request existing \<noteq> hr_Request (tx_Record tx)
                then ((Some (hr_State existing), False, store_result DurableChange (Some (handoffConflict i ''record_conflict''))), r1)
                else drop_transaction tx created r1
            | Inl e \<Rightarrow>
                if is_not_found e then
                  (case create_record r1 i (tx_Record tx) of (res, r2) \<Rightarrow>
                     if sr_Err res \<noteq> None then ((None, False, handoffTransactionResult res), r2)
                     else drop_transaction tx created r2)
                else ((None, False, store_result DurableChange (Some e)), r1))))"

definition finishHandoffAdvanceTransactionLocked ::
  "handoffTransaction \<Rightarrow> Repository \<Rightarrow> (HandoffState option \<times> bool \<times> StoreResult) \<times> Repository" where
  "finishHandoffAdvanceTransactionLocked tx r =
     (case move_binding ''advance_binding_mismatch'' tx r of
        (Some res, r1) \<Rightarrow> ((None, False, res), r1)
      | (None, r1) \<Rightarrow>
          (case replace_record r1 (rq_HandoffID (hr_Request (tx_Record tx))) (tx_Record tx) of (res, r2) \<Rightarrow>
             if sr_Err res \<noteq> None then ((None, False, handoffTransactionResult res), r2)
             else drop_transaction tx False r2))"

definition reconcileHandoffTransactionLocked :: "Repository \<Rightarrow> string \<Rightarrow> StoreResult \<times> Repository" where
  "reconcileHandoffTransactionLocked r i =
     (case loadHandoffTransactionLocked r i of
        Inl e \<Rightarrow> (store_result NoDurableChange (Some e), r)
      | Inr tx \<Rightarrow>
          (case loadHandoffRecordLocked r i of
             Inl e \<Rightarrow>
               if is_not_found e
               then (case finishHandoffTransactionLocked tx False r of ((_, _, res), r1) \<Rightarrow> (res, r1))
               else (store_result NoDurableChange (Some e), r)
           | Inr _ \<Rightarrow> (case finishHandoffAdvanceTransactionLocked tx r of ((_, _, res), r1) \<Rightarrow> (res, r1))))"

section \<open>Handoffs\<close>

definition validateInitialHandoff :: "Request \<Rightarrow> HandoffState \<Rightarrow> goerr option" where
  "validateInitialHandoff req st = first_error [
     Request_ValidateH4 req,
     State_ValidateH4 st,
     reject (rq_HandoffID req \<noteq> hs_HandoffID st \<or> rq_SessionID req \<noteq> hs_SessionID st)
       (failure_New HandoffConflict [(''handoff_id'', rq_HandoffID req)] None),
     reject (hs_Phase st \<noteq> PhaseAgentFencing \<or> hs_DesiredOwner st \<noteq> OwnerHuman \<or> hs_ProviderOwner st \<noteq> OwnerAgent \<or>
             hs_AgentIngress st = IngressWritable \<or> hs_HumanIngress st \<noteq> IngressFenced \<or> hs_HumanClient st \<noteq> None)
       (failure_New HandoffConflict [(''handoff_id'', rq_HandoffID req), (''phase'', phase_string (hs_Phase st))] None)]"

definition move_to :: "Binding \<Rightarrow> HandoffState \<Rightarrow> time \<Rightarrow> Binding" where
  "move_to b st t = b\<lparr>bd_AuthorityEpoch := hs_AuthorityEpoch st, bd_DesiredOwner := hs_DesiredOwner st,
     bd_UpdatedAt := monotonicHandoffTime t (bd_UpdatedAt b)\<rparr>"

text \<open>The part of \<open>ReserveHandoff\<close> after the binding and the lease have been checked.\<close>

definition reserve_new_handoff ::
  "Request \<Rightarrow> HandoffState \<Rightarrow> Binding \<Rightarrow> Repository \<Rightarrow> (HandoffState option \<times> bool \<times> StoreResult) \<times> Repository" where
  "reserve_new_handoff req initial binding r =
     (case now r of (t, r0) \<Rightarrow>
      let rec = \<lparr>hr_SchemaVersion = handoffStoreSchemaVersion, hr_Request = req, hr_State = initial,
                 hr_CreatedAt = t, hr_UpdatedAt = t\<rparr>;
          tx0 = \<lparr>tx_SchemaVersion = handoffStoreSchemaVersion, tx_Record = rec, tx_PriorBinding = binding,
                 tx_TargetBinding = move_to binding initial t, tx_ObservationSeqs = []\<rparr> in
      case handoffTransaction_validate tx0 of
        Some e \<Rightarrow> ((None, False, store_result NoDurableChange (Some e)), r0)
      | None \<Rightarrow>
      (case prepareHandoffObservations r0 [handoffCreateObservationSpec initial] of ((seqs, prepared), r1) \<Rightarrow>
        if sr_Err prepared \<noteq> None then ((None, False, prepared), r1)
        else let tx = tx0\<lparr>tx_ObservationSeqs := seqs\<rparr> in
        (case handoffTransaction_validate tx of
           Some e \<Rightarrow> (case finishHandoffObservations seqs (store_result NoDurableChange (Some e)) None r1 of
             (res, r2) \<Rightarrow> ((None, False, res), r2))
         | None \<Rightarrow>
        (case create_transaction r1 (rq_HandoffID req) tx of (res, r2) \<Rightarrow>
           if sr_Err res \<noteq> None
           then (case finishHandoffObservations seqs res (Some (handoffObservationTransactionMatchesLocked tx True)) r2 of
               (res', r3) \<Rightarrow> ((None, False, res'), r3))
           else (case finishHandoffTransactionLocked tx True r2 of ((st, created, res1), r3) \<Rightarrow>
             (case finishHandoffObservations seqs res1 (Some (handoffObservationTransactionMatchesLocked tx True)) r3 of
                (res2, r4) \<Rightarrow> ((st, created, res2), r4)))))))"

definition ReserveHandoff ::
  "(string \<Rightarrow> string) \<Rightarrow> goerr option \<Rightarrow> Request \<Rightarrow> HandoffState \<Rightarrow> Repository
     \<Rightarrow> (HandoffState option \<times> bool \<times> StoreResult) \<times> Repository" where
  "ReserveHandoff sha ctx req initial r =
     (case ctx of Some e \<Rightarrow> ((None, False, store_result NoDurableChange (Some e)), r) | None \<Rightarrow>
      (case validateInitialHandoff req initial of
         Some e \<Rightarrow> ((None, False, store_result NoDurableChange (Some e)), r)
       | None \<Rightarrow>
      (case loadHandoffTransactionLocked r (rq_HandoffID req) of
         Inr tx \<Rightarrow>
           if hr_Request (tx_Record tx) \<noteq> req
           then ((None, False, store_result DurableChange (Some (handoffConflict (rq_HandoffID req) ''transaction_conflict''))), r)
           else finishHandoffTransactionLocked tx False r
       | Inl e \<Rightarrow>
           if \<not> is_not_found e then ((None, False, store_result NoDurableChange (Some e)), r)
           else
      (case loadHandoffRecordLocked r (rq_HandoffID req) of
         Inr existing \<Rightarrow>
           if hr_Request existing \<noteq> req
           then ((Some (hr_State existing), False,
             store_result DurableChange (Some (handoffConflict (rq_HandoffID req) ''request_conflict''))), r)
           else ((Some (hr_State existing), False, store_result DurableChange None), r)
       | Inl e \<Rightarrow>
           if \<not> is_not_found e then ((None, False, store_result NoDurableChange (Some e)), r)
           else
      (case loadDelegatedBindingLocked r (rq_SessionID req) of
         Inl e \<Rightarrow> ((None, False, store_result NoDurableChange (Some e)), r)
       | Inr binding \<Rightarrow>
           if bd_Lifecycle binding \<noteq> LifecycleLive \<or> bd_DesiredOwner binding \<noteq> OwnerAgent
           then ((None, False, store_result DurableChange
             (Some (handoffConflict (rq_HandoffID req) ''delegated_session_not_agent_live''))), r)
           else (case findContextExecLeaseLocked sha r (rq_SessionID req) (bd_AuthorityEpoch binding) of
               Inl e \<Rightarrow> ((None, False, store_result NoDurableChange (Some e)), r)
             | Inr (Some _) \<Rightarrow> ((None, False, store_result DurableChange
                 (Some (handoffConflict (rq_HandoffID req) ''context_exec_lease_active''))), r)
             | Inr None \<Rightarrow>
                 if hs_AuthorityEpoch initial \<noteq> bd_AuthorityEpoch binding + 1
                 then ((None, False, store_result DurableChange
                   (Some (stale_epoch_failure (rq_SessionID req) (bd_AuthorityEpoch binding + 1) (hs_AuthorityEpoch initial)))), r)
                 else reserve_new_handoff req initial binding r))))))"

text \<open>The part of \<open>AdvanceHandoff\<close> after a pending transaction has been finished.\<close>

definition advance_with_binding ::
  "HandoffState \<Rightarrow> handoffRecord \<Rightarrow> Binding \<Rightarrow> uint64 list \<Rightarrow> Repository \<Rightarrow> StoreResult \<times> Repository" where
  "advance_with_binding want rec binding seqs r =
     (if bd_AuthorityEpoch binding \<noteq> hs_AuthorityEpoch want \<or> bd_DesiredOwner binding \<noteq> hs_DesiredOwner want then
        if hs_AuthorityEpoch want \<le> bd_AuthorityEpoch binding
        then finishHandoffObservations seqs (store_result NoDurableChange
          (Some (handoffConflict (hs_HandoffID want) ''owner_change_without_epoch_rotation''))) None r
        else (case now r of (t, r1) \<Rightarrow>
          let tx = \<lparr>tx_SchemaVersion = handoffStoreSchemaVersion,
                    tx_Record = rec\<lparr>hr_State := want, hr_UpdatedAt := monotonicHandoffTime t (hr_UpdatedAt rec)\<rparr>,
                    tx_PriorBinding = binding, tx_TargetBinding = move_to binding want t, tx_ObservationSeqs = seqs\<rparr> in
          case handoffTransaction_validate tx of
            Some e \<Rightarrow> finishHandoffObservations seqs (store_result NoDurableChange (Some e)) None r1
          | None \<Rightarrow>
              (case create_transaction r1 (hs_HandoffID want) tx of (res, r2) \<Rightarrow>
                 if sr_Err res \<noteq> None \<and> \<not> is_exist (sr_Err res)
                 then finishHandoffObservations seqs res (Some (handoffObservationTransactionMatchesLocked tx False)) r2
                 else (case finishHandoffAdvanceTransactionLocked tx r2 of ((_, _, res1), r3) \<Rightarrow>
                   finishHandoffObservations seqs res1 (Some (handoffObservationTransactionMatchesLocked tx False)) r3)))
      else (case now r of (t, r1) \<Rightarrow>
        (case replace_record r1 (hs_HandoffID want)
            (rec\<lparr>hr_State := want, hr_UpdatedAt := monotonicHandoffTime t (hr_UpdatedAt rec)\<rparr>) of (res, r2) \<Rightarrow>
           finishHandoffObservations seqs res (Some (\<lambda>r3. case loadHandoffRecordLocked r3 (hs_HandoffID want) of
               Inl _ \<Rightarrow> False | Inr cur \<Rightarrow> loaded_state_eq (hr_State cur) want)) r2)))"

definition advance_loaded :: "HandoffState \<Rightarrow> Repository \<Rightarrow> StoreResult \<times> Repository" where
  "advance_loaded want r =
     (case loadHandoffRecordLocked r (hs_HandoffID want) of
        Inl e \<Rightarrow> (store_result NoDurableChange (Some e), r)
      | Inr rec \<Rightarrow>
          if hs_HandoffID want \<noteq> hs_HandoffID (hr_State rec) \<or> hs_SessionID want \<noteq> hs_SessionID (hr_State rec) \<or>
             hs_AuthorityEpoch want < hs_AuthorityEpoch (hr_State rec)
          then (store_result DurableChange (Some (handoffConflict (hs_HandoffID want) ''state_identity_or_epoch_conflict'')), r)
          else if hr_State rec = want then (store_result DurableChange None, r)
          else (case loadDelegatedBindingLocked r (hs_SessionID want) of
              Inl e \<Rightarrow> (store_result NoDurableChange (Some e), r)
            | Inr binding \<Rightarrow>
                (case prepareHandoffObservations r (handoffAdvanceObservationSpecs (hr_State rec) want) of
                   ((seqs, prepared), r1) \<Rightarrow>
                     if sr_Err prepared \<noteq> None then (prepared, r1)
                     else advance_with_binding want rec binding seqs r1)))"

definition AdvanceHandoff :: "goerr option \<Rightarrow> HandoffState \<Rightarrow> Repository \<Rightarrow> StoreResult \<times> Repository" where
  "AdvanceHandoff ctx want r =
     (case ctx of Some e \<Rightarrow> (store_result NoDurableChange (Some e), r) | None \<Rightarrow>
      (case State_ValidateH4 want of Some e \<Rightarrow> (store_result NoDurableChange (Some e), r) | None \<Rightarrow>
      (case loadHandoffTransactionLocked r (hs_HandoffID want) of
         Inr tx \<Rightarrow>
           (case reconcileHandoffTransactionLocked r (hs_HandoffID want) of (res, r1) \<Rightarrow>
              if sr_Err res \<noteq> None then (res, r1)
              else (case finishHandoffObservations (tx_ObservationSeqs tx) res
                  (Some (\<lambda>r2. case loadHandoffRecordLocked r2 (hs_HandoffID want) of
                     Inl _ \<Rightarrow> False | Inr cur \<Rightarrow> loaded_state_eq (hr_State cur) (hr_State (tx_Record tx)))) r1 of
                (res1, r2) \<Rightarrow> if sr_Err res1 \<noteq> None then (res1, r2) else advance_loaded want r2))
       | Inl e \<Rightarrow>
           if \<not> is_not_found e then (store_result NoDurableChange (Some e), r) else advance_loaded want r)))"

definition invalid_handoff_id :: goerr where
  "invalid_handoff_id = failure_New InvalidInput [(''field'', ''handoff_id'')] None"

definition FindHandoff :: "goerr option \<Rightarrow> string \<Rightarrow> Repository \<Rightarrow> (Request \<times> HandoffState) option result" where
  "FindHandoff ctx i r =
     guard_result ctx
       (if \<not> validHandoffStoreID i then Inl invalid_handoff_id
        else case loadHandoffRecordLocked r i of
            Inr rec \<Rightarrow> Inr (Some (hr_Request rec, hr_State rec))
          | Inl e \<Rightarrow> if is_not_found e then Inr None else Inl e)"

definition LoadHandoff :: "goerr option \<Rightarrow> string \<Rightarrow> Repository \<Rightarrow> (Request \<times> HandoffState) result" where
  "LoadHandoff ctx i r =
     guard_result ctx
       (if \<not> validHandoffStoreID i then Inl invalid_handoff_id
        else bind_result (loadHandoffRecordLocked r i) (\<lambda>rec. Inr (hr_Request rec, hr_State rec)))"

definition LoadHandoffTimestamps :: "goerr option \<Rightarrow> string \<Rightarrow> Repository \<Rightarrow> (time \<times> time) result" where
  "LoadHandoffTimestamps ctx i r =
     guard_result ctx
       (if \<not> validHandoffStoreID i then Inl invalid_handoff_id
        else bind_result (loadHandoffRecordLocked r i) (\<lambda>rec. Inr (hr_CreatedAt rec, hr_UpdatedAt rec)))"

definition RecoverHandoff :: "goerr option \<Rightarrow> string \<Rightarrow> Repository \<Rightarrow> (HandoffState option \<times> StoreResult) \<times> Repository" where
  "RecoverHandoff ctx i r =
     (case ctx of Some e \<Rightarrow> ((None, store_result NoDurableChange (Some e)), r) | None \<Rightarrow>
      if \<not> validHandoffStoreID i then ((None, store_result NoDurableChange (Some invalid_handoff_id)), r)
      else (case (case loadHandoffTransactionLocked r i of
              Inr _ \<Rightarrow> (case reconcileHandoffTransactionLocked r i of (res, r1) \<Rightarrow>
                 (if sr_Err res \<noteq> None then Some res else None, r1))
            | Inl e \<Rightarrow> (if is_not_found e then None else Some (store_result NoDurableChange (Some e)), r)) of
          (Some res, r1) \<Rightarrow> ((None, res), r1)
        | (None, r1) \<Rightarrow>
            (case loadHandoffRecordLocked r1 i of
               Inl e \<Rightarrow> ((None, store_result NoDurableChange (Some e)), r1)
             | Inr rec \<Rightarrow> ((Some (hr_State rec), store_result DurableChange None), r1))))"

fun reconcile_loop :: "Repository \<Rightarrow> string list \<Rightarrow> goerr option \<times> Repository" where
  "reconcile_loop r [] = (None, r)"
| "reconcile_loop r (i # is) =
     (if \<not> validHandoffStoreID i then (Some (Errorf ''invalid handoff transaction identity''), r)
      else (case reconcileHandoffTransactionLocked r i of (res, r1) \<Rightarrow>
        (case sr_Err res of Some e \<Rightarrow> (Some e, r1) | None \<Rightarrow> reconcile_loop r1 is)))"

definition reconcileHandoffTransactions :: "goerr option \<Rightarrow> Repository \<Rightarrow> goerr option \<times> Repository" where
  "reconcileHandoffTransactions ctx r =
     (case ctx of Some e \<Rightarrow> (Some e, r) | None \<Rightarrow> reconcile_loop r (ReadDir (rp_transactions r)))"

text \<open>The handoffs to recover at start: unfinished records, overridden by pending transactions.\<close>

fun candidate_records :: "Repository \<Rightarrow> string list \<Rightarrow> (string \<times> HandoffState) list result" where
  "candidate_records r [] = Inr []"
| "candidate_records r (i # is) =
     bind_result (loadHandoffRecordLocked r i) (\<lambda>rec.
       bind_result (candidate_records r is) (\<lambda>xs.
         Inr (if hs_Phase (hr_State rec) \<noteq> PhaseAgentOwned then (i, hr_State rec) # xs else xs)))"

fun candidate_transactions :: "Repository \<Rightarrow> string list \<Rightarrow> (string \<times> HandoffState) list result" where
  "candidate_transactions r [] = Inr []"
| "candidate_transactions r (i # is) =
     bind_result (loadHandoffTransactionLocked r i) (\<lambda>tx.
       bind_result (candidate_transactions r is) (\<lambda>xs.
         Inr ((i, (hr_State (tx_Record tx))\<lparr>hs_AgentIngress := IngressFenced, hs_HumanIngress := IngressFenced,
                hs_HumanClient := None\<rparr>) # xs)))"

definition ListHandoffRecoveryCandidates :: "goerr option \<Rightarrow> Repository \<Rightarrow> HandoffState list result" where
  "ListHandoffRecoveryCandidates ctx r =
     guard_result ctx (bind_result (candidate_records r (ReadDir (rp_handoffs r))) (\<lambda>recs.
       bind_result (candidate_transactions r (ReadDir (rp_transactions r))) (\<lambda>txs.
         let byID = AList.updates (map fst txs) (map snd txs) recs in
         Inr (map (\<lambda>i. the (map_of byID i)) (sort (remdups (map fst byID)))))))"

definition MaxExpiredHandoffBatch :: int where
  "MaxExpiredHandoffBatch = 256"

fun expired_loop :: "Repository \<Rightarrow> time \<Rightarrow> int \<Rightarrow> string list \<Rightarrow> string list \<Rightarrow> (string list \<times> bool) result" where
  "expired_loop r cutoff limit out [] = Inr (out, False)"
| "expired_loop r cutoff limit out (i # is) =
     bind_result (loadHandoffRecordLocked r i) (\<lambda>rec.
       if hs_Phase (hr_State rec) = PhaseAgentOwned \<or> hs_Phase (hr_State rec) = PhaseAborted \<or> \<not> hr_CreatedAt rec < cutoff
       then expired_loop r cutoff limit out is
       else if int (length out) = limit then Inr (out, True)
       else expired_loop r cutoff limit (out @ [i]) is)"

definition ListExpiredHandoffs :: "goerr option \<Rightarrow> time \<Rightarrow> int \<Rightarrow> Repository \<Rightarrow> (string list \<times> bool) result" where
  "ListExpiredHandoffs ctx cutoff limit r =
     guard_result ctx
       (if IsZero cutoff \<or> limit < 1 \<or> MaxExpiredHandoffBatch < limit then Inl (Errorf ''invalid handoff expiry bounds'')
        else expired_loop r cutoff limit [] (ReadDir (rp_handoffs r)))"

section \<open>Human control signals (human_control_ledger.go)\<close>

definition validControlOutcome :: "string \<Rightarrow> bool" where
  "validControlOutcome v =
     bytes_over (\<lambda>c. is_lower c \<or> is_digit c \<or> c = CHR ''_'' \<or> c = CHR ''-'' \<or> c = CHR ''.'') 128 v"

definition humanControlRecord_validate :: "humanControlRecord \<Rightarrow> goerr option" where
  "humanControlRecord_validate v = first_error [
     reject (hcr_SchemaVersion v \<noteq> handoffStoreSchemaVersion \<or> IsZero (hcr_CreatedAt v) \<or> hcr_UpdatedAt v < hcr_CreatedAt v)
       (Errorf ''invalid human control record''),
     ControlSignal_Validate (hcr_Signal v),
     reject (hcr_Completed v \<and> \<not> validControlOutcome (hcr_Outcome v)) (Errorf ''invalid human control outcome''),
     reject (\<not> hcr_Completed v \<and> hcr_Outcome v \<noteq> []) (Errorf ''pending human control has outcome'')]"

fun controlAllowedInPhase :: "HumanControlKind \<Rightarrow> Phase \<Rightarrow> bool" where
  "controlAllowedInPhase HumanControlStatus phase \<longleftrightarrow> True"
| "controlAllowedInPhase HumanControlReady phase \<longleftrightarrow> phase = PhaseHumanOwned"
| "controlAllowedInPhase HumanControlAbort phase \<longleftrightarrow> phase = PhaseHumanOwned"
| "controlAllowedInPhase HumanControlResume phase \<longleftrightarrow>
     phase = PhaseAborted \<or> phase = PhaseHumanFencing \<or> phase = PhaseReclaimPending"
| "controlAllowedInPhase HumanControlTerminate phase \<longleftrightarrow>
     phase = PhaseAborted \<or> phase = PhaseHumanFencing \<or> phase = PhaseReclaimPending"
| "controlAllowedInPhase HumanControlRequestControl phase \<longleftrightarrow> phase = PhaseAgentOwned"
| "controlAllowedInPhase (OtherControl s) phase \<longleftrightarrow> False"

definition loadHumanControlLocked :: "Repository \<Rightarrow> string \<Rightarrow> string \<Rightarrow> humanControlRecord result" where
  "loadHumanControlLocked r hid cid =
     bind_result (readPrivateJSON (rp_controls r hid) cid) (\<lambda>v.
       if humanControlRecord_validate v \<noteq> None \<or> sg_HandoffID (hcr_Signal v) \<noteq> hid \<or> sg_ControlID (hcr_Signal v) \<noteq> cid
       then Inl (Errorf ''invalid human control record'') else Inr v)"

definition create_control :: "Repository \<Rightarrow> string \<Rightarrow> string \<Rightarrow> humanControlRecord \<Rightarrow> StoreResult \<times> Repository" where
  "create_control r hid cid v =
     (case next_io (rp_io r) of (io, ios) \<Rightarrow>
      case atomic_Create io (rp_controls r hid) cid v of (res, d) \<Rightarrow>
        (res, r\<lparr>rp_controls := (rp_controls r)(hid := d), rp_io := ios\<rparr>))"

definition replace_control :: "Repository \<Rightarrow> string \<Rightarrow> string \<Rightarrow> humanControlRecord \<Rightarrow> StoreResult \<times> Repository" where
  "replace_control r hid cid v =
     (case next_io (rp_io r) of (io, ios) \<Rightarrow>
      case atomic_Replace io (rp_controls r hid) cid v of (res, d) \<Rightarrow>
        (res, r\<lparr>rp_controls := (rp_controls r)(hid := d), rp_io := ios\<rparr>))"

definition not_pending_failure :: "string \<Rightarrow> Phase \<Rightarrow> goerr" where
  "not_pending_failure i phase = failure_New HandoffNotPending
     [(''handoff_id'', i), (''phase'', phase_string phase)] None"

definition ReserveControlSignal ::
  "goerr option \<Rightarrow> ControlSignal \<Rightarrow> Repository \<Rightarrow> (ControlSignal option \<times> string \<times> bool \<times> StoreResult) \<times> Repository" where
  "ReserveControlSignal ctx signal r =
     (let hid = sg_HandoffID signal; cid = sg_ControlID signal;
          fail = (\<lambda>d e r. ((None, [], False, store_result d (Some e)), r)) in
      case ctx of Some e \<Rightarrow> fail NoDurableChange e r | None \<Rightarrow>
      (case ControlSignal_Validate signal of Some e \<Rightarrow> fail NoDurableChange e r | None \<Rightarrow>
      (case loadHumanControlLocked r hid cid of
         Inr existing \<Rightarrow>
           (case DecideControl (Some (hcr_Signal existing)) signal (sg_AuthorityEpoch signal) of
              Inl e \<Rightarrow> ((Some (hcr_Signal existing), hcr_Outcome existing, False, store_result DurableChange (Some e)), r)
            | Inr decision \<Rightarrow>
                if cd_Action decision \<noteq> ControlReplay
                then fail DurableChange (handoffConflict hid ''control_replay_invalid'') r
                else ((Some (hcr_Signal existing), hcr_Outcome existing, False, store_result DurableChange None), r))
       | Inl e \<Rightarrow>
           if \<not> is_not_found e then fail NoDurableChange e r
           else
      (case loadHandoffRecordLocked r hid of Inl e \<Rightarrow> fail NoDurableChange e r | Inr rec \<Rightarrow>
      (case DecideControl None signal (hs_AuthorityEpoch (hr_State rec)) of Inl e \<Rightarrow> fail DurableChange e r | Inr _ \<Rightarrow>
         if \<not> controlAllowedInPhase (sg_Kind signal) (hs_Phase (hr_State rec))
         then fail DurableChange (not_pending_failure hid (hs_Phase (hr_State rec))) r
         else (case now r of (t, r1) \<Rightarrow>
           let stored = \<lparr>hcr_SchemaVersion = handoffStoreSchemaVersion, hcr_Signal = signal, hcr_Outcome = [],
                         hcr_Completed = False, hcr_CreatedAt = t, hcr_UpdatedAt = t\<rparr> in
           case create_control r1 hid cid stored of (res, r2) \<Rightarrow>
             (case loadHumanControlLocked r2 hid cid of
                Inr existing \<Rightarrow>
                  if is_exist (sr_Err res) \<and> hcr_Signal existing = signal
                  then ((Some signal, hcr_Outcome existing, False, store_result DurableChange None), r2)
                  else if sr_Err res \<noteq> None then ((None, [], False, res), r2)
                  else ((Some signal, [], True, res), r2)
              | Inl _ \<Rightarrow>
                  if sr_Err res \<noteq> None then ((None, [], False, res), r2)
                  else ((Some signal, [], True, res), r2))))))))"

definition CompleteControlSignal ::
  "goerr option \<Rightarrow> ControlSignal \<Rightarrow> string \<Rightarrow> Repository \<Rightarrow> (string \<times> StoreResult) \<times> Repository" where
  "CompleteControlSignal ctx signal outcome r =
     (let hid = sg_HandoffID signal; cid = sg_ControlID signal in
      case ctx of Some e \<Rightarrow> (([], store_result NoDurableChange (Some e)), r) | None \<Rightarrow>
      if ControlSignal_Validate signal \<noteq> None \<or> \<not> validControlOutcome outcome
      then (([], store_result NoDurableChange (Some (failure_New InvalidInput [(''field'', ''human_control_outcome'')]
        (ControlSignal_Validate signal)))), r)
      else (case loadHumanControlLocked r hid cid of
          Inl e \<Rightarrow> (([], store_result NoDurableChange (Some e)), r)
        | Inr rec \<Rightarrow>
            if hcr_Signal rec \<noteq> signal
            then ((hcr_Outcome rec, store_result DurableChange (Some (handoffConflict hid ''control_signal_conflict''))), r)
            else if hcr_Completed rec then
              if hcr_Outcome rec \<noteq> outcome
              then ((hcr_Outcome rec, store_result DurableChange (Some (handoffConflict hid ''control_outcome_conflict''))), r)
              else ((hcr_Outcome rec, store_result DurableChange None), r)
            else (case now r of (t, r1) \<Rightarrow>
              case replace_control r1 hid cid (rec\<lparr>hcr_Completed := True, hcr_Outcome := outcome,
                  hcr_UpdatedAt := monotonicHandoffTime t (hcr_UpdatedAt rec)\<rparr>) of
                (res, r2) \<Rightarrow> ((outcome, res), r2))))"

section \<open>Provenance of human write authority (interactive_handoff_restart.go)\<close>

definition InputAuthorityAgentOnly :: string where
  "InputAuthorityAgentOnly = ''agent_only''"

definition InputAuthorityHumanWriteGranted :: string where
  "InputAuthorityHumanWriteGranted = ''human_write_authority_granted''"

definition provenance_validate :: "delegatedInputProvenance \<Rightarrow> goerr option" where
  "provenance_validate v = first_error [
     reject (dp_SchemaVersion v \<noteq> 1 \<or> IsZero (dp_UpdatedAt v)) (Errorf ''invalid delegated provenance''),
     (case ParseSessionID (dp_SessionID v) of Inl e \<Rightarrow> Some e | Inr _ \<Rightarrow> None),
     reject (dp_Value v \<noteq> InputAuthorityHumanWriteGranted) (Errorf ''invalid persisted delegated provenance'')]"

definition invalid_session_id :: "goerr \<Rightarrow> goerr" where
  "invalid_session_id e = failure_New InvalidInput [(''field'', ''session_id'')] (Some e)"

definition create_provenance :: "Repository \<Rightarrow> string \<Rightarrow> delegatedInputProvenance \<Rightarrow> StoreResult \<times> Repository" where
  "create_provenance r k v =
     (case next_io (rp_io r) of (io, ios) \<Rightarrow>
      case atomic_Create io (rp_provenance r) k v of (res, d) \<Rightarrow> (res, r\<lparr>rp_provenance := d, rp_io := ios\<rparr>))"

definition MarkHumanWriteAuthorityGranted :: "goerr option \<Rightarrow> string \<Rightarrow> Repository \<Rightarrow> StoreResult \<times> Repository" where
  "MarkHumanWriteAuthorityGranted ctx sid r =
     (case ctx of Some e \<Rightarrow> (store_result NoDurableChange (Some e), r) | None \<Rightarrow>
      (case ParseSessionID sid of Inl e \<Rightarrow> (store_result NoDurableChange (Some (invalid_session_id e)), r) | Inr _ \<Rightarrow>
      (case loadDelegatedBindingLocked r sid of Inl e \<Rightarrow> (store_result NoDurableChange (Some e), r) | Inr _ \<Rightarrow>
      (case readPrivateJSON (rp_provenance r) sid of
         Inr existing \<Rightarrow>
           if provenance_validate existing \<noteq> None \<or> dp_SessionID existing \<noteq> sid
           then (store_result DurableChange (Some (Errorf ''invalid delegated provenance'')), r)
           else (store_result DurableChange None, r)
       | Inl e \<Rightarrow>
           if \<not> is_not_found e then (store_result NoDurableChange (Some e), r)
           else (case now r of (t, r1) \<Rightarrow>
             create_provenance r1 sid \<lparr>dp_SchemaVersion = 1, dp_SessionID = sid,
               dp_Value = InputAuthorityHumanWriteGranted, dp_UpdatedAt = t\<rparr>)))))"

definition LoadInputAuthorityProvenance :: "goerr option \<Rightarrow> string \<Rightarrow> Repository \<Rightarrow> string result" where
  "LoadInputAuthorityProvenance ctx sid r =
     guard_result ctx
      (case ParseSessionID sid of Inl e \<Rightarrow> Inl (invalid_session_id e) | Inr _ \<Rightarrow>
       bind_result (loadDelegatedBindingLocked r sid) (\<lambda>_.
         case readPrivateJSON (rp_provenance r) sid of
           Inl e \<Rightarrow> if is_not_found e then Inr InputAuthorityAgentOnly else Inl e
         | Inr v \<Rightarrow>
             if provenance_validate v \<noteq> None \<or> dp_SessionID v \<noteq> sid
             then Inl (Errorf ''invalid delegated provenance'') else Inr (dp_Value v)))"

end
