(* ===== verification/HandoffStoreFacts.thy ===== *)
theory HandoffStoreFacts
  imports HandoffStore
begin

text \<open>
  The authority invariant of the daemon's store.  Every change that the store makes to bindings,
  handoff records and transactions is a sequence of a few kinds of file writes (\<open>write_step\<close>), and
  each kind keeps the invariant: a handoff record never claims a later authority epoch than the
  binding of its session, and at the same epoch both name the same owner.
\<close>

section \<open>Loading facts\<close>

lemma loadHandoffRecordLocked_Inr:
  "loadHandoffRecordLocked r i = Inr v \<longleftrightarrow>
    readPrivateJSON (rp_handoffs r) i = Inr v \<and> handoffRecord_validate v = None \<and> rq_HandoffID (hr_Request v) = i"
  by (auto simp: loadHandoffRecordLocked_def split: if_splits)

lemma loadHandoffTransactionLocked_Inr:
  "loadHandoffTransactionLocked r i = Inr v \<longleftrightarrow>
    readPrivateJSON (rp_transactions r) i = Inr v \<and> handoffTransaction_validate v = None \<and>
    rq_HandoffID (hr_Request (tx_Record v)) = i"
  by (auto simp: loadHandoffTransactionLocked_def split: if_splits)

lemma handoffRecord_validate_facts:
  assumes "handoffRecord_validate v = None"
  shows "rq_HandoffID (hr_Request v) = hs_HandoffID (hr_State v)" "rq_SessionID (hr_Request v) = hs_SessionID (hr_State v)"
    "HandoffState_Validate (hr_State v) = None"
  using assms by (auto simp: handoffRecord_validate_def State_ValidateH4_def)

lemma handoffTransaction_validate_facts:
  assumes "handoffTransaction_validate v = None"
  shows "handoffRecord_validate (tx_Record v) = None" "Binding_Validate (tx_TargetBinding v) = None"
    "bd_SessionID (tx_PriorBinding v) = hs_SessionID (hr_State (tx_Record v))"
    "bd_SessionID (tx_TargetBinding v) = hs_SessionID (hr_State (tx_Record v))"
    "bd_AuthorityEpoch (tx_TargetBinding v) = hs_AuthorityEpoch (hr_State (tx_Record v))"
    "bd_DesiredOwner (tx_TargetBinding v) = hs_DesiredOwner (hr_State (tx_Record v))"
  using assms by (auto simp: handoffTransaction_validate_def sameDelegatedBindingIdentity_def)

section \<open>Steps of the store\<close>

definition same_authority :: "Repository \<Rightarrow> Repository \<Rightarrow> bool" where
  "same_authority r r' \<longleftrightarrow> rp_bindings r' = rp_bindings r \<and> rp_handoffs r' = rp_handoffs r \<and>
     rp_transactions r' = rp_transactions r"

definition rotates :: "handoffTransaction \<Rightarrow> bool" where
  "rotates tx \<longleftrightarrow> binding_step (tx_PriorBinding tx) (tx_TargetBinding tx) \<and>
     bd_AuthorityEpoch (tx_PriorBinding tx) < bd_AuthorityEpoch (tx_TargetBinding tx)"

inductive write_step :: "Repository \<Rightarrow> Repository \<Rightarrow> bool" where
  other: "same_authority r r' \<Longrightarrow> write_step r r'"
| fresh: "map_of (rp_bindings r) k = None \<Longrightarrow> rp_bindings r' = put_file k b (rp_bindings r) \<Longrightarrow>
    rp_handoffs r' = rp_handoffs r \<Longrightarrow> rp_transactions r' = rp_transactions r \<Longrightarrow> write_step r r'"
| bind: "loadDelegatedBindingLocked r (bd_SessionID b) = Inr old \<Longrightarrow> Binding_Validate b = None \<Longrightarrow> binding_step old b \<Longrightarrow>
    rp_bindings r' = put_file (bd_SessionID b) b (rp_bindings r) \<Longrightarrow>
    rp_handoffs r' = rp_handoffs r \<Longrightarrow> rp_transactions r' = rp_transactions r \<Longrightarrow> write_step r r'"
| write_record: "handoffRecord_validate v = None \<Longrightarrow> loadDelegatedBindingLocked r (hs_SessionID (hr_State v)) = Inr b \<Longrightarrow>
    hs_AuthorityEpoch (hr_State v) = bd_AuthorityEpoch b \<Longrightarrow> hs_DesiredOwner (hr_State v) = bd_DesiredOwner b \<Longrightarrow>
    (\<And>old. loadHandoffRecordLocked r (rq_HandoffID (hr_Request v)) = Inr old \<Longrightarrow>
      hs_AuthorityEpoch (hr_State old) \<le> hs_AuthorityEpoch (hr_State v)) \<Longrightarrow>
    (\<And>tx. loadHandoffTransactionLocked r (rq_HandoffID (hr_Request v)) = Inr tx \<Longrightarrow>
      hs_SessionID (hr_State (tx_Record tx)) = hs_SessionID (hr_State v)) \<Longrightarrow>
    rp_handoffs r' = put_file (rq_HandoffID (hr_Request v)) v (rp_handoffs r) \<Longrightarrow>
    rp_bindings r' = rp_bindings r \<Longrightarrow> rp_transactions r' = rp_transactions r \<Longrightarrow> write_step r r'"
| transaction: "rotates tx \<Longrightarrow>
    (\<And>v. loadHandoffRecordLocked r k = Inr v \<Longrightarrow> hs_SessionID (hr_State v) = hs_SessionID (hr_State (tx_Record tx))) \<Longrightarrow>
    rp_transactions r' = put_file k tx (rp_transactions r) \<Longrightarrow>
    rp_bindings r' = rp_bindings r \<Longrightarrow> rp_handoffs r' = rp_handoffs r \<Longrightarrow> write_step r r'"
| drop: "rp_transactions r' = AList.delete k (rp_transactions r) \<Longrightarrow>
    rp_bindings r' = rp_bindings r \<Longrightarrow> rp_handoffs r' = rp_handoffs r \<Longrightarrow> write_step r r'"

definition covered :: "Repository \<Rightarrow> handoffRecord \<Rightarrow> bool" where
  "covered r v \<longleftrightarrow> (\<exists>b. loadDelegatedBindingLocked r (hs_SessionID (hr_State v)) = Inr b \<and>
     hs_AuthorityEpoch (hr_State v) \<le> bd_AuthorityEpoch b \<and>
     (hs_AuthorityEpoch (hr_State v) = bd_AuthorityEpoch b \<longrightarrow> hs_DesiredOwner (hr_State v) = bd_DesiredOwner b))"

definition authority_inv :: "Repository \<Rightarrow> bool" where
  "authority_inv r \<longleftrightarrow> (\<forall>i v. loadHandoffRecordLocked r i = Inr v \<longrightarrow> covered r v) \<and>
     (\<forall>i tx. loadHandoffTransactionLocked r i = Inr tx \<longrightarrow> rotates tx) \<and>
     (\<forall>i v tx. loadHandoffRecordLocked r i = Inr v \<longrightarrow> loadHandoffTransactionLocked r i = Inr tx \<longrightarrow>
        hs_SessionID (hr_State v) = hs_SessionID (hr_State (tx_Record tx)))"

definition epochs_grow :: "Repository \<Rightarrow> Repository \<Rightarrow> bool" where
  "epochs_grow r r' \<longleftrightarrow>
     (\<forall>i v. loadHandoffRecordLocked r i = Inr v \<longrightarrow> (\<exists>v'. loadHandoffRecordLocked r' i = Inr v' \<and>
        hs_AuthorityEpoch (hr_State v) \<le> hs_AuthorityEpoch (hr_State v'))) \<and>
     (\<forall>s b. loadDelegatedBindingLocked r s = Inr b \<longrightarrow> (\<exists>b'. loadDelegatedBindingLocked r' s = Inr b' \<and> binding_step b b'))"

lemma covered_cong: "rp_bindings r' = rp_bindings r \<Longrightarrow> covered r' v = covered r v"
  by (simp add: covered_def loadDelegatedBindingLocked_frame [of r' r])

lemma record_cong: "rp_handoffs r' = rp_handoffs r \<Longrightarrow> loadHandoffRecordLocked r' i = loadHandoffRecordLocked r i"
  by (simp add: loadHandoffRecordLocked_def)

lemma transaction_cong:
  "rp_transactions r' = rp_transactions r \<Longrightarrow> loadHandoffTransactionLocked r' i = loadHandoffTransactionLocked r i"
  by (simp add: loadHandoffTransactionLocked_def)

lemma load_record_put:
  "rp_handoffs r' = put_file k v (rp_handoffs r) \<Longrightarrow> loadHandoffRecordLocked r' i =
    (if i = k then if handoffRecord_validate v \<noteq> None \<or> rq_HandoffID (hr_Request v) \<noteq> i
       then Inl (Errorf ''invalid handoff record'') else Inr v else loadHandoffRecordLocked r i)"
  by (simp add: loadHandoffRecordLocked_def)

lemma load_transaction_put:
  "rp_transactions r' = put_file k v (rp_transactions r) \<Longrightarrow> loadHandoffTransactionLocked r' i =
    (if i = k then if handoffTransaction_validate v \<noteq> None \<or> rq_HandoffID (hr_Request (tx_Record v)) \<noteq> i
       then Inl (Errorf ''invalid handoff transaction'') else Inr v else loadHandoffTransactionLocked r i)"
  by (simp add: loadHandoffTransactionLocked_def)

lemma load_transaction_delete:
  "rp_transactions r' = AList.delete k (rp_transactions r) \<Longrightarrow> loadHandoffTransactionLocked r' i =
    (if i = k then Inl ErrNotFound else loadHandoffTransactionLocked r i)"
  by (simp add: loadHandoffTransactionLocked_def)

lemma load_binding_put:
  "rp_bindings r' = put_file (bd_SessionID b) b (rp_bindings r) \<Longrightarrow> Binding_Validate b = None \<Longrightarrow>
    loadDelegatedBindingLocked r' s = (if s = bd_SessionID b then Inr b else loadDelegatedBindingLocked r s)"
  by (simp add: loadDelegatedBindingLocked_def)

lemma covered_bind:
  assumes "covered r v" "loadDelegatedBindingLocked r (bd_SessionID b) = Inr old" "Binding_Validate b = None"
    "binding_step old b" "rp_bindings r' = put_file (bd_SessionID b) b (rp_bindings r)"
  shows "covered r' v"
proof (cases "hs_SessionID (hr_State v) = bd_SessionID b")
  case True
  with assms show ?thesis
    by (auto simp: covered_def loadDelegatedBindingLocked_Inr binding_step_def)
next
  case False
  with assms show ?thesis by (auto simp: covered_def loadDelegatedBindingLocked_Inr)
qed

lemma covered_fresh:
  assumes "covered r v" "map_of (rp_bindings r) k = None" "rp_bindings r' = put_file k b (rp_bindings r)"
  shows "covered r' v"
proof -
  from assms(1) obtain b0 where b0: "loadDelegatedBindingLocked r (hs_SessionID (hr_State v)) = Inr b0"
    by (auto simp: covered_def)
  then have "hs_SessionID (hr_State v) \<noteq> k"
    using assms(2) by (auto simp: loadDelegatedBindingLocked_Inr readPrivateJSON_Inr)
  with assms(1,3) show ?thesis by (auto simp: covered_def loadDelegatedBindingLocked_Inr)
qed

lemma write_step_inv:
  assumes "write_step r r'" "authority_inv r"
  shows "authority_inv r'"
  using assms
proof (induction rule: write_step.induct)
  case (other r r')
  then show ?case
    by (simp add: authority_inv_def same_authority_def covered_cong [of r' r] record_cong [of r' r] transaction_cong [of r' r])
next
  case (fresh r k r' b)
  then show ?case using covered_fresh [OF _ fresh(1,2)]
    by (simp add: authority_inv_def record_cong [of r' r] transaction_cong [of r' r])
next
  case (bind r b old r')
  then show ?case using covered_bind [OF _ bind(1-4)]
    by (simp add: authority_inv_def record_cong [of r' r] transaction_cong [of r' r])
next
  case (write_record v r b r')
  have "covered r v" using write_record(2-4) by (auto simp: covered_def)
  with write_record.prems show ?case
    unfolding authority_inv_def covered_cong [OF write_record(8)] transaction_cong [OF write_record(9)]
      load_record_put [OF write_record(7)] using write_record(6) by (auto split: if_splits)
next
  case (transaction tx r k r')
  then show ?case
    unfolding authority_inv_def covered_cong [OF transaction(4)] record_cong [OF transaction(5)]
      load_transaction_put [OF transaction(3)] by (auto split: if_splits)
next
  case (drop r' k r)
  then show ?case
    unfolding authority_inv_def covered_cong [OF drop(2)] record_cong [OF drop(3)]
      load_transaction_delete [OF drop(1)] by (auto split: if_splits)
qed

lemma loaded_binding_step_refl: "loadDelegatedBindingLocked r s = Inr b \<Longrightarrow> binding_step b b"
  by (simp add: loadDelegatedBindingLocked_Inr binding_step_refl)

lemma epochs_grow_refl: "epochs_grow r r"
  by (auto simp: epochs_grow_def intro: loaded_binding_step_refl)

lemma epochs_grow_cong:
  assumes "rp_bindings r' = rp_bindings r" "rp_handoffs r' = rp_handoffs r"
  shows "epochs_grow r r'"
  using epochs_grow_refl [of r]
  unfolding epochs_grow_def record_cong [OF assms(2)] loadDelegatedBindingLocked_frame [OF assms(1)] by blast

lemma write_step_grow:
  assumes "write_step r r'"
  shows "epochs_grow r r'"
  using assms
proof (induction rule: write_step.induct)
  case (fresh r k r' b)
  have "loadDelegatedBindingLocked r s = Inr x \<Longrightarrow> loadDelegatedBindingLocked r' s = Inr x" for s x
    using fresh(1,2) by (auto simp: loadDelegatedBindingLocked_Inr readPrivateJSON_Inr)
  then show ?case
    using loaded_binding_step_refl [of r] unfolding epochs_grow_def record_cong [OF fresh(3)] by blast
next
  case (bind r b old r')
  then show ?case
    using loaded_binding_step_refl [of r]
    unfolding epochs_grow_def record_cong [OF bind(5)] load_binding_put [OF bind(4,2)] by auto
next
  case (write_record v r b r')
  then show ?case
    using loaded_binding_step_refl [of r]
    unfolding epochs_grow_def load_record_put [OF write_record(7)] loadDelegatedBindingLocked_frame [OF write_record(8)]
    by auto
qed (simp_all add: epochs_grow_cong same_authority_def)

lemma epochs_grow_trans: "epochs_grow a b \<Longrightarrow> epochs_grow b c \<Longrightarrow> epochs_grow a c"
  unfolding epochs_grow_def by (meson binding_step_trans order_trans)

abbreviation write_steps :: "Repository \<Rightarrow> Repository \<Rightarrow> bool" where
  "write_steps \<equiv> write_step\<^sup>*\<^sup>*"

lemma write_steps_inv: "write_steps r r' \<Longrightarrow> authority_inv r \<Longrightarrow> authority_inv r'"
  by (induction rule: rtranclp_induct) (auto intro: write_step_inv)

lemma write_steps_grow: "write_steps r r' \<Longrightarrow> epochs_grow r r'"
  by (induction rule: rtranclp_induct) (auto intro: epochs_grow_refl epochs_grow_trans write_step_grow)

lemma steps_other: "same_authority r r' \<Longrightarrow> write_steps r r'"
  by (rule r_into_rtranclp) (rule write_step.other)

section \<open>The operations as steps\<close>

lemma same_authority_refl [simp]: "same_authority r r"
  by (simp add: same_authority_def)

lemma same_authority_trans: "same_authority a b \<Longrightarrow> same_authority b c \<Longrightarrow> same_authority a c"
  by (simp add: same_authority_def)

lemma same_authority_loads:
  assumes "same_authority r r'"
  shows "loadDelegatedBindingLocked r' s = loadDelegatedBindingLocked r s"
    "loadHandoffRecordLocked r' i = loadHandoffRecordLocked r i"
    "loadHandoffTransactionLocked r' i = loadHandoffTransactionLocked r i"
  using assms loadDelegatedBindingLocked_frame [of r' r s] record_cong [of r' r i] transaction_cong [of r' r i]
  by (simp_all add: same_authority_def)

lemma now_same: "now r = (t, r') \<Longrightarrow> same_authority r r'"
  by (auto simp: same_authority_def now_def split: list.splits)

lemma fold_same:
  assumes "\<And>x r. same_authority r (f x r)"
  shows "same_authority r (fold f xs r)"
proof (induction xs arbitrary: r)
  case (Cons x xs)
  from same_authority_trans [OF assms Cons.IH] show ?case by simp
qed simp

lemma fold_obs_same:
  "same_authority r (fold abortObservationBestEffort seqs r)"
  "same_authority r (fold commitObservationBestEffort seqs r)"
  by (rule fold_same, simp add: abortObservationBestEffort_def commitObservationBestEffort_def same_authority_def)+

lemma prepare_loop_same: "prepare_loop r seqs specs = (x, r') \<Longrightarrow> same_authority r r'"
proof (induction r seqs specs rule: prepare_loop.induct)
  case (2 r seqs spec specs)
  obtain seq res r1 where p: "prepareExecutionObservation r = ((seq, res), r1)" by (metis surj_pair)
  have "same_authority r r1"
    using p by (auto simp: prepareExecutionObservation_def same_authority_def split: list.splits prod.splits)
  with 2 p fold_obs_same(1) [of r1 seqs] show ?case
    by (auto split: if_splits intro: same_authority_trans)
qed auto

lemma prepareHandoffObservations_same:
  "prepareHandoffObservations r specs = (x, r') \<Longrightarrow> same_authority r r'"
  unfolding prepareHandoffObservations_def by (rule prepare_loop_same)

lemma finishHandoffObservations_same:
  "finishHandoffObservations seqs res f r = (res', r') \<Longrightarrow> same_authority r r'"
  using fold_obs_same [of r seqs]
  by (auto simp: finishHandoffObservations_def Let_def split: if_splits)

lemma finishHandoffObservations_err:
  "finishHandoffObservations seqs res f r = (res', r') \<Longrightarrow> sr_Err res' = sr_Err res"
  by (auto simp: finishHandoffObservations_def Let_def split: if_splits)

lemma create_transaction_cases:
  "create_transaction r k v = (res, r') \<Longrightarrow> \<exists>ios. r' = r\<lparr>rp_io := ios\<rparr> \<and> sr_Err res \<noteq> None \<or>
    r' = r\<lparr>rp_transactions := put_file k v (rp_transactions r), rp_io := ios\<rparr>"
  by (auto simp: create_transaction_def atomic_Create_def split: prod.splits file_write.splits if_splits)

lemma create_record_cases:
  "create_record r k v = (res, r') \<Longrightarrow> \<exists>ios. r' = r\<lparr>rp_io := ios\<rparr> \<and> sr_Err res \<noteq> None \<or>
    map_of (rp_handoffs r) k = None \<and> r' = r\<lparr>rp_handoffs := put_file k v (rp_handoffs r), rp_io := ios\<rparr>"
  by (auto simp: create_record_def atomic_Create_def split: prod.splits file_write.splits if_splits)

lemma replace_record_cases:
  "replace_record r k v = (res, r') \<Longrightarrow> \<exists>ios. r' = r\<lparr>rp_io := ios\<rparr> \<and> sr_Err res \<noteq> None \<or>
    r' = r\<lparr>rp_handoffs := put_file k v (rp_handoffs r), rp_io := ios\<rparr>"
  by (auto simp: replace_record_def atomic_Replace_def split: prod.splits file_write.splits)

lemma removeHandoffTransactionLocked_cases:
  "removeHandoffTransactionLocked r i = (e, r') \<Longrightarrow> \<exists>ios. r' = r\<lparr>rp_io := ios\<rparr> \<and> e \<noteq> None \<or>
    r' = r\<lparr>rp_transactions := AList.delete i (rp_transactions r), rp_io := ios\<rparr>"
  by (auto simp: removeHandoffTransactionLocked_def remove_file_def split: prod.splits file_write.splits)

lemma same_authority_io [simp]: "same_authority r (r\<lparr>rp_io := ios\<rparr>)"
  by (simp add: same_authority_def)

lemma create_transaction_steps:
  assumes "create_transaction r k tx = (res, r')" "rotates tx"
    "\<And>v. loadHandoffRecordLocked r k = Inr v \<Longrightarrow> hs_SessionID (hr_State v) = hs_SessionID (hr_State (tx_Record tx))"
  shows "write_steps r r'"
  using create_transaction_cases [OF assms(1)]
  by (auto intro!: r_into_rtranclp intro: write_step.other write_step.transaction [OF assms(2,3)])

lemma replace_record_steps:
  assumes w: "replace_record r (rq_HandoffID (hr_Request v)) v = (res, r')"
    and v: "handoffRecord_validate v = None" "loadDelegatedBindingLocked r (hs_SessionID (hr_State v)) = Inr b"
      "hs_AuthorityEpoch (hr_State v) = bd_AuthorityEpoch b" "hs_DesiredOwner (hr_State v) = bd_DesiredOwner b"
      "\<And>old. loadHandoffRecordLocked r (rq_HandoffID (hr_Request v)) = Inr old \<Longrightarrow>
        hs_AuthorityEpoch (hr_State old) \<le> hs_AuthorityEpoch (hr_State v)"
      "\<And>tx. loadHandoffTransactionLocked r (rq_HandoffID (hr_Request v)) = Inr tx \<Longrightarrow>
        hs_SessionID (hr_State (tx_Record tx)) = hs_SessionID (hr_State v)"
  shows "write_steps r r'"
  using replace_record_cases [OF w]
  by (auto intro!: r_into_rtranclp intro: write_step.other write_step.write_record [OF v])

lemma create_record_steps:
  assumes w: "create_record r (rq_HandoffID (hr_Request v)) v = (res, r')"
    and v: "handoffRecord_validate v = None" "loadDelegatedBindingLocked r (hs_SessionID (hr_State v)) = Inr b"
      "hs_AuthorityEpoch (hr_State v) = bd_AuthorityEpoch b" "hs_DesiredOwner (hr_State v) = bd_DesiredOwner b"
    and t: "\<And>tx. loadHandoffTransactionLocked r (rq_HandoffID (hr_Request v)) = Inr tx \<Longrightarrow>
        hs_SessionID (hr_State (tx_Record tx)) = hs_SessionID (hr_State v)"
  shows "write_steps r r'"
proof -
  have n: "map_of (rp_handoffs r) (rq_HandoffID (hr_Request v)) = None \<Longrightarrow>
      loadHandoffRecordLocked r (rq_HandoffID (hr_Request v)) \<noteq> Inr old" for old
    by (simp add: loadHandoffRecordLocked_Inr readPrivateJSON_Inr)
  from create_record_cases [OF w] obtain ios where "r' = r\<lparr>rp_io := ios\<rparr> \<or>
    (map_of (rp_handoffs r) (rq_HandoffID (hr_Request v)) = None \<and>
     r' = r\<lparr>rp_handoffs := put_file (rq_HandoffID (hr_Request v)) v (rp_handoffs r), rp_io := ios\<rparr>)" by blast
  then show ?thesis
  proof (elim disjE conjE)
    assume m: "map_of (rp_handoffs r) (rq_HandoffID (hr_Request v)) = None"
      and r': "r' = r\<lparr>rp_handoffs := put_file (rq_HandoffID (hr_Request v)) v (rp_handoffs r), rp_io := ios\<rparr>"
    from n [OF m] have "write_step r r'" by (intro write_step.write_record [OF v _ t]) (auto simp: r')
    then show ?thesis by blast
  qed (simp add: steps_other)
qed

lemma drop_transaction_steps:
  assumes "drop_transaction tx c r = (x, r')"
  shows "write_steps r r'"
proof -
  obtain e where w: "removeHandoffTransactionLocked r (rq_HandoffID (hr_Request (tx_Record tx))) = (e, r')"
    using assms by (auto simp: drop_transaction_def split: prod.splits option.splits)
  from removeHandoffTransactionLocked_cases [OF w] show ?thesis
    by (auto intro!: r_into_rtranclp intro: write_step.other write_step.drop)
qed

text \<open>Moving the binding: it either stops with an error or leaves the target binding in place.\<close>

lemma move_binding_steps:
  assumes m: "move_binding reason tx r = (x, r')" and tx: "rotates tx" "handoffTransaction_validate tx = None"
  shows "write_steps r r'" "x = None \<Longrightarrow> loadDelegatedBindingLocked r' (bd_SessionID (tx_TargetBinding tx)) = Inr (tx_TargetBinding tx)"
    "rp_handoffs r' = rp_handoffs r" "rp_transactions r' = rp_transactions r"
proof -
  note f = handoffTransaction_validate_facts [OF tx(2)]
  have sid: "bd_SessionID (tx_PriorBinding tx) = bd_SessionID (tx_TargetBinding tx)" using f by simp
  have "write_steps r r' \<and> (x = None \<longrightarrow> loadDelegatedBindingLocked r' (bd_SessionID (tx_TargetBinding tx)) = Inr (tx_TargetBinding tx))
    \<and> rp_handoffs r' = rp_handoffs r \<and> rp_transactions r' = rp_transactions r"
  proof (cases "loadDelegatedBindingLocked r (bd_SessionID (tx_TargetBinding tx)) = Inr (tx_PriorBinding tx)")
    case True
    then obtain res where w: "replace_binding r (bd_SessionID (tx_TargetBinding tx)) (tx_TargetBinding tx) = (res, r')"
      and x: "x = None \<longrightarrow> sr_Err res = None"
      using m sid by (auto simp: move_binding_def split: prod.splits if_splits)
    from replace_binding_cases [OF w] show ?thesis
    proof (elim exE disjE conjE)
      fix ios assume "r' = r\<lparr>rp_io := ios\<rparr>" "sr_Err res \<noteq> None"
      with x show ?thesis by (auto intro: steps_other)
    next
      fix ios assume r': "r' = r\<lparr>rp_bindings := put_file (bd_SessionID (tx_TargetBinding tx)) (tx_TargetBinding tx) (rp_bindings r), rp_io := ios\<rparr>"
      have "write_step r r'"
        using tx(1) by (intro write_step.bind [OF True f(2)]) (simp_all add: r' rotates_def)
      with r' f(2) show ?thesis by (auto simp: loadDelegatedBindingLocked_def)
    qed
  next
    case False
    with m have "r' = r \<and> (x = None \<longrightarrow> loadDelegatedBindingLocked r (bd_SessionID (tx_TargetBinding tx)) = Inr (tx_TargetBinding tx))"
      by (auto simp: move_binding_def split: sum.splits if_splits prod.splits)
    then show ?thesis by auto
  qed
  then show "write_steps r r'" "x = None \<Longrightarrow> loadDelegatedBindingLocked r' (bd_SessionID (tx_TargetBinding tx)) = Inr (tx_TargetBinding tx)"
    "rp_handoffs r' = rp_handoffs r" "rp_transactions r' = rp_transactions r" by auto
qed

lemma finishHandoffTransactionLocked_steps:
  assumes f: "finishHandoffTransactionLocked tx c r = (x, r')" and tx: "rotates tx"
    and same: "\<And>tx'. loadHandoffTransactionLocked r (rq_HandoffID (hr_Request (tx_Record tx))) = Inr tx' \<Longrightarrow>
      hs_SessionID (hr_State (tx_Record tx')) = hs_SessionID (hr_State (tx_Record tx))"
  shows "write_steps r r'"
proof (cases "handoffTransaction_validate tx")
  case None
  note v = handoffTransaction_validate_facts [OF None]
  obtain y r1 where m: "move_binding ''binding_transaction_mismatch'' tx r = (y, r1)" by fastforce
  note mb = move_binding_steps [OF m tx None]
  show ?thesis
  proof (cases y)
    case None': None
    have b: "loadDelegatedBindingLocked r1 (hs_SessionID (hr_State (tx_Record tx))) = Inr (tx_TargetBinding tx)"
      using mb(2) [OF None'] v(4) by simp
    have same1: "\<And>tx'. loadHandoffTransactionLocked r1 (rq_HandoffID (hr_Request (tx_Record tx))) = Inr tx' \<Longrightarrow>
      hs_SessionID (hr_State (tx_Record tx')) = hs_SessionID (hr_State (tx_Record tx))"
      using same unfolding transaction_cong [OF mb(4)] .
    have "write_steps r1 r'"
    proof (cases "\<exists>res r2 c'. create_record r1 (rq_HandoffID (hr_Request (tx_Record tx))) (tx_Record tx) = (res, r2) \<and>
        (r' = r2 \<or> drop_transaction tx c' r2 = (x, r'))")
      case True
      then obtain res r2 c' where cr: "create_record r1 (rq_HandoffID (hr_Request (tx_Record tx))) (tx_Record tx) = (res, r2)"
        and d: "r' = r2 \<or> drop_transaction tx c' r2 = (x, r')" by blast
      have "write_steps r1 r2"
        by (rule create_record_steps [OF cr v(1) b _ _ same1]) (simp_all add: v)
      with d drop_transaction_steps [of tx c' r2 x r'] show ?thesis by (blast intro: rtranclp_trans)
    next
      case False
      with f None m None' have "r' = r1 \<or> (\<exists>c'. drop_transaction tx c' r1 = (x, r'))"
        by (fastforce simp: finishHandoffTransactionLocked_def Let_def split: sum.splits if_splits prod.splits)
      then show ?thesis by (elim disjE exE) (simp, erule drop_transaction_steps)
    qed
    with mb(1) show ?thesis by (rule rtranclp_trans)
  next
    case (Some res)
    with f None m have "r' = r1" by (simp add: finishHandoffTransactionLocked_def)
    with mb(1) show ?thesis by simp
  qed
qed (use f in \<open>simp add: finishHandoffTransactionLocked_def\<close>)

lemma finishHandoffAdvanceTransactionLocked_steps:
  assumes f: "finishHandoffAdvanceTransactionLocked tx r = (x, r')" and inv: "authority_inv r"
    and tx: "rotates tx" "handoffTransaction_validate tx = None"
    and rec: "\<And>old. loadHandoffRecordLocked r (rq_HandoffID (hr_Request (tx_Record tx))) = Inr old \<Longrightarrow>
      hs_SessionID (hr_State old) = hs_SessionID (hr_State (tx_Record tx))"
    and same: "\<And>tx'. loadHandoffTransactionLocked r (rq_HandoffID (hr_Request (tx_Record tx))) = Inr tx' \<Longrightarrow>
      hs_SessionID (hr_State (tx_Record tx')) = hs_SessionID (hr_State (tx_Record tx))"
  shows "write_steps r r'"
proof -
  note v = handoffTransaction_validate_facts [OF tx(2)]
  obtain y r1 where m: "move_binding ''advance_binding_mismatch'' tx r = (y, r1)" by fastforce
  note mb = move_binding_steps [OF m tx]
  show ?thesis
  proof (cases y)
    case None
    have b: "loadDelegatedBindingLocked r1 (hs_SessionID (hr_State (tx_Record tx))) = Inr (tx_TargetBinding tx)"
      using mb(2) [OF None] v(4) by simp
    have inv1: "authority_inv r1" using write_steps_inv [OF mb(1) inv] .
    have old: "hs_AuthorityEpoch (hr_State old) \<le> hs_AuthorityEpoch (hr_State (tx_Record tx))"
      if "loadHandoffRecordLocked r1 (rq_HandoffID (hr_Request (tx_Record tx))) = Inr old" for old
    proof -
      have "covered r1 old" using inv1 that by (auto simp: authority_inv_def)
      moreover have "hs_SessionID (hr_State old) = hs_SessionID (hr_State (tx_Record tx))"
        using that rec unfolding record_cong [OF mb(3)] by blast
      ultimately show ?thesis using b v(5) by (auto simp: covered_def)
    qed
    obtain res r2 where w: "replace_record r1 (rq_HandoffID (hr_Request (tx_Record tx))) (tx_Record tx) = (res, r2)"
      by fastforce
    have "write_steps r1 r2"
      using same unfolding transaction_cong [OF mb(4), symmetric]
      by (intro replace_record_steps [OF w v(1) b _ _ old]) (simp_all add: v)
    moreover have "r' = r2 \<or> drop_transaction tx False r2 = (x, r')"
      using f m None w by (auto simp: finishHandoffAdvanceTransactionLocked_def split: if_splits)
    ultimately show ?thesis using mb(1) drop_transaction_steps [of tx False r2 x r'] by (blast intro: rtranclp_trans)
  next
    case (Some res)
    with f m have "r' = r1" by (simp add: finishHandoffAdvanceTransactionLocked_def)
    with mb(1) show ?thesis by simp
  qed
qed

lemma reconcileHandoffTransactionLocked_steps:
  assumes c: "reconcileHandoffTransactionLocked r i = (res, r')" and inv: "authority_inv r"
  shows "write_steps r r'"
proof (cases "loadHandoffTransactionLocked r i")
  case (Inr tx)
  then have i: "rq_HandoffID (hr_Request (tx_Record tx)) = i" "handoffTransaction_validate tx = None"
    by (auto simp: loadHandoffTransactionLocked_Inr)
  have rot: "rotates tx" using inv Inr by (auto simp: authority_inv_def)
  have same: "\<And>tx'. loadHandoffTransactionLocked r (rq_HandoffID (hr_Request (tx_Record tx))) = Inr tx' \<Longrightarrow>
      hs_SessionID (hr_State (tx_Record tx')) = hs_SessionID (hr_State (tx_Record tx))"
    using Inr i(1) by simp
  have rec: "\<And>old. loadHandoffRecordLocked r (rq_HandoffID (hr_Request (tx_Record tx))) = Inr old \<Longrightarrow>
      hs_SessionID (hr_State old) = hs_SessionID (hr_State (tx_Record tx))"
    using inv Inr unfolding i(1) authority_inv_def by blast
  consider x where "finishHandoffTransactionLocked tx False r = (x, r')"
    | x where "finishHandoffAdvanceTransactionLocked tx r = (x, r')" | "r' = r"
    using c Inr by (auto simp: reconcileHandoffTransactionLocked_def split: sum.splits if_splits prod.splits)
  then show ?thesis
  proof cases
    case 1
    from finishHandoffTransactionLocked_steps [OF this rot same] show ?thesis by simp
  next
    case 2
    from finishHandoffAdvanceTransactionLocked_steps [OF this inv rot i(2) rec same] show ?thesis by simp
  qed simp
qed (use c in \<open>simp add: reconcileHandoffTransactionLocked_def\<close>)

lemma move_to_step:
  assumes "bd_AuthorityEpoch b < hs_AuthorityEpoch st"
  shows "binding_step b (move_to b st t) \<and> bd_AuthorityEpoch b < bd_AuthorityEpoch (move_to b st t)"
  using assms by (cases "bd_Lifecycle b") (auto simp: binding_step_def move_to_def sameDelegatedBindingIdentity_def)

lemma monotonicHandoffTime_gt: "prior < monotonicHandoffTime t prior"
  by (simp add: monotonicHandoffTime_def)

lemma advanced_record_valid:
  assumes "handoffRecord_validate rec = None" "State_ValidateH4 want = None"
    "hs_HandoffID want = hs_HandoffID (hr_State rec)" "hs_SessionID want = hs_SessionID (hr_State rec)"
  shows "handoffRecord_validate (rec\<lparr>hr_State := want, hr_UpdatedAt := monotonicHandoffTime t (hr_UpdatedAt rec)\<rparr>) = None"
  using assms monotonicHandoffTime_gt [of "hr_UpdatedAt rec" t]
  by (auto simp: handoffRecord_validate_def)

lemma steps_then_same: "write_steps r r1 \<Longrightarrow> same_authority r1 r2 \<Longrightarrow> write_steps r r2"
  by (blast intro: rtranclp_trans steps_other)

lemma same_then_steps: "same_authority r r1 \<Longrightarrow> write_steps r1 r2 \<Longrightarrow> write_steps r r2"
  by (blast intro: rtranclp_trans steps_other)

lemma same_authority_inv: "same_authority r r' \<Longrightarrow> authority_inv r \<Longrightarrow> authority_inv r'"
  by (blast intro: write_steps_inv steps_other)

text \<open>The two ways a handoff state is advanced: alone, or together with its binding.\<close>

lemma advance_alone_steps:
  assumes inv: "authority_inv r" and rec: "loadHandoffRecordLocked r (hs_HandoffID want) = Inr rec"
    and want: "State_ValidateH4 want = None" "hs_SessionID want = hs_SessionID (hr_State rec)"
      "hs_AuthorityEpoch (hr_State rec) \<le> hs_AuthorityEpoch want"
    and b: "loadDelegatedBindingLocked r (hs_SessionID want) = Inr b" "bd_AuthorityEpoch b = hs_AuthorityEpoch want"
      "bd_DesiredOwner b = hs_DesiredOwner want"
    and w: "replace_record r (hs_HandoffID want)
      (rec\<lparr>hr_State := want, hr_UpdatedAt := monotonicHandoffTime t (hr_UpdatedAt rec)\<rparr>) = (res, r')"
  shows "write_steps r r'"
proof -
  let ?v = "rec\<lparr>hr_State := want, hr_UpdatedAt := monotonicHandoffTime t (hr_UpdatedAt rec)\<rparr>"
  have f: "handoffRecord_validate rec = None" "rq_HandoffID (hr_Request rec) = hs_HandoffID want"
    using rec by (auto simp: loadHandoffRecordLocked_Inr)
  note rf = handoffRecord_validate_facts [OF f(1)]
  have v: "handoffRecord_validate ?v = None"
    using advanced_record_valid [OF f(1) want(1) _ want(2)] f(2) rf(1) by simp
  have w': "replace_record r (rq_HandoffID (hr_Request ?v)) ?v = (res, r')" using w f(2) by simp
  show ?thesis
  proof (rule replace_record_steps [OF w' v])
    show "loadDelegatedBindingLocked r (hs_SessionID (hr_State ?v)) = Inr b" using b(1) by simp
    show "hs_SessionID (hr_State (tx_Record tx)) = hs_SessionID (hr_State ?v)"
      if "loadHandoffTransactionLocked r (rq_HandoffID (hr_Request ?v)) = Inr tx" for tx
      using inv rec that f(2) want(2) unfolding authority_inv_def by fastforce
  qed (use b want rec f in auto)
qed

lemma advance_rotating_steps:
  assumes inv: "authority_inv r" and rec: "loadHandoffRecordLocked r (hs_HandoffID want) = Inr rec"
    and want: "hs_SessionID want = hs_SessionID (hr_State rec)" "bd_AuthorityEpoch b < hs_AuthorityEpoch want"
    and tx: "tx = \<lparr>tx_SchemaVersion = handoffStoreSchemaVersion,
        tx_Record = rec\<lparr>hr_State := want, hr_UpdatedAt := monotonicHandoffTime t (hr_UpdatedAt rec)\<rparr>,
        tx_PriorBinding = b, tx_TargetBinding = move_to b want t, tx_ObservationSeqs = seqs\<rparr>"
      "handoffTransaction_validate tx = None"
    and c: "create_transaction r (hs_HandoffID want) tx = (res, r1)"
  shows "write_steps r r1" "finishHandoffAdvanceTransactionLocked tx r1 = (x, r2) \<Longrightarrow> write_steps r r2"
proof -
  have i: "rq_HandoffID (hr_Request (tx_Record tx)) = hs_HandoffID want"
    using rec by (simp add: tx(1) loadHandoffRecordLocked_Inr)
  have rot: "rotates tx" using move_to_step [OF want(2)] by (simp add: tx(1) rotates_def)
  have s: "hs_SessionID (hr_State (tx_Record tx)) = hs_SessionID (hr_State rec)" using want(1) by (simp add: tx(1))
  show st: "write_steps r r1"
    by (rule create_transaction_steps [OF c rot]) (use rec s in auto)
  have inv1: "authority_inv r1" by (rule write_steps_inv [OF st inv])
  have "rp_handoffs r1 = rp_handoffs r" using create_transaction_cases [OF c] by auto
  with rec have rec1: "loadHandoffRecordLocked r1 (hs_HandoffID want) = Inr rec" by (simp add: record_cong [of r1 r])
  assume f: "finishHandoffAdvanceTransactionLocked tx r1 = (x, r2)"
  have "write_steps r1 r2"
  proof (rule finishHandoffAdvanceTransactionLocked_steps [OF f inv1 rot tx(2)])
    show "hs_SessionID (hr_State old) = hs_SessionID (hr_State (tx_Record tx))"
      if "loadHandoffRecordLocked r1 (rq_HandoffID (hr_Request (tx_Record tx))) = Inr old" for old
      using that rec1 s unfolding i by simp
    show "hs_SessionID (hr_State (tx_Record tx')) = hs_SessionID (hr_State (tx_Record tx))"
      if "loadHandoffTransactionLocked r1 (rq_HandoffID (hr_Request (tx_Record tx))) = Inr tx'" for tx'
      using that inv1 rec1 s unfolding i authority_inv_def by metis
  qed
  with st show "write_steps r r2" by (rule rtranclp_trans)
qed

lemma advance_with_binding_steps:
  assumes a: "advance_with_binding want rec b seqs r = (res, r')"
    and inv: "authority_inv r" and rec: "loadHandoffRecordLocked r (hs_HandoffID want) = Inr rec"
    and want: "State_ValidateH4 want = None" "hs_SessionID want = hs_SessionID (hr_State rec)"
      "hs_AuthorityEpoch (hr_State rec) \<le> hs_AuthorityEpoch want"
    and b: "loadDelegatedBindingLocked r (hs_SessionID want) = Inr b"
  shows "write_steps r r'"
proof -
  obtain t r1 where n: "now r = (t, r1)" by fastforce
  note s1 = now_same [OF n]
  note inv1 = same_authority_inv [OF s1 inv]
  have rec1: "loadHandoffRecordLocked r1 (hs_HandoffID want) = Inr rec" and
    b1: "loadDelegatedBindingLocked r1 (hs_SessionID want) = Inr b"
    using rec b by (simp_all add: same_authority_loads [OF s1])
  show ?thesis
  proof (cases "bd_AuthorityEpoch b \<noteq> hs_AuthorityEpoch want \<or> bd_DesiredOwner b \<noteq> hs_DesiredOwner want")
    case False
    obtain res1 r2 where w: "replace_record r1 (hs_HandoffID want)
      (rec\<lparr>hr_State := want, hr_UpdatedAt := monotonicHandoffTime t (hr_UpdatedAt rec)\<rparr>) = (res1, r2)" by fastforce
    have "write_steps r1 r2"
      using False by (intro advance_alone_steps [OF inv1 rec1 want b1 _ _ w]) auto
    moreover have "same_authority r2 r'"
      using a False n w by (auto simp: advance_with_binding_def dest: finishHandoffObservations_same)
    ultimately show ?thesis using s1 by (blast intro: same_then_steps steps_then_same)
  next
    case True
    let ?tx = "\<lparr>tx_SchemaVersion = handoffStoreSchemaVersion,
        tx_Record = rec\<lparr>hr_State := want, hr_UpdatedAt := monotonicHandoffTime t (hr_UpdatedAt rec)\<rparr>,
        tx_PriorBinding = b, tx_TargetBinding = move_to b want t, tx_ObservationSeqs = seqs\<rparr>"
    show ?thesis
    proof (cases "hs_AuthorityEpoch want \<le> bd_AuthorityEpoch b \<or> handoffTransaction_validate ?tx \<noteq> None")
      case bad: True
      then have "same_authority r r' \<or> same_authority r1 r'"
        using a True n by (auto simp: advance_with_binding_def Let_def split: if_splits
          dest: finishHandoffObservations_same)
      then show ?thesis using s1 by (blast intro: steps_other same_authority_trans)
    next
      case ok: False
      then have e: "bd_AuthorityEpoch b < hs_AuthorityEpoch want" and v: "handoffTransaction_validate ?tx = None" by auto
      obtain res1 r2 where c: "create_transaction r1 (hs_HandoffID want) ?tx = (res1, r2)" by fastforce
      obtain st cr res2 r3 where f: "finishHandoffAdvanceTransactionLocked ?tx r2 = ((st, cr, res2), r3)" by (metis surj_pair)
      note st = advance_rotating_steps [OF inv1 rec1 want(2) e refl v c]
      have "same_authority r2 r' \<or> same_authority r3 r'"
        using a True n ok c f by (auto simp: advance_with_binding_def Let_def not_le split: if_splits
          dest: finishHandoffObservations_same)
      then show ?thesis using s1 st(1) st(2) [OF f] by (blast intro: same_then_steps steps_then_same)
    qed
  qed
qed

lemma unchanged_guards:
  assumes "x = (if c then (e, r) else if d then (f, r) else z)" "x = (y, r')" "r' \<noteq> r"
  shows "\<not> c" "x = z"
  using assms by (auto split: if_splits)

lemma advance_loaded_cases:
  assumes a: "advance_loaded want r = (res, r')" and False: "r' \<noteq> r"
  obtains rec b seqs prepared r1 where "loadHandoffRecordLocked r (hs_HandoffID want) = Inr rec"
    "loadDelegatedBindingLocked r (hs_SessionID want) = Inr b" "hs_SessionID want = hs_SessionID (hr_State rec)"
    "hs_AuthorityEpoch (hr_State rec) \<le> hs_AuthorityEpoch want"
    "prepareHandoffObservations r (handoffAdvanceObservationSpecs (hr_State rec) want) = ((seqs, prepared), r1)"
    "r' = r1 \<or> advance_with_binding want rec b seqs r1 = (res, r')"
proof -
  from a False obtain rec where rec: "loadHandoffRecordLocked r (hs_HandoffID want) = Inr rec"
    by (cases "loadHandoffRecordLocked r (hs_HandoffID want)") (auto simp: advance_loaded_def)
  let ?conflict = "hs_HandoffID want \<noteq> hs_HandoffID (hr_State rec) \<or> hs_SessionID want \<noteq> hs_SessionID (hr_State rec) \<or>
    hs_AuthorityEpoch want < hs_AuthorityEpoch (hr_State rec)"
  let ?rest = "case loadDelegatedBindingLocked r (hs_SessionID want) of
      Inl e \<Rightarrow> (store_result NoDurableChange (Some e), r)
    | Inr binding \<Rightarrow>
        (case prepareHandoffObservations r (handoffAdvanceObservationSpecs (hr_State rec) want) of
           ((seqs, prepared), r1) \<Rightarrow>
             if sr_Err prepared \<noteq> None then (prepared, r1)
             else advance_with_binding want rec binding seqs r1)"
  have unf: "advance_loaded want r = (if ?conflict
      then (store_result DurableChange (Some (handoffConflict (hs_HandoffID want) ''state_identity_or_epoch_conflict'')), r)
      else if hr_State rec = want then (store_result DurableChange None, r) else ?rest)"
    unfolding advance_loaded_def rec sum.case ..
  have c: "\<not> ?conflict" by (rule unchanged_guards(1) [OF unf a False])
  then have h: "hs_SessionID want = hs_SessionID (hr_State rec)"
    "hs_AuthorityEpoch (hr_State rec) \<le> hs_AuthorityEpoch want" by auto
  have adv: "advance_loaded want r = ?rest" by (rule unchanged_guards(2) [OF unf a False])
  obtain b where b: "loadDelegatedBindingLocked r (hs_SessionID want) = Inr b"
  proof (cases "loadDelegatedBindingLocked r (hs_SessionID want)")
    case (Inl e)
    with adv a False show ?thesis by simp
  qed
  obtain seqs prepared r1 where p: "prepareHandoffObservations r (handoffAdvanceObservationSpecs (hr_State rec) want)
    = ((seqs, prepared), r1)" by (metis surj_pair)
  from a adv b p have "r' = r1 \<or> advance_with_binding want rec b seqs r1 = (res, r')"
    by (simp split: if_splits)
  then show thesis using that rec b h p by blast
qed

lemma advance_loaded_steps:
  assumes a: "advance_loaded want r = (res, r')" and inv: "authority_inv r" and want: "State_ValidateH4 want = None"
  shows "write_steps r r'"
proof (cases "r' = r")
  case False
  from advance_loaded_cases [OF a False] obtain rec b seqs prepared r1 where
    rec: "loadHandoffRecordLocked r (hs_HandoffID want) = Inr rec" and b: "loadDelegatedBindingLocked r (hs_SessionID want) = Inr b"
    and h: "hs_SessionID want = hs_SessionID (hr_State rec)" "hs_AuthorityEpoch (hr_State rec) \<le> hs_AuthorityEpoch want"
    and p: "prepareHandoffObservations r (handoffAdvanceObservationSpecs (hr_State rec) want) = ((seqs, prepared), r1)"
    and c: "r' = r1 \<or> advance_with_binding want rec b seqs r1 = (res, r')" .
  note s = prepareHandoffObservations_same [OF p]
  from c show ?thesis
  proof
    assume w: "advance_with_binding want rec b seqs r1 = (res, r')"
    have "write_steps r1 r'"
      by (rule advance_with_binding_steps [OF w same_authority_inv [OF s inv] _ want h(1,2)])
        (simp_all add: same_authority_loads [OF s] rec b)
    with s show ?thesis by (rule same_then_steps)
  qed (use s in \<open>auto intro: steps_other\<close>)
qed simp

lemma AdvanceHandoff_steps:
  assumes a: "AdvanceHandoff ctx want r = (res, r')" and inv: "authority_inv r"
  shows "write_steps r r'"
proof (cases "ctx = None \<and> State_ValidateH4 want = None")
  case True
  then have want: "State_ValidateH4 want = None" and ctx: "ctx = None" by auto
  show ?thesis
  proof (cases "loadHandoffTransactionLocked r (hs_HandoffID want)")
    case (Inl e)
    with a ctx want have "r' = r \<or> advance_loaded want r = (res, r')"
      by (auto simp: AdvanceHandoff_def split: if_splits)
    then show ?thesis using advance_loaded_steps [OF _ inv want] by blast
  next
    case (Inr tx)
    obtain res1 r1 where c: "reconcileHandoffTransactionLocked r (hs_HandoffID want) = (res1, r1)" by fastforce
    note s1 = reconcileHandoffTransactionLocked_steps [OF c inv]
    from a ctx want Inr c have "r' = r1 \<or> (\<exists>r2. same_authority r1 r2 \<and> (r' = r2 \<or> advance_loaded want r2 = (res, r')))"
      by (auto simp: AdvanceHandoff_def split: if_splits prod.splits dest!: finishHandoffObservations_same)
    then show ?thesis
    proof (elim disjE exE conjE)
      fix r2 assume s2: "same_authority r1 r2" and "advance_loaded want r2 = (res, r')"
      moreover have "authority_inv r2" using same_authority_inv [OF s2 write_steps_inv [OF s1 inv]] .
      ultimately show ?thesis using advance_loaded_steps [of want r2 res r'] want s1
        by (meson rtranclp_trans same_then_steps)
    qed (use s1 in \<open>auto intro: steps_then_same\<close>)
  qed
qed (use a in \<open>auto simp: AdvanceHandoff_def split: option.splits\<close>)

lemma epoch_succ_gt: "e + 1 \<noteq> 0 \<Longrightarrow> e < e + (1 :: uint64)"
  using unatSuc [of e] by (simp add: word_less_nat_alt add.commute)

lemma reserve_new_handoff_steps:
  assumes a: "reserve_new_handoff req initial b r = (x, r')"
    and e: "hs_AuthorityEpoch initial = bd_AuthorityEpoch b + 1" "State_ValidateH4 initial = None"
    and rec: "\<And>v. loadHandoffRecordLocked r (rq_HandoffID req) \<noteq> Inr v"
    and tx: "\<And>v. loadHandoffTransactionLocked r (rq_HandoffID req) \<noteq> Inr v"
  shows "write_steps r r'"
proof -
  obtain t r0 where n: "now r = (t, r0)" by fastforce
  define rc where "rc = \<lparr>hr_SchemaVersion = handoffStoreSchemaVersion, hr_Request = req, hr_State = initial,
    hr_CreatedAt = t, hr_UpdatedAt = t\<rparr>"
  define tx0 where "tx0 = \<lparr>tx_SchemaVersion = handoffStoreSchemaVersion, tx_Record = rc, tx_PriorBinding = b,
    tx_TargetBinding = move_to b initial t, tx_ObservationSeqs = []\<rparr>"
  obtain seqs prepared r1 where p: "prepareHandoffObservations r0 [handoffCreateObservationSpec initial]
    = ((seqs, prepared), r1)" by (metis surj_pair)
  define tx1 where "tx1 = tx0\<lparr>tx_ObservationSeqs := seqs\<rparr>"
  obtain res r2 where c: "create_transaction r1 (rq_HandoffID req) tx1 = (res, r2)" by fastforce
  obtain st cr res1 r3 where f: "finishHandoffTransactionLocked tx1 True r2 = ((st, cr, res1), r3)" by (metis surj_pair)
  have s1: "same_authority r r1"
    using now_same [OF n] prepareHandoffObservations_same [OF p] by (rule same_authority_trans)
  have "hs_AuthorityEpoch initial \<noteq> 0"
    using e(2) HandoffState_Validate_facts(1) by (auto simp: State_ValidateH4_def)
  then have "rotates tx1"
    using move_to_step [of b initial t] epoch_succ_gt [of "bd_AuthorityEpoch b"] e(1)
    by (auto simp: rotates_def tx1_def tx0_def)
  note rot = this
  have i: "rq_HandoffID (hr_Request (tx_Record tx1)) = rq_HandoffID req" by (simp add: tx1_def tx0_def rc_def)
  have st2: "write_steps r1 r2"
    by (rule create_transaction_steps [OF c rot]) (use rec in \<open>simp add: same_authority_loads [OF s1]\<close>)
  have st3: "write_steps r2 r3"
  proof (rule finishHandoffTransactionLocked_steps [OF f rot])
    fix tx' assume "loadHandoffTransactionLocked r2 (rq_HandoffID (hr_Request (tx_Record tx1))) = Inr tx'"
    moreover have "loadHandoffTransactionLocked r1 (rq_HandoffID req) \<noteq> Inr tx'"
      using tx by (simp add: same_authority_loads [OF s1])
    ultimately have "tx' = tx1"
      using create_transaction_cases [OF c] i by (auto simp: loadHandoffTransactionLocked_Inr split: if_splits)
    then show "hs_SessionID (hr_State (tx_Record tx')) = hs_SessionID (hr_State (tx_Record tx1))" by simp
  qed
  have "same_authority r r' \<or> same_authority r1 r' \<or> same_authority r2 r' \<or> same_authority r3 r'"
    using a n p c f now_same [OF n] unfolding reserve_new_handoff_def rc_def [symmetric] Let_def
    unfolding tx0_def [symmetric] tx1_def [symmetric]
    by (auto simp: rc_def [symmetric] tx0_def [symmetric] tx1_def [symmetric] split: option.splits if_splits prod.splits
      dest!: finishHandoffObservations_same)
  then show ?thesis using s1 st2 st3 by (meson rtranclp_trans same_then_steps steps_then_same steps_other same_authority_trans)
qed

lemma ReserveHandoff_cases:
  assumes "ReserveHandoff sha ctx req initial r = (x, r')" "r' \<noteq> r"
  obtains tx where "loadHandoffTransactionLocked r (rq_HandoffID req) = Inr tx" "hr_Request (tx_Record tx) = req"
      "finishHandoffTransactionLocked tx False r = (x, r')"
  | b where "\<And>v. loadHandoffTransactionLocked r (rq_HandoffID req) \<noteq> Inr v"
      "\<And>v. loadHandoffRecordLocked r (rq_HandoffID req) \<noteq> Inr v"
      "loadDelegatedBindingLocked r (rq_SessionID req) = Inr b" "bd_Lifecycle b = LifecycleLive"
      "bd_DesiredOwner b = OwnerAgent" "findContextExecLeaseLocked sha r (rq_SessionID req) (bd_AuthorityEpoch b) = Inr None"
      "hs_AuthorityEpoch initial = bd_AuthorityEpoch b + 1" "validateInitialHandoff req initial = None"
      "reserve_new_handoff req initial b r = (x, r')"
proof (cases "loadHandoffTransactionLocked r (rq_HandoffID req)")
  case (Inr tx)
  with assms that(1) show thesis
    by (auto simp: ReserveHandoff_def split: option.splits if_splits)
next
  case tl: (Inl e)
  show thesis
  proof (cases "loadHandoffRecordLocked r (rq_HandoffID req)")
    case (Inr v)
    with assms tl show thesis by (auto simp: ReserveHandoff_def split: option.splits if_splits)
  next
    case rl: (Inl e')
    obtain b where b: "loadDelegatedBindingLocked r (rq_SessionID req) = Inr b"
      using assms tl rl by (cases "loadDelegatedBindingLocked r (rq_SessionID req)")
        (auto simp: ReserveHandoff_def split: option.splits if_splits)
    have l: "findContextExecLeaseLocked sha r (rq_SessionID req) (bd_AuthorityEpoch b) = Inr None"
      using assms tl rl b by (cases "findContextExecLeaseLocked sha r (rq_SessionID req) (bd_AuthorityEpoch b)")
        (auto simp: ReserveHandoff_def split: option.splits if_splits)
    show thesis
      using assms tl rl b l
      by (intro that(2) [of b]) (auto simp: ReserveHandoff_def split: option.splits if_splits)
  qed
qed

lemma ReserveHandoff_steps:
  assumes a: "ReserveHandoff sha ctx req initial r = (x, r')" and inv: "authority_inv r"
  shows "write_steps r r'"
proof (cases "r' = r")
  case False
  from a False show ?thesis
  proof (cases rule: ReserveHandoff_cases)
    case (1 tx)
    have "rq_HandoffID (hr_Request (tx_Record tx)) = rq_HandoffID req" using 1(2) by simp
    then show ?thesis
      using 1(1) inv by (intro finishHandoffTransactionLocked_steps [OF 1(3)]) (auto simp: authority_inv_def)
  next
    case (2 b)
    have "State_ValidateH4 initial = None" using 2(8) by (simp add: validateInitialHandoff_def)
    from reserve_new_handoff_steps [OF 2(9,7) this 2(2,1)] show ?thesis .
  qed
qed simp

lemma RecoverHandoff_steps:
  assumes a: "RecoverHandoff ctx i r = (x, r')" and inv: "authority_inv r"
  shows "write_steps r r'"
proof -
  obtain res r1 where c: "reconcileHandoffTransactionLocked r i = (res, r1)" by fastforce
  from a c have "r' = r \<or> r' = r1"
    by (auto simp: RecoverHandoff_def split: option.splits if_splits sum.splits prod.splits)
  with reconcileHandoffTransactionLocked_steps [OF c inv] show ?thesis by auto
qed

lemma reconcile_loop_steps:
  "reconcile_loop r is = (e, r') \<Longrightarrow> authority_inv r \<Longrightarrow> write_steps r r'"
proof (induction "is" arbitrary: r)
  case (Cons i "is")
  obtain res r1 where c: "reconcileHandoffTransactionLocked r i = (res, r1)" by fastforce
  note s = reconcileHandoffTransactionLocked_steps [OF c Cons.prems(2)]
  from Cons.prems(1) c have "r' = r \<or> r' = r1 \<or> reconcile_loop r1 is = (e, r')"
    by (auto split: if_splits option.splits)
  then show ?case using s Cons.IH [OF _ write_steps_inv [OF s Cons.prems(2)]] by (blast intro: rtranclp_trans)
qed simp

lemma AdvanceDelegatedBinding_frame:
  "AdvanceDelegatedBinding ctx want r = (res, r') \<Longrightarrow>
    rp_handoffs r' = rp_handoffs r \<and> rp_transactions r' = rp_transactions r"
  by (auto simp: AdvanceDelegatedBinding_def replace_binding_def split: option.splits sum.splits if_splits prod.splits
    dest!: removeDelegatedRecoveryMarkerLocked_frame)

lemma AdvanceDelegatedBinding_steps:
  assumes "AdvanceDelegatedBinding ctx want r = (res, r')"
  shows "write_steps r r'"
proof -
  have f: "rp_handoffs r' = rp_handoffs r" "rp_transactions r' = rp_transactions r"
    using AdvanceDelegatedBinding_frame [OF assms] by auto
  from AdvanceDelegatedBinding_bindings [OF assms] show ?thesis
  proof (elim disjE exE conjE)
    assume "rp_bindings r' = rp_bindings r"
    with f show ?thesis by (intro steps_other) (simp add: same_authority_def)
  next
    fix old assume "rp_bindings r' = put_file (bd_SessionID want) want (rp_bindings r)"
      "loadDelegatedBindingLocked r (bd_SessionID want) = Inr old" "Binding_Validate want = None" "binding_step old want"
    with f have "write_step r r'" by (intro write_step.bind [of r want old]) auto
    then show ?thesis by blast
  qed
qed

lemma create_binding_steps:
  assumes "create_binding r k v = (res, r')"
  shows "write_steps r r'"
  using create_binding_cases [OF assms]
  by (auto intro!: r_into_rtranclp intro: write_step.other write_step.fresh)

lemma ensure_same:
  "ensureDelegatedRecoveryMarkerLocked r m = (res, r') \<Longrightarrow> same_authority r r'"
  "ensureDelegatedProviderRefLocked r ref = (res, r') \<Longrightarrow> same_authority r r'"
  by (auto simp: ensureDelegatedRecoveryMarkerLocked_def ensureDelegatedProviderRefLocked_def same_authority_def
    split: option.splits prod.splits)

lemma finish_reserve_steps:
  assumes "finish_reserve r d want = (x, r')"
  shows "write_steps r r'"
proof -
  obtain res r1 where c: "create_binding r (bd_SessionID want) want = (res, r1)" by fastforce
  from assms c have "r' = r \<or> r' = r1"
    by (auto simp: finish_reserve_def Let_def split: sum.splits if_splits)
  with create_binding_steps [OF c] show ?thesis by auto
qed

lemma ReserveDelegatedBinding_steps:
  assumes "ReserveDelegatedBinding load ctx want ref r = (x, r')"
  shows "write_steps r r'"
proof (cases "r' = r")
  case False
  with assms have f: "reserve_files r want ref = (x, r')"
    by (auto simp: ReserveDelegatedBinding_def split: option.splits sum.splits if_splits)
  obtain mres r1 where m: "ensureDelegatedRecoveryMarkerLocked r
      \<lparr>rm_SchemaVersion = 1, rm_Binding = want, rm_ProviderRef = ref\<rparr> = (mres, r1)" by fastforce
  obtain rres r2 where e: "ensureDelegatedProviderRefLocked r1 ref = (rres, r2)" by fastforce
  note s = ensure_same(1) [OF m] ensure_same(2) [OF e]
  from f m e have "r' = r1 \<or> r' = r2 \<or> (\<exists>d. finish_reserve r2 d want = (x, r'))"
    by (auto simp: reserve_files_def Let_def split: if_splits)
  then show ?thesis using s finish_reserve_steps by (blast intro: steps_other same_then_steps same_authority_trans)
qed simp

end
