(* ===== verification/StoreRuns.thy ===== *)
theory StoreRuns
  imports HandoffStoreFacts
begin

text \<open>
  Runs of the whole store: each operation as steps of \<open>HandoffStoreFacts\<close>, sequences of operations
  in any order, and what creating and recovering a handoff leaves behind.
\<close>

section \<open>Operations that leave bindings and handoffs alone\<close>

lemma create_same:
  "create_mutation r s k m = (res, r') \<Longrightarrow> same_authority r r'"
  "replace_mutation r s k m = (res, r') \<Longrightarrow> same_authority r r'"
  "create_lease r k l = (res, r') \<Longrightarrow> same_authority r r'"
  "create_ref r k p = (res, r') \<Longrightarrow> same_authority r r'"
  "create_control r s k c = (res, r') \<Longrightarrow> same_authority r r'"
  "replace_control r s k c = (res, r') \<Longrightarrow> same_authority r r'"
  "create_provenance r k v = (res, r') \<Longrightarrow> same_authority r r'"
  "removeDelegatedRecoveryMarkerLocked r k = (e, r') \<Longrightarrow> same_authority r r'"
  by (auto simp: same_authority_def create_mutation_def replace_mutation_def create_lease_def create_ref_def
    create_control_def replace_control_def create_provenance_def removeDelegatedRecoveryMarkerLocked_def split: prod.splits)

lemma ReserveDelegatedMutation_same:
  "ReserveDelegatedMutation sha ctx i r = (x, r') \<Longrightarrow> same_authority r r'"
  by (auto simp: ReserveDelegatedMutation_def Let_def split: option.splits sum.splits if_splits prod.splits
    dest!: create_same now_same intro: same_authority_trans)

lemma CompleteDelegatedMutation_same:
  "CompleteDelegatedMutation sha ctx i st out r = (x, r') \<Longrightarrow> same_authority r r'"
  by (auto simp: CompleteDelegatedMutation_def Let_def split: option.splits sum.splits if_splits prod.splits
    dest!: create_same now_same intro: same_authority_trans)

lemma AcquireContextExecLease_same:
  "AcquireContextExecLease sha ee ctx sid epoch x f r = (y, r') \<Longrightarrow> same_authority r r'"
  by (auto simp: AcquireContextExecLease_def Let_def split: option.splits sum.splits if_splits prod.splits
    dest!: create_same)

lemma ReleaseContextExecLease_same:
  "ReleaseContextExecLease sha ctx lease r = (y, r') \<Longrightarrow> same_authority r r'"
  by (auto simp: ReleaseContextExecLease_def same_authority_def split: option.splits sum.splits if_splits prod.splits)

lemma ReserveControlSignal_same:
  "ReserveControlSignal ctx signal r = (y, r') \<Longrightarrow> same_authority r r'"
  by (auto simp: ReserveControlSignal_def Let_def split: option.splits sum.splits if_splits prod.splits
    dest!: create_same now_same intro: same_authority_trans)

lemma CompleteControlSignal_same:
  "CompleteControlSignal ctx signal outcome r = (y, r') \<Longrightarrow> same_authority r r'"
  by (auto simp: CompleteControlSignal_def Let_def split: option.splits sum.splits if_splits prod.splits
    dest!: create_same now_same intro: same_authority_trans)

lemma MarkHumanWriteAuthorityGranted_same:
  "MarkHumanWriteAuthorityGranted ctx sid r = (y, r') \<Longrightarrow> same_authority r r'"
  by (auto simp: MarkHumanWriteAuthorityGranted_def split: option.splits sum.splits if_splits prod.splits
    dest!: create_same now_same intro: same_authority_trans)

lemma restore_steps:
  "restore_binding marker r sid = (x, r') \<Longrightarrow> write_steps r r'"
  "restore_ref marker r sid = (y, r') \<Longrightarrow> same_authority r r'"
  by (auto simp: restore_binding_def restore_ref_def split: sum.splits if_splits prod.splits
    dest: create_binding_steps create_same)

lemma recover_candidate_steps:
  assumes "recover_candidate r sid = (x, r')"
  shows "write_steps r r'"
proof (cases "loadDelegatedRecoveryMarkerLocked r sid")
  case (Inr marker)
  obtain y r1 where b: "restore_binding marker r sid = (y, r1)" by fastforce
  obtain z r2 where p: "restore_ref marker r1 sid = (z, r2)" by fastforce
  obtain e r3 where d: "removeDelegatedRecoveryMarkerLocked r2 sid = (e, r3)" by fastforce
  have "r' = r \<or> r' = r1 \<or> r' = r2 \<or> r' = r3"
    using assms Inr b p d
    by (auto simp: recover_candidate_def split: sum.splits option.splits if_splits Lifecycle.splits)
  with restore_steps(1) [OF b] restore_steps(2) [OF p] create_same(8) [OF d] show ?thesis
    by (auto intro: steps_then_same same_authority_trans)
qed (use assms in \<open>auto simp: recover_candidate_def split: sum.splits\<close>)

lemma recover_loop_steps: "recover_loop r sids = (x, r') \<Longrightarrow> write_steps r r'"
proof (induction sids arbitrary: r x r')
  case (Cons sid sids)
  obtain y r1 where c: "recover_candidate r sid = (y, r1)" by fastforce
  obtain z r2 where l: "recover_loop r1 sids = (z, r2)" by fastforce
  from Cons.prems c l have "r' = r1 \<or> r' = r2" by (auto split: sum.splits)
  with recover_candidate_steps [OF c] Cons.IH [OF l] show ?case by (auto intro: rtranclp_trans)
qed simp

lemma ListDelegatedRecoveryCandidates_steps:
  assumes "ListDelegatedRecoveryCandidates ctx n r = (x, r')"
  shows "write_steps r r'"
proof -
  obtain y r1 where l: "recover_loop r (ReadDir (rp_markers r)) = (y, r1)" by fastforce
  from assms l have "r' = r \<or> r' = r1"
    by (auto simp: ListDelegatedRecoveryCandidates_def split: option.splits if_splits sum.splits)
  with recover_loop_steps [OF l] show ?thesis by auto
qed

section \<open>Runs of the store\<close>

text \<open>
  Every operation of the store that can change a file, with its arguments.  The outcomes of the
  writes, the readings of the clock and the answers of the observation journal are part of the
  repository, so a run from an arbitrary repository covers every way they can turn out; a crash in
  the middle of an operation leaves the files of a run whose remaining writes fail.
\<close>

datatype store_op =
    ReserveBindingOp "string \<Rightarrow> Reservation result" "goerr option" Binding ProviderRef
  | AdvanceBindingOp "goerr option" Binding
  | RecoveryCandidatesOp "goerr option" int
  | ReserveMutationOp "goerr option" MutationIdentity
  | CompleteMutationOp "goerr option" MutationIdentity MutationState string
  | AcquireLeaseOp "goerr option" "goerr option" string AuthorityEpoch string string
  | ReleaseLeaseOp "goerr option" ContextExecLease
  | ReserveHandoffOp "goerr option" Request HandoffState
  | AdvanceHandoffOp "goerr option" HandoffState
  | RecoverHandoffOp "goerr option" string
  | ReconcileTransactionsOp "goerr option"
  | ReserveControlOp "goerr option" ControlSignal
  | CompleteControlOp "goerr option" ControlSignal string
  | MarkHumanWriteOp "goerr option" string

fun store_step :: "(string \<Rightarrow> string) \<Rightarrow> store_op \<Rightarrow> Repository \<Rightarrow> Repository" where
  "store_step sha (ReserveBindingOp load ctx want ref) r = snd (ReserveDelegatedBinding load ctx want ref r)"
| "store_step sha (AdvanceBindingOp ctx want) r = snd (AdvanceDelegatedBinding ctx want r)"
| "store_step sha (RecoveryCandidatesOp ctx n) r = snd (ListDelegatedRecoveryCandidates ctx n r)"
| "store_step sha (ReserveMutationOp ctx i) r = snd (ReserveDelegatedMutation sha ctx i r)"
| "store_step sha (CompleteMutationOp ctx i st out) r = snd (CompleteDelegatedMutation sha ctx i st out r)"
| "store_step sha (AcquireLeaseOp ee ctx sid e x f) r = snd (AcquireContextExecLease sha ee ctx sid e x f r)"
| "store_step sha (ReleaseLeaseOp ctx l) r = snd (ReleaseContextExecLease sha ctx l r)"
| "store_step sha (ReserveHandoffOp ctx req st) r = snd (ReserveHandoff sha ctx req st r)"
| "store_step sha (AdvanceHandoffOp ctx want) r = snd (AdvanceHandoff ctx want r)"
| "store_step sha (RecoverHandoffOp ctx i) r = snd (RecoverHandoff ctx i r)"
| "store_step sha (ReconcileTransactionsOp ctx) r = snd (reconcileHandoffTransactions ctx r)"
| "store_step sha (ReserveControlOp ctx g) r = snd (ReserveControlSignal ctx g r)"
| "store_step sha (CompleteControlOp ctx g out) r = snd (CompleteControlSignal ctx g out r)"
| "store_step sha (MarkHumanWriteOp ctx sid) r = snd (MarkHumanWriteAuthorityGranted ctx sid r)"

abbreviation store_run :: "(string \<Rightarrow> string) \<Rightarrow> store_op list \<Rightarrow> Repository \<Rightarrow> Repository" where
  "store_run sha \<equiv> fold (store_step sha)"

lemma reconcileHandoffTransactions_steps:
  assumes "reconcileHandoffTransactions ctx r = (e, r')" "authority_inv r"
  shows "write_steps r r'"
  using assms reconcile_loop_steps [of r "ReadDir (rp_transactions r)" e r']
  by (auto simp: reconcileHandoffTransactions_def split: option.splits)

lemmas operation_steps =
  ReserveDelegatedBinding_steps [OF surjective_pairing] AdvanceDelegatedBinding_steps [OF surjective_pairing]
  ListDelegatedRecoveryCandidates_steps [OF surjective_pairing] ReserveHandoff_steps [OF surjective_pairing]
  AdvanceHandoff_steps [OF surjective_pairing] RecoverHandoff_steps [OF surjective_pairing]
  reconcileHandoffTransactions_steps [OF surjective_pairing]

lemmas operation_same =
  ReserveDelegatedMutation_same [OF surjective_pairing] CompleteDelegatedMutation_same [OF surjective_pairing]
  AcquireContextExecLease_same [OF surjective_pairing] ReleaseContextExecLease_same [OF surjective_pairing]
  ReserveControlSignal_same [OF surjective_pairing] CompleteControlSignal_same [OF surjective_pairing]
  MarkHumanWriteAuthorityGranted_same [OF surjective_pairing]

lemma store_step_steps:
  assumes "authority_inv r"
  shows "write_steps r (store_step sha op r)"
  using assms by (cases op) (simp_all add: operation_steps steps_other operation_same)

lemma store_run_steps: "authority_inv r \<Longrightarrow> write_steps r (store_run sha ops r)"
proof (induction ops arbitrary: r)
  case (Cons op ops)
  note s = store_step_steps [OF Cons.prems, of sha op]
  from rtranclp_trans [OF s Cons.IH [OF write_steps_inv [OF s Cons.prems]]] show ?case by simp
qed simp

lemma fresh_authority_inv: "rp_handoffs r = [] \<Longrightarrow> rp_transactions r = [] \<Longrightarrow> authority_inv r"
  by (simp add: authority_inv_def loadHandoffRecordLocked_def loadHandoffTransactionLocked_def readPrivateJSON_def)

lemma store_run_inv: "authority_inv r \<Longrightarrow> authority_inv (store_run sha ops r)"
  using store_run_steps write_steps_inv by blast

lemma store_run_grow: "authority_inv r \<Longrightarrow> epochs_grow r (store_run sha ops r)"
  using store_run_steps write_steps_grow by blast

section \<open>A created handoff\<close>

lemma drop_transaction_facts:
  assumes "drop_transaction tx c r = ((st, created, res), r')"
  shows "rp_bindings r' = rp_bindings r" "rp_handoffs r' = rp_handoffs r" "created = c"
    "st = Some (hr_State (tx_Record tx))"
    "sr_Err res = None \<Longrightarrow> loadHandoffTransactionLocked r' (rq_HandoffID (hr_Request (tx_Record tx))) = Inl ErrNotFound"
proof -
  obtain e r1 where d: "removeHandoffTransactionLocked r (rq_HandoffID (hr_Request (tx_Record tx))) = (e, r1)" by fastforce
  have x: "r' = r1 \<and> created = c \<and> st = Some (hr_State (tx_Record tx)) \<and> (sr_Err res = None \<longrightarrow> e = None)"
    using assms d by (auto simp: drop_transaction_def split: option.splits)
  with removeHandoffTransactionLocked_cases [OF d] show "rp_bindings r' = rp_bindings r" "rp_handoffs r' = rp_handoffs r"
    "created = c" "st = Some (hr_State (tx_Record tx))" by auto
  assume "sr_Err res = None"
  with x removeHandoffTransactionLocked_cases [OF d]
  show "loadHandoffTransactionLocked r' (rq_HandoffID (hr_Request (tx_Record tx))) = Inl ErrNotFound"
    by (auto simp: loadHandoffTransactionLocked_def)
qed

lemma finish_created:
  assumes f: "finishHandoffTransactionLocked tx c r = ((st, True, res), r')" and tx: "rotates tx"
    and fresh: "\<And>v. loadHandoffRecordLocked r (rq_HandoffID (hr_Request (tx_Record tx))) \<noteq> Inr v"
  shows "loadDelegatedBindingLocked r' (bd_SessionID (tx_TargetBinding tx)) = Inr (tx_TargetBinding tx)"
    "st = Some (hr_State (tx_Record tx))"
    "loadHandoffRecordLocked r' (rq_HandoffID (hr_Request (tx_Record tx))) = Inr (tx_Record tx)"
    "sr_Err res = None \<Longrightarrow> loadHandoffTransactionLocked r' (rq_HandoffID (hr_Request (tx_Record tx))) = Inl ErrNotFound"
proof -
  let ?i = "rq_HandoffID (hr_Request (tx_Record tx))"
  from f have v: "handoffTransaction_validate tx = None"
    by (auto simp: finishHandoffTransactionLocked_def split: option.splits)
  obtain y r1 where m: "move_binding ''binding_transaction_mismatch'' tx r = (y, r1)" by fastforce
  note mb = move_binding_steps [OF m tx v]
  from f v m have y: "y = None" by (auto simp: finishHandoffTransactionLocked_def split: option.splits)
  have "\<And>w. loadHandoffRecordLocked r1 ?i \<noteq> Inr w" using fresh unfolding record_cong [OF mb(3)] .
  with f v m y obtain e where e: "loadHandoffRecordLocked r1 ?i = Inl e" "is_not_found e"
    by (cases "loadHandoffRecordLocked r1 ?i")
      (auto simp: finishHandoffTransactionLocked_def split: if_splits)
  obtain wres r2 where c: "create_record r1 ?i (tx_Record tx) = (wres, r2)" by fastforce
  from f v m y e c have w: "sr_Err wres = None" and d: "drop_transaction tx c r2 = ((st, True, res), r')"
    by (auto simp: finishHandoffTransactionLocked_def split: if_splits)
  from create_record_cases [OF c] w have r2: "rp_bindings r2 = rp_bindings r1"
    "rp_handoffs r2 = put_file ?i (tx_Record tx) (rp_handoffs r1)" by auto
  note df = drop_transaction_facts [OF d]
  have "rp_bindings r' = rp_bindings r1" using df(1) r2(1) by simp
  from loadDelegatedBindingLocked_frame [OF this] mb(2) [OF y]
  show "loadDelegatedBindingLocked r' (bd_SessionID (tx_TargetBinding tx)) = Inr (tx_TargetBinding tx)" by simp
  show "st = Some (hr_State (tx_Record tx))" by (rule df(4))
  have "rp_handoffs r' = put_file ?i (tx_Record tx) (rp_handoffs r1)" using df(2) r2(2) by simp
  from load_record_put [OF this, of ?i] handoffTransaction_validate_facts(1) [OF v]
  show "loadHandoffRecordLocked r' ?i = Inr (tx_Record tx)" by simp
  show "sr_Err res = None \<Longrightarrow> loadHandoffTransactionLocked r' ?i = Inl ErrNotFound" by (rule df(5))
qed

lemma reserve_new_handoff_created:
  assumes a: "reserve_new_handoff req initial b r = ((st, True, res), r')"
    and e: "hs_AuthorityEpoch initial = bd_AuthorityEpoch b + 1" "validateInitialHandoff req initial = None"
    and rec: "\<And>v. loadHandoffRecordLocked r (rq_HandoffID req) \<noteq> Inr v"
  shows "\<exists>t v. loadDelegatedBindingLocked r' (bd_SessionID b) = Inr (move_to b initial t) \<and> st = Some initial \<and>
    loadHandoffRecordLocked r' (rq_HandoffID req) = Inr v \<and> hr_State v = initial \<and> hr_Request v = req \<and>
    (sr_Err res = None \<longrightarrow> loadHandoffTransactionLocked r' (rq_HandoffID req) = Inl ErrNotFound) \<and>
    bd_AuthorityEpoch b < hs_AuthorityEpoch initial"
proof -
  obtain t r0 where n: "now r = (t, r0)" by fastforce
  define rc where "rc = \<lparr>hr_SchemaVersion = handoffStoreSchemaVersion, hr_Request = req, hr_State = initial,
    hr_CreatedAt = t, hr_UpdatedAt = t\<rparr>"
  define tx0 where "tx0 = \<lparr>tx_SchemaVersion = handoffStoreSchemaVersion, tx_Record = rc, tx_PriorBinding = b,
    tx_TargetBinding = move_to b initial t, tx_ObservationSeqs = []\<rparr>"
  obtain seqs prepared r1 where p: "prepareHandoffObservations r0 [handoffCreateObservationSpec initial]
    = ((seqs, prepared), r1)" by (metis surj_pair)
  define tx1 where "tx1 = tx0\<lparr>tx_ObservationSeqs := seqs\<rparr>"
  obtain cres r2 where c: "create_transaction r1 (rq_HandoffID req) tx1 = (cres, r2)" by fastforce
  obtain st1 cr res1 r3 where f: "finishHandoffTransactionLocked tx1 True r2 = ((st1, cr, res1), r3)" by (metis surj_pair)
  have s1: "same_authority r r1"
    using now_same [OF n] prepareHandoffObservations_same [OF p] by (rule same_authority_trans)
  have gt: "bd_AuthorityEpoch b < hs_AuthorityEpoch initial"
    using e HandoffState_Validate_facts(1) [of initial] epoch_succ_gt [of "bd_AuthorityEpoch b"]
    by (auto simp: State_ValidateH4_def validateInitialHandoff_def)
  then have rot: "rotates tx1" using move_to_step [of b initial t] by (auto simp: rotates_def tx1_def tx0_def)
  have sel: "tx_Record tx1 = rc" "tx_TargetBinding tx1 = move_to b initial t" "hr_Request rc = req" "hr_State rc = initial"
    "bd_SessionID (move_to b initial t) = bd_SessionID b"
    by (simp_all add: tx1_def tx0_def rc_def move_to_def)
  have fin: "st1 = st \<and> cr \<and> (\<exists>g. finishHandoffObservations seqs res1 g r3 = (res, r'))"
    using a n p c f unfolding reserve_new_handoff_def rc_def [symmetric] Let_def
    unfolding tx0_def [symmetric] tx1_def [symmetric]
    by (auto simp: rc_def [symmetric] tx0_def [symmetric] tx1_def [symmetric] split: option.splits if_splits prod.splits)
  then obtain g where g: "finishHandoffObservations seqs res1 g r3 = (res, r')" by blast
  have h: "rp_handoffs r2 = rp_handoffs r" using s1 create_transaction_cases [OF c] by (auto simp: same_authority_def)
  have fr: "loadHandoffRecordLocked r2 (rq_HandoffID (hr_Request (tx_Record tx1))) \<noteq> Inr v" for v
    using rec [of v] by (simp add: sel record_cong [OF h])
  note fc = finish_created [OF _ rot fr]
  note l = same_authority_loads [OF finishHandoffObservations_same [OF g]]
  have f': "finishHandoffTransactionLocked tx1 True r2 = ((st, True, res1), r3)" using f fin by simp
  note r = fc(1) [OF f'] fc(2) [OF f'] fc(3) [OF f'] fc(4) [OF f']
  show ?thesis
    using r gt finishHandoffObservations_err [OF g] l(1) [of "bd_SessionID b"] l(2,3) [of "rq_HandoffID req"] sel by auto
qed

lemma finish_not_created: "finishHandoffTransactionLocked tx False r = ((st, True, res), r') \<Longrightarrow> False"
  by (auto simp: finishHandoffTransactionLocked_def Let_def split: option.splits sum.splits if_splits prod.splits
    dest: drop_transaction_facts(3))

lemma ReserveHandoff_created:
  assumes "ReserveHandoff sha ctx req initial r = ((st, True, res), r')"
  obtains b where "\<And>v. loadHandoffRecordLocked r (rq_HandoffID req) \<noteq> Inr v"
    "loadDelegatedBindingLocked r (rq_SessionID req) = Inr b" "bd_Lifecycle b = LifecycleLive"
    "bd_DesiredOwner b = OwnerAgent" "findContextExecLeaseLocked sha r (rq_SessionID req) (bd_AuthorityEpoch b) = Inr None"
    "hs_AuthorityEpoch initial = bd_AuthorityEpoch b + 1" "validateInitialHandoff req initial = None"
    "reserve_new_handoff req initial b r = ((st, True, res), r')"
  using assms
  by (auto simp: ReserveHandoff_def split: option.splits sum.splits if_splits dest: finish_not_created)

lemma created_mutation_binding:
  assumes "ReserveDelegatedMutation sha ctx i r = ((m, True, res), r')"
  shows "\<exists>b. loadDelegatedBindingLocked r (mi_SessionID i) = Inr b \<and> bd_DesiredOwner b = OwnerAgent \<and>
    bd_AuthorityEpoch b = mi_Epoch i"
  using ReserveDelegatedMutation_created [OF assms] by blast

section \<open>Recovery\<close>

lemma move_binding_ok:
  assumes b: "loadDelegatedBindingLocked r (bd_SessionID (tx_TargetBinding tx)) = Inr b"
    "b = tx_PriorBinding tx \<or> b = tx_TargetBinding tx" and io: "rp_io r = []"
    and tx: "rotates tx" "handoffTransaction_validate tx = None"
  obtains r1 where "move_binding reason tx r = (None, r1)" "rp_io r1 = []" "rp_handoffs r1 = rp_handoffs r"
    "rp_transactions r1 = rp_transactions r"
    "loadDelegatedBindingLocked r1 (bd_SessionID (tx_TargetBinding tx)) = Inr (tx_TargetBinding tx)"
proof -
  obtain y r1 where m: "move_binding reason tx r = (y, r1)" by fastforce
  note mb = move_binding_steps [OF m tx]
  have "y = None \<and> rp_io r1 = []"
    using m b io by (auto simp: move_binding_def replace_binding_def next_io_def atomic_Replace_def split: if_splits)
  with m mb that [of r1] show ?thesis by auto
qed

lemma drop_ok:
  "rp_io r = [] \<Longrightarrow> \<exists>r'. drop_transaction tx c r = ((Some (hr_State (tx_Record tx)), c, store_result DurableChange None), r')"
  by (simp add: drop_transaction_def removeHandoffTransactionLocked_def next_io_def remove_file_def)

lemma recover_write:
  assumes "handoffRecord_validate v = None" "rp_io r1 = []"
    "w = create_record \<and> map_of (rp_handoffs r1) (rq_HandoffID (hr_Request v)) = None \<or> w = replace_record"
  obtains r2 where "w r1 (rq_HandoffID (hr_Request v)) v = (store_result DurableChange None, r2)" "rp_io r2 = []"
    "rp_bindings r2 = rp_bindings r1" "loadHandoffRecordLocked r2 (rq_HandoffID (hr_Request v)) = Inr v"
  using assms that
  by (auto simp: create_record_def replace_record_def next_io_def atomic_Create_def atomic_Replace_def
    loadHandoffRecordLocked_def)

lemma reconcile_completes:
  assumes tx: "loadHandoffTransactionLocked r i = Inr tx" "rotates tx"
    and b: "loadDelegatedBindingLocked r (hs_SessionID (hr_State (tx_Record tx))) = Inr b"
      "b = tx_PriorBinding tx \<or> b = tx_TargetBinding tx"
    and rec: "\<And>e. loadHandoffRecordLocked r i = Inl e \<Longrightarrow> is_not_found e" and io: "rp_io r = []"
  obtains r' where "reconcileHandoffTransactionLocked r i = (store_result DurableChange None, r')"
    "loadHandoffRecordLocked r' i = Inr (tx_Record tx)" "loadHandoffTransactionLocked r' i = Inl ErrNotFound"
    "loadDelegatedBindingLocked r' (hs_SessionID (hr_State (tx_Record tx))) = Inr (tx_TargetBinding tx)"
proof -
  from tx(1) have i: "rq_HandoffID (hr_Request (tx_Record tx)) = i" and v: "handoffTransaction_validate tx = None"
    by (auto simp: loadHandoffTransactionLocked_Inr)
  note f = handoffTransaction_validate_facts [OF v]
  define reason where "reason = (case loadHandoffRecordLocked r i of Inl _ \<Rightarrow> ''binding_transaction_mismatch''
    | Inr _ \<Rightarrow> ''advance_binding_mismatch'')"
  have b1: "loadDelegatedBindingLocked r (bd_SessionID (tx_TargetBinding tx)) = Inr b" using b f(4) by simp
  obtain r1 where m: "move_binding reason tx r = (None, r1)" and r1: "rp_io r1 = []" "rp_handoffs r1 = rp_handoffs r"
    "loadDelegatedBindingLocked r1 (bd_SessionID (tx_TargetBinding tx)) = Inr (tx_TargetBinding tx)"
    using move_binding_ok [OF b1 b(2) io tx(2) v] by metis
  define w where "w = (case loadHandoffRecordLocked r i of Inl _ \<Rightarrow> create_record | Inr _ \<Rightarrow> replace_record)"
  have w: "w = create_record \<and> map_of (rp_handoffs r1) (rq_HandoffID (hr_Request (tx_Record tx))) = None \<or> w = replace_record"
  proof (cases "loadHandoffRecordLocked r i")
    case (Inl e)
    then have "map_of (rp_handoffs r) i = None" using rec [OF Inl]
      by (auto simp: loadHandoffRecordLocked_def readPrivateJSON_def is_not_found_def ErrNotFound_def
        split: option.splits content.splits if_splits)
    then show ?thesis by (simp add: w_def Inl r1 i)
  qed (simp add: w_def)
  from recover_write [OF f(1) r1(1) w] obtain r2 where
    w2: "w r1 i (tx_Record tx) = (store_result DurableChange None, r2)" "rp_io r2 = []"
      "rp_bindings r2 = rp_bindings r1" "loadHandoffRecordLocked r2 i = Inr (tx_Record tx)" unfolding i by metis
  obtain r' where d: "drop_transaction tx False r2 = ((Some (hr_State (tx_Record tx)), False, store_result DurableChange None), r')"
    using drop_ok [OF w2(2)] by blast
  note df = drop_transaction_facts [OF d]
  have "reconcileHandoffTransactionLocked r i = (store_result DurableChange None, r')"
  proof (cases "loadHandoffRecordLocked r i")
    case (Inl e)
    with rec [OF Inl] m w2(1) d tx(1) v i record_cong [OF r1(2), of i] show ?thesis
      by (simp add: reconcileHandoffTransactionLocked_def finishHandoffTransactionLocked_def reason_def w_def)
  next
    case (Inr old)
    with m w2(1) d tx(1) v i show ?thesis
      by (simp add: reconcileHandoffTransactionLocked_def finishHandoffAdvanceTransactionLocked_def reason_def w_def)
  qed
  moreover have "loadHandoffRecordLocked r' i = Inr (tx_Record tx)" using w2(4) by (simp add: record_cong [OF df(2)])
  moreover have "loadHandoffTransactionLocked r' i = Inl ErrNotFound" using df(5) i by simp
  moreover have "loadDelegatedBindingLocked r' (hs_SessionID (hr_State (tx_Record tx))) = Inr (tx_TargetBinding tx)"
    using r1(3) f(4) df(1) w2(3) loadDelegatedBindingLocked_frame [of r' r1] by simp
  ultimately show ?thesis by (rule that)
qed

section \<open>Leases and handoffs\<close>

lemma Acquire_created:
  assumes "AcquireContextExecLease sha ee ctx sid e x f r = ((l, True, res), r')"
  shows "\<exists>b. loadDelegatedBindingLocked r sid = Inr b \<and> bd_DesiredOwner b = OwnerAgent \<and> bd_AuthorityEpoch b = e"
    "\<exists>l. findContextExecLeaseLocked sha r' sid e = Inr (Some l)" "rp_bindings r' = rp_bindings r"
proof -
  let ?l = "\<lparr>le_SessionID = sid, le_AuthorityEpoch = e, le_ContextExecID = x, le_RequestFingerprint = f\<rparr>"
  have v: "lease_Validate ?l = None" and b: "\<exists>b. loadDelegatedBindingLocked r sid = Inr b \<and> bd_DesiredOwner b = OwnerAgent \<and>
      bd_AuthorityEpoch b = e" and c: "create_lease r (contextExecLeaseKey sha sid e) ?l = (res, r')" "sr_Err res = None"
    using assms by (auto simp: AcquireContextExecLease_def Let_def split: option.splits sum.splits if_splits prod.splits)
  show "\<exists>b. loadDelegatedBindingLocked r sid = Inr b \<and> bd_DesiredOwner b = OwnerAgent \<and> bd_AuthorityEpoch b = e" by (rule b)
  from c have "rp_leases r' = put_file (contextExecLeaseKey sha sid e) ?l (rp_leases r) \<and> rp_bindings r' = rp_bindings r"
    by (auto simp: create_lease_def atomic_Create_def split: prod.splits file_write.splits if_splits)
  with v show "\<exists>l. findContextExecLeaseLocked sha r' sid e = Inr (Some l)" "rp_bindings r' = rp_bindings r"
    by (simp_all add: findContextExecLeaseLocked_def)
qed

lemma handoff_owns_until:
  assumes inv: "authority_inv r" and c: "ReserveHandoff sha ctx req initial r = ((st, True, res), r1)"
    and b: "loadDelegatedBindingLocked (store_run sha later r1) (rq_SessionID req) = Inr b" "bd_DesiredOwner b = OwnerAgent"
  shows "hs_AuthorityEpoch initial < bd_AuthorityEpoch b"
proof -
  from c obtain b0 where b0: "\<And>v. loadHandoffRecordLocked r (rq_HandoffID req) \<noteq> Inr v"
    "loadDelegatedBindingLocked r (rq_SessionID req) = Inr b0"
    "hs_AuthorityEpoch initial = bd_AuthorityEpoch b0 + 1" "validateInitialHandoff req initial = None"
    "reserve_new_handoff req initial b0 r = ((st, True, res), r1)"
    by (rule ReserveHandoff_created) blast
  from b0(2) have sid: "bd_SessionID b0 = rq_SessionID req" by (simp add: loadDelegatedBindingLocked_Inr)
  from reserve_new_handoff_created [OF b0(5,3,4,1)] sid obtain t where
    t: "loadDelegatedBindingLocked r1 (rq_SessionID req) = Inr (move_to b0 initial t)" by auto
  have "authority_inv r1" using write_steps_inv [OF ReserveHandoff_steps [OF c inv] inv] .
  from store_run_grow [OF this, of sha later] t b(1) have "binding_step (move_to b0 initial t) b"
    unfolding epochs_grow_def by fastforce
  moreover have "hs_DesiredOwner initial = OwnerHuman" using b0(4) by (auto simp: validateInitialHandoff_def)
  ultimately show ?thesis using b(2) by (auto simp: binding_step_def move_to_def)
qed

end
