(* ===== verification/AuthorityProps.thy ===== *)
theory AuthorityProps
  imports StoreRuns
begin

text \<open>
  What the store guarantees about authority over whole runs: handoffs stay within the binding,
  epochs never go back, handoffs, agent mutations and context-execution leases exclude each other,
  and an interrupted handoff is completed by recovery.  A concrete session, handed over and
  reclaimed, serves as the example on which the properties are applied.
\<close>

section \<open>A concrete run\<close>

text \<open>A concrete run: the agent's session at epoch 1 is handed to a human at epoch 2.\<close>

definition example_request :: Request where
  "example_request = \<lparr>rq_HandoffID = ''h1'', rq_SessionID = ''s1'', rq_Reason = ReasonHumanConfirmation,
     rq_Privacy = PrivacyStandard, rq_Completion = \<lparr>cp_Kind = CompletionManualReady, cp_Name = []\<rparr>\<rparr>"

definition example_initial :: HandoffState where
  "example_initial = \<lparr>hs_SchemaVersion = 1, hs_HandoffID = ''h1'', hs_SessionID = ''s1'',
     hs_Phase = PhaseAgentFencing, hs_AuthorityEpoch = 2, hs_DesiredOwner = OwnerHuman, hs_ProviderOwner = OwnerAgent,
     hs_AgentIngress = IngressUnknown, hs_HumanIngress = IngressFenced,
     hs_TransferBoundary = \<lparr>tb_Kind = BoundaryNone, tb_Established = False\<rparr>,
     hs_PrivacyState = PrivacyStateStandard, hs_PrivacyRelease = PrivacyReleaseNotRequired,
     hs_CaptureState = CapturePublic, hs_HumanClient = None, hs_ProviderGeneration = ''g1'',
     hs_FailureCode = []\<rparr>"

definition example_ref :: ProviderRef where
  "example_ref = \<lparr>pr_SchemaVersion = 1, pr_SessionID = ''s1'', pr_ProviderID = ''tmux'', pr_ProviderVersion = 1, pr_Ref = ''pane1'',
     pr_CreatedAt = 10, pr_UpdatedAt = 10\<rparr>"

definition handoff_repository :: Repository where
  "handoff_repository = example_repository\<lparr>rp_journal := [(7, store_result DurableChange None)],
     rp_refs := [(''s1'', Good example_ref)]\<rparr>"

lemma example_ref_load: "rp_refs r = [(''s1'', Good example_ref)] \<Longrightarrow> loadDelegatedProviderRefLocked r ''s1'' = Inr example_ref"
  by (simp add: loadDelegatedProviderRefLocked_def readPrivateJSON_def example_ref_def ProviderRef_Validate_def
      ProviderIdentity_Validate_def delegated_validOpaque_def bytes_over_def opaque_byte_def byte_class_defs IsZero_def)

lemma example_valid:
  "Request_Validate example_request = None" "HandoffState_Validate example_initial = None"
  "validateInitialHandoff example_request example_initial = None"
proof -
  show v: "Request_Validate example_request = None" "HandoffState_Validate example_initial = None"
    by (simp_all add: Request_Validate_def example_request_def ValidateHandoffID_def Completion_Validate_def wrap_field_def reject_def
      HandoffState_Validate_def example_initial_def TransferBoundary_Validate_def opaque_defs)
  show "validateInitialHandoff example_request example_initial = None"
    using v by (simp add: validateInitialHandoff_def Request_ValidateH4_def State_ValidateH4_def)
      (simp add: example_initial_def example_request_def)
qed

lemma example_move: "move_to example_binding example_initial t =
  example_binding\<lparr>bd_AuthorityEpoch := 2, bd_DesiredOwner := OwnerHuman, bd_UpdatedAt := monotonicHandoffTime t 10\<rparr>"
  by (simp add: move_to_def example_initial_def example_binding_def)

lemma example_target_valid:
  "Binding_Validate (example_binding\<lparr>bd_AuthorityEpoch := e, bd_DesiredOwner := w, bd_UpdatedAt := t\<rparr>) = None"
  if "e \<noteq> 0" "owner_Validate w = None" "10 \<le> t"
  using example_binding_valid [of e w LifecycleLive t] that by (simp add: example_binding_def)

lemma handoff_repository_loads:
  "loadHandoffTransactionLocked handoff_repository k = Inl ErrNotFound"
  "loadHandoffRecordLocked handoff_repository k = Inl ErrNotFound"
  "findContextExecLeaseLocked sha handoff_repository sid e = Inr None"
  "loadDelegatedBindingLocked handoff_repository ''s1'' = Inr example_binding"
  using example_load loadDelegatedBindingLocked_frame [of handoff_repository example_repository "''s1''"]
  by (simp_all add: handoff_repository_def loadHandoffTransactionLocked_def loadHandoffRecordLocked_def
    findContextExecLeaseLocked_def example_repository_def empty_repository_def readPrivateJSON_def)

lemma example_reserve:
  "ReserveHandoff sha None example_request example_initial handoff_repository =
    reserve_new_handoff example_request example_initial example_binding handoff_repository"
  using handoff_repository_loads example_valid(3)
  by (simp add: ReserveHandoff_def) (simp add: example_request_def example_binding_def example_initial_def)

definition example_tx :: "uint64 list \<Rightarrow> handoffTransaction" where
  "example_tx seqs = \<lparr>tx_SchemaVersion = handoffStoreSchemaVersion,
     tx_Record = \<lparr>hr_SchemaVersion = handoffStoreSchemaVersion, hr_Request = example_request, hr_State = example_initial,
       hr_CreatedAt = 20, hr_UpdatedAt = 20\<rparr>,
     tx_PriorBinding = example_binding, tx_TargetBinding = move_to example_binding example_initial 20,
     tx_ObservationSeqs = seqs\<rparr>"

lemma example_tx_sel:
  "tx_Record (example_tx seqs) = \<lparr>hr_SchemaVersion = handoffStoreSchemaVersion, hr_Request = example_request,
     hr_State = example_initial, hr_CreatedAt = 20, hr_UpdatedAt = 20\<rparr>"
  "tx_PriorBinding (example_tx seqs) = example_binding"
  "tx_TargetBinding (example_tx seqs) = move_to example_binding example_initial 20"
  "bd_SessionID (move_to example_binding example_initial 20) = ''s1''" "bd_SessionID example_binding = ''s1''"
  by (simp_all add: example_tx_def move_to_def example_binding_def)

lemma example_tx_fold:
  "\<lparr>tx_SchemaVersion = handoffStoreSchemaVersion,
     tx_Record = \<lparr>hr_SchemaVersion = handoffStoreSchemaVersion, hr_Request = example_request, hr_State = example_initial,
       hr_CreatedAt = 20, hr_UpdatedAt = 20\<rparr>,
     tx_PriorBinding = example_binding, tx_TargetBinding = move_to example_binding example_initial 20,
     tx_ObservationSeqs = seqs\<rparr> = example_tx seqs"
  "(example_tx s)\<lparr>tx_ObservationSeqs := seqs\<rparr> = example_tx seqs"
  by (simp_all add: example_tx_def)

lemma example_tx_valid: "handoffTransaction_validate (example_tx []) = None" "handoffTransaction_validate (example_tx [7]) = None"
  using example_valid example_target_valid [of 2 OwnerHuman 20] example_binding_ok
  by (simp_all add: handoffTransaction_validate_def handoffRecord_validate_def example_tx_def Request_ValidateH4_def
    State_ValidateH4_def IsZero_def example_move monotonicHandoffTime_def sameDelegatedBindingIdentity_def)
    (simp_all add: example_request_def example_initial_def example_binding_def)

lemma example_reserved:
  obtains res r' where "ReserveHandoff sha None example_request example_initial handoff_repository =
     ((Some example_initial, True, res), r')" "sr_Err res = None"
     "rp_bindings r' = put_file ''s1'' (move_to example_binding example_initial 20) (rp_bindings handoff_repository)"
     "rp_io r' = []" "rp_mutations r' = (\<lambda>_. [])" "rp_maxMutations r' = 4" "rp_leases r' = []"
proof -
  have n: "now handoff_repository = (20, handoff_repository\<lparr>rp_clock := [30, 40]\<rparr>)"
    by (simp add: now_def handoff_repository_def example_repository_def)
  have j: "rp_journal handoff_repository = [(7, store_result DurableChange None)]" "rp_io handoff_repository = []"
    "rp_mutations handoff_repository = (\<lambda>_. [])" "rp_maxMutations handoff_repository = 4" "rp_leases handoff_repository = []"
    by (simp_all add: handoff_repository_def example_repository_def empty_repository_def)
  let ?r1 = "handoff_repository\<lparr>rp_clock := [30, 40], rp_journal := [], rp_trace := rp_trace handoff_repository @ [ObsPrepared 7]\<rparr>"
  let ?r2 = "?r1\<lparr>rp_transactions := put_file ''h1'' (example_tx [7]) [], rp_io := []\<rparr>"
  have i: "rq_HandoffID example_request = ''h1''" by (simp add: example_request_def)
  have h: "rp_transactions handoff_repository = []" "rp_handoffs handoff_repository = []"
    by (simp_all add: handoff_repository_def example_repository_def empty_repository_def)
  have p: "prepareHandoffObservations (handoff_repository\<lparr>rp_clock := [30, 40]\<rparr>) [handoffCreateObservationSpec example_initial]
    = (([7], store_result DurableChange None), ?r1)"
    by (simp add: prepareHandoffObservations_def prepareExecutionObservation_def j)
  have c: "create_transaction ?r1 ''h1'' (example_tx [7]) = (store_result DurableChange None, ?r2)"
    by (simp add: create_transaction_def j h next_io_def atomic_Create_def)
  have b: "loadDelegatedBindingLocked ?r2 ''s1'' = Inr example_binding"
    using handoff_repository_loads(4) loadDelegatedBindingLocked_frame [of ?r2 handoff_repository "''s1''"] by simp
  obtain st cr res r' where f: "finishHandoffTransactionLocked (example_tx [7]) True ?r2 = ((st, cr, res), r')" by (metis surj_pair)
  have "st = Some example_initial \<and> cr \<and> sr_Err res = None \<and>
    rp_bindings r' = put_file ''s1'' (move_to example_binding example_initial 20) (rp_bindings handoff_repository) \<and>
    rp_io r' = [] \<and> rp_mutations r' = (\<lambda>_. []) \<and> rp_maxMutations r' = 4 \<and> rp_leases r' = []"
    using f example_tx_valid(2) b h
    by (auto simp: finishHandoffTransactionLocked_def move_binding_def Let_def example_tx_sel i
      loadHandoffRecordLocked_def readPrivateJSON_def replace_binding_def j next_io_def atomic_Replace_def create_record_def
      atomic_Create_def drop_transaction_def removeHandoffTransactionLocked_def remove_file_def)
  then have "st = Some example_initial" "cr" "sr_Err res = None" and r': "rp_io r' = []" "rp_mutations r' = (\<lambda>_. [])" 
    "rp_maxMutations r' = 4" "rp_leases r' = []"
    "rp_bindings r' = put_file ''s1'' (move_to example_binding example_initial 20) (rp_bindings handoff_repository)" by auto
  then show ?thesis
    using that [of "res\<lparr>sr_ObservationSeq := 7\<rparr>" "r'\<lparr>rp_trace := rp_trace r' @ [ObsCommitted 7]\<rparr>"] n p c f example_tx_valid
    by (simp add: example_reserve reserve_new_handoff_def Let_def i example_tx_fold finishHandoffObservations_def
      commitObservationBestEffort_def)
qed

lemma handoff_repository_fresh: "rp_handoffs handoff_repository = []" "rp_transactions handoff_repository = []"
  by (simp_all add: handoff_repository_def example_repository_def empty_repository_def)

lemma example_recorded:
  assumes "ReserveHandoff sha None example_request example_initial handoff_repository = ((Some example_initial, True, res), r')"
  shows "\<exists>v. loadHandoffRecordLocked r' ''h1'' = Inr v \<and> hr_State v = example_initial"
proof -
  have e: "hs_AuthorityEpoch example_initial = bd_AuthorityEpoch example_binding + 1" "rq_HandoffID example_request = ''h1''"
    by (simp_all add: example_initial_def example_binding_def example_request_def)
  from assms have "reserve_new_handoff example_request example_initial example_binding handoff_repository =
    ((Some example_initial, True, res), r')" by (simp add: example_reserve)
  from reserve_new_handoff_created [OF this e(1) example_valid(3)] show ?thesis
    using handoff_repository_loads(2) e(2) by auto
qed

text \<open>The session is reclaimed: its binding moves on to epoch 3 and back to the agent.\<close>

definition reclaimed_binding :: Binding where
  "reclaimed_binding = example_binding\<lparr>bd_AuthorityEpoch := 3, bd_DesiredOwner := OwnerAgent, bd_UpdatedAt := 50\<rparr>"

lemma example_reclaimed:
  obtains res r1 r3 where "ReserveHandoff sha None example_request example_initial handoff_repository =
      ((Some example_initial, True, res), r1)"
    "store_run sha [AdvanceBindingOp None reclaimed_binding] r1 = r3"
    "loadDelegatedBindingLocked r3 ''s1'' = Inr reclaimed_binding"
    "rp_io r3 = []" "rp_mutations r3 = (\<lambda>_. [])" "rp_leases r3 = []" "rp_maxMutations r3 = 4"
proof -
  obtain res r1 where a: "ReserveHandoff sha None example_request example_initial handoff_repository =
    ((Some example_initial, True, res), r1)"
    and b: "rp_bindings r1 = put_file ''s1'' (move_to example_binding example_initial 20) (rp_bindings handoff_repository)"
    and e: "rp_io r1 = []" "rp_mutations r1 = (\<lambda>_. [])" "rp_maxMutations r1 = 4" "rp_leases r1 = []"
    by (rule example_reserved)
  have l: "loadDelegatedBindingLocked r1 ''s1'' = Inr (move_to example_binding example_initial 20)"
    using b example_target_valid [of 2 OwnerHuman 20]
    by (simp add: loadDelegatedBindingLocked_def example_move monotonicHandoffTime_def) (simp add: example_binding_def)
  have v: "Binding_Validate reclaimed_binding = None"
    using example_target_valid [of 3 OwnerAgent 50] by (simp add: reclaimed_binding_def)
  have sid: "bd_SessionID reclaimed_binding = ''s1''" by (simp add: reclaimed_binding_def example_binding_def)
  have id: "valid_id ''s1''" by (simp add: valid_id_def bytes_headed_def id_byte_def byte_class_defs)
  let ?r = "r1\<lparr>rp_bindings := put_file ''s1'' reclaimed_binding (rp_bindings r1)\<rparr>"
  have "snd (AdvanceDelegatedBinding None reclaimed_binding r1) = ?r"
    using v id e(1) sid l [unfolded example_move]
    by (simp add: AdvanceDelegatedBinding_def ParseSessionID_def)
      (simp add: reclaimed_binding_def example_binding_def sameDelegatedBindingIdentity_def
        monotonicHandoffTime_def replace_binding_def next_io_def atomic_Replace_def)
  moreover have "loadDelegatedBindingLocked ?r ''s1'' = Inr reclaimed_binding"
    using v by (simp add: loadDelegatedBindingLocked_def) (simp add: reclaimed_binding_def example_binding_def)
  ultimately show ?thesis using that [of res r1 ?r] a e by simp
qed

section \<open>Properties\<close>

text \<open>
  C6: Handoffs never claim later than the binding grants. However the store is driven, from a
  repository without handoffs, through any operations in any order, with any failures of its writes
  and of its journal, every readable handoff record names an authority epoch no later than that of
  the readable binding of its session, and the same owner where the epochs agree.
\<close>

theorem handoffs_within_binding:
  assumes "rp_handoffs r = []" "rp_transactions r = []"
    and "loadHandoffRecordLocked (store_run sha ops r) i = Inr v"
  shows "\<exists>b. loadDelegatedBindingLocked (store_run sha ops r) (hs_SessionID (hr_State v)) = Inr b \<and>
    hs_AuthorityEpoch (hr_State v) \<le> bd_AuthorityEpoch b \<and>
    (hs_AuthorityEpoch (hr_State v) = bd_AuthorityEpoch b \<longrightarrow> hs_DesiredOwner (hr_State v) = bd_DesiredOwner b)"
  using store_run_inv [OF fresh_authority_inv [OF assms(1,2)], of sha ops] assms(3)
  by (auto simp: authority_inv_def covered_def)

theorem handoffs_within_binding_witness:
  "\<exists>b. loadDelegatedBindingLocked (store_run (\<lambda>s. s) [ReserveHandoffOp None example_request example_initial] handoff_repository)
    ''s1'' = Inr b \<and> (2 \<le> bd_AuthorityEpoch b \<and> (bd_AuthorityEpoch b = 2 \<longrightarrow> bd_DesiredOwner b = OwnerHuman))"
proof -
  obtain res r' where a: "ReserveHandoff (\<lambda>s. s) None example_request example_initial handoff_repository =
    ((Some example_initial, True, res), r')" by (rule example_reserved)
  obtain v where v: "loadHandoffRecordLocked r' ''h1'' = Inr v" "hr_State v = example_initial"
    using example_recorded [OF a] by blast
  have r: "store_run (\<lambda>s. s) [ReserveHandoffOp None example_request example_initial] handoff_repository = r'"
    using a by simp
  show ?thesis
    using handoffs_within_binding [OF handoff_repository_fresh, of "\<lambda>s. s"
        "[ReserveHandoffOp None example_request example_initial]", unfolded r, OF v(1)] v(2)
    unfolding r by (auto simp: example_initial_def)
qed

text \<open>
  C20: Authority epochs never go back. Between any two points of such a run a readable handoff record
  stays readable and its epoch does not decrease, and a readable binding stays readable, keeps its
  identity, does not lower its epoch and changes its owner only by raising it.
\<close>

theorem authority_never_goes_back:
  assumes "rp_handoffs r = []" "rp_transactions r = []"
  shows "(\<forall>v. loadHandoffRecordLocked (store_run sha ops r) i = Inr v \<longrightarrow>
      (\<exists>v'. loadHandoffRecordLocked (store_run sha (ops @ later) r) i = Inr v' \<and>
        hs_AuthorityEpoch (hr_State v) \<le> hs_AuthorityEpoch (hr_State v'))) \<and>
    (\<forall>b. loadDelegatedBindingLocked (store_run sha ops r) sid = Inr b \<longrightarrow>
      (\<exists>b'. loadDelegatedBindingLocked (store_run sha (ops @ later) r) sid = Inr b' \<and> sameDelegatedBindingIdentity b b' \<and>
        bd_AuthorityEpoch b \<le> bd_AuthorityEpoch b' \<and>
        (bd_DesiredOwner b' \<noteq> bd_DesiredOwner b \<longrightarrow> bd_AuthorityEpoch b < bd_AuthorityEpoch b')))"
proof -
  have "epochs_grow (store_run sha ops r) (store_run sha (ops @ later) r)"
    using store_run_grow [OF store_run_inv [OF fresh_authority_inv [OF assms]]] by simp
  then show ?thesis unfolding epochs_grow_def binding_step_def by blast
qed

theorem authority_never_goes_back_witness:
  "\<exists>v. loadHandoffRecordLocked (store_run (\<lambda>s. s) [ReserveHandoffOp None example_request example_initial,
     AdvanceHandoffOp None (example_initial\<lparr>hs_AgentIngress := IngressFenced\<rparr>)] handoff_repository) ''h1'' = Inr v \<and>
   2 \<le> hs_AuthorityEpoch (hr_State v)"
proof -
  obtain res r' where a: "ReserveHandoff (\<lambda>s. s) None example_request example_initial handoff_repository =
    ((Some example_initial, True, res), r')" by (rule example_reserved)
  obtain v where v: "loadHandoffRecordLocked r' ''h1'' = Inr v" "hr_State v = example_initial"
    using example_recorded [OF a] by blast
  have r: "store_run (\<lambda>s. s) [ReserveHandoffOp None example_request example_initial] handoff_repository = r'"
    using a by simp
  show ?thesis
    using authority_never_goes_back [OF handoff_repository_fresh, of "\<lambda>s. s"
        "[ReserveHandoffOp None example_request example_initial]" "''h1''"
        "[AdvanceHandoffOp None (example_initial\<lparr>hs_AgentIngress := IngressFenced\<rparr>)]"] v
    unfolding r by (fastforce simp: example_initial_def)
qed

text \<open>
  C14: A handoff shuts the agent out. Once a handoff to a human has been created, then, whatever the
  store does afterwards, it never again creates a mutation of that session for an epoch up to and
  including the handoff's own; the agent writes again only under a later epoch.
\<close>

theorem handoff_excludes_agent_mutations:
  assumes "rp_handoffs r = []" "rp_transactions r = []"
    and "ReserveHandoff sha ctx req initial (store_run sha ops r) = ((st, True, res), r1)"
    and "ReserveDelegatedMutation sha ctx' i (store_run sha later r1) = ((m, True, res'), r2)"
    and "mi_SessionID i = rq_SessionID req"
  shows "hs_AuthorityEpoch initial < mi_Epoch i"
proof -
  have inv: "authority_inv (store_run sha ops r)" by (rule store_run_inv [OF fresh_authority_inv [OF assms(1,2)]])
  from created_mutation_binding [OF assms(4)] handoff_owns_until [OF inv assms(3), of later] assms(5) show ?thesis by auto
qed

theorem handoff_excludes_agent_mutations_witness:
  "\<exists>st res r1 m res' r2. ReserveHandoff (\<lambda>s. s) None example_request example_initial handoff_repository = ((st, True, res), r1) \<and>
    ReserveDelegatedMutation (\<lambda>s. s) None (example_mutation\<lparr>mi_Epoch := 3\<rparr>)
      (store_run (\<lambda>s. s) [AdvanceBindingOp None reclaimed_binding] r1) = ((m, True, res'), r2) \<and>
    hs_AuthorityEpoch example_initial < 3"
proof -
  obtain res r1 r3 where a: "ReserveHandoff (\<lambda>s. s) None example_request example_initial handoff_repository =
      ((Some example_initial, True, res), r1)"
    and s: "store_run (\<lambda>s. s) [AdvanceBindingOp None reclaimed_binding] r1 = r3"
    and r3: "loadDelegatedBindingLocked r3 ''s1'' = Inr reclaimed_binding"
      "rp_io r3 = []" "rp_mutations r3 = (\<lambda>_. [])" "rp_maxMutations r3 = 4" by (rule example_reclaimed)
  obtain t r4 where n: "now r3 = (t, r4)" by fastforce
  then have n': "rp_io r4 = []" "rp_mutations r4 = (\<lambda>_. [])" using r3 by (auto simp: now_def split: list.splits)
  have w: "MutationIdentity_Validate (example_mutation\<lparr>mi_Epoch := 3\<rparr>) = None"
    by (simp add: MutationIdentity_Validate_def example_mutation_def delegated_validOpaque_def bytes_over_def
      opaque_byte_def byte_class_defs)
  obtain m res' r2 where c: "ReserveDelegatedMutation (\<lambda>s. s) None (example_mutation\<lparr>mi_Epoch := 3\<rparr>) r3 = ((m, True, res'), r2)"
    using w r3 n n' by (simp add: ReserveDelegatedMutation_def loadDelegatedMutationLocked_def readPrivateJSON_def)
      (simp add: reclaimed_binding_def example_binding_def example_mutation_def create_mutation_def next_io_def atomic_Create_def
        Let_def)
  from handoff_excludes_agent_mutations [OF handoff_repository_fresh, of "\<lambda>s. s" None example_request example_initial "[]",
      unfolded fold_Nil id_apply, OF a c [folded s]] a c [folded s]
  show ?thesis by (force simp: example_mutation_def example_request_def)
qed


definition example_digest :: string where
  "example_digest = replicate 64 (CHR ''a'')"

lemma example_lease:
  assumes "loadDelegatedBindingLocked r ''s1'' = Inr b" "bd_Lifecycle b = LifecycleLive" "bd_DesiredOwner b = OwnerAgent"
    "rp_io r = []" "rp_leases r = []"
  obtains l res r' where "AcquireContextExecLease sha None None ''s1'' (bd_AuthorityEpoch b) ''x1'' example_digest r =
    ((l, True, res), r')"
proof -
  have "bd_AuthorityEpoch b \<noteq> 0" using assms(1) by (auto simp: loadDelegatedBindingLocked_Inr Binding_Validate_def)
  then have "lease_Validate \<lparr>le_SessionID = ''s1'', le_AuthorityEpoch = bd_AuthorityEpoch b, le_ContextExecID = ''x1'',
      le_RequestFingerprint = example_digest\<rparr> = None"
    by (simp add: lease_Validate_def ParseSessionID_def valid_id_def bytes_headed_def id_byte_def bytes_over_def byte_class_defs
      validContextExecID_def validContextExecDigest_def example_digest_def list_all_iff)
  then show ?thesis
    using that assms by (simp add: AcquireContextExecLease_def findContextExecLeaseLocked_def readPrivateJSON_def
      create_lease_def next_io_def atomic_Create_def Let_def)
qed


text \<open>
  A handoff blocks leases. Once a handoff to a human has been created, then, whatever the store
  does afterwards, it never again creates a lease of that session for an epoch up to and including
  the handoff's own.
\<close>

theorem handoff_blocks_lease:
  assumes "rp_handoffs r = []" "rp_transactions r = []"
    and "ReserveHandoff sha ctx req initial (store_run sha ops r) = ((st, True, res), r1)"
    and "AcquireContextExecLease sha ee ctx' (rq_SessionID req) e x f (store_run sha later r1) = ((l, True, res'), r3)"
  shows "hs_AuthorityEpoch initial < e"
proof -
  have inv: "authority_inv (store_run sha ops r)" by (rule store_run_inv [OF fresh_authority_inv [OF assms(1,2)]])
  from Acquire_created(1) [OF assms(4)] handoff_owns_until [OF inv assms(3), of later] show ?thesis by blast
qed

theorem handoff_blocks_lease_witness:
  "\<exists>st res r1 l res' r2. ReserveHandoff (\<lambda>s. s) None example_request example_initial handoff_repository = ((st, True, res), r1) \<and>
    AcquireContextExecLease (\<lambda>s. s) None None ''s1'' 3 ''x1'' example_digest
      (store_run (\<lambda>s. s) [AdvanceBindingOp None reclaimed_binding] r1) = ((l, True, res'), r2) \<and>
    hs_AuthorityEpoch example_initial < 3"
proof -
  obtain res r1 r3 where a: "ReserveHandoff (\<lambda>s. s) None example_request example_initial handoff_repository =
      ((Some example_initial, True, res), r1)"
    and s: "store_run (\<lambda>s. s) [AdvanceBindingOp None reclaimed_binding] r1 = r3"
    and r3: "loadDelegatedBindingLocked r3 ''s1'' = Inr reclaimed_binding" "rp_io r3 = []" "rp_leases r3 = []"
    by (rule example_reclaimed)
  have e: "bd_AuthorityEpoch reclaimed_binding = 3" "bd_Lifecycle reclaimed_binding = LifecycleLive"
    "bd_DesiredOwner reclaimed_binding = OwnerAgent" "rq_SessionID example_request = ''s1''"
    by (simp_all add: reclaimed_binding_def example_binding_def example_request_def)
  obtain l res' r2 where c: "AcquireContextExecLease (\<lambda>s. s) None None ''s1'' 3 ''x1'' example_digest r3 = ((l, True, res'), r2)"
    using example_lease [OF r3(1) e(2,3) r3(2,3), of "\<lambda>s. s"] e(1) by metis
  from handoff_blocks_lease [OF handoff_repository_fresh, of "\<lambda>s. s" None example_request example_initial "[]",
      unfolded fold_Nil id_apply e(4), OF a c [folded s]] a c [folded s]
  show ?thesis by force
qed

text \<open>
  C21: An interrupted handoff is completed by recovery. If a run of the store has left a pending
  transaction, whose session still has the binding the transaction started from or already the one
  it leads to, and whose record is readable or missing, then recovery, once writes succeed again,
  returns the transaction's state, and afterwards the record, the binding and the absence of the
  transaction are exactly those of the uninterrupted operation.
\<close>

theorem RecoverHandoff_completes:
  assumes "rp_handoffs r0 = []" "rp_transactions r0 = []" "r = (store_run sha ops r0)\<lparr>rp_io := []\<rparr>"
    and "validHandoffStoreID i" "loadHandoffTransactionLocked r i = Inr tx"
    and "loadDelegatedBindingLocked r (hs_SessionID (hr_State (tx_Record tx))) = Inr b"
    and "b = tx_PriorBinding tx \<or> b = tx_TargetBinding tx"
    and "\<And>e. loadHandoffRecordLocked r i = Inl e \<Longrightarrow> is_not_found e"
  shows "\<exists>r'. RecoverHandoff None i r = ((Some (hr_State (tx_Record tx)), store_result DurableChange None), r') \<and>
    loadHandoffRecordLocked r' i = Inr (tx_Record tx) \<and> loadHandoffTransactionLocked r' i = Inl ErrNotFound \<and>
    loadDelegatedBindingLocked r' (hs_SessionID (hr_State (tx_Record tx))) = Inr (tx_TargetBinding tx)"
proof -
  have "authority_inv r"
    using same_authority_inv [OF same_authority_io store_run_inv [OF fresh_authority_inv [OF assms(1,2)]]] assms(3) by simp
  with assms(5) have rot: "rotates tx" by (auto simp: authority_inv_def)
  have io: "rp_io r = []" using assms(3) by simp
  obtain r' where "reconcileHandoffTransactionLocked r i = (store_result DurableChange None, r')"
    "loadHandoffRecordLocked r' i = Inr (tx_Record tx)" "loadHandoffTransactionLocked r' i = Inl ErrNotFound"
    "loadDelegatedBindingLocked r' (hs_SessionID (hr_State (tx_Record tx))) = Inr (tx_TargetBinding tx)"
    using reconcile_completes [OF assms(5) rot assms(6,7,8) io] by metis
  with assms(4,5) show ?thesis by (simp add: RecoverHandoff_def)
qed

definition interrupted_repository :: Repository where
  "interrupted_repository = handoff_repository\<lparr>rp_io := [WriteOk, WriteFailed (Errorf ''disk'')]\<rparr>"

lemma interrupted_loads:
  "loadHandoffTransactionLocked interrupted_repository k = Inl ErrNotFound"
  "loadHandoffRecordLocked interrupted_repository k = Inl ErrNotFound"
  "findContextExecLeaseLocked sha interrupted_repository sid e = Inr None"
  "loadDelegatedBindingLocked interrupted_repository ''s1'' = Inr example_binding"
  using handoff_repository_loads(1,2) [of k] handoff_repository_loads(3) [of sha sid e] handoff_repository_loads(4)
    loadDelegatedBindingLocked_frame [of interrupted_repository handoff_repository "''s1''"]
  by (simp_all add: interrupted_repository_def loadHandoffTransactionLocked_def loadHandoffRecordLocked_def
    findContextExecLeaseLocked_def)

lemma interrupted_run:
  obtains x r' where "ReserveHandoff sha None example_request example_initial interrupted_repository = (x, r')"
    "rp_transactions r' = put_file ''h1'' (example_tx [7]) []" "rp_handoffs r' = []"
    "rp_bindings r' = rp_bindings interrupted_repository"
proof -
  let ?r1 = "interrupted_repository\<lparr>rp_clock := [30, 40], rp_journal := [],
    rp_trace := rp_trace interrupted_repository @ [ObsPrepared 7]\<rparr>"
  let ?r2 = "?r1\<lparr>rp_transactions := put_file ''h1'' (example_tx [7]) [], rp_io := [WriteFailed (Errorf ''disk'')]\<rparr>"
  have sel: "rp_journal interrupted_repository = [(7, store_result DurableChange None)]"
    "rp_io interrupted_repository = [WriteOk, WriteFailed (Errorf ''disk'')]" "rp_transactions interrupted_repository = []"
    "rp_handoffs interrupted_repository = []" "rq_HandoffID example_request = ''h1''"
    by (simp_all add: interrupted_repository_def handoff_repository_def example_repository_def empty_repository_def
      example_request_def)
  have a: "ReserveHandoff sha None example_request example_initial interrupted_repository =
    reserve_new_handoff example_request example_initial example_binding interrupted_repository"
    using interrupted_loads example_valid(3)
    by (simp add: ReserveHandoff_def) (simp add: example_request_def example_binding_def example_initial_def)
  have n: "now interrupted_repository = (20, interrupted_repository\<lparr>rp_clock := [30, 40]\<rparr>)"
    by (simp add: now_def interrupted_repository_def handoff_repository_def example_repository_def)
  have p: "prepareHandoffObservations (interrupted_repository\<lparr>rp_clock := [30, 40]\<rparr>) [handoffCreateObservationSpec example_initial]
    = (([7], store_result DurableChange None), ?r1)"
    by (simp add: prepareHandoffObservations_def prepareExecutionObservation_def sel)
  have c: "create_transaction ?r1 ''h1'' (example_tx [7]) = (store_result DurableChange None, ?r2)"
    by (simp add: create_transaction_def sel next_io_def atomic_Create_def)
  have b: "loadDelegatedBindingLocked ?r2 ''s1'' = Inr example_binding"
    using interrupted_loads(4) loadDelegatedBindingLocked_frame [of ?r2 interrupted_repository "''s1''"] by simp
  obtain res where f: "finishHandoffTransactionLocked (example_tx [7]) True ?r2 = ((None, False, res), ?r2\<lparr>rp_io := []\<rparr>)"
    using example_tx_valid(2) b
    by (simp add: finishHandoffTransactionLocked_def move_binding_def example_tx_sel replace_binding_def
      next_io_def atomic_Replace_def)
  obtain res' r' where o: "finishHandoffObservations [7] res
    (Some (handoffObservationTransactionMatchesLocked (example_tx [7]) True)) (?r2\<lparr>rp_io := []\<rparr>) = (res', r')" by fastforce
  show ?thesis
    using that [of "(None, False, res')" r'] a n p c f o example_tx_valid finishHandoffObservations_same [OF o]
    by (simp add: reserve_new_handoff_def Let_def sel example_tx_fold same_authority_def)
qed

theorem RecoverHandoff_completes_witness:
  "\<exists>r'. RecoverHandoff None ''h1'' ((store_run (\<lambda>s. s) [ReserveHandoffOp None example_request example_initial]
       interrupted_repository)\<lparr>rp_io := []\<rparr>) = ((Some example_initial, store_result DurableChange None), r') \<and>
     loadDelegatedBindingLocked r' ''s1'' = Inr (move_to example_binding example_initial 20)"
proof -
  obtain x r1 where a: "ReserveHandoff (\<lambda>s. s) None example_request example_initial interrupted_repository = (x, r1)"
    "rp_transactions r1 = put_file ''h1'' (example_tx [7]) []" "rp_handoffs r1 = []"
    "rp_bindings r1 = rp_bindings interrupted_repository" by (rule interrupted_run)
  let ?r = "r1\<lparr>rp_io := []\<rparr>"
  have r: "(store_run (\<lambda>s. s) [ReserveHandoffOp None example_request example_initial] interrupted_repository)\<lparr>rp_io := []\<rparr> = ?r"
    using a by simp
  have f: "rp_handoffs interrupted_repository = []" "rp_transactions interrupted_repository = []"
    by (simp_all add: interrupted_repository_def handoff_repository_fresh)
  have i: "validHandoffStoreID ''h1''" by (simp add: validHandoffStoreID_def bytes_headed_def byte_class_defs)
  have t: "loadHandoffTransactionLocked ?r ''h1'' = Inr (example_tx [7])"
    using a(2) example_tx_valid(2) by (simp add: loadHandoffTransactionLocked_def example_tx_sel) (simp add: example_request_def)
  have s: "hs_SessionID (hr_State (tx_Record (example_tx [7]))) = ''s1''" by (simp add: example_tx_sel example_initial_def)
  have b: "loadDelegatedBindingLocked ?r ''s1'' = Inr example_binding"
    using a(4) interrupted_loads(4) loadDelegatedBindingLocked_frame [of ?r interrupted_repository "''s1''"] by simp
  have n: "loadHandoffRecordLocked ?r ''h1'' = Inl e \<Longrightarrow> is_not_found e" for e
    using a(3) by (auto simp: loadHandoffRecordLocked_def readPrivateJSON_def)
  from RecoverHandoff_completes [OF f r [symmetric] i t, unfolded s, OF b _ n] show ?thesis
    unfolding r by (auto simp: example_tx_sel)
qed

end
