(* ===== verification/ControlProps.thy ===== *)
theory ControlProps
  imports AuthorityProps
begin

text \<open>
  Human control signals are decided once, the events of a transition can be proved from the state
  it leads to, and two places where the store does not do what it means to.
\<close>

section \<open>Control signals\<close>

text \<open>
  The steps of the control ledger: its two operations, and any other activity, which leaves the
  control files alone.
\<close>

inductive control_step :: "Repository \<Rightarrow> Repository \<Rightarrow> bool" where
  reserve: "ReserveControlSignal ctx g r = (x, r') \<Longrightarrow> control_step r r'"
| complete: "CompleteControlSignal ctx g out r = (y, r') \<Longrightarrow> control_step r r'"
| other: "rp_controls r' = rp_controls r \<Longrightarrow> control_step r r'"

lemma loadHumanControlLocked_Inr:
  "loadHumanControlLocked r hid cid = Inr v \<longleftrightarrow> readPrivateJSON (rp_controls r hid) cid = Inr v \<and>
    humanControlRecord_validate v = None \<and> sg_HandoffID (hcr_Signal v) = hid \<and> sg_ControlID (hcr_Signal v) = cid"
  by (auto simp: loadHumanControlLocked_def split: if_splits)

lemma control_cong: "rp_controls r' = rp_controls r \<Longrightarrow> loadHumanControlLocked r' hid cid = loadHumanControlLocked r hid cid"
  by (simp add: loadHumanControlLocked_def)

lemma now_controls: "now r = (t, r') \<Longrightarrow> rp_controls r' = rp_controls r"
  by (auto simp: now_def split: list.splits)

lemma create_control_controls:
  assumes "create_control r hid cid v = (res, r')"
  shows "rp_controls r' = rp_controls r \<or> map_of (rp_controls r hid) cid = None \<and>
    rp_controls r' = (rp_controls r)(hid := put_file cid v (rp_controls r hid))"
  using assms by (auto simp: create_control_def atomic_Create_def split: prod.splits file_write.splits if_splits)

lemma replace_control_controls:
  assumes "replace_control r hid cid v = (res, r')"
  shows "rp_controls r' = rp_controls r \<or> rp_controls r' = (rp_controls r)(hid := put_file cid v (rp_controls r hid))"
  using assms by (auto simp: replace_control_def atomic_Replace_def split: prod.splits file_write.splits)

lemma ReserveControlSignal_controls:
  assumes "ReserveControlSignal ctx g r = (x, r')"
  shows "rp_controls r' = rp_controls r \<or> (\<exists>v. map_of (rp_controls r (sg_HandoffID g)) (sg_ControlID g) = None \<and>
    rp_controls r' = (rp_controls r)(sg_HandoffID g := put_file (sg_ControlID g) v (rp_controls r (sg_HandoffID g))))"
proof (cases "r' = r")
  case False
  obtain t r1 where n: "now r = (t, r1)" by fastforce
  let ?v = "\<lparr>hcr_SchemaVersion = handoffStoreSchemaVersion, hcr_Signal = g, hcr_Outcome = [],
                         hcr_Completed = False, hcr_CreatedAt = t, hcr_UpdatedAt = t\<rparr>"
  obtain res r2 where c: "create_control r1 (sg_HandoffID g) (sg_ControlID g) ?v = (res, r2)" by fastforce
  have "r' = r2"
    using assms n c False
    by (auto simp: ReserveControlSignal_def Let_def split: option.splits sum.splits if_splits)
  with create_control_controls [OF c] now_controls [OF n] show ?thesis by auto
qed simp

lemma CompleteControlSignal_controls:
  assumes "CompleteControlSignal ctx g out r = (x, r')"
  shows "rp_controls r' = rp_controls r \<or> (\<exists>rec t. loadHumanControlLocked r (sg_HandoffID g) (sg_ControlID g) = Inr rec \<and>
    hcr_Signal rec = g \<and> \<not> hcr_Completed rec \<and> validControlOutcome out \<and>
    rp_controls r' = (rp_controls r)(sg_HandoffID g := put_file (sg_ControlID g) (rec\<lparr>hcr_Completed := True, hcr_Outcome := out,
      hcr_UpdatedAt := monotonicHandoffTime t (hcr_UpdatedAt rec)\<rparr>) (rp_controls r (sg_HandoffID g))))"
proof (cases "r' = r")
  case False
  obtain t r1 where n: "now r = (t, r1)" by fastforce
  from assms False obtain rec where rec: "loadHumanControlLocked r (sg_HandoffID g) (sg_ControlID g) = Inr rec"
    "hcr_Signal rec = g" "\<not> hcr_Completed rec" "validControlOutcome out"
    by (auto simp: CompleteControlSignal_def Let_def split: option.splits sum.splits if_splits)
  let ?v = "rec\<lparr>hcr_Completed := True, hcr_Outcome := out, hcr_UpdatedAt := monotonicHandoffTime t (hcr_UpdatedAt rec)\<rparr>"
  obtain res r2 where c: "replace_control r1 (sg_HandoffID g) (sg_ControlID g) ?v = (res, r2)" by fastforce
  have "r' = r2"
    using assms n c rec False
    by (auto simp: CompleteControlSignal_def Let_def split: option.splits if_splits)
  then have "rp_controls r' = rp_controls r \<or>
      rp_controls r' = (rp_controls r)(sg_HandoffID g := put_file (sg_ControlID g) ?v (rp_controls r (sg_HandoffID g)))"
    using replace_control_controls [OF c] now_controls [OF n] by simp
  then show ?thesis
  proof
    assume "rp_controls r' = (rp_controls r)(sg_HandoffID g := put_file (sg_ControlID g) ?v (rp_controls r (sg_HandoffID g)))"
    then show ?thesis by (intro disjI2 exI conjI) (rule rec, rule rec, rule rec, rule rec, assumption)
  qed (rule disjI1)
qed simp

lemma control_step_keeps:
  assumes "control_step r r'" "loadHumanControlLocked r hid cid = Inr rec"
  shows "\<exists>rec'. loadHumanControlLocked r' hid cid = Inr rec' \<and> hcr_Signal rec' = hcr_Signal rec \<and>
    (hcr_Completed rec \<longrightarrow> rec' = rec)"
  using assms
proof (induction rule: control_step.induct)
  case (reserve ctx g r x r')
  from ReserveControlSignal_controls [OF reserve(1)] reserve(2) show ?case
    by (auto simp: loadHumanControlLocked_Inr readPrivateJSON_Inr)
next
  case (complete ctx g out r y r')
  from CompleteControlSignal_controls [OF complete(1)]
  show ?case
  proof (elim disjE exE conjE)
    assume "rp_controls r' = rp_controls r"
    with complete(2) show ?thesis by (simp add: control_cong [of r' r])
  next
    fix rec0 t
    assume r0: "loadHumanControlLocked r (sg_HandoffID g) (sg_ControlID g) = Inr rec0" "hcr_Signal rec0 = g"
      "\<not> hcr_Completed rec0" "validControlOutcome out"
      and w: "rp_controls r' = (rp_controls r)(sg_HandoffID g := put_file (sg_ControlID g) (rec0\<lparr>hcr_Completed := True, hcr_Outcome := out,
        hcr_UpdatedAt := monotonicHandoffTime t (hcr_UpdatedAt rec0)\<rparr>) (rp_controls r (sg_HandoffID g)))"
    let ?v = "rec0\<lparr>hcr_Completed := True, hcr_Outcome := out, hcr_UpdatedAt := monotonicHandoffTime t (hcr_UpdatedAt rec0)\<rparr>"
    have "humanControlRecord_validate ?v = None"
      using r0 monotonicHandoffTime_gt [of "hcr_UpdatedAt rec0" t]
      by (auto simp: loadHumanControlLocked_Inr humanControlRecord_validate_def)
    then show ?thesis
      using complete(2) r0 w
      by (cases "hid = sg_HandoffID g \<and> cid = sg_ControlID g") (auto simp: loadHumanControlLocked_Inr)
  qed
next
  case (other r' r)
  then show ?case by (simp add: control_cong [of r' r])
qed

lemma control_steps_keep:
  assumes "control_step\<^sup>*\<^sup>* r r'" "loadHumanControlLocked r hid cid = Inr rec"
  shows "\<exists>rec'. loadHumanControlLocked r' hid cid = Inr rec' \<and> hcr_Signal rec' = hcr_Signal rec \<and>
    (hcr_Completed rec \<longrightarrow> rec' = rec)"
  using assms
proof (induction rule: rtranclp_induct)
  case (step y z)
  then obtain ry where y: "loadHumanControlLocked y hid cid = Inr ry" "hcr_Signal ry = hcr_Signal rec"
    "hcr_Completed rec \<longrightarrow> ry = rec" by blast
  from control_step_keeps [OF step(2) y(1)] y(2,3) show ?case by auto
qed auto

lemma CompleteControlSignal_stored:
  assumes "CompleteControlSignal ctx g out r = ((o1, res), r1)" "sr_Err res = None"
  shows "ControlSignal_Validate g = None"
    "\<exists>rec. loadHumanControlLocked r1 (sg_HandoffID g) (sg_ControlID g) = Inr rec \<and> hcr_Signal rec = g \<and>
      hcr_Completed rec \<and> hcr_Outcome rec = out"
proof -
  obtain t r0 where n: "now r = (t, r0)" by fastforce
  from assms obtain rec where rec: "loadHumanControlLocked r (sg_HandoffID g) (sg_ControlID g) = Inr rec"
    "hcr_Signal rec = g" "ControlSignal_Validate g = None" "validControlOutcome out" "hcr_Completed rec \<longrightarrow> hcr_Outcome rec = out \<and> r1 = r"
    by (auto simp: CompleteControlSignal_def Let_def split: option.splits sum.splits if_splits)
  show "ControlSignal_Validate g = None" by (rule rec(3))
  let ?v = "rec\<lparr>hcr_Completed := True, hcr_Outcome := out, hcr_UpdatedAt := monotonicHandoffTime t (hcr_UpdatedAt rec)\<rparr>"
  obtain res2 r2 where c: "replace_control r0 (sg_HandoffID g) (sg_ControlID g) ?v = (res2, r2)" by fastforce
  have v: "humanControlRecord_validate ?v = None"
    using rec monotonicHandoffTime_gt [of "hcr_UpdatedAt rec" t]
    by (auto simp: loadHumanControlLocked_Inr humanControlRecord_validate_def)
  show "\<exists>rec. loadHumanControlLocked r1 (sg_HandoffID g) (sg_ControlID g) = Inr rec \<and> hcr_Signal rec = g \<and>
      hcr_Completed rec \<and> hcr_Outcome rec = out"
  proof (cases "hcr_Completed rec")
    case False
    with assms n c rec have "r1 = r2" "res2 = res"
      by (auto simp: CompleteControlSignal_def Let_def split: option.splits if_splits)
    with assms(2) c have "rp_controls r1 = (rp_controls r0)(sg_HandoffID g := put_file (sg_ControlID g) ?v (rp_controls r0 (sg_HandoffID g)))"
      by (auto simp: replace_control_def atomic_Replace_def split: prod.splits file_write.splits)
    with v rec show ?thesis by (auto simp: loadHumanControlLocked_Inr)
  qed (use rec in auto)
qed

text \<open>
  C23: A human control signal is decided once. After the outcome of a signal has been recorded,
  whatever happens to the ledger and around it, every repetition of the signal is answered with
  that same outcome and is not reserved again, and an attempt to record another outcome fails and
  reports the first one.
\<close>

theorem control_outcome_final:
  assumes "CompleteControlSignal ctx g out r = ((o1, res), r1)" "sr_Err res = None" "control_step\<^sup>*\<^sup>* r1 r2"
  shows "ReserveControlSignal None g r2 = ((Some g, out, False, store_result DurableChange None), r2) \<and>
    (validControlOutcome out' \<and> out' \<noteq> out \<longrightarrow> (\<exists>e. CompleteControlSignal None g out' r2 = ((out, store_result DurableChange (Some e)), r2)))"
proof -
  note c = CompleteControlSignal_stored [OF assms(1,2)]
  then obtain rec where rec: "loadHumanControlLocked r2 (sg_HandoffID g) (sg_ControlID g) = Inr rec" "hcr_Signal rec = g"
    "hcr_Completed rec" "hcr_Outcome rec = out"
    using control_steps_keep [OF assms(3)] by blast
  then show ?thesis using c(1)
    by (auto simp: ReserveControlSignal_def CompleteControlSignal_def DecideControl_def Let_def)
qed

definition example_signal :: ControlSignal where
  "example_signal = \<lparr>sg_HandoffID = ''h1'', sg_AuthorityEpoch = 2, sg_ControlID = ''c1'', sg_Kind = HumanControlReady\<rparr>"

definition control_repository :: Repository where
  "control_repository = empty_repository\<lparr>rp_controls := (\<lambda>_. [(''c1'', Good \<lparr>hcr_SchemaVersion = 1, hcr_Signal = example_signal,
     hcr_Outcome = [], hcr_Completed = False, hcr_CreatedAt = 10, hcr_UpdatedAt = 10\<rparr>)]), rp_clock := [20]\<rparr>"

theorem control_outcome_final_witness:
  "\<exists>res r1. CompleteControlSignal None example_signal ''ready'' control_repository = ((''ready'', res), r1) \<and>
     sr_Err res = None \<and>
     ReserveControlSignal None example_signal r1 = ((Some example_signal, ''ready'', False, store_result DurableChange None), r1)"
proof -
  have v: "ControlSignal_Validate example_signal = None" "validControlOutcome ''ready''"
    by (simp_all add: ControlSignal_Validate_def example_signal_def opaque_defs validControlOutcome_def bytes_over_def)
  have l: "loadHumanControlLocked control_repository ''h1'' ''c1'' = Inr \<lparr>hcr_SchemaVersion = 1, hcr_Signal = example_signal,
     hcr_Outcome = [], hcr_Completed = False, hcr_CreatedAt = 10, hcr_UpdatedAt = 10\<rparr>"
    using v(1) by (simp add: loadHumanControlLocked_def control_repository_def readPrivateJSON_def humanControlRecord_validate_def
      handoffStoreSchemaVersion_def IsZero_def) (simp add: example_signal_def)
  obtain res r1 where a: "CompleteControlSignal None example_signal ''ready'' control_repository = ((''ready'', res), r1)" "sr_Err res = None"
    using v l by (simp add: CompleteControlSignal_def)
      (simp add: example_signal_def now_def control_repository_def empty_repository_def replace_control_def next_io_def atomic_Replace_def
        Let_def)
  from control_outcome_final [OF a rtranclp.rtrancl_refl] a show ?thesis by blast
qed

section \<open>Observation events\<close>

text \<open>
  The events prepared for a change of state can be proved from the state it leads to, which is
  how an event that was prepared but not committed is resolved after a restart. It holds for every
  event of every change, provided that a state in the agent-owned phase wants the agent as owner.
\<close>

theorem observation_specs_provable:
  assumes "hs_Phase to = PhaseAgentOwned \<longrightarrow> hs_DesiredOwner to = OwnerAgent"
    and "spec \<in> set (handoffAdvanceObservationSpecs from to)"
  shows "handoffStateProvesObservation to (os_kind spec) (os_epoch spec) (os_transition spec)"
  using assms by (auto simp: handoffAdvanceObservationSpecs_def Let_def split: if_splits)

theorem observation_specs_provable_witness:
  "handoffStateProvesObservation human_owned_state EventHandoffHumanOwned 2 ''human-owned''"
  using observation_specs_provable [of human_owned_state "\<lparr>os_kind = EventHandoffHumanOwned, os_transition = ''human-owned'',
      os_summary = ''interactive handoff human authority active'', os_epoch = 2\<rparr>" example_initial]
  by (simp add: human_owned_state_def example_initial_def handoffAdvanceObservationSpecs_def Let_def)

lemma fold_commit_trace:
  "0 \<notin> set seqs \<Longrightarrow> rp_trace (fold commitObservationBestEffort seqs r) = rp_trace r @ map ObsCommitted seqs"
  by (induction seqs arbitrary: r) (auto simp: commitObservationBestEffort_def)

lemma fold_commit_handoffs: "rp_handoffs (fold commitObservationBestEffort seqs r) = rp_handoffs r"
  using fold_obs_same(2) [of r seqs] by (simp add: same_authority_def)

text \<open>
  When a write of a handoff record is reported as ambiguous although the record holds exactly
  the wanted state, the events of the change are committed only if the state has no human client:
  the comparison of the stored state with the wanted one compares client pointers, and the decoded
  pointer is never the caller's, so with a client the events stay pending.
\<close>

theorem ambiguous_advance_observations:
  assumes "handoffRecord_validate rec = None" "State_ValidateH4 want = None"
    and "hs_HandoffID want = hs_HandoffID (hr_State rec)" "hs_SessionID want = hs_SessionID (hr_State rec)"
    and "bd_AuthorityEpoch b = hs_AuthorityEpoch want" "bd_DesiredOwner b = hs_DesiredOwner want"
    and "rp_io r = WriteUnsynced e # ios" "seqs \<noteq> []" "0 \<notin> set seqs"
  shows "\<exists>res r' v. advance_with_binding want rec b seqs r = (res, r') \<and> sr_Durability res = AmbiguousChange \<and>
    loadHandoffRecordLocked r' (hs_HandoffID want) = Inr v \<and> hr_State v = want \<and>
    rp_trace r' = (if hs_HumanClient want = None then rp_trace r @ map ObsCommitted seqs else rp_trace r)"
proof -
  obtain t r1 where n: "now r = (t, r1)" by fastforce
  then have r1: "rp_io r1 = WriteUnsynced e # ios" "rp_trace r1 = rp_trace r" "rp_handoffs r1 = rp_handoffs r"
    using assms(7) by (auto simp: now_def split: list.splits)
  let ?v = "rec\<lparr>hr_State := want, hr_UpdatedAt := monotonicHandoffTime t (hr_UpdatedAt rec)\<rparr>"
  let ?r2 = "r1\<lparr>rp_handoffs := put_file (hs_HandoffID want) ?v (rp_handoffs r1), rp_io := ios\<rparr>"
  have v: "handoffRecord_validate ?v = None" by (rule advanced_record_valid [OF assms(1-4)])
  have i: "rq_HandoffID (hr_Request rec) = hs_HandoffID want" using handoffRecord_validate_facts(1) [OF assms(1)] assms(3) by simp
  have l: "loadHandoffRecordLocked r3 (hs_HandoffID want) = Inr ?v" if "rp_handoffs r3 = rp_handoffs ?r2" for r3
    using that v i by (simp add: loadHandoffRecordLocked_def)
  have w: "replace_record r1 (hs_HandoffID want) ?v = (store_result AmbiguousChange (Some e), ?r2)"
    using r1 by (simp add: replace_record_def next_io_def atomic_Replace_def)
  let ?r' = "if hs_HumanClient want = None then fold commitObservationBestEffort seqs ?r2 else ?r2"
  have "advance_with_binding want rec b seqs r =
    ((store_result AmbiguousChange (Some e))\<lparr>sr_ObservationSeq := last seqs\<rparr>, ?r')"
    using assms(5,6,8) n w l [of ?r2]
    by (simp add: advance_with_binding_def finishHandoffObservations_def loaded_state_eq_def Let_def)
  moreover have "loadHandoffRecordLocked ?r' (hs_HandoffID want) = Inr ?v"
    by (rule l) (simp add: fold_commit_handoffs)
  moreover have "rp_trace ?r' = (if hs_HumanClient want = None then rp_trace r @ map ObsCommitted seqs else rp_trace r)"
    using assms(9) r1 by (simp add: fold_commit_trace)
  ultimately show ?thesis
    by (intro exI [of _ "(store_result AmbiguousChange (Some e))\<lparr>sr_ObservationSeq := last seqs\<rparr>"] exI [of _ ?r'] exI [of _ ?v]) simp
qed

definition example_record :: handoffRecord where
  "example_record = tx_Record (example_tx [])"

lemma example_record_valid: "handoffRecord_validate example_record = None"
  using example_tx_valid(1) handoffTransaction_validate_facts(1) by (simp add: example_record_def)

theorem ambiguous_advance_observations_witness:
  "\<exists>res r' v. advance_with_binding human_owned_state example_record (move_to example_binding example_initial 20) [8]
      (empty_repository\<lparr>rp_io := [WriteUnsynced (Errorf ''sync'')], rp_trace := [ObsPrepared 8]\<rparr>) = (res, r') \<and>
    loadHandoffRecordLocked r' ''h1'' = Inr v \<and> hr_State v = human_owned_state \<and> rp_trace r' = [ObsPrepared 8]"
proof -
  have e: "hs_HandoffID human_owned_state = hs_HandoffID (hr_State example_record)"
    "hs_SessionID human_owned_state = hs_SessionID (hr_State example_record)"
    "bd_AuthorityEpoch (move_to example_binding example_initial 20) = hs_AuthorityEpoch human_owned_state"
    "bd_DesiredOwner (move_to example_binding example_initial 20) = hs_DesiredOwner human_owned_state"
    "hs_HandoffID human_owned_state = ''h1''" "hs_HumanClient human_owned_state \<noteq> None"
    by (simp_all add: human_owned_state_def example_record_def example_tx_sel example_initial_def move_to_def)
  from ambiguous_advance_observations [OF example_record_valid _ e(1-4), of "empty_repository\<lparr>rp_io := [WriteUnsynced (Errorf ''sync'')],
      rp_trace := [ObsPrepared 8]\<rparr>" "Errorf ''sync''" "[]" "[8]"] human_owned_state_valid e(5,6)
  show ?thesis by (auto simp: State_ValidateH4_def)
qed

text \<open>
  C31: Repeating a handoff request while a later change of that handoff is still pending loses the
  change. The pending transaction is finished as if it created the handoff: the binding moves to the
  transaction's target, the transaction is removed and its state is returned to the caller, but the
  stored record keeps the old state.
\<close>

theorem reserve_replay_drops_advance:
  assumes "validateInitialHandoff req initial = None"
    and "loadHandoffTransactionLocked r (rq_HandoffID req) = Inr tx" "hr_Request (tx_Record tx) = req"
    and "loadHandoffRecordLocked r (rq_HandoffID req) = Inr rec" "hr_Request rec = req"
    and "loadDelegatedBindingLocked r (rq_SessionID req) = Inr (tx_PriorBinding tx)" "rp_io r = []"
  shows "\<exists>r'. ReserveHandoff sha None req initial r =
      ((Some (hr_State (tx_Record tx)), False, store_result DurableChange None), r') \<and>
    loadHandoffRecordLocked r' (rq_HandoffID req) = Inr rec \<and>
    loadHandoffTransactionLocked r' (rq_HandoffID req) = Inl ErrNotFound \<and>
    loadDelegatedBindingLocked r' (rq_SessionID req) = Inr (tx_TargetBinding tx)"
proof -
  let ?i = "rq_HandoffID req"
  from assms(2) have v: "handoffTransaction_validate tx = None" by (simp add: loadHandoffTransactionLocked_Inr)
  note f = handoffTransaction_validate_facts [OF v]
  have s: "bd_SessionID (tx_TargetBinding tx) = rq_SessionID req" "bd_SessionID (tx_PriorBinding tx) = rq_SessionID req"
    using f(3,4) handoffRecord_validate_facts(2) [OF f(1)] assms(3) by auto
  let ?r1 = "r\<lparr>rp_bindings := put_file (rq_SessionID req) (tx_TargetBinding tx) (rp_bindings r)\<rparr>"
  have m: "move_binding ''binding_transaction_mismatch'' tx r = (None, ?r1)"
    using assms(6,7) s by (simp add: move_binding_def replace_binding_def next_io_def atomic_Replace_def)
  have l: "loadHandoffRecordLocked ?r1 ?i = Inr rec" using assms(4) record_cong [of ?r1 r ?i] by simp
  obtain r' where d: "drop_transaction tx False ?r1 = ((Some (hr_State (tx_Record tx)), False, store_result DurableChange None), r')"
    using drop_ok [of ?r1 tx False] assms(7) by auto
  note df = drop_transaction_facts [OF d]
  have "ReserveHandoff sha None req initial r = ((Some (hr_State (tx_Record tx)), False, store_result DurableChange None), r')"
    using assms(1-3,5) v m l d by (simp add: ReserveHandoff_def finishHandoffTransactionLocked_def)
  moreover have "loadHandoffRecordLocked r' ?i = Inr rec" using l record_cong [OF df(2), of ?i] by simp
  moreover have "loadHandoffTransactionLocked r' ?i = Inl ErrNotFound" using df(5) assms(3) by simp
  moreover have "loadDelegatedBindingLocked r' (rq_SessionID req) = Inr (tx_TargetBinding tx)"
    using loadDelegatedBindingLocked_frame [OF df(1), of "rq_SessionID req"] f(2) s(1) by (simp add: loadDelegatedBindingLocked_def)
  ultimately show ?thesis by blast
qed

definition reclaimed_state :: HandoffState where
  "reclaimed_state = example_initial\<lparr>hs_Phase := PhaseAgentOwned, hs_AuthorityEpoch := 3, hs_DesiredOwner := OwnerAgent,
     hs_AgentIngress := IngressWritable\<rparr>"

definition reclaim_tx :: handoffTransaction where
  "reclaim_tx = \<lparr>tx_SchemaVersion = 1, tx_Record = example_record\<lparr>hr_State := reclaimed_state, hr_UpdatedAt := 50\<rparr>,
     tx_PriorBinding = move_to example_binding example_initial 20, tx_TargetBinding = reclaimed_binding, tx_ObservationSeqs = []\<rparr>"

theorem reserve_replay_drops_advance_witness:
  "\<exists>r'. ReserveHandoff (\<lambda>s. s) None example_request example_initial (empty_repository\<lparr>
       rp_handoffs := [(''h1'', Good example_record)], rp_transactions := [(''h1'', Good reclaim_tx)],
       rp_bindings := [(''s1'', Good (move_to example_binding example_initial 20))]\<rparr>) =
      ((Some reclaimed_state, False, store_result DurableChange None), r') \<and>
    loadHandoffRecordLocked r' ''h1'' = Inr example_record \<and> hr_State example_record \<noteq> reclaimed_state \<and>
    loadDelegatedBindingLocked r' ''s1'' = Inr reclaimed_binding"
proof -
  let ?r = "empty_repository\<lparr>rp_handoffs := [(''h1'', Good example_record)], rp_transactions := [(''h1'', Good reclaim_tx)],
       rp_bindings := [(''s1'', Good (move_to example_binding example_initial 20))]\<rparr>"
  have ids: "rq_HandoffID example_request = ''h1''" "rq_SessionID example_request = ''s1''"
    "hr_Request example_record = example_request" "hr_State example_record = example_initial"
    "hr_SchemaVersion example_record = 1" "hr_CreatedAt example_record = 20"
    by (simp_all add: example_request_def example_record_def example_tx_sel handoffStoreSchemaVersion_def)
  have st: "HandoffState_Validate reclaimed_state = None"
    by (simp add: HandoffState_Validate_def reclaimed_state_def example_initial_def TransferBoundary_Validate_def opaque_defs)
  have b: "Binding_Validate (move_to example_binding example_initial 20) = None" "Binding_Validate reclaimed_binding = None"
    using example_target_valid [of 2 OwnerHuman 20] example_target_valid [of 3 OwnerAgent 50]
    by (simp_all add: example_move monotonicHandoffTime_def reclaimed_binding_def)
  have tx: "handoffTransaction_validate reclaim_tx = None"
    using example_valid(1) st b
    by (simp add: handoffTransaction_validate_def handoffRecord_validate_def reclaim_tx_def ids handoffStoreSchemaVersion_def
        Request_ValidateH4_def State_ValidateH4_def IsZero_def)
      (simp add: reclaimed_state_def example_request_def example_initial_def move_to_def reclaimed_binding_def
        example_binding_def sameDelegatedBindingIdentity_def)
  have t: "loadHandoffTransactionLocked ?r ''h1'' = Inr reclaim_tx" "hr_Request (tx_Record reclaim_tx) = example_request"
    using tx by (simp_all add: loadHandoffTransactionLocked_def readPrivateJSON_def reclaim_tx_def ids)
  have r: "loadHandoffRecordLocked ?r ''h1'' = Inr example_record"
    using example_record_valid ids by (simp add: loadHandoffRecordLocked_def readPrivateJSON_def)
  have l: "loadDelegatedBindingLocked ?r ''s1'' = Inr (tx_PriorBinding reclaim_tx)" "rp_io ?r = []"
    using b by (simp_all add: loadDelegatedBindingLocked_def readPrivateJSON_def reclaim_tx_def example_tx_sel empty_repository_def)
  have d: "hr_State example_record \<noteq> reclaimed_state" "hr_State (tx_Record reclaim_tx) = reclaimed_state"
    "tx_TargetBinding reclaim_tx = reclaimed_binding"
    by (simp_all add: ids reclaim_tx_def) (simp add: reclaimed_state_def example_initial_def)
  from reserve_replay_drops_advance [OF example_valid(3), unfolded ids, OF t r ids(3) l] d show ?thesis by metis
qed

end
