(* ===== verification/ShellIntegration.thy ===== *)
theory ShellIntegration
  imports Handoff
begin

text \<open>
  Shell identities, requirements and proofs (internal/core/shellintegration) and the watcher's
  request and event (internal/app/shellintegration/ports.go), which decide whether a human
  handoff may be reclaimed automatically and a private interval released.
\<close>

section \<open>Shells (types.go)\<close>

datatype ShellFamily = ShellFish | ShellZsh | ShellBash | ShellNushell | ShellUnknown | OtherShell string

fun ShellFamily_Validate :: "ShellFamily \<Rightarrow> goerr option" where
  "ShellFamily_Validate (OtherShell s) = Some (Errorf ''invalid shell family'')"
| "ShellFamily_Validate _ = None"

definition shell_validOpaque :: "string \<Rightarrow> nat \<Rightarrow> bool" where
  "shell_validOpaque v n = bytes_headed is_alnum
     (\<lambda>c. is_alnum c \<or> c = CHR ''_'' \<or> c = CHR ''-'' \<or> c = CHR ''.'' \<or> c = CHR '':'') n v"

record ShellIdentity =
  si_Family :: ShellFamily
  si_RuntimeID :: string

definition ShellIdentity_Validate :: "ShellIdentity \<Rightarrow> goerr option" where
  "ShellIdentity_Validate v = first_error [
     ShellFamily_Validate (si_Family v),
     reject (\<not> shell_validOpaque (si_RuntimeID v) 256) (Errorf ''invalid shell runtime identity'')]"

section \<open>Requirements (requirement.go)\<close>

datatype RequirementKind = RequirementEnvironmentExportedNonempty | OtherRequirement string

record Requirement =
  re_Kind :: RequirementKind
  re_Name :: string

definition Requirement_Validate :: "Requirement \<Rightarrow> goerr option" where
  "Requirement_Validate v = first_error [
     reject (re_Kind v \<noteq> RequirementEnvironmentExportedNonempty) (Errorf ''invalid shell requirement kind''),
     reject (\<not> validEnvironmentName (re_Name v)) (Errorf ''invalid shell requirement name'')]"

datatype RequirementState = RequirementSatisfied | RequirementNotSatisfied | RequirementUnavailable | OtherRequirementState string

fun RequirementState_Validate :: "RequirementState \<Rightarrow> goerr option" where
  "RequirementState_Validate (OtherRequirementState s) = Some (Errorf ''invalid shell requirement state'')"
| "RequirementState_Validate _ = None"

datatype RequirementQuality = RequirementQualityExactShellAdapter | RequirementQualityManual | OtherRequirementQuality string

fun RequirementQuality_Validate :: "RequirementQuality \<Rightarrow> goerr option" where
  "RequirementQuality_Validate (OtherRequirementQuality s) = Some (Errorf ''invalid shell requirement quality'')"
| "RequirementQuality_Validate _ = None"

record RequirementResult =
  rr_Requirement :: Requirement
  rr_State :: RequirementState
  rr_Quality :: RequirementQuality
  rr_SafeBoundary :: bool
  rr_ObservedAt :: time

definition RequirementResult_Validate :: "RequirementResult \<Rightarrow> goerr option" where
  "RequirementResult_Validate v = first_error [
     Requirement_Validate (rr_Requirement v),
     RequirementState_Validate (rr_State v),
     RequirementQuality_Validate (rr_Quality v),
     reject (IsZero (rr_ObservedAt v)) (Errorf ''shell requirement observation missing''),
     reject (rr_State v \<noteq> RequirementUnavailable \<and> \<not> rr_SafeBoundary v)
       (Errorf ''shell requirement result lacks safe boundary'')]"

section \<open>Proofs (proof.go)\<close>

datatype BoundaryQuality =
    BoundaryQualityShellPrompt
  | BoundaryQualityProcessBoundary
  | BoundaryQualityHumanAttested
  | OtherBoundaryQuality string

fun BoundaryQuality_Validate :: "BoundaryQuality \<Rightarrow> goerr option" where
  "BoundaryQuality_Validate (OtherBoundaryQuality s) = Some (Errorf ''invalid shell boundary quality'')"
| "BoundaryQuality_Validate _ = None"

fun boundary_quality_string :: "BoundaryQuality \<Rightarrow> string" where
  "boundary_quality_string BoundaryQualityShellPrompt = ''shell_prompt''"
| "boundary_quality_string BoundaryQualityProcessBoundary = ''process_boundary''"
| "boundary_quality_string BoundaryQualityHumanAttested = ''human_attested''"
| "boundary_quality_string (OtherBoundaryQuality s) = s"

record BoundaryProof =
  bp_HandoffID :: string
  bp_AuthorityEpoch :: AuthorityEpoch
  bp_Shell :: ShellIdentity
  bp_Quality :: BoundaryQuality
  bp_ObservedAt :: time

definition BoundaryProof_Validate :: "BoundaryProof \<Rightarrow> goerr option" where
  "BoundaryProof_Validate v = first_error [
     reject (\<not> shell_validOpaque (bp_HandoffID v) 128) (Errorf ''invalid boundary handoff identity''),
     epoch_Validate (bp_AuthorityEpoch v),
     ShellIdentity_Validate (bp_Shell v),
     BoundaryQuality_Validate (bp_Quality v),
     reject (bp_Quality v = BoundaryQualityShellPrompt \<and> si_Family (bp_Shell v) = ShellUnknown)
       (Errorf ''shell prompt boundary requires known shell''),
     reject (IsZero (bp_ObservedAt v)) (Errorf ''boundary proof observation missing'')]"

definition BoundaryProof_CurrentFor :: "BoundaryProof \<Rightarrow> string \<Rightarrow> AuthorityEpoch \<Rightarrow> ShellIdentity \<Rightarrow> bool" where
  "BoundaryProof_CurrentFor v i epoch shell \<longleftrightarrow> BoundaryProof_Validate v = None \<and> ShellIdentity_Validate shell = None \<and>
     bp_HandoffID v = i \<and> bp_AuthorityEpoch v = epoch \<and> bp_Shell v = shell"

record PrivacyReleaseProof =
  prp_HandoffID :: string
  prp_AuthorityEpoch :: AuthorityEpoch
  prp_Shell :: ShellIdentity
  prp_Boundary :: string
  prp_ForwardOnly :: bool
  prp_ObservedAt :: time

definition PrivacyReleaseProof_Validate :: "PrivacyReleaseProof \<Rightarrow> goerr option" where
  "PrivacyReleaseProof_Validate v = first_error [
     reject (\<not> shell_validOpaque (prp_HandoffID v) 128 \<or> \<not> shell_validOpaque (prp_Boundary v) 256)
       (Errorf ''invalid privacy release identity''),
     epoch_Validate (prp_AuthorityEpoch v),
     ShellIdentity_Validate (prp_Shell v),
     reject (si_Family (prp_Shell v) = ShellUnknown) (Errorf ''privacy release requires known shell''),
     reject (\<not> prp_ForwardOnly v) (Errorf ''privacy release must be forward only''),
     reject (IsZero (prp_ObservedAt v)) (Errorf ''privacy release observation missing'')]"

section \<open>Watchers (app/shellintegration/ports.go, identity.go)\<close>

definition validFactID :: "string \<Rightarrow> nat \<Rightarrow> bool" where
  "validFactID v n = bytes_over (\<lambda>c. is_alnum c \<or> c = CHR ''_'' \<or> c = CHR ''-'' \<or> c = CHR ''.'' \<or> c = CHR '':'') n v"

record WatchRequest =
  wr_HandoffID :: string
  wr_AuthorityEpoch :: AuthorityEpoch
  wr_Shell :: ShellIdentity
  wr_Requirement :: Requirement

definition WatchRequest_Validate :: "WatchRequest \<Rightarrow> goerr option" where
  "WatchRequest_Validate v = first_error [
     reject (\<not> validFactID (wr_HandoffID v) 128) (Errorf ''invalid watcher handoff identity''),
     epoch_Validate (wr_AuthorityEpoch v),
     ShellIdentity_Validate (wr_Shell v),
     reject (si_Family (wr_Shell v) = ShellUnknown) (Errorf ''watcher requires exact shell family''),
     Requirement_Validate (wr_Requirement v)]"

record WatchEvent =
  we_Result :: RequirementResult
  we_Boundary :: BoundaryProof

definition WatchEvent_Validate :: "WatchEvent \<Rightarrow> WatchRequest \<Rightarrow> goerr option" where
  "WatchEvent_Validate v req = first_error [
     WatchRequest_Validate req,
     RequirementResult_Validate (we_Result v),
     reject (rr_Requirement (we_Result v) \<noteq> wr_Requirement req \<or>
             rr_Quality (we_Result v) \<noteq> RequirementQualityExactShellAdapter)
       (Errorf ''watcher result authority mismatch''),
     BoundaryProof_Validate (we_Boundary v),
     reject (\<not> BoundaryProof_CurrentFor (we_Boundary v) (wr_HandoffID req) (wr_AuthorityEpoch req) (wr_Shell req))
       (Errorf ''watcher boundary authority mismatch'')]"

end
