(* ===== verification/Acts.thy ===== *)
theory Acts
  imports Failure
begin

text \<open>
  Computations of the application services.  A Go method that calls other components returns a
  value or an error, sometimes both, or panics; an action runs it on an explicit state.
\<close>

datatype 'a outcome = Ok 'a | Err goerr | ErrWith 'a goerr | Panic

type_synonym ('s, 'a) act = "'s \<Rightarrow> 'a outcome \<times> 's"

definition ret :: "'a \<Rightarrow> ('s, 'a) act" where
  "ret x s = (Ok x, s)"

definition raise :: "goerr \<Rightarrow> ('s, 'a) act" where
  "raise e s = (Err e, s)"

text \<open>A value returned together with an error.\<close>

definition raise_with :: "'a \<Rightarrow> goerr \<Rightarrow> ('s, 'a) act" where
  "raise_with x e s = (ErrWith x e, s)"

definition panic :: "('s, 'a) act" where
  "panic s = (Panic, s)"

text \<open>\<open>x, err := m(); if err != nil { return zero, err }; f(x)\<close>\<close>

definition seq_act :: "('s, 'a) act \<Rightarrow> ('a \<Rightarrow> ('s, 'b) act) \<Rightarrow> ('s, 'b) act" where
  "seq_act m f s =
     (case m s of
        (Ok x, s') \<Rightarrow> f x s'
      | (Err e, s') \<Rightarrow> (Err e, s')
      | (ErrWith x e, s') \<Rightarrow> (Err e, s')
      | (Panic, s') \<Rightarrow> (Panic, s'))"

text \<open>\<open>x, err := m()\<close> with the error handled by the continuation.\<close>

definition try_act :: "('s, 'a) act \<Rightarrow> ('a result \<Rightarrow> ('s, 'b) act) \<Rightarrow> ('s, 'b) act" where
  "try_act m f s =
     (case m s of
        (Ok x, s') \<Rightarrow> f (Inr x) s'
      | (Err e, s') \<Rightarrow> f (Inl e) s'
      | (ErrWith x e, s') \<Rightarrow> f (Inl e) s'
      | (Panic, s') \<Rightarrow> (Panic, s'))"

text \<open>\<open>x, err := m(); if err == nil { f(x) }; return x, err\<close>\<close>

definition pass_act :: "('s, 'a) act \<Rightarrow> ('a \<Rightarrow> ('s, 'a) act) \<Rightarrow> ('s, 'a) act" where
  "pass_act m f s = (case m s of (Ok x, s') \<Rightarrow> f x s' | r \<Rightarrow> r)"

definition fail_if :: "bool \<Rightarrow> goerr \<Rightarrow> ('s, 'a) act \<Rightarrow> ('s, 'a) act" where
  "fail_if bad e k = (if bad then raise e else k)"

definition normalize_err :: "goerr \<Rightarrow> goerr" where
  "normalize_err e = (case Normalize (Some e) of Some x \<Rightarrow> x | None \<Rightarrow> e)"

text \<open>\<open>return zero, failure.Normalize(err)\<close>\<close>

definition normalized :: "('s, 'a) act \<Rightarrow> ('s, 'a) act" where
  "normalized m s =
     (case m s of
        (Err e, s') \<Rightarrow> (Err (normalize_err e), s')
      | (ErrWith x e, s') \<Rightarrow> (Err (normalize_err e), s')
      | r \<Rightarrow> r)"

definition check_valid :: "goerr option \<Rightarrow> ('s, 'a) act \<Rightarrow> ('s, 'a) act" where
  "check_valid v k = (case v of Some e \<Rightarrow> raise e | None \<Rightarrow> k)"

lemmas act_defs = ret_def raise_def raise_with_def panic_def seq_act_def try_act_def pass_act_def fail_if_def normalized_def check_valid_def

end
