(* ===== verification/HandoffService.thy ===== *)
theory HandoffService
  imports HandoffStore ShellIntegration Acts
begin

text \<open>
  The coordinator of interactive handoffs (internal/app/interactivehandoff).  The Go interfaces it
  is built on (\<open>Store\<close>, \<open>Runtime\<close>, \<open>AgentIngressFencer\<close>, \<open>Presenter\<close>, \<open>ReadinessPreparer\<close>) are
  records of functions on a world \<open>'w\<close>; the coordinator's own memory (attachments and
  preparations) is kept beside the world.  Operations on one handoff are serialised by
  \<open>lockMutation\<close>, so each operation is a step.
\<close>

section \<open>Interfaces (ports.go, privacy.go, readiness.go)\<close>

record AgentIngressProof =
  ip_AuthorityEpoch :: AuthorityEpoch
  ip_ProviderGeneration :: string
  ip_Fenced :: bool

text \<open>The streams of an attach request belong to the caller; its environment is passed on.\<close>

record HumanAttachSpec =
  as_Environment :: "string list"

record ReadinessRequest =
  rd_HandoffID :: string
  rd_SessionID :: string
  rd_AuthorityEpoch :: AuthorityEpoch
  rd_ProviderRef :: ProviderRef
  rd_ProviderGeneration :: string
  rd_Requirement :: Requirement

text \<open>A prepared watcher is identified by a number; \<open>None\<close> is the nil watcher.\<close>

record PreparedReadiness =
  pd_Shell :: ShellIdentity
  pd_Watcher :: "nat option"

definition PreparedReadiness_Validate :: "PreparedReadiness \<Rightarrow> goerr option" where
  "PreparedReadiness_Validate v = first_error [
     ShellIdentity_Validate (pd_Shell v),
     reject (si_Family (pd_Shell v) = ShellUnknown \<or> pd_Watcher v = None) (Errorf ''exact shell readiness unavailable'')]"

record 'w Store =
  st_FindHandoff :: "string \<Rightarrow> 'w \<Rightarrow> (Request \<times> HandoffState) option result \<times> 'w"
  st_ReserveHandoff :: "Request \<Rightarrow> HandoffState \<Rightarrow> 'w \<Rightarrow> (HandoffState \<times> bool) result \<times> 'w"
  st_AdvanceHandoff :: "HandoffState \<Rightarrow> 'w \<Rightarrow> unit result \<times> 'w"
  st_LoadHandoff :: "string \<Rightarrow> 'w \<Rightarrow> (Request \<times> HandoffState) result \<times> 'w"
  st_RecoverHandoff :: "string \<Rightarrow> 'w \<Rightarrow> HandoffState result \<times> 'w"
  st_LoadDelegatedBinding :: "string \<Rightarrow> 'w \<Rightarrow> Binding result \<times> 'w"
  st_LoadDelegatedProviderRef :: "string \<Rightarrow> 'w \<Rightarrow> ProviderRef result \<times> 'w"
  st_ReserveControlSignal :: "ControlSignal \<Rightarrow> 'w \<Rightarrow> (ControlSignal \<times> string \<times> bool) result \<times> 'w"
  st_CompleteControlSignal :: "ControlSignal \<Rightarrow> string \<Rightarrow> 'w \<Rightarrow> string result \<times> 'w"
  st_MarkHumanWriteAuthorityGranted :: "string \<Rightarrow> 'w \<Rightarrow> unit result \<times> 'w"
  st_LoadInputAuthorityProvenance :: "string \<Rightarrow> 'w \<Rightarrow> string result \<times> 'w"
  st_MarkPrivateCapture :: "(string \<Rightarrow> 'w \<Rightarrow> unit result \<times> 'w) option"

record 'w PrivacyRuntime =
  pv_ArmPrivateObservation :: "ProviderRef \<Rightarrow> PrivacySpec \<Rightarrow> 'w \<Rightarrow> PrivacyHandle result \<times> 'w"
  pv_ProvePrivateObservation :: "ProviderRef \<Rightarrow> PrivacyHandle \<Rightarrow> 'w \<Rightarrow> PrivateObservationProof result \<times> 'w"
  pv_ReleasePrivateObservation :: "ProviderRef \<Rightarrow> PrivacyHandle \<Rightarrow> PrivacyReleaseProof \<Rightarrow> 'w \<Rightarrow> unit result \<times> 'w"

record 'w Runtime =
  rt_Inspect :: "ProviderRef \<Rightarrow> 'w \<Rightarrow> Observation result \<times> 'w"
  rt_AttachHuman :: "ProviderRef \<Rightarrow> HumanAttachSpec \<Rightarrow> 'w \<Rightarrow> HumanAttachResult result \<times> 'w"
  rt_SetHumanWritable :: "ProviderRef \<Rightarrow> ProviderClientRef \<Rightarrow> bool \<Rightarrow> 'w \<Rightarrow> unit result \<times> 'w"
  rt_FenceHumanIngress :: "ProviderRef \<Rightarrow> ProviderClientRef \<Rightarrow> AuthorityEpoch \<Rightarrow> 'w \<Rightarrow> IngressFenceProof result \<times> 'w"
  rt_InspectHumanClient :: "ProviderRef \<Rightarrow> ProviderClientRef \<Rightarrow> 'w \<Rightarrow> HumanClientObservation result \<times> 'w"
  rt_ArmWritableHumanControl :: "ProviderRef \<Rightarrow> ProviderClientRef \<Rightarrow> HumanControlSpec \<Rightarrow> 'w \<Rightarrow> unit result \<times> 'w"
  rt_PrepareReadOnlyLocalControl :: "ProviderRef \<Rightarrow> ProviderClientRef \<Rightarrow> 'w \<Rightarrow> unit result \<times> 'w"
  rt_Signal :: "ProviderRef \<Rightarrow> string \<Rightarrow> 'w \<Rightarrow> unit result \<times> 'w"
  rt_privacy :: "'w PrivacyRuntime option"

text \<open>
  \<open>sv_ctxErr\<close> is \<open>ctx.Err()\<close>; the hint passed to the presenter is terminal evidence of a type
  \<open>'h\<close> that the coordinator does not look into.
\<close>

record ('w, 'h) Service =
  sv_store :: "'w Store"
  sv_runtime :: "'w Runtime"
  sv_fencer :: "string \<Rightarrow> AuthorityEpoch \<Rightarrow> 'w \<Rightarrow> AgentIngressProof result \<times> 'w"
  sv_presenter :: "(string \<Rightarrow> 'h option \<Rightarrow> 'w \<Rightarrow> unit result \<times> 'w) option"
  sv_readiness :: "(ReadinessRequest \<Rightarrow> 'w \<Rightarrow> PreparedReadiness result \<times> 'w) option"
  sv_h4Enabled :: bool
  sv_ctxErr :: "'w \<Rightarrow> goerr option"

section \<open>The coordinator's memory\<close>

record privateLease =
  pl_spec :: PrivacySpec
  pl_handle :: PrivacyHandle
  pl_proof :: PrivateObservationProof

record handoffPreparation =
  hp_epoch :: AuthorityEpoch
  hp_readiness :: "PreparedReadiness option"
  hp_privacy :: "privateLease option"
  hp_watching :: bool

record 'w Env =
  ev_world :: 'w
  ev_attachments :: "string \<Rightarrow> HumanAttachResult option"
  ev_preparations :: "string \<Rightarrow> handoffPreparation option"

definition ask :: "('w \<Rightarrow> 'a result \<times> 'w) \<Rightarrow> ('w Env, 'a) act" where
  "ask f s = (case f (ev_world s) of
      (Inl e, w) \<Rightarrow> (Err e, s\<lparr>ev_world := w\<rparr>)
    | (Inr x, w) \<Rightarrow> (Ok x, s\<lparr>ev_world := w\<rparr>))"

definition demand :: "('w \<Rightarrow> 'a result \<times> 'w) \<Rightarrow> ('w Env, 'a) act" where
  "demand f = normalized (ask f)"

definition memory :: "('w Env \<Rightarrow> 'a) \<Rightarrow> ('w Env, 'a) act" where
  "memory f s = (Ok (f s), s)"

definition update :: "('w Env \<Rightarrow> 'w Env) \<Rightarrow> ('w Env, unit) act" where
  "update f s = (Ok (), f s)"

definition pendingAttachment :: "string \<Rightarrow> 'w Env \<Rightarrow> HumanAttachResult" where
  "pendingAttachment i s = (case ev_attachments s i of Some a \<Rightarrow> a
     | None \<Rightarrow> \<lparr>at_ClientRef = \<lparr>cr_Ref = []\<rparr>, at_ObservedOwner = OtherOwner []\<rparr>)"

definition rememberAttachment :: "string \<Rightarrow> HumanAttachResult \<Rightarrow> 'w Env \<Rightarrow> 'w Env" where
  "rememberAttachment i a s = s\<lparr>ev_attachments := (ev_attachments s)(i \<mapsto> a)\<rparr>"

definition forgetAttachment :: "string \<Rightarrow> 'w Env \<Rightarrow> 'w Env" where
  "forgetAttachment i s = s\<lparr>ev_attachments := (ev_attachments s)(i := None)\<rparr>"

definition ensurePreparation :: "string \<Rightarrow> AuthorityEpoch \<Rightarrow> 'w Env \<Rightarrow> 'w Env" where
  "ensurePreparation i epoch s =
     (case ev_preparations s i of
        Some p \<Rightarrow> if hp_epoch p = epoch then s
          else s\<lparr>ev_preparations := (ev_preparations s)(i \<mapsto> \<lparr>hp_epoch = epoch, hp_readiness = None,
            hp_privacy = None, hp_watching = False\<rparr>)\<rparr>
      | None \<Rightarrow> s\<lparr>ev_preparations := (ev_preparations s)(i \<mapsto> \<lparr>hp_epoch = epoch, hp_readiness = None,
            hp_privacy = None, hp_watching = False\<rparr>)\<rparr>)"

definition preparedReadiness :: "string \<Rightarrow> AuthorityEpoch \<Rightarrow> 'w Env \<Rightarrow> PreparedReadiness option" where
  "preparedReadiness i epoch s =
     (case ev_preparations s i of
        None \<Rightarrow> None
      | Some p \<Rightarrow> if hp_epoch p \<noteq> epoch then None else hp_readiness p)"

definition cancelReadiness :: "string \<Rightarrow> 'w Env \<Rightarrow> 'w Env" where
  "cancelReadiness i s =
     (case ev_preparations s i of
        None \<Rightarrow> s
      | Some p \<Rightarrow> s\<lparr>ev_preparations := (ev_preparations s)(i \<mapsto> p\<lparr>hp_watching := False, hp_readiness := None\<rparr>)\<rparr>)"

definition privateLeaseFor :: "string \<Rightarrow> AuthorityEpoch \<Rightarrow> 'w Env \<Rightarrow> privateLease option" where
  "privateLeaseFor i epoch s =
     (case ev_preparations s i of
        None \<Rightarrow> None
      | Some p \<Rightarrow> if hp_epoch p \<noteq> epoch then None else hp_privacy p)"

definition requirementFor :: "Request \<Rightarrow> Requirement option" where
  "requirementFor req =
     (if cp_Kind (rq_Completion req) \<noteq> CompletionEnvironmentExportedNonempty then None
      else Some \<lparr>re_Kind = RequirementEnvironmentExportedNonempty, re_Name = cp_Name (rq_Completion req)\<rparr>)"

text \<open>The watcher runs on its own; starting it only marks it as running.\<close>

definition startAutomaticReadiness :: "Request \<Rightarrow> HandoffState \<Rightarrow> 'w Env \<Rightarrow> 'w Env" where
  "startAutomaticReadiness req st s =
     (if requirementFor req = None then s
      else if preparedReadiness (hs_HandoffID st) (hs_AuthorityEpoch st) s = None then s
      else (case ev_preparations s (hs_HandoffID st) of
          None \<Rightarrow> s
        | Some p \<Rightarrow>
            if hp_epoch p \<noteq> hs_AuthorityEpoch st \<or> hp_readiness p = None \<or> hp_watching p then s
            else s\<lparr>ev_preparations := (ev_preparations s)(hs_HandoffID st \<mapsto> p\<lparr>hp_watching := True\<rparr>)\<rparr>))"

definition finishReadinessWatcher :: "string \<Rightarrow> AuthorityEpoch \<Rightarrow> nat \<Rightarrow> 'w Env \<Rightarrow> 'w Env" where
  "finishReadinessWatcher i epoch watcher s =
     (case ev_preparations s i of
        None \<Rightarrow> s
      | Some p \<Rightarrow>
          if hp_epoch p \<noteq> epoch then s
          else s\<lparr>ev_preparations := (ev_preparations s)(i \<mapsto> p\<lparr>hp_watching := False,
            hp_readiness := (case hp_readiness p of
                Some r \<Rightarrow> if pd_Watcher r = Some watcher then None else Some r | None \<Rightarrow> None)\<rparr>)\<rparr>)"

section \<open>Errors\<close>

definition not_pending :: "string \<Rightarrow> goerr" where
  "not_pending i = failure_New HandoffNotPending [(''handoff_id'', i)] None"

definition handoff_conflict :: "string \<Rightarrow> goerr" where
  "handoff_conflict i = failure_New HandoffConflict [(''handoff_id'', i)] None"

definition reclaim_blocked :: "HandoffState \<Rightarrow> string \<Rightarrow> goerr" where
  "reclaim_blocked st reason = failure_New HandoffReclaimBlocked [(''handoff_id'', hs_HandoffID st), (''reason'', reason)] None"

definition reclaim_blocked_phase :: "HandoffState \<Rightarrow> string \<Rightarrow> goerr" where
  "reclaim_blocked_phase st reason = failure_New HandoffReclaimBlocked
     [(''handoff_id'', hs_HandoffID st), (''reason'', reason), (''phase'', phase_string (hs_Phase st))] None"

definition client_not_proven :: "HandoffState \<Rightarrow> string \<Rightarrow> goerr" where
  "client_not_proven st reason = failure_New HumanClientNotProven [(''handoff_id'', hs_HandoffID st), (''reason'', reason)] None"

definition barrier_failed :: "string \<Rightarrow> string \<Rightarrow> goerr option \<Rightarrow> goerr" where
  "barrier_failed i reason cause = failure_New PrivateOutputBarrierFailed [(''handoff_id'', i), (''reason'', reason)] cause"

definition control_not_owned :: "string \<Rightarrow> Owner \<Rightarrow> AuthorityEpoch \<Rightarrow> goerr" where
  "control_not_owned sid owner epoch = failure_New SessionControlNotOwned
     [(''session_id'', sid), (''owner'', owner_string owner), (''required_owner'', owner_string OwnerAgent),
      (''current_epoch'', sprint_uint epoch)] None"

definition public_code :: "goerr \<Rightarrow> string" where
  "public_code e = fl_Code (Public (Some e))"

definition exactClientMissing :: "goerr \<Rightarrow> bool" where
  "exactClientMissing e =
     (case as_failure e of
        Some t \<Rightarrow> fl_Code t = HandoffClientLost \<and> map_of (fl_Details t) ''reason'' = Some ''client_missing''
      | None \<Rightarrow> False)"

text \<open>\<open>errors.Is(err, code)\<close> for a failure code.\<close>

definition lost_or_unproven :: "goerr \<Rightarrow> bool" where
  "lost_or_unproven e \<longleftrightarrow> is_code e HandoffClientLost \<or> is_code e HumanClientNotProven"

definition normalizePrivateBarrierError :: "string \<Rightarrow> string \<Rightarrow> goerr \<Rightarrow> goerr" where
  "normalizePrivateBarrierError i reason e =
     (if public_code e = PrivateOutputBarrierFailed then normalize_err e else barrier_failed i reason (Some e))"

definition newShellIntegrationUnavailable :: "goerr \<Rightarrow> goerr" where
  "newShellIntegrationUnavailable e =
     (if public_code e \<in> {''shell_integration_unavailable'', ''shell_identity_changed'', ''requirement_unsupported''}
      then normalize_err e
      else failure_New ''shell_integration_unavailable'' [(''reason'', ''preparation_failed'')] (Some e))"

section \<open>Requests (service.go)\<close>

text \<open>\<open>lockMutation\<close>: the FNV-1a hash of the identifier selects one of 64 locks.\<close>

definition lockMutation :: "string \<Rightarrow> nat" where
  "lockMutation i = unat (fold (\<lambda>c h. (xor h (of_char c)) * 1099511628211) i (1469598103934665603 :: uint64) mod 64)"

definition advance :: "('w, 'h) Service \<Rightarrow> HandoffState \<Rightarrow> ('w Env, unit) act" where
  "advance S st = check_valid (State_ValidateH4 st) (demand (st_AdvanceHandoff (sv_store S) st))"

definition find_handoff :: "('w, 'h) Service \<Rightarrow> string \<Rightarrow> ('w Env, Request \<times> HandoffState) act" where
  "find_handoff S i = seq_act (demand (st_FindHandoff (sv_store S) i)) (\<lambda>found.
     case found of None \<Rightarrow> raise (not_pending i) | Some rs \<Rightarrow> ret rs)"

definition finishAgentFence :: "('w, 'h) Service \<Rightarrow> HandoffState \<Rightarrow> ('w Env, HandoffState) act" where
  "finishAgentFence S st =
     seq_act (demand (sv_fencer S (hs_SessionID st) (hs_AuthorityEpoch st))) (\<lambda>proof.
     fail_if (\<not> ip_Fenced proof \<or> ip_AuthorityEpoch proof \<noteq> hs_AuthorityEpoch st \<or> ip_ProviderGeneration proof = [] \<or>
              ip_ProviderGeneration proof \<noteq> hs_ProviderGeneration st) (reclaim_blocked st ''agent_ingress_fence_unproven'')
     (let st1 = st\<lparr>hs_Phase := PhaseHumanConnecting, hs_AgentIngress := IngressFenced,
                   hs_TransferBoundary := \<lparr>tb_Kind = BoundaryProviderOrdered, tb_Established = True\<rparr>\<rparr>
      in seq_act (advance S st1) (\<lambda>_. ret st1)))"

definition preflightAgentOwned :: "('w, 'h) Service \<Rightarrow> string \<Rightarrow> ('w Env, Binding \<times> ProviderRef \<times> Observation) act" where
  "preflightAgentOwned S sid =
     seq_act (demand (st_LoadDelegatedBinding (sv_store S) sid)) (\<lambda>binding.
     fail_if (bd_Lifecycle binding \<noteq> LifecycleLive \<or> bd_DesiredOwner binding \<noteq> OwnerAgent)
       (control_not_owned sid (bd_DesiredOwner binding) (bd_AuthorityEpoch binding))
     (seq_act (demand (st_LoadDelegatedProviderRef (sv_store S) sid)) (\<lambda>ref.
      seq_act (demand (rt_Inspect (sv_runtime S) ref)) (\<lambda>obs.
      fail_if (ob_Provider obs \<noteq> bd_ProviderIdentity binding \<or> \<not> ob_ProviderCurrent obs \<or> ob_Owner obs \<noteq> OwnerAgent \<or>
               ob_ProviderGeneration obs = [])
        (control_not_owned sid (ob_Owner obs) (bd_AuthorityEpoch binding))
      (ret (binding, ref, obs))))))"

definition presentAfterH2 :: "('w, 'h) Service \<Rightarrow> HandoffState \<Rightarrow> 'h option \<Rightarrow> ('w Env, HandoffState) act" where
  "presentAfterH2 S st hint =
     (case sv_presenter S of
        None \<Rightarrow> ret st
      | Some present \<Rightarrow>
          if hs_Phase st \<noteq> PhaseHumanConnecting \<or> hs_HumanClient st \<noteq> None then ret st
          else try_act (ask (present (hs_HandoffID st) hint)) (\<lambda>r.
            case r of
              Inr _ \<Rightarrow> ret st
            | Inl e \<Rightarrow>
                seq_act (memory (\<lambda>s. sv_ctxErr S (ev_world s))) (\<lambda>ctx.
                case ctx of
                  Some c \<Rightarrow> raise_with st c
                | None \<Rightarrow>
                    if public_code e \<in> {''terminal_launcher_unavailable'', ''terminal_launch_failed'',
                         ''terminal_launch_unknown'', ''terminal_identity_ambiguous''}
                    then ret st else raise_with st (normalize_err e))))"

section \<open>Private observation and readiness (privacy.go, readiness.go)\<close>

definition prepareReadiness :: "('w, 'h) Service \<Rightarrow> Request \<Rightarrow> HandoffState \<Rightarrow> ProviderRef \<Rightarrow> ('w Env, unit) act" where
  "prepareReadiness S req st ref =
     (case requirementFor req of
        None \<Rightarrow> ret ()
      | Some requirement \<Rightarrow>
          (case sv_readiness S of
             None \<Rightarrow> raise (failure_New ''shell_integration_unavailable'' [(''reason'', ''readiness_unconfigured'')] None)
           | Some prepare \<Rightarrow>
               seq_act (update (ensurePreparation (hs_HandoffID st) (hs_AuthorityEpoch st))) (\<lambda>_.
               seq_act (memory (preparedReadiness (hs_HandoffID st) (hs_AuthorityEpoch st))) (\<lambda>known.
               if known \<noteq> None then ret ()
               else try_act (ask (prepare \<lparr>rd_HandoffID = rq_HandoffID req, rd_SessionID = rq_SessionID req,
                    rd_AuthorityEpoch = hs_AuthorityEpoch st, rd_ProviderRef = ref,
                    rd_ProviderGeneration = hs_ProviderGeneration st, rd_Requirement = requirement\<rparr>)) (\<lambda>r.
                 case r of
                   Inl e \<Rightarrow> raise (newShellIntegrationUnavailable e)
                 | Inr prepared \<Rightarrow>
                     (case PreparedReadiness_Validate prepared of
                        Some e \<Rightarrow> if pd_Watcher prepared = None then panic else raise (newShellIntegrationUnavailable e)
                      | None \<Rightarrow>
                          update (\<lambda>s. s\<lparr>ev_preparations := (ev_preparations s)(hs_HandoffID st :=
                            map_option (\<lambda>p. p\<lparr>hp_readiness := Some prepared\<rparr>) (ev_preparations s (hs_HandoffID st)))\<rparr>)))))))"

definition private_proof_bad :: "PrivateObservationProof \<Rightarrow> PrivacyHandle \<Rightarrow> HandoffState \<Rightarrow> bool" where
  "private_proof_bad proof handle st \<longleftrightarrow> PrivateObservationProof_Validate proof \<noteq> None \<or> pp_Handle proof \<noteq> handle \<or>
     pp_ProviderGeneration proof \<noteq> hs_ProviderGeneration st \<or> \<not> pp_PrivateFromFirstByte proof"

definition mark_private :: "('w, 'h) Service \<Rightarrow> HandoffState \<Rightarrow> ('w Env, HandoffState) act" where
  "mark_private S st =
     (case st_MarkPrivateCapture (sv_store S) of
        None \<Rightarrow> raise (barrier_failed (hs_HandoffID st) ''capture_marker_unavailable'' None)
      | Some mark \<Rightarrow>
          try_act (ask (mark (hs_SessionID st))) (\<lambda>r. case r of
              Inl e \<Rightarrow> raise (barrier_failed (hs_HandoffID st) ''capture_marker_failed'' (Some e))
            | Inr _ \<Rightarrow> ret st))"

definition preparePrivate :: "('w, 'h) Service \<Rightarrow> HandoffState \<Rightarrow> ProviderRef \<Rightarrow> ('w Env, HandoffState) act" where
  "preparePrivate S st ref =
     (case rt_privacy (sv_runtime S) of
        None \<Rightarrow> raise (barrier_failed (hs_HandoffID st) ''provider_unconfigured'' None)
      | Some P \<Rightarrow>
          let spec = \<lparr>ps_HandoffID = hs_HandoffID st, ps_AuthorityEpoch = hs_AuthorityEpoch st\<rparr> in
          try_act (ask (pv_ArmPrivateObservation P ref spec)) (\<lambda>armed. case armed of
            Inl e \<Rightarrow> raise (normalizePrivateBarrierError (hs_HandoffID st) ''arm'' e)
          | Inr handle \<Rightarrow>
          try_act (ask (pv_ProvePrivateObservation P ref handle)) (\<lambda>proven. case proven of
            Inl e \<Rightarrow> raise (normalizePrivateBarrierError (hs_HandoffID st) ''prove'' e)
          | Inr proof \<Rightarrow>
          fail_if (private_proof_bad proof handle st)
            (barrier_failed (hs_HandoffID st) ''proof_unproven'' (PrivateObservationProof_Validate proof))
          (seq_act (update (ensurePreparation (hs_HandoffID st) (hs_AuthorityEpoch st))) (\<lambda>_.
           seq_act (update (\<lambda>s. s\<lparr>ev_preparations := (ev_preparations s)(hs_HandoffID st :=
             map_option (\<lambda>p. p\<lparr>hp_privacy := Some \<lparr>pl_spec = spec, pl_handle = handle, pl_proof = proof\<rparr>\<rparr>)
               (ev_preparations s (hs_HandoffID st)))\<rparr>)) (\<lambda>_.
           if hs_PrivacyState st \<noteq> PrivacyPrivate \<or> hs_PrivacyRelease st \<noteq> PrivacyReleasePending \<or>
              hs_CaptureState st \<noteq> CapturePrivate
           then let st1 = st\<lparr>hs_PrivacyState := PrivacyPrivate, hs_PrivacyRelease := PrivacyReleasePending,
                             hs_CaptureState := CapturePrivate\<rparr>
             in seq_act (advance S st1) (\<lambda>_. mark_private S st1)
           else mark_private S st))))))"

definition prepareH4 :: "('w, 'h) Service \<Rightarrow> Request \<Rightarrow> HandoffState \<Rightarrow> ('w Env, HandoffState) act" where
  "prepareH4 S req st =
     (if rq_Privacy req \<noteq> PrivacySecret \<and> cp_Kind (rq_Completion req) = CompletionManualReady then ret st
      else seq_act (demand (st_LoadDelegatedProviderRef (sv_store S) (hs_SessionID st))) (\<lambda>ref.
        seq_act (prepareReadiness S req st ref) (\<lambda>_.
        if rq_Privacy req \<noteq> PrivacySecret then ret st else preparePrivate S st ref)))"

definition ensurePrivateCurrent :: "('w, 'h) Service \<Rightarrow> Request \<Rightarrow> HandoffState \<Rightarrow> ('w Env, HandoffState) act" where
  "ensurePrivateCurrent S req st =
     (if rq_Privacy req \<noteq> PrivacySecret then ret st
      else seq_act (update (ensurePreparation (hs_HandoffID st) (hs_AuthorityEpoch st))) (\<lambda>_.
        seq_act (memory (privateLeaseFor (hs_HandoffID st) (hs_AuthorityEpoch st))) (\<lambda>found.
        case found of
          None \<Rightarrow> prepareH4 S req st
        | Some lease \<Rightarrow>
            if ps_AuthorityEpoch (pl_spec lease) \<noteq> hs_AuthorityEpoch st then prepareH4 S req st
            else (case rt_privacy (sv_runtime S) of
                None \<Rightarrow> raise (barrier_failed (hs_HandoffID st) ''provider_unconfigured'' None)
              | Some P \<Rightarrow>
                  seq_act (demand (st_LoadDelegatedProviderRef (sv_store S) (hs_SessionID st))) (\<lambda>ref.
                  try_act (ask (pv_ProvePrivateObservation P ref (pl_handle lease))) (\<lambda>proven. case proven of
                    Inl e \<Rightarrow> raise (normalizePrivateBarrierError (hs_HandoffID st) ''reprove'' e)
                  | Inr proof \<Rightarrow>
                      fail_if (private_proof_bad proof (pl_handle lease) st)
                        (barrier_failed (hs_HandoffID st) ''reproof_unproven'' (PrivateObservationProof_Validate proof))
                      (seq_act (update (\<lambda>s. s\<lparr>ev_preparations := (ev_preparations s)(hs_HandoffID st :=
                          map_option (\<lambda>p. p\<lparr>hp_privacy := map_option (\<lambda>l. l\<lparr>pl_proof := proof\<rparr>) (hp_privacy p)\<rparr>)
                            (ev_preparations s (hs_HandoffID st)))\<rparr>)) (\<lambda>_. ret st))))))))"

definition request :: "('w, 'h) Service \<Rightarrow> Request \<Rightarrow> 'h option \<Rightarrow> ('w Env, HandoffState) act" where
  "request S req hint =
     check_valid (if sv_h4Enabled S then Request_ValidateH4 req else Request_ValidateH2 req)
     (seq_act (demand (st_FindHandoff (sv_store S) (rq_HandoffID req))) (\<lambda>found.
      case found of
        Some (storedReq, st) \<Rightarrow>
          fail_if (storedReq \<noteq> req) (handoff_conflict (rq_HandoffID req))
          (seq_act (if hs_Phase st = PhaseAgentFencing then finishAgentFence S st else ret st) (\<lambda>st1.
           seq_act (if hs_Phase st1 = PhaseHumanConnecting \<or> hs_Phase st1 = PhaseHumanOwned then prepareH4 S req st1 else ret st1)
             (\<lambda>st2. presentAfterH2 S st2 hint)))
      | None \<Rightarrow>
          seq_act (preflightAgentOwned S (rq_SessionID req)) (\<lambda>(binding, ref, obs).
          let initial = \<lparr>hs_SchemaVersion = 1, hs_HandoffID = rq_HandoffID req, hs_SessionID = rq_SessionID req,
                hs_Phase = PhaseAgentFencing, hs_AuthorityEpoch = bd_AuthorityEpoch binding + 1,
                hs_DesiredOwner = OwnerHuman, hs_ProviderOwner = OwnerAgent,
                hs_AgentIngress = IngressUnknown, hs_HumanIngress = IngressFenced,
                hs_TransferBoundary = \<lparr>tb_Kind = BoundaryNone, tb_Established = False\<rparr>,
                hs_PrivacyState = PrivacyStateStandard, hs_PrivacyRelease = PrivacyReleaseNotRequired,
                hs_CaptureState = CapturePublic, hs_HumanClient = None,
                hs_ProviderGeneration = ob_ProviderGeneration obs, hs_FailureCode = []\<rparr> in
          seq_act (demand (st_ReserveHandoff (sv_store S) req initial)) (\<lambda>(st, created).
          seq_act (if hs_Phase st = PhaseAgentFencing then finishAgentFence S st else ret st) (\<lambda>st1.
          seq_act (prepareH4 S req st1) (\<lambda>st2. presentAfterH2 S st2 hint))))))"

definition RequestWithPresentation ::
  "('w, 'h) Service \<Rightarrow> ('h \<Rightarrow> goerr option) \<Rightarrow> Request \<Rightarrow> 'h option \<Rightarrow> ('w Env, HandoffState) act" where
  "RequestWithPresentation S validate_hint req hint =
     (case hint of None \<Rightarrow> request S req None | Some h \<Rightarrow> check_valid (validate_hint h) (request S req hint))"

definition Inspect :: "('w, 'h) Service \<Rightarrow> string \<Rightarrow> ('w Env, HandoffState) act" where
  "Inspect S i = seq_act (find_handoff S i) (\<lambda>(_, st). ret st)"

definition ExactHumanClientPresent :: "('w, 'h) Service \<Rightarrow> string \<Rightarrow> ('w Env, bool) act" where
  "ExactHumanClientPresent S i =
     seq_act (demand (st_LoadHandoff (sv_store S) i)) (\<lambda>(_, st).
     case hs_HumanClient st of
       None \<Rightarrow> ret False
     | Some c \<Rightarrow>
         seq_act (demand (st_LoadDelegatedProviderRef (sv_store S) (hs_SessionID st))) (\<lambda>ref.
         seq_act (demand (rt_InspectHumanClient (sv_runtime S) ref \<lparr>cr_Ref = hc_Ref c\<rparr>)) (\<lambda>obs.
         ret (ho_Present obs \<and> cr_Ref (ho_ClientRef obs) = hc_Ref c \<and> ho_ProviderGeneration obs = hs_ProviderGeneration st))))"

section \<open>Binding a human client (transfer.go)\<close>

record LocalBootstrap =
  lb_HandoffID :: string
  lb_State :: HandoffState
  lb_ProviderRef :: ProviderRef

record LocalAttachResult =
  la_State :: HandoffState
  la_Attachment :: HumanAttachResult

definition not_pending_in :: "string \<Rightarrow> HandoffState \<Rightarrow> goerr" where
  "not_pending_in i st = failure_New HandoffNotPending [(''handoff_id'', i), (''phase'', phase_string (hs_Phase st))] None"

definition BootstrapLocalHuman :: "('w, 'h) Service \<Rightarrow> string \<Rightarrow> ('w Env, LocalBootstrap) act" where
  "BootstrapLocalHuman S i =
     seq_act (find_handoff S i) (\<lambda>(_, st).
     fail_if (hs_Phase st \<noteq> PhaseHumanConnecting \<and> hs_Phase st \<noteq> PhaseHumanOwned) (not_pending_in i st)
     (seq_act (demand (st_LoadDelegatedProviderRef (sv_store S) (hs_SessionID st))) (\<lambda>ref.
      ret \<lparr>lb_HandoffID = i, lb_State = st, lb_ProviderRef = ref\<rparr>)))"

definition control_spec :: "HandoffState \<Rightarrow> HumanControlSpec" where
  "control_spec st = \<lparr>cs_HandoffID = hs_HandoffID st, cs_AuthorityEpoch = hs_AuthorityEpoch st\<rparr>"

definition makeHumanWritable ::
  "('w, 'h) Service \<Rightarrow> ProviderRef \<Rightarrow> ProviderClientRef \<Rightarrow> HandoffState \<Rightarrow> ('w Env, HumanClientObservation) act" where
  "makeHumanWritable S ref client st =
     seq_act (demand (rt_InspectHumanClient (sv_runtime S) ref client)) (\<lambda>before.
     seq_act (if ho_ReadOnly before then demand (rt_SetHumanWritable (sv_runtime S) ref client True) else ret ()) (\<lambda>_.
     seq_act (demand (rt_InspectHumanClient (sv_runtime S) ref client)) (\<lambda>obs.
     fail_if (\<not> ho_Present obs \<or> ho_ReadOnly obs \<or> ho_ObservedOwner obs \<noteq> OwnerHuman \<or>
              ho_ProviderGeneration obs \<noteq> hs_ProviderGeneration st) (client_not_proven st ''writable_client_unproven'')
     (try_act (demand (rt_ArmWritableHumanControl (sv_runtime S) ref client (control_spec st))) (\<lambda>armed. case armed of
        Inl e \<Rightarrow> try_act (ask (rt_FenceHumanIngress (sv_runtime S) ref client (hs_AuthorityEpoch st))) (\<lambda>_. raise e)
      | Inr _ \<Rightarrow> ret obs)))))"

text \<open>The first half of \<open>bindLocalHumanLocked\<close>: the client becomes the handoff's client, or was already.\<close>

definition adopt_client ::
  "('w, 'h) Service \<Rightarrow> HandoffState \<Rightarrow> ProviderClientRef \<Rightarrow> HumanClientObservation \<Rightarrow> ('w Env, HandoffState) act" where
  "adopt_client S st client obs =
     (if hs_HumanClient st = None then
        fail_if (\<not> ho_ReadOnly obs \<or> ho_ObservedOwner obs \<noteq> OwnerNone)
          (client_not_proven st ''prebound_client_not_read_only'')
        (let st1 = st\<lparr>hs_HumanClient := Some \<lparr>hc_Ref = cr_Ref client\<rparr>, hs_FailureCode := [], hs_ProviderOwner := OwnerNone\<rparr>
         in seq_act (advance S st1) (\<lambda>_. ret st1))
      else if \<not> ho_ReadOnly obs then
        seq_act (demand (st_LoadInputAuthorityProvenance (sv_store S) (hs_SessionID st))) (\<lambda>provenance.
        fail_if (ho_ObservedOwner obs \<noteq> OwnerHuman \<or> provenance \<noteq> InputAuthorityHumanWriteGranted)
          (client_not_proven st ''writable_client_without_durable_provenance'') (ret st))
      else ret st)"

definition bindLocalHumanLocked ::
  "('w, 'h) Service \<Rightarrow> ProviderRef \<Rightarrow> Request \<Rightarrow> HandoffState \<Rightarrow> ProviderClientRef \<Rightarrow> ('w Env, HandoffState) act" where
  "bindLocalHumanLocked S ref req st client =
     seq_act (demand (rt_InspectHumanClient (sv_runtime S) ref client)) (\<lambda>seen.
     fail_if (\<not> ho_Present seen \<or> ho_ProviderGeneration seen \<noteq> hs_ProviderGeneration st) (client_not_proven st ''client_unproven'')
     (seq_act (adopt_client S st client seen) (\<lambda>st1.
      seq_act (demand (st_MarkHumanWriteAuthorityGranted (sv_store S) (hs_SessionID st1))) (\<lambda>_.
      seq_act (makeHumanWritable S ref client st1) (\<lambda>obs.
      let st2 = st1\<lparr>hs_Phase := PhaseHumanOwned, hs_ProviderOwner := ho_ObservedOwner obs, hs_HumanIngress := IngressWritable\<rparr> in
      try_act (advance S st2) (\<lambda>r. case r of
          Inl e \<Rightarrow> try_act (ask (rt_FenceHumanIngress (sv_runtime S) ref client (hs_AuthorityEpoch st2))) (\<lambda>_. raise e)
        | Inr _ \<Rightarrow> seq_act (update (startAutomaticReadiness req st2)) (\<lambda>_. ret st2)))))))"

definition connectable :: "HandoffState \<Rightarrow> bool" where
  "connectable st \<longleftrightarrow> hs_Phase st = PhaseHumanConnecting \<and> hs_AgentIngress st = IngressFenced \<and> hs_HumanIngress st = IngressFenced"

definition BindLocalHuman :: "('w, 'h) Service \<Rightarrow> string \<Rightarrow> ProviderClientRef \<Rightarrow> ('w Env, HandoffState) act" where
  "BindLocalHuman S i client =
     check_valid (map_option (\<lambda>e. failure_New InvalidInput [(''field'', ''client_ref'')] (Some e)) (ProviderClientRef_Validate client))
     (seq_act (find_handoff S i) (\<lambda>(req, st).
      fail_if (hs_HumanClient st \<noteq> None \<and> hs_HumanClient st \<noteq> Some \<lparr>hc_Ref = cr_Ref client\<rparr>) (handoff_conflict i)
      (if hs_Phase st = PhaseHumanOwned
       then fail_if (hs_HumanClient st \<noteq> Some \<lparr>hc_Ref = cr_Ref client\<rparr>) (handoff_conflict i) (ret st)
       else fail_if (\<not> connectable st) (not_pending_in i st)
         (seq_act (ensurePrivateCurrent S req st) (\<lambda>st1.
          seq_act (demand (st_LoadDelegatedProviderRef (sv_store S) (hs_SessionID st1))) (\<lambda>ref.
          bindLocalHumanLocked S ref req st1 client))))))"

definition ensureReadOnlyHuman ::
  "('w, 'h) Service \<Rightarrow> ProviderRef \<Rightarrow> HandoffState \<Rightarrow> HumanAttachSpec \<Rightarrow> ('w Env, HumanAttachResult \<times> ProviderClientRef) act" where
  "ensureReadOnlyHuman S ref st spec =
     (case hs_HumanClient st of
        Some c \<Rightarrow>
          let client = \<lparr>cr_Ref = hc_Ref c\<rparr> in
          seq_act (demand (rt_InspectHumanClient (sv_runtime S) ref client)) (\<lambda>obs.
          fail_if (\<not> ho_Present obs \<or> ho_ProviderGeneration obs \<noteq> hs_ProviderGeneration st) (client_not_proven st ''client_unproven'')
          (if ho_ReadOnly obs
           then fail_if (ho_ObservedOwner obs \<noteq> OwnerNone) (client_not_proven st ''read_only_owner_unproven'')
             (memory (\<lambda>s. (pendingAttachment (hs_HandoffID st) s, client)))
           else seq_act (demand (st_LoadInputAuthorityProvenance (sv_store S) (hs_SessionID st))) (\<lambda>provenance.
             fail_if (ho_ObservedOwner obs \<noteq> OwnerHuman \<or> provenance \<noteq> InputAuthorityHumanWriteGranted)
               (client_not_proven st ''writable_client_without_durable_provenance'')
             (memory (\<lambda>s. (pendingAttachment (hs_HandoffID st) s, client))))))
      | None \<Rightarrow>
          seq_act (memory (pendingAttachment (hs_HandoffID st))) (\<lambda>pending.
          seq_act (if cr_Ref (at_ClientRef pending) = []
                   then seq_act (demand (rt_AttachHuman (sv_runtime S) ref spec)) (\<lambda>attachment.
                        seq_act (update (rememberAttachment (hs_HandoffID st) attachment)) (\<lambda>_. ret attachment))
                   else ret pending) (\<lambda>attachment.
          seq_act (demand (rt_InspectHumanClient (sv_runtime S) ref (at_ClientRef attachment))) (\<lambda>obs.
          fail_if (\<not> ho_Present obs \<or> \<not> ho_ReadOnly obs \<or> ho_ObservedOwner obs \<noteq> OwnerNone \<or>
                   ho_ProviderGeneration obs \<noteq> hs_ProviderGeneration st)
            (client_not_proven st ''read_only_client_unproven'') (ret (attachment, at_ClientRef attachment))))))"

definition AttachLocalHuman :: "('w, 'h) Service \<Rightarrow> string \<Rightarrow> HumanAttachSpec \<Rightarrow> ('w Env, LocalAttachResult) act" where
  "AttachLocalHuman S i spec =
     seq_act (find_handoff S i) (\<lambda>(req, st).
     if hs_Phase st = PhaseHumanOwned
     then memory (\<lambda>s. \<lparr>la_State = st, la_Attachment = pendingAttachment i s\<rparr>)
     else fail_if (\<not> connectable st) (not_pending_in i st)
       (seq_act (ensurePrivateCurrent S req st) (\<lambda>st1.
        seq_act (demand (st_LoadDelegatedProviderRef (sv_store S) (hs_SessionID st1))) (\<lambda>ref.
        seq_act (ensureReadOnlyHuman S ref st1 spec) (\<lambda>(attachment, client).
        seq_act (bindLocalHumanLocked S ref req st1 client) (\<lambda>st2.
        ret \<lparr>la_State = st2, la_Attachment = attachment\<rparr>))))))"

section \<open>Human controls (control.go)\<close>

record ControlResult =
  ct_State :: HandoffState
  ct_Outcome :: string

definition completeControl :: "('w, 'h) Service \<Rightarrow> ControlSignal \<Rightarrow> HandoffState \<Rightarrow> string \<Rightarrow> ('w Env, ControlResult) act" where
  "completeControl S signal st outcome =
     seq_act (demand (st_CompleteControlSignal (sv_store S) signal outcome)) (\<lambda>stored.
     ret \<lparr>ct_State = st, ct_Outcome = stored\<rparr>)"

definition fence_unproven :: "IngressFenceProof \<Rightarrow> HandoffState \<Rightarrow> bool" where
  "fence_unproven proof st \<longleftrightarrow> \<not> fp_Fenced proof \<or> fp_AuthorityEpoch proof \<noteq> hs_AuthorityEpoch st \<or>
     fp_ProviderGeneration proof \<noteq> hs_ProviderGeneration st"

definition agent_owned :: "HandoffState \<Rightarrow> HandoffState" where
  "agent_owned st = st\<lparr>hs_AuthorityEpoch := hs_AuthorityEpoch st + 1, hs_DesiredOwner := OwnerAgent,
     hs_ProviderOwner := OwnerAgent, hs_AgentIngress := IngressWritable, hs_HumanIngress := IngressFenced,
     hs_Phase := PhaseAgentOwned\<rparr>"

text \<open>The provider still runs this generation for the agent and the binding still waits for the human.\<close>

definition agent_unproven :: "Observation \<Rightarrow> Binding \<Rightarrow> HandoffState \<Rightarrow> bool" where
  "agent_unproven obs binding st \<longleftrightarrow> bd_AuthorityEpoch binding \<noteq> hs_AuthorityEpoch st \<or> bd_DesiredOwner binding \<noteq> OwnerHuman \<or>
     \<not> ob_ProviderCurrent obs \<or> ob_ProviderGeneration obs \<noteq> hs_ProviderGeneration st \<or> ob_Owner obs \<noteq> OwnerAgent"

definition ready :: "('w, 'h) Service \<Rightarrow> ControlSignal \<Rightarrow> HandoffState \<Rightarrow> ('w Env, ControlResult) act" where
  "ready S signal st0 =
     (if hs_Phase st0 = PhaseAgentOwned then completeControl S signal st0 ''ready''
      else seq_act (if hs_Phase st0 = PhaseHumanOwned
          then let st = st0\<lparr>hs_Phase := PhaseHumanFencing,
                            hs_TransferBoundary := \<lparr>tb_Kind = BoundaryHumanAttested, tb_Established = True\<rparr>\<rparr>
            in seq_act (advance S st) (\<lambda>_. ret st)
          else ret st0) (\<lambda>st.
        fail_if (hs_Phase st \<noteq> PhaseHumanFencing \<or> hs_HumanClient st = None) (not_pending_in (sg_HandoffID signal) st)
        (seq_act (demand (st_LoadDelegatedProviderRef (sv_store S) (hs_SessionID st))) (\<lambda>ref.
         let client = \<lparr>cr_Ref = hc_Ref (the (hs_HumanClient st))\<rparr> in
         seq_act (if hs_HumanIngress st \<noteq> IngressFenced
             then seq_act (demand (rt_FenceHumanIngress (sv_runtime S) ref client (hs_AuthorityEpoch st))) (\<lambda>proof.
               fail_if (fence_unproven proof st) (reclaim_blocked st ''human_fence_unproven'')
               (let st1 = st\<lparr>hs_HumanIngress := IngressFenced, hs_ProviderOwner := OwnerNone\<rparr>
                in seq_act (advance S st1) (\<lambda>_. ret st1)))
             else ret st) (\<lambda>st1.
         seq_act (demand (rt_PrepareReadOnlyLocalControl (sv_runtime S) ref client)) (\<lambda>_.
         seq_act (demand (rt_Inspect (sv_runtime S) ref)) (\<lambda>obs.
         seq_act (demand (st_LoadDelegatedBinding (sv_store S) (hs_SessionID st1))) (\<lambda>binding.
         fail_if (ob_Provider obs \<noteq> bd_ProviderIdentity binding)
           (failure_New DelegatedProviderMismatch [(''session_id'', hs_SessionID st1), (''provider_id'', pi_ID (ob_Provider obs)),
              (''expected_provider_id'', bd_ProviderID binding)] None)
         (fail_if (agent_unproven obs binding st1) (reclaim_blocked st1 ''agent_provider_unproven'')
         (let st2 = agent_owned st1 in
          seq_act (advance S st2) (\<lambda>_. completeControl S signal st2 ''ready'')))))))))))"

definition aborted :: "HandoffState \<Rightarrow> HandoffState" where
  "aborted st = st\<lparr>hs_AuthorityEpoch := hs_AuthorityEpoch st + 1, hs_DesiredOwner := OwnerNone,
     hs_AgentIngress := IngressFenced, hs_HumanIngress := IngressFenced, hs_Phase := PhaseAborted\<rparr>"

definition abort_fence_human :: "('w, 'h) Service \<Rightarrow> HandoffState \<Rightarrow> ('w Env, HandoffState) act" where
  "abort_fence_human S st =
     (case hs_HumanClient st of
        None \<Rightarrow> ret st
      | Some c \<Rightarrow>
          seq_act (demand (st_LoadDelegatedProviderRef (sv_store S) (hs_SessionID st))) (\<lambda>ref.
          let client = \<lparr>cr_Ref = hc_Ref c\<rparr> in
          seq_act (if hs_HumanIngress st \<noteq> IngressFenced
              then seq_act (demand (rt_FenceHumanIngress (sv_runtime S) ref client (hs_AuthorityEpoch st))) (\<lambda>proof.
                fail_if (fence_unproven proof st) (reclaim_blocked st ''abort_fence_unproven'')
                (ret (st\<lparr>hs_HumanIngress := IngressFenced, hs_ProviderOwner := OwnerNone\<rparr>)))
              else ret st) (\<lambda>st1.
          seq_act (demand (rt_PrepareReadOnlyLocalControl (sv_runtime S) ref client)) (\<lambda>_. ret st1))))"

definition abortLoaded :: "('w, 'h) Service \<Rightarrow> HandoffState \<Rightarrow> ('w Env, HandoffState) act" where
  "abortLoaded S st =
     (if hs_Phase st = PhaseAborted then ret st
      else fail_if (hs_Phase st \<notin> {PhaseHumanOwned, PhaseHumanConnecting, PhaseHumanFencing, PhaseAgentFencing})
        (not_pending_in (hs_HandoffID st) st)
        (seq_act (if hs_Phase st = PhaseAgentFencing \<and> hs_AgentIngress st \<noteq> IngressFenced
                  then finishAgentFence S st else ret st) (\<lambda>st1.
         seq_act (abort_fence_human S st1) (\<lambda>st2.
         seq_act (update (cancelReadiness (hs_HandoffID st2))) (\<lambda>_.
         let st3 = aborted st2 in seq_act (advance S st3) (\<lambda>_. ret st3))))))"

definition Abort :: "('w, 'h) Service \<Rightarrow> string \<Rightarrow> ('w Env, HandoffState) act" where
  "Abort S i = seq_act (find_handoff S i) (\<lambda>(_, st). abortLoaded S st)"

definition resumed :: "HandoffState \<Rightarrow> HandoffState" where
  "resumed st = st\<lparr>hs_AuthorityEpoch := hs_AuthorityEpoch st + 1, hs_DesiredOwner := OwnerHuman, hs_ProviderOwner := OwnerNone,
     hs_AgentIngress := IngressFenced, hs_HumanIngress := IngressFenced, hs_Phase := PhaseHumanConnecting, hs_HumanClient := None,
     hs_TransferBoundary := \<lparr>tb_Kind = BoundaryProviderOrdered, tb_Established = True\<rparr>\<rparr>"

definition resume :: "('w, 'h) Service \<Rightarrow> ControlSignal \<Rightarrow> Request \<Rightarrow> HandoffState \<Rightarrow> ('w Env, ControlResult) act" where
  "resume S signal req st =
     fail_if (hs_FailureCode st = HandoffExpired) (failure_New HandoffExpired [(''handoff_id'', hs_HandoffID st)] None)
     (if hs_Phase st = PhaseHumanConnecting then completeControl S signal st ''resumed''
      else fail_if (hs_Phase st \<noteq> PhaseAborted) (reclaim_blocked st ''resume_state'')
        (let st1 = resumed st in
         seq_act (update (forgetAttachment (hs_HandoffID st))) (\<lambda>_.
         seq_act (advance S st1) (\<lambda>_.
         seq_act (if sv_h4Enabled S then prepareH4 S req st1 else ret st1) (\<lambda>st2.
         completeControl S signal st2 ''resumed'')))))"

definition terminate :: "('w, 'h) Service \<Rightarrow> ControlSignal \<Rightarrow> HandoffState \<Rightarrow> ('w Env, ControlResult) act" where
  "terminate S signal st =
     fail_if (hs_Phase st \<notin> {PhaseAborted, PhaseHumanFencing, PhaseReclaimPending}) (not_pending_in (hs_HandoffID st) st)
     (seq_act (demand (st_LoadDelegatedProviderRef (sv_store S) (hs_SessionID st))) (\<lambda>ref.
      seq_act (demand (rt_Signal (sv_runtime S) ref ''TERM'')) (\<lambda>_.
      completeControl S signal st ''terminated'')))"

definition HumanControl :: "('w, 'h) Service \<Rightarrow> ControlSignal \<Rightarrow> ('w Env, ControlResult) act" where
  "HumanControl S signal =
     check_valid (ControlSignal_Validate signal)
     (fail_if (sg_Kind signal = HumanControlRequestControl)
        (failure_New FeatureUnavailable [(''feature'', ''human_request_control'')] None)
      (seq_act (demand (st_ReserveControlSignal (sv_store S) signal)) (\<lambda>(_, outcome, created).
       seq_act (demand (st_LoadHandoff (sv_store S) (sg_HandoffID signal))) (\<lambda>(req, st).
       if \<not> created \<and> outcome \<noteq> [] then ret \<lparr>ct_State = st, ct_Outcome = outcome\<rparr>
       else case sg_Kind signal of
           HumanControlStatus \<Rightarrow> completeControl S signal st ''status''
         | HumanControlReady \<Rightarrow> ready S signal st
         | HumanControlAbort \<Rightarrow> seq_act (abortLoaded S st) (\<lambda>st1. completeControl S signal st1 ''aborted'')
         | HumanControlResume \<Rightarrow> resume S signal req st
         | HumanControlTerminate \<Rightarrow> terminate S signal st
         | _ \<Rightarrow> raise (failure_New InvalidInput [(''field'', ''human_control_kind'')] None)))))"

section \<open>Expiry (expiry.go)\<close>

definition expired :: "HandoffState \<Rightarrow> HandoffState" where
  "expired st = st\<lparr>hs_AuthorityEpoch := hs_AuthorityEpoch st + 1, hs_DesiredOwner := OwnerNone, hs_Phase := PhaseReclaimPending,
     hs_TransferBoundary := \<lparr>tb_Kind = BoundaryNone, tb_Established = False\<rparr>, hs_FailureCode := HandoffExpired,
     hs_AgentIngress := (if hs_AgentIngress st = IngressWritable then IngressUnknown else hs_AgentIngress st)\<rparr>"

definition fence_proven :: "IngressFenceProof \<Rightarrow> HandoffState \<Rightarrow> bool" where
  "fence_proven proof st \<longleftrightarrow> \<not> fence_unproven proof st"

definition expiry_agent :: "('w, 'h) Service \<Rightarrow> HandoffState \<Rightarrow> ('w Env, HandoffState \<times> bool) act" where
  "expiry_agent S st =
     (if hs_AgentIngress st = IngressFenced then ret (st, False)
      else try_act (ask (sv_fencer S (hs_SessionID st) (hs_AuthorityEpoch st))) (\<lambda>r. ret (case r of
          Inr proof \<Rightarrow>
            if ip_Fenced proof \<and> ip_AuthorityEpoch proof = hs_AuthorityEpoch st \<and>
               ip_ProviderGeneration proof = hs_ProviderGeneration st
            then (st\<lparr>hs_AgentIngress := IngressFenced\<rparr>, True)
            else (st\<lparr>hs_AgentIngress := IngressUnknown\<rparr>, False)
        | Inl e \<Rightarrow> (st\<lparr>hs_AgentIngress := IngressUnknown\<rparr>, False))))"

definition expiry_fence :: "IngressFenceProof result \<Rightarrow> HandoffState \<Rightarrow> HandoffState" where
  "expiry_fence r st =
     (case r of
        Inr proof \<Rightarrow>
          if fence_proven proof st then st\<lparr>hs_HumanIngress := IngressFenced, hs_ProviderOwner := OwnerNone\<rparr>
          else st\<lparr>hs_HumanIngress := IngressUnknown\<rparr>
      | Inl e \<Rightarrow>
          if exactClientMissing e
          then st\<lparr>hs_HumanIngress := IngressFenced, hs_ProviderOwner := OwnerNone, hs_HumanClient := None\<rparr>
          else st\<lparr>hs_HumanIngress := IngressUnknown\<rparr>)"

definition expiry_human :: "('w, 'h) Service \<Rightarrow> ProviderRef \<Rightarrow> HumanClientRef \<Rightarrow> HandoffState \<times> bool \<Rightarrow> ('w Env, HandoffState \<times> bool) act" where
  "expiry_human S ref c stc =
     (case stc of (st, changed) \<Rightarrow>
        let client = \<lparr>cr_Ref = hc_Ref c\<rparr> in
        seq_act (if hs_HumanIngress st \<noteq> IngressFenced
            then try_act (ask (rt_FenceHumanIngress (sv_runtime S) ref client (hs_AuthorityEpoch st))) (\<lambda>r. ret (expiry_fence r st, True))
            else ret (st, changed)) (\<lambda>(st1, changed1).
        if hs_HumanIngress st1 = IngressFenced \<and> hs_HumanClient st1 \<noteq> None
        then try_act (ask (rt_PrepareReadOnlyLocalControl (sv_runtime S) ref client)) (\<lambda>r. ret (case r of
            Inl e \<Rightarrow> if exactClientMissing e then (st1\<lparr>hs_HumanClient := None\<rparr>, True) else (st1, changed1)
          | Inr _ \<Rightarrow> (st1, changed1)))
        else ret (st1, changed1)))"

definition expiry_settle :: "('w, 'h) Service \<Rightarrow> HandoffState \<times> bool \<Rightarrow> ('w Env, HandoffState) act" where
  "expiry_settle S stc =
     (case stc of (st, changed) \<Rightarrow>
        let (st1, changed1) =
          (if hs_AgentIngress st = IngressFenced \<and> hs_HumanIngress st = IngressFenced
           then if hs_Phase st \<noteq> PhaseAborted then (st\<lparr>hs_Phase := PhaseAborted\<rparr>, True) else (st, changed)
           else if hs_Phase st \<noteq> PhaseReclaimPending \<or> tb_Established (hs_TransferBoundary st)
           then (st\<lparr>hs_Phase := PhaseReclaimPending,
                    hs_TransferBoundary := \<lparr>tb_Kind = BoundaryNone, tb_Established = False\<rparr>\<rparr>, True)
           else (st, changed))
        in seq_act (if changed1 then advance S st1 else ret ()) (\<lambda>_.
           if hs_Phase st1 = PhaseReclaimPending
           then raise_with st1 (reclaim_blocked_phase st1 ''expiry_fence_unproven'') else ret st1))"

definition finishExpiryLocked :: "('w, 'h) Service \<Rightarrow> HandoffState \<Rightarrow> ('w Env, HandoffState) act" where
  "finishExpiryLocked S st =
     (if hs_FailureCode st \<noteq> HandoffExpired \<or> hs_DesiredOwner st \<noteq> OwnerNone
      then raise_with st (reclaim_blocked_phase st ''expiry_intent_missing'')
      else seq_act (expiry_agent S st) (\<lambda>(st1, changed).
        case hs_HumanClient st1 of
          Some c \<Rightarrow>
            try_act (demand (st_LoadDelegatedProviderRef (sv_store S) (hs_SessionID st1))) (\<lambda>r. case r of
                Inl e \<Rightarrow> raise_with st1 e
              | Inr ref \<Rightarrow> seq_act (expiry_human S ref c (st1, changed)) (expiry_settle S))
        | None \<Rightarrow>
            expiry_settle S (if hs_HumanIngress st1 \<noteq> IngressFenced then st1\<lparr>hs_HumanIngress := IngressUnknown\<rparr> else st1, changed)))"

definition Expire :: "('w, 'h) Service \<Rightarrow> string \<Rightarrow> ('w Env, HandoffState) act" where
  "Expire S i =
     seq_act (demand (st_RecoverHandoff (sv_store S) i)) (\<lambda>st.
     if hs_Phase st = PhaseAgentOwned \<or> hs_Phase st = PhaseAborted then ret st
     else if hs_FailureCode st \<noteq> HandoffExpired \<or> hs_Phase st \<noteq> PhaseReclaimPending \<or> hs_DesiredOwner st \<noteq> OwnerNone
     then let st1 = expired st in seq_act (advance S st1) (\<lambda>_. finishExpiryLocked S st1)
     else finishExpiryLocked S st)"

section \<open>Reconciliation (reconcile.go)\<close>

definition persistConnectingAfterFence :: "('w, 'h) Service \<Rightarrow> HandoffState \<Rightarrow> string \<Rightarrow> ('w Env, HandoffState) act" where
  "persistConnectingAfterFence S st code =
     (let st1 = st\<lparr>hs_Phase := PhaseHumanConnecting, hs_ProviderOwner := OwnerNone, hs_AgentIngress := IngressFenced,
                   hs_HumanIngress := IngressFenced, hs_HumanClient := None,
                   hs_TransferBoundary := \<lparr>tb_Kind = BoundaryProviderOrdered, tb_Established = True\<rparr>, hs_FailureCode := code\<rparr>
      in seq_act (advance S st1) (\<lambda>_. ret st1))"

definition persistConnectingWithoutClient :: "('w, 'h) Service \<Rightarrow> HandoffState \<Rightarrow> ('w Env, HandoffState) act" where
  "persistConnectingWithoutClient S st = persistConnectingAfterFence S st HandoffClientLost"

definition persistClientProofBlocked :: "('w, 'h) Service \<Rightarrow> HandoffState \<Rightarrow> ('w Env, HandoffState) act" where
  "persistClientProofBlocked S st =
     (let st1 = st\<lparr>hs_Phase := PhaseReclaimPending, hs_ProviderOwner := OwnerNone, hs_AgentIngress := IngressFenced,
                   hs_HumanIngress := IngressUnknown, hs_TransferBoundary := \<lparr>tb_Kind = BoundaryNone, tb_Established = False\<rparr>,
                   hs_FailureCode := HandoffReclaimBlocked\<rparr>
      in seq_act (advance S st1) (\<lambda>_. raise_with st1 (reclaim_blocked_phase st1 ''human_ingress_unproven'')))"

definition loadReconcileProvider :: "('w, 'h) Service \<Rightarrow> HandoffState \<Rightarrow> ('w Env, ProviderRef) act" where
  "loadReconcileProvider S st =
     seq_act (demand (st_LoadDelegatedBinding (sv_store S) (hs_SessionID st))) (\<lambda>binding.
     fail_if (bd_Lifecycle binding \<noteq> LifecycleLive \<or> bd_AuthorityEpoch binding \<noteq> hs_AuthorityEpoch st \<or>
              bd_DesiredOwner binding \<noteq> hs_DesiredOwner st) (reclaim_blocked_phase st ''durable_authority_mismatch'')
     (demand (st_LoadDelegatedProviderRef (sv_store S) (hs_SessionID st))))"

definition requireCurrentGeneration :: "('w, 'h) Service \<Rightarrow> ProviderRef \<Rightarrow> HandoffState \<Rightarrow> ('w Env, Observation) act" where
  "requireCurrentGeneration S ref st =
     seq_act (demand (rt_Inspect (sv_runtime S) ref)) (\<lambda>obs.
     seq_act (demand (st_LoadDelegatedBinding (sv_store S) (hs_SessionID st))) (\<lambda>binding.
     fail_if (ob_Provider obs \<noteq> bd_ProviderIdentity binding \<or> \<not> ob_ProviderCurrent obs \<or>
              ob_ProviderGeneration obs \<noteq> hs_ProviderGeneration st) (reclaim_blocked_phase st ''provider_generation_unproven'')
     (ret obs)))"

definition human_owned :: "HandoffState \<Rightarrow> HandoffState" where
  "human_owned st = st\<lparr>hs_Phase := PhaseHumanOwned, hs_FailureCode := [], hs_ProviderOwner := OwnerHuman,
     hs_AgentIngress := IngressFenced, hs_HumanIngress := IngressWritable\<rparr>"

definition reconcileHumanConnecting :: "('w, 'h) Service \<Rightarrow> HandoffState \<Rightarrow> ('w Env, HandoffState) act" where
  "reconcileHumanConnecting S st =
     seq_act (loadReconcileProvider S st) (\<lambda>ref.
     case hs_HumanClient st of
       None \<Rightarrow> seq_act (requireCurrentGeneration S ref st) (\<lambda>_. ret st)
     | Some c \<Rightarrow>
         let client = \<lparr>cr_Ref = hc_Ref c\<rparr> in
         try_act (ask (rt_InspectHumanClient (sv_runtime S) ref client)) (\<lambda>seen. case seen of
           Inl e \<Rightarrow>
             if exactClientMissing e then persistConnectingWithoutClient S st
             else if lost_or_unproven e then persistClientProofBlocked S st
             else raise (normalize_err e)
         | Inr obs \<Rightarrow>
             if \<not> ho_Present obs \<or> ho_ProviderGeneration obs \<noteq> hs_ProviderGeneration st then persistClientProofBlocked S st
             else if ho_ReadOnly obs \<and> ho_ObservedOwner obs = OwnerNone
             then seq_act (demand (st_LoadHandoff (sv_store S) (hs_HandoffID st))) (\<lambda>(req, _).
               bindLocalHumanLocked S ref req st client)
             else if \<not> ho_ReadOnly obs \<and> ho_ObservedOwner obs = OwnerHuman
             then seq_act (demand (st_MarkHumanWriteAuthorityGranted (sv_store S) (hs_SessionID st))) (\<lambda>_.
               seq_act (demand (rt_ArmWritableHumanControl (sv_runtime S) ref client (control_spec st))) (\<lambda>_.
               let st1 = human_owned st in seq_act (advance S st1) (\<lambda>_. ret st1)))
             else persistClientProofBlocked S st))"

definition reconcileHumanOwned :: "('w, 'h) Service \<Rightarrow> HandoffState \<Rightarrow> ('w Env, HandoffState) act" where
  "reconcileHumanOwned S st =
     (case hs_HumanClient st of
        None \<Rightarrow> persistClientProofBlocked S st
      | Some c \<Rightarrow>
          seq_act (loadReconcileProvider S st) (\<lambda>ref.
          let client = \<lparr>cr_Ref = hc_Ref c\<rparr> in
          try_act (ask (rt_InspectHumanClient (sv_runtime S) ref client)) (\<lambda>seen. case seen of
            Inl e \<Rightarrow>
              if exactClientMissing e then persistConnectingWithoutClient S st
              else if lost_or_unproven e then persistClientProofBlocked S st
              else raise (normalize_err e)
          | Inr obs \<Rightarrow>
              if \<not> ho_Present obs \<or> ho_ProviderGeneration obs \<noteq> hs_ProviderGeneration st then persistClientProofBlocked S st
              else if ho_ReadOnly obs \<and> ho_ObservedOwner obs = OwnerNone then persistConnectingWithoutClient S st
              else if ho_ReadOnly obs \<or> ho_ObservedOwner obs \<noteq> OwnerHuman then persistClientProofBlocked S st
              else try_act (ask (rt_ArmWritableHumanControl (sv_runtime S) ref client (control_spec st))) (\<lambda>armed. case armed of
                Inl _ \<Rightarrow>
                  try_act (ask (rt_FenceHumanIngress (sv_runtime S) ref client (hs_AuthorityEpoch st))) (\<lambda>fenced. case fenced of
                    Inl _ \<Rightarrow> persistClientProofBlocked S st
                  | Inr proof \<Rightarrow>
                      if fence_unproven proof st then persistClientProofBlocked S st
                      else try_act (ask (rt_PrepareReadOnlyLocalControl (sv_runtime S) ref client)) (\<lambda>_.
                        persistConnectingAfterFence S st HandoffReclaimBlocked))
              | Inr _ \<Rightarrow>
                  if hs_FailureCode st \<noteq> []
                  then let st1 = st\<lparr>hs_FailureCode := []\<rparr> in seq_act (advance S st1) (\<lambda>_. ret st1)
                  else ret st))))"

definition reconcileHumanFencing :: "('w, 'h) Service \<Rightarrow> HandoffState \<Rightarrow> ('w Env, HandoffState) act" where
  "reconcileHumanFencing S st =
     (case hs_HumanClient st of
        None \<Rightarrow> persistClientProofBlocked S st
      | Some c \<Rightarrow>
        if \<not> tb_Established (hs_TransferBoundary st) then persistClientProofBlocked S st
        else seq_act (loadReconcileProvider S st) (\<lambda>ref.
          let client = \<lparr>cr_Ref = hc_Ref c\<rparr>;
              settle = (\<lambda>st1.
                seq_act (case hs_HumanClient st1 of
                    None \<Rightarrow> ret st1
                  | Some _ \<Rightarrow>
                      try_act (ask (rt_PrepareReadOnlyLocalControl (sv_runtime S) ref client)) (\<lambda>r. case r of
                        Inl e \<Rightarrow> fail_if (\<not> exactClientMissing e) (normalize_err e) (ret (st1\<lparr>hs_HumanClient := None\<rparr>))
                      | Inr _ \<Rightarrow> ret st1)) (\<lambda>st2.
                seq_act (demand (rt_Inspect (sv_runtime S) ref)) (\<lambda>obs.
                seq_act (demand (st_LoadDelegatedBinding (sv_store S) (hs_SessionID st2))) (\<lambda>binding.
                fail_if (ob_Provider obs \<noteq> bd_ProviderIdentity binding \<or> agent_unproven obs binding st2)
                  (reclaim_blocked_phase st2 ''agent_provider_unproven'')
                (let st3 = (agent_owned st2)\<lparr>hs_FailureCode := []\<rparr> in
                 seq_act (advance S st3) (\<lambda>_. ret st3))))))
          in if hs_HumanIngress st = IngressFenced then settle st
             else try_act (ask (rt_FenceHumanIngress (sv_runtime S) ref client (hs_AuthorityEpoch st))) (\<lambda>fenced. case fenced of
               Inl e \<Rightarrow>
                 if exactClientMissing e
                 then let st1 = st\<lparr>hs_HumanClient := None, hs_HumanIngress := IngressFenced, hs_ProviderOwner := OwnerNone\<rparr>
                   in seq_act (advance S st1) (\<lambda>_. settle st1)
                 else if lost_or_unproven e then persistClientProofBlocked S st
                 else raise (normalize_err e)
             | Inr proof \<Rightarrow>
                 if fence_unproven proof st then persistClientProofBlocked S st
                 else let st1 = st\<lparr>hs_HumanIngress := IngressFenced, hs_ProviderOwner := OwnerNone\<rparr>
                   in seq_act (advance S st1) (\<lambda>_. settle st1))))"

definition reconcileBlocked :: "('w, 'h) Service \<Rightarrow> HandoffState \<Rightarrow> ('w Env, HandoffState) act" where
  "reconcileBlocked S st =
     (if hs_FailureCode st = HandoffExpired \<and> hs_DesiredOwner st = OwnerNone then finishExpiryLocked S st
      else case hs_HumanClient st of
          None \<Rightarrow> ret st
        | Some c \<Rightarrow>
          if hs_DesiredOwner st \<noteq> OwnerHuman then ret st
          else seq_act (loadReconcileProvider S st) (\<lambda>ref.
            let client = \<lparr>cr_Ref = hc_Ref c\<rparr> in
            try_act (ask (rt_InspectHumanClient (sv_runtime S) ref client)) (\<lambda>seen. case seen of
              Inl e \<Rightarrow> if exactClientMissing e then persistConnectingWithoutClient S st else ret st
            | Inr obs \<Rightarrow>
                if ho_ProviderGeneration obs \<noteq> hs_ProviderGeneration st \<or> \<not> ho_Present obs then ret st
                else if ho_ReadOnly obs \<and> ho_ObservedOwner obs = OwnerNone then persistConnectingWithoutClient S st
                else if \<not> ho_ReadOnly obs \<and> ho_ObservedOwner obs = OwnerHuman
                then let st1 = human_owned st in
                  seq_act (demand (st_MarkHumanWriteAuthorityGranted (sv_store S) (hs_SessionID st1))) (\<lambda>_.
                  seq_act (demand (rt_ArmWritableHumanControl (sv_runtime S) ref client (control_spec st1))) (\<lambda>_.
                  seq_act (advance S st1) (\<lambda>_. ret st1)))
                else ret st)))"

definition reconcileAborted :: "('w, 'h) Service \<Rightarrow> HandoffState \<Rightarrow> ('w Env, HandoffState) act" where
  "reconcileAborted S st =
     (case hs_HumanClient st of
        None \<Rightarrow> ret st
      | Some c \<Rightarrow>
          seq_act (loadReconcileProvider S st) (\<lambda>ref.
          let client = \<lparr>cr_Ref = hc_Ref c\<rparr>;
              prepare = try_act (ask (rt_PrepareReadOnlyLocalControl (sv_runtime S) ref client)) (\<lambda>r. case r of
                  Inl e \<Rightarrow> fail_if (\<not> exactClientMissing e) (normalize_err e) (ret st)
                | Inr _ \<Rightarrow> ret st)
          in try_act (ask (rt_InspectHumanClient (sv_runtime S) ref client)) (\<lambda>seen. case seen of
              Inl e \<Rightarrow>
                if exactClientMissing e
                then let st1 = st\<lparr>hs_HumanClient := None\<rparr> in seq_act (advance S st1) (\<lambda>_. ret st1)
                else persistClientProofBlocked S st
            | Inr obs \<Rightarrow>
                if ho_ProviderGeneration obs \<noteq> hs_ProviderGeneration st \<or> \<not> ho_Present obs then persistClientProofBlocked S st
                else if \<not> ho_ReadOnly obs \<or> ho_ObservedOwner obs \<noteq> OwnerNone
                then try_act (ask (rt_FenceHumanIngress (sv_runtime S) ref client (hs_AuthorityEpoch st))) (\<lambda>fenced. case fenced of
                    Inl _ \<Rightarrow> persistClientProofBlocked S st
                  | Inr proof \<Rightarrow> if fence_unproven proof st then persistClientProofBlocked S st else prepare)
                else prepare)))"

text \<open>
  A private handoff proves its privacy again before it is reconciled; the request is known only
  then, and only then may the readiness watcher be started.
\<close>

definition reconcile_privacy :: "('w, 'h) Service \<Rightarrow> string \<Rightarrow> HandoffState \<Rightarrow> ('w Env, HandoffState \<times> Request option) act" where
  "reconcile_privacy S i st =
     (if sv_h4Enabled S \<and> hs_PrivacyState st = PrivacyPrivate \<and> (hs_Phase st = PhaseHumanConnecting \<or> hs_Phase st = PhaseHumanOwned)
      then seq_act (demand (st_LoadHandoff (sv_store S) i)) (\<lambda>(req, _).
        if hs_Phase st = PhaseHumanConnecting then seq_act (prepareH4 S req st) (\<lambda>st1. ret (st1, Some req))
        else seq_act (demand (st_LoadDelegatedProviderRef (sv_store S) (hs_SessionID st))) (\<lambda>ref.
          seq_act (preparePrivate S st ref) (\<lambda>st1. ret (st1, Some req))))
      else ret (st, None))"

definition start_recovered :: "Request option \<Rightarrow> HandoffState \<Rightarrow> 'w Env \<Rightarrow> 'w Env" where
  "start_recovered recovered st s =
     (case recovered of Some req \<Rightarrow> if rq_HandoffID req \<noteq> [] then startAutomaticReadiness req st s else s | None \<Rightarrow> s)"

definition reconcile_phase :: "('w, 'h) Service \<Rightarrow> HandoffState \<times> Request option \<Rightarrow> ('w Env, HandoffState) act" where
  "reconcile_phase S str =
     (case str of (st, recovered) \<Rightarrow>
        case hs_Phase st of
          PhaseAgentFencing \<Rightarrow> finishAgentFence S st
        | PhaseHumanConnecting \<Rightarrow>
            pass_act (reconcileHumanConnecting S st) (\<lambda>out.
            seq_act (update (if hs_Phase out = PhaseHumanOwned then start_recovered recovered out else id)) (\<lambda>_. ret out))
        | PhaseHumanOwned \<Rightarrow>
            pass_act (reconcileHumanOwned S st) (\<lambda>out. seq_act (update (start_recovered recovered out)) (\<lambda>_. ret out))
        | PhaseHumanFencing \<Rightarrow> reconcileHumanFencing S st
        | PhaseReclaimPending \<Rightarrow> reconcileBlocked S st
        | PhaseAborted \<Rightarrow> reconcileAborted S st
        | PhaseAgentOwned \<Rightarrow> ret st
        | OtherPhase _ \<Rightarrow> raise (reclaim_blocked_phase st ''unknown_reconcile_phase''))"

definition Reconcile :: "('w, 'h) Service \<Rightarrow> string \<Rightarrow> ('w Env, HandoffState) act" where
  "Reconcile S i =
     seq_act (demand (st_RecoverHandoff (sv_store S) i)) (\<lambda>st.
     check_valid (if sv_h4Enabled S then State_ValidateH4 st else State_ValidateH2 st)
     (seq_act (reconcile_privacy S i st) (reconcile_phase S)))"

section \<open>Automatic readiness (readiness.go)\<close>

fun boundaryKind :: "BoundaryQuality \<Rightarrow> BoundaryKind" where
  "boundaryKind BoundaryQualityShellPrompt = BoundaryShell"
| "boundaryKind BoundaryQualityProcessBoundary = BoundaryProcess"
| "boundaryKind BoundaryQualityHumanAttested = BoundaryHumanAttested"
| "boundaryKind (OtherBoundaryQuality s) = BoundaryNone"

definition reclaimAutomaticAgent ::
  "('w, 'h) Service \<Rightarrow> HandoffState \<Rightarrow> HumanClientRef \<Rightarrow> ('w Env, HandoffState \<times> ProviderRef \<times> AuthorityEpoch) act" where
  "reclaimAutomaticAgent S st c =
     seq_act (demand (st_LoadDelegatedProviderRef (sv_store S) (hs_SessionID st))) (\<lambda>ref.
     let client = \<lparr>cr_Ref = hc_Ref c\<rparr> in
     seq_act (demand (rt_FenceHumanIngress (sv_runtime S) ref client (hs_AuthorityEpoch st))) (\<lambda>proof.
     fail_if (fence_unproven proof st) (reclaim_blocked st ''human_fence_unproven'')
     (let st1 = st\<lparr>hs_HumanIngress := IngressFenced, hs_ProviderOwner := OwnerNone\<rparr> in
      seq_act (advance S st1) (\<lambda>_.
      seq_act (demand (rt_PrepareReadOnlyLocalControl (sv_runtime S) ref client)) (\<lambda>_.
      seq_act (demand (rt_Inspect (sv_runtime S) ref)) (\<lambda>obs.
      seq_act (demand (st_LoadDelegatedBinding (sv_store S) (hs_SessionID st1))) (\<lambda>binding.
      fail_if (ob_Provider obs \<noteq> bd_ProviderIdentity binding \<or> agent_unproven obs binding st1)
        (reclaim_blocked st1 ''agent_provider_unproven'')
      (let st2 = agent_owned st1 in
       seq_act (advance S st2) (\<lambda>_. ret (st2, ref, hs_AuthorityEpoch st1))))))))))"

definition release_unproven :: "string \<Rightarrow> string \<Rightarrow> goerr option \<Rightarrow> goerr" where
  "release_unproven i reason cause =
     failure_New ''privacy_release_unproven'' [(''handoff_id'', i), (''reason'', reason)] cause"

definition releaseAutomaticPrivacy ::
  "('w, 'h) Service \<Rightarrow> Request \<Rightarrow> HandoffState \<Rightarrow> ProviderRef \<Rightarrow> AuthorityEpoch \<Rightarrow> WatchEvent \<Rightarrow> ('w Env, unit) act" where
  "releaseAutomaticPrivacy S req st ref privateEpoch event =
     (if rq_Privacy req \<noteq> PrivacySecret then ret ()
      else seq_act (memory (privateLeaseFor (rq_HandoffID req) privateEpoch)) (\<lambda>found. case found of
        None \<Rightarrow> raise (release_unproven (rq_HandoffID req) ''private_lease_missing'' None)
      | Some lease \<Rightarrow>
          let proof = \<lparr>prp_HandoffID = rq_HandoffID req, prp_AuthorityEpoch = privateEpoch,
                prp_Shell = bp_Shell (we_Boundary event), prp_Boundary = boundary_quality_string (bp_Quality (we_Boundary event)),
                prp_ForwardOnly = True, prp_ObservedAt = bp_ObservedAt (we_Boundary event)\<rparr> in
          (case PrivacyReleaseProof_Validate proof of
             Some e \<Rightarrow> raise (release_unproven (rq_HandoffID req) ''release_proof_invalid'' (Some e))
           | None \<Rightarrow>
               (case rt_privacy (sv_runtime S) of
                  None \<Rightarrow> raise (release_unproven (rq_HandoffID req) ''provider_unconfigured'' None)
                | Some P \<Rightarrow>
                    try_act (ask (pv_ReleasePrivateObservation P ref (pl_handle lease) proof)) (\<lambda>r. case r of
                      Inl e \<Rightarrow> raise (release_unproven (rq_HandoffID req) ''provider_release_failed'' (Some e))
                    | Inr _ \<Rightarrow> advance S (st\<lparr>hs_PrivacyRelease := PrivacyReleaseProven, hs_CaptureState := CapturePublic\<rparr>))))))"

definition automaticReady :: "('w, 'h) Service \<Rightarrow> Request \<Rightarrow> AuthorityEpoch \<Rightarrow> WatchEvent \<Rightarrow> ('w Env, unit) act" where
  "automaticReady S req epoch event =
     seq_act (demand (st_LoadHandoff (sv_store S) (rq_HandoffID req))) (\<lambda>(storedReq, st).
     case hs_HumanClient st of
       None \<Rightarrow> raise (failure_New HandoffReclaimBlocked [(''handoff_id'', rq_HandoffID req), (''reason'', ''automatic_readiness_stale'')] None)
     | Some c \<Rightarrow>
     fail_if (storedReq \<noteq> req \<or> hs_AuthorityEpoch st \<noteq> epoch \<or> hs_Phase st \<noteq> PhaseHumanOwned)
       (failure_New HandoffReclaimBlocked [(''handoff_id'', rq_HandoffID req), (''reason'', ''automatic_readiness_stale'')] None)
     (seq_act (memory (preparedReadiness (rq_HandoffID req) epoch)) (\<lambda>found. case found of
        None \<Rightarrow> raise (failure_New ''shell_integration_lost'' [(''handoff_id'', rq_HandoffID req), (''reason'', ''watcher_missing'')] None)
      | Some prepared \<Rightarrow>
          let watchReq = \<lparr>wr_HandoffID = rq_HandoffID req, wr_AuthorityEpoch = epoch, wr_Shell = pd_Shell prepared,
                wr_Requirement = rr_Requirement (we_Result event)\<rparr>;
              bad = WatchEvent_Validate event watchReq in
          fail_if (bad \<noteq> None \<or> rr_State (we_Result event) \<noteq> RequirementSatisfied \<or> \<not> rr_SafeBoundary (we_Result event))
            (failure_New ''requirement_not_satisfied'' [(''handoff_id'', rq_HandoffID req)] bad)
          (let st1 = st\<lparr>hs_Phase := PhaseHumanFencing, hs_TransferBoundary :=
                 \<lparr>tb_Kind = boundaryKind (bp_Quality (we_Boundary event)), tb_Established = True\<rparr>\<rparr> in
           fail_if (boundaryKind (bp_Quality (we_Boundary event)) = BoundaryNone)
             (failure_New HandoffReclaimBlocked [(''handoff_id'', rq_HandoffID req), (''reason'', ''boundary_unqualified'')] None)
           (seq_act (advance S st1) (\<lambda>_.
            seq_act (reclaimAutomaticAgent S st1 c) (\<lambda>(st2, ref, privateEpoch).
            releaseAutomaticPrivacy S req st2 ref privateEpoch event)))))))"

text \<open>
  \<open>runAutomaticReadiness\<close>: the goroutine of a watcher, from the event (or error) its \<open>Wait\<close>
  returned to the end of the goroutine; the diagnostics on stderr are left out.
\<close>

definition runAutomaticReadiness ::
  "('w, 'h) Service \<Rightarrow> Request \<Rightarrow> AuthorityEpoch \<Rightarrow> PreparedReadiness \<Rightarrow> WatchEvent result \<Rightarrow> goerr option \<Rightarrow> ('w Env, unit) act" where
  "runAutomaticReadiness S req epoch prepared waited ctxErr =
     seq_act (case waited of
         Inl e \<Rightarrow> ret ()
       | Inr event \<Rightarrow>
           if ctxErr \<noteq> None then ret ()
           else if WatchEvent_Validate event \<lparr>wr_HandoffID = rq_HandoffID req, wr_AuthorityEpoch = epoch, wr_Shell = pd_Shell prepared,
                  wr_Requirement = rr_Requirement (we_Result event)\<rparr> \<noteq> None then ret ()
           else if rr_State (we_Result event) \<noteq> RequirementSatisfied \<or> \<not> rr_SafeBoundary (we_Result event) then ret ()
           else try_act (automaticReady S req epoch event) (\<lambda>_. ret ())) (\<lambda>_.
     update (case pd_Watcher prepared of Some w \<Rightarrow> finishReadinessWatcher (rq_HandoffID req) epoch w | None \<Rightarrow> id))"

section \<open>Waiting (wait.go) and projection\<close>

definition MaxWait :: time where
  "MaxWait = 30000000000"

definition handoffStable :: "HandoffState \<Rightarrow> bool" where
  "handoffStable st \<longleftrightarrow> ProjectStatus st \<in> {StatusAgentOwned, StatusHumanOwned, StatusAborted, StatusReclaimBlocked}"

text \<open>
  What a waiting caller may be woken by; other requests change the world while it waits.  The
  wait is over the list of wake-ups, and \<open>None\<close> means that it still waits after them.
\<close>

datatype wake = Woken_changed | Woken_deadline | Woken_done goerr

record WaitResult =
  wt_State :: HandoffState
  wt_TimedOut :: bool

fun wait_loop :: "('w, 'h) Service \<Rightarrow> string \<Rightarrow> time \<Rightarrow> (('w Env \<Rightarrow> 'w Env) \<times> wake) list \<Rightarrow> 'w Env
    \<Rightarrow> WaitResult outcome option \<times> 'w Env" where
  "wait_loop S i wait wakes s =
     (case Inspect S i s of
        (Ok st, s1) \<Rightarrow>
          if handoffStable st \<or> wait = 0 then (Some (Ok \<lparr>wt_State = st, wt_TimedOut = False\<rparr>), s1)
          else (case wakes of
              [] \<Rightarrow> (None, s1)
            | (during, Woken_done e) # _ \<Rightarrow> (Some (Err e), during s1)
            | (during, Woken_changed) # rest \<Rightarrow> wait_loop S i wait rest (during s1)
            | (during, Woken_deadline) # _ \<Rightarrow>
                (case Inspect S i (during s1) of
                   (Ok st', s2) \<Rightarrow> (Some (Ok \<lparr>wt_State = st', wt_TimedOut = True\<rparr>), s2)
                 | (Err e, s2) \<Rightarrow> (Some (Err e), s2)
                 | (ErrWith _ e, s2) \<Rightarrow> (Some (Err e), s2)
                 | (Panic, s2) \<Rightarrow> (Some Panic, s2)))
      | (Err e, s1) \<Rightarrow> (Some (Err e), s1)
      | (ErrWith _ e, s1) \<Rightarrow> (Some (Err e), s1)
      | (Panic, s1) \<Rightarrow> (Some Panic, s1))"

definition Wait :: "('w, 'h) Service \<Rightarrow> string \<Rightarrow> time \<Rightarrow> (('w Env \<Rightarrow> 'w Env) \<times> wake) list \<Rightarrow> 'w Env
    \<Rightarrow> WaitResult outcome option \<times> 'w Env" where
  "Wait S i wait = wait_loop S i (min (max wait 0) MaxWait)"

definition ProjectPublic :: "('w \<Rightarrow> string \<Rightarrow> (time \<times> time) result) option \<Rightarrow> HandoffState \<Rightarrow> ('w Env, PublicState) act" where
  "ProjectPublic timestamps st =
     seq_act (case timestamps of
         None \<Rightarrow> ret (0, 0)
       | Some load \<Rightarrow> demand (\<lambda>w. (load w (hs_HandoffID st), w))) (\<lambda>(createdAt, updatedAt) s.
     case ProjectPublicState st createdAt updatedAt of Inl e \<Rightarrow> (Err e, s) | Inr p \<Rightarrow> (Ok p, s))"

end
