(* ===== verification/HandoffContract.thy ===== *)
theory HandoffContract
  imports HandoffService
begin

text \<open>
  What the coordinator of handoffs promises of the states it stores.  Its proofs use a small
  Hoare logic over actions: an invariant of the state, a relation that every action respects,
  and preconditions that the relation keeps.
\<close>

section \<open>Triples over actions\<close>

definition delivers :: "'a outcome \<Rightarrow> 'a \<Rightarrow> bool" where
  "delivers r x \<longleftrightarrow> r = Ok x \<or> (\<exists>e. r = ErrWith x e)"

definition triple ::
  "('s \<Rightarrow> bool) \<Rightarrow> ('s \<Rightarrow> 's \<Rightarrow> bool) \<Rightarrow> ('s \<Rightarrow> bool) \<Rightarrow> ('s, 'a) act \<Rightarrow> ('a \<Rightarrow> 's \<Rightarrow> bool) \<Rightarrow> bool" where
  "triple I U P m Q \<longleftrightarrow> (\<forall>s r s'. I s \<longrightarrow> P s \<longrightarrow> m s = (r, s') \<longrightarrow> I s' \<and> U s s' \<and> (\<forall>x. delivers r x \<longrightarrow> Q x s'))"

definition kept :: "('s \<Rightarrow> 's \<Rightarrow> bool) \<Rightarrow> ('s \<Rightarrow> bool) \<Rightarrow> bool" where
  "kept U P \<longleftrightarrow> (\<forall>s s'. U s s' \<longrightarrow> P s \<longrightarrow> P s')"

lemma tripleD:
  assumes "triple I U P m Q" "I s" "P s" "m s = (r, s')"
  shows "I s'" "U s s'" "delivers r x \<Longrightarrow> Q x s'"
  using assms by (auto simp: triple_def)

locale progress =
  fixes I :: "'s \<Rightarrow> bool" and U :: "'s \<Rightarrow> 's \<Rightarrow> bool"
  assumes U_refl: "U s s"
    and U_trans: "U s s1 \<Longrightarrow> U s1 s2 \<Longrightarrow> U s s2"
begin

lemma continue_with:
  assumes "triple I U P k R" "k s1 = (r, s')" "I s1" "U s s1" "P s1"
  shows "I s' \<and> U s s' \<and> (\<forall>x. delivers r x \<longrightarrow> R x s')"
  using tripleD [OF assms(1,3,5,2)] U_trans [OF assms(4)] by blast

lemma triple_ret: "(\<And>s. P s \<Longrightarrow> Q x s) \<Longrightarrow> triple I U P (ret x) Q"
  by (auto simp: triple_def ret_def delivers_def U_refl)

lemma triple_raise: "triple I U P (raise e) Q"
  by (auto simp: triple_def raise_def delivers_def U_refl)

lemma triple_raise_with: "(\<And>s. P s \<Longrightarrow> Q x s) \<Longrightarrow> triple I U P (raise_with x e) Q"
  by (auto simp: triple_def raise_with_def delivers_def U_refl)

lemma triple_panic: "triple I U P panic Q"
  by (auto simp: triple_def panic_def delivers_def U_refl)

lemma triple_fail_if: "(\<not> c \<Longrightarrow> triple I U P k Q) \<Longrightarrow> triple I U P (fail_if c e k) Q"
  using triple_raise by (auto simp: fail_if_def)

lemma triple_check_valid: "(v = None \<Longrightarrow> triple I U P k Q) \<Longrightarrow> triple I U P (check_valid v k) Q"
  using triple_raise by (auto simp: check_valid_def split: option.splits)

lemma triple_seq:
  assumes "triple I U P m Q" "kept U P" "\<And>x. triple I U (\<lambda>s. P s \<and> Q x s) (f x) R"
  shows "triple I U P (seq_act m f) R"
proof (unfold triple_def, intro allI impI)
  fix s r s' assume I: "I s" and P: "P s" and run: "seq_act m f s = (r, s')"
  obtain r1 s1 where m: "m s = (r1, s1)" by fastforce
  note s1 = tripleD(1,2) [OF assms(1) I P m] and Q = tripleD(3) [OF assms(1) I P m]
  from s1(2) P assms(2) have P1: "P s1" by (auto simp: kept_def)
  show "I s' \<and> U s s' \<and> (\<forall>x. delivers r x \<longrightarrow> R x s')"
  proof (cases r1)
    case (Ok x)
    with run m have f: "f x s1 = (r, s')" by (simp add: seq_act_def)
    from Q Ok P1 have "P s1 \<and> Q x s1" by (simp add: delivers_def)
    with f s1 show ?thesis by (intro continue_with [OF assms(3)])
  qed (use run m s1 in \<open>auto simp: seq_act_def delivers_def\<close>)
qed

lemma triple_then:
  assumes "triple I U P m (\<lambda>_ _. True)" "kept U P" "\<And>x. triple I U P (f x) R"
  shows "triple I U P (seq_act m f) R"
  by (rule triple_seq [OF assms(1,2)]) (simp add: assms(3))

lemma triple_try:
  assumes "triple I U P m Q" "kept U P" "\<And>x. triple I U (\<lambda>s. P s \<and> Q x s) (f (Inr x)) R" "\<And>e. triple I U P (f (Inl e)) R"
  shows "triple I U P (try_act m f) R"
proof (unfold triple_def, intro allI impI)
  fix s r s' assume I: "I s" and P: "P s" and run: "try_act m f s = (r, s')"
  obtain r1 s1 where m: "m s = (r1, s1)" by fastforce
  note s1 = tripleD(1,2) [OF assms(1) I P m] and Q = tripleD(3) [OF assms(1) I P m]
  from s1(2) P assms(2) have P1: "P s1" by (auto simp: kept_def)
  have err: "I s' \<and> U s s' \<and> (\<forall>x. delivers r x \<longrightarrow> R x s')" if "f (Inl e) s1 = (r, s')" for e
    using that s1 P1 by (intro continue_with [OF assms(4)])
  show "I s' \<and> U s s' \<and> (\<forall>x. delivers r x \<longrightarrow> R x s')"
  proof (cases r1)
    case (Ok x)
    with run m have f: "f (Inr x) s1 = (r, s')" by (simp add: try_act_def)
    from Q Ok P1 have "P s1 \<and> Q x s1" by (simp add: delivers_def)
    with f s1 show ?thesis by (intro continue_with [OF assms(3)])
  qed (use run m s1 err in \<open>auto simp: try_act_def delivers_def\<close>)
qed

lemma triple_try_then:
  assumes "triple I U P m (\<lambda>_ _. True)" "kept U P" "\<And>x. triple I U P (f x) R"
  shows "triple I U P (try_act m f) R"
  by (rule triple_try [OF assms(1,2)]) (simp_all add: assms(3))

lemma triple_pass:
  assumes "triple I U P m Q" "kept U P" "\<And>x. triple I U (\<lambda>s. P s \<and> Q x s) (f x) Q"
  shows "triple I U P (pass_act m f) Q"
proof (unfold triple_def, intro allI impI)
  fix s r s' assume I: "I s" and P: "P s" and run: "pass_act m f s = (r, s')"
  obtain r1 s1 where m: "m s = (r1, s1)" by fastforce
  note s1 = tripleD(1,2) [OF assms(1) I P m] and Q = tripleD(3) [OF assms(1) I P m]
  from s1(2) P assms(2) have P1: "P s1" by (auto simp: kept_def)
  show "I s' \<and> U s s' \<and> (\<forall>x. delivers r x \<longrightarrow> Q x s')"
  proof (cases r1)
    case (Ok x)
    with run m have f: "f x s1 = (r, s')" by (simp add: pass_act_def)
    from Q Ok P1 have "P s1 \<and> Q x s1" by (simp add: delivers_def)
    with f s1 show ?thesis by (intro continue_with [OF assms(3)])
  qed (use run m s1 Q in \<open>simp_all add: pass_act_def\<close>)
qed

lemma triple_weaken: "triple I U P m Q \<Longrightarrow> (\<And>x s. Q x s \<Longrightarrow> R x s) \<Longrightarrow> triple I U P m R"
  by (auto simp: triple_def)

lemma triple_strengthen: "triple I U P m Q \<Longrightarrow> (\<And>s. R s \<Longrightarrow> P s) \<Longrightarrow> triple I U R m Q"
  by (auto simp: triple_def)

lemma normalized_cases:
  assumes "normalized m s = (r, s')"
  obtains r0 where "m s = (r0, s')" "\<And>x. delivers r x \<Longrightarrow> delivers r0 x"
  using assms by (cases "m s"; cases "fst (m s)") (auto simp: normalized_def delivers_def)

lemma triple_normalized: "triple I U P m Q \<Longrightarrow> triple I U P (normalized m) Q"
  unfolding triple_def by (blast elim: normalized_cases)

lemma kept_conj: "kept U P \<Longrightarrow> kept U Q \<Longrightarrow> kept U (\<lambda>s. P s \<and> Q s)"
  by (auto simp: kept_def)

lemma kept_const: "kept U (\<lambda>s. c)"
  by (auto simp: kept_def)

end

section \<open>The coordinator's contract\<close>

text \<open>
  Which side may write in each phase: \<open>HumanIngress\<close> and \<open>AgentIngress\<close> are never both left
  unfenced, the human side is writable only while the human is the desired owner and its client
  is bound, and the agent side only in \<open>AGENT_OWNED\<close>.
\<close>

definition handoff_ok :: "HandoffState \<Rightarrow> bool" where
  "handoff_ok st \<longleftrightarrow>
     (case hs_Phase st of
        PhaseAgentOwned \<Rightarrow> hs_DesiredOwner st = OwnerAgent \<and> hs_AgentIngress st = IngressWritable \<and> hs_HumanIngress st = IngressFenced
      | PhaseAgentFencing \<Rightarrow> hs_DesiredOwner st = OwnerHuman \<and> hs_AgentIngress st \<noteq> IngressWritable \<and>
          hs_HumanIngress st = IngressFenced \<and> hs_HumanClient st = None
      | PhaseHumanConnecting \<Rightarrow> hs_DesiredOwner st = OwnerHuman \<and> hs_AgentIngress st = IngressFenced \<and> hs_HumanIngress st = IngressFenced
      | PhaseHumanOwned \<Rightarrow> hs_DesiredOwner st = OwnerHuman \<and> hs_AgentIngress st = IngressFenced \<and>
          hs_HumanIngress st = IngressWritable \<and> hs_HumanClient st \<noteq> None
      | PhaseHumanFencing \<Rightarrow> hs_DesiredOwner st = OwnerHuman \<and> hs_AgentIngress st = IngressFenced \<and>
          (hs_HumanIngress st = IngressFenced \<or> hs_HumanClient st \<noteq> None)
      | PhaseReclaimPending \<Rightarrow> hs_DesiredOwner st \<noteq> OwnerAgent \<and> hs_AgentIngress st \<noteq> IngressWritable \<and>
          (hs_AgentIngress st = IngressFenced \<or> hs_HumanIngress st = IngressFenced)
      | PhaseAborted \<Rightarrow> hs_DesiredOwner st = OwnerNone \<and> hs_AgentIngress st = IngressFenced \<and> hs_HumanIngress st = IngressFenced
      | OtherPhase _ \<Rightarrow> False)"

text \<open>A state that lets the human write has the durable mark that a human may have written.\<close>

definition fine :: "('w \<Rightarrow> string \<Rightarrow> bool) \<Rightarrow> 'w Env \<Rightarrow> HandoffState \<Rightarrow> bool" where
  "fine granted s st \<longleftrightarrow> handoff_ok st \<and> (hs_HumanIngress st = IngressWritable \<longrightarrow> granted (ev_world s) (hs_SessionID st))"

definition all_fine :: "('w \<Rightarrow> HandoffState \<Rightarrow> bool) \<Rightarrow> ('w \<Rightarrow> string \<Rightarrow> bool) \<Rightarrow> 'w Env \<Rightarrow> bool" where
  "all_fine holds granted s \<longleftrightarrow> (\<forall>st. holds (ev_world s) st \<longrightarrow> fine granted s st)"

definition grants :: "('w \<Rightarrow> string \<Rightarrow> bool) \<Rightarrow> 'w Env \<Rightarrow> 'w Env \<Rightarrow> bool" where
  "grants granted s s' \<longleftrightarrow> (\<forall>sid. granted (ev_world s) sid \<longrightarrow> granted (ev_world s') sid)"

text \<open>A call that adds at most the states \<open>A\<close> to the store and forgets no mark.\<close>

definition adds :: "('w \<Rightarrow> HandoffState \<Rightarrow> bool) \<Rightarrow> ('w \<Rightarrow> string \<Rightarrow> bool) \<Rightarrow> HandoffState set \<Rightarrow> ('w \<Rightarrow> 'a result \<times> 'w) \<Rightarrow> bool" where
  "adds holds granted A f \<longleftrightarrow> (\<forall>w r w'. f w = (r, w') \<longrightarrow>
     (\<forall>st. holds w' st \<longrightarrow> holds w st \<or> st \<in> A) \<and> (\<forall>sid. granted w sid \<longrightarrow> granted w' sid))"

locale coordinator =
  fixes S :: "('w, 'h) Service" and holds :: "'w \<Rightarrow> HandoffState \<Rightarrow> bool" and granted :: "'w \<Rightarrow> string \<Rightarrow> bool"
  assumes find_adds: "adds holds granted {} (st_FindHandoff (sv_store S) i)"
    and find_holds: "st_FindHandoff (sv_store S) i w = (Inr (Some (req, st)), w') \<Longrightarrow> holds w st"
    and load_adds: "adds holds granted {} (st_LoadHandoff (sv_store S) i)"
    and load_holds: "st_LoadHandoff (sv_store S) i w = (Inr (req, st), w') \<Longrightarrow> holds w st"
    and recover_adds: "adds holds granted {} (st_RecoverHandoff (sv_store S) i)"
    and recover_holds: "st_RecoverHandoff (sv_store S) i w = (Inr st, w') \<Longrightarrow> holds w st"
    and reserve_adds: "adds holds granted {st} (st_ReserveHandoff (sv_store S) req st)"
    and reserve_holds: "st_ReserveHandoff (sv_store S) req st w = (Inr (st', created), w') \<Longrightarrow> holds w st' \<or> st' = st"
    and advance_adds: "adds holds granted {st} (st_AdvanceHandoff (sv_store S) st)"
    and binding_adds: "adds holds granted {} (st_LoadDelegatedBinding (sv_store S) sid)"
    and ref_adds: "adds holds granted {} (st_LoadDelegatedProviderRef (sv_store S) sid)"
    and reserve_control_adds: "adds holds granted {} (st_ReserveControlSignal (sv_store S) signal)"
    and complete_control_adds: "adds holds granted {} (st_CompleteControlSignal (sv_store S) signal out)"
    and mark_adds: "adds holds granted {} (st_MarkHumanWriteAuthorityGranted (sv_store S) sid)"
    and mark_granted: "st_MarkHumanWriteAuthorityGranted (sv_store S) sid w = (Inr u, w') \<Longrightarrow> granted w' sid"
    and provenance_adds: "adds holds granted {} (st_LoadInputAuthorityProvenance (sv_store S) sid)"
    and private_adds: "st_MarkPrivateCapture (sv_store S) = Some mark \<Longrightarrow> adds holds granted {} (mark sid)"
    and arm_private_adds: "rt_privacy (sv_runtime S) = Some P \<Longrightarrow> adds holds granted {} (pv_ArmPrivateObservation P ref spec)"
    and prove_private_adds: "rt_privacy (sv_runtime S) = Some P \<Longrightarrow> adds holds granted {} (pv_ProvePrivateObservation P ref handle)"
    and release_private_adds: "rt_privacy (sv_runtime S) = Some P \<Longrightarrow> adds holds granted {} (pv_ReleasePrivateObservation P ref handle prf)"
    and inspect_adds: "adds holds granted {} (rt_Inspect (sv_runtime S) ref)"
    and attach_adds: "adds holds granted {} (rt_AttachHuman (sv_runtime S) ref aspec)"
    and writable_adds: "adds holds granted {} (rt_SetHumanWritable (sv_runtime S) ref client b)"
    and fence_adds: "adds holds granted {} (rt_FenceHumanIngress (sv_runtime S) ref client epoch)"
    and client_adds: "adds holds granted {} (rt_InspectHumanClient (sv_runtime S) ref client)"
    and arm_adds: "adds holds granted {} (rt_ArmWritableHumanControl (sv_runtime S) ref client cspec)"
    and control_adds: "adds holds granted {} (rt_PrepareReadOnlyLocalControl (sv_runtime S) ref client)"
    and signal_adds: "adds holds granted {} (rt_Signal (sv_runtime S) ref sig)"
    and fencer_adds: "adds holds granted {} (sv_fencer S sid epoch)"
    and presenter_adds: "sv_presenter S = Some present \<Longrightarrow> adds holds granted {} (present i hint)"
    and readiness_adds: "sv_readiness S = Some prepare \<Longrightarrow> adds holds granted {} (prepare rreq)"
begin

end

sublocale coordinator \<subseteq> progress "all_fine holds granted" "grants granted"
  by unfold_locales (auto simp: grants_def)

context coordinator
begin

abbreviation tr :: "('w Env \<Rightarrow> bool) \<Rightarrow> ('w Env, 'a) act \<Rightarrow> ('a \<Rightarrow> 'w Env \<Rightarrow> bool) \<Rightarrow> bool" where
  "tr \<equiv> triple (all_fine holds granted) (grants granted)"

abbreviation stays :: "('w Env \<Rightarrow> bool) \<Rightarrow> bool" where
  "stays \<equiv> kept (grants granted)"

abbreviation ok :: "'w Env \<Rightarrow> HandoffState \<Rightarrow> bool" where
  "ok \<equiv> fine granted"

lemma stays_ok: "stays (\<lambda>s. ok s st)"
  by (auto simp: kept_def grants_def fine_def)

lemma stays_granted: "stays (\<lambda>s. granted (ev_world s) sid)"
  by (auto simp: kept_def grants_def)

lemmas stays_rules = kept_conj kept_const stays_ok stays_granted

lemma tr_update: "(\<And>s. ev_world (f s) = ev_world s) \<Longrightarrow> tr P (update f) (\<lambda>_ _. True)"
  by (auto simp: triple_def update_def all_fine_def fine_def grants_def)

lemma tr_memory: "tr P (memory f) (\<lambda>_ _. True)"
  by (auto simp: triple_def memory_def U_refl)

lemma ask_step:
  assumes f: "f (ev_world s) = (r, w)" and inv: "all_fine holds granted s" and add: "adds holds granted A f"
    and new: "\<And>st. st \<in> A \<Longrightarrow> ok s st"
  shows "all_fine holds granted (s\<lparr>ev_world := w\<rparr>)" "grants granted s (s\<lparr>ev_world := w\<rparr>)"
proof -
  from f add show g: "grants granted s (s\<lparr>ev_world := w\<rparr>)" by (simp add: adds_def grants_def)
  have up: "ok (s\<lparr>ev_world := w\<rparr>) st" if "ok s st" for st
    using g that by (simp add: fine_def grants_def)
  have "ok s st" if "holds w st" for st
    using f add inv new that by (fastforce simp: adds_def all_fine_def)
  with up show "all_fine holds granted (s\<lparr>ev_world := w\<rparr>)" by (simp add: all_fine_def)
qed

lemma tr_ask:
  assumes "adds holds granted A f" "\<And>s st. P s \<Longrightarrow> st \<in> A \<Longrightarrow> ok s st"
    and "\<And>s x w. f (ev_world s) = (Inr x, w) \<Longrightarrow> all_fine holds granted s \<Longrightarrow> P s \<Longrightarrow> Q x (s\<lparr>ev_world := w\<rparr>)"
  shows "tr P (ask f) Q"
proof (unfold triple_def, intro allI impI)
  fix s r s' assume I: "all_fine holds granted s" and P: "P s" and run: "ask f s = (r, s')"
  obtain y w where f: "f (ev_world s) = (y, w)" by fastforce
  from run f have s': "s' = s\<lparr>ev_world := w\<rparr>" and r: "r = (case y of Inl e \<Rightarrow> Err e | Inr x \<Rightarrow> Ok x)"
    by (auto simp: ask_def split: sum.splits)
  from assms(3) [OF _ I P] f have "delivers r x \<longrightarrow> Q x s'" for x
    by (auto simp: r s' delivers_def split: sum.splits)
  with ask_step [OF f I assms(1) assms(2) [OF P]]
  show "all_fine holds granted s' \<and> grants granted s s' \<and> (\<forall>x. delivers r x \<longrightarrow> Q x s')" by (simp add: s')
qed

lemma tr_call: "adds holds granted {} f \<Longrightarrow> tr P (ask f) (\<lambda>_ _. True)"
  by (rule tr_ask) auto

lemma tr_demand: "adds holds granted {} f \<Longrightarrow> tr P (demand f) (\<lambda>_ _. True)"
  unfolding demand_def by (rule triple_normalized, rule tr_call)

lemma stored_ok:
  assumes "all_fine holds granted s" "holds (ev_world s) st" "adds holds granted A f" "f (ev_world s) = (r, w)"
  shows "ok (s\<lparr>ev_world := w\<rparr>) st"
  using assms by (auto simp: all_fine_def fine_def adds_def)

lemma tr_found:
  "tr P (demand (st_FindHandoff (sv_store S) i)) (\<lambda>found s. case found of None \<Rightarrow> True | Some (req, st) \<Rightarrow> ok s st)"
  unfolding demand_def
  by (rule triple_normalized, rule tr_ask [OF find_adds])
    (auto split: option.splits dest: find_holds intro: stored_ok [OF _ _ find_adds])

lemma tr_loaded: "tr P (demand (st_LoadHandoff (sv_store S) i)) (\<lambda>(req, st) s. ok s st)"
  unfolding demand_def
  by (rule triple_normalized, rule tr_ask [OF load_adds]) (auto dest: load_holds intro: stored_ok [OF _ _ load_adds])

lemma tr_recovered: "tr P (demand (st_RecoverHandoff (sv_store S) i)) (\<lambda>st s. ok s st)"
  unfolding demand_def
  by (rule triple_normalized, rule tr_ask [OF recover_adds]) (auto dest: recover_holds intro: stored_ok [OF _ _ recover_adds])

lemma tr_reserved:
  assumes "\<And>s. P s \<Longrightarrow> ok s st"
  shows "tr P (demand (st_ReserveHandoff (sv_store S) req st)) (\<lambda>(st', created) s. ok s st')"
  unfolding demand_def
proof (rule triple_normalized, rule tr_ask [OF reserve_adds])
  fix s x w assume run: "st_ReserveHandoff (sv_store S) req st (ev_world s) = (Inr x, w)" and I: "all_fine holds granted s" and P: "P s"
  obtain st' created where x: "x = (st', created)" by fastforce
  from reserve_holds run x consider "holds (ev_world s) st'" | "st' = st" by blast
  then have "ok (s\<lparr>ev_world := w\<rparr>) st'"
  proof cases
    case 1 then show ?thesis by (rule stored_ok [OF I _ reserve_adds run])
  next
    case 2 with assms [OF P] reserve_adds run show ?thesis by (auto simp: fine_def adds_def)
  qed
  then show "(case x of (st', created) \<Rightarrow> \<lambda>s. ok s st') (s\<lparr>ev_world := w\<rparr>)" by (simp add: x)
qed (use assms in auto)

lemma tr_marked: "tr P (demand (st_MarkHumanWriteAuthorityGranted (sv_store S) sid)) (\<lambda>_ s. granted (ev_world s) sid)"
  unfolding demand_def by (rule triple_normalized, rule tr_ask [OF mark_adds]) (auto dest: mark_granted)

lemma tr_advance:
  assumes "\<And>s. P s \<Longrightarrow> ok s st"
  shows "tr P (advance S st) (\<lambda>_ _. True)"
  unfolding advance_def demand_def
  by (rule triple_check_valid, rule triple_normalized, rule tr_ask [OF advance_adds]) (use assms in auto)

lemma tr_find: "tr P (find_handoff S i) (\<lambda>(req, st) s. ok s st)"
proof -
  have "tr (\<lambda>_. True) (find_handoff S i) (\<lambda>(req, st) s. ok s st)"
    unfolding find_handoff_def
    by (rule triple_seq [OF tr_found]) (auto intro: kept_const triple_raise triple_ret split: option.splits)
  then show ?thesis by (rule triple_strengthen) simp
qed

lemma seq_demand: "adds holds granted {} f \<Longrightarrow> stays P \<Longrightarrow> (\<And>x. tr P (k x) R) \<Longrightarrow> tr P (seq_act (demand f) k) R"
  by (rule triple_then [OF tr_demand])

lemma seq_memory: "stays P \<Longrightarrow> (\<And>x. tr P (k x) R) \<Longrightarrow> tr P (seq_act (memory f) k) R"
  by (rule triple_then [OF tr_memory])

lemma seq_update: "(\<And>s. ev_world (f s) = ev_world s) \<Longrightarrow> stays P \<Longrightarrow> (\<And>x. tr P (k x) R) \<Longrightarrow> tr P (seq_act (update f) k) R"
  by (rule triple_then [OF tr_update])

lemma seq_advance: "(\<And>s. P s \<Longrightarrow> ok s st) \<Longrightarrow> stays P \<Longrightarrow> (\<And>x. tr P (k x) R) \<Longrightarrow> tr P (seq_act (advance S st) k) R"
  by (rule triple_then [OF tr_advance])

lemma seq_mark:
  "stays P \<Longrightarrow> (\<And>x. tr (\<lambda>s. P s \<and> granted (ev_world s) sid) (k x) R) \<Longrightarrow>
    tr P (seq_act (demand (st_MarkHumanWriteAuthorityGranted (sv_store S) sid)) k) R"
  by (rule triple_seq [OF tr_marked])

lemma try_ask: "adds holds granted {} f \<Longrightarrow> stays P \<Longrightarrow> (\<And>x. tr P (k x) R) \<Longrightarrow> tr P (try_act (ask f) k) R"
  by (rule triple_try_then [OF tr_call])

lemma try_demand: "adds holds granted {} f \<Longrightarrow> stays P \<Longrightarrow> (\<And>x. tr P (k x) R) \<Longrightarrow> tr P (try_act (demand f) k) R"
  by (rule triple_try_then [OF tr_demand])

lemma try_advance: "(\<And>s. P s \<Longrightarrow> ok s st) \<Longrightarrow> stays P \<Longrightarrow> (\<And>x. tr P (k x) R) \<Longrightarrow> tr P (try_act (advance S st) k) R"
  by (rule triple_try_then [OF tr_advance])

lemma tr_if: "(c \<Longrightarrow> tr P a R) \<Longrightarrow> (\<not> c \<Longrightarrow> tr P b R) \<Longrightarrow> tr P (if c then a else b) R"
  by simp

lemma tr_option: "(v = None \<Longrightarrow> tr P a R) \<Longrightarrow> (\<And>x. v = Some x \<Longrightarrow> tr P (b x) R) \<Longrightarrow> tr P (case v of None \<Rightarrow> a | Some x \<Rightarrow> b x) R"
  by (cases v) auto

lemma tr_sum: "(\<And>x. v = Inl x \<Longrightarrow> tr P (a x) R) \<Longrightarrow> (\<And>x. v = Inr x \<Longrightarrow> tr P (b x) R) \<Longrightarrow> tr P (case v of Inl x \<Rightarrow> a x | Inr x \<Rightarrow> b x) R"
  by (cases v) auto

lemma tr_prod: "(\<And>x y. v = (x, y) \<Longrightarrow> tr P (f x y) R) \<Longrightarrow> tr P (case v of (x, y) \<Rightarrow> f x y) R"
  by (cases v) auto

lemmas quiet_calls = binding_adds ref_adds reserve_control_adds complete_control_adds provenance_adds
  arm_private_adds prove_private_adds release_private_adds inspect_adds attach_adds writable_adds fence_adds
  client_adds arm_adds control_adds signal_adds fencer_adds

lemmas call_rules = quiet_calls [THEN seq_demand] quiet_calls [THEN try_ask] quiet_calls [THEN try_demand] quiet_calls [THEN tr_demand]

lemmas steps = triple_fail_if triple_check_valid tr_if tr_option tr_sum tr_prod seq_advance try_advance
  seq_memory seq_mark call_rules triple_raise triple_panic stays_rules

lemma finishAgentFence_ok:
  assumes "stays P" "\<And>s. P s \<Longrightarrow> ok s st \<and> hs_Phase st = PhaseAgentFencing"
  shows "tr P (finishAgentFence S st) (\<lambda>st' s. ok s st' \<and> hs_Phase st' = PhaseHumanConnecting)"
  unfolding finishAgentFence_def Let_def
  by (intro steps triple_ret assms(1)) (auto dest!: assms(2) simp: fine_def handoff_ok_def)

lemmas ok_defs = fine_def handoff_ok_def

lemma ok_irrelevant [simp]:
  "ok s (st\<lparr>hs_ProviderOwner := a1\<rparr>) = ok s st" "ok s (st\<lparr>hs_TransferBoundary := a2\<rparr>) = ok s st"
  "ok s (st\<lparr>hs_PrivacyState := a3\<rparr>) = ok s st" "ok s (st\<lparr>hs_PrivacyRelease := a4\<rparr>) = ok s st"
  "ok s (st\<lparr>hs_CaptureState := a5\<rparr>) = ok s st" "ok s (st\<lparr>hs_FailureCode := a6\<rparr>) = ok s st"
  "ok s (st\<lparr>hs_AuthorityEpoch := a7\<rparr>) = ok s st"
  by (simp_all add: ok_defs cong: Phase.case_cong)

lemma ensure_world [simp]: "ev_world (ensurePreparation i e s) = ev_world s"
  by (auto simp: ensurePreparation_def split: option.splits)

lemma cancel_world [simp]: "ev_world (cancelReadiness i s) = ev_world s"
  by (auto simp: cancelReadiness_def split: option.splits)

lemma start_world [simp]: "ev_world (startAutomaticReadiness req st s) = ev_world s"
  by (auto simp: startAutomaticReadiness_def split: option.splits)

lemma attach_world [simp]:
  "ev_world (rememberAttachment i a s) = ev_world s" "ev_world (forgetAttachment i s) = ev_world s"
  by (simp_all add: rememberAttachment_def forgetAttachment_def)

lemma finish_world [simp]: "ev_world (finishReadinessWatcher i e w s) = ev_world s"
  by (auto simp: finishReadinessWatcher_def split: option.splits)

lemma prepareReadiness_ok: "stays P \<Longrightarrow> tr P (prepareReadiness S req st ref) (\<lambda>_ _. True)"
  unfolding prepareReadiness_def Let_def
  by (intro steps readiness_adds [THEN try_ask] triple_ret seq_update tr_update) auto

lemma mark_private_ok: "stays P \<Longrightarrow> (\<And>s. P s \<Longrightarrow> Q st s) \<Longrightarrow> tr P (mark_private S st) Q"
  unfolding mark_private_def by (intro steps private_adds [THEN try_ask] triple_ret) auto

lemma preparePrivate_ok:
  assumes "stays P" "\<And>s. P s \<Longrightarrow> ok s st \<and> hs_Phase st = ph"
  shows "tr P (preparePrivate S st ref) (\<lambda>st' s. ok s st' \<and> hs_Phase st' = ph)"
  unfolding preparePrivate_def Let_def
  by (intro steps triple_ret seq_update mark_private_ok assms(1)) (auto dest!: assms(2))

lemma prepareH4_ok:
  assumes "stays P" "\<And>s. P s \<Longrightarrow> ok s st \<and> hs_Phase st = ph"
  shows "tr P (prepareH4 S req st) (\<lambda>st' s. ok s st' \<and> hs_Phase st' = ph)"
  unfolding prepareH4_def
  by (intro steps triple_ret triple_then [OF prepareReadiness_ok] preparePrivate_ok assms)

lemma ensurePrivateCurrent_ok:
  assumes "stays P" "\<And>s. P s \<Longrightarrow> ok s st \<and> hs_Phase st = ph"
  shows "tr P (ensurePrivateCurrent S req st) (\<lambda>st' s. ok s st' \<and> hs_Phase st' = ph)"
  unfolding ensurePrivateCurrent_def
  by (intro steps triple_ret seq_update prepareH4_ok assms) auto

lemma presentAfterH2_ok:
  assumes "stays P" "\<And>s. P s \<Longrightarrow> ok s st"
  shows "tr P (presentAfterH2 S st hint) (\<lambda>st' s. ok s st')"
  unfolding presentAfterH2_def
  by (intro steps presenter_adds [THEN try_ask] triple_ret triple_raise_with assms) auto

lemma preflightAgentOwned_ok: "stays P \<Longrightarrow> tr P (preflightAgentOwned S sid) (\<lambda>_ _. True)"
  unfolding preflightAgentOwned_def by (intro steps triple_ret) auto

lemma ok_AgentFencing:
  "hs_Phase st = PhaseAgentFencing \<Longrightarrow> hs_DesiredOwner st = OwnerHuman \<Longrightarrow> hs_AgentIngress st = IngressUnknown \<Longrightarrow>
    hs_HumanIngress st = IngressFenced \<Longrightarrow> hs_HumanClient st = None \<Longrightarrow> ok s st"
  by (simp add: ok_defs)

lemma stays_found: "stays (\<lambda>s. case found of None \<Rightarrow> True | Some (req, st) \<Rightarrow> ok s st)"
  by (cases found) (auto intro: stays_rules)

lemma stays_pair: "stays (\<lambda>s. case p of (req, st) \<Rightarrow> ok s st)"
  by (cases p) (auto intro: stays_rules)

lemma stays_reserved: "stays (\<lambda>s. case p of (st, created) \<Rightarrow> ok s st)"
  by (cases p) (auto intro: stays_rules)

lemma fence_if_pending_ok:
  assumes "stays P" "\<And>s. P s \<Longrightarrow> ok s st"
  shows "tr P (if hs_Phase st = PhaseAgentFencing then finishAgentFence S st else ret st) (\<lambda>st' s. ok s st')"
  by (rule tr_if) (auto intro!: triple_weaken [OF finishAgentFence_ok] triple_ret assms dest: assms(2))

lemma prepareH4_any:
  assumes "stays P" "\<And>s. P s \<Longrightarrow> ok s st"
  shows "tr P (prepareH4 S req st) (\<lambda>st' s. ok s st')"
  by (rule triple_weaken [OF prepareH4_ok [OF assms(1), where ph = "hs_Phase st"]]) (auto dest: assms(2))

lemma request_ok: "stays P \<Longrightarrow> tr P (request S req hint) (\<lambda>st s. ok s st)"
  unfolding request_def Let_def
  by (intro steps stays_found stays_reserved triple_seq [OF tr_found] triple_seq [OF fence_if_pending_ok]
      triple_seq [OF tr_if [OF prepareH4_any triple_ret]] triple_seq [OF prepareH4_any] triple_then [OF preflightAgentOwned_ok]
      triple_seq [OF tr_reserved] presentAfterH2_ok)
   (auto simp: stays_ok intro!: ok_AgentFencing)

lemma RequestWithPresentation_ok: "stays P \<Longrightarrow> tr P (RequestWithPresentation S validate req hint) (\<lambda>st s. ok s st)"
  unfolding RequestWithPresentation_def by (intro steps request_ok)


lemma makeHumanWritable_ok: "stays P \<Longrightarrow> tr P (makeHumanWritable S ref client st) (\<lambda>_ _. True)"
  unfolding makeHumanWritable_def
  by (intro steps triple_ret triple_then [OF tr_if [OF tr_demand [OF writable_adds] triple_ret]]) auto

lemma adopt_client_ok:
  assumes "stays P" "\<And>s. P s \<Longrightarrow> ok s st \<and> hs_Phase st = PhaseHumanConnecting"
  shows "tr P (adopt_client S st client obs) (\<lambda>st' s. ok s st' \<and> hs_Phase st' = PhaseHumanConnecting \<and> hs_HumanClient st' \<noteq> None)"
  unfolding adopt_client_def Let_def
  by (intro steps triple_ret assms(1)) (auto dest!: assms(2) simp: ok_defs)

lemma human_owned_ok:
  "ok s st \<Longrightarrow> hs_Phase st = PhaseHumanConnecting \<Longrightarrow> hs_HumanClient st \<noteq> None \<Longrightarrow> granted (ev_world s) (hs_SessionID st) \<Longrightarrow>
    ok s (st\<lparr>hs_Phase := PhaseHumanOwned, hs_ProviderOwner := own, hs_HumanIngress := IngressWritable\<rparr>)"
  by (simp add: ok_defs)

lemma bindLocalHumanLocked_ok:
  assumes "stays P" "\<And>s. P s \<Longrightarrow> ok s st \<and> hs_Phase st = PhaseHumanConnecting"
  shows "tr P (bindLocalHumanLocked S ref req st client) (\<lambda>st' s. ok s st')"
  unfolding bindLocalHumanLocked_def Let_def
  by (intro steps triple_ret triple_seq [OF adopt_client_ok] triple_then [OF makeHumanWritable_ok] seq_update assms)
    (auto intro!: human_owned_ok)

lemma find_then_ok:
  assumes "stays P" "\<And>req st. tr (\<lambda>s. P s \<and> ok s st) (f req st) R"
  shows "tr P (seq_act (find_handoff S i) (\<lambda>(req, st). f req st)) R"
  by (rule triple_seq [OF tr_find assms(1)]) (auto intro: assms(2))

lemma BindLocalHuman_ok: "stays P \<Longrightarrow> tr P (BindLocalHuman S i client) (\<lambda>st s. ok s st)"
  unfolding BindLocalHuman_def
  by (intro steps find_then_ok triple_ret triple_seq [OF ensurePrivateCurrent_ok [where ph = PhaseHumanConnecting]] bindLocalHumanLocked_ok)
    (auto simp: connectable_def)

lemma ensureReadOnlyHuman_ok: "stays P \<Longrightarrow> tr P (ensureReadOnlyHuman S ref st spec) (\<lambda>_ _. True)"
proof -
  assume P: "stays P"
  have attach: "tr P (if c then seq_act (demand (rt_AttachHuman (sv_runtime S) ref spec)) (\<lambda>a. seq_act (update (rememberAttachment i a)) (\<lambda>_. ret a))
      else ret b) (\<lambda>_ _. True)" for c i b
    by (intro steps triple_ret seq_update P) auto
  show ?thesis
    unfolding ensureReadOnlyHuman_def Let_def by (intro steps triple_ret tr_memory triple_then [OF attach] P) auto
qed

lemma AttachLocalHuman_ok: "stays P \<Longrightarrow> tr P (AttachLocalHuman S i spec) (\<lambda>r s. ok s (la_State r))"
proof -
  assume P: "stays P"
  have known: "tr (\<lambda>s. P s \<and> ok s st) (memory (\<lambda>s. \<lparr>la_State = st, la_Attachment = a s\<rparr>)) (\<lambda>r s. ok s (la_State r))" for st a
    by (auto simp: triple_def memory_def delivers_def U_refl)
  show ?thesis unfolding AttachLocalHuman_def
    by (intro steps find_then_ok triple_ret known triple_seq [OF ensurePrivateCurrent_ok [where ph = PhaseHumanConnecting]]
        triple_then [OF ensureReadOnlyHuman_ok] triple_seq [OF bindLocalHumanLocked_ok] P)
      (auto simp: connectable_def)
qed

lemma completeControl_ok:
  assumes "stays P" "\<And>s. P s \<Longrightarrow> ok s st"
  shows "tr P (completeControl S signal st out) (\<lambda>r s. ok s (ct_State r))"
  unfolding completeControl_def by (intro steps triple_ret assms) (auto dest: assms(2))

lemma ok_HumanFencing:
  "ok s st \<Longrightarrow> hs_Phase st = PhaseHumanOwned \<Longrightarrow> ok s (st\<lparr>hs_Phase := PhaseHumanFencing\<rparr>)"
  by (simp add: ok_defs)

lemma ok_fenced:
  "ok s st \<Longrightarrow> hs_Phase st = PhaseHumanFencing \<Longrightarrow> ok s (st\<lparr>hs_HumanIngress := IngressFenced\<rparr>)"
  by (simp add: ok_defs)

lemma ok_agent_owned: "ok s (agent_owned st)"
  by (simp add: ok_defs agent_owned_def)

lemma ready_begin_ok:
  assumes "stays P" "\<And>s. P s \<Longrightarrow> ok s st"
  shows "tr P (if hs_Phase st = PhaseHumanOwned
          then let st1 = st\<lparr>hs_Phase := PhaseHumanFencing, hs_TransferBoundary := b\<rparr> in seq_act (advance S st1) (\<lambda>_. ret st1)
          else ret st) (\<lambda>st' s. ok s st')"
  unfolding Let_def by (intro steps triple_ret assms) (auto intro: ok_HumanFencing dest: assms(2))

lemma ready_fence_ok:
  assumes "stays P" "\<And>s. P s \<Longrightarrow> ok s st \<and> hs_Phase st = PhaseHumanFencing"
  shows "tr P (if hs_HumanIngress st \<noteq> IngressFenced
             then seq_act (demand (rt_FenceHumanIngress (sv_runtime S) ref client (hs_AuthorityEpoch st))) (\<lambda>proof.
               fail_if (fence_unproven proof st) e
               (let st1 = st\<lparr>hs_HumanIngress := IngressFenced, hs_ProviderOwner := OwnerNone\<rparr>
                in seq_act (advance S st1) (\<lambda>_. ret st1)))
             else ret st) (\<lambda>st' s. ok s st')"
  unfolding Let_def by (intro steps triple_ret assms) (auto intro: ok_fenced dest: assms(2))

lemma ready_ok:
  assumes "stays P" "\<And>s. P s \<Longrightarrow> ok s st"
  shows "tr P (ready S signal st) (\<lambda>r s. ok s (ct_State r))"
  unfolding ready_def Let_def
  by (intro steps completeControl_ok triple_seq [OF ready_begin_ok [unfolded Let_def]] triple_seq [OF ready_fence_ok [unfolded Let_def]] assms(1))
    (auto dest: assms(2) intro: ok_agent_owned)


lemma abort_fence_human_ok:
  assumes "stays P"
  shows "tr P (abort_fence_human S st) (\<lambda>st' s. True)"
proof -
  have "tr P (if c then seq_act (demand (rt_FenceHumanIngress (sv_runtime S) ref client epoch)) (\<lambda>proof.
      fail_if (b proof) e (ret (u proof))) else ret v) (\<lambda>st' s. True)" for c ref client epoch b e u v
    by (intro steps triple_ret assms) auto
  then show ?thesis unfolding abort_fence_human_def Let_def by (intro steps triple_ret triple_then assms) auto
qed

lemma ok_aborted: "ok s (aborted st)"
  by (simp add: ok_defs aborted_def)

lemma abortLoaded_ok:
  assumes "stays P" "\<And>s. P s \<Longrightarrow> ok s st"
  shows "tr P (abortLoaded S st) (\<lambda>st' s. ok s st')"
proof -
  have fence: "tr P (if c \<and> d then finishAgentFence S st else ret st) (\<lambda>st' s. ok s st')" if "c = (hs_Phase st = PhaseAgentFencing)" for c d
    by (rule tr_if) (auto intro!: triple_weaken [OF finishAgentFence_ok] triple_ret assms dest: assms(2) simp: that)
  show ?thesis unfolding abortLoaded_def Let_def
    by (intro steps triple_ret triple_seq [OF fence] triple_then [OF abort_fence_human_ok] seq_update assms) (auto intro: ok_aborted)
qed

lemma Abort_ok: "stays P \<Longrightarrow> tr P (Abort S i) (\<lambda>st s. ok s st)"
  unfolding Abort_def by (intro steps find_then_ok abortLoaded_ok) auto

lemma resume_ok:
  assumes "stays P" "\<And>s. P s \<Longrightarrow> ok s st"
  shows "tr P (resume S signal req st) (\<lambda>r s. ok s (ct_State r))"
  unfolding resume_def Let_def
  by (intro steps completeControl_ok seq_update triple_seq [OF tr_if [OF prepareH4_any triple_ret]] assms)
    (auto simp: ok_defs resumed_def)

lemma terminate_ok:
  assumes "stays P" "\<And>s. P s \<Longrightarrow> ok s st"
  shows "tr P (terminate S signal st) (\<lambda>r s. ok s (ct_State r))"
  unfolding terminate_def by (intro steps completeControl_ok assms)

lemma tr_kind:
  assumes "tr P a R" "tr P b R" "tr P c R" "tr P d R" "tr P e R" "tr P f R" "\<And>x. tr P (g x) R"
  shows "tr P (case k of HumanControlReady \<Rightarrow> a | HumanControlAbort \<Rightarrow> b | HumanControlStatus \<Rightarrow> c | HumanControlResume \<Rightarrow> d
    | HumanControlTerminate \<Rightarrow> e | HumanControlRequestControl \<Rightarrow> f | OtherControl x \<Rightarrow> g x) R"
  using assms by (cases k) auto

lemma load_then_ok:
  assumes "stays P" "\<And>req st. tr (\<lambda>s. P s \<and> ok s st) (f req st) R"
  shows "tr P (seq_act (demand (st_LoadHandoff (sv_store S) i)) (\<lambda>(req, st). f req st)) R"
  by (rule triple_seq [OF tr_loaded assms(1)]) (auto intro: assms(2))

lemma HumanControl_ok: "stays P \<Longrightarrow> tr P (HumanControl S signal) (\<lambda>r s. ok s (ct_State r))"
  unfolding HumanControl_def
  by (intro steps load_then_ok tr_kind triple_ret completeControl_ok ready_ok resume_ok terminate_ok triple_seq [OF abortLoaded_ok]) auto


abbreviation expiring :: "'w Env \<Rightarrow> HandoffState \<Rightarrow> bool" where
  "expiring s st \<equiv> ok s st \<and> hs_Phase st = PhaseReclaimPending \<and> hs_DesiredOwner st = OwnerNone"

lemma stays_expiring1: "stays (\<lambda>s. expiring s st)"
  by (intro stays_rules)

lemma stays_expiring: "stays (\<lambda>s. case p of (st, b) \<Rightarrow> expiring s st)"
  by (cases p) (simp add: stays_expiring1)

lemma expiry_agent_ok:
  assumes "stays P" "\<And>s. P s \<Longrightarrow> expiring s st"
  shows "tr P (expiry_agent S st) (\<lambda>(st', _) s. expiring s st')"
  unfolding expiry_agent_def
  by (intro steps triple_ret assms(1)) (auto dest!: assms(2) simp: ok_defs split: sum.splits)

lemma expiry_fence_ok:
  assumes "expiring s st" "hs_HumanIngress st \<noteq> IngressFenced"
  shows "ok s (expiry_fence r st)" "hs_Phase (expiry_fence r st) = PhaseReclaimPending" "hs_DesiredOwner (expiry_fence r st) = OwnerNone"
  using assms by (auto simp: ok_defs expiry_fence_def split: sum.splits)

lemma expiring_updates:
  assumes "expiring s st"
  shows "ok s (st\<lparr>hs_HumanClient := None\<rparr>)" "hs_HumanIngress st \<noteq> IngressFenced \<Longrightarrow> ok s (st\<lparr>hs_HumanIngress := IngressUnknown\<rparr>)"
  using assms by (auto simp: ok_defs)

lemma expiry_human_ok:
  assumes "stays P" "\<And>s. P s \<Longrightarrow> expiring s (fst stc)"
  shows "tr P (expiry_human S ref c stc) (\<lambda>(st', _) s. expiring s st')"
proof -
  obtain st changed where stc: "stc = (st, changed)" by fastforce
  have fence: "tr P (if hs_HumanIngress st \<noteq> IngressFenced
      then try_act (ask (rt_FenceHumanIngress (sv_runtime S) ref client (hs_AuthorityEpoch st))) (\<lambda>r. ret (expiry_fence r st, True))
      else ret (st, changed)) (\<lambda>(st', _) s. expiring s st')" for client
    by (intro steps triple_ret assms(1)) (auto dest!: assms(2) simp: stc expiry_fence_ok)
  show ?thesis unfolding expiry_human_def stc Let_def prod.case
    by (intro steps triple_ret triple_seq [OF fence] assms(1) stays_expiring)
      (auto simp: stays_expiring1 expiring_updates split: sum.splits)
qed

lemma expiry_settle_ok:
  assumes "stays P" "\<And>s. P s \<Longrightarrow> expiring s (fst stc)"
  shows "tr P (expiry_settle S stc) (\<lambda>st' s. ok s st')"
proof -
  obtain st changed where stc: "stc = (st, changed)" by fastforce
  show ?thesis unfolding expiry_settle_def stc Let_def
    by (intro steps triple_ret triple_raise_with triple_then [OF tr_if [OF tr_advance triple_ret]] assms(1))
      (auto dest!: assms(2) simp: stc ok_defs split: if_splits)
qed

lemma finishExpiryLocked_ok:
  assumes "stays P" "\<And>s. P s \<Longrightarrow> ok s st \<and> hs_Phase st = PhaseReclaimPending"
  shows "tr P (finishExpiryLocked S st) (\<lambda>st' s. ok s st')"
proof (cases "hs_FailureCode st \<noteq> HandoffExpired \<or> hs_DesiredOwner st \<noteq> OwnerNone")
  case True
  then show ?thesis unfolding finishExpiryLocked_def by (auto intro!: triple_raise_with dest: assms(2))
next
  case False
  show ?thesis unfolding finishExpiryLocked_def
    by (intro steps triple_raise_with triple_seq [OF expiry_agent_ok] triple_seq [OF expiry_human_ok] expiry_settle_ok stays_expiring assms(1))
      (use False in \<open>auto dest: assms(2) simp: stays_expiring1 expiring_updates\<close>)
qed

lemma Expire_ok: "stays P \<Longrightarrow> tr P (Expire S i) (\<lambda>st s. ok s st)"
  unfolding Expire_def Let_def
  by (intro steps triple_ret triple_seq [OF tr_recovered] finishExpiryLocked_ok)
    (auto simp: ok_defs expired_def split: Phase.splits)


lemma persistConnecting_ok:
  assumes "stays P" "\<And>s. P s \<Longrightarrow> hs_DesiredOwner st = OwnerHuman"
  shows "tr P (persistConnectingAfterFence S st code) (\<lambda>st' s. ok s st')"
  unfolding persistConnectingAfterFence_def Let_def
  by (intro steps triple_ret assms(1)) (auto dest!: assms(2) simp: ok_defs)

lemma persistConnectingWithoutClient_ok:
  "stays P \<Longrightarrow> (\<And>s. P s \<Longrightarrow> hs_DesiredOwner st = OwnerHuman) \<Longrightarrow> tr P (persistConnectingWithoutClient S st) (\<lambda>st' s. ok s st')"
  unfolding persistConnectingWithoutClient_def by (rule persistConnecting_ok)

lemma persistClientProofBlocked_ok:
  assumes "stays P" "\<And>s. P s \<Longrightarrow> hs_DesiredOwner st \<noteq> OwnerAgent"
  shows "tr P (persistClientProofBlocked S st) (\<lambda>st' s. ok s st')"
  unfolding persistClientProofBlocked_def Let_def
  by (intro steps triple_raise_with assms(1)) (auto dest!: assms(2) simp: ok_defs)

lemmas persist = persistConnecting_ok persistConnectingWithoutClient_ok persistClientProofBlocked_ok

lemma loadReconcileProvider_ok: "stays P \<Longrightarrow> tr P (loadReconcileProvider S st) (\<lambda>_ _. True)"
  unfolding loadReconcileProvider_def by (intro steps)

lemma requireCurrentGeneration_ok: "stays P \<Longrightarrow> tr P (requireCurrentGeneration S ref st) (\<lambda>_ _. True)"
  unfolding requireCurrentGeneration_def by (intro steps triple_ret) auto

lemma ok_reconciled:
  "hs_DesiredOwner st = OwnerHuman \<Longrightarrow> hs_HumanClient st \<noteq> None \<Longrightarrow> granted (ev_world s) (hs_SessionID st) \<Longrightarrow> ok s (human_owned st)"
  by (simp add: ok_defs human_owned_def)

lemma human_owned_session: "hs_SessionID (human_owned st) = hs_SessionID st"
  by (simp add: human_owned_def)

lemma ok_owner: "ok s st \<Longrightarrow> hs_Phase st \<in> {PhaseHumanConnecting, PhaseHumanOwned, PhaseHumanFencing} \<Longrightarrow> hs_DesiredOwner st = OwnerHuman"
  by (auto simp: ok_defs)

lemma load_request_ok:
  assumes "stays P" "\<And>req. tr P (f req) R"
  shows "tr P (seq_act (demand (st_LoadHandoff (sv_store S) i)) (\<lambda>(req, _). f req)) R"
  by (rule load_then_ok [OF assms(1)]) (rule triple_strengthen [OF assms(2)], simp)

lemma reconcileHumanConnecting_ok:
  assumes "stays P" "\<And>s. P s \<Longrightarrow> ok s st \<and> hs_Phase st = PhaseHumanConnecting"
  shows "tr P (reconcileHumanConnecting S st) (\<lambda>st' s. ok s st')"
  unfolding reconcileHumanConnecting_def Let_def
  by (intro steps triple_ret persist triple_then [OF loadReconcileProvider_ok] triple_then [OF requireCurrentGeneration_ok]
      load_request_ok bindLocalHumanLocked_ok ok_reconciled assms)
    (auto dest!: assms(2) dest: ok_owner)

lemma reconcileHumanOwned_ok:
  assumes "stays P" "\<And>s. P s \<Longrightarrow> ok s st \<and> hs_Phase st = PhaseHumanOwned"
  shows "tr P (reconcileHumanOwned S st) (\<lambda>st' s. ok s st')"
  unfolding reconcileHumanOwned_def Let_def
  by (intro steps triple_ret persist triple_then [OF loadReconcileProvider_ok] assms(1)) (auto dest!: assms(2) dest: ok_owner)

lemma ok_settled: "ok s ((agent_owned st)\<lparr>hs_FailureCode := c\<rparr>)"
  by (simp add: ok_agent_owned)

lemma ok_lost:
  "ok s st \<Longrightarrow> hs_Phase st = PhaseHumanFencing \<Longrightarrow> ok s (st\<lparr>hs_HumanClient := None, hs_HumanIngress := IngressFenced\<rparr>)"
  by (simp add: ok_defs)

lemma reconcileHumanFencing_ok:
  assumes "stays P" "\<And>s. P s \<Longrightarrow> ok s st \<and> hs_Phase st = PhaseHumanFencing"
  shows "tr P (reconcileHumanFencing S st) (\<lambda>st' s. ok s st')"
proof -
  have forget: "tr P (case v of None \<Rightarrow> ret st1 | Some _ \<Rightarrow>
      try_act (ask (rt_PrepareReadOnlyLocalControl (sv_runtime S) ref client)) (\<lambda>r. case r of
        Inl e \<Rightarrow> fail_if (b e) (d e) (ret st2) | Inr _ \<Rightarrow> ret st1)) (\<lambda>_ _. True)"
    for v :: "HumanClientRef option" and ref client b d st1 st2
    by (intro steps triple_ret assms(1)) auto
  show ?thesis unfolding reconcileHumanFencing_def Let_def
    by (intro steps triple_ret persist triple_then [OF loadReconcileProvider_ok] triple_then [OF forget] ok_settled assms(1))
      (auto dest!: assms(2) dest: ok_owner intro: ok_lost ok_fenced)
qed

lemma reconcileBlocked_ok:
  assumes "stays P" "\<And>s. P s \<Longrightarrow> ok s st \<and> hs_Phase st = PhaseReclaimPending"
  shows "tr P (reconcileBlocked S st) (\<lambda>st' s. ok s st')"
  unfolding reconcileBlocked_def Let_def
  by (intro steps triple_ret persist triple_then [OF loadReconcileProvider_ok] finishExpiryLocked_ok assms)
    (auto dest!: assms(2) simp: human_owned_session intro: ok_reconciled)


lemma ok_clientless: "ok s st \<Longrightarrow> hs_Phase st = PhaseAborted \<Longrightarrow> ok s (st\<lparr>hs_HumanClient := None\<rparr>)"
  by (simp add: ok_defs)

lemma ok_aborted_owner: "ok s st \<Longrightarrow> hs_Phase st = PhaseAborted \<Longrightarrow> hs_DesiredOwner st = OwnerNone"
  by (simp add: ok_defs)

lemma reconcileAborted_ok:
  assumes "stays P" "\<And>s. P s \<Longrightarrow> ok s st \<and> hs_Phase st = PhaseAborted"
  shows "tr P (reconcileAborted S st) (\<lambda>st' s. ok s st')"
  unfolding reconcileAborted_def Let_def
  by (intro steps triple_ret persist triple_then [OF loadReconcileProvider_ok] assms(1))
    (auto dest!: assms(2) dest: ok_aborted_owner intro: ok_clientless)

lemma reconcile_privacy_ok:
  assumes "stays P" "\<And>s. P s \<Longrightarrow> ok s st"
  shows "tr P (reconcile_privacy S i st) (\<lambda>(st', _) s. ok s st')"
  unfolding reconcile_privacy_def
  by (intro steps triple_ret load_request_ok triple_seq [OF prepareH4_ok [where ph = "hs_Phase st"]]
      triple_seq [OF preparePrivate_ok [where ph = "hs_Phase st"]] assms(1))
    (auto dest!: assms(2))

lemma tr_phase:
  assumes "k = PhaseAgentOwned \<Longrightarrow> tr P a R" "k = PhaseAgentFencing \<Longrightarrow> tr P b R" "k = PhaseHumanConnecting \<Longrightarrow> tr P c R"
    "k = PhaseHumanOwned \<Longrightarrow> tr P d R" "k = PhaseHumanFencing \<Longrightarrow> tr P e R" "k = PhaseReclaimPending \<Longrightarrow> tr P f R"
    "k = PhaseAborted \<Longrightarrow> tr P g R" "\<And>x. tr P (h x) R"
  shows "tr P (case k of PhaseAgentOwned \<Rightarrow> a | PhaseAgentFencing \<Rightarrow> b | PhaseHumanConnecting \<Rightarrow> c | PhaseHumanOwned \<Rightarrow> d
    | PhaseHumanFencing \<Rightarrow> e | PhaseReclaimPending \<Rightarrow> f | PhaseAborted \<Rightarrow> g | OtherPhase x \<Rightarrow> h x) R"
  using assms by (cases k) auto

lemma start_recovered_world [simp]: "ev_world (start_recovered r st s) = ev_world s"
  by (simp add: start_recovered_def split: option.splits)

lemma reconcile_phase_ok:
  assumes "stays P" "\<And>s. P s \<Longrightarrow> ok s (fst str)"
  shows "tr P (reconcile_phase S str) (\<lambda>st' s. ok s st')"
proof -
  obtain st recovered where str: "str = (st, recovered)" by fastforce
  show ?thesis unfolding reconcile_phase_def str prod.case
    by (intro tr_phase steps triple_ret triple_weaken [OF finishAgentFence_ok] triple_pass [OF reconcileHumanConnecting_ok]
        triple_pass [OF reconcileHumanOwned_ok] reconcileHumanFencing_ok reconcileBlocked_ok reconcileAborted_ok seq_update assms(1))
      (auto dest: assms(2) simp: str)
qed

lemma Reconcile_ok: "stays P \<Longrightarrow> tr P (Reconcile S i) (\<lambda>st s. ok s st)"
  unfolding Reconcile_def
  by (intro steps triple_seq [OF tr_recovered] triple_seq [OF reconcile_privacy_ok] reconcile_phase_ok stays_reserved)
    (auto simp: stays_ok split: prod.splits)

lemma reclaimAutomaticAgent_ok:
  assumes "stays P" "\<And>s. P s \<Longrightarrow> ok s st \<and> hs_Phase st = PhaseHumanFencing"
  shows "tr P (reclaimAutomaticAgent S st c) (\<lambda>(st', ref, epoch) s. ok s st')"
  unfolding reclaimAutomaticAgent_def Let_def
  by (intro steps triple_ret assms(1)) (auto dest!: assms(2) intro: ok_fenced ok_agent_owned)

lemma releaseAutomaticPrivacy_ok:
  assumes "stays P" "\<And>s. P s \<Longrightarrow> ok s st"
  shows "tr P (releaseAutomaticPrivacy S req st ref epoch event) (\<lambda>_ _. True)"
  unfolding releaseAutomaticPrivacy_def Let_def by (intro steps triple_ret tr_advance assms(1)) (auto dest: assms(2))

lemma stays_triple: "stays (\<lambda>s. case p of (st, ref, epoch) \<Rightarrow> ok s st)"
  by (cases p) (auto intro: stays_rules)

lemma automaticReady_ok: "stays P \<Longrightarrow> tr P (automaticReady S req epoch event) (\<lambda>_ _. True)"
  unfolding automaticReady_def Let_def
  by (intro load_then_ok steps triple_ret triple_seq [OF reclaimAutomaticAgent_ok] releaseAutomaticPrivacy_ok stays_triple)
    (auto intro: ok_HumanFencing simp: stays_ok)

lemma runAutomaticReadiness_ok:
  "stays P \<Longrightarrow> tr P (runAutomaticReadiness S req epoch prepared waited ctx) (\<lambda>_ _. True)"
proof -
  assume P: "stays P"
  have run: "tr P (case waited of Inl e \<Rightarrow> ret () | Inr event \<Rightarrow> if c1 then ret () else if c2 event then ret () else if c3 event then ret ()
      else try_act (automaticReady S req epoch event) (\<lambda>_. ret ())) (\<lambda>_ _. True)" for c1 c2 c3
    by (intro steps triple_ret triple_try_then [OF automaticReady_ok] P) auto
  show ?thesis unfolding runAutomaticReadiness_def
    by (intro triple_then [OF run] tr_update P) (auto split: option.splits)
qed

lemma Inspect_ok: "stays P \<Longrightarrow> tr P (Inspect S i) (\<lambda>st s. ok s st)"
  unfolding Inspect_def by (intro find_then_ok triple_ret) auto

lemma BootstrapLocalHuman_ok: "stays P \<Longrightarrow> tr P (BootstrapLocalHuman S i) (\<lambda>r s. ok s (lb_State r))"
  unfolding BootstrapLocalHuman_def by (intro find_then_ok steps triple_ret) auto

lemma ExactHumanClientPresent_ok: "stays P \<Longrightarrow> tr P (ExactHumanClientPresent S i) (\<lambda>_ _. True)"
  unfolding ExactHumanClientPresent_def by (intro load_then_ok steps triple_ret) auto

end

end
