(* ===== verification/HandoffPrivacy.thy ===== *)
theory HandoffPrivacy
  imports HandoffContract
begin

text \<open>
  The privacy of secret handoffs: the human side of a secret handoff opens only behind a proved
  barrier between the human's input and the captured output, and where the durable mark that goes
  with the barrier can be missed.
\<close>

section \<open>The barrier is kept\<close>

definition private_barrier :: "HandoffState \<Rightarrow> 'w Env \<Rightarrow> bool" where
  "private_barrier st s \<longleftrightarrow> (\<exists>lease. privateLeaseFor (hs_HandoffID st) (hs_AuthorityEpoch st) s = Some lease \<and>
     ps_AuthorityEpoch (pl_spec lease) = hs_AuthorityEpoch st \<and> \<not> private_proof_bad (pl_proof lease) (pl_handle lease) st)"

definition barrier_kept :: "HandoffState \<Rightarrow> 'w Env \<Rightarrow> 'w Env \<Rightarrow> bool" where
  "barrier_kept st s s' \<longleftrightarrow> (private_barrier st s \<longrightarrow> private_barrier st s')"

interpretation barrier: progress "\<lambda>_. True" "barrier_kept st"
  by unfold_locales (auto simp: barrier_kept_def)

abbreviation bk :: "HandoffState \<Rightarrow> ('w Env, 'a) act \<Rightarrow> bool" where
  "bk st m \<equiv> triple (\<lambda>_. True) (barrier_kept st) (\<lambda>_. True) m (\<lambda>_ _. True)"

lemma barrier_world [simp]: "private_barrier st (s\<lparr>ev_world := w\<rparr>) = private_barrier st s"
  by (simp add: private_barrier_def privateLeaseFor_def)

lemma bk_ask: "bk st (ask f)"
  by (auto simp: triple_def ask_def barrier_kept_def split: prod.splits sum.splits)

lemma bk_demand: "bk st (demand f)"
  unfolding demand_def by (rule barrier.triple_normalized) (rule bk_ask)

lemma bk_memory: "bk st (memory f)"
  by (auto simp: triple_def memory_def barrier_kept_def)

lemma bk_update: "(\<And>s. private_barrier st s \<Longrightarrow> private_barrier st (f s)) \<Longrightarrow> bk st (update f)"
  by (auto simp: triple_def update_def barrier_kept_def)

lemma bk_advance: "bk st (advance S st')"
  unfolding advance_def by (intro barrier.triple_check_valid bk_demand)

lemma bk_seq: "bk st m \<Longrightarrow> (\<And>x. bk st (f x)) \<Longrightarrow> bk st (seq_act m f)"
  by (rule barrier.triple_then [OF _ barrier.kept_const])

lemma bk_try: "bk st m \<Longrightarrow> (\<And>x. bk st (f x)) \<Longrightarrow> bk st (try_act m f)"
  by (rule barrier.triple_try_then [OF _ barrier.kept_const])

lemma bk_if: "bk st a \<Longrightarrow> bk st b \<Longrightarrow> bk st (if c then a else b)"
  by simp

lemma bk_option: "bk st a \<Longrightarrow> (\<And>x. bk st (b x)) \<Longrightarrow> bk st (case v of None \<Rightarrow> a | Some x \<Rightarrow> b x)"
  by (cases v) auto

lemma bk_sum: "(\<And>x. bk st (a x)) \<Longrightarrow> (\<And>x. bk st (b x)) \<Longrightarrow> bk st (case v of Inl x \<Rightarrow> a x | Inr x \<Rightarrow> b x)"
  by (cases v) auto

lemma bk_ret: "bk st (ret x)"
  by (rule barrier.triple_ret) simp

lemma barrier_start: "private_barrier st s \<Longrightarrow> private_barrier st (startAutomaticReadiness req st' s)"
  by (auto simp: private_barrier_def privateLeaseFor_def startAutomaticReadiness_def split: option.splits if_splits)

lemma barrier_ensure: "private_barrier st s \<Longrightarrow> private_barrier st (ensurePreparation (hs_HandoffID st) (hs_AuthorityEpoch st) s)"
  by (auto simp: private_barrier_def privateLeaseFor_def ensurePreparation_def split: option.splits if_splits)

lemmas bk_steps = bk_seq bk_try bk_if bk_option bk_sum bk_ret bk_ask bk_demand bk_memory bk_advance
  barrier.triple_fail_if barrier.triple_check_valid barrier.triple_raise barrier.triple_panic

lemma bk_makeHumanWritable: "bk st (makeHumanWritable S ref client st')"
  unfolding makeHumanWritable_def by (intro bk_steps)

lemma bk_adopt_client: "bk st (adopt_client S st' client obs)"
  unfolding adopt_client_def Let_def by (intro bk_steps)

lemma bk_bind: "bk st (bindLocalHumanLocked S ref req st' client)"
  unfolding bindLocalHumanLocked_def Let_def
  by (intro bk_steps bk_makeHumanWritable bk_adopt_client bk_update barrier_start)

lemma bk_mark_private: "bk st (mark_private S st')"
  unfolding mark_private_def by (intro bk_steps)

section \<open>The barrier is established\<close>

abbreviation bt :: "HandoffState \<Rightarrow> ('w Env \<Rightarrow> bool) \<Rightarrow> ('w Env, HandoffState) act \<Rightarrow> bool" where
  "bt st P m \<equiv> triple (\<lambda>_. True) (barrier_kept st) P m (\<lambda>_ s. private_barrier st s)"

text \<open>An action that keeps the barrier ends behind it when it starts behind it.\<close>

lemma bt_kept: "bk st m \<Longrightarrow> (\<And>s. P s \<Longrightarrow> private_barrier st s) \<Longrightarrow> bt st P m"
  by (fastforce simp: triple_def barrier_kept_def)

lemma bt_option: "(v = None \<Longrightarrow> bt st P a) \<Longrightarrow> (\<And>x. v = Some x \<Longrightarrow> bt st P (b x)) \<Longrightarrow> bt st P (case v of None \<Rightarrow> a | Some x \<Rightarrow> b x)"
  by (cases v) auto

lemma bt_sum: "(\<And>x. bt st P (a x)) \<Longrightarrow> (\<And>x. bt st P (b x)) \<Longrightarrow> bt st P (case v of Inl x \<Rightarrow> a x | Inr x \<Rightarrow> b x)"
  by (cases v) auto

lemma lease_stored:
  "ev_preparations s (hs_HandoffID st) = Some p \<Longrightarrow> hp_epoch p = hs_AuthorityEpoch st \<Longrightarrow> \<not> private_proof_bad proof handle st \<Longrightarrow>
    private_barrier st (s\<lparr>ev_preparations := (ev_preparations s)(hs_HandoffID st \<mapsto> p\<lparr>hp_privacy := Some
      \<lparr>pl_spec = \<lparr>ps_HandoffID = hs_HandoffID st, ps_AuthorityEpoch = hs_AuthorityEpoch st\<rparr>, pl_handle = handle, pl_proof = proof\<rparr>\<rparr>)\<rparr>)"
  by (simp add: private_barrier_def privateLeaseFor_def)

lemma ensured: "\<exists>p. ev_preparations (ensurePreparation i e s) i = Some p \<and> hp_epoch p = e"
  by (auto simp: ensurePreparation_def split: option.splits)

lemma bt_two_updates:
  assumes "\<And>s. private_barrier st (g (f s))" "bk st k"
  shows "bt st P (seq_act (update f) (\<lambda>_. seq_act (update g) (\<lambda>_. k)))"
proof (unfold triple_def, intro allI impI)
  fix s r s' assume "seq_act (update f) (\<lambda>_. seq_act (update g) (\<lambda>_. k)) s = (r, s')"
  then have "k (g (f s)) = (r, s')" by (simp add: seq_act_def update_def)
  with assms(2) have "barrier_kept st (g (f s)) s'" by (auto simp: triple_def)
  with assms(1) [of s] show "True \<and> barrier_kept st s s' \<and> (\<forall>x. delivers r x \<longrightarrow> private_barrier st s')"
    by (simp add: barrier_kept_def)
qed

lemma preparePrivate_bt: "bt st (\<lambda>_. True) (preparePrivate S st ref)"
proof -
  have store: "private_barrier st ((\<lambda>s. s\<lparr>ev_preparations := (ev_preparations s)(hs_HandoffID st :=
        map_option (\<lambda>p. p\<lparr>hp_privacy := Some \<lparr>pl_spec = \<lparr>ps_HandoffID = hs_HandoffID st, ps_AuthorityEpoch = hs_AuthorityEpoch st\<rparr>,
          pl_handle = handle, pl_proof = pf\<rparr>\<rparr>) (ev_preparations s (hs_HandoffID st)))\<rparr>)
        (ensurePreparation (hs_HandoffID st) (hs_AuthorityEpoch st) s))" if "\<not> private_proof_bad pf handle st" for pf handle s
    using ensured [of "hs_HandoffID st" "hs_AuthorityEpoch st" s] lease_stored [OF _ _ that] by auto
  show ?thesis unfolding preparePrivate_def Let_def
    by (intro barrier.triple_raise barrier.triple_fail_if bt_two_updates bk_steps bk_mark_private
        barrier.triple_try_then [OF bk_ask barrier.kept_const] bt_option bt_sum store)
qed

lemma barrier_readiness:
  "private_barrier st s \<Longrightarrow> private_barrier st (s\<lparr>ev_preparations := (ev_preparations s)(i :=
    map_option (\<lambda>p. p\<lparr>hp_readiness := r\<rparr>) (ev_preparations s i))\<rparr>)"
  by (auto simp: private_barrier_def privateLeaseFor_def split: option.splits if_splits)

lemma bk_prepareReadiness: "bk st (prepareReadiness S req st ref)"
  unfolding prepareReadiness_def Let_def
  by (intro bk_steps bk_update barrier_ensure barrier_readiness)

lemma prepareH4_bt: "rq_Privacy req = PrivacySecret \<Longrightarrow> bt st (\<lambda>_. True) (prepareH4 S req st)"
  unfolding prepareH4_def
  by (simp, intro barrier.triple_then [OF bk_demand barrier.kept_const] barrier.triple_then [OF bk_prepareReadiness barrier.kept_const]
      preparePrivate_bt)

lemma seq_Ok:
  assumes "seq_act m f s = (Ok y, s')"
  obtains x s1 where "m s = (Ok x, s1)" "f x s1 = (Ok y, s')"
  using assms by (auto simp: seq_act_def split: prod.splits outcome.splits)

lemma demand_Ok: "demand f s = (Ok x, s') \<Longrightarrow> \<exists>w. f (ev_world s) = (Inr x, w) \<and> s' = s\<lparr>ev_world := w\<rparr>"
  by (auto simp: demand_def normalized_def ask_def split: prod.splits outcome.splits sum.splits)

lemma reproved:
  assumes "privateLeaseFor (hs_HandoffID st) (hs_AuthorityEpoch st) s = Some lease" "ps_AuthorityEpoch (pl_spec lease) = hs_AuthorityEpoch st"
    and "\<not> private_proof_bad pf (pl_handle lease) st"
  shows "private_barrier st (s\<lparr>ev_world := w, ev_preparations := (ev_preparations s)(hs_HandoffID st :=
    map_option (\<lambda>p. p\<lparr>hp_privacy := map_option (\<lambda>l. l\<lparr>pl_proof := pf\<rparr>) (hp_privacy p)\<rparr>) (ev_preparations s (hs_HandoffID st)))\<rparr>)"
  using assms by (auto simp: private_barrier_def privateLeaseFor_def split: option.splits if_splits)

lemma ensurePrivateCurrent_barrier:
  assumes run: "ensurePrivateCurrent S req st s = (Ok st', s')" and secret: "rq_Privacy req = PrivacySecret"
  shows "private_barrier st s'"
proof -
  let ?i = "hs_HandoffID st" and ?e = "hs_AuthorityEpoch st"
  let ?s1 = "ensurePreparation ?i ?e s"
  have h4: "private_barrier st s'" if "prepareH4 S req st ?s1 = (Ok st', s')"
    using tripleD(3) [OF prepareH4_bt [OF secret] _ _ that] by (auto simp: delivers_def)
  show ?thesis
  proof (cases "privateLeaseFor ?i ?e ?s1")
    case None
    with run secret h4 show ?thesis by (auto simp: ensurePrivateCurrent_def seq_act_def update_def memory_def)
  next
    case (Some lease)
    show ?thesis
    proof (cases "ps_AuthorityEpoch (pl_spec lease) = ?e")
      case False
      with run secret Some h4 show ?thesis by (auto simp: ensurePrivateCurrent_def seq_act_def update_def memory_def)
    next
      case True
      from run secret Some True obtain P ref w w2 pf where "rt_privacy (sv_runtime S) = Some P" and bad: "\<not> private_proof_bad pf (pl_handle lease) st"
        and s': "s' = ?s1\<lparr>ev_world := w2, ev_preparations := (ev_preparations ?s1)(?i :=
            map_option (\<lambda>p. p\<lparr>hp_privacy := map_option (\<lambda>l. l\<lparr>pl_proof := pf\<rparr>) (hp_privacy p)\<rparr>) (ev_preparations ?s1 ?i))\<rparr>"
        by (auto simp: ensurePrivateCurrent_def seq_act_def update_def memory_def try_act_def ask_def fail_if_def raise_def ret_def
            split: option.splits prod.splits outcome.splits sum.splits if_splits dest!: demand_Ok)
      show ?thesis unfolding s' by (rule reproved [OF Some True bad])
    qed
  qed
qed

text \<open>
  C12: A secret handoff opens the human's side only behind the barrier. When a local client is bound
  to a connecting secret handoff, the coordinator then holds a private lease for exactly this
  authority epoch, and the provider's proof in it is valid, belongs to the leased handle and to the
  provider generation of the handoff, and covers the human's input from its first byte.
\<close>

theorem secret_bind_behind_barrier:
  assumes "BindLocalHuman S i client s = (Ok st', s')"
    and "st_FindHandoff (sv_store S) i (ev_world s) = (Inr (Some (req, st)), w)"
    and "rq_Privacy req = PrivacySecret" "hs_Phase st = PhaseHumanConnecting"
  shows "\<exists>lease. privateLeaseFor (hs_HandoffID st) (hs_AuthorityEpoch st) s' = Some lease \<and>
    ps_AuthorityEpoch (pl_spec lease) = hs_AuthorityEpoch st \<and> PrivateObservationProof_Validate (pl_proof lease) = None \<and>
    pp_Handle (pl_proof lease) = pl_handle lease \<and> pp_ProviderGeneration (pl_proof lease) = hs_ProviderGeneration st \<and>
    pp_PrivateFromFirstByte (pl_proof lease)"
proof -
  let ?s1 = "s\<lparr>ev_world := w\<rparr>"
  have "find_handoff S i s = (Ok (req, st), ?s1)"
    using assms(2) by (simp add: find_handoff_def seq_act_def demand_def normalized_def ask_def ret_def)
  with assms(1,4) have "seq_act (ensurePrivateCurrent S req st) (\<lambda>st1.
      seq_act (demand (st_LoadDelegatedProviderRef (sv_store S) (hs_SessionID st1))) (\<lambda>ref.
      bindLocalHumanLocked S ref req st1 client)) ?s1 = (Ok st', s')"
    by (auto simp: BindLocalHuman_def check_valid_def seq_act_def fail_if_def raise_def split: option.splits if_splits)
  then obtain st1 s2 where priv: "ensurePrivateCurrent S req st ?s1 = (Ok st1, s2)"
    and rest: "seq_act (demand (st_LoadDelegatedProviderRef (sv_store S) (hs_SessionID st1))) (\<lambda>ref.
      bindLocalHumanLocked S ref req st1 client) s2 = (Ok st', s')" by (rule seq_Ok)
  have "bk st (seq_act (demand (st_LoadDelegatedProviderRef (sv_store S) (hs_SessionID st1))) (\<lambda>ref. bindLocalHumanLocked S ref req st1 client))"
    by (intro bk_seq bk_demand bk_bind)
  from tripleD(2) [OF this _ _ rest] ensurePrivateCurrent_barrier [OF priv assms(3)] have "private_barrier st s'"
    by (simp add: barrier_kept_def)
  then show ?thesis by (auto simp: private_barrier_def private_proof_bad_def)
qed

text \<open>
  A secret handoff whose human client is connecting, with a provider that proves the barrier; the
  answer of the store's capture marker is a parameter.
\<close>

definition secret_request :: Request where
  "secret_request = \<lparr>rq_HandoffID = ''h1'', rq_SessionID = ''s1'', rq_Reason = ReasonHumanConfirmation,
     rq_Privacy = PrivacySecret, rq_Completion = \<lparr>cp_Kind = CompletionManualReady, cp_Name = []\<rparr>\<rparr>"

definition secret_connecting :: HandoffState where
  "secret_connecting = human_owned_state\<lparr>hs_Phase := PhaseHumanConnecting, hs_ProviderOwner := OwnerNone, hs_HumanIngress := IngressFenced,
     hs_PrivacyState := PrivacyPrivate, hs_PrivacyRelease := PrivacyReleasePending, hs_CaptureState := CapturePrivate\<rparr>"

definition secret_handle :: PrivacyHandle where
  "secret_handle = \<lparr>ph_OpaqueRef = ''barrier1'', ph_Generation = ''g1''\<rparr>"

definition secret_proof :: PrivateObservationProof where
  "secret_proof = \<lparr>pp_Handle = secret_handle, pp_ProviderGeneration = ''g1'', pp_PrivateFromFirstByte = True, pp_ObservedAt = 20\<rparr>"

definition secret_service :: "unit result \<Rightarrow> (unit, unit) Service" where
  "secret_service mark =
     \<lparr>sv_store = \<lparr>st_FindHandoff = (\<lambda>i w. (Inr (Some (secret_request, secret_connecting)), w)),
        st_ReserveHandoff = (\<lambda>req st w. (Inl (Errorf ''exists''), w)), st_AdvanceHandoff = (\<lambda>st w. (Inr (), w)),
        st_LoadHandoff = (\<lambda>i w. (Inr (secret_request, secret_connecting), w)), st_RecoverHandoff = (\<lambda>i w. (Inr secret_connecting, w)),
        st_LoadDelegatedBinding = (\<lambda>sid w. (Inl (Errorf ''unused''), w)),
        st_LoadDelegatedProviderRef = (\<lambda>sid w. (Inr \<lparr>pr_SchemaVersion = 1, pr_SessionID = sid, pr_ProviderID = ''tmux'', pr_ProviderVersion = 1,
          pr_Ref = ''pane1'', pr_CreatedAt = 10, pr_UpdatedAt = 10\<rparr>, w)),
        st_ReserveControlSignal = (\<lambda>signal w. (Inr (signal, [], True), w)), st_CompleteControlSignal = (\<lambda>signal out w. (Inr out, w)),
        st_MarkHumanWriteAuthorityGranted = (\<lambda>sid w. (Inr (), w)),
        st_LoadInputAuthorityProvenance = (\<lambda>sid w. (Inr InputAuthorityHumanWriteGranted, w)),
        st_MarkPrivateCapture = Some (\<lambda>sid w. (mark, w))\<rparr>,
      sv_runtime = \<lparr>rt_Inspect = (\<lambda>ref w. (Inl (Errorf ''unused''), w)), rt_AttachHuman = (\<lambda>ref spec w. (Inl (Errorf ''unused''), w)),
        rt_SetHumanWritable = (\<lambda>ref client b w. (Inr (), w)), rt_FenceHumanIngress = (\<lambda>ref client e w. (Inl (Errorf ''unused''), w)),
        rt_InspectHumanClient = (\<lambda>ref client w. (Inr \<lparr>ho_ClientRef = client, ho_Present = True, ho_ReadOnly = False, ho_ObservedOwner = OwnerHuman,
          ho_ProviderGeneration = ''g1''\<rparr>, w)),
        rt_ArmWritableHumanControl = (\<lambda>ref client spec w. (Inr (), w)), rt_PrepareReadOnlyLocalControl = (\<lambda>ref client w. (Inr (), w)),
        rt_Signal = (\<lambda>ref signal w. (Inr (), w)),
        rt_privacy = Some \<lparr>pv_ArmPrivateObservation = (\<lambda>ref spec w. (Inr secret_handle, w)),
          pv_ProvePrivateObservation = (\<lambda>ref handle w. (Inr secret_proof, w)),
          pv_ReleasePrivateObservation = (\<lambda>ref handle pf w. (Inr (), w))\<rparr>\<rparr>,
      sv_fencer = (\<lambda>sid epoch w. (Inl (Errorf ''unused''), w)), sv_presenter = None, sv_readiness = None, sv_h4Enabled = True,
      sv_ctxErr = (\<lambda>w. None)\<rparr>"

definition blank_env :: "unit Env" where
  "blank_env = \<lparr>ev_world = (), ev_attachments = (\<lambda>_. None), ev_preparations = (\<lambda>_. None)\<rparr>"

lemma secret_facts:
  "hs_HandoffID secret_connecting = ''h1''" "hs_SessionID secret_connecting = ''s1''" "hs_Phase secret_connecting = PhaseHumanConnecting"
  "hs_AuthorityEpoch secret_connecting = 2" "hs_HumanClient secret_connecting = Some \<lparr>hc_Ref = ''c1''\<rparr>"
  "hs_ProviderGeneration secret_connecting = ''g1''" "hs_PrivacyState secret_connecting = PrivacyPrivate"
  "hs_PrivacyRelease secret_connecting = PrivacyReleasePending" "hs_CaptureState secret_connecting = CapturePrivate"
  "hs_AgentIngress secret_connecting = IngressFenced" "hs_HumanIngress secret_connecting = IngressFenced"
  "rq_Privacy secret_request = PrivacySecret" "cp_Kind (rq_Completion secret_request) = CompletionManualReady"
  by (simp_all add: secret_connecting_def human_owned_state_def secret_request_def)

lemma secret_proof_good: "\<not> private_proof_bad secret_proof secret_handle secret_connecting"
  by (simp add: private_proof_bad_def secret_proof_def secret_handle_def PrivateObservationProof_Validate_def PrivacyHandle_Validate_def
      delegated_validOpaque_def bytes_over_def opaque_byte_def byte_class_defs IsZero_def secret_facts reject_def)

lemma secret_owned_valid:
  "State_ValidateH4 (secret_connecting\<lparr>hs_Phase := PhaseHumanOwned, hs_ProviderOwner := OwnerHuman, hs_HumanIngress := IngressWritable\<rparr>) = None"
  by (simp add: State_ValidateH4_def HandoffState_Validate_def secret_connecting_def human_owned_state_def TransferBoundary_Validate_def
      HumanClientRef_Validate_def opaque_defs)

abbreviation secret_owned :: HandoffState where
  "secret_owned \<equiv> secret_connecting\<lparr>hs_Phase := PhaseHumanOwned, hs_ProviderOwner := OwnerHuman, hs_HumanIngress := IngressWritable\<rparr>"

definition leased_env :: "unit Env" where
  "leased_env = blank_env\<lparr>ev_preparations := (\<lambda>_. None)(''h1'' \<mapsto> \<lparr>hp_epoch = 2, hp_readiness = None,
     hp_privacy = Some \<lparr>pl_spec = \<lparr>ps_HandoffID = ''h1'', ps_AuthorityEpoch = 2\<rparr>, pl_handle = secret_handle, pl_proof = secret_proof\<rparr>,
     hp_watching = False\<rparr>)\<rparr>"

lemma secret_bound:
  "bindLocalHumanLocked (secret_service mark) ref secret_request secret_connecting \<lparr>cr_Ref = ''c1''\<rparr> s = (Ok secret_owned, s)"
  by (simp add: bindLocalHumanLocked_def adopt_client_def makeHumanWritable_def secret_service_def act_defs demand_def ask_def update_def
      startAutomaticReadiness_def requirementFor_def advance_def secret_owned_valid secret_facts Let_def)

lemma secret_prepared:
  "preparePrivate (secret_service mark) secret_connecting ref blank_env =
    (case mark of Inr _ \<Rightarrow> Ok secret_connecting | Inl e \<Rightarrow> Err (barrier_failed ''h1'' ''capture_marker_failed'' (Some e)), leased_env)"
  using secret_proof_good
  by (cases mark) (simp_all add: preparePrivate_def mark_private_def secret_service_def act_defs ask_def update_def ensurePreparation_def blank_env_def
      leased_env_def secret_facts Let_def)

lemma secret_ref:
  "demand (st_LoadDelegatedProviderRef (sv_store (secret_service mark)) sid) s = (Ok \<lparr>pr_SchemaVersion = 1, pr_SessionID = sid,
     pr_ProviderID = ''tmux'', pr_ProviderVersion = 1, pr_Ref = ''pane1'', pr_CreatedAt = 10, pr_UpdatedAt = 10\<rparr>, s)"
  by (simp add: demand_def normalized_def ask_def secret_service_def)

lemma secret_first:
  "ensurePrivateCurrent (secret_service mark) secret_request secret_connecting blank_env =
    (case mark of Inr _ \<Rightarrow> Ok secret_connecting | Inl e \<Rightarrow> Err (barrier_failed ''h1'' ''capture_marker_failed'' (Some e)), leased_env)"
proof -
  let ?s = "ensurePreparation ''h1'' 2 blank_env"
  have same: "preparePrivate (secret_service mark) secret_connecting ref ?s = preparePrivate (secret_service mark) secret_connecting ref blank_env" for ref
    using secret_proof_good
    by (cases mark) (simp_all add: preparePrivate_def mark_private_def secret_service_def act_defs ask_def update_def ensurePreparation_def
        blank_env_def secret_facts Let_def)
  have "prepareH4 (secret_service mark) secret_request secret_connecting ?s =
      preparePrivate (secret_service mark) secret_connecting \<lparr>pr_SchemaVersion = 1, pr_SessionID = ''s1'', pr_ProviderID = ''tmux'', pr_ProviderVersion = 1,
        pr_Ref = ''pane1'', pr_CreatedAt = 10, pr_UpdatedAt = 10\<rparr> ?s"
    by (simp add: prepareH4_def secret_facts prepareReadiness_def requirementFor_def seq_act_def ret_def secret_ref)
  moreover have "privateLeaseFor ''h1'' 2 ?s = None" by (simp add: privateLeaseFor_def ensurePreparation_def blank_env_def)
  ultimately show ?thesis
    by (simp add: ensurePrivateCurrent_def secret_facts seq_act_def update_def memory_def same secret_prepared)
qed

lemma secret_again:
  "ensurePrivateCurrent (secret_service mark) secret_request secret_connecting leased_env = (Ok secret_connecting, leased_env)"
  using secret_proof_good
  by (simp add: ensurePrivateCurrent_def secret_facts secret_service_def act_defs demand_def ask_def update_def memory_def ensurePreparation_def
      privateLeaseFor_def leased_env_def blank_env_def)

lemma client_valid: "ProviderClientRef_Validate \<lparr>cr_Ref = ''c1''\<rparr> = None"
  by (simp add: ProviderClientRef_Validate_def delegated_validOpaque_def bytes_over_def opaque_byte_def byte_class_defs reject_def)

lemma secret_bind:
  assumes "ensurePrivateCurrent (secret_service mark) secret_request secret_connecting s = (r, s1)"
  shows "BindLocalHuman (secret_service mark) ''h1'' \<lparr>cr_Ref = ''c1''\<rparr> s =
    (case r of Ok st \<Rightarrow> seq_act (demand (st_LoadDelegatedProviderRef (sv_store (secret_service mark)) (hs_SessionID st)))
        (\<lambda>ref. bindLocalHumanLocked (secret_service mark) ref secret_request st \<lparr>cr_Ref = ''c1''\<rparr>) s1
      | Err e \<Rightarrow> (Err e, s1) | ErrWith x e \<Rightarrow> (Err e, s1) | Panic \<Rightarrow> (Panic, s1))"
proof -
  have find: "find_handoff (secret_service mark) i s = (Ok (secret_request, secret_connecting), s)" for i
    by (simp add: find_handoff_def secret_service_def act_defs demand_def ask_def)
  show ?thesis unfolding BindLocalHuman_def client_valid option.map check_valid_def option.case
    by (subst seq_act_def) (simp add: find secret_facts connectable_def fail_if_def, simp add: seq_act_def assms split: outcome.split)
qed

lemma secret_bind_Ok:
  assumes "ensurePrivateCurrent (secret_service mark) secret_request secret_connecting s = (Ok secret_connecting, s1)"
  shows "BindLocalHuman (secret_service mark) ''h1'' \<lparr>cr_Ref = ''c1''\<rparr> s = (Ok secret_owned, s1)"
  by (simp add: secret_bind [OF assms] seq_act_def secret_ref secret_bound)

theorem secret_bind_behind_barrier_witness:
  "\<exists>st s'. BindLocalHuman (secret_service (Inr ())) ''h1'' \<lparr>cr_Ref = ''c1''\<rparr> blank_env = (Ok st, s') \<and>
    hs_HumanIngress st = IngressWritable \<and> (\<exists>lease. privateLeaseFor ''h1'' 2 s' = Some lease \<and> pp_PrivateFromFirstByte (pl_proof lease))"
proof -
  have b: "BindLocalHuman (secret_service (Inr ())) ''h1'' \<lparr>cr_Ref = ''c1''\<rparr> blank_env = (Ok secret_owned, leased_env)"
    by (rule secret_bind_Ok) (simp add: secret_first)
  have f: "st_FindHandoff (sv_store (secret_service (Inr ()))) ''h1'' (ev_world blank_env) = (Inr (Some (secret_request, secret_connecting)), ())"
    by (simp add: secret_service_def)
  from secret_bind_behind_barrier [OF b f] show ?thesis using b by (auto simp: secret_facts)
qed

text \<open>
  The durable mark of a private interval is not retried. The private lease is remembered before
  the capture marker runs, and a later attempt finds the lease and skips the marker: with a marker
  that always fails, the first attempt to bind the human client of a secret handoff fails with
  \<open>private_output_barrier_failed\<close>, but the second one succeeds and the human may write, although
  no reason for the missing output was ever recorded.
\<close>

theorem private_mark_skipped_on_retry:
  "\<exists>e s1 st s2. BindLocalHuman (secret_service (Inl (Errorf ''disk full''))) ''h1'' \<lparr>cr_Ref = ''c1''\<rparr> blank_env = (Err e, s1) \<and>
    public_code e = PrivateOutputBarrierFailed \<and>
    BindLocalHuman (secret_service (Inl (Errorf ''disk full''))) ''h1'' \<lparr>cr_Ref = ''c1''\<rparr> s1 = (Ok st, s2) \<and>
    hs_Phase st = PhaseHumanOwned \<and> hs_HumanIngress st = IngressWritable"
proof -
  let ?e = "barrier_failed ''h1'' ''capture_marker_failed'' (Some (Errorf ''disk full''))"
  have "BindLocalHuman (secret_service (Inl (Errorf ''disk full''))) ''h1'' \<lparr>cr_Ref = ''c1''\<rparr> blank_env = (Err ?e, leased_env)"
    by (simp add: secret_bind [OF secret_first])
  moreover have "public_code ?e = PrivateOutputBarrierFailed"
    by (simp add: public_code_def barrier_failed_def Public_def failure_New_code known_code_def codes_def)
  moreover have "BindLocalHuman (secret_service (Inl (Errorf ''disk full''))) ''h1'' \<lparr>cr_Ref = ''c1''\<rparr> leased_env = (Ok secret_owned, leased_env)"
    by (rule secret_bind_Ok [OF secret_again])
  moreover have "hs_Phase secret_owned = PhaseHumanOwned \<and> hs_HumanIngress secret_owned = IngressWritable" by simp
  ultimately show ?thesis by metis
qed

end
