(* ===== verification/StoredStates.thy ===== *)
theory StoredStates
  imports StoreRuns
begin

text \<open>
  Which handoff states the store holds: those of its records and of its pending transactions, and
  what each operation of the store may add to them.
\<close>

definition goods :: "'a dir \<Rightarrow> 'a set" where
  "goods d = {v. \<exists>k. (k, Good v) \<in> set d}"

definition states :: "Repository \<Rightarrow> HandoffState set" where
  "states r = hr_State ` goods (rp_handoffs r) \<union> (\<lambda>t. hr_State (tx_Record t)) ` goods (rp_transactions r)"

lemma goods_put: "goods (put_file k v d) \<subseteq> insert v (goods d)"
proof -
  have "c = Good v \<or> (k', c) \<in> set d" if "(k', c) \<in> set (put_file k v d)" for k' c
    using that unfolding put_file_def by (induction d) (auto split: if_splits)
  then show ?thesis by (fastforce simp: goods_def)
qed

lemma goods_delete: "goods (AList.delete k d) \<subseteq> goods d"
  by (auto simp: goods_def AList.delete_eq)

lemma goods_read: "readPrivateJSON d k = Inr v \<Longrightarrow> v \<in> goods d"
  by (auto simp: goods_def readPrivateJSON_def split: option.splits content.splits dest: map_of_SomeD)

text \<open>An operation that stores at most the states \<open>A\<close> and leaves the provenance marks alone.\<close>

definition within :: "HandoffState set \<Rightarrow> Repository \<Rightarrow> Repository \<Rightarrow> bool" where
  "within A r r' \<longleftrightarrow> states r' \<subseteq> states r \<union> A \<and> rp_provenance r' = rp_provenance r"

lemma within_refl: "within A r r"
  by (simp add: within_def)

lemma within_trans: "within A r r1 \<Longrightarrow> within A r1 r2 \<Longrightarrow> within A r r2"
  by (auto simp: within_def)

lemma within_mono: "within A r r' \<Longrightarrow> A \<subseteq> B \<Longrightarrow> within B r r'"
  by (auto simp: within_def)

lemma within_absorb: "within {st} r r' \<Longrightarrow> st \<in> states r \<Longrightarrow> within A r r'"
  by (auto simp: within_def)

lemma same_within: "rp_handoffs r' = rp_handoffs r \<Longrightarrow> rp_transactions r' = rp_transactions r \<Longrightarrow> rp_provenance r' = rp_provenance r \<Longrightarrow> within A r r'"
  by (simp add: within_def states_def)

lemma now_within: "now r = (t, r') \<Longrightarrow> within A r r'"
  by (rule same_within) (auto simp: now_def split: list.splits)

lemma fold_obs_provenance:
  "rp_provenance (fold abortObservationBestEffort seqs r) = rp_provenance r"
  "rp_provenance (fold commitObservationBestEffort seqs r) = rp_provenance r"
  by (induction seqs arbitrary: r) (simp_all add: abortObservationBestEffort_def commitObservationBestEffort_def)

lemma prepare_loop_provenance: "prepare_loop r seqs specs = (x, r') \<Longrightarrow> rp_provenance r' = rp_provenance r"
proof (induction r seqs specs rule: prepare_loop.induct)
  case (2 r seqs spec specs)
  obtain seq res r1 where p: "prepareExecutionObservation r = ((seq, res), r1)" by (metis surj_pair)
  have "rp_provenance r1 = rp_provenance r"
    using p by (auto simp: prepareExecutionObservation_def split: list.splits prod.splits)
  with 2 p show ?case by (auto split: if_splits simp: fold_obs_provenance)
qed auto

lemma same_authority_within: "same_authority r r' \<Longrightarrow> rp_provenance r' = rp_provenance r \<Longrightarrow> within A r r'"
  by (rule same_within) (simp_all add: same_authority_def)

lemma prepareHandoffObservations_within: "prepareHandoffObservations r specs = (x, r') \<Longrightarrow> within A r r'"
  by (rule same_authority_within [OF prepareHandoffObservations_same])
    (auto simp: prepareHandoffObservations_def intro: prepare_loop_provenance)

lemma finishHandoffObservations_within: "finishHandoffObservations seqs res f r = (res', r') \<Longrightarrow> within A r r'"
  by (rule same_authority_within [OF finishHandoffObservations_same])
    (auto simp: finishHandoffObservations_def Let_def fold_obs_provenance split: if_splits)

lemma within_transactions:
  "rp_handoffs r' = rp_handoffs r \<Longrightarrow> rp_provenance r' = rp_provenance r \<Longrightarrow> goods (rp_transactions r') \<subseteq> B \<union> goods (rp_transactions r) \<Longrightarrow>
    (\<And>t. t \<in> B \<Longrightarrow> hr_State (tx_Record t) \<in> A) \<Longrightarrow> within A r r'"
  by (auto simp: within_def states_def)

lemma within_records:
  "rp_transactions r' = rp_transactions r \<Longrightarrow> rp_provenance r' = rp_provenance r \<Longrightarrow> goods (rp_handoffs r') \<subseteq> B \<union> goods (rp_handoffs r) \<Longrightarrow>
    (\<And>v. v \<in> B \<Longrightarrow> hr_State v \<in> A) \<Longrightarrow> within A r r'"
  by (auto simp: within_def states_def)

lemma create_transaction_within:
  assumes "create_transaction r k v = (res, r')"
  shows "within {hr_State (tx_Record v)} r r'"
  using create_transaction_cases [OF assms] by (intro within_transactions [where B = "{v}"]) (auto dest: goods_put [THEN subsetD])

lemma create_record_within:
  assumes "create_record r k v = (res, r')"
  shows "within {hr_State v} r r'"
  using create_record_cases [OF assms] by (intro within_records [where B = "{v}"]) (auto dest: goods_put [THEN subsetD])

lemma replace_record_within:
  assumes "replace_record r k v = (res, r')"
  shows "within {hr_State v} r r'"
  using replace_record_cases [OF assms] by (intro within_records [where B = "{v}"]) (auto dest: goods_put [THEN subsetD])

lemma drop_transaction_within:
  assumes "drop_transaction tx c r = (x, r')"
  shows "within A r r'"
proof -
  obtain e where e: "removeHandoffTransactionLocked r (rq_HandoffID (hr_Request (tx_Record tx))) = (e, r')"
    using assms by (auto simp: drop_transaction_def split: prod.splits option.splits)
  show ?thesis using removeHandoffTransactionLocked_cases [OF e]
    by (intro within_transactions [where B = "{}"]) (auto dest: goods_delete [THEN subsetD])
qed

lemma move_binding_within: "move_binding reason tx r = (y, r') \<Longrightarrow> within A r r'"
  by (rule same_within) (auto simp: move_binding_def replace_binding_def split: sum.splits if_splits prod.splits)

section \<open>Operations\<close>

lemma finishHandoffTransactionLocked_within:
  assumes "finishHandoffTransactionLocked tx c r = ((st, cr, res), r')"
  shows "within {hr_State (tx_Record tx)} r r'" "sr_Err res = None \<Longrightarrow> st = Some (hr_State (tx_Record tx))"
proof -
  let ?i = "rq_HandoffID (hr_Request (tx_Record tx))"
  obtain y r1 where m: "move_binding ''binding_transaction_mismatch'' tx r = (y, r1)" by fastforce
  obtain wres r2 where w: "create_record r1 ?i (tx_Record tx) = (wres, r2)" by fastforce
  note step = move_binding_within [OF m] within_trans [OF move_binding_within [OF m] create_record_within [OF w]]
  consider "r' = r" "sr_Err res \<noteq> None" | "r' = r1" "y = Some res" | "r' = r1" "sr_Err res \<noteq> None"
    | "r' = r2" "sr_Err res \<noteq> None" | "drop_transaction tx c r1 = ((st, cr, res), r')" | "drop_transaction tx c r2 = ((st, cr, res), r')"
    using assms m w
    by (auto simp: finishHandoffTransactionLocked_def Let_def handoffTransactionResult_def
        split: option.splits sum.splits if_splits)
  then show "within {hr_State (tx_Record tx)} r r'"
    by cases (auto intro: within_refl step within_trans [OF step(1) drop_transaction_within] within_trans [OF step(2) drop_transaction_within])
  have y: "sr_Err res' \<noteq> None" if "y = Some res'" for res'
    using m that by (auto simp: move_binding_def handoffTransactionResult_def split: sum.splits if_splits prod.splits)
  show "st = Some (hr_State (tx_Record tx))" if "sr_Err res = None"
    using assms m w y that
    by (auto simp: finishHandoffTransactionLocked_def drop_transaction_def Let_def handoffTransactionResult_def
        split: option.splits sum.splits if_splits prod.splits)
qed

lemma finishHandoffAdvanceTransactionLocked_within:
  assumes "finishHandoffAdvanceTransactionLocked tx r = (x, r')"
  shows "within {hr_State (tx_Record tx)} r r'"
proof -
  let ?i = "rq_HandoffID (hr_Request (tx_Record tx))"
  obtain y r1 where m: "move_binding ''advance_binding_mismatch'' tx r = (y, r1)" by fastforce
  obtain wres r2 where w: "replace_record r1 ?i (tx_Record tx) = (wres, r2)" by fastforce
  note step = move_binding_within [OF m] within_trans [OF move_binding_within [OF m] replace_record_within [OF w]]
  consider "r' = r1" | "r' = r2" | "drop_transaction tx False r2 = (x, r')"
    using assms m w by (auto simp: finishHandoffAdvanceTransactionLocked_def Let_def split: option.splits if_splits)
  then show ?thesis by cases (auto intro: step within_trans [OF step(2) drop_transaction_within])
qed

lemma loaded_states:
  "loadHandoffRecordLocked r i = Inr v \<Longrightarrow> hr_State v \<in> states r"
  "loadHandoffTransactionLocked r i = Inr t \<Longrightarrow> hr_State (tx_Record t) \<in> states r"
  by (auto simp: loadHandoffRecordLocked_def loadHandoffTransactionLocked_def states_def bind_result_def
      split: sum.splits if_splits dest!: goods_read)

lemma reconcile_within:
  assumes "reconcileHandoffTransactionLocked r i = (res, r')"
  shows "within A r r'"
proof (cases "loadHandoffTransactionLocked r i")
  case (Inl e)
  with assms show ?thesis by (auto simp: reconcileHandoffTransactionLocked_def intro: within_refl)
next
  case (Inr tx)
  obtain s1 c1 x1 ra where a: "finishHandoffTransactionLocked tx False r = ((s1, c1, x1), ra)" by (metis surj_pair)
  obtain yb rb where b: "finishHandoffAdvanceTransactionLocked tx r = (yb, rb)" by fastforce
  have "r' = r \<or> r' = ra \<or> r' = rb"
    using assms Inr a b by (auto simp: reconcileHandoffTransactionLocked_def split: sum.splits if_splits prod.splits)
  then show ?thesis
    using finishHandoffTransactionLocked_within(1) [OF a] finishHandoffAdvanceTransactionLocked_within [OF b] loaded_states(2) [OF Inr]
    by (auto intro: within_refl within_absorb)
qed

lemma reserve_new_handoff_within:
  assumes "reserve_new_handoff req initial b r = ((st, cr, res), r')"
  shows "within {initial} r r'" "sr_Err res = None \<Longrightarrow> st = Some initial"
proof -
  obtain t r0 where n: "now r = (t, r0)" by fastforce
  let ?rec = "\<lparr>hr_SchemaVersion = handoffStoreSchemaVersion, hr_Request = req, hr_State = initial, hr_CreatedAt = t, hr_UpdatedAt = t\<rparr>"
  let ?tx0 = "\<lparr>tx_SchemaVersion = handoffStoreSchemaVersion, tx_Record = ?rec, tx_PriorBinding = b,
    tx_TargetBinding = move_to b initial t, tx_ObservationSeqs = []\<rparr>"
  obtain seqs prepared r1 where p: "prepareHandoffObservations r0 [handoffCreateObservationSpec initial] = ((seqs, prepared), r1)"
    by (metis surj_pair)
  let ?tx = "?tx0\<lparr>tx_ObservationSeqs := seqs\<rparr>"
  obtain cres r2 where c: "create_transaction r1 (rq_HandoffID req) ?tx = (cres, r2)" by fastforce
  obtain s3 c3 x3 r3 where f: "finishHandoffTransactionLocked ?tx True r2 = ((s3, c3, x3), r3)" by (metis surj_pair)
  let ?m = "Some (handoffObservationTransactionMatchesLocked ?tx True)"
  obtain resa ra where fa: "finishHandoffObservations seqs cres ?m r2 = (resa, ra)" by fastforce
  obtain resb rb where fb: "finishHandoffObservations seqs x3 ?m r3 = (resb, rb)" by fastforce
  have w1: "within {initial} r r1" by (rule within_trans [OF now_within [OF n] prepareHandoffObservations_within [OF p]])
  have w2: "within {initial} r r2" using within_trans [OF w1] create_transaction_within [OF c] by simp
  have w3: "within {initial} r r3" using within_trans [OF w2] finishHandoffTransactionLocked_within(1) [OF f] by simp
  have "r' = r0 \<or> r' = r1 \<or> (\<exists>x y. finishHandoffObservations seqs x None r1 = (y, r')) \<or> r' = ra \<or> r' = rb"
    using assms n p c f fa fb by (auto simp: reserve_new_handoff_def Let_def split: option.splits if_splits prod.splits)
  then show "within {initial} r r'"
    using within_trans [OF w1 finishHandoffObservations_within] within_trans [OF w2 finishHandoffObservations_within [OF fa]]
      within_trans [OF w3 finishHandoffObservations_within [OF fb]] now_within [OF n] w1 by blast
  show "st = Some initial" if "sr_Err res = None"
    using assms n p c f fa fb that finishHandoffTransactionLocked_within(2) [OF f] finishHandoffObservations_err [OF fa]
      finishHandoffObservations_err [OF fb] finishHandoffObservations_err
    by (auto simp: reserve_new_handoff_def Let_def split: option.splits if_splits prod.splits)
qed

lemma ReserveHandoff_within:
  assumes "ReserveHandoff sha ctx req initial r = ((st, cr, res), r')"
  shows "within {initial} r r'" "sr_Err res = None \<Longrightarrow> \<exists>x. st = Some x \<and> (x \<in> states r \<or> x = initial)"
proof -
  show "within {initial} r r'"
  proof (cases "r' = r")
    case False
    with assms show ?thesis
    proof (cases rule: ReserveHandoff_cases)
      case (1 tx)
      from finishHandoffTransactionLocked_within(1) [OF 1(3)] loaded_states(2) [OF 1(1)] show ?thesis by (rule within_absorb)
    next
      case (2 b)
      then show ?thesis using reserve_new_handoff_within(1) by blast
    qed
  qed (simp add: within_refl)
  show "\<exists>x. st = Some x \<and> (x \<in> states r \<or> x = initial)" if e: "sr_Err res = None"
  proof -
    consider tx where "loadHandoffTransactionLocked r (rq_HandoffID req) = Inr tx" "finishHandoffTransactionLocked tx False r = ((st, cr, res), r')"
      | v where "loadHandoffRecordLocked r (rq_HandoffID req) = Inr v" "st = Some (hr_State v)"
      | b where "reserve_new_handoff req initial b r = ((st, cr, res), r')"
      using assms e by (auto simp: ReserveHandoff_def split: option.splits sum.splits if_splits)
    then show ?thesis
    proof cases
      case 1 then show ?thesis using finishHandoffTransactionLocked_within(2) e loaded_states(2) by blast
    next
      case 2 then show ?thesis using loaded_states(1) by blast
    next
      case 3 then show ?thesis using reserve_new_handoff_within(2) e by blast
    qed
  qed
qed

lemma advance_with_binding_within:
  assumes "advance_with_binding want rec binding seqs r = (res, r')"
  shows "within {want} r r'"
proof -
  obtain t r1 where n: "now r = (t, r1)" by fastforce
  let ?rec = "rec\<lparr>hr_State := want, hr_UpdatedAt := monotonicHandoffTime t (hr_UpdatedAt rec)\<rparr>"
  let ?tx = "\<lparr>tx_SchemaVersion = handoffStoreSchemaVersion, tx_Record = ?rec,
    tx_PriorBinding = binding, tx_TargetBinding = move_to binding want t, tx_ObservationSeqs = seqs\<rparr>"
  obtain cres r2 where c: "create_transaction r1 (hs_HandoffID want) ?tx = (cres, r2)" by fastforce
  obtain x3 r3 where f: "finishHandoffAdvanceTransactionLocked ?tx r2 = (x3, r3)" by fastforce
  obtain pres r4 where p: "replace_record r1 (hs_HandoffID want) ?rec = (pres, r4)" by fastforce
  have w1: "within {want} r r1" by (rule now_within [OF n])
  have w2: "within {want} r r2" using within_trans [OF w1] create_transaction_within [OF c] by simp
  have w3: "within {want} r r3" using within_trans [OF w2] finishHandoffAdvanceTransactionLocked_within [OF f] by simp
  have w4: "within {want} r r4" using within_trans [OF w1] replace_record_within [OF p] by simp
  have "\<exists>x m y. finishHandoffObservations seqs x m r = (y, r') \<or> finishHandoffObservations seqs x m r1 = (y, r') \<or>
      finishHandoffObservations seqs x m r2 = (y, r') \<or> finishHandoffObservations seqs x m r3 = (y, r') \<or>
      finishHandoffObservations seqs x m r4 = (y, r')"
    using assms n c f p by (auto simp: advance_with_binding_def Let_def split: option.splits if_splits prod.splits)
  then show ?thesis
    by (elim exE disjE) (erule finishHandoffObservations_within within_trans [OF w1 finishHandoffObservations_within]
      within_trans [OF w2 finishHandoffObservations_within] within_trans [OF w3 finishHandoffObservations_within]
      within_trans [OF w4 finishHandoffObservations_within])+
qed

lemma advance_loaded_within:
  assumes "advance_loaded want r = (res, r')"
  shows "within {want} r r'"
proof (cases "r' = r")
  case False
  from advance_loaded_cases [OF assms False] obtain rec b seqs prepared r1 where
    p: "prepareHandoffObservations r (handoffAdvanceObservationSpecs (hr_State rec) want) = ((seqs, prepared), r1)"
    and c: "r' = r1 \<or> advance_with_binding want rec b seqs r1 = (res, r')" .
  note w = prepareHandoffObservations_within [OF p]
  from c show ?thesis
  proof
    assume "advance_with_binding want rec b seqs r1 = (res, r')"
    from within_trans [OF w advance_with_binding_within [OF this]] show ?thesis .
  qed (use w in simp)
qed (simp add: within_refl)

lemma AdvanceHandoff_within:
  assumes "AdvanceHandoff ctx want r = (res, r')"
  shows "within {want} r r'"
proof -
  obtain x r1 where c: "reconcileHandoffTransactionLocked r (hs_HandoffID want) = (x, r1)" by fastforce
  have "r' = r \<or> advance_loaded want r = (res, r') \<or> r' = r1 \<or>
      (\<exists>s m y r2. finishHandoffObservations s x m r1 = (y, r2) \<and> (r' = r2 \<or> advance_loaded want r2 = (res, r')))"
    using assms c by (auto simp: AdvanceHandoff_def split: option.splits sum.splits if_splits prod.splits)
  then show ?thesis
  proof (elim disjE exE conjE)
    fix s m y r2 assume "finishHandoffObservations s x m r1 = (y, r2)"
    note w = within_trans [OF reconcile_within [OF c] finishHandoffObservations_within [OF this]]
    show ?thesis if "r' = r2" using w that by simp
    show ?thesis if "advance_loaded want r2 = (res, r')" using within_trans [OF w advance_loaded_within [OF that]] .
  qed (simp_all add: within_refl reconcile_within [OF c] advance_loaded_within)
qed

lemma RecoverHandoff_within:
  assumes "RecoverHandoff ctx i r = ((st, res), r')"
  shows "within {} r r'" "sr_Err res = None \<Longrightarrow> \<exists>x. st = Some x \<and> x \<in> states r"
proof -
  obtain x r1 where c: "reconcileHandoffTransactionLocked r i = (x, r1)" by fastforce
  from assms c have r': "r' = r \<or> r' = r1"
    by (auto simp: RecoverHandoff_def split: option.splits if_splits sum.splits prod.splits)
  then show w: "within {} r r'" using within_refl reconcile_within [OF c] by blast
  show "\<exists>x. st = Some x \<and> x \<in> states r" if "sr_Err res = None"
  proof -
    from assms that obtain v where "loadHandoffRecordLocked r' i = Inr v" "st = Some (hr_State v)"
      by (auto simp: RecoverHandoff_def split: option.splits if_splits sum.splits prod.splits)
    with w loaded_states(1) show ?thesis by (auto simp: within_def)
  qed
qed

end
