(* ===== verification/DelegatedCapture.thy ===== *)
theory DelegatedCapture
  imports DelegatedStore
begin

text \<open>
  The capture state of delegated sessions in the store (internal/adapter/store/delegated_output.go):
  the reasons for which the captured output of a session is incomplete, one file per session.
\<close>

section \<open>Operations\<close>

definition delegatedCaptureState_validate :: "delegatedCaptureState \<Rightarrow> goerr option" where
  "delegatedCaptureState_validate v = first_error [
     reject (dc_SchemaVersion v \<noteq> 1 \<or> IsZero (dc_UpdatedAt v)) (Errorf ''invalid delegated capture state''),
     (case ParseSessionID (dc_SessionID v) of Inl e \<Rightarrow> Some e | Inr _ \<Rightarrow> None),
     CaptureTruth_Validate (dc_Truth v)]"

definition loadDelegatedCaptureTruthLocked :: "Repository \<Rightarrow> string \<Rightarrow> CaptureTruth result" where
  "loadDelegatedCaptureTruthLocked r sid =
     (case readPrivateJSON (rp_captures r) sid of
        Inl e \<Rightarrow> if is_not_found e then Inr CompleteCaptureTruth else Inl e
      | Inr v \<Rightarrow>
          if delegatedCaptureState_validate v \<noteq> None \<or> dc_SessionID v \<noteq> sid
          then Inl (Errorf ''invalid delegated capture state'') else Inr (dc_Truth v))"

definition LoadDelegatedCaptureTruth :: "goerr option \<Rightarrow> string \<Rightarrow> Repository \<Rightarrow> CaptureTruth result" where
  "LoadDelegatedCaptureTruth ctx sid r =
     guard_result ctx (case ParseSessionID sid of Inl e \<Rightarrow> Inl e | Inr _ \<Rightarrow>
       bind_result (loadDelegatedBindingLocked r sid) (\<lambda>_. loadDelegatedCaptureTruthLocked r sid))"

definition create_capture :: "Repository \<Rightarrow> string \<Rightarrow> delegatedCaptureState \<Rightarrow> StoreResult \<times> Repository" where
  "create_capture r k v =
     (case next_io (rp_io r) of (io, ios) \<Rightarrow>
      case atomic_Create io (rp_captures r) k v of (res, d) \<Rightarrow> (res, r\<lparr>rp_captures := d, rp_io := ios\<rparr>))"

definition replace_capture :: "Repository \<Rightarrow> string \<Rightarrow> delegatedCaptureState \<Rightarrow> StoreResult \<times> Repository" where
  "replace_capture r k v =
     (case next_io (rp_io r) of (io, ios) \<Rightarrow>
      case atomic_Replace io (rp_captures r) k v of (res, d) \<Rightarrow> (res, r\<lparr>rp_captures := d, rp_io := ios\<rparr>))"

text \<open>The write at the end of \<open>MarkDelegatedCaptureReason\<close>.\<close>

definition write_capture :: "Repository \<Rightarrow> string \<Rightarrow> delegatedCaptureState \<Rightarrow> StoreResult \<times> Repository" where
  "write_capture r sid state =
     (case readPrivateJSON (rp_captures r) sid of
        Inl e \<Rightarrow>
          if \<not> is_not_found e then (store_result NoDurableChange (Some e), r)
          else (case create_capture r sid state of (res, r1) \<Rightarrow>
            if is_exist (sr_Err res) then replace_capture r1 sid state else (res, r1))
      | Inr existing \<Rightarrow>
          if delegatedCaptureState_validate existing \<noteq> None \<or> dc_SessionID existing \<noteq> sid
          then (store_result DurableChange (Some (Errorf ''invalid delegated capture state'')), r)
          else replace_capture r sid state)"

definition MarkDelegatedCaptureReason ::
  "goerr option \<Rightarrow> string \<Rightarrow> CaptureReason \<Rightarrow> Repository \<Rightarrow> (CaptureTruth option \<times> StoreResult) \<times> Repository" where
  "MarkDelegatedCaptureReason ctx sid reason r =
     (case ctx of Some e \<Rightarrow> ((None, store_result NoDurableChange (Some e)), r) | None \<Rightarrow>
      (case ParseSessionID sid of Inl e \<Rightarrow> ((None, store_result NoDurableChange (Some e)), r) | Inr _ \<Rightarrow>
      (case loadDelegatedBindingLocked r sid of Inl e \<Rightarrow> ((None, store_result NoDurableChange (Some e)), r) | Inr binding \<Rightarrow>
        if bd_Lifecycle binding \<noteq> LifecycleProvisioning \<and> bd_Lifecycle binding \<noteq> LifecycleLive
        then ((None, store_result DurableChange (Some (Errorf ''delegated capture state is terminal''))), r)
        else (case loadDelegatedCaptureTruthLocked r sid of
            Inl e \<Rightarrow> ((None, store_result NoDurableChange (Some e)), r)
          | Inr current \<Rightarrow>
              (case WithReason current reason of
                 Inl e \<Rightarrow> ((None, store_result NoDurableChange (Some e)), r)
               | Inr next \<Rightarrow>
                   if sameCaptureTruth current next then ((Some current, store_result DurableChange None), r)
                   else (case now r of (t, r1) \<Rightarrow>
                     if IsZero t then ((None, store_result NoDurableChange (Some (Errorf ''delegated capture timestamp unavailable''))), r1)
                     else (case write_capture r1 sid \<lparr>dc_SchemaVersion = 1, dc_SessionID = sid, dc_Truth = next, dc_UpdatedAt = t\<rparr> of
                         (res, r2) \<Rightarrow> if sr_Err res \<noteq> None then ((None, res), r2) else ((Some next, res), r2))))))))"

section \<open>What a mark leaves behind\<close>

lemma loaded_capture_valid: "loadDelegatedCaptureTruthLocked r sid = Inr v \<Longrightarrow> CaptureTruth_Validate v = None"
  by (auto simp: loadDelegatedCaptureTruthLocked_def delegatedCaptureState_validate_def CompleteCaptureTruth_def
      CaptureTruth_Validate_def ValidateCaptureTruth_def split: sum.splits if_splits)

lemma replace_capture_ok:
  "replace_capture r k v = (res, r') \<Longrightarrow> sr_Err res = None \<Longrightarrow>
    rp_captures r' = put_file k v (rp_captures r) \<and> rp_bindings r' = rp_bindings r"
  by (auto simp: replace_capture_def atomic_Replace_def split: prod.splits file_write.splits)

lemma create_capture_cases:
  "create_capture r k v = (res, r') \<Longrightarrow> rp_bindings r' = rp_bindings r \<and>
    (rp_captures r' = put_file k v (rp_captures r) \<or> sr_Err res \<noteq> None \<and> rp_captures r' = rp_captures r)"
  by (auto simp: create_capture_def atomic_Create_def split: prod.splits file_write.splits if_splits)

lemma put_file_twice: "map_of (put_file k v (put_file k v d)) = map_of (put_file k v d)"
  by (auto simp: put_file_def update_conv')

lemma write_capture_ok:
  assumes "write_capture r sid v = (res, r')" "sr_Err res = None"
  shows "map_of (rp_captures r') = map_of (put_file sid v (rp_captures r)) \<and> rp_bindings r' = rp_bindings r"
proof (cases "readPrivateJSON (rp_captures r) sid")
  case (Inr existing)
  with assms have "replace_capture r sid v = (res, r')" by (auto simp: write_capture_def split: if_splits)
  with replace_capture_ok [OF _ assms(2)] show ?thesis by simp
next
  case (Inl e)
  obtain res1 r1 where c: "create_capture r sid v = (res1, r1)" by fastforce
  have "is_not_found e" using assms by (cases "is_not_found e") (auto simp: write_capture_def Inl)
  with assms(1) have w: "(if is_exist (sr_Err res1) then replace_capture r1 sid v else (res1, r1)) = (res, r')"
    by (simp add: write_capture_def Inl c)
  show ?thesis
  proof (cases "is_exist (sr_Err res1)")
    case False
    with w create_capture_cases [OF c] assms(2) show ?thesis by simp
  next
    case True
    with w have "replace_capture r1 sid v = (res, r')" by simp
    from replace_capture_ok [OF this assms(2)] create_capture_cases [OF c] show ?thesis
      by (auto simp: put_file_def update_conv')
  qed
qed

lemma load_written_capture:
  assumes "map_of (rp_captures r') = map_of (put_file sid v (rp_captures r))" "delegatedCaptureState_validate v = None" "dc_SessionID v = sid"
  shows "loadDelegatedCaptureTruthLocked r' sid = Inr (dc_Truth v)"
    "sid' \<noteq> sid \<Longrightarrow> loadDelegatedCaptureTruthLocked r' sid' = loadDelegatedCaptureTruthLocked r sid'"
  using assms by (auto simp: loadDelegatedCaptureTruthLocked_def readPrivateJSON_def put_file_def update_conv')

lemma now_capture_frame: "now r = (t, r') \<Longrightarrow> rp_captures r' = rp_captures r \<and> rp_bindings r' = rp_bindings r"
  by (auto simp: now_def split: list.splits)

lemma mark_capture_result:
  assumes run: "MarkDelegatedCaptureReason ctx sid reason r = ((truth, res), r')" and okay: "sr_Err res = None"
  obtains current "next" where "loadDelegatedCaptureTruthLocked r sid = Inr current" "WithReason current reason = Inr next" "truth = Some next"
    "loadDelegatedCaptureTruthLocked r' sid = Inr next" "rp_bindings r' = rp_bindings r" "ParseSessionID sid = Inr sid" "ctx = None"
    "\<And>sid'. sid' \<noteq> sid \<Longrightarrow> loadDelegatedCaptureTruthLocked r' sid' = loadDelegatedCaptureTruthLocked r sid'"
proof -
  from run okay obtain sid1 binding current "next" where ctx: "ctx = None" and sid: "ParseSessionID sid = Inr sid1"
    and b: "loadDelegatedBindingLocked r sid = Inr binding"
    and cur: "loadDelegatedCaptureTruthLocked r sid = Inr current" and nxt: "WithReason current reason = Inr next"
    and rest: "(if sameCaptureTruth current next then ((Some current, store_result DurableChange None), r)
       else (case now r of (t, r1) \<Rightarrow>
         if IsZero t then ((None, store_result NoDurableChange (Some (Errorf ''delegated capture timestamp unavailable''))), r1)
         else (case write_capture r1 sid \<lparr>dc_SchemaVersion = 1, dc_SessionID = sid, dc_Truth = next, dc_UpdatedAt = t\<rparr> of
           (res, r2) \<Rightarrow> if sr_Err res \<noteq> None then ((None, res), r2) else ((Some next, res), r2)))) = ((truth, res), r')"
    by (auto simp: MarkDelegatedCaptureReason_def split: option.splits sum.splits if_splits)
  have sid1: "sid1 = sid" using sid by (auto simp: ParseSessionID_def split: if_splits)
  show thesis
  proof (cases "sameCaptureTruth current next")
    case True
    with rest sid sid1 ctx cur nxt show thesis by (intro that [of current "next"]) (auto simp: sameCaptureTruth_iff)
  next
    case False
    obtain t r1 where n: "now r = (t, r1)" by fastforce
    let ?v = "\<lparr>dc_SchemaVersion = 1, dc_SessionID = sid, dc_Truth = next, dc_UpdatedAt = t\<rparr>"
    from False rest n okay have t: "\<not> IsZero t" and w: "write_capture r1 sid ?v = (res, r')" and truth: "truth = Some next"
      by (auto split: if_splits prod.splits)
    from loaded_capture_valid [OF cur] nxt have "CaptureTruth_Validate next = None"
      by (auto simp: WithReason_def Let_def guard_result_def split: option.splits if_splits)
    with t sid sid1 have "delegatedCaptureState_validate ?v = None" by (simp add: delegatedCaptureState_validate_def ParseSessionID_def)
    moreover note write_capture_ok [OF w okay] now_capture_frame [OF n]
    ultimately show thesis
      using that [of current "next"] cur nxt truth ctx sid sid1 load_written_capture [of r' sid ?v r] by simp
  qed
qed

text \<open>
  C25: A valid capture truth is exactly a set of reasons: it is determined by the set of its reasons,
  and adding a known reason to it always succeeds and gives the truth of the set with that reason
  inserted. So the order and the repetition of marks do not matter, and no mark is ever lost.
\<close>

theorem capture_truth_is_reason_set:
  assumes "CaptureTruth_Validate v = None" "snd (captureReasonRank reason)"
  shows "v = truth_of (set (ct_Reasons v)) \<and> CaptureTruth_Validate (truth_of (insert reason (set (ct_Reasons v)))) = None \<and>
    WithReason v reason = Inr (truth_of (insert reason (set (ct_Reasons v))))"
proof -
  from assms(2) have r: "reason \<in> set known_reasons" by (simp add: known_rank)
  note v = valid_truth [OF assms(1)]
  show ?thesis using v(1) WithReason_inserts [OF v(2) r] truth_of_valid [of "insert reason (set (ct_Reasons v))"] v(2) r
    by simp
qed

theorem capture_truth_is_reason_set_witness:
  "WithReason \<lparr>ct_Quality = CaptureIncomplete, ct_Reasons = [CaptureReasonProviderLost], ct_OutputComplete = False\<rparr>
      CaptureReasonPrivateIntervalsOmitted =
    Inr (truth_of {CaptureReasonPrivateIntervalsOmitted, CaptureReasonProviderLost})"
proof -
  let ?v = "\<lparr>ct_Quality = CaptureIncomplete, ct_Reasons = [CaptureReasonProviderLost], ct_OutputComplete = False\<rparr>"
  have "CaptureTruth_Validate ?v = None" by (simp add: CaptureTruth_Validate_def ValidateCaptureTruth_def)
  from capture_truth_is_reason_set [OF this, of CaptureReasonPrivateIntervalsOmitted, THEN conjunct2, THEN conjunct2]
  show ?thesis by simp
qed

text \<open>
  C26: A mark of the store survives: when a capture reason is marked without error, the truth it
  returns is the previous truth of that session with the reason inserted, a later load of the
  session returns that truth, and the truth of every other session is what it was.
\<close>

theorem marked_capture_is_loaded:
  assumes "MarkDelegatedCaptureReason ctx sid reason r = ((truth, res), r')" "sr_Err res = None"
    and "LoadDelegatedCaptureTruth None sid r = Inr old"
  shows "truth = Some (truth_of (insert reason (set (ct_Reasons old)))) \<and>
    LoadDelegatedCaptureTruth None sid r' = Inr (truth_of (insert reason (set (ct_Reasons old)))) \<and>
    (\<forall>sid'. sid' \<noteq> sid \<longrightarrow> LoadDelegatedCaptureTruth None sid' r' = LoadDelegatedCaptureTruth None sid' r)"
proof -
  from mark_capture_result [OF assms(1,2)] obtain current "next" where
    m: "loadDelegatedCaptureTruthLocked r sid = Inr current" "WithReason current reason = Inr next" "truth = Some next"
      "loadDelegatedCaptureTruthLocked r' sid = Inr next" "rp_bindings r' = rp_bindings r"
      "\<And>sid'. sid' \<noteq> sid \<Longrightarrow> loadDelegatedCaptureTruthLocked r' sid' = loadDelegatedCaptureTruthLocked r sid'"
    by blast
  have b: "loadDelegatedBindingLocked r' x = loadDelegatedBindingLocked r x" for x
    by (rule loadDelegatedBindingLocked_frame) (rule m(5))
  have old: "old = current" and parsed: "LoadDelegatedCaptureTruth None sid r' = Inr next"
    using assms(3) m(1,4) by (auto simp: LoadDelegatedCaptureTruth_def bind_result_def b ParseSessionID_def split: sum.splits if_splits)
  have "snd (captureReasonRank reason)"
    using m(2) by (auto simp: WithReason_def guard_result_def split: option.splits if_splits)
  then have "next = truth_of (insert reason (set (ct_Reasons old)))"
    using WithReason_inserts [OF valid_truth(2), of current reason] valid_truth(1) [OF loaded_capture_valid [OF m(1)]]
      loaded_capture_valid [OF m(1)] m(2) by (simp add: known_rank old)
  moreover have "LoadDelegatedCaptureTruth None sid' r' = LoadDelegatedCaptureTruth None sid' r" if "sid' \<noteq> sid" for sid'
    unfolding LoadDelegatedCaptureTruth_def b m(6) [OF that] ..
  ultimately show ?thesis using parsed m(3) by simp
qed

lemma example_session_parsed: "ParseSessionID ''s1'' = Inr ''s1''"
  by (simp add: ParseSessionID_def valid_id_def bytes_headed_def id_byte_def bytes_over_def byte_class_defs)

lemma example_capture: "loadDelegatedCaptureTruthLocked example_repository ''s1'' = Inr (truth_of {})"
  by (simp add: loadDelegatedCaptureTruthLocked_def example_repository_def empty_repository_def readPrivateJSON_def
      is_not_found_def ErrNotFound_def truth_of_def CompleteCaptureTruth_def)

lemma example_write:
  "write_capture (example_repository\<lparr>rp_clock := ts\<rparr>) ''s1'' v =
    (store_result DurableChange None, example_repository\<lparr>rp_clock := ts, rp_captures := put_file ''s1'' v []\<rparr>)"
  by (simp add: write_capture_def readPrivateJSON_def is_not_found_def ErrNotFound_def create_capture_def next_io_def atomic_Create_def
      is_exist_def example_repository_def empty_repository_def)

lemma example_mark:
  "\<exists>r'. MarkDelegatedCaptureReason None ''s1'' CaptureReasonTransportGap example_repository =
    ((Some (truth_of {CaptureReasonTransportGap}), store_result DurableChange None), r')"
proof -
  have w: "WithReason (truth_of {}) CaptureReasonTransportGap = Inr (truth_of {CaptureReasonTransportGap})"
    using WithReason_inserts [of "{}" CaptureReasonTransportGap] by (simp add: known_reasons_def)
  have s: "\<not> sameCaptureTruth (truth_of {}) (truth_of {CaptureReasonTransportGap})"
    by (simp add: sameCaptureTruth_iff truth_of_def)
  have l: "bd_Lifecycle example_binding = LifecycleLive" by (simp add: example_binding_def)
  have n: "now example_repository = (20, example_repository\<lparr>rp_clock := [30, 40]\<rparr>)"
    by (simp add: now_def example_repository_def)
  show ?thesis
    by (simp add: MarkDelegatedCaptureReason_def example_session_parsed example_load example_capture w s l n example_write IsZero_def)
qed

theorem marked_capture_is_loaded_witness:
  "LoadDelegatedCaptureTruth None ''s1''
     (snd (MarkDelegatedCaptureReason None ''s1'' CaptureReasonTransportGap example_repository)) = Inr (truth_of {CaptureReasonTransportGap})"
proof -
  obtain r' where r': "MarkDelegatedCaptureReason None ''s1'' CaptureReasonTransportGap example_repository =
    ((Some (truth_of {CaptureReasonTransportGap}), store_result DurableChange None), r')" using example_mark by blast
  have "LoadDelegatedCaptureTruth None ''s1'' example_repository = Inr (truth_of {})"
    by (simp add: LoadDelegatedCaptureTruth_def example_session_parsed example_load example_capture)
  from marked_capture_is_loaded [OF r' _ this] show ?thesis
    by (simp add: r')
qed

end
