(* ===== verification/DaemonHandoff.thy ===== *)
theory DaemonHandoff
  imports StoredStates DelegatedCapture HandoffContract
begin

text \<open>
  The daemon composes the coordinator of handoffs with its store and with the provider of delegated
  sessions (internal/app/daemon/handoff_port.go).  The world of the coordinator is then the
  repository together with the provider's own state \<open>'p\<close>, about which nothing is assumed; a call to
  the provider may also cancel the caller's context (\<open>ctx\<close>).
\<close>

section \<open>The store adapter\<close>

definition zero_state :: HandoffState where
  "zero_state = \<lparr>hs_SchemaVersion = 0, hs_HandoffID = [], hs_SessionID = [], hs_Phase = OtherPhase [], hs_AuthorityEpoch = 0,
     hs_DesiredOwner = OtherOwner [], hs_ProviderOwner = OtherOwner [], hs_AgentIngress = OtherIngress [],
     hs_HumanIngress = OtherIngress [], hs_TransferBoundary = \<lparr>tb_Kind = OtherBoundary [], tb_Established = False\<rparr>,
     hs_PrivacyState = OtherPrivacyState [], hs_PrivacyRelease = OtherPrivacyRelease [], hs_CaptureState = OtherCapture [],
     hs_HumanClient = None, hs_ProviderGeneration = [], hs_FailureCode = []\<rparr>"

definition handoffStoreError :: "StoreResult \<Rightarrow> goerr option" where
  "handoffStoreError res =
     (case sr_Err res of
        None \<Rightarrow> None
      | Some e \<Rightarrow>
          if as_failure e \<noteq> None then Some e
          else if sr_Durability res = AmbiguousChange then Some (failure_New ''persistence_ambiguous'' [] (Some e))
          else Some (failure_New PersistenceUnavailable [] (Some e)))"

definition stored_result :: "StoreResult \<Rightarrow> 'a \<Rightarrow> 'a result" where
  "stored_result res x = (case handoffStoreError res of Some e \<Rightarrow> Inl e | None \<Rightarrow> Inr x)"

definition state_or_zero :: "HandoffState option \<Rightarrow> HandoffState" where
  "state_or_zero st = (case st of Some x \<Rightarrow> x | None \<Rightarrow> zero_state)"

definition signal_or_zero :: "ControlSignal option \<Rightarrow> ControlSignal" where
  "signal_or_zero signal = (case signal of Some x \<Rightarrow> x
     | None \<Rightarrow> \<lparr>sg_HandoffID = [], sg_AuthorityEpoch = 0, sg_ControlID = [], sg_Kind = OtherControl []\<rparr>)"

definition handoffStoreAdapter :: "(string \<Rightarrow> string) \<Rightarrow> ('p \<Rightarrow> goerr option) \<Rightarrow> (Repository \<times> 'p) Store" where
  "handoffStoreAdapter sha ctx =
     \<lparr>st_FindHandoff = (\<lambda>i (r, p). (FindHandoff (ctx p) i r, (r, p))),
      st_ReserveHandoff = (\<lambda>req st (r, p). case ReserveHandoff sha (ctx p) req st r of
        ((stored, created, res), r') \<Rightarrow> (stored_result res (state_or_zero stored, created), (r', p))),
      st_AdvanceHandoff = (\<lambda>st (r, p). case AdvanceHandoff (ctx p) st r of (res, r') \<Rightarrow> (stored_result res (), (r', p))),
      st_LoadHandoff = (\<lambda>i (r, p). (LoadHandoff (ctx p) i r, (r, p))),
      st_RecoverHandoff = (\<lambda>i (r, p). case RecoverHandoff (ctx p) i r of
        ((st, res), r') \<Rightarrow> (stored_result res (state_or_zero st), (r', p))),
      st_LoadDelegatedBinding = (\<lambda>sid (r, p). (LoadDelegatedBinding (ctx p) sid r, (r, p))),
      st_LoadDelegatedProviderRef = (\<lambda>sid (r, p). (LoadDelegatedProviderRef (ctx p) sid r, (r, p))),
      st_ReserveControlSignal = (\<lambda>signal (r, p). case ReserveControlSignal (ctx p) signal r of
        ((stored, outcome, created, res), r') \<Rightarrow> (stored_result res (signal_or_zero stored, outcome, created), (r', p))),
      st_CompleteControlSignal = (\<lambda>signal outcome (r, p). case CompleteControlSignal (ctx p) signal outcome r of
        ((stored, res), r') \<Rightarrow> (stored_result res stored, (r', p))),
      st_MarkHumanWriteAuthorityGranted = (\<lambda>sid (r, p). case MarkHumanWriteAuthorityGranted (ctx p) sid r of
        (res, r') \<Rightarrow> (stored_result res (), (r', p))),
      st_LoadInputAuthorityProvenance = (\<lambda>sid (r, p). (LoadInputAuthorityProvenance (ctx p) sid r, (r, p))),
      st_MarkPrivateCapture = Some (\<lambda>sid (r, p).
        case MarkDelegatedCaptureReason (ctx p) sid CaptureReasonPrivateIntervalsOmitted r of
          ((_, res), r') \<Rightarrow> (stored_result res (), (r', p)))\<rparr>"

section \<open>The fencer of agent input\<close>

text \<open>
  \<open>live\<close> is \<open>Service.get\<close>: whether the daemon holds the session live, and whether it is delegated.
  The mutation lane of the session is locked while the fence is proved, so that no agent mutation
  is under way.
\<close>

definition on_provider :: "('p \<Rightarrow> 'a result \<times> 'p) \<Rightarrow> Repository \<times> 'p \<Rightarrow> 'a result \<times> Repository \<times> 'p" where
  "on_provider f w = (case f (snd w) of (x, p') \<Rightarrow> (x, (fst w, p')))"

definition fence_blocked :: "string \<Rightarrow> string \<Rightarrow> goerr" where
  "fence_blocked sid reason = failure_New HandoffReclaimBlocked [(''session_id'', sid), (''reason'', reason)] None"

definition daemonAgentIngressFencer ::
  "('p \<Rightarrow> goerr option) \<Rightarrow> ('p \<Rightarrow> string \<Rightarrow> bool option) \<Rightarrow> 'p Runtime option \<Rightarrow> string \<Rightarrow> AuthorityEpoch
     \<Rightarrow> Repository \<times> 'p \<Rightarrow> AgentIngressProof result \<times> Repository \<times> 'p" where
  "daemonAgentIngressFencer ctx live runtime sid epoch w =
     (case runtime of
        None \<Rightarrow> (Inl (failure_New FeatureUnavailable [(''feature'', ''interactive_handoff'')] None), w)
      | Some rt \<Rightarrow>
          (case live (snd w) sid of
             None \<Rightarrow> (Inl (fence_blocked sid ''agent_ingress_live_session_missing''), w)
           | Some False \<Rightarrow> (Inl (fence_blocked sid ''agent_ingress_not_delegated''), w)
           | Some True \<Rightarrow>
               (case LoadDelegatedBinding (ctx (snd w)) sid (fst w) of
                  Inl e \<Rightarrow> (Inl (normalize_err e), w)
                | Inr binding \<Rightarrow>
                    if bd_Lifecycle binding \<noteq> LifecycleLive \<or> bd_AuthorityEpoch binding \<noteq> epoch \<or> bd_DesiredOwner binding \<noteq> OwnerHuman
                    then (Inl (failure_New HandoffReclaimBlocked [(''session_id'', sid), (''reason'', ''agent_ingress_binding_unproven''),
                           (''epoch'', sprint_uint (bd_AuthorityEpoch binding))] None), w)
                    else (case LoadDelegatedProviderRef (ctx (snd w)) sid (fst w) of
                        Inl e \<Rightarrow> (Inl (normalize_err e), w)
                      | Inr ref \<Rightarrow>
                          (case on_provider (rt_Inspect rt ref) w of
                             (Inl e, w1) \<Rightarrow> (Inl (normalize_err e), w1)
                           | (Inr obs, w1) \<Rightarrow>
                               if ob_Provider obs \<noteq> bd_ProviderIdentity binding
                               then (Inl (failure_New DelegatedProviderMismatch [(''session_id'', sid),
                                      (''provider_id'', pi_ID (ob_Provider obs)), (''expected_provider_id'', bd_ProviderID binding)] None), w1)
                               else if \<not> ob_ProviderCurrent obs \<or> ob_ProviderGeneration obs = [] \<or> ob_Owner obs \<noteq> OwnerAgent
                               then (Inl (fence_blocked sid ''agent_ingress_provider_unproven''), w1)
                               else (Inr \<lparr>ip_AuthorityEpoch = epoch, ip_ProviderGeneration = ob_ProviderGeneration obs,
                                         ip_Fenced = True\<rparr>, w1))))))"

section \<open>The composition\<close>

definition lift_privacy :: "'p PrivacyRuntime \<Rightarrow> (Repository \<times> 'p) PrivacyRuntime" where
  "lift_privacy P = \<lparr>pv_ArmPrivateObservation = (\<lambda>ref spec. on_provider (pv_ArmPrivateObservation P ref spec)),
     pv_ProvePrivateObservation = (\<lambda>ref handle. on_provider (pv_ProvePrivateObservation P ref handle)),
     pv_ReleasePrivateObservation = (\<lambda>ref handle proof. on_provider (pv_ReleasePrivateObservation P ref handle proof))\<rparr>"

definition lift_runtime :: "'p Runtime \<Rightarrow> (Repository \<times> 'p) Runtime" where
  "lift_runtime rt = \<lparr>rt_Inspect = (\<lambda>ref. on_provider (rt_Inspect rt ref)),
     rt_AttachHuman = (\<lambda>ref spec. on_provider (rt_AttachHuman rt ref spec)),
     rt_SetHumanWritable = (\<lambda>ref client writable. on_provider (rt_SetHumanWritable rt ref client writable)),
     rt_FenceHumanIngress = (\<lambda>ref client epoch. on_provider (rt_FenceHumanIngress rt ref client epoch)),
     rt_InspectHumanClient = (\<lambda>ref client. on_provider (rt_InspectHumanClient rt ref client)),
     rt_ArmWritableHumanControl = (\<lambda>ref client spec. on_provider (rt_ArmWritableHumanControl rt ref client spec)),
     rt_PrepareReadOnlyLocalControl = (\<lambda>ref client. on_provider (rt_PrepareReadOnlyLocalControl rt ref client)),
     rt_Signal = (\<lambda>ref signal. on_provider (rt_Signal rt ref signal)),
     rt_privacy = map_option lift_privacy (rt_privacy rt)\<rparr>"

definition configureHandoffCoordinator ::
  "(string \<Rightarrow> string) \<Rightarrow> ('p \<Rightarrow> goerr option) \<Rightarrow> ('p \<Rightarrow> string \<Rightarrow> bool option) \<Rightarrow> 'p Runtime
     \<Rightarrow> (string \<Rightarrow> 'h option \<Rightarrow> 'p \<Rightarrow> unit result \<times> 'p) option \<Rightarrow> (ReadinessRequest \<Rightarrow> 'p \<Rightarrow> PreparedReadiness result \<times> 'p) option
     \<Rightarrow> bool \<Rightarrow> bool \<Rightarrow> (Repository \<times> 'p, 'h) Service" where
  "configureHandoffCoordinator sha ctx live runtime presenter readiness privacyAdvertised readinessAdvertised =
     \<lparr>sv_store = handoffStoreAdapter sha ctx, sv_runtime = lift_runtime runtime,
      sv_fencer = daemonAgentIngressFencer ctx live (Some runtime),
      sv_presenter = map_option (\<lambda>present i hint. on_provider (present i hint)) presenter,
      sv_readiness = (if readinessAdvertised then map_option (\<lambda>prepare req. on_provider (prepare req)) readiness else None),
      sv_h4Enabled = (privacyAdvertised \<and> rt_privacy runtime \<noteq> None \<or> readinessAdvertised \<and> readiness \<noteq> None),
      sv_ctxErr = (\<lambda>w. ctx (snd w))\<rparr>"

section \<open>The daemon meets the coordinator's contract\<close>

definition recorded :: "Repository \<Rightarrow> string \<Rightarrow> bool" where
  "recorded r sid \<longleftrightarrow> (\<exists>v. map_of (rp_provenance r) sid = Some (Good v) \<and> dp_SessionID v = sid \<and> dp_Value v = InputAuthorityHumanWriteGranted)"

abbreviation daemon_holds :: "Repository \<times> 'p \<Rightarrow> HandoffState \<Rightarrow> bool" where
  "daemon_holds w st \<equiv> st \<in> states (fst w)"

abbreviation daemon_granted :: "Repository \<times> 'p \<Rightarrow> string \<Rightarrow> bool" where
  "daemon_granted w sid \<equiv> recorded (fst w) sid"

lemma stored_result_Inr: "stored_result res x = Inr y \<longleftrightarrow> sr_Err res = None \<and> y = x"
  by (auto simp: stored_result_def handoffStoreError_def split: option.splits)

lemma Mark_recorded:
  assumes "MarkHumanWriteAuthorityGranted ctx sid r = (res, r')"
  shows "states r' = states r" "recorded r sid' \<Longrightarrow> recorded r' sid'" "sr_Err res = None \<Longrightarrow> recorded r' sid"
proof -
  show "states r' = states r"
    using assms MarkHumanWriteAuthorityGranted_same [of ctx sid r res r'] by (simp add: states_def same_authority_def)
  obtain t r1 where n: "now r = (t, r1)" by fastforce
  have r1: "rp_provenance r1 = rp_provenance r" using n by (auto simp: now_def split: list.splits)
  let ?v = "\<lparr>dp_SchemaVersion = 1, dp_SessionID = sid, dp_Value = InputAuthorityHumanWriteGranted, dp_UpdatedAt = t\<rparr>"
  consider (same) "r' = r" | (new) "map_of (rp_provenance r) sid = None" "create_provenance r1 sid ?v = (res, r')"
    using assms n
    by (auto simp: MarkHumanWriteAuthorityGranted_def split: option.splits sum.splits if_splits dest: readPrivateJSON_not_found)
  then show "recorded r sid' \<Longrightarrow> recorded r' sid'"
    by cases (auto simp: recorded_def create_provenance_def atomic_Create_def put_file_def update_conv' r1
        split: prod.splits file_write.splits if_splits)
  show "recorded r' sid" if e: "sr_Err res = None"
  proof (cases "readPrivateJSON (rp_provenance r) sid")
    case (Inr v)
    with assms e show ?thesis
      by (auto simp: MarkHumanWriteAuthorityGranted_def recorded_def readPrivateJSON_def provenance_validate_def
          split: option.splits sum.splits if_splits content.splits)
  next
    case (Inl x)
    with assms n e have "create_provenance r1 sid ?v = (res, r')"
      by (auto simp: MarkHumanWriteAuthorityGranted_def split: option.splits sum.splits if_splits)
    with e show ?thesis
      by (auto simp: recorded_def create_provenance_def atomic_Create_def put_file_def update_conv'
          split: prod.splits file_write.splits if_splits)
  qed
qed

lemma within_recorded: "within A r r' \<Longrightarrow> recorded r' sid = recorded r sid"
  by (simp add: within_def recorded_def)

lemma write_provenance:
  "now r = (t, r') \<Longrightarrow> rp_provenance r' = rp_provenance r"
  "create_control r hid cid v = (res, r') \<Longrightarrow> rp_provenance r' = rp_provenance r"
  "replace_control r hid cid v = (res, r') \<Longrightarrow> rp_provenance r' = rp_provenance r"
  by (auto simp: now_def create_control_def replace_control_def split: list.splits prod.splits)

lemma control_within:
  "ReserveControlSignal ctx signal r = (x, r') \<Longrightarrow> within A r r'"
  "CompleteControlSignal ctx signal out r = (y, r') \<Longrightarrow> within A r r'"
proof -
  show "within A r r'" if "ReserveControlSignal ctx signal r = (x, r')"
    by (rule same_authority_within [OF ReserveControlSignal_same [OF that]])
      (use that in \<open>auto simp: ReserveControlSignal_def Let_def split: option.splits sum.splits if_splits prod.splits
        dest!: write_provenance\<close>)
  show "within A r r'" if "CompleteControlSignal ctx signal out r = (y, r')"
    by (rule same_authority_within [OF CompleteControlSignal_same [OF that]])
      (use that in \<open>auto simp: CompleteControlSignal_def Let_def split: option.splits sum.splits if_splits prod.splits
        dest!: write_provenance\<close>)
qed

lemma write_capture_within: "write_capture r sid v = (res, r') \<Longrightarrow> within A r r'"
  by (rule same_within) (auto simp: write_capture_def create_capture_def replace_capture_def split: sum.splits if_splits prod.splits)

lemma MarkDelegatedCaptureReason_within:
  assumes "MarkDelegatedCaptureReason ctx sid reason r = (x, r')"
  shows "within A r r'"
proof -
  obtain t r1 where n: "now r = (t, r1)" by fastforce
  have "r' = r \<or> r' = r1 \<or> (\<exists>v res. write_capture r1 sid v = (res, r'))"
    using assms n by (auto simp: MarkDelegatedCaptureReason_def split: option.splits sum.splits if_splits prod.splits)
  then show ?thesis
    using within_refl now_within [OF n] within_trans [OF now_within [OF n] write_capture_within] by blast
qed

lemma on_provider_adds: "adds daemon_holds daemon_granted A (on_provider f)"
  by (auto simp: adds_def on_provider_def split: prod.splits)

lemma daemon_adds:
  assumes "\<And>r p x w'. f (r, p) = (x, w') \<Longrightarrow> within A r (fst w')"
  shows "adds daemon_holds daemon_granted A f"
  unfolding adds_def
proof (intro allI impI)
  fix w x w' assume f: "f w = (x, w')"
  from assms [of "fst w" "snd w"] f have w: "within A (fst w) (fst w')" by simp
  then show "(\<forall>st. daemon_holds w' st \<longrightarrow> daemon_holds w st \<or> st \<in> A) \<and> (\<forall>sid. daemon_granted w sid \<longrightarrow> daemon_granted w' sid)"
    using within_recorded [OF w] by (auto simp: within_def)
qed

lemma store_adapter_adds:
  "adds daemon_holds daemon_granted {} (st_FindHandoff (handoffStoreAdapter sha ctx) i)"
  "adds daemon_holds daemon_granted {} (st_LoadHandoff (handoffStoreAdapter sha ctx) i)"
  "adds daemon_holds daemon_granted {} (st_RecoverHandoff (handoffStoreAdapter sha ctx) i)"
  "adds daemon_holds daemon_granted {st} (st_ReserveHandoff (handoffStoreAdapter sha ctx) req st)"
  "adds daemon_holds daemon_granted {st} (st_AdvanceHandoff (handoffStoreAdapter sha ctx) st)"
  "adds daemon_holds daemon_granted {} (st_LoadDelegatedBinding (handoffStoreAdapter sha ctx) sid)"
  "adds daemon_holds daemon_granted {} (st_LoadDelegatedProviderRef (handoffStoreAdapter sha ctx) sid)"
  "adds daemon_holds daemon_granted {} (st_ReserveControlSignal (handoffStoreAdapter sha ctx) signal)"
  "adds daemon_holds daemon_granted {} (st_CompleteControlSignal (handoffStoreAdapter sha ctx) signal out)"
  "adds daemon_holds daemon_granted {} (st_LoadInputAuthorityProvenance (handoffStoreAdapter sha ctx) sid)"
  "st_MarkPrivateCapture (handoffStoreAdapter sha ctx) = Some mark \<Longrightarrow> adds daemon_holds daemon_granted {} (mark sid)"
  by (rule daemon_adds; auto simp: handoffStoreAdapter_def within_refl split: prod.splits
      dest: RecoverHandoff_within(1) ReserveHandoff_within(1) AdvanceHandoff_within control_within MarkDelegatedCaptureReason_within)+

lemma mark_adapter:
  "adds daemon_holds daemon_granted {} (st_MarkHumanWriteAuthorityGranted (handoffStoreAdapter sha ctx) sid)"
  by (auto simp: adds_def handoffStoreAdapter_def split: prod.splits dest: Mark_recorded(1,2))

lemma fencer_adapter: "adds daemon_holds daemon_granted {} (daemonAgentIngressFencer ctx live rt sid epoch)"
proof (rule daemon_adds)
  fix r p x w' assume "daemonAgentIngressFencer ctx live rt sid epoch (r, p) = (x, w')"
  then have "fst w' = r"
    by (auto simp: daemonAgentIngressFencer_def on_provider_def split: option.splits sum.splits if_splits prod.splits bool.splits)
  then show "within {} r (fst w')" by (simp add: within_refl)
qed

text \<open>Whatever the provider, the presenter and the readiness watcher answer, the daemon's coordinator meets its contract.\<close>

interpretation daemon: coordinator
  "configureHandoffCoordinator sha ctx live runtime presenter readiness privacyAdvertised readinessAdvertised"
  daemon_holds daemon_granted
proof (unfold_locales, goal_cases)
  case (2 i w req st w')
  then show ?case
    by (auto simp: configureHandoffCoordinator_def handoffStoreAdapter_def FindHandoff_def guard_result_def
        split: option.splits if_splits sum.splits prod.splits dest: loaded_states(1))
next
  case (4 i w req st w')
  then show ?case
    by (auto simp: configureHandoffCoordinator_def handoffStoreAdapter_def LoadHandoff_def guard_result_def bind_result_def
        split: option.splits if_splits sum.splits prod.splits dest: loaded_states(1))
next
  case (6 i w st w')
  then show ?case
    by (auto simp: configureHandoffCoordinator_def handoffStoreAdapter_def stored_result_Inr state_or_zero_def
        split: prod.splits dest: RecoverHandoff_within(2))
next
  case (8 st req w st' created w')
  then show ?case
    by (auto simp: configureHandoffCoordinator_def handoffStoreAdapter_def stored_result_Inr state_or_zero_def
        split: prod.splits dest: ReserveHandoff_within(2))
next
  case (15 sid w u w')
  then show ?case
    by (auto simp: configureHandoffCoordinator_def handoffStoreAdapter_def stored_result_Inr split: prod.splits dest: Mark_recorded(3))
qed (auto simp: configureHandoffCoordinator_def lift_runtime_def lift_privacy_def
    intro: store_adapter_adds mark_adapter fencer_adapter on_provider_adds split: if_splits)

end
