(* ===== verification/DelegatedControl.thy ===== *)
theory DelegatedControl
  imports Acts Session DelegatedStore
begin

text \<open>
  Writing to and signalling a delegated session for the agent
  (internal/app/daemon/delegated_control.go).  A request is admitted against the mutation ledger of
  the store, reserved there, delivered to the provider, and its outcome recorded.  One lane per
  session is locked from admission to outcome, so each request is a step on the store, the
  provider's state \<open>'p\<close> and the daemon's memory of the session; \<open>sha\<close> is the hexadecimal SHA-256
  digest, and \<open>ctx\<close> the state of the request's context, which may end at any call.
\<close>

section \<open>State\<close>

record SignalEvidence =
  se_Requested :: string
  se_Attempted :: bool
  se_Succeeded :: bool

text \<open>The fields of \<open>liveSession\<close> (service.go) that the lane of a delegated session uses.\<close>

record liveSession =
  lv_state :: State
  lv_accepted :: int
  lv_delivered :: int
  lv_terminalTarget :: State
  lv_signal :: SignalEvidence
  lv_delegatedRef :: ProviderRef
  lv_outputBytes :: int
  lv_delegatedObserverBase :: int
  lv_delegatedCaptureGap :: bool

record WriteRequest =
  wr_SessionID :: string
  wr_AuthorityEpoch :: AuthorityEpoch
  wr_InputOffset :: int
  wr_Chars :: string
  wr_EOF :: bool

record KillRequest =
  kq_SessionID :: string
  kq_AuthorityEpoch :: AuthorityEpoch
  kq_KillID :: string
  kq_Signal :: string

text \<open>The fields of \<open>View\<close> (types.go) that the two requests set; the others are zero.\<close>

record View =
  vw_SessionID :: string
  vw_State :: State
  vw_AuthorityEpoch :: AuthorityEpoch
  vw_AcceptedInputBytes :: int
  vw_NextInputOffset :: int
  vw_KillID :: string
  vw_Signal :: string
  vw_SignalAttempt :: SignalEvidence

text \<open>The calls to the provider of delegated sessions.\<close>

record 'p AgentRuntime =
  ar_Inspect :: "ProviderRef \<Rightarrow> 'p \<Rightarrow> Observation result \<times> 'p"
  ar_Write :: "ProviderRef \<Rightarrow> string \<Rightarrow> 'p \<Rightarrow> unit result \<times> 'p"
  ar_Signal :: "ProviderRef \<Rightarrow> string \<Rightarrow> 'p \<Rightarrow> unit result \<times> 'p"

record 'p lane =
  ln_store :: Repository
  ln_provider :: 'p
  ln_live :: liveSession

definition zero_signal :: SignalEvidence where
  "zero_signal = \<lparr>se_Requested = [], se_Attempted = False, se_Succeeded = False\<rparr>"

definition record_or_zero :: "MutationRecord option \<Rightarrow> MutationRecord" where
  "record_or_zero m = (case m of Some x \<Rightarrow> x | None \<Rightarrow> identity_record
     \<lparr>mi_SessionID = [], mi_Epoch = 0, mi_Kind = OtherMutationKind [], mi_IdempotencyID = [], mi_Offset = 0, mi_NextOffset = 0, mi_Fingerprint = []\<rparr>)"

section \<open>Calls\<close>

definition store_read :: "('p lane \<Rightarrow> 'a result) \<Rightarrow> ('p lane, 'a) act" where
  "store_read f s = (case f s of Inl e \<Rightarrow> (Err e, s) | Inr x \<Rightarrow> (Ok x, s))"

definition provider_call :: "('p \<Rightarrow> 'a result \<times> 'p) \<Rightarrow> ('p lane, 'a) act" where
  "provider_call f s = (case f (ln_provider s) of
     (Inl e, p) \<Rightarrow> (Err e, s\<lparr>ln_provider := p\<rparr>) | (Inr x, p) \<Rightarrow> (Ok x, s\<lparr>ln_provider := p\<rparr>))"

definition inspect_live :: "'p AgentRuntime \<Rightarrow> ('p lane, Observation) act" where
  "inspect_live R s = provider_call (ar_Inspect R (lv_delegatedRef (ln_live s))) s"

definition load_binding :: "('p \<Rightarrow> goerr option) \<Rightarrow> string \<Rightarrow> ('p lane, Binding) act" where
  "load_binding ctx sid = normalized (store_read (\<lambda>s. LoadDelegatedBinding (ctx (ln_provider s)) sid (ln_store s)))"

definition complete_mutation :: "(string \<Rightarrow> string) \<Rightarrow> MutationIdentity \<Rightarrow> MutationState \<Rightarrow> string \<Rightarrow> ('p lane, unit) act" where
  "complete_mutation sha i st outcome s =
     (case CompleteDelegatedMutation sha None i st outcome (ln_store s) of ((_, res), r) \<Rightarrow>
        (case sr_Err res of Some e \<Rightarrow> Err (normalize_err e) | None \<Rightarrow> Ok (), s\<lparr>ln_store := r\<rparr>))"

definition reserve_mutation ::
  "(string \<Rightarrow> string) \<Rightarrow> ('p \<Rightarrow> goerr option) \<Rightarrow> MutationIdentity \<Rightarrow> ('p lane, MutationRecord \<times> bool) act" where
  "reserve_mutation sha ctx i s =
     (case ReserveDelegatedMutation sha (ctx (ln_provider s)) i (ln_store s) of ((rec, created, res), r) \<Rightarrow>
        (case sr_Err res of Some e \<Rightarrow> Err (normalize_err e) | None \<Rightarrow> Ok (record_or_zero rec, \<not> created), s\<lparr>ln_store := r\<rparr>))"

section \<open>Admission\<close>

definition delegatedFingerprint :: "(string \<Rightarrow> string) \<Rightarrow> string list \<Rightarrow> string" where
  "delegatedFingerprint sha parts = sha (concat (map (\<lambda>part. nul @ part) parts))"

definition mutation_not_owned :: "string \<Rightarrow> Binding \<Rightarrow> goerr" where
  "mutation_not_owned sid b = failure_New SessionControlNotOwned
     [(''session_id'', sid), (''owner'', owner_string (if bd_Lifecycle b \<noteq> LifecycleLive then OwnerNone else bd_DesiredOwner b)),
      (''required_owner'', owner_string OwnerAgent), (''current_epoch'', sprint_uint (bd_AuthorityEpoch b))] None"

definition mutation_provider_mismatch :: "string \<Rightarrow> Observation \<Rightarrow> Binding \<Rightarrow> goerr" where
  "mutation_provider_mismatch sid obs b = failure_New DelegatedProviderMismatch
     [(''session_id'', sid), (''provider_id'', pi_ID (ob_Provider obs)), (''provider_version'', sprint_int (pi_Version (ob_Provider obs))),
      (''expected_provider_id'', bd_ProviderID b), (''expected_provider_version'', sprint_int (bd_ProviderVersion b))] None"

definition observed_authority :: "Binding \<Rightarrow> Observation \<Rightarrow> EffectiveAuthority" where
  "observed_authority b obs = ReconcileAuthority \<lparr>ri_Epoch = bd_AuthorityEpoch b, ri_DesiredOwner = bd_DesiredOwner b,
     ri_ObservedOwner = ob_Owner obs, ri_ProviderIdentity = ob_Provider obs, ri_ProviderCurrent = ob_ProviderCurrent obs\<rparr>"

text \<open>\<open>admitDelegatedMutation\<close> for a mutation without a record.\<close>

definition admit_unseen ::
  "(string \<Rightarrow> string) \<Rightarrow> ('p \<Rightarrow> goerr option) \<Rightarrow> 'p AgentRuntime \<Rightarrow> MutationIdentity \<Rightarrow> (liveSession \<Rightarrow> goerr option)
     \<Rightarrow> ('p lane, MutationRecord \<times> bool) act" where
  "admit_unseen sha ctx R i preReserve =
     seq_act (store_read (\<lambda>s. guard_result (preReserve (ln_live s)) (Inr ()))) (\<lambda>_.
     seq_act (load_binding ctx (mi_SessionID i)) (\<lambda>binding.
     fail_if (bd_Lifecycle binding \<noteq> LifecycleLive \<or> bd_DesiredOwner binding \<noteq> OwnerAgent) (mutation_not_owned (mi_SessionID i) binding)
     (seq_act (inspect_live R) (\<lambda>obs.
      fail_if (ob_Provider obs \<noteq> bd_ProviderIdentity binding) (mutation_provider_mismatch (mi_SessionID i) obs binding)
      (seq_act (store_read (\<lambda>_. DecideMutation None i
         \<lparr>mc_CurrentEpoch = bd_AuthorityEpoch binding, mc_CurrentOwner = ea_Owner (observed_authority binding obs)\<rparr>)) (\<lambda>decision.
       reserve_mutation sha ctx (mr_Identity (ad_Record decision))))))))"

definition admitDelegatedMutation ::
  "(string \<Rightarrow> string) \<Rightarrow> ('p \<Rightarrow> goerr option) \<Rightarrow> 'p AgentRuntime \<Rightarrow> MutationIdentity \<Rightarrow> (liveSession \<Rightarrow> goerr option)
     \<Rightarrow> ('p lane, MutationRecord \<times> bool) act" where
  "admitDelegatedMutation sha ctx R i preReserve =
     seq_act (normalized (store_read (\<lambda>s. LookupDelegatedMutation sha (ctx (ln_provider s)) i (ln_store s)))) (\<lambda>found.
     case found of
       Some known \<Rightarrow>
         store_read (\<lambda>_. case DecideMutation (Some known) i \<lparr>mc_CurrentEpoch = 0, mc_CurrentOwner = OtherOwner []\<rparr> of
           Inl e \<Rightarrow> Inl e | Inr decision \<Rightarrow> Inr (ad_Record decision, True))
     | None \<Rightarrow> admit_unseen sha ctx R i preReserve)"

definition reconcileUnknownDelegatedMutation :: "'p AgentRuntime \<Rightarrow> MutationRecord \<Rightarrow> ('p lane, unit) act" where
  "reconcileUnknownDelegatedMutation R rec =
     seq_act (inspect_live R) (\<lambda>obs.
     seq_act (load_binding (\<lambda>_. None) (mi_SessionID (mr_Identity rec))) (\<lambda>binding.
     fail_if (ob_Provider obs \<noteq> bd_ProviderIdentity binding \<or> \<not> ob_ProviderCurrent obs)
       (failure_New DelegatedReconcileBlocked [(''session_id'', mi_SessionID (mr_Identity rec)), (''reason'', ''mutation_provider_unproven''),
          (''current_epoch'', sprint_uint (bd_AuthorityEpoch binding))] None)
     (ret ())))"

text \<open>The answer to a repetition of a mutation whose outcome is not a recorded success.\<close>

definition outcome_unknown :: "string \<Rightarrow> MutationRecord \<Rightarrow> goerr" where
  "outcome_unknown sid rec = failure_New DelegatedReconcileBlocked
     [(''session_id'', sid), (''reason'', ''mutation_outcome_unknown''), (''current_epoch'', sprint_uint (mi_Epoch (mr_Identity rec)))] None"

definition known_success :: "MutationRecord \<Rightarrow> bool" where
  "known_success rec \<longleftrightarrow> mr_State rec = MutationCompleted \<and> mr_Outcome rec = ''succeeded''"

section \<open>Writes\<close>

definition write_identity :: "(string \<Rightarrow> string) \<Rightarrow> WriteRequest \<Rightarrow> MutationIdentity" where
  "write_identity sha req = \<lparr>mi_SessionID = wr_SessionID req, mi_Epoch = wr_AuthorityEpoch req, mi_Kind = MutationWrite, mi_IdempotencyID = [],
     mi_Offset = wr_InputOffset req, mi_NextOffset = int64 (wr_InputOffset req + int (length (wr_Chars req))),
     mi_Fingerprint = delegatedFingerprint sha [''write'', wr_Chars req]\<rparr>"

definition write_view :: "WriteRequest \<Rightarrow> AuthorityEpoch \<Rightarrow> State \<Rightarrow> View" where
  "write_view req epoch st = \<lparr>vw_SessionID = wr_SessionID req, vw_State = st, vw_AuthorityEpoch = epoch,
     vw_AcceptedInputBytes = int (length (wr_Chars req)), vw_NextInputOffset = int64 (wr_InputOffset req + int (length (wr_Chars req))),
     vw_KillID = [], vw_Signal = [], vw_SignalAttempt = zero_signal\<rparr>"

definition replayDelegatedWrite :: "'p AgentRuntime \<Rightarrow> WriteRequest \<Rightarrow> MutationRecord \<Rightarrow> ('p lane, View) act" where
  "replayDelegatedWrite R req rec =
     (if \<not> known_success rec
      then seq_act (reconcileUnknownDelegatedMutation R rec) (\<lambda>_. raise (outcome_unknown (wr_SessionID req) rec))
      else (\<lambda>s. ret (write_view req (mi_Epoch (mr_Identity rec)) (lv_state (ln_live s))) s))"

definition writable :: "WriteRequest \<Rightarrow> liveSession \<Rightarrow> goerr option" where
  "writable req live = first_error [
     reject (lv_state live \<noteq> Running)
       (failure_New InvalidInput [(''reason'', ''session_not_writable'')] (Some (Errorf ''session_not_writable''))),
     reject (wr_InputOffset req \<noteq> lv_accepted live)
       (failure_New OperationConflict [] (Some (Errorf (''input offset '' @ sprint_int (wr_InputOffset req) @
          '' does not match next offset '' @ sprint_int (lv_accepted live)))))]"

definition written :: "WriteRequest \<Rightarrow> liveSession \<Rightarrow> liveSession" where
  "written req live = (let n = int64 (wr_InputOffset req + int (length (wr_Chars req))) in live\<lparr>lv_accepted := n, lv_delivered := n\<rparr>)"

definition deliver_write :: "(string \<Rightarrow> string) \<Rightarrow> 'p AgentRuntime \<Rightarrow> WriteRequest \<Rightarrow> ('p lane, View) act" where
  "deliver_write sha R req =
     try_act (\<lambda>s. provider_call (ar_Write R (lv_delegatedRef (ln_live s)) (wr_Chars req)) s) (\<lambda>r. case r of
         Inl e \<Rightarrow> try_act (complete_mutation sha (write_identity sha req) MutationOutcomeUnknown ''provider_ambiguous'')
           (\<lambda>_. raise (normalize_err e))
       | Inr _ \<Rightarrow> seq_act (complete_mutation sha (write_identity sha req) MutationCompleted ''succeeded'') (\<lambda>_ s.
           ret (write_view req (wr_AuthorityEpoch req) (lv_state (ln_live s))) (s\<lparr>ln_live := written req (ln_live s)\<rparr>)))"

definition writeDelegated ::
  "(string \<Rightarrow> string) \<Rightarrow> ('p \<Rightarrow> goerr option) \<Rightarrow> 'p AgentRuntime \<Rightarrow> WriteRequest \<Rightarrow> ('p lane, View) act" where
  "writeDelegated sha ctx R req =
     (if wr_EOF req
      then raise (failure_New InvalidInput [(''field'', ''eof'')] (Some (Errorf ''delegated interactive EOF is not a byte write'')))
      else if wr_Chars req = []
      then raise (failure_New InvalidInput [(''field'', ''chars'')] (Some (Errorf ''delegated write requires chars'')))
      else seq_act (admitDelegatedMutation sha ctx R (write_identity sha req) (writable req)) (\<lambda>(rec, replay).
        if replay then replayDelegatedWrite R req rec else deliver_write sha R req))"

section \<open>Signals\<close>

definition kill_identity :: "(string \<Rightarrow> string) \<Rightarrow> KillRequest \<Rightarrow> MutationIdentity" where
  "kill_identity sha req = \<lparr>mi_SessionID = kq_SessionID req, mi_Epoch = kq_AuthorityEpoch req, mi_Kind = MutationKill,
     mi_IdempotencyID = kq_KillID req, mi_Offset = -1, mi_NextOffset = -1, mi_Fingerprint = delegatedFingerprint sha [''kill'', kq_Signal req]\<rparr>"

definition sent_signal :: "KillRequest \<Rightarrow> SignalEvidence" where
  "sent_signal req = \<lparr>se_Requested = kq_Signal req, se_Attempted = True, se_Succeeded = True\<rparr>"

definition kill_view :: "KillRequest \<Rightarrow> AuthorityEpoch \<Rightarrow> State \<Rightarrow> View" where
  "kill_view req epoch st = \<lparr>vw_SessionID = kq_SessionID req, vw_State = st, vw_AuthorityEpoch = epoch, vw_AcceptedInputBytes = 0,
     vw_NextInputOffset = 0, vw_KillID = kq_KillID req, vw_Signal = kq_Signal req, vw_SignalAttempt = sent_signal req\<rparr>"

definition replayDelegatedKill :: "'p AgentRuntime \<Rightarrow> KillRequest \<Rightarrow> MutationRecord \<Rightarrow> ('p lane, View) act" where
  "replayDelegatedKill R req rec =
     (if \<not> known_success rec
      then seq_act (reconcileUnknownDelegatedMutation R rec) (\<lambda>_. raise (outcome_unknown (kq_SessionID req) rec))
      else (\<lambda>s. ret (kill_view req (mi_Epoch (mr_Identity rec)) (lv_state (ln_live s))) s))"

definition killable :: "liveSession \<Rightarrow> goerr option" where
  "killable live = reject (lv_state live \<noteq> Running)
     (failure_New InvalidInput [(''reason'', ''session_not_live'')] (Some (Errorf ''session_not_live'')))"

definition deliver_kill :: "(string \<Rightarrow> string) \<Rightarrow> 'p AgentRuntime \<Rightarrow> KillRequest \<Rightarrow> ('p lane, View) act" where
  "deliver_kill sha R req =
     try_act (\<lambda>s. provider_call (ar_Signal R (lv_delegatedRef (ln_live s)) (kq_Signal req)) s) (\<lambda>r. case r of
         Inl e \<Rightarrow> try_act (complete_mutation sha (kill_identity sha req) MutationOutcomeUnknown ''provider_ambiguous'')
           (\<lambda>_. raise (normalize_err e))
       | Inr _ \<Rightarrow> seq_act (complete_mutation sha (kill_identity sha req) MutationCompleted ''succeeded'') (\<lambda>_ s.
           ret (kill_view req (kq_AuthorityEpoch req) (lv_state (ln_live s)))
             (s\<lparr>ln_live := (ln_live s)\<lparr>lv_terminalTarget := Killed, lv_signal := sent_signal req\<rparr>\<rparr>)))"

definition killDelegated ::
  "(string \<Rightarrow> string) \<Rightarrow> ('p \<Rightarrow> goerr option) \<Rightarrow> 'p AgentRuntime \<Rightarrow> KillRequest \<Rightarrow> ('p lane, View) act" where
  "killDelegated sha ctx R req =
     (if kq_KillID req = []
      then raise (failure_New InvalidInput [(''field'', ''kill_id'')] (Some (Errorf ''delegated kill id required'')))
      else if kq_Signal req \<notin> {''INT'', ''TERM'', ''KILL''}
      then raise (failure_New InvalidInput [(''field'', ''signal'')] (Some (Errorf ''unsupported delegated signal'')))
      else seq_act (admitDelegatedMutation sha ctx R (kill_identity sha req) killable) (\<lambda>(rec, replay).
        if replay then replayDelegatedKill R req rec else deliver_kill sha R req))"

end
