(* ===== verification/DelegatedTerminal.thy ===== *)
theory DelegatedTerminal
  imports DelegatedControl DelegatedCapture AuthorityProps
begin

text \<open>
  The end of a delegated session (internal/app/daemon/delegated_capture_truth.go, the terminal part of
  delegated_start.go, delegated_provenance.go): what is read off the session and the provider, the
  decision about state, outcome and captured output, the provenance of the input, and the last
  change of the binding, which is retried until the store accepts it.
\<close>

section \<open>Snapshot and decision\<close>

record delegatedTerminalSnapshot =
  ts_accepted :: int
  ts_delivered :: int
  ts_signal :: SignalEvidence
  ts_target :: State
  ts_outputBytes :: int
  ts_observerBase :: int
  ts_captureGap :: bool
  ts_captureTruth :: CaptureTruth
  ts_binding :: Binding

text \<open>Of the exit evidence the decision sets only the code.\<close>

record delegatedTerminalDecision =
  td_state :: State
  td_outcome :: Outcome
  td_failureReason :: string
  td_captureQuality :: CaptureQuality
  td_captureReasons :: "CaptureReason list"
  td_outputComplete :: bool
  td_exitCode :: "int option"
  td_bindingLifecycle :: Lifecycle

definition delegatedCaptureTruth :: "Repository \<Rightarrow> string \<Rightarrow> bool \<Rightarrow> CaptureTruth \<times> bool" where
  "delegatedCaptureTruth r sid captureGap =
     (case LoadDelegatedCaptureTruth None sid r of Inl _ \<Rightarrow> (CompleteCaptureTruth, True) | Inr truth \<Rightarrow> (truth, captureGap))"

text \<open>The session is fenced against new input before anything is read; the binding is filled in later.\<close>

definition snapshotDelegatedFinalizing :: "string \<Rightarrow> Binding \<Rightarrow> 'p lane \<Rightarrow> delegatedTerminalSnapshot \<times> 'p lane" where
  "snapshotDelegatedFinalizing sid binding s =
     (let live = ln_live s; (truth, gap) = delegatedCaptureTruth (ln_store s) sid (lv_delegatedCaptureGap live) in
      (\<lparr>ts_accepted = lv_accepted live, ts_delivered = lv_delivered live, ts_signal = lv_signal live, ts_target = lv_terminalTarget live,
        ts_outputBytes = lv_outputBytes live, ts_observerBase = lv_delegatedObserverBase live, ts_captureGap = gap,
        ts_captureTruth = truth, ts_binding = binding\<rparr>, s\<lparr>ln_live := live\<lparr>lv_state := Finalizing\<rparr>\<rparr>))"

text \<open>\<open>addReason\<close>: a merge that fails counts as a gap.\<close>

definition addReason :: "CaptureReason \<Rightarrow> CaptureTruth \<Rightarrow> CaptureTruth" where
  "addReason reason truth = (case WithReason truth reason of
     Inl _ \<Rightarrow> \<lparr>ct_Quality = CaptureIncomplete, ct_Reasons = [CaptureReasonTransportGap], ct_OutputComplete = False\<rparr>
   | Inr t \<Rightarrow> t)"

definition initial_truth :: "delegatedTerminalSnapshot \<Rightarrow> CaptureTruth" where
  "initial_truth snapshot =
     (let truth = (if ct_Quality (ts_captureTruth snapshot) = OtherQuality [] then CompleteCaptureTruth else ts_captureTruth snapshot)
      in if ts_captureGap snapshot then addReason CaptureReasonTransportGap truth else truth)"

definition decide_with :: "CaptureTruth \<Rightarrow> State \<Rightarrow> Outcome \<Rightarrow> string \<Rightarrow> int option \<Rightarrow> Lifecycle \<Rightarrow> delegatedTerminalDecision" where
  "decide_with truth st outcome reason code lc = \<lparr>td_state = st, td_outcome = outcome, td_failureReason = reason,
     td_captureQuality = ct_Quality truth, td_captureReasons = ct_Reasons truth, td_outputComplete = ct_OutputComplete truth,
     td_exitCode = code, td_bindingLifecycle = lc\<rparr>"

definition classifyDelegatedTerminal ::
  "delegatedTerminalSnapshot \<Rightarrow> Observation \<Rightarrow> goerr option \<Rightarrow> delegatedTerminalDecision" where
  "classifyDelegatedTerminal snapshot obs waitErr =
     (let truth = initial_truth snapshot in
      if waitErr \<noteq> None \<or> ob_Provider obs \<noteq> bd_ProviderIdentity (ts_binding snapshot) \<or> \<not> ob_ProviderCurrent obs \<or>
         \<not> ob_Terminal obs \<or> ob_Owner obs \<noteq> OwnerNone
      then decide_with (addReason CaptureReasonProviderLost truth) Abandoned Ambiguous ''provider_lost'' None LifecycleLost
      else let observed = int64 (ts_outputBytes snapshot - ts_observerBase snapshot); code = ob_ExitCode obs in
        if observed < 0 \<or> ob_OutputBytes obs \<noteq> observed
        then decide_with (addReason CaptureReasonTransportGap truth) Failed FailureOutcome ''output_capture_failed'' code LifecycleTerminal
        else let decide = (\<lambda>st outcome reason. decide_with truth st outcome reason code LifecycleTerminal) in
          if ts_target snapshot = Killed then decide Killed KilledOutcome []
          else if ts_target snapshot = TimedOut then decide TimedOut Timeout []
          else if code = None then decide Failed FailureOutcome ''exit_unobserved''
          else if code = Some 0 then decide Completed Success []
          else decide Failed FailureOutcome [])"

section \<open>Provenance of the input\<close>

definition resolveTerminalInputAuthorityProvenance :: "Repository \<Rightarrow> string \<Rightarrow> string" where
  "resolveTerminalInputAuthorityProvenance r sid =
     (case LoadInputAuthorityProvenance None sid r of
        Inl _ \<Rightarrow> InputAuthorityHumanWriteGranted
      | Inr value \<Rightarrow> if value \<in> {InputAuthorityAgentOnly, InputAuthorityHumanWriteGranted} then value else InputAuthorityHumanWriteGranted)"

section \<open>Publication of the binding\<close>

definition terminal_binding :: "Binding \<Rightarrow> Lifecycle \<Rightarrow> time \<Rightarrow> Binding" where
  "terminal_binding b lc t = b\<lparr>bd_Lifecycle := lc, bd_UpdatedAt := (if bd_CreatedAt b < t then t else bd_CreatedAt b + 1)\<rparr>"

text \<open>
  \<open>advanceDelegatedBindingUntilDurable\<close>: the retries of the loop, with what the store does while the
  loop sleeps before each of them; the result says whether the loop has returned within them.
\<close>

fun advance_until :: "(string \<Rightarrow> string) \<Rightarrow> Binding \<Rightarrow> store_op list list \<Rightarrow> Repository \<Rightarrow> bool \<times> Repository" where
  "advance_until sha b [] r = (case AdvanceDelegatedBinding None b r of (res, r') \<Rightarrow> (sr_Err res = None, r'))"
| "advance_until sha b (ops # more_ops) r =
     (case AdvanceDelegatedBinding None b r of (res, r') \<Rightarrow>
        if sr_Err res = None then (True, r') else advance_until sha b more_ops (store_run sha ops r'))"

section \<open>Well-formed decisions\<close>

text \<open>The decisions a receipt may be built from: a terminal state with its outcome, and a valid capture truth.\<close>

definition decision_ok :: "delegatedTerminalDecision \<Rightarrow> bool" where
  "decision_ok d \<longleftrightarrow> Terminal (td_state d) \<and>
     (td_state d, td_outcome d) \<in> {(Abandoned, Ambiguous), (Failed, FailureOutcome), (Killed, KilledOutcome), (TimedOut, Timeout), (Completed, Success)} \<and>
     CaptureTruth_Validate \<lparr>ct_Quality = td_captureQuality d, ct_Reasons = td_captureReasons d, ct_OutputComplete = td_outputComplete d\<rparr> = None \<and>
     (td_bindingLifecycle d = LifecycleTerminal \<or> td_bindingLifecycle d = LifecycleLost \<and> td_state d = Abandoned)"

lemma WithReason_valid: "WithReason v x = Inr t \<Longrightarrow> CaptureTruth_Validate t = None"
  by (auto simp: WithReason_def Let_def split: if_splits)

lemma addReason_valid: "CaptureTruth_Validate (addReason reason truth) = None"
proof (cases "WithReason truth reason")
  case (Inl e)
  then show ?thesis by (simp add: addReason_def CaptureTruth_Validate_def ValidateCaptureTruth_def)
next
  case (Inr t)
  with WithReason_valid [OF Inr] show ?thesis by (simp add: addReason_def)
qed

lemma addReason_reasons:
  assumes "CaptureTruth_Validate truth = None" "snd (captureReasonRank reason)"
  shows "set (ct_Reasons (addReason reason truth)) = insert reason (set (ct_Reasons truth)) \<and> \<not> ct_OutputComplete (addReason reason truth)"
proof -
  from assms(2) have r: "reason \<in> set known_reasons" by (simp add: known_rank)
  note v = valid_truth [OF assms(1)]
  have "addReason reason truth = truth_of (insert reason (set (ct_Reasons truth)))"
    using v WithReason_inserts [OF v(2) r] by (simp add: addReason_def)
  moreover have "set (ct_Reasons truth) \<subseteq> set known_reasons" using v(2) .
  ultimately show ?thesis using r by (auto simp: truth_of_def)
qed

lemma CompleteCaptureTruth_valid: "CaptureTruth_Validate CompleteCaptureTruth = None"
  by (simp add: CompleteCaptureTruth_def CaptureTruth_Validate_def ValidateCaptureTruth_def)

text \<open>The truth of a snapshot is valid, and the decision starts from it without losing a reason.\<close>

lemma snapshot_truth: "CaptureTruth_Validate (ts_captureTruth (fst (snapshotDelegatedFinalizing sid b s))) = None"
  by (auto simp: snapshotDelegatedFinalizing_def delegatedCaptureTruth_def LoadDelegatedCaptureTruth_def CompleteCaptureTruth_valid Let_def
      split: sum.splits prod.splits dest: loaded_capture_valid)

lemma valid_quality: "CaptureTruth_Validate v = None \<Longrightarrow> ct_Quality v \<noteq> OtherQuality x"
  by (auto simp: CaptureTruth_Validate_def ValidateCaptureTruth_def split: option.splits if_splits)

lemma initial_truth_facts:
  assumes "CaptureTruth_Validate (ts_captureTruth snap) = None"
  shows "CaptureTruth_Validate (initial_truth snap) = None"
    "set (ct_Reasons (initial_truth snap)) = set (ct_Reasons (ts_captureTruth snap)) \<union> (if ts_captureGap snap then {CaptureReasonTransportGap} else {})"
    "ct_OutputComplete (initial_truth snap) \<longleftrightarrow> ct_OutputComplete (ts_captureTruth snap) \<and> \<not> ts_captureGap snap"
  using assms addReason_valid [of CaptureReasonTransportGap] addReason_reasons [OF assms, of CaptureReasonTransportGap] valid_quality [OF assms]
  by (auto simp: initial_truth_def Let_def)

lemma decide_with_ok:
  assumes "CaptureTruth_Validate truth = None" "Terminal st"
    "(st, outcome) \<in> {(Abandoned, Ambiguous), (Failed, FailureOutcome), (Killed, KilledOutcome), (TimedOut, Timeout), (Completed, Success)}"
    "lc = LifecycleTerminal \<or> lc = LifecycleLost \<and> st = Abandoned"
  shows "decision_ok (decide_with truth st outcome reason code lc)"
  using assms by (simp add: decision_ok_def decide_with_def CaptureTruth_Validate_def)

definition provider_proved_end :: "delegatedTerminalSnapshot \<Rightarrow> Observation \<Rightarrow> goerr option \<Rightarrow> bool" where
  "provider_proved_end snap obs waitErr \<longleftrightarrow> waitErr = None \<and> ob_Provider obs = bd_ProviderIdentity (ts_binding snap) \<and> ob_ProviderCurrent obs \<and>
     ob_Terminal obs \<and> ob_Owner obs = OwnerNone \<and> ob_OutputBytes obs = int64 (ts_outputBytes snap - ts_observerBase snap)"

lemma classify_cases:
  assumes "CaptureTruth_Validate (ts_captureTruth snap) = None"
  obtains (lost) "\<not> provider_proved_end snap obs waitErr"
      "classifyDelegatedTerminal snap obs waitErr = decide_with (addReason CaptureReasonProviderLost (initial_truth snap)) Abandoned Ambiguous ''provider_lost'' None LifecycleLost"
  | (gap) "classifyDelegatedTerminal snap obs waitErr =
      decide_with (addReason CaptureReasonTransportGap (initial_truth snap)) Failed FailureOutcome ''output_capture_failed'' (ob_ExitCode obs) LifecycleTerminal"
  | (ended) st outcome reason where "provider_proved_end snap obs waitErr"
      "classifyDelegatedTerminal snap obs waitErr = decide_with (initial_truth snap) st outcome reason (ob_ExitCode obs) LifecycleTerminal"
      "(st, outcome) \<in> {(Failed, FailureOutcome), (Killed, KilledOutcome), (TimedOut, Timeout), (Completed, Success)}"
      "st = Completed \<longrightarrow> ob_ExitCode obs = Some 0"
proof -
  let ?d = "classifyDelegatedTerminal snap obs waitErr" and ?code = "ob_ExitCode obs"
  let ?fin = "\<lambda>st outcome reason. decide_with (initial_truth snap) st outcome reason ?code LifecycleTerminal"
  consider "waitErr \<noteq> None \<or> ob_Provider obs \<noteq> bd_ProviderIdentity (ts_binding snap) \<or> \<not> ob_ProviderCurrent obs \<or> \<not> ob_Terminal obs \<or> ob_Owner obs \<noteq> OwnerNone"
    | "?d = decide_with (addReason CaptureReasonTransportGap (initial_truth snap)) Failed FailureOutcome ''output_capture_failed'' ?code LifecycleTerminal"
    | "provider_proved_end snap obs waitErr" "?d = ?fin Killed KilledOutcome [] \<or> ?d = ?fin TimedOut Timeout [] \<or>
        ?d = ?fin Failed FailureOutcome ''exit_unobserved'' \<or> ?code = Some 0 \<and> ?d = ?fin Completed Success [] \<or> ?d = ?fin Failed FailureOutcome []"
    unfolding classifyDelegatedTerminal_def provider_proved_end_def Let_def by presburger
  then show thesis
  proof cases
    case 1
    then have "?d = decide_with (addReason CaptureReasonProviderLost (initial_truth snap)) Abandoned Ambiguous ''provider_lost'' None LifecycleLost"
      by (simp add: classifyDelegatedTerminal_def Let_def)
    moreover from 1 have "\<not> provider_proved_end snap obs waitErr" by (auto simp: provider_proved_end_def)
    ultimately show thesis by (intro lost)
  next
    case 3
    then show thesis by (elim disjE) (auto intro: ended)
  qed (rule gap)
qed

text \<open>
  C17: A delegated session ends in a well-formed way. Whatever the provider reports and whatever the
  store holds, the decision about the end of a session has a terminal state with the outcome that
  belongs to it, a valid capture truth, and a final lifecycle of the binding. It keeps every recorded
  reason for missing output. It calls the output complete, or the session completed, only when the
  provider proved the end of exactly this session, with as many bytes as were stored, and the
  session is completed only with exit code zero.
\<close>

theorem terminal_decision_wellformed:
  assumes "snap = fst (snapshotDelegatedFinalizing sid b s)" "d = classifyDelegatedTerminal snap obs waitErr"
  shows "decision_ok d \<and> set (ct_Reasons (ts_captureTruth snap)) \<subseteq> set (td_captureReasons d) \<and>
    (td_outputComplete d \<longrightarrow> provider_proved_end snap obs waitErr \<and> ct_OutputComplete (ts_captureTruth snap) \<and> \<not> ts_captureGap snap) \<and>
    (td_state d = Completed \<longrightarrow> provider_proved_end snap obs waitErr \<and> ob_ExitCode obs = Some 0)"
proof -
  have v: "CaptureTruth_Validate (ts_captureTruth snap) = None" by (simp add: assms(1) snapshot_truth)
  note i = initial_truth_facts [OF v]
  have r: "set (ct_Reasons (addReason x (initial_truth snap))) = insert x (set (ct_Reasons (initial_truth snap)))"
    "\<not> ct_OutputComplete (addReason x (initial_truth snap))" if "snd (captureReasonRank x)" for x
    using addReason_reasons [OF i(1) that] by auto
  from v show ?thesis
  proof (cases rule: classify_cases [of snap obs waitErr])
    case lost
    have "decision_ok d" unfolding assms(2) lost(2) by (rule decide_with_ok) (simp_all add: addReason_valid Terminal_def)
    with lost r [of CaptureReasonProviderLost] i(2) show ?thesis by (auto simp: assms(2) decide_with_def)
  next
    case gap
    have "decision_ok d" unfolding assms(2) gap by (rule decide_with_ok) (simp_all add: addReason_valid Terminal_def)
    with gap r [of CaptureReasonTransportGap] i(2) show ?thesis by (auto simp: assms(2) decide_with_def)
  next
    case (ended st outcome reason)
    have "decision_ok d" unfolding assms(2) ended(2) by (rule decide_with_ok) (use ended(3) i(1) in \<open>auto simp: Terminal_def\<close>)
    with ended i(2,3) show ?thesis by (auto simp: assms(2) decide_with_def)
  qed
qed

definition ended_observation :: Observation where
  "ended_observation = \<lparr>ob_Provider = \<lparr>pi_ID = ''tmux'', pi_Version = 1\<rparr>, ob_ProviderCurrent = True, ob_ProviderGeneration = ''g1'',
     ob_Owner = OwnerNone, ob_Terminal = True, ob_ExitCode = Some 0, ob_PanePID = 42, ob_CurrentCommand = [], ob_PaneTTY = [],
     ob_CWD = [], ob_OutputBytes = 5\<rparr>"

definition ended_live :: liveSession where
  "ended_live = \<lparr>lv_state = Running, lv_accepted = 3, lv_delivered = 3, lv_terminalTarget = OtherState [], lv_signal = zero_signal,
     lv_delegatedRef = example_ref, lv_outputBytes = 5, lv_delegatedObserverBase = 0, lv_delegatedCaptureGap = False\<rparr>"

theorem terminal_decision_wellformed_witness:
  "\<exists>d. d = classifyDelegatedTerminal (fst (snapshotDelegatedFinalizing ''s1'' example_binding
        \<lparr>ln_store = example_repository, ln_provider = (), ln_live = ended_live\<rparr>)) ended_observation None \<and>
    decision_ok d \<and> td_state d = Completed \<and> td_outputComplete d"
proof -
  let ?snap = "fst (snapshotDelegatedFinalizing ''s1'' example_binding \<lparr>ln_store = example_repository, ln_provider = (), ln_live = ended_live\<rparr>)"
  have "LoadDelegatedCaptureTruth None ''s1'' example_repository = Inr CompleteCaptureTruth"
    using example_load
    by (simp add: LoadDelegatedCaptureTruth_def loadDelegatedCaptureTruthLocked_def readPrivateJSON_def example_repository_def empty_repository_def
        ParseSessionID_def valid_id_def bytes_headed_def id_byte_def byte_class_defs)
  then have "td_state (classifyDelegatedTerminal ?snap ended_observation None) = Completed \<and>
      td_outputComplete (classifyDelegatedTerminal ?snap ended_observation None)"
    by (simp add: snapshotDelegatedFinalizing_def delegatedCaptureTruth_def ended_live_def ended_observation_def classifyDelegatedTerminal_def
        initial_truth_def CompleteCaptureTruth_def decide_with_def example_binding_def bd_ProviderIdentity_def int64_def Let_def)
  with terminal_decision_wellformed [OF refl refl, of "''s1''" example_binding "\<lparr>ln_store = example_repository, ln_provider = (), ln_live = ended_live\<rparr>"
      ended_observation None] show ?thesis by blast
qed

section \<open>A stale binding\<close>

lemma stale_refused:
  assumes "loadDelegatedBindingLocked r (bd_SessionID b) = Inr current" "bd_AuthorityEpoch b < bd_AuthorityEpoch current"
  shows "\<exists>e. AdvanceDelegatedBinding None b r = (e, r) \<and> sr_Err e \<noteq> None"
proof -
  have "current \<noteq> b" using assms(2) by auto
  with assms show ?thesis by (auto simp: AdvanceDelegatedBinding_def split: option.splits sum.splits)
qed

text \<open>
  C34: The end of a session whose authority moved on is never published. The terminal change of the
  binding is prepared from the binding as it was loaded and retried until the store accepts it. Once
  the stored binding has a later epoch, say because a handoff took over or expired meanwhile, the
  store refuses every retry, whatever else happens to it: the loop never returns, and the session
  stays in its finalizing state.
\<close>

theorem stale_terminal_never_published:
  assumes "authority_inv r" "loadDelegatedBindingLocked r (bd_SessionID b) = Inr current" "bd_AuthorityEpoch b < bd_AuthorityEpoch current"
  shows "\<not> fst (advance_until sha (terminal_binding b lc t) opss r)"
  using assms
proof (induction opss arbitrary: r current)
  case Nil
  with stale_refused [of r "terminal_binding b lc t" current] show ?case by (auto simp: terminal_binding_def)
next
  case (Cons ops opss)
  from Cons.prems(2,3) obtain e where e: "AdvanceDelegatedBinding None (terminal_binding b lc t) r = (e, r)" "sr_Err e \<noteq> None"
    using stale_refused [of r "terminal_binding b lc t" current] by (auto simp: terminal_binding_def)
  let ?r = "store_run sha ops r"
  obtain current' where c: "loadDelegatedBindingLocked ?r (bd_SessionID b) = Inr current'" "binding_step current current'"
    using store_run_grow [OF Cons.prems(1), of sha ops] Cons.prems(2) unfolding epochs_grow_def by blast
  have "\<not> fst (advance_until sha (terminal_binding b lc t) opss ?r)"
    by (rule Cons.IH [OF store_run_inv [OF Cons.prems(1)] c(1)]) (use c(2) Cons.prems(3) in \<open>auto simp: binding_step_def\<close>)
  with e show ?case by simp
qed

theorem stale_terminal_never_published_witness:
  "\<exists>r. loadDelegatedBindingLocked r ''s1'' = Inr (example_binding\<lparr>bd_AuthorityEpoch := 2, bd_DesiredOwner := OwnerHuman, bd_UpdatedAt := 20\<rparr>) \<and>
    \<not> fst (advance_until (\<lambda>s. s) (terminal_binding example_binding LifecycleTerminal 30) [[], []] r)"
proof -
  let ?b = "example_binding\<lparr>bd_AuthorityEpoch := 2, bd_DesiredOwner := OwnerHuman, bd_UpdatedAt := 20\<rparr>"
  let ?r = "empty_repository\<lparr>rp_bindings := [(''s1'', Good ?b)]\<rparr>"
  have "Binding_Validate ?b = None" using example_binding_valid [of 2 OwnerHuman LifecycleLive 20] by (simp add: example_binding_def)
  then have l: "loadDelegatedBindingLocked ?r (bd_SessionID example_binding) = Inr ?b"
    by (simp add: loadDelegatedBindingLocked_def readPrivateJSON_def example_binding_def)
  have "authority_inv ?r" by (rule fresh_authority_inv) (simp_all add: empty_repository_def)
  from stale_terminal_never_published [OF this l, of "\<lambda>s. s" LifecycleTerminal 30 "[[], []]"] l show ?thesis
    by (intro exI [of _ ?r]) (simp add: example_binding_def)
qed

end
