(* ===== verification/HandoffProps.thy ===== *)
theory HandoffProps
  imports DaemonHandoff DelegatedTerminal
begin

text \<open>
  What the daemon guarantees about interactive handoffs over whole runs, whatever the provider of
  the sessions answers, and where the coordinator falls short of what it sets out to do.
\<close>

section \<open>Runs of the daemon\<close>

text \<open>
  The operations that change handoffs, in any order; between them the provider's state may change
  and the daemon may restart, which empties the coordinator's memory.
\<close>

datatype ('p, 'h) daemon_op =
    DoRequest Request "'h option"
  | DoBind string ProviderClientRef
  | DoAttach string HumanAttachSpec
  | DoControl ControlSignal
  | DoAbort string
  | DoExpire string
  | DoReconcile string
  | DoReadiness Request AuthorityEpoch PreparedReadiness "WatchEvent result" "goerr option"
  | DoProvider "'p \<Rightarrow> 'p"
  | DoRestart

fun daemon_step :: "(Repository \<times> 'p, 'h) Service \<Rightarrow> ('p, 'h) daemon_op \<Rightarrow> (Repository \<times> 'p) Env \<Rightarrow> (Repository \<times> 'p) Env" where
  "daemon_step S (DoRequest req hint) s = snd (request S req hint s)"
| "daemon_step S (DoBind i client) s = snd (BindLocalHuman S i client s)"
| "daemon_step S (DoAttach i spec) s = snd (AttachLocalHuman S i spec s)"
| "daemon_step S (DoControl signal) s = snd (HumanControl S signal s)"
| "daemon_step S (DoAbort i) s = snd (Abort S i s)"
| "daemon_step S (DoExpire i) s = snd (Expire S i s)"
| "daemon_step S (DoReconcile i) s = snd (Reconcile S i s)"
| "daemon_step S (DoReadiness req epoch prepared waited ctx) s = snd (runAutomaticReadiness S req epoch prepared waited ctx s)"
| "daemon_step S (DoProvider f) s = s\<lparr>ev_world := (fst (ev_world s), f (snd (ev_world s)))\<rparr>"
| "daemon_step S DoRestart s = s\<lparr>ev_attachments := (\<lambda>_. None), ev_preparations := (\<lambda>_. None)\<rparr>"

definition daemon_run :: "(Repository \<times> 'p, 'h) Service \<Rightarrow> ('p, 'h) daemon_op list \<Rightarrow> (Repository \<times> 'p) Env \<Rightarrow> (Repository \<times> 'p) Env" where
  "daemon_run S = fold (daemon_step S)"

definition started :: "Repository \<Rightarrow> 'p \<Rightarrow> (Repository \<times> 'p) Env" where
  "started r p = \<lparr>ev_world = (r, p), ev_attachments = (\<lambda>_. None), ev_preparations = (\<lambda>_. None)\<rparr>"

abbreviation daemon_fine :: "(Repository \<times> 'p) Env \<Rightarrow> bool" where
  "daemon_fine \<equiv> all_fine daemon_holds daemon_granted"

lemma triple_snd: "triple I U (\<lambda>_. True) m Q \<Longrightarrow> I s \<Longrightarrow> I (snd (m s))"
  by (cases "m s") (auto simp: triple_def)

lemma daemon_step_fine:
  assumes "daemon_fine s"
  shows "daemon_fine (daemon_step (configureHandoffCoordinator sha ctx live runtime presenter readiness pa ra) op s)"
proof (cases op)
  case (DoProvider f)
  with assms show ?thesis by (simp add: all_fine_def fine_def)
next
  case DoRestart
  with assms show ?thesis by (simp add: all_fine_def fine_def)
qed (simp_all add: assms triple_snd [OF daemon.request_ok] triple_snd [OF daemon.BindLocalHuman_ok] triple_snd [OF daemon.AttachLocalHuman_ok]
  triple_snd [OF daemon.HumanControl_ok] triple_snd [OF daemon.Abort_ok] triple_snd [OF daemon.Expire_ok]
  triple_snd [OF daemon.Reconcile_ok] triple_snd [OF daemon.runAutomaticReadiness_ok] daemon.kept_const)

lemma daemon_run_fine:
  assumes "daemon_fine s"
  shows "daemon_fine (daemon_run (configureHandoffCoordinator sha ctx live runtime presenter readiness pa ra) ops s)"
  using assms unfolding daemon_run_def
proof (induction ops arbitrary: s)
  case (Cons op ops)
  from Cons.IH [OF daemon_step_fine [OF Cons.prems]] show ?case by simp
qed simp

lemma fresh_fine: "rp_handoffs r = [] \<Longrightarrow> rp_transactions r = [] \<Longrightarrow> daemon_fine (started r p)"
  by (simp add: all_fine_def started_def states_def goods_def)

lemma handoff_ok_sides:
  assumes "handoff_ok st"
  shows "hs_AgentIngress st = IngressFenced \<or> hs_HumanIngress st = IngressFenced"
    "hs_AgentIngress st = IngressWritable \<Longrightarrow> hs_Phase st = PhaseAgentOwned \<and> hs_DesiredOwner st = OwnerAgent \<and> hs_HumanIngress st = IngressFenced"
    "hs_HumanIngress st = IngressWritable \<Longrightarrow> hs_AgentIngress st = IngressFenced \<and> hs_DesiredOwner st \<noteq> OwnerAgent"
  using assms by (auto simp: handoff_ok_def split: Phase.splits)

lemma daemon_state_fine:
  assumes "rp_handoffs r = []" "rp_transactions r = []"
    and "st \<in> states (fst (ev_world (daemon_run
      (configureHandoffCoordinator sha ctx live runtime presenter readiness pa ra) ops (started r p))))"
  shows "handoff_ok st" "hs_HumanIngress st = IngressWritable \<Longrightarrow> recorded (fst (ev_world (daemon_run
      (configureHandoffCoordinator sha ctx live runtime presenter readiness pa ra) ops (started r p)))) (hs_SessionID st)"
proof -
  have "daemon_fine (daemon_run (configureHandoffCoordinator sha ctx live runtime presenter readiness pa ra) ops (started r p))"
    by (rule daemon_run_fine [OF fresh_fine [OF assms(1,2)]])
  with assms(3) show "handoff_ok st" "hs_HumanIngress st = IngressWritable \<Longrightarrow> recorded (fst (ev_world (daemon_run
      (configureHandoffCoordinator sha ctx live runtime presenter readiness pa ra) ops (started r p)))) (hs_SessionID st)"
    by (simp_all add: all_fine_def fine_def)
qed

text \<open>A daemon whose provider shows the agent's session and knows no human clients.\<close>

definition example_observation :: Observation where
  "example_observation = \<lparr>ob_Provider = \<lparr>pi_ID = ''tmux'', pi_Version = 1\<rparr>, ob_ProviderCurrent = True, ob_ProviderGeneration = ''g1'',
     ob_Owner = OwnerAgent, ob_Terminal = False, ob_ExitCode = None, ob_PanePID = 42, ob_CurrentCommand = ''sh'', ob_PaneTTY = [],
     ob_CWD = [], ob_OutputBytes = 0\<rparr>"

definition example_runtime :: "unit Runtime" where
  "example_runtime = \<lparr>rt_Inspect = (\<lambda>ref p. (Inr example_observation, p)),
     rt_AttachHuman = (\<lambda>ref spec p. (Inl (Errorf ''no terminal''), p)),
     rt_SetHumanWritable = (\<lambda>ref client writable p. (Inl (Errorf ''no client''), p)),
     rt_FenceHumanIngress = (\<lambda>ref client epoch p. (Inl (Errorf ''no client''), p)),
     rt_InspectHumanClient = (\<lambda>ref client p. (Inl (Errorf ''no client''), p)),
     rt_ArmWritableHumanControl = (\<lambda>ref client spec p. (Inl (Errorf ''no client''), p)),
     rt_PrepareReadOnlyLocalControl = (\<lambda>ref client p. (Inl (Errorf ''no client''), p)),
     rt_Signal = (\<lambda>ref signal p. (Inr (), p)), rt_privacy = None\<rparr>"

definition example_daemon :: "(Repository \<times> unit, unit) Service" where
  "example_daemon = configureHandoffCoordinator (\<lambda>x. x) (\<lambda>p. None) (\<lambda>p sid. None) example_runtime None None False False"

lemma example_parsed: "ParseSessionID ''s1'' = Inr ''s1''"
  by (simp add: ParseSessionID_def valid_id_def bytes_headed_def id_byte_def bytes_over_def byte_class_defs)

lemma example_requested:
  "\<exists>s'. daemon_step example_daemon (DoRequest example_request None) (started handoff_repository ()) = s' \<and>
     example_initial \<in> states (fst (ev_world s'))"
proof -
  obtain res r' where a: "ReserveHandoff (\<lambda>x. x) None example_request example_initial handoff_repository =
      ((Some example_initial, True, res), r')" and e: "sr_Err res = None" by (rule example_reserved)
  obtain v where "loadHandoffRecordLocked r' ''h1'' = Inr v" "hr_State v = example_initial" using example_recorded [OF a] by blast
  then have held: "example_initial \<in> states r'" using loaded_states(1) by metis
  have valid: "Request_ValidateH2 example_request = None"
    using example_valid(1) by (simp add: Request_ValidateH2_def) (simp add: example_request_def)
  have req: "rq_HandoffID example_request = ''h1''" "rq_SessionID example_request = ''s1''" by (simp_all add: example_request_def)
  have id: "validHandoffStoreID ''h1''"
    by (simp add: validHandoffStoreID_def opaque_defs)
  have refs: "loadDelegatedProviderRefLocked handoff_repository ''s1'' = Inr example_ref"
    by (rule example_ref_load) (simp add: handoff_repository_def)
  have b: "bd_Lifecycle example_binding = LifecycleLive" "bd_DesiredOwner example_binding = OwnerAgent" "bd_AuthorityEpoch example_binding = 1"
    "bd_ProviderIdentity example_binding = \<lparr>pi_ID = ''tmux'', pi_Version = 1\<rparr>"
    by (simp_all add: example_binding_def bd_ProviderIdentity_def)
  have o: "ob_Provider example_observation = \<lparr>pi_ID = ''tmux'', pi_Version = 1\<rparr>" "ob_ProviderCurrent example_observation"
    "ob_Owner example_observation = OwnerAgent" "ob_ProviderGeneration example_observation = ''g1''"
    by (simp_all add: example_observation_def)
  have find: "FindHandoff None ''h1'' handoff_repository = Inr None"
    by (simp add: FindHandoff_def id handoff_repository_loads(2) is_not_found_def ErrNotFound_def)
  have init: "\<lparr>hs_SchemaVersion = 1, hs_HandoffID = ''h1'', hs_SessionID = ''s1'', hs_Phase = PhaseAgentFencing, hs_AuthorityEpoch = 2,
      hs_DesiredOwner = OwnerHuman, hs_ProviderOwner = OwnerAgent, hs_AgentIngress = IngressUnknown, hs_HumanIngress = IngressFenced,
      hs_TransferBoundary = \<lparr>tb_Kind = BoundaryNone, tb_Established = False\<rparr>, hs_PrivacyState = PrivacyStateStandard,
      hs_PrivacyRelease = PrivacyReleaseNotRequired, hs_CaptureState = CapturePublic, hs_HumanClient = None,
      hs_ProviderGeneration = ''g1'', hs_FailureCode = []\<rparr> = example_initial" by (simp add: example_initial_def)
  have ph: "hs_Phase example_initial = PhaseAgentFencing" by (simp add: example_initial_def)
  have rt: "rt_Inspect example_runtime ref () = (Inr example_observation, ())" for ref by (simp add: example_runtime_def)
  have S: "sv_store example_daemon = handoffStoreAdapter (\<lambda>x. x) (\<lambda>p. None)" "sv_runtime example_daemon = lift_runtime example_runtime"
    "\<not> sv_h4Enabled example_daemon" "sv_fencer example_daemon = daemonAgentIngressFencer (\<lambda>p. None) (\<lambda>p sid. None) (Some example_runtime)"
    by (simp_all add: example_daemon_def configureHandoffCoordinator_def example_runtime_def)
  have pre: "preflightAgentOwned example_daemon ''s1'' (started handoff_repository ()) =
      (Ok (example_binding, example_ref, example_observation), started handoff_repository ())"
    by (simp add: preflightAgentOwned_def act_defs demand_def ask_def started_def S handoffStoreAdapter_def lift_runtime_def on_provider_def rt
        LoadDelegatedBinding_def LoadDelegatedProviderRef_def example_parsed handoff_repository_loads(4) refs b o)
  have d1: "demand (st_FindHandoff (handoffStoreAdapter (\<lambda>x. x) (\<lambda>p. None)) ''h1'') (started handoff_repository ()) =
      (Ok None, started handoff_repository ())"
    by (simp add: demand_def normalized_def ask_def started_def handoffStoreAdapter_def find)
  have d2: "demand (st_ReserveHandoff (handoffStoreAdapter (\<lambda>x. x) (\<lambda>p. None)) example_request example_initial) (started handoff_repository ()) =
      (Ok (example_initial, True), started r' ())"
    using e by (simp add: demand_def normalized_def ask_def started_def handoffStoreAdapter_def a stored_result_def handoffStoreError_def state_or_zero_def)
  have d3: "finishAgentFence example_daemon example_initial (started r' ()) =
      (Err (normalize_err (fence_blocked (hs_SessionID example_initial) ''agent_ingress_live_session_missing'')), started r' ())"
    by (simp add: finishAgentFence_def act_defs demand_def ask_def S daemonAgentIngressFencer_def started_def)
  have "snd (request example_daemon example_request None (started handoff_repository ())) = started r' ()"
    by (simp add: request_def check_valid_def valid S req seq_act_def d1 pre b o init d2 ph d3)
  then show ?thesis using held by (simp add: started_def)
qed

text \<open>
  C1: Agent and human never write at the same time. Whatever the provider, the presenter and the
  readiness watchers answer, and through any sequence of requests, attaches, controls, expiries,
  reconciliations, readiness events, restarts and provider changes, every handoff state the daemon
  has stored (also in a transaction that is still pending) has at least one side fenced; the
  agent's side is writable only when the agent is the desired owner and the human side is fenced,
  and the human's side is writable only when the agent's is fenced and the agent is not the owner.
\<close>

theorem daemon_sides_exclusive:
  assumes "rp_handoffs r = []" "rp_transactions r = []"
    and "st \<in> states (fst (ev_world (daemon_run
      (configureHandoffCoordinator sha ctx live runtime presenter readiness pa ra) ops (started r p))))"
  shows "(hs_AgentIngress st = IngressFenced \<or> hs_HumanIngress st = IngressFenced) \<and>
    (hs_AgentIngress st = IngressWritable \<longrightarrow>
      hs_Phase st = PhaseAgentOwned \<and> hs_DesiredOwner st = OwnerAgent \<and> hs_HumanIngress st = IngressFenced) \<and>
    (hs_HumanIngress st = IngressWritable \<longrightarrow> hs_AgentIngress st = IngressFenced \<and> hs_DesiredOwner st \<noteq> OwnerAgent)"
  using handoff_ok_sides [OF daemon_state_fine(1) [OF assms]] by blast

theorem daemon_sides_exclusive_witness:
  "\<exists>st. st \<in> states (fst (ev_world (daemon_run example_daemon [DoRequest example_request None, DoRestart] (started handoff_repository ())))) \<and>
    (hs_AgentIngress st = IngressFenced \<or> hs_HumanIngress st = IngressFenced)"
proof -
  have "example_initial \<in> states (fst (ev_world (daemon_run example_daemon [DoRequest example_request None, DoRestart] (started handoff_repository ()))))"
    using example_requested by (auto simp: daemon_run_def)
  then show ?thesis
    using daemon_sides_exclusive [OF handoff_repository_fresh, of example_initial, folded example_daemon_def] example_daemon_def by metis
qed

lemma recorded_resolves:
  assumes "recorded r sid"
  shows "resolveTerminalInputAuthorityProvenance r sid = InputAuthorityHumanWriteGranted"
proof -
  obtain v where v: "readPrivateJSON (rp_provenance r) sid = Inr v" "dp_Value v = InputAuthorityHumanWriteGranted"
    using assms by (auto simp: recorded_def readPrivateJSON_def)
  have "LoadInputAuthorityProvenance None sid r = Inr x \<Longrightarrow> x = InputAuthorityHumanWriteGranted" for x
    unfolding LoadInputAuthorityProvenance_def guard_result_def bind_result_eq_Inr
    by (cases "loadDelegatedBindingLocked r sid") (auto simp: v bind_result_eq_Inr split: sum.splits if_splits)
  then show ?thesis
    unfolding resolveTerminalInputAuthorityProvenance_def
    by (cases "LoadInputAuthorityProvenance None sid r") simp_all
qed

text \<open>
  C11: Human write authority is never undeclared. Start the daemon on a store whose handoff states
  are consistent and have the mark where the human may write (for example one without handoffs);
  then, in every run, whenever a stored handoff state lets the human write, the store holds the
  durable mark that a human was granted write authority over that session, and a receipt written then
  does not attribute the session's input to the agent alone.
\<close>

theorem daemon_human_write_recorded:
  assumes "\<forall>st \<in> states r. handoff_ok st \<and> (hs_HumanIngress st = IngressWritable \<longrightarrow> recorded r (hs_SessionID st))"
    and "r' = fst (ev_world (daemon_run
      (configureHandoffCoordinator sha ctx live runtime presenter readiness pa ra) ops (started r p)))"
    and "st \<in> states r'" "hs_HumanIngress st = IngressWritable"
  shows "\<exists>v. map_of (rp_provenance r') (hs_SessionID st) = Some (Good v) \<and>
    dp_SessionID v = hs_SessionID st \<and> dp_Value v = InputAuthorityHumanWriteGranted \<and>
    resolveTerminalInputAuthorityProvenance r' (hs_SessionID st) = InputAuthorityHumanWriteGranted"
proof -
  from assms(1) have "daemon_fine (started r p)" by (simp add: all_fine_def fine_def started_def)
  from daemon_run_fine [OF this, of sha ctx live runtime presenter readiness pa ra ops] assms(2-4) have "recorded r' (hs_SessionID st)"
    by (simp add: all_fine_def fine_def)
  then show ?thesis using recorded_resolves by (fastforce simp: recorded_def)
qed

definition human_repository :: Repository where
  "human_repository = example_repository\<lparr>rp_handoffs := [(''h1'', Good \<lparr>hr_SchemaVersion = handoffStoreSchemaVersion,
       hr_Request = example_request, hr_State = human_owned_state, hr_CreatedAt = 20, hr_UpdatedAt = 20\<rparr>)],
     rp_provenance := [(hs_SessionID human_owned_state, Good \<lparr>dp_SchemaVersion = 1, dp_SessionID = hs_SessionID human_owned_state,
       dp_Value = InputAuthorityHumanWriteGranted, dp_UpdatedAt = 20\<rparr>)]\<rparr>"

lemma human_repository_states: "states human_repository = {human_owned_state}"
  by (simp add: states_def goods_def human_repository_def example_repository_def empty_repository_def)

theorem daemon_human_write_recorded_witness:
  "\<exists>v. map_of (rp_provenance (fst (ev_world (daemon_run example_daemon [DoRestart, DoProvider id] (started human_repository ())))))
      (hs_SessionID human_owned_state) = Some (Good v) \<and> dp_Value v = InputAuthorityHumanWriteGranted"
proof -
  let ?r = "fst (ev_world (daemon_run example_daemon [DoRestart, DoProvider id] (started human_repository ())))"
  have r: "?r = human_repository" by (simp add: daemon_run_def started_def)
  have w: "hs_HumanIngress human_owned_state = IngressWritable" by (simp add: human_owned_state_def)
  have "handoff_ok human_owned_state" by (simp add: handoff_ok_def human_owned_state_def)
  moreover have "recorded human_repository (hs_SessionID human_owned_state)" by (simp add: recorded_def human_repository_def)
  ultimately have "\<forall>st \<in> states human_repository. handoff_ok st \<and>
      (hs_HumanIngress st = IngressWritable \<longrightarrow> recorded human_repository (hs_SessionID st))"
    by (simp add: human_repository_states)
  from daemon_human_write_recorded [OF this, of ?r, unfolded example_daemon_def, OF refl _ w] show ?thesis
    using r human_repository_states unfolding example_daemon_def by auto
qed

section \<open>Waiting\<close>



section \<open>Where the coordinator falls short\<close>

text \<open>
  A readiness preparer that returns no watcher brings the request down. The coordinator rejects
  such a result only after it has called \<open>Close\<close> on the missing watcher: the request panics instead
  of returning \<open>shell_integration_unavailable\<close>.
\<close>

theorem nil_watcher_panics:
  assumes "requirementFor req = Some requirement" "sv_readiness S = Some prepare"
    and "preparedReadiness (hs_HandoffID st) (hs_AuthorityEpoch st) s = None"
    and "\<And>rr. prepare rr (ev_world s) = (Inr prepared, w)" "pd_Watcher prepared = None"
  shows "fst (prepareReadiness S req st ref s) = Panic"
proof -
  let ?s1 = "ensurePreparation (hs_HandoffID st) (hs_AuthorityEpoch st) s"
  have none: "preparedReadiness (hs_HandoffID st) (hs_AuthorityEpoch st) ?s1 = None"
    using assms(3) by (auto simp: preparedReadiness_def ensurePreparation_def split: option.splits if_splits)
  have "PreparedReadiness_Validate prepared \<noteq> None" using assms(5) by (simp add: PreparedReadiness_Validate_def)
  then obtain e where "PreparedReadiness_Validate prepared = Some e" by auto
  with none assms(1,2,4,5) show ?thesis
    by (simp add: prepareReadiness_def seq_act_def update_def memory_def try_act_def ask_def panic_def daemon.ensure_world)
qed

definition export_request :: Request where
  "export_request = example_request\<lparr>rq_Completion := \<lparr>cp_Kind = CompletionEnvironmentExportedNonempty, cp_Name = ''TOKEN''\<rparr>\<rparr>"

definition watcherless_daemon :: "(Repository \<times> unit, unit) Service" where
  "watcherless_daemon = example_daemon\<lparr>sv_readiness := Some (\<lambda>rr w. (Inr \<lparr>pd_Shell = \<lparr>si_Family = ShellZsh, si_RuntimeID = ''zsh1''\<rparr>,
     pd_Watcher = None\<rparr>, w))\<rparr>"

theorem nil_watcher_panics_witness:
  "fst (prepareReadiness watcherless_daemon export_request example_initial example_ref (started handoff_repository ())) = Panic"
proof (rule nil_watcher_panics)
  show "requirementFor export_request = Some \<lparr>re_Kind = RequirementEnvironmentExportedNonempty, re_Name = ''TOKEN''\<rparr>"
    by (simp add: requirementFor_def export_request_def)
qed (auto simp: watcherless_daemon_def preparedReadiness_def started_def)

lemma expiry_settle_blocked: "hs_AgentIngress st \<noteq> IngressFenced \<Longrightarrow> fst (expiry_settle S (st, c) s) \<noteq> Ok x"
  by (auto simp: expiry_settle_def Let_def seq_act_def raise_with_def ret_def split: prod.splits outcome.splits if_splits)

lemma expiry_human_agent: "expiry_human S ref c (st, b) s = (Ok (st', b'), s') \<Longrightarrow> hs_AgentIngress st' = hs_AgentIngress st"
  by (auto simp: expiry_human_def Let_def seq_act_def try_act_def ask_def ret_def expiry_fence_def
      split: prod.splits outcome.splits sum.splits if_splits)

lemma finishExpiry_blocked:
  assumes st: "hs_FailureCode st = HandoffExpired" "hs_DesiredOwner st = OwnerNone" "hs_AgentIngress st \<noteq> IngressFenced"
    and fence: "sv_fencer S (hs_SessionID st) (hs_AuthorityEpoch st) (ev_world s) = (Inl e, w)"
  shows "fst (finishExpiryLocked S st s) \<noteq> Ok x"
proof -
  let ?st1 = "st\<lparr>hs_AgentIngress := IngressUnknown\<rparr>" and ?s1 = "s\<lparr>ev_world := w\<rparr>"
  have agent: "expiry_agent S st s = (Ok (?st1, False), ?s1)"
    using st(3) fence by (simp add: expiry_agent_def try_act_def ask_def ret_def)
  show ?thesis
  proof (cases "hs_HumanClient st")
    case None
    then show ?thesis
      using st agent expiry_settle_blocked [of "if hs_HumanIngress st \<noteq> IngressFenced then ?st1\<lparr>hs_HumanIngress := IngressUnknown\<rparr> else ?st1" S False ?s1 x]
      by (simp add: finishExpiryLocked_def seq_act_def split: if_splits)
  next
    case (Some c)
    have "fst (seq_act (expiry_human S ref c (?st1, False)) (expiry_settle S) s2) \<noteq> Ok x" for ref s2
    proof
      assume "fst (seq_act (expiry_human S ref c (?st1, False)) (expiry_settle S) s2) = Ok x"
      then obtain st' b' s3 where h: "expiry_human S ref c (?st1, False) s2 = (Ok (st', b'), s3)" "fst (expiry_settle S (st', b') s3) = Ok x"
        by (auto simp: seq_act_def split: prod.splits outcome.splits)
      from expiry_human_agent [OF h(1)] have "hs_AgentIngress st' \<noteq> IngressFenced" by simp
      with h(2) expiry_settle_blocked show False by blast
    qed
    then show ?thesis
      using st agent Some
      by (auto simp: finishExpiryLocked_def seq_act_def [of "expiry_agent S st"] try_act_def raise_with_def split: prod.splits outcome.splits)
  qed
qed

lemma fencer_needs_human:
  assumes "authority_inv r" "loadHandoffRecordLocked r i = Inr v" "hs_DesiredOwner (hr_State v) \<noteq> OwnerHuman"
  shows "\<exists>e. daemonAgentIngressFencer ctx live runtime (hs_SessionID (hr_State v)) (hs_AuthorityEpoch (hr_State v)) (r, p) = (Inl e, (r, p))"
proof -
  have "covered r v" using assms(1,2) unfolding authority_inv_def by blast
  then obtain b where b: "loadDelegatedBindingLocked r (hs_SessionID (hr_State v)) = Inr b"
    "hs_AuthorityEpoch (hr_State v) = bd_AuthorityEpoch b \<longrightarrow> hs_DesiredOwner (hr_State v) = bd_DesiredOwner b"
    by (auto simp: covered_def)
  have "bd_AuthorityEpoch b \<noteq> hs_AuthorityEpoch (hr_State v) \<or> bd_DesiredOwner b \<noteq> OwnerHuman" using b(2) assms(3) by auto
  then show ?thesis
    using b(1) by (auto simp: daemonAgentIngressFencer_def LoadDelegatedBinding_def guard_result_def bind_result_def
        split: option.splits bool.splits sum.splits)
qed


text \<open>The example handoff, expired at epoch 3 before the agent was fenced.\<close>

definition expired_record :: handoffRecord where
  "expired_record = \<lparr>hr_SchemaVersion = handoffStoreSchemaVersion, hr_Request = example_request, hr_State = expired example_initial,
     hr_CreatedAt = 20, hr_UpdatedAt = 20\<rparr>"

definition expired_repository :: Repository where
  "expired_repository = handoff_repository\<lparr>rp_handoffs := [(''h1'', Good expired_record)],
     rp_bindings := [(''s1'', Good (example_binding\<lparr>bd_AuthorityEpoch := 3, bd_DesiredOwner := OwnerNone, bd_UpdatedAt := 20\<rparr>))]\<rparr>"

lemma expired_initial:
  "hs_FailureCode (expired example_initial) = HandoffExpired" "hs_Phase (expired example_initial) = PhaseReclaimPending"
  "hs_DesiredOwner (expired example_initial) = OwnerNone" "hs_AgentIngress (expired example_initial) \<noteq> IngressFenced"
  "hs_SessionID (expired example_initial) = ''s1''" "hs_AuthorityEpoch (expired example_initial) = 3"
  by (simp_all add: expired_def example_initial_def)

lemma expired_loads:
  "loadHandoffTransactionLocked expired_repository k = Inl ErrNotFound"
  "loadHandoffRecordLocked expired_repository ''h1'' = Inr expired_record"
  "loadHandoffRecordLocked expired_repository k = Inr v \<Longrightarrow> v = expired_record"
  "loadDelegatedBindingLocked expired_repository ''s1'' =
    Inr (example_binding\<lparr>bd_AuthorityEpoch := 3, bd_DesiredOwner := OwnerNone, bd_UpdatedAt := 20\<rparr>)"
proof -
  have "handoffRecord_validate expired_record = None" "rq_HandoffID example_request = ''h1''"
    using example_valid(1)
    by (simp_all add: handoffRecord_validate_def expired_record_def Request_ValidateH4_def State_ValidateH4_def IsZero_def)
      (simp_all add: example_request_def expired_def example_initial_def HandoffState_Validate_def TransferBoundary_Validate_def opaque_defs)
  then show "loadHandoffRecordLocked expired_repository ''h1'' = Inr expired_record"
    by (simp add: loadHandoffRecordLocked_def expired_repository_def readPrivateJSON_def) (simp add: expired_record_def)
  show "v = expired_record" if "loadHandoffRecordLocked expired_repository k = Inr v"
    using that by (auto simp: loadHandoffRecordLocked_def expired_repository_def readPrivateJSON_def bind_result_def split: if_splits)
  show "loadHandoffTransactionLocked expired_repository k = Inl ErrNotFound"
    using handoff_repository_fresh(2) by (simp add: loadHandoffTransactionLocked_def expired_repository_def readPrivateJSON_def)
  show "loadDelegatedBindingLocked expired_repository ''s1'' =
      Inr (example_binding\<lparr>bd_AuthorityEpoch := 3, bd_DesiredOwner := OwnerNone, bd_UpdatedAt := 20\<rparr>)"
    using example_target_valid [of 3 OwnerNone 20]
    by (simp add: loadDelegatedBindingLocked_def expired_repository_def readPrivateJSON_def) (simp add: example_binding_def)
qed


end
