(* ===== verification/Spool.thy ===== *)
theory Spool
  imports SupervisorLedger
begin

text \<open>
  The output spool of a per-session supervisor (internal/adapter/supervisor/spool.go): an
  append-only file of captured output, read by offset, with a durable acknowledgement offset.
  The file is opened with \<open>O_APPEND\<close>, so a write lands at the end of the file wherever the
  spool believes its end to be.
\<close>

section \<open>State\<close>

record OutputRange =
  or_Start :: int
  or_End :: int

record outputAckState =
  oa_SchemaVersion :: int
  oa_Offset :: int

text \<open>
  \<open>sp_open\<close> is \<open>file != nil\<close>; \<open>sp_content\<close> and \<open>sp_ackfile\<close> are the bytes of the spool file and
  the stored acknowledgement, the other fields the memory of the process.
\<close>

record Spool =
  sp_open :: bool
  sp_max :: int
  sp_size :: int
  sp_ack :: int
  sp_content :: string
  sp_ackfile :: outputAckState

definition MaxOutputBytes :: int where
  "MaxOutputBytes = 32 * 1024"

definition outputFailure :: "string \<Rightarrow> goerr" where
  "outputFailure reason = failure_New ''persistent_recovery_output_conflict'' [(''reason'', reason)]
     (Some (Errorf ''persistent recovery output unavailable''))"

section \<open>Opening\<close>

text \<open>
  The acknowledgement file is missing or empty (and then created, with the given outcome), holds a
  state, or cannot be read.
\<close>

definition loadOutputAck :: "outputAckState ledger_file \<Rightarrow> int \<Rightarrow> int result" where
  "loadOutputAck file extent =
     (case file of
        FileMissing (Some _) \<Rightarrow> Inl (outputFailure ''ack_create'')
      | FileMissing None \<Rightarrow> Inr 0
      | FileError _ \<Rightarrow> Inl (outputFailure ''ack_state'')
      | FileState st \<Rightarrow>
          if oa_SchemaVersion st \<noteq> 1 \<or> oa_Offset st < 0 \<or> oa_Offset st > extent
          then Inl (outputFailure ''ack_state'') else Inr (oa_Offset st))"

text \<open>
  \<open>layout_err\<close> is the outcome of \<open>validateLayout\<close> and \<open>content\<close> what opening the file gives: its bytes, or
  nothing when it cannot be opened or is not a regular private file.
\<close>

definition OpenSpool ::
  "goerr option \<Rightarrow> int \<Rightarrow> (string \<times> bool) option \<Rightarrow> outputAckState ledger_file \<Rightarrow> Spool result" where
  "OpenSpool layout_err maxBytes content ackfile =
     guard_result layout_err
      (if maxBytes < 1 then Inl (outputFailure ''invalid_limit'')
       else case content of
           None \<Rightarrow> Inl (outputFailure ''open'')
         | Some (bytes, safe) \<Rightarrow>
             if \<not> safe \<or> int (length bytes) > maxBytes then Inl (outputFailure ''unsafe_spool'')
             else bind_result (loadOutputAck ackfile (int (length bytes))) (\<lambda>ack.
               Inr \<lparr>sp_open = True, sp_max = maxBytes, sp_size = int (length bytes), sp_ack = ack, sp_content = bytes,
                    sp_ackfile = (case ackfile of FileState st \<Rightarrow> st | _ \<Rightarrow> \<lparr>oa_SchemaVersion = 1, oa_Offset = 0\<rparr>)\<rparr>))"

section \<open>Operations\<close>

text \<open>
  One \<open>file.Write\<close>: how many bytes reach the file, and whether it reports an error; a write that
  reports none and fewer bytes than asked is retried with the rest.  When the outcomes given run
  out, writes are complete.
\<close>

fun write_all :: "(nat \<times> bool) list \<Rightarrow> string \<Rightarrow> nat \<Rightarrow> string \<Rightarrow> nat \<times> string option \<times> string" where
  "write_all outcomes data written content =
     (if data = [] then (written, None, content)
      else case outcomes of
          [] \<Rightarrow> (written + length data, None, content @ data)
        | (n, failed) # rest \<Rightarrow>
            let m = min n (length data); content' = content @ take m data in
            if failed then (written, Some ''write'', content')
            else if m = 0 then (written, Some ''short_write'', content')
            else write_all rest (drop m data) (written + m) content')"

declare write_all.simps [simp del]

lemma write_all_simps:
  "write_all outcomes [] written content = (written, None, content)"
  "write_all [] data written content = (written + length data, None, content @ data)"
  "data \<noteq> [] \<Longrightarrow> write_all ((n, failed) # rest) data written content =
    (let m = min n (length data); content' = content @ take m data in
     if failed then (written, Some ''write'', content')
     else if m = 0 then (written, Some ''short_write'', content')
     else write_all rest (drop m data) (written + m) content')"
  by (simp_all add: write_all.simps)

definition AppendRange :: "(nat \<times> bool) list \<Rightarrow> bool \<Rightarrow> string \<Rightarrow> Spool \<Rightarrow> (OutputRange \<times> goerr option) \<times> Spool" where
  "AppendRange outcomes synced data s =
     (if \<not> sp_open s \<or> data = [] then ((\<lparr>or_Start = 0, or_End = 0\<rparr>, Some (outputFailure ''invalid_append'')), s)
      else if int64 (sp_size s + int (length data)) > sp_max s
      then ((\<lparr>or_Start = sp_size s, or_End = sp_size s\<rparr>, Some (outputFailure ''output_limit'')), s)
      else case write_all outcomes data 0 (sp_content s) of (written, err, content) \<Rightarrow>
        let s1 = s\<lparr>sp_content := content\<rparr>; short = \<lparr>or_Start = sp_size s, or_End = int64 (sp_size s + int written)\<rparr> in
        (case err of
           Some reason \<Rightarrow> ((short, Some (outputFailure reason)), s1)
         | None \<Rightarrow>
             if \<not> synced then ((short, Some (outputFailure ''sync'')), s1)
             else let size = int64 (sp_size s + int written) in
               ((\<lparr>or_Start = sp_size s, or_End = size\<rparr>, None), s1\<lparr>sp_size := size\<rparr>)))"

text \<open>\<open>readable\<close>: \<open>ReadAt\<close> gives the bytes of the file from the offset on, or an error other than the end of the file.\<close>

definition ReadRange :: "bool \<Rightarrow> int \<Rightarrow> int \<Rightarrow> Spool \<Rightarrow> (string \<times> int) result" where
  "ReadRange readable offset maxBytes s =
     (if \<not> sp_open s \<or> offset < 0 \<or> offset > sp_size s \<or> maxBytes < 0 \<or> maxBytes > MaxOutputBytes
      then Inl (outputFailure ''range'')
      else let n = min maxBytes (sp_size s - offset) in
        if n = 0 then Inr ([], sp_size s)
        else if \<not> readable then Inl (outputFailure ''read'')
        else Inr (take (nat n) (drop (nat offset) (sp_content s)), sp_size s))"

definition Acknowledge :: "file_write \<Rightarrow> int \<Rightarrow> Spool \<Rightarrow> goerr option \<times> Spool" where
  "Acknowledge io offset s =
     (if \<not> sp_open s \<or> offset < sp_ack s \<or> offset > sp_size s then (Some (outputFailure ''ack_range''), s)
      else if offset = sp_ack s then (None, s)
      else let st = \<lparr>oa_SchemaVersion = 1, oa_Offset = offset\<rparr> in
        (case io of
           WriteFailed _ \<Rightarrow> (Some (outputFailure ''ack_write''), s)
         | WriteUnsynced _ \<Rightarrow> (Some (outputFailure ''ack_write''), s\<lparr>sp_ackfile := st\<rparr>)
         | WriteOk \<Rightarrow> (None, s\<lparr>sp_ack := offset, sp_ackfile := st\<rparr>)))"

definition CloseSpool :: "Spool \<Rightarrow> Spool" where
  "CloseSpool s = s\<lparr>sp_open := False\<rparr>"


section \<open>Runs\<close>

text \<open>
  The operations of a spool in any order, with every way their writes can turn out.  A reopening
  finds the bytes and the acknowledgement that are on disk; when it is refused there is no spool.
\<close>

datatype spool_op =
    SpAppend "(nat \<times> bool) list" bool string
  | SpAck file_write int
  | SpReopen

fun spool_step :: "spool_op \<Rightarrow> Spool \<Rightarrow> Spool" where
  "spool_step (SpAppend outcomes synced data) s = snd (AppendRange outcomes synced data s)"
| "spool_step (SpAck io offset) s = snd (Acknowledge io offset s)"
| "spool_step SpReopen s =
     (case OpenSpool None (sp_max s) (Some (sp_content s, True)) (FileState (sp_ackfile s)) of
        Inr s' \<Rightarrow> s' | Inl _ \<Rightarrow> CloseSpool s)"

definition spool_run :: "spool_op list \<Rightarrow> Spool \<Rightarrow> Spool" where
  "spool_run ops s = fold spool_step ops s"

lemma spool_run_simps [simp]: "spool_run [] s = s" "spool_run (op # ops) s = spool_run ops (spool_step op s)"
  by (simp_all add: spool_run_def)

text \<open>The sizes are far from the end of \<open>int64\<close>.\<close>

fun small_op :: "spool_op \<Rightarrow> bool" where
  "small_op (SpAppend _ _ data) \<longleftrightarrow> int (length data) < 2 ^ 62"
| "small_op _ \<longleftrightarrow> True"

definition spool_inv :: "Spool \<Rightarrow> bool" where
  "spool_inv s \<longleftrightarrow> 0 \<le> sp_ack s \<and> sp_ack s \<le> oa_Offset (sp_ackfile s) \<and> oa_Offset (sp_ackfile s) \<le> sp_size s \<and>
     sp_size s \<le> sp_max s \<and> sp_size s \<le> int (length (sp_content s)) \<and> sp_max s < 2 ^ 62 \<and> oa_SchemaVersion (sp_ackfile s) = 1"

lemma write_all_facts:
  "write_all outcomes data written content = (n, err, content') \<Longrightarrow>
    (\<exists>k \<le> length data. content' = content @ take k data \<and> n \<le> written + k \<and> (err = None \<longrightarrow> k = length data \<and> n = written + k))"
proof (induction outcomes data written content rule: write_all.induct)
  case (1 outcomes data written content)
  show ?case
  proof (cases "data = [] \<or> outcomes = []")
    case True
    with 1(2) show ?thesis by (auto simp: write_all_simps intro!: exI [of _ "length data"])
  next
    case False
    then obtain c failed rest where o: "outcomes = (c, failed) # rest" and d: "data \<noteq> []" by (cases outcomes) auto
    let ?m = "min c (length data)"
    show ?thesis
    proof (cases "failed \<or> ?m = 0")
      case True
      with 1(2) o d show ?thesis
        by (auto simp: write_all_simps Let_def split: if_splits intro!: exI [of _ ?m])
    next
      case False
      then have "write_all rest (drop ?m data) (written + ?m) (content @ take ?m data) = (n, err, content')"
        using 1(2) o d by (auto simp: write_all_simps Let_def min_def split: if_splits)
      from 1(1) [OF d o refl refl refl _ _ this] False obtain k where k: "k \<le> length data - ?m" "content' = content @ take ?m data @ take k (drop ?m data)"
        "n \<le> written + ?m + k" "err = None \<longrightarrow> k = length data - ?m \<and> n = written + ?m + k" by auto
      then show ?thesis by (intro exI [of _ "?m + k"]) (auto simp: take_add [symmetric])
    qed
  qed
qed

lemma AppendRange_inv:
  assumes "spool_inv s" "int (length data) < 2 ^ 62"
  shows "spool_inv (snd (AppendRange outcomes synced data s))"
proof -
  obtain n err content' where w: "write_all outcomes data 0 (sp_content s) = (n, err, content')" by (metis surj_pair)
  from write_all_facts [OF this] obtain k where k: "k \<le> length data" "content' = sp_content s @ take k data" "n \<le> k"
    "err = None \<longrightarrow> k = length data \<and> n = k" by auto
  have small: "int64 (sp_size s + int m) = sp_size s + int m" if "m \<le> length data" for m
    using assms that by (intro int64_id) (auto simp: spool_inv_def)
  show ?thesis
    using assms k small [of "length data"] small [of n] by (auto simp: AppendRange_def w Let_def spool_inv_def split: option.splits)
qed

lemma Acknowledge_inv: "spool_inv s \<Longrightarrow> spool_inv (snd (Acknowledge io offset s))"
  by (auto simp: Acknowledge_def spool_inv_def Let_def split: file_write.splits)

lemma OpenSpool_inv:
  assumes "OpenSpool layout_err maxBytes content ackfile = Inr s" "maxBytes < 2 ^ 62"
  shows "spool_inv s \<and> sp_max s = maxBytes \<and> sp_size s = int (length (sp_content s))"
  using assms by (auto simp: OpenSpool_def loadOutputAck_def spool_inv_def split: option.splits if_splits ledger_file.splits)

lemma reopen_inv: "spool_inv s \<Longrightarrow> spool_inv (spool_step SpReopen s)"
  by (auto simp: OpenSpool_def loadOutputAck_def spool_inv_def CloseSpool_def split: if_splits sum.splits)

lemma spool_step_inv: "spool_inv s \<Longrightarrow> small_op op \<Longrightarrow> spool_inv (spool_step op s)"
  using AppendRange_inv Acknowledge_inv reopen_inv by (cases op) auto

lemma spool_run_inv: "spool_inv s \<Longrightarrow> list_all small_op ops \<Longrightarrow> spool_inv (spool_run ops s)"
  by (induction ops arbitrary: s) (auto simp: spool_step_inv)

lemma spool_step_max: "sp_max (spool_step op s) = sp_max s"
  by (cases op) (auto simp: AppendRange_def Acknowledge_def OpenSpool_def CloseSpool_def Let_def split: prod.splits option.splits
      file_write.splits sum.splits if_splits)

lemma spool_run_max: "sp_max (spool_run ops s) = sp_max s"
  by (induction ops arbitrary: s) (auto simp: spool_step_max)

lemma spool_step_grows:
  assumes "spool_inv s" "small_op op"
  shows "sp_ack s \<le> sp_ack (spool_step op s) \<and> sp_size s \<le> sp_size (spool_step op s)"
proof (cases op)
  case (SpAppend outcomes synced data)
  obtain n err content' where w: "write_all outcomes data 0 (sp_content s) = (n, err, content')" by (metis surj_pair)
  from write_all_facts [OF this] have "n \<le> length data" by auto
  with assms SpAppend have "int64 (sp_size s + int n) = sp_size s + int n" by (intro int64_id) (auto simp: spool_inv_def)
  with SpAppend w show ?thesis by (auto simp: AppendRange_def Let_def split: option.splits)
next
  case (SpAck io offset)
  then show ?thesis by (auto simp: Acknowledge_def Let_def split: file_write.splits)
next
  case SpReopen
  with assms show ?thesis
    by (auto simp: OpenSpool_def loadOutputAck_def spool_inv_def CloseSpool_def split: if_splits sum.splits)
qed

lemma spool_run_grows:
  "spool_inv s \<Longrightarrow> list_all small_op ops \<Longrightarrow> sp_ack s \<le> sp_ack (spool_run ops s) \<and> sp_size s \<le> sp_size (spool_run ops s)"
proof (induction ops arbitrary: s)
  case (Cons op ops)
  then have "spool_inv (spool_step op s)" "small_op op" by (auto intro: spool_step_inv)
  with Cons spool_step_grows [of s op] show ?case by fastforce
qed simp

section \<open>Reading back\<close>

text \<open>Writes that complete: every \<open>Write\<close> makes progress without an error, and the file is synced.\<close>

fun clean_op :: "spool_op \<Rightarrow> bool" where
  "clean_op (SpAppend outcomes synced _) \<longleftrightarrow> synced \<and> list_all (\<lambda>(n, failed). 0 < n \<and> \<not> failed) outcomes"
| "clean_op _ \<longleftrightarrow> True"

definition aligned :: "Spool \<Rightarrow> bool" where
  "aligned s \<longleftrightarrow> sp_size s = int (length (sp_content s))"

lemma write_all_clean:
  "list_all (\<lambda>(n, failed). 0 < n \<and> \<not> failed) outcomes \<Longrightarrow>
    write_all outcomes data written content = (written + length data, None, content @ data)"
proof (induction outcomes arbitrary: data written content)
  case (Cons x outcomes)
  obtain n failed where x: "x = (n, failed)" by (cases x)
  show ?case
  proof (cases "data = []")
    case False
    with Cons x show ?thesis by (auto simp: write_all_simps Let_def min_def)
  qed (simp add: write_all_simps)
qed (simp add: write_all_simps)

lemma AppendRange_clean:
  assumes "spool_inv s" "small_op (SpAppend outcomes synced data)" "clean_op (SpAppend outcomes synced data)"
  shows "AppendRange outcomes synced data s =
    (if \<not> sp_open s \<or> data = [] then ((\<lparr>or_Start = 0, or_End = 0\<rparr>, Some (outputFailure ''invalid_append'')), s)
     else if sp_size s + int (length data) > sp_max s
     then ((\<lparr>or_Start = sp_size s, or_End = sp_size s\<rparr>, Some (outputFailure ''output_limit'')), s)
     else ((\<lparr>or_Start = sp_size s, or_End = sp_size s + int (length data)\<rparr>, None),
       s\<lparr>sp_content := sp_content s @ data, sp_size := sp_size s + int (length data)\<rparr>))"
proof -
  have "int64 (sp_size s + int (length data)) = sp_size s + int (length data)"
    using assms(1,2) by (intro int64_id) (auto simp: spool_inv_def)
  with assms(3) write_all_clean [of outcomes data 0 "sp_content s"] show ?thesis by (auto simp: AppendRange_def Let_def)
qed

lemma clean_step:
  assumes "spool_inv s" "aligned s" "small_op op" "clean_op op"
  shows "aligned (spool_step op s) \<and> (\<exists>more_data. sp_content (spool_step op s) = sp_content s @ more_data)"
proof (cases op)
  case (SpAppend outcomes synced data)
  with assms AppendRange_clean [of s outcomes synced data] show ?thesis by (auto simp: aligned_def)
next
  case (SpAck io offset)
  with assms(2) show ?thesis by (auto simp: Acknowledge_def aligned_def Let_def split: file_write.splits)
next
  case SpReopen
  with assms(2) show ?thesis
    by (auto simp: OpenSpool_def aligned_def CloseSpool_def loadOutputAck_def split: if_splits sum.splits)
qed

lemma clean_run:
  "spool_inv s \<Longrightarrow> aligned s \<Longrightarrow> list_all small_op ops \<Longrightarrow> list_all clean_op ops \<Longrightarrow>
    aligned (spool_run ops s) \<and> (\<exists>more_data. sp_content (spool_run ops s) = sp_content s @ more_data)"
proof (induction ops arbitrary: s)
  case (Cons op ops)
  have "spool_inv (spool_step op s)" using Cons.prems by (auto intro: spool_step_inv)
  moreover obtain e where "aligned (spool_step op s)" "sp_content (spool_step op s) = sp_content s @ e"
    using clean_step [of s op] Cons.prems by auto
  ultimately show ?case using Cons.IH [of "spool_step op s"] Cons.prems by auto
qed simp

text \<open>
  C18: The offsets of the output spool stay in bounds. From a spool that was opened, through any
  appends, acknowledgements and reopenings, whatever happens to their writes: the acknowledged
  offset never exceeds the one on disk, that one never exceeds the size of the spool, which never
  exceeds its limit nor the bytes that are in the file; and neither the acknowledged offset nor the
  size ever goes back.
\<close>

theorem spool_bounds:
  assumes "OpenSpool layout_err maxBytes content ackfile = Inr s0" "maxBytes < 2 ^ 62"
    and "list_all small_op ops" "s = spool_run ops s0"
  shows "0 \<le> sp_ack s \<and> sp_ack s \<le> oa_Offset (sp_ackfile s) \<and> oa_Offset (sp_ackfile s) \<le> sp_size s \<and>
    sp_size s \<le> maxBytes \<and> sp_size s \<le> int (length (sp_content s)) \<and> sp_ack s0 \<le> sp_ack s \<and> sp_size s0 \<le> sp_size s"
proof -
  note o = OpenSpool_inv [OF assms(1,2)]
  then have "spool_inv s" using assms(3,4) by (auto intro: spool_run_inv)
  moreover have "sp_max s = maxBytes" using o assms(4) by (simp add: spool_run_max)
  ultimately show ?thesis using o spool_run_grows [of s0 ops] assms(3,4) by (auto simp: spool_inv_def)
qed

definition example_spool :: Spool where
  "example_spool = \<lparr>sp_open = True, sp_max = 8, sp_size = 2, sp_ack = 1, sp_content = ''ab'',
     sp_ackfile = \<lparr>oa_SchemaVersion = 1, oa_Offset = 1\<rparr>\<rparr>"

lemma example_spool_open:
  "OpenSpool None 8 (Some (''ab'', True)) (FileState \<lparr>oa_SchemaVersion = 1, oa_Offset = 1\<rparr>) = Inr example_spool"
  by (simp add: OpenSpool_def loadOutputAck_def example_spool_def)

theorem spool_bounds_witness:
  "sp_size (spool_run [SpAppend [(1, False)] True ''cd'', SpAck WriteOk 3, SpAppend [] True ''efghi'', SpReopen] example_spool) \<le> 8 \<and>
   sp_ack (spool_run [SpAppend [(1, False)] True ''cd'', SpAck WriteOk 3, SpAppend [] True ''efghi'', SpReopen] example_spool) \<ge> 1"
  using spool_bounds [OF example_spool_open, of "[SpAppend [(1, False)] True ''cd'', SpAck WriteOk 3, SpAppend [] True ''efghi'', SpReopen]"]
  by (auto simp: example_spool_def)

text \<open>
  C16: Captured output is read back. Open a spool and run it with writes that complete; when an
  append then succeeds, its range is as long as its data, and after any further such operations,
  reopenings included, reading that range returns exactly the appended bytes.
\<close>

theorem spool_reads_back:
  assumes "OpenSpool layout_err maxBytes content ackfile = Inr s0" "maxBytes < 2 ^ 62"
    and "list_all small_op (before @ SpAppend outcomes synced data # after)"
      "list_all clean_op (before @ SpAppend outcomes synced data # after)"
    and "AppendRange outcomes synced data (spool_run before s0) = ((rng, None), s1)"
    and "sp_open (spool_run after s1)" "int (length data) \<le> MaxOutputBytes"
  shows "or_End rng = or_Start rng + int (length data) \<and>
    ReadRange True (or_Start rng) (int (length data)) (spool_run after s1) = Inr (data, sp_size (spool_run after s1))"
proof -
  let ?s = "spool_run before s0" and ?s2 = "spool_run after s1"
  note o = OpenSpool_inv [OF assms(1,2)]
  have inv: "spool_inv ?s" using o assms(3) by (auto intro: spool_run_inv)
  have al: "aligned ?s" using o assms(3,4) clean_run [of s0 before] by (auto simp: aligned_def)
  have app: "or_Start rng = sp_size ?s \<and> or_End rng = sp_size ?s + int (length data) \<and> data \<noteq> [] \<and>
      sp_content s1 = sp_content ?s @ data \<and> aligned s1"
    using assms(3-5) inv al by (subst (asm) AppendRange_clean) (auto simp: aligned_def split: if_splits)
  have "spool_inv s1" using AppendRange_inv [OF inv, of data outcomes synced] assms(3,5) by simp
  with app clean_run [of s1 after] assms(3,4) obtain e where e: "aligned ?s2" "sp_content ?s2 = sp_content ?s @ data @ e" by auto
  with al app assms(6,7) show ?thesis by (auto simp: ReadRange_def aligned_def min_def)
qed

theorem spool_reads_back_witness:
  "ReadRange True 2 3 (spool_run [SpReopen, SpAppend [] True ''fg''] (example_spool\<lparr>sp_content := ''abcde'', sp_size := 5\<rparr>)) = Inr (''cde'', 7)"
proof -
  have a: "AppendRange [(1, False)] True ''cde'' (spool_run [] example_spool) =
      ((\<lparr>or_Start = 2, or_End = 5\<rparr>, None), example_spool\<lparr>sp_content := ''abcde'', sp_size := 5\<rparr>)"
    by (simp add: AppendRange_def example_spool_def write_all_simps Let_def int64_def)
  show ?thesis
    using spool_reads_back [OF example_spool_open _ _ _ a, of "[SpReopen, SpAppend [] True ''fg'']"]
    by (simp add: example_spool_def MaxOutputBytes_def OpenSpool_def loadOutputAck_def AppendRange_def write_all_simps Let_def int64_def)
qed

text \<open>
  C33: After an append that fails part-way the spool is out of step with its file. The bytes that
  reached the file stay there but are not counted, and the next append lands after them: it
  succeeds, but reading the range it reports gives the remains of the failed append first, and the
  file is longer than the spool believes. (The capture loops go on appending after a failure.)
\<close>

theorem partial_append_shifts:
  assumes "spool_inv s" "aligned s" "sp_open s" "0 < k" "k < length lost" "data \<noteq> []"
    and "sp_size s + int (length lost) \<le> sp_max s" "sp_size s + int (length data) \<le> sp_max s" "int (length data) \<le> MaxOutputBytes"
    and "AppendRange [(k, True)] synced lost s = (r1, s1)" "AppendRange [] True data s1 = ((rng, err), s2)"
  shows "err = None \<and> rng = \<lparr>or_Start = sp_size s, or_End = sp_size s + int (length data)\<rparr> \<and>
    ReadRange True (or_Start rng) (int (length data)) s2 = Inr (take (length data) (take k lost @ data), sp_size s2) \<and>
    int (length (sp_content s2)) = sp_size s2 + int k"
proof -
  have small: "int64 (sp_size s + int n) = sp_size s + int n" if "sp_size s + int n \<le> sp_max s" for n
    using assms(1) that by (intro int64_id) (auto simp: spool_inv_def)
  have lost: "lost \<noteq> []" "min k (length lost) = k" using assms(5) by auto
  have "s1 = s\<lparr>sp_content := sp_content s @ take k lost\<rparr>"
    using assms(3,4,7,10) lost small [of "length lost"] by (auto simp: AppendRange_def write_all_simps Let_def)
  then have "rng = \<lparr>or_Start = sp_size s, or_End = sp_size s + int (length data)\<rparr> \<and> err = None \<and>
      s2 = s1\<lparr>sp_content := sp_content s @ take k lost @ data, sp_size := sp_size s + int (length data)\<rparr> \<and> sp_open s2"
    using assms(3,6,8,11) small [of "length data"] by (auto simp: AppendRange_def write_all_simps Let_def)
  with assms(1-6,9) show ?thesis by (auto simp: ReadRange_def aligned_def spool_inv_def min_def)
qed

theorem partial_append_shifts_witness:
  "\<exists>s1 s2. snd (AppendRange [(2, True)] True ''xyz'' example_spool) = s1 \<and> snd (AppendRange [] True ''cd'' s1) = s2 \<and>
    ReadRange True 2 2 s2 = Inr (''xy'', 4)"
proof -
  have a: "AppendRange [(2, True)] True ''xyz'' example_spool =
      ((\<lparr>or_Start = 2, or_End = 2\<rparr>, Some (outputFailure ''write'')), example_spool\<lparr>sp_content := ''abxy''\<rparr>)"
    by (simp add: AppendRange_def example_spool_def write_all_simps Let_def int64_def)
  have b: "AppendRange [] True ''cd'' (example_spool\<lparr>sp_content := ''abxy''\<rparr>) =
      ((\<lparr>or_Start = 2, or_End = 4\<rparr>, None), example_spool\<lparr>sp_content := ''abxycd'', sp_size := 4\<rparr>)"
    by (simp add: AppendRange_def example_spool_def write_all_simps Let_def int64_def)
  have "ReadRange True 2 2 (example_spool\<lparr>sp_content := ''abxycd'', sp_size := 4\<rparr>) = Inr (''xy'', 4)"
    using partial_append_shifts [OF _ _ _ _ _ _ _ _ _ a b]
    by (simp add: spool_inv_def aligned_def example_spool_def MaxOutputBytes_def)
  then show ?thesis by (simp add: a b)
qed

end
