(* ===== verification/MutationFiles.thy ===== *)
theory MutationFiles
  imports StoreRuns
begin

text \<open>
  The mutation ledger under every operation of the store: only reserving and completing a mutation
  touch it, and neither ever removes a record.
\<close>

named_theorems mutation_frames \<open>operations that leave the mutation ledger alone\<close>

lemma now_mutations [mutation_frames]: "now r = (t, r') \<Longrightarrow> rp_mutations r' = rp_mutations r"
  by (auto simp: now_def split: list.splits)

lemma file_mutations [mutation_frames]:
  "replace_binding r k b = (res, r') \<Longrightarrow> rp_mutations r' = rp_mutations r"
  "create_binding r k b = (res, r') \<Longrightarrow> rp_mutations r' = rp_mutations r"
  "create_lease r k l = (res, r') \<Longrightarrow> rp_mutations r' = rp_mutations r"
  "create_ref r k p = (res, r') \<Longrightarrow> rp_mutations r' = rp_mutations r"
  "create_control r s k c = (res, r') \<Longrightarrow> rp_mutations r' = rp_mutations r"
  "replace_control r s k c = (res, r') \<Longrightarrow> rp_mutations r' = rp_mutations r"
  "create_provenance r k v = (res, r') \<Longrightarrow> rp_mutations r' = rp_mutations r"
  "create_record r k w = (res, r') \<Longrightarrow> rp_mutations r' = rp_mutations r"
  "replace_record r k w = (res, r') \<Longrightarrow> rp_mutations r' = rp_mutations r"
  "create_transaction r k tx = (res, r') \<Longrightarrow> rp_mutations r' = rp_mutations r"
  "removeHandoffTransactionLocked r k = (e, r') \<Longrightarrow> rp_mutations r' = rp_mutations r"
  "removeDelegatedRecoveryMarkerLocked r k = (e, r') \<Longrightarrow> rp_mutations r' = rp_mutations r"
  "prepareExecutionObservation r = (y, r') \<Longrightarrow> rp_mutations r' = rp_mutations r"
  by (auto simp: replace_binding_def create_binding_def create_lease_def create_ref_def create_control_def replace_control_def
      create_provenance_def create_record_def replace_record_def create_transaction_def removeHandoffTransactionLocked_def
      removeDelegatedRecoveryMarkerLocked_def prepareExecutionObservation_def split: prod.splits list.splits)

lemma fold_obs_mutations:
  "rp_mutations (fold abortObservationBestEffort seqs r) = rp_mutations r"
  "rp_mutations (fold commitObservationBestEffort seqs r) = rp_mutations r"
  by (induction seqs arbitrary: r) (simp_all add: abortObservationBestEffort_def commitObservationBestEffort_def)

lemma prepare_loop_mutations: "prepare_loop r seqs specs = (x, r') \<Longrightarrow> rp_mutations r' = rp_mutations r"
proof (induction r seqs specs rule: prepare_loop.induct)
  case (2 r seqs spec specs)
  obtain seq res r1 where p: "prepareExecutionObservation r = ((seq, res), r1)" by (metis surj_pair)
  with 2 file_mutations(13) [OF p] show ?case by (auto split: if_splits simp: fold_obs_mutations)
qed auto

lemma observations_mutations [mutation_frames]:
  "prepareHandoffObservations r specs = (x, r') \<Longrightarrow> rp_mutations r' = rp_mutations r"
  "finishHandoffObservations seqs res f r = (res', r') \<Longrightarrow> rp_mutations r' = rp_mutations r"
  by (auto simp: prepareHandoffObservations_def finishHandoffObservations_def Let_def fold_obs_mutations
      split: if_splits dest: prepare_loop_mutations)

lemma transaction_mutations [mutation_frames]:
  "move_binding reason tx r = (y, r') \<Longrightarrow> rp_mutations r' = rp_mutations r"
  "drop_transaction tx created r = (z, r') \<Longrightarrow> rp_mutations r' = rp_mutations r"
  by (auto simp: move_binding_def drop_transaction_def split: sum.splits if_splits prod.splits option.splits dest!: mutation_frames)

lemma finish_mutations [mutation_frames]:
  "finishHandoffTransactionLocked tx created r = (z, r') \<Longrightarrow> rp_mutations r' = rp_mutations r"
  "finishHandoffAdvanceTransactionLocked tx r = (z, r') \<Longrightarrow> rp_mutations r' = rp_mutations r"
  by (auto simp: finishHandoffTransactionLocked_def finishHandoffAdvanceTransactionLocked_def Let_def
      split: sum.splits if_splits prod.splits option.splits dest!: mutation_frames)

lemma reconcile_mutations [mutation_frames]:
  "reconcileHandoffTransactionLocked r i = (z, r') \<Longrightarrow> rp_mutations r' = rp_mutations r"
  by (auto simp: reconcileHandoffTransactionLocked_def split: sum.splits if_splits prod.splits option.splits dest!: mutation_frames)

lemma reserve_new_handoff_mutations [mutation_frames]:
  "reserve_new_handoff req initial b r = (z, r') \<Longrightarrow> rp_mutations r' = rp_mutations r"
  by (auto simp: reserve_new_handoff_def Let_def split: if_splits prod.splits option.splits dest!: mutation_frames)

lemma ReserveHandoff_mutations: "ReserveHandoff sha ctx req st r = (z, r') \<Longrightarrow> rp_mutations r' = rp_mutations r"
  by (auto simp: ReserveHandoff_def split: sum.splits if_splits prod.splits option.splits dest!: mutation_frames)

lemma advance_mutations [mutation_frames]:
  "advance_with_binding want rec b seqs r = (z, r') \<Longrightarrow> rp_mutations r' = rp_mutations r"
  by (auto simp: advance_with_binding_def Let_def split: sum.splits if_splits prod.splits option.splits dest!: mutation_frames)

lemma advance_loaded_mutations [mutation_frames]:
  assumes "advance_loaded want r = (z, r')"
  shows "rp_mutations r' = rp_mutations r"
proof (cases "r' = r")
  case False
  from advance_loaded_cases [OF assms this] obtain rec b seqs prepared r1 where
    "prepareHandoffObservations r (handoffAdvanceObservationSpecs (hr_State rec) want) = ((seqs, prepared), r1)"
    "r' = r1 \<or> advance_with_binding want rec b seqs r1 = (z, r')" by metis
  then show ?thesis by (auto dest!: mutation_frames)
qed simp

lemma AdvanceHandoff_mutations: "AdvanceHandoff ctx want r = (z, r') \<Longrightarrow> rp_mutations r' = rp_mutations r"
  by (auto simp: AdvanceHandoff_def Let_def split: sum.splits if_splits prod.splits option.splits dest!: mutation_frames)

lemma RecoverHandoff_mutations:
  "RecoverHandoff ctx i r = (z, r') \<Longrightarrow> rp_mutations r' = rp_mutations r"
  by (auto simp: RecoverHandoff_def Let_def split: sum.splits if_splits prod.splits option.splits dest!: mutation_frames)

lemma reconcile_loop_mutations: "reconcile_loop r is = (z, r') \<Longrightarrow> rp_mutations r' = rp_mutations r"
  by (induction r "is" arbitrary: z r' rule: reconcile_loop.induct)
    (auto split: sum.splits if_splits prod.splits option.splits dest!: mutation_frames)

lemma reconcileHandoffTransactions_mutations:
  "reconcileHandoffTransactions ctx r = (z, r') \<Longrightarrow> rp_mutations r' = rp_mutations r"
  by (auto simp: reconcileHandoffTransactions_def split: option.splits dest: reconcile_loop_mutations)

lemma control_mutations:
  "ReserveControlSignal ctx g r = (y, r') \<Longrightarrow> rp_mutations r' = rp_mutations r"
  "CompleteControlSignal ctx g out r = (w, r') \<Longrightarrow> rp_mutations r' = rp_mutations r"
  "MarkHumanWriteAuthorityGranted ctx sid r = (z, r') \<Longrightarrow> rp_mutations r' = rp_mutations r"
  by (auto simp: ReserveControlSignal_def CompleteControlSignal_def MarkHumanWriteAuthorityGranted_def Let_def
      split: sum.splits if_splits prod.splits option.splits dest!: mutation_frames)

lemma lease_mutations:
  "AcquireContextExecLease sha ee ctx sid epoch x f r = (y, r') \<Longrightarrow> rp_mutations r' = rp_mutations r"
  "ReleaseContextExecLease sha ctx lease r = (z, r') \<Longrightarrow> rp_mutations r' = rp_mutations r"
  by (auto simp: AcquireContextExecLease_def ReleaseContextExecLease_def Let_def
      split: sum.splits if_splits prod.splits option.splits dest!: mutation_frames)

lemma AdvanceDelegatedBinding_mutations: "AdvanceDelegatedBinding ctx want r = (y, r') \<Longrightarrow> rp_mutations r' = rp_mutations r"
  by (auto simp: AdvanceDelegatedBinding_def Let_def split: sum.splits if_splits prod.splits option.splits dest!: mutation_frames)

lemma recover_mutations [mutation_frames]:
  "restore_binding marker r sid = (x, r') \<Longrightarrow> rp_mutations r' = rp_mutations r"
  "restore_ref marker r sid = (y, r') \<Longrightarrow> rp_mutations r' = rp_mutations r"
  by (auto simp: restore_binding_def restore_ref_def split: sum.splits if_splits prod.splits dest!: mutation_frames)

lemma recover_candidate_mutations [mutation_frames]:
  "recover_candidate r sid = (x, r') \<Longrightarrow> rp_mutations r' = rp_mutations r"
  using file_mutations(12) [OF surjective_pairing]
  by (auto simp: recover_candidate_def split: sum.splits if_splits prod.splits option.splits Lifecycle.splits dest!: mutation_frames)

lemma recover_loop_mutations [mutation_frames]: "recover_loop r sids = (x, r') \<Longrightarrow> rp_mutations r' = rp_mutations r"
  by (induction sids arbitrary: r x r') (fastforce split: sum.splits prod.splits option.splits dest!: mutation_frames)+

lemma ListDelegatedRecoveryCandidates_mutations:
  "ListDelegatedRecoveryCandidates ctx n r = (x, r') \<Longrightarrow> rp_mutations r' = rp_mutations r"
  by (auto simp: ListDelegatedRecoveryCandidates_def split: option.splits if_splits sum.splits prod.splits dest!: mutation_frames)

lemma reserve_mutations [mutation_frames]:
  "ensureDelegatedRecoveryMarkerLocked r m = (x, r') \<Longrightarrow> rp_mutations r' = rp_mutations r"
  "ensureDelegatedProviderRefLocked r p = (x, r') \<Longrightarrow> rp_mutations r' = rp_mutations r"
  by (auto simp: ensureDelegatedRecoveryMarkerLocked_def ensureDelegatedProviderRefLocked_def Let_def
      split: option.splits if_splits sum.splits prod.splits dest!: mutation_frames)

lemma finish_reserve_mutations [mutation_frames]: "finish_reserve r prior want = (x, r') \<Longrightarrow> rp_mutations r' = rp_mutations r"
  by (auto simp: finish_reserve_def Let_def split: if_splits sum.splits prod.splits dest!: mutation_frames)

lemma reserve_files_mutations [mutation_frames]: "reserve_files r want ref = (x, r') \<Longrightarrow> rp_mutations r' = rp_mutations r"
  by (auto simp: reserve_files_def Let_def split: if_splits prod.splits dest!: mutation_frames)

lemma ReserveDelegatedBinding_mutations:
  "ReserveDelegatedBinding load ctx want ref r = (x, r') \<Longrightarrow> rp_mutations r' = rp_mutations r"
  by (auto simp: ReserveDelegatedBinding_def split: if_splits option.splits sum.splits dest!: mutation_frames)

section \<open>Records are never removed\<close>

definition mutation_file :: "(string \<Rightarrow> string) \<Rightarrow> Repository \<Rightarrow> MutationIdentity \<Rightarrow> bool" where
  "mutation_file sha r i \<longleftrightarrow> map_of (rp_mutations r (mi_SessionID i)) (delegatedMutationKey sha i) \<noteq> None"

lemma mutation_file_logical: "sameDelegatedMutationLogicalIdentity i j \<Longrightarrow> mutation_file sha r i \<longleftrightarrow> mutation_file sha r j"
  by (simp add: mutation_file_def sameDelegatedMutationLogicalIdentity_def delegatedMutationKey_def)

lemma mutation_file_same: "rp_mutations r' = rp_mutations r \<Longrightarrow> mutation_file sha r' i \<longleftrightarrow> mutation_file sha r i"
  by (simp add: mutation_file_def)

lemma ReserveDelegatedMutation_files:
  assumes "ReserveDelegatedMutation sha ctx i r = ((m, created, res), r')"
  shows "mutation_file sha r j \<Longrightarrow> mutation_file sha r' j" "created \<Longrightarrow> \<not> mutation_file sha r i \<and> mutation_file sha r' i"
proof -
  obtain t r1 where n: "now r = (t, r1)" by fastforce
  let ?rec = "\<lparr>mr_SchemaVersion = MutationRecordSchemaVersion, mr_Identity = i, mr_State = MutationReserved,
    mr_Outcome = [], mr_CreatedAt = t, mr_UpdatedAt = t\<rparr>"
  obtain cres r2 where c: "create_mutation r1 (mi_SessionID i) (delegatedMutationKey sha i) ?rec = (cres, r2)" by fastforce
  have r': "r' = r \<and> \<not> created \<or> r' = r2 \<and> (created \<longrightarrow> sr_Err cres = None)"
    using assms n c by (auto simp: ReserveDelegatedMutation_def Let_def split: option.splits sum.splits if_splits)
  note same = now_mutations [OF n] and cases = create_mutation_cases [OF c]
  show "mutation_file sha r' j" if "mutation_file sha r j"
    using that r' cases same by (auto simp: mutation_file_def map_of_put_file)
  show "\<not> mutation_file sha r i \<and> mutation_file sha r' i" if created
    using that r' cases same by (auto simp: mutation_file_def map_of_put_file)
qed

lemma CompleteDelegatedMutation_files:
  assumes "CompleteDelegatedMutation sha ctx i st outcome r = ((m, res), r')" "mutation_file sha r j"
  shows "mutation_file sha r' j"
  using CompleteDelegatedMutation_cases [OF assms(1)] assms(2) by (auto simp: mutation_file_def map_of_put_file)

lemmas store_mutations = ReserveDelegatedBinding_mutations AdvanceDelegatedBinding_mutations ListDelegatedRecoveryCandidates_mutations
  lease_mutations ReserveHandoff_mutations AdvanceHandoff_mutations RecoverHandoff_mutations reconcileHandoffTransactions_mutations
  control_mutations

lemma store_step_files:
  assumes "mutation_file sha r i"
  shows "mutation_file sha (store_step sha op r) i"
proof (cases op)
  case (ReserveMutationOp ctx j)
  with assms show ?thesis by (metis ReserveDelegatedMutation_files(1) store_step.simps(4) prod.collapse)
next
  case (CompleteMutationOp ctx j st out)
  with assms show ?thesis by (metis CompleteDelegatedMutation_files store_step.simps(5) prod.collapse)
qed (use assms in \<open>simp_all add: mutation_file_def store_mutations [OF surjective_pairing]\<close>)

lemma store_run_files: "mutation_file sha r i \<Longrightarrow> mutation_file sha (store_run sha ops r) i"
  by (induction ops arbitrary: r) (simp_all add: store_step_files)

end
