(* ===== verification/DelegatedLane.thy ===== *)
theory DelegatedLane
  imports DelegatedControl MutationFiles AuthorityProps
begin

text \<open>
  What the lane of a delegated session guarantees about the agent's input: each mutation reaches
  the provider at most once, and only while the agent owns the session.
\<close>

section \<open>Counting provider calls\<close>

text \<open>Any provider, with a count of the writes and signals it is given.\<close>

definition counted :: "'p AgentRuntime \<Rightarrow> ('p \<times> nat) AgentRuntime" where
  "counted R =
     \<lparr>ar_Inspect = (\<lambda>ref (p, n). case ar_Inspect R ref p of (x, p') \<Rightarrow> (x, (p', n))),
      ar_Write = (\<lambda>ref data (p, n). case ar_Write R ref data p of (x, p') \<Rightarrow> (x, (p', Suc n))),
      ar_Signal = (\<lambda>ref sig (p, n). case ar_Signal R ref sig p of (x, p') \<Rightarrow> (x, (p', Suc n)))\<rparr>"

abbreviation calls :: "('p \<times> nat) lane \<Rightarrow> nat" where
  "calls s \<equiv> snd (ln_provider s)"

text \<open>A relation between the states before and after that every step of an action keeps.\<close>

locale step_relation =
  fixes rel :: "'s \<Rightarrow> 's \<Rightarrow> bool"
  assumes rel_refl: "rel s s" and rel_trans: "rel s s1 \<Longrightarrow> rel s1 s2 \<Longrightarrow> rel s s2"
begin

definition keeps :: "('s, 'a) act \<Rightarrow> bool" where
  "keeps m \<longleftrightarrow> (\<forall>s. rel s (snd (m s)))"

lemma keeps_basic: "keeps (ret x)" "keeps (raise e)"
  by (simp_all add: keeps_def act_defs rel_refl)

lemma keeps_seq: "keeps m \<Longrightarrow> (\<And>x. keeps (f x)) \<Longrightarrow> keeps (seq_act m f)"
  unfolding keeps_def seq_act_def by (auto split: prod.splits outcome.splits) (metis rel_trans snd_conv)+

lemma keeps_try: "keeps m \<Longrightarrow> (\<And>x. keeps (f x)) \<Longrightarrow> keeps (try_act m f)"
  unfolding keeps_def try_act_def by (auto split: prod.splits outcome.splits) (metis rel_trans snd_conv)+

lemma keeps_normalized: "keeps m \<Longrightarrow> keeps (normalized m)"
  unfolding keeps_def normalized_def by (auto split: prod.splits outcome.splits) (metis snd_conv)+

lemma keeps_cases:
  "keeps m \<Longrightarrow> keeps k \<Longrightarrow> keeps (if b then m else k)"
  "keeps m \<Longrightarrow> keeps (fail_if b e m)"
  "keeps a \<Longrightarrow> (\<And>x. keeps (h x)) \<Longrightarrow> keeps (case v of None \<Rightarrow> a | Some x \<Rightarrow> h x)"
  "(\<And>x. keeps (c x)) \<Longrightarrow> (\<And>x. keeps (d x)) \<Longrightarrow> keeps (case w of Inl x \<Rightarrow> c x | Inr x \<Rightarrow> d x)"
  "(\<And>x y. keeps (g x y)) \<Longrightarrow> keeps (case z of (x, y) \<Rightarrow> g x y)"
  by (simp_all add: fail_if_def keeps_basic split: option.splits sum.splits prod.splits)

lemmas keeps_rules = keeps_basic keeps_seq keeps_try keeps_normalized keeps_cases

end

text \<open>An action that works on the store only through its operations.\<close>

definition by_store :: "(string \<Rightarrow> string) \<Rightarrow> 'p lane \<Rightarrow> 'p lane \<Rightarrow> bool" where
  "by_store sha s s' \<longleftrightarrow> (\<exists>ops. ln_store s' = store_run sha ops (ln_store s))"

interpretation stored: step_relation "by_store sha"
proof
  show "by_store sha s s" for s unfolding by_store_def by (intro exI [of _ "[]"]) simp
  show "by_store sha s s2" if "by_store sha s s1" "by_store sha s1 s2" for s s1 s2
    using that unfolding by_store_def by (metis comp_apply fold_append)
qed

text \<open>An action that neither writes to the provider nor signals it, nor changes the live session.\<close>

definition silent :: "('p \<times> nat) lane \<Rightarrow> ('p \<times> nat) lane \<Rightarrow> bool" where
  "silent s s' \<longleftrightarrow> calls s' = calls s \<and> ln_live s' = ln_live s"

interpretation silent: step_relation silent
  by unfold_locales (auto simp: silent_def)

lemma stored_calls:
  "stored.keeps sha (store_read f)" "stored.keeps sha (provider_call g)" "stored.keeps sha (inspect_live R)" "stored.keeps sha (load_binding ctx sid)"
  by (auto simp: stored.keeps_def by_store_def store_read_def provider_call_def inspect_live_def load_binding_def normalized_def
      intro: exI [of _ "[]"] split: sum.splits prod.splits)

lemma stored_mutations:
  "stored.keeps sha (reserve_mutation sha ctx i)" "stored.keeps sha (complete_mutation sha i st out)"
proof -
  have "ln_store (snd (reserve_mutation sha ctx i s)) = store_run sha [ReserveMutationOp (ctx (ln_provider s)) i] (ln_store s)" for s :: "'a lane"
    by (simp add: reserve_mutation_def split: prod.splits)
  then show "stored.keeps sha (reserve_mutation sha ctx i)" unfolding stored.keeps_def by_store_def by blast
  have "ln_store (snd (complete_mutation sha i st out s)) = store_run sha [CompleteMutationOp None i st out] (ln_store s)" for s :: "'b lane"
    by (simp add: complete_mutation_def split: prod.splits)
  then show "stored.keeps sha (complete_mutation sha i st out :: ('b lane, unit) act)" unfolding stored.keeps_def by_store_def by blast
qed

lemma silent_calls:
  "silent.keeps (store_read f)" "silent.keeps (inspect_live (counted R))" "silent.keeps (load_binding ctx sid)"
  "silent.keeps (reserve_mutation sha ctx i)" "silent.keeps (complete_mutation sha i st out)"
  by (auto simp: silent.keeps_def silent_def store_read_def provider_call_def inspect_live_def load_binding_def normalized_def counted_def
      reserve_mutation_def complete_mutation_def split: sum.splits prod.splits)

lemma admit_silent: "silent.keeps (admitDelegatedMutation sha ctx (counted R) i pre)"
  unfolding admitDelegatedMutation_def admit_unseen_def by (intro silent.keeps_rules silent_calls)

lemma reconcileUnknown_silent: "silent.keeps (reconcileUnknownDelegatedMutation (counted R) rec)"
  unfolding reconcileUnknownDelegatedMutation_def by (intro silent.keeps_rules silent_calls)

lemma admit_stored: "stored.keeps sha (admitDelegatedMutation sha ctx R i pre)"
  unfolding admitDelegatedMutation_def admit_unseen_def by (intro stored.keeps_rules stored_calls stored_mutations)

lemma replay_silent:
  "silent.keeps (replayDelegatedWrite (counted R) wreq rec)" "silent.keeps (replayDelegatedKill (counted R) kreq rec)"
  unfolding replayDelegatedWrite_def replayDelegatedKill_def
  by (intro silent.keeps_cases(1) silent.keeps_seq reconcileUnknown_silent silent.keeps_basic; simp add: silent.keeps_def silent_def ret_def)+

lemma replay_stored:
  "stored.keeps sha (replayDelegatedWrite R wreq rec)" "stored.keeps sha (replayDelegatedKill R kreq rec)"
  unfolding replayDelegatedWrite_def replayDelegatedKill_def reconcileUnknownDelegatedMutation_def
  by (intro stored.keeps_rules stored_calls; simp add: stored.keeps_def by_store_def ret_def exI [of _ "[]"])+

lemma stored_live: "stored.keeps sha (\<lambda>s. ret (f s) (s\<lparr>ln_live := g (ln_live s)\<rparr>))"
  by (simp add: stored.keeps_def by_store_def ret_def exI [of _ "[]"])

lemma deliver_stored:
  "stored.keeps sha (deliver_write sha R wreq)" "stored.keeps sha (deliver_kill sha R kreq)"
  unfolding deliver_write_def deliver_kill_def
  by (intro stored.keeps_try stored.keeps_cases stored.keeps_seq stored.keeps_basic stored_mutations stored_live;
      simp add: stored.keeps_def by_store_def provider_call_def exI [of _ "[]"] split: prod.splits sum.splits)+

lemma deliver_calls:
  "calls (snd (deliver_write sha (counted R) wreq s)) = Suc (calls s)"
  "calls (snd (deliver_kill sha (counted R) kreq s)) = Suc (calls s)"
  by (auto simp: deliver_write_def deliver_kill_def act_defs provider_call_def counted_def complete_mutation_def
      split: prod.splits sum.splits option.splits)

section \<open>Admission\<close>

lemma seq_act_Ok:
  assumes "seq_act m f s = (Ok y, s')"
  obtains x s1 where "m s = (Ok x, s1)" "f x s1 = (Ok y, s')"
  using assms by (auto simp: seq_act_def split: prod.splits outcome.splits)

lemma read_Ok: "store_read f s = (Ok x, s1) \<longleftrightarrow> f s = Inr x \<and> s1 = s"
  by (auto simp: store_read_def split: sum.splits)

lemma normalized_Ok [simp]: "normalized m s = (Ok x, s1) \<longleftrightarrow> m s = (Ok x, s1)"
  by (auto simp: normalized_def split: prod.splits outcome.splits)

lemma inspect_store: "inspect_live R s = (x, s1) \<Longrightarrow> ln_store s1 = ln_store s"
  by (auto simp: inspect_live_def provider_call_def split: prod.splits sum.splits)

lemma fail_if_Ok: "fail_if b e m s = (Ok x, s1) \<longleftrightarrow> \<not> b \<and> m s = (Ok x, s1)"
  by (simp add: fail_if_def raise_def)

lemma reserve_Ok:
  assumes "reserve_mutation sha ctx i s = (Ok (rec, False), s1)"
  shows "\<not> mutation_file sha (ln_store s) i \<and> mutation_file sha (ln_store s1) i \<and>
    (\<exists>b. loadDelegatedBindingLocked (ln_store s) (mi_SessionID i) = Inr b \<and> bd_Lifecycle b = LifecycleLive \<and>
      bd_DesiredOwner b = OwnerAgent \<and> bd_AuthorityEpoch b = mi_Epoch i)"
proof -
  from assms obtain m res where r: "ReserveDelegatedMutation sha (ctx (ln_provider s)) i (ln_store s) = ((m, True, res), ln_store s1)"
    by (auto simp: reserve_mutation_def split: prod.splits option.splits)
  from ReserveDelegatedMutation_files(2) [OF r] ReserveDelegatedMutation_created [OF r] show ?thesis by blast
qed

text \<open>A mutation is sent on only when it has no record yet, has one then, and the agent owns the session at its epoch.\<close>

lemma admitted:
  assumes "admitDelegatedMutation sha ctx R i pre s = (Ok (rec, False), s1)"
  shows "pre (ln_live s) = None \<and> \<not> mutation_file sha (ln_store s) i \<and> mutation_file sha (ln_store s1) i \<and>
    (\<exists>b. loadDelegatedBindingLocked (ln_store s) (mi_SessionID i) = Inr b \<and> bd_Lifecycle b = LifecycleLive \<and>
      bd_DesiredOwner b = OwnerAgent \<and> bd_AuthorityEpoch b = mi_Epoch i)"
proof -
  from assms have "admit_unseen sha ctx R i pre s = (Ok (rec, False), s1)"
    unfolding admitDelegatedMutation_def by (elim seq_act_Ok) (auto simp: read_Ok split: option.splits sum.splits)
  then obtain binding obs decision s2 where p: "pre (ln_live s) = None" and o: "inspect_live R s = (Ok obs, s2)"
    and d: "DecideMutation None i \<lparr>mc_CurrentEpoch = bd_AuthorityEpoch binding, mc_CurrentOwner = ea_Owner (observed_authority binding obs)\<rparr> = Inr decision"
    and m: "reserve_mutation sha ctx (mr_Identity (ad_Record decision)) s2 = (Ok (rec, False), s1)"
    unfolding admit_unseen_def by (elim seq_act_Ok) (auto simp: read_Ok fail_if_Ok load_binding_def elim!: seq_act_Ok)
  from d have "mr_Identity (ad_Record decision) = i"
    by (auto simp: DecideMutation_def identity_record_def split: option.splits if_splits)
  with m p reserve_Ok [of sha ctx i s2 rec s1] inspect_store [OF o] show ?thesis by simp
qed

section \<open>Requests and runs\<close>

text \<open>A request either stays silent, or makes one call under a mutation that was new and is recorded.\<close>

definition owned_by_agent :: "Repository \<Rightarrow> MutationIdentity \<Rightarrow> bool" where
  "owned_by_agent r i \<longleftrightarrow> (\<exists>b. loadDelegatedBindingLocked r (mi_SessionID i) = Inr b \<and> bd_Lifecycle b = LifecycleLive \<and>
     bd_DesiredOwner b = OwnerAgent \<and> bd_AuthorityEpoch b = mi_Epoch i)"

definition request_effect :: "(string \<Rightarrow> string) \<Rightarrow> MutationIdentity \<Rightarrow> (liveSession \<Rightarrow> goerr option)
    \<Rightarrow> ('p \<times> nat) lane \<Rightarrow> ('p \<times> nat) lane \<Rightarrow> bool" where
  "request_effect sha i pre s s' \<longleftrightarrow> calls s' = calls s \<or>
     calls s' = Suc (calls s) \<and> pre (ln_live s) = None \<and> owned_by_agent (ln_store s) i \<and>
     \<not> mutation_file sha (ln_store s) i \<and> mutation_file sha (ln_store s') i"

lemma request_effect:
  assumes "\<And>rec. silent.keeps (rp rec)" "\<And>s. calls (snd (dl s)) = Suc (calls s)" "stored.keeps sha dl"
  shows "request_effect sha i pre s (snd (seq_act (admitDelegatedMutation sha ctx (counted R) i pre)
    (\<lambda>(rec, replay). if replay then rp rec else dl) s))"
proof -
  obtain out s1 where a: "admitDelegatedMutation sha ctx (counted R) i pre s = (out, s1)" by fastforce
  have quiet: "calls s1 = calls s" using admit_silent [of sha ctx R i pre] a by (simp add: silent.keeps_def silent_def) (metis snd_conv)
  consider (fresh) rec where "out = Ok (rec, False)" | (replay) rec where "out = Ok (rec, True)"
    | (failed) "\<And>x. out \<noteq> Ok x" by (cases out) auto
  then show ?thesis
  proof cases
    case fresh
    from assms(3) obtain ops where "ln_store (snd (dl s1)) = store_run sha ops (ln_store s1)"
      by (auto simp: stored.keeps_def by_store_def)
    with admitted [of sha ctx "counted R" i pre s rec s1] a fresh assms(2) [of s1] quiet show ?thesis
      by (auto simp: request_effect_def seq_act_def owned_by_agent_def store_run_files)
  next
    case replay
    with a quiet assms(1) [of rec] show ?thesis by (auto simp: request_effect_def seq_act_def silent.keeps_def silent_def)
  next
    case failed
    with a quiet show ?thesis by (cases out) (auto simp: request_effect_def seq_act_def)
  qed
qed

lemma raise_effect: "request_effect sha i pre s (snd (raise e s))"
  by (simp add: request_effect_def raise_def)

lemma write_effect: "request_effect sha (write_identity sha req) (writable req) s (snd (writeDelegated sha ctx (counted R) req s))"
  using request_effect [of "replayDelegatedWrite (counted R) req" "deliver_write sha (counted R) req" sha "write_identity sha req" "writable req" s ctx R]
  by (simp add: writeDelegated_def raise_effect replay_silent deliver_calls deliver_stored)

lemma kill_effect: "request_effect sha (kill_identity sha req) killable s (snd (killDelegated sha ctx (counted R) req s))"
  using request_effect [of "replayDelegatedKill (counted R) req" "deliver_kill sha (counted R) req" sha "kill_identity sha req" killable s ctx R]
  by (simp add: killDelegated_def raise_effect replay_silent deliver_calls deliver_stored)

lemma requests_stored: "stored.keeps sha (writeDelegated sha ctx R wreq)" "stored.keeps sha (killDelegated sha ctx R kreq)"
  unfolding writeDelegated_def killDelegated_def by (intro stored.keeps_rules admit_stored replay_stored deliver_stored)+

text \<open>
  Requests to the lane in any order; between them any operation of the store (handoffs, recovery,
  leases), any change of the provider, and any change of the daemon's memory of the session, such as
  a restart.
\<close>

datatype 'p lane_op =
    LaneWrite "'p \<Rightarrow> goerr option" WriteRequest
  | LaneKill "'p \<Rightarrow> goerr option" KillRequest
  | LaneStore store_op
  | LaneProvider "'p \<Rightarrow> 'p"
  | LaneLive liveSession

fun lane_step :: "(string \<Rightarrow> string) \<Rightarrow> 'p AgentRuntime \<Rightarrow> 'p lane_op \<Rightarrow> ('p \<times> nat) lane \<Rightarrow> ('p \<times> nat) lane" where
  "lane_step sha R (LaneWrite ctx req) s = snd (writeDelegated sha (ctx \<circ> fst) (counted R) req s)"
| "lane_step sha R (LaneKill ctx req) s = snd (killDelegated sha (ctx \<circ> fst) (counted R) req s)"
| "lane_step sha R (LaneStore op) s = s\<lparr>ln_store := store_step sha op (ln_store s)\<rparr>"
| "lane_step sha R (LaneProvider f) s = s\<lparr>ln_provider := (f (fst (ln_provider s)), snd (ln_provider s))\<rparr>"
| "lane_step sha R (LaneLive live) s = s\<lparr>ln_live := live\<rparr>"

abbreviation lane_run :: "(string \<Rightarrow> string) \<Rightarrow> 'p AgentRuntime \<Rightarrow> 'p lane_op list \<Rightarrow> ('p \<times> nat) lane \<Rightarrow> ('p \<times> nat) lane" where
  "lane_run sha R \<equiv> fold (lane_step sha R)"

fun op_identity :: "(string \<Rightarrow> string) \<Rightarrow> 'p lane_op \<Rightarrow> MutationIdentity option" where
  "op_identity sha (LaneWrite _ req) = Some (write_identity sha req)"
| "op_identity sha (LaneKill _ req) = Some (kill_identity sha req)"
| "op_identity sha _ = None"

text \<open>How often the requests of a run for one logical mutation (session, epoch, kind, identifier, offset) called the provider.\<close>

fun deliveries :: "(string \<Rightarrow> string) \<Rightarrow> 'p AgentRuntime \<Rightarrow> MutationIdentity \<Rightarrow> 'p lane_op list \<Rightarrow> ('p \<times> nat) lane \<Rightarrow> nat" where
  "deliveries sha R i [] s = 0"
| "deliveries sha R i (op # ops) s =
     (let s' = lane_step sha R op s in
      (case op_identity sha op of
         Some j \<Rightarrow> if sameDelegatedMutationLogicalIdentity j i then calls s' - calls s else 0
       | None \<Rightarrow> 0) + deliveries sha R i ops s')"

lemma lane_step_stored: "\<exists>ops. ln_store (lane_step sha R op s) = store_run sha ops (ln_store s)"
proof (cases op)
  case (LaneWrite ctx req)
  with requests_stored(1) [of sha "ctx \<circ> fst" "counted R" req] show ?thesis by (simp add: stored.keeps_def by_store_def)
next
  case (LaneKill ctx req)
  with requests_stored(2) [of sha "ctx \<circ> fst" "counted R" req] show ?thesis by (simp add: stored.keeps_def by_store_def)
next
  case (LaneStore x)
  then show ?thesis by (intro exI [of _ "[x]"]) simp
qed (auto intro: exI [of _ "[]"])

lemma lane_step_effect:
  "op_identity sha op = Some i \<Longrightarrow> \<exists>pre. request_effect sha i pre s (lane_step sha R op s)"
  by (cases op) (auto intro: write_effect kill_effect)

lemma lane_step_files: "mutation_file sha (ln_store s) i \<Longrightarrow> mutation_file sha (ln_store (lane_step sha R op s)) i"
  using lane_step_stored [of sha R op s] store_run_files by fastforce

lemma step_delivery:
  assumes "op_identity sha op = Some j" "sameDelegatedMutationLogicalIdentity j i"
  shows "calls (lane_step sha R op s) - calls s = 0 \<or> calls (lane_step sha R op s) - calls s = 1 \<and>
    \<not> mutation_file sha (ln_store s) i \<and> mutation_file sha (ln_store (lane_step sha R op s)) i"
  using lane_step_effect [OF assms(1), of s R] mutation_file_logical [OF assms(2)] by (auto simp: request_effect_def)

lemma no_second_delivery: "mutation_file sha (ln_store s) i \<Longrightarrow> deliveries sha R i ops s = 0"
proof (induction ops arbitrary: s)
  case (Cons op ops)
  have "deliveries sha R i ops (lane_step sha R op s) = 0" by (rule Cons.IH [OF lane_step_files [OF Cons.prems]])
  with step_delivery [of sha op _ i R s] Cons.prems show ?case by (auto simp: Let_def split: option.splits)
qed simp

lemma one_delivery: "deliveries sha R i ops s \<le> 1"
proof (induction ops arbitrary: s)
  case (Cons op ops)
  show ?case
  proof (cases "\<exists>j. op_identity sha op = Some j \<and> sameDelegatedMutationLogicalIdentity j i")
    case True
    with step_delivery [of sha op _ i R s] no_second_delivery [of sha "lane_step sha R op s" i R ops] Cons.IH [of "lane_step sha R op s"]
    show ?thesis by (fastforce simp: Let_def)
  next
    case False
    with Cons.IH [of "lane_step sha R op s"] show ?thesis by (auto simp: Let_def split: option.splits)
  qed
qed simp

lemma lane_run_stored: "\<exists>sops. ln_store (lane_run sha R ops s) = store_run sha sops (ln_store s)"
proof (induction ops arbitrary: s)
  case Nil
  then show ?case by (intro exI [of _ "[]"]) simp
next
  case (Cons op ops)
  from lane_step_stored [of sha R op s] Cons.IH [of "lane_step sha R op s"] obtain a b where
    "ln_store (lane_step sha R op s) = store_run sha a (ln_store s)"
    "ln_store (lane_run sha R ops (lane_step sha R op s)) = store_run sha b (ln_store (lane_step sha R op s))" by blast
  then show ?case by (intro exI [of _ "a @ b"]) simp
qed

section \<open>Properties\<close>

text \<open>A session of the agent at a provider that reports it faithfully and accepts its input.\<close>

definition agent_observation :: Observation where
  "agent_observation = \<lparr>ob_Provider = \<lparr>pi_ID = ''tmux'', pi_Version = 1\<rparr>, ob_ProviderCurrent = True, ob_ProviderGeneration = ''g1'',
     ob_Owner = OwnerAgent, ob_Terminal = False, ob_ExitCode = None, ob_PanePID = 42, ob_CurrentCommand = ''sh'', ob_PaneTTY = [],
     ob_CWD = [], ob_OutputBytes = 0\<rparr>"

definition agent_runtime :: "unit AgentRuntime" where
  "agent_runtime = \<lparr>ar_Inspect = (\<lambda>_ p. (Inr agent_observation, p)), ar_Write = (\<lambda>_ _ p. (Inr (), p)), ar_Signal = (\<lambda>_ _ p. (Inr (), p))\<rparr>"

definition agent_live :: liveSession where
  "agent_live = \<lparr>lv_state = Running, lv_accepted = 0, lv_delivered = 0, lv_terminalTarget = OtherState [], lv_signal = zero_signal,
     lv_delegatedRef = example_ref, lv_outputBytes = 0, lv_delegatedObserverBase = 0, lv_delegatedCaptureGap = False\<rparr>"

definition agent_write :: WriteRequest where
  "agent_write = \<lparr>wr_SessionID = ''s1'', wr_AuthorityEpoch = 1, wr_InputOffset = 0, wr_Chars = ''ls'', wr_EOF = False\<rparr>"

abbreviation short_sha :: "string \<Rightarrow> string" where
  "short_sha \<equiv> \<lambda>_. ''f''"

text \<open>
  C3: The agent's input reaches the provider at most once. Whatever the requests, the provider, the
  failures of the store and the activity around them (handoffs, recoveries, restarts), all requests
  of a run for one mutation, a write at one offset or a signal with one identifier under one
  authority epoch, call the provider at most once together, also when they carry different bytes;
  and not at all when the ledger already has a record of it.
\<close>

theorem agent_input_at_most_once:
  "deliveries sha R i ops s \<le> 1 \<and> (mutation_file sha (ln_store s) i \<longrightarrow> deliveries sha R i ops s = 0)"
  using one_delivery no_second_delivery by blast

theorem agent_input_at_most_once_witness:
  "\<exists>s :: (unit \<times> nat) lane. mutation_file short_sha (ln_store s) example_mutation \<and>
    deliveries short_sha agent_runtime example_mutation [LaneWrite (\<lambda>_. None) agent_write, LaneWrite (\<lambda>_. None) agent_write] s = 0"
proof -
  let ?s = "\<lparr>ln_store = example_repository\<lparr>rp_mutations := (\<lambda>_. [(''f'', Good (identity_record example_mutation))])\<rparr>,
    ln_provider = ((), 0 :: nat), ln_live = agent_live\<rparr>"
  have "mutation_file short_sha (ln_store ?s) example_mutation" by (simp add: mutation_file_def delegatedMutationKey_def)
  with agent_input_at_most_once [of short_sha agent_runtime example_mutation _ ?s] show ?thesis by blast
qed



section \<open>A write that goes through\<close>

lemma reserve_succeeds:
  assumes "MutationIdentity_Validate i = None" "\<not> mutation_file sha r i"
    and "loadDelegatedBindingLocked r (mi_SessionID i) = Inr b" "bd_Lifecycle b = LifecycleLive" "bd_DesiredOwner b = OwnerAgent"
      "bd_AuthorityEpoch b = mi_Epoch i" "int (length (rp_mutations r (mi_SessionID i))) < rp_maxMutations r"
    and "rp_io r = []" "rp_clock r = t # ts" "t \<noteq> 0"
    and "rec = \<lparr>mr_SchemaVersion = MutationRecordSchemaVersion, mr_Identity = i, mr_State = MutationReserved,
      mr_Outcome = [], mr_CreatedAt = t, mr_UpdatedAt = t\<rparr>"
  obtains res r1 where "ReserveDelegatedMutation sha None i r = ((Some rec, True, res), r1)" "sr_Err res = None" "rp_io r1 = []"
    "rp_clock r1 = ts" "loadDelegatedMutationLocked sha r1 i = Inr rec"
proof -
  have none: "map_of (rp_mutations r (mi_SessionID i)) (delegatedMutationKey sha i) = None" using assms(2) by (simp add: mutation_file_def)
  then have "loadDelegatedMutationLocked sha r i = Inl ErrNotFound" by (simp add: loadDelegatedMutationLocked_def readPrivateJSON_def)
  with assms none that [of "store_result DurableChange None" "r\<lparr>rp_clock := ts, rp_mutations := (rp_mutations r)(mi_SessionID i :=
      put_file (delegatedMutationKey sha i) rec (rp_mutations r (mi_SessionID i)))\<rparr>"] show thesis
    by (simp add: ReserveDelegatedMutation_def now_def create_mutation_def next_io_def atomic_Create_def
        loadDelegatedMutationLocked_Inr readPrivateJSON_put sameDelegatedMutationLogicalIdentity_def MutationRecord_Validate_def IsZero_def Let_def)
qed

lemma complete_succeeds:
  assumes "loadDelegatedMutationLocked sha r i = Inr rec" "mr_Identity rec = i" "mr_State rec = MutationReserved"
    and "rp_io r = []" "rp_clock r = t # ts" "mr_UpdatedAt rec \<le> t" "0 < t"
  obtains m res r1 where "CompleteDelegatedMutation sha None i MutationCompleted ''succeeded'' r = ((m, res), r1)" "sr_Err res = None"
    "loadDelegatedMutationLocked sha r1 i = Inr (rec\<lparr>mr_State := MutationCompleted, mr_Outcome := ''succeeded'', mr_UpdatedAt := t\<rparr>)"
proof -
  let ?nxt = "rec\<lparr>mr_State := MutationCompleted, mr_Outcome := ''succeeded'', mr_UpdatedAt := t\<rparr>"
  have "MutationRecord_Validate rec = None" "sameDelegatedMutationLogicalIdentity (mr_Identity rec) i"
    using assms(1) by (auto simp: loadDelegatedMutationLocked_Inr)
  moreover have "delegated_validOpaque ''succeeded'' 256"
    by (simp add: delegated_validOpaque_def bytes_over_def opaque_byte_def byte_class_defs)
  ultimately have "MutationRecord_Validate ?nxt = None" using assms(6,7) by (auto simp: MutationRecord_Validate_def IsZero_def)
  note valid = this
  let ?r1 = "r\<lparr>rp_clock := ts, rp_mutations := (rp_mutations r)(mi_SessionID i :=
    put_file (delegatedMutationKey sha i) ?nxt (rp_mutations r (mi_SessionID i)))\<rparr>"
  have "CompleteDelegatedMutation sha None i MutationCompleted ''succeeded'' r = ((Some ?nxt, store_result DurableChange None), ?r1)"
    using assms(2-5) valid
    by (simp add: CompleteDelegatedMutation_def assms(1) now_def replace_mutation_def next_io_def atomic_Replace_def Let_def)
  moreover have "loadDelegatedMutationLocked sha ?r1 i = Inr ?nxt"
    using valid assms(2) by (simp add: loadDelegatedMutationLocked_Inr readPrivateJSON_put sameDelegatedMutationLogicalIdentity_def)
  ultimately show thesis by (intro that) auto
qed

text \<open>
  C19: A proper write of the agent goes through. When the session is live, owned by the agent at the
  request's epoch and agrees with what the provider reports, the request continues the accepted
  input, its mutation is new and the ledger has room, and neither the store nor the provider fails,
  then the write succeeds: the provider is given the bytes, the input offset moves past them, and
  the ledger remembers the write as succeeded, so that repeating the request changes nothing and
  returns the same view.
\<close>

theorem agent_write_delivered:
  assumes "i = write_identity sha req" "\<not> wr_EOF req" "wr_Chars req \<noteq> []" "MutationIdentity_Validate i = None" "\<And>p. ctx p = None"
    and "\<not> mutation_file sha (ln_store s) i" "writable req (ln_live s) = None"
    and "loadDelegatedBindingLocked (ln_store s) (wr_SessionID req) = Inr b" "valid_id (wr_SessionID req)" "bd_Lifecycle b = LifecycleLive"
      "bd_DesiredOwner b = OwnerAgent" "bd_AuthorityEpoch b = wr_AuthorityEpoch req"
    and "int (length (rp_mutations (ln_store s) (wr_SessionID req))) < rp_maxMutations (ln_store s)"
    and "ar_Inspect R (lv_delegatedRef (ln_live s)) (ln_provider s) = (Inr obs, p1)" "ob_Provider obs = bd_ProviderIdentity b"
      "ob_ProviderCurrent obs" "ob_Owner obs = OwnerAgent"
    and "ar_Write R (lv_delegatedRef (ln_live s)) (wr_Chars req) p1 = (Inr (), p2)"
    and "rp_io (ln_store s) = []" "rp_clock (ln_store s) = t # t' # ts" "0 < t" "t \<le> t'"
  shows "\<exists>s'. writeDelegated sha ctx R req s = (Ok (write_view req (wr_AuthorityEpoch req) Running), s') \<and> ln_provider s' = p2 \<and>
    lv_accepted (ln_live s') = mi_NextOffset i \<and>
    writeDelegated sha ctx R req s' = (Ok (write_view req (wr_AuthorityEpoch req) Running), s')"
proof -
  have sid: "mi_SessionID i = wr_SessionID req" "mi_Epoch i = wr_AuthorityEpoch req" "mi_NextOffset i = int64 (wr_InputOffset req + int (length (wr_Chars req)))"
    by (simp_all add: assms(1) write_identity_def)
  have running: "lv_state (ln_live s) = Running" using assms(7) by (simp add: writable_def)
  let ?rec = "\<lparr>mr_SchemaVersion = MutationRecordSchemaVersion, mr_Identity = i, mr_State = MutationReserved,
      mr_Outcome = [], mr_CreatedAt = t, mr_UpdatedAt = t\<rparr>"
  have lookup: "LookupDelegatedMutation sha None i (ln_store s) = Inr None"
    using assms(4,6) by (simp add: LookupDelegatedMutation_def loadDelegatedMutationLocked_def readPrivateJSON_def mutation_file_def)
  have bind: "LoadDelegatedBinding None (wr_SessionID req) (ln_store s) = Inr b"
    using assms(8,9) by (simp add: LoadDelegatedBinding_def ParseSessionID_def)
  have "Binding_Validate b = None" using assms(8) by (simp add: loadDelegatedBindingLocked_Inr)
  then have "ProviderIdentity_Validate (bd_ProviderIdentity b) = None" "epoch_Validate (bd_AuthorityEpoch b) = None"
    by (auto simp: Binding_Validate_def)
  then have "ea_Owner (observed_authority b obs) = OwnerAgent"
    using assms(11,15-17) by (simp add: observed_authority_def ReconcileAuthority_def Let_def)
  then have decide: "DecideMutation None i \<lparr>mc_CurrentEpoch = bd_AuthorityEpoch b, mc_CurrentOwner = ea_Owner (observed_authority b obs)\<rparr> =
      Inr \<lparr>ad_Action = AdmissionReserve, ad_Record = identity_record i\<rparr>"
    using assms(4,12) sid by (simp add: DecideMutation_def)
  obtain res r1 where res: "ReserveDelegatedMutation sha None i (ln_store s) = ((Some ?rec, True, res), r1)" "sr_Err res = None"
    and r1: "rp_io r1 = []" "rp_clock r1 = t' # ts" "loadDelegatedMutationLocked sha r1 i = Inr ?rec"
    using reserve_succeeds [OF assms(4,6), of b t "t' # ts" ?rec] assms(8-13,19-21) sid by auto
  let ?done = "?rec\<lparr>mr_State := MutationCompleted, mr_Outcome := ''succeeded'', mr_UpdatedAt := t'\<rparr>"
  obtain m res2 r2 where com: "CompleteDelegatedMutation sha None i MutationCompleted ''succeeded'' r1 = ((m, res2), r2)" "sr_Err res2 = None"
    "loadDelegatedMutationLocked sha r2 i = Inr ?done"
    using complete_succeeds [OF r1(3) _ _ r1(1,2)] assms(21,22) by auto
  let ?s' = "s\<lparr>ln_store := r2, ln_provider := p2, ln_live := written req (ln_live s)\<rparr>"
  have "admitDelegatedMutation sha ctx R i (writable req) s = (Ok (?rec, False), s\<lparr>ln_provider := p1, ln_store := r1\<rparr>)"
    using assms(5,7,10,11,14,15) lookup bind decide res sid
    by (simp add: admitDelegatedMutation_def admit_unseen_def seq_act_def normalized_def store_read_def load_binding_def fail_if_def
        inspect_live_def provider_call_def reserve_mutation_def identity_record_def record_or_zero_def)
  then have "writeDelegated sha ctx R req s = (Ok (write_view req (wr_AuthorityEpoch req) Running), ?s')"
    using assms(2,3,18) com running
    by (simp add: writeDelegated_def seq_act_def assms(1) [symmetric] deliver_write_def try_act_def provider_call_def complete_mutation_def ret_def)
  moreover have "LookupDelegatedMutation sha None i r2 = Inr (Some ?done)"
    using assms(4) by (simp add: LookupDelegatedMutation_def com(3))
  then have "writeDelegated sha ctx R req ?s' = (Ok (write_view req (wr_AuthorityEpoch req) Running), ?s')"
    using assms(2,3,5) running sid
    by (simp add: writeDelegated_def seq_act_def assms(1) [symmetric] admitDelegatedMutation_def normalized_def store_read_def DecideMutation_def
        replayDelegatedWrite_def known_success_def ret_def written_def Let_def)
  ultimately show ?thesis using sid by (auto simp: written_def Let_def)
qed

theorem agent_write_delivered_witness:
  "\<exists>s'. writeDelegated short_sha (\<lambda>_. None) agent_runtime agent_write \<lparr>ln_store = example_repository, ln_provider = (), ln_live = agent_live\<rparr> =
      (Ok (write_view agent_write 1 Running), s') \<and> lv_accepted (ln_live s') = 2"
proof -
  have v: "MutationIdentity_Validate (write_identity short_sha agent_write) = None"
    by (simp add: MutationIdentity_Validate_def write_identity_def agent_write_def delegatedFingerprint_def delegated_validOpaque_def bytes_over_def
        opaque_byte_def byte_class_defs int64_def)
  have id: "valid_id ''s1''" by (simp add: valid_id_def bytes_headed_def id_byte_def byte_class_defs)
  from agent_write_delivered [OF refl _ _ v, of "\<lambda>_. None" "\<lparr>ln_store = example_repository, ln_provider = (), ln_live = agent_live\<rparr>"
      example_binding agent_runtime agent_observation "()" "()" 20 30 "[40]"] example_load id
  show ?thesis
    by (simp add: agent_write_def mutation_file_def example_repository_def empty_repository_def writable_def agent_live_def example_binding_def
        agent_runtime_def agent_observation_def bd_ProviderIdentity_def write_identity_def int64_def) blast
qed

end
