(* ===== verification/VerificationTypes.thy ===== *)
theory VerificationTypes
  imports GoText "HOL-Library.List_Lexorder"
begin

text \<open>
  Values of the verification subsystem (internal/core/verification): what a change affects
  (relation.go), policies with their rules and evidence requirements (policy.go), obligations
  (obligation.go), candidates of evidence (evidence.go, with the parts of core/evidence and
  core/structuredresult it validates), quiescence (quiescence.go) and derived identifiers
  (identity.go).  Identifiers are SHA-256 digests of JSON encodings: \<open>identity\<close> lists what is
  encoded, and a parameter \<open>sha\<close> gives the hexadecimal digest of the encoding.
\<close>

section \<open>Texts and lists\<close>

function valid_utf8_of :: "nat list \<Rightarrow> bool" where
  "valid_utf8_of [] = True"
| "valid_utf8_of (b # bs) =
     (let (r, w) = decode_rune (b # bs) in \<not> (r = RuneError \<and> w = 1) \<and> valid_utf8_of (drop (w - 1) bs))"
  by pat_completeness auto
termination
  by (relation "measure length") auto

text \<open>\<open>utf8.ValidString\<close>.\<close>

definition valid_utf8 :: "string \<Rightarrow> bool" where
  "valid_utf8 s = valid_utf8_of (map of_char s)"

definition boundedToken :: "string \<Rightarrow> nat \<Rightarrow> bool" where
  "boundedToken v n \<longleftrightarrow> v \<noteq> [] \<and> length v \<le> n \<and> valid_utf8 v \<and> list_all (\<lambda>c. c \<notin> {CHR 0x00, CHR 0x0D, CHR 0x0A}) v"

definition boundedOptionalToken :: "string \<Rightarrow> nat \<Rightarrow> bool" where
  "boundedOptionalToken v n \<longleftrightarrow> v = [] \<or> boundedToken v n"

definition validateStrings :: "string list \<Rightarrow> nat \<Rightarrow> nat \<Rightarrow> goerr option" where
  "validateStrings v maxItems maxBytes = first_error
     [reject (length v > maxItems) (Errorf ''too many values''),
      reject (\<not> list_all (\<lambda>s. boundedToken s maxBytes) v) (Errorf ''invalid bounded value'')]"

definition validateRefs :: "string list \<Rightarrow> nat \<Rightarrow> nat \<Rightarrow> goerr option" where
  "validateRefs v maxItems maxBytes = validateStrings v maxItems maxBytes"

text \<open>\<open>hex.DecodeString\<close> succeeds: an even number of hexadecimal digits of either case.\<close>

definition is_hex :: "char \<Rightarrow> bool" where
  "is_hex c \<longleftrightarrow> is_digit c \<or> CHR ''a'' \<le> c \<and> c \<le> CHR ''f'' \<or> CHR ''A'' \<le> c \<and> c \<le> CHR ''F''"

definition hex_decodes :: "string \<Rightarrow> bool" where
  "hex_decodes s \<longleftrightarrow> even (length s) \<and> list_all is_hex s"

definition HasPrefix :: "string \<Rightarrow> string \<Rightarrow> bool" where
  "HasPrefix s p \<longleftrightarrow> take (length p) s = p"

definition HasSuffix :: "string \<Rightarrow> string \<Rightarrow> bool" where
  "HasSuffix s p \<longleftrightarrow> length p \<le> length s \<and> drop (length s - length p) s = p"

definition isDerivedID :: "string \<Rightarrow> string \<Rightarrow> bool" where
  "isDerivedID v p \<longleftrightarrow> HasPrefix v p \<and> length v = length p + 64 \<and> hex_decodes (drop (length p) v)"

definition validGeneration :: "string \<Rightarrow> bool" where
  "validGeneration v \<longleftrightarrow> HasPrefix v ''gen_'' \<and> length v = 68 \<and> hex_decodes (drop 4 v)"

definition candidateDigest :: "string \<Rightarrow> bool" where
  "candidateDigest v \<longleftrightarrow> length v = 64 \<and> hex_decodes v"

definition validDigestHex64 :: "string \<Rightarrow> bool" where
  "validDigestHex64 v \<longleftrightarrow> length v = 64 \<and> list_all (\<lambda>c. is_digit c \<or> CHR ''a'' \<le> c \<and> c \<le> CHR ''f'') v"

text \<open>Sorting and removing neighbours that are equal, as the loops over a sorted copy do.\<close>

definition sortedUnique :: "'a::linorder list \<Rightarrow> 'a list" where
  "sortedUnique xs = remdups_adj (sort xs)"

definition sortedUniqueStrings :: "string list \<Rightarrow> string list" where
  "sortedUniqueStrings xs = remdups_adj (filter (\<lambda>v. v \<noteq> []) (sort xs))"

section \<open>What a change affects\<close>

datatype DerivationAuthority = AuthorityAuthoritative | AuthorityMechanical | AuthorityAdvisory | OtherAuthority string

datatype Coverage = CoverageComplete | CoverageBounded | CoveragePartial | CoverageUnknown | OtherCoverage string

datatype SubjectKind = SubjectPath | SubjectSourceRef | SubjectPackage | SubjectProjectCmd | SubjectSurfaceClass | OtherSubject string

datatype RelationBasis = BasisObservedMutation | BasisImportGraph | BasisProjectPolicy | BasisExplicitMapping | OtherBasis string

datatype AffectedDomainKind = DomainSourceSelection | DomainGoImportGraph | DomainPolicyClassification | OtherDomain string

record Subject =
  su_Kind :: SubjectKind
  su_Value :: string

record VerificationProvider =
  vp_ID :: string
  vp_Version :: int

record AffectedDomain =
  dm_DomainID :: string
  dm_Kind :: AffectedDomainKind
  dm_DerivationAuthority :: DerivationAuthority
  dm_Coverage :: Coverage
  dm_Provider :: "VerificationProvider option"
  dm_SourceGeneration :: string
  dm_ProvenanceRefs :: "string list"
  dm_CapturedAt :: time
  dm_Caveats :: "string list"

record AffectedRelation =
  rl_RelationID :: string
  rl_From :: Subject
  rl_To :: Subject
  rl_Kind :: string
  rl_Basis :: RelationBasis
  rl_DerivationAuthority :: DerivationAuthority
  rl_Coverage :: Coverage
  rl_Provider :: "VerificationProvider option"
  rl_SourceGeneration :: string
  rl_ProvenanceRefs :: "string list"
  rl_CapturedAt :: time
  rl_Caveats :: "string list"

record AffectedSurface =
  sf_SchemaVersion :: int
  sf_RepositoryID :: string
  sf_WorkspaceID :: string
  sf_SourceGeneration :: string
  sf_Domains :: "AffectedDomain list"
  sf_Relations :: "AffectedRelation list"
  sf_Diagnostics :: "string list"

fun SubjectKind_valid :: "SubjectKind \<Rightarrow> bool" where
  "SubjectKind_valid (OtherSubject _) = False"
| "SubjectKind_valid _ = True"

definition Subject_Validate :: "Subject \<Rightarrow> goerr option" where
  "Subject_Validate s = first_error
     [reject (\<not> SubjectKind_valid (su_Kind s)) (Errorf ''invalid subject kind''),
      reject (\<not> boundedToken (su_Value s) 2048) (Errorf ''invalid subject value'')]"

definition VerificationProvider_Validate :: "VerificationProvider \<Rightarrow> goerr option" where
  "VerificationProvider_Validate p = reject (\<not> boundedToken (vp_ID p) 128 \<or> vp_Version p < 1) (Errorf ''invalid provider'')"

definition provider_error :: "VerificationProvider option \<Rightarrow> goerr option" where
  "provider_error p = (case p of None \<Rightarrow> None | Some x \<Rightarrow> VerificationProvider_Validate x)"

fun DerivationAuthority_Validate :: "DerivationAuthority \<Rightarrow> goerr option" where
  "DerivationAuthority_Validate (OtherAuthority s) = Some (Errorf ''invalid derivation authority'')"
| "DerivationAuthority_Validate _ = None"

fun Coverage_Validate :: "Coverage \<Rightarrow> goerr option" where
  "Coverage_Validate (OtherCoverage s) = Some (Errorf ''invalid coverage'')"
| "Coverage_Validate _ = None"

fun RelationBasis_Validate :: "RelationBasis \<Rightarrow> goerr option" where
  "RelationBasis_Validate (OtherBasis s) = Some (Errorf ''invalid relation basis'')"
| "RelationBasis_Validate _ = None"

fun AffectedDomainKind_Validate :: "AffectedDomainKind \<Rightarrow> goerr option" where
  "AffectedDomainKind_Validate (OtherDomain s) = Some (Errorf ''invalid domain kind'')"
| "AffectedDomainKind_Validate _ = None"

definition AffectedDomain_Validate :: "AffectedDomain \<Rightarrow> goerr option" where
  "AffectedDomain_Validate d = first_error
     [AffectedDomainKind_Validate (dm_Kind d),
      DerivationAuthority_Validate (dm_DerivationAuthority d),
      Coverage_Validate (dm_Coverage d),
      reject (dm_DomainID d \<noteq> [] \<and> \<not> isDerivedID (dm_DomainID d) ''dom_'') (Errorf ''invalid domain id''),
      provider_error (dm_Provider d),
      (if dm_SourceGeneration d = []
       then reject (dm_Coverage d \<noteq> CoverageUnknown) (Errorf ''domain without generation must be unknown'')
       else reject (\<not> validGeneration (dm_SourceGeneration d)) (Errorf ''invalid domain generation'')),
      reject (dm_ProvenanceRefs d = []) (Errorf ''domain requires provenance''),
      validateRefs (dm_ProvenanceRefs d) 128 2048,
      reject (IsZero (dm_CapturedAt d)) (Errorf ''domain captured_at required''),
      validateStrings (dm_Caveats d) 32 512]"

definition AffectedRelation_Validate :: "AffectedRelation \<Rightarrow> goerr option" where
  "AffectedRelation_Validate r = first_error
     [Subject_Validate (rl_From r), Subject_Validate (rl_To r),
      reject (\<not> boundedToken (rl_Kind r) 128) (Errorf ''invalid relation kind''),
      RelationBasis_Validate (rl_Basis r),
      DerivationAuthority_Validate (rl_DerivationAuthority r),
      Coverage_Validate (rl_Coverage r),
      reject (rl_RelationID r \<noteq> [] \<and> \<not> isDerivedID (rl_RelationID r) ''rel_'') (Errorf ''invalid relation id''),
      provider_error (rl_Provider r),
      reject (\<not> validGeneration (rl_SourceGeneration r) \<or> rl_ProvenanceRefs r = []) (Errorf ''relation requires generation and provenance''),
      validateRefs (rl_ProvenanceRefs r) 128 2048,
      reject (IsZero (rl_CapturedAt r)) (Errorf ''relation captured_at required''),
      validateStrings (rl_Caveats r) 32 512]"

text \<open>Validation of the elements of a list in order, each error wrapped with the element's index.\<close>

definition wrap_errors :: "string \<Rightarrow> goerr option list \<Rightarrow> goerr option" where
  "wrap_errors what es = map_option (Wrapf what) (first_error es)"

definition AffectedSurface_Validate :: "AffectedSurface \<Rightarrow> goerr option" where
  "AffectedSurface_Validate s = first_error
     [reject (sf_SchemaVersion s \<noteq> 1 \<or> \<not> boundedToken (sf_RepositoryID s) 128 \<or> \<not> boundedToken (sf_WorkspaceID s) 128)
        (Errorf ''invalid affected surface header''),
      (if sf_SourceGeneration s = []
       then first_error
         [reject (sf_Relations s \<noteq> []) (Errorf ''surface without generation cannot carry relations''),
          reject (\<not> list_all (\<lambda>d. dm_Coverage d = CoverageUnknown) (sf_Domains s)) (Errorf ''surface without generation requires unknown domains'')]
       else reject (\<not> validGeneration (sf_SourceGeneration s)) (Errorf ''invalid affected surface generation'')),
      reject (length (sf_Domains s) > 16 \<or> length (sf_Relations s) > 512) (Errorf ''affected surface limit exceeded''),
      wrap_errors ''domain'' (map AffectedDomain_Validate (sf_Domains s)),
      wrap_errors ''relation'' (map AffectedRelation_Validate (sf_Relations s)),
      validateStrings (sf_Diagnostics s) 64 512]"

fun authority_rank :: "DerivationAuthority \<Rightarrow> nat option" where
  "authority_rank AuthorityAdvisory = Some 1"
| "authority_rank AuthorityMechanical = Some 2"
| "authority_rank AuthorityAuthoritative = Some 3"
| "authority_rank (OtherAuthority _) = None"

definition MeetsMinimumAuthority :: "DerivationAuthority \<Rightarrow> DerivationAuthority \<Rightarrow> bool" where
  "MeetsMinimumAuthority actual required =
     (case (authority_rank actual, authority_rank required) of (Some a, Some r) \<Rightarrow> a \<ge> r | _ \<Rightarrow> False)"

section \<open>Policies\<close>

datatype VerificationPhase = PhaseInnerLoop | PhaseCheckpoint | PhasePreMerge | PhaseRelease | PhaseNightly | PhasePeriodic | OtherVerificationPhase string

fun VerificationPhase_Validate :: "VerificationPhase \<Rightarrow> goerr option" where
  "VerificationPhase_Validate (OtherVerificationPhase s) = Some (Errorf ''invalid phase'')"
| "VerificationPhase_Validate _ = None"

datatype OwnershipClass = OwnershipApplicationOwned | OwnershipIntegrationOwned | OwnershipDelegated | OtherOwnership string

datatype RiskClass = RiskScaleDriven | RiskRiskDriven | RiskContextDriven | RiskDelegated | OtherRisk string

datatype ProviderClass = ProviderProjectCommand | ProviderStaticFormatCheck | ProviderFocusedBehaviorTest | ProviderIntegrationTest
  | ProviderTypecheckCompiler | ProviderSchemaCompatibility | ProviderBrowserUserJourney | ProviderNativePlatformVerification
  | ProviderArtifactDigest | ProviderResourceMeasurement | ProviderReleaseCheck | OtherProviderClass string

datatype EnvironmentRequirement = EnvironmentNone | EnvironmentSameCurrent | EnvironmentSameCurrentToolchain | OtherEnvironment string

datatype StabilityRequirement = StabilitySingleCurrentPass | StabilityNoContradiction | StabilityFlakeProtocol | OtherStability string

record FlakeProtocol =
  fk_Runs :: int
  fk_MinPasses :: int
  fk_MaxFailures :: int

record ProviderExecutionSemantics =
  px_ParallelSafe :: "bool option"
  px_SharedResources :: "string list"
  px_ExclusiveResourceClass :: string
  px_ExpectedWorkloadClass :: string

record EvidenceRequirement =
  er_ID :: string
  er_ProviderClass :: ProviderClass
  er_ProjectCommandID :: string
  er_Params :: "(string \<times> string) list"
  er_MinimumAuthority :: DerivationAuthority
  er_RequireCurrent :: bool
  er_Environment :: EnvironmentRequirement
  er_Stability :: StabilityRequirement
  er_Flake :: "FlakeProtocol option"
  er_RequireQuiescence :: bool
  er_Execution :: ProviderExecutionSemantics

record BoundEvidenceRequirement =
  be_Requirement :: EvidenceRequirement
  be_ExpectedProjectBindingDigest :: string

record Rule =
  ru_ID :: string
  ru_Phases :: "VerificationPhase list"
  ru_MatchClasses :: "string list"
  ru_MatchPaths :: "string list"
  ru_Ownership :: OwnershipClass
  ru_RiskClass :: RiskClass
  ru_Required :: bool
  ru_SufficiencyBasis :: string
  ru_MinimumAffectedAuthority :: DerivationAuthority
  ru_Evidence :: "EvidenceRequirement list"

record Classification =
  cl_ID :: string
  cl_Paths :: "string list"
  cl_SurfaceClass :: string

record PolicyContent =
  pc_SchemaVersion :: int
  pc_PolicyID :: string
  pc_Classifiers :: "Classification list"
  pc_Rules :: "Rule list"

record PolicySnapshot =
  pn_RepositoryID :: string
  pn_Digest :: string
  pn_Content :: PolicyContent

fun validOwnership :: "OwnershipClass \<Rightarrow> bool" where
  "validOwnership (OtherOwnership _) = False"
| "validOwnership _ = True"

fun validRiskClass :: "RiskClass \<Rightarrow> bool" where
  "validRiskClass (OtherRisk s) \<longleftrightarrow> s = []"
| "validRiskClass _ = True"

fun ProviderClass_Validate :: "ProviderClass \<Rightarrow> goerr option" where
  "ProviderClass_Validate (OtherProviderClass s) = Some (Errorf ''invalid provider class'')"
| "ProviderClass_Validate _ = None"

fun EnvironmentRequirement_Validate :: "EnvironmentRequirement \<Rightarrow> goerr option" where
  "EnvironmentRequirement_Validate (OtherEnvironment s) = Some (Errorf ''invalid environment requirement'')"
| "EnvironmentRequirement_Validate _ = None"

fun StabilityRequirement_Validate :: "StabilityRequirement \<Rightarrow> goerr option" where
  "StabilityRequirement_Validate (OtherStability s) = Some (Errorf ''invalid stability'')"
| "StabilityRequirement_Validate _ = None"

definition validFlakeProtocol :: "FlakeProtocol \<Rightarrow> bool" where
  "validFlakeProtocol f \<longleftrightarrow> fk_Runs f \<ge> 2 \<and> fk_Runs f \<le> 10 \<and> fk_MinPasses f \<ge> 1 \<and> fk_MinPasses f \<le> fk_Runs f \<and>
     fk_MaxFailures f \<ge> 0 \<and> fk_MaxFailures f \<le> fk_Runs f"

definition ProviderExecutionSemantics_Validate :: "ProviderExecutionSemantics \<Rightarrow> goerr option" where
  "ProviderExecutionSemantics_Validate e = first_error
     [reject (length (px_SharedResources e) > 32) (Errorf ''too many shared resources''),
      reject (\<not> (list_all (\<lambda>r. boundedToken r 128) (px_SharedResources e) \<and> distinct (px_SharedResources e)))
        (Errorf ''invalid duplicate shared resource''),
      reject (px_ExclusiveResourceClass e \<noteq> [] \<and>
          (\<not> boundedToken (px_ExclusiveResourceClass e) 128 \<or> px_ExclusiveResourceClass e \<in> set (px_SharedResources e)))
        (Errorf ''invalid exclusive resource class''),
      reject (px_ExpectedWorkloadClass e \<notin> {[], ''light'', ''moderate'', ''heavy'', ''extreme''}) (Errorf ''invalid workload class'')]"

definition EvidenceRequirement_Validate :: "EvidenceRequirement \<Rightarrow> goerr option" where
  "EvidenceRequirement_Validate e = first_error
     [reject (\<not> boundedToken (er_ID e) 128 \<or> ProviderClass_Validate (er_ProviderClass e) \<noteq> None \<or>
          DerivationAuthority_Validate (er_MinimumAuthority e) \<noteq> None \<or> EnvironmentRequirement_Validate (er_Environment e) \<noteq> None \<or>
          StabilityRequirement_Validate (er_Stability e) \<noteq> None) (Errorf ''invalid evidence requirement''),
      reject (er_ProjectCommandID e \<noteq> [] \<and> \<not> boundedToken (er_ProjectCommandID e) 128) (Errorf ''invalid project command id''),
      reject (length (er_Params e) > 32) (Errorf ''too many params''),
      reject (\<not> list_all (\<lambda>(k, v). boundedToken k 64 \<and> boundedToken v 1024) (er_Params e)) (Errorf ''invalid param''),
      (if er_Stability e = StabilityFlakeProtocol
       then reject (case er_Flake e of None \<Rightarrow> True | Some f \<Rightarrow> \<not> validFlakeProtocol f) (Errorf ''invalid flake protocol'')
       else reject (er_Flake e \<noteq> None) (Errorf ''flake block without flake stability'')),
      ProviderExecutionSemantics_Validate (er_Execution e)]"

definition BoundEvidenceRequirement_Validate :: "BoundEvidenceRequirement \<Rightarrow> goerr option" where
  "BoundEvidenceRequirement_Validate b = first_error
     [EvidenceRequirement_Validate (be_Requirement b),
      reject (be_ExpectedProjectBindingDigest b \<noteq> [] \<and> \<not> validDigestHex64 (be_ExpectedProjectBindingDigest b))
        (Errorf ''invalid project binding digest''),
      reject (er_ProjectCommandID (be_Requirement b) = [] \<and> be_ExpectedProjectBindingDigest b \<noteq> [])
        (Errorf ''binding digest without project command'')]"

text \<open>The loop over the evidence requirements of a rule: each one is valid and its identifier new.\<close>

fun evidence_errors :: "string list \<Rightarrow> EvidenceRequirement list \<Rightarrow> goerr option" where
  "evidence_errors seen [] = None"
| "evidence_errors seen (e # es) = first_error
     [map_option (Wrapf ''evidence'') (EvidenceRequirement_Validate e),
      reject (er_ID e \<in> set seen) (Errorf ''duplicate evidence id''),
      evidence_errors (er_ID e # seen) es]"

definition Rule_Validate :: "Rule \<Rightarrow> goerr option" where
  "Rule_Validate r = first_error
     [reject (\<not> boundedToken (ru_ID r) 128 \<or> ru_Phases r = [] \<or> length (ru_Phases r) > 6) (Errorf ''invalid rule id/phases''),
      reject (\<not> (list_all (\<lambda>p. VerificationPhase_Validate p = None) (ru_Phases r) \<and> distinct (ru_Phases r))) (Errorf ''invalid/duplicate phase''),
      reject (\<not> validOwnership (ru_Ownership r)) (Errorf ''invalid ownership''),
      reject (\<not> validRiskClass (ru_RiskClass r)) (Errorf ''invalid risk class''),
      reject (DerivationAuthority_Validate (ru_MinimumAffectedAuthority r) \<noteq> None) (Errorf ''invalid affected authority''),
      reject (ru_Required r \<and> (\<not> boundedToken (ru_SufficiencyBasis r) 1024 \<or> ru_Evidence r = []))
        (Errorf ''required rule missing sufficiency/evidence''),
      reject (length (ru_Evidence r) > 32) (Errorf ''too many evidence requirements''),
      validateStrings (ru_MatchClasses r) 128 128,
      validateStrings (ru_MatchPaths r) 128 1024,
      evidence_errors [] (ru_Evidence r)]"

fun classifier_errors :: "string list \<Rightarrow> Classification list \<Rightarrow> goerr option" where
  "classifier_errors seen [] = None"
| "classifier_errors seen (c # cs) = first_error
     [reject (\<not> boundedToken (cl_ID c) 128 \<or> \<not> boundedToken (cl_SurfaceClass c) 128 \<or> cl_Paths c = [] \<or> length (cl_Paths c) > 128)
        (Errorf ''invalid classification''),
      reject (cl_ID c \<in> set seen) (Errorf ''duplicate classification id''),
      validateStrings (cl_Paths c) 128 1024,
      classifier_errors (cl_ID c # seen) cs]"

fun rule_errors :: "string list \<Rightarrow> Rule list \<Rightarrow> goerr option" where
  "rule_errors seen [] = None"
| "rule_errors seen (r # rs) = first_error
     [map_option (Wrapf ''rule'') (Rule_Validate r),
      reject (ru_ID r \<in> set seen) (Errorf ''duplicate rule id''),
      rule_errors (ru_ID r # seen) rs]"

definition PolicyContent_Validate :: "PolicyContent \<Rightarrow> goerr option" where
  "PolicyContent_Validate p = first_error
     [reject (pc_SchemaVersion p \<noteq> 1 \<or> \<not> boundedToken (pc_PolicyID p) 128 \<or> length (pc_Rules p) > 128 \<or> length (pc_Classifiers p) > 128)
        (Errorf ''invalid policy header''),
      classifier_errors [] (pc_Classifiers p),
      rule_errors [] (pc_Rules p)]"

text \<open>\<open>canonicalPolicy\<close>: classifiers, rules and evidence by identifier, shared resources sorted.\<close>

definition canonical_evidence :: "EvidenceRequirement \<Rightarrow> EvidenceRequirement" where
  "canonical_evidence e = e\<lparr>er_Execution := (er_Execution e)\<lparr>px_SharedResources := sort (px_SharedResources (er_Execution e))\<rparr>\<rparr>"

definition canonical_rule :: "Rule \<Rightarrow> Rule" where
  "canonical_rule r = r\<lparr>ru_Evidence := map canonical_evidence (sort_key er_ID (ru_Evidence r))\<rparr>"

definition canonicalPolicy :: "PolicyContent \<Rightarrow> PolicyContent" where
  "canonicalPolicy p = p\<lparr>pc_Classifiers := sort_key cl_ID (pc_Classifiers p), pc_Rules := map canonical_rule (sort_key ru_ID (pc_Rules p))\<rparr>"

section \<open>Identifiers\<close>

datatype ObligationDisposition = DispositionRequiredNow | DispositionDeferred | DispositionOptional | DispositionNotTriggered | DispositionWaived | OtherDisposition string

datatype EvidenceStatus = EvidenceNotEvaluated | EvidenceSatisfied | EvidenceFailed | EvidenceInsufficient | EvidenceInconsistent
  | EvidenceUnknown | EvidenceUnavailable | OtherEvidenceStatus string

text \<open>The key that groups compatible candidates of evidence (stability.go).\<close>

record CompatibilityKeyInput =
  ck_ProviderClass :: ProviderClass
  ck_ProjectCommandID :: string
  ck_SourceGeneration :: string
  ck_SourceContentDigest :: string
  ck_ProjectBindingDigest :: string
  ck_SemanticContractDigest :: string
  ck_EnvironmentFingerprint :: string
  ck_EnvironmentFingerprintVersion :: int
  ck_ToolchainFingerprint :: string
  ck_ToolchainFingerprintVersion :: int

record VerificationWaiverIntent =
  wi_WaiverID :: string
  wi_RepositoryID :: string
  wi_PolicyDigest :: string
  wi_RuleID :: string
  wi_Phase :: VerificationPhase
  wi_Generation :: string
  wi_CheckpointID :: string
  wi_Authority :: string
  wi_Actor :: string
  wi_Reason :: string
  wi_ExpiresAt :: time
  wi_ExpiresPhase :: VerificationPhase

record WaiverRevocationIntent =
  vi_RepositoryID :: string
  vi_WaiverID :: string
  vi_Authority :: string
  vi_Actor :: string

record PolicyActivationIntent =
  ai_ActivationID :: string
  ai_RepositoryID :: string
  ai_PreviousEffectiveDigest :: string
  ai_ProposedPolicyDigest :: string
  ai_ProposalGeneration :: string
  ai_Authority :: string
  ai_Actor :: string

text \<open>What the derived identifiers are digests of.\<close>

datatype identity =
    IdPolicy PolicyContent
  | IdDomain AffectedDomainKind "VerificationProvider option" string "string list"
  | IdDomainUnknown AffectedDomainKind "VerificationProvider option" "string list"
  | IdRelation Subject Subject string RelationBasis DerivationAuthority Coverage "VerificationProvider option" string "string list"
  | IdReferenceSet string string string "string list"
  | IdEvaluation string string string string "string list"
  | IdCompatibility CompatibilityKeyInput
  | IdFlakeProtocol FlakeProtocol
  | IdActivation PolicyActivationIntent
  | IdWaiver VerificationWaiverIntent
  | IdRevocation WaiverRevocationIntent

definition hashID :: "(identity \<Rightarrow> string) \<Rightarrow> string \<Rightarrow> identity \<Rightarrow> string" where
  "hashID sha p v = p @ sha v"

definition normalizeRefs :: "string list \<Rightarrow> string list result" where
  "normalizeRefs xs = guard_result (validateRefs xs 128 2048) (Inr (sortedUnique xs))"

definition VerificationPolicyDigest :: "(identity \<Rightarrow> string) \<Rightarrow> PolicyContent \<Rightarrow> string result" where
  "VerificationPolicyDigest sha content =
     guard_result (PolicyContent_Validate content) (Inr (hashID sha ''pol_'' (IdPolicy (canonicalPolicy content))))"

definition DomainID :: "(identity \<Rightarrow> string) \<Rightarrow> AffectedDomainKind \<Rightarrow> VerificationProvider option \<Rightarrow> string \<Rightarrow> string list \<Rightarrow> string result" where
  "DomainID sha kind provider generation refs =
     guard_result (first_error
       [reject (AffectedDomainKind_Validate kind \<noteq> None \<or> \<not> validGeneration generation) (Errorf ''invalid domain identity''), provider_error provider])
     (bind_result (normalizeRefs refs) (\<lambda>rs. Inr (hashID sha ''dom_'' (IdDomain kind provider generation rs))))"

definition DomainIDWithoutGeneration :: "(identity \<Rightarrow> string) \<Rightarrow> AffectedDomainKind \<Rightarrow> VerificationProvider option \<Rightarrow> string list \<Rightarrow> string result" where
  "DomainIDWithoutGeneration sha kind provider refs =
     guard_result (first_error [reject (AffectedDomainKind_Validate kind \<noteq> None) (Errorf ''invalid domain identity''), provider_error provider])
     (bind_result (normalizeRefs refs) (\<lambda>rs. Inr (hashID sha ''dom_'' (IdDomainUnknown kind provider rs))))"

text \<open>\<open>RelationID\<close>, of a relation built from the same fields.\<close>

definition RelationID :: "(identity \<Rightarrow> string) \<Rightarrow> AffectedRelation \<Rightarrow> string result" where
  "RelationID sha r =
     guard_result (first_error
       [reject (Subject_Validate (rl_From r) \<noteq> None \<or> Subject_Validate (rl_To r) \<noteq> None \<or> \<not> boundedToken (rl_Kind r) 128 \<or>
          RelationBasis_Validate (rl_Basis r) \<noteq> None \<or> DerivationAuthority_Validate (rl_DerivationAuthority r) \<noteq> None \<or>
          Coverage_Validate (rl_Coverage r) \<noteq> None \<or> \<not> validGeneration (rl_SourceGeneration r)) (Errorf ''invalid relation identity''),
        provider_error (rl_Provider r)])
     (bind_result (normalizeRefs (rl_ProvenanceRefs r)) (\<lambda>rs.
        Inr (hashID sha ''rel_'' (IdRelation (rl_From r) (rl_To r) (rl_Kind r) (rl_Basis r) (rl_DerivationAuthority r) (rl_Coverage r)
          (rl_Provider r) (rl_SourceGeneration r) rs))))"

definition referenceSetID :: "(identity \<Rightarrow> string) \<Rightarrow> string \<Rightarrow> string \<Rightarrow> string \<Rightarrow> string \<Rightarrow> string list \<Rightarrow> string result" where
  "referenceSetID sha p digest semanticID generation refs =
     guard_result (reject (\<not> isDerivedID digest ''pol_'' \<or> \<not> boundedToken semanticID 128 \<or> \<not> validGeneration generation)
        (Errorf ''invalid semantic identity''))
     (bind_result (normalizeRefs refs) (\<lambda>rs. Inr (hashID sha p (IdReferenceSet digest semanticID generation rs))))"

definition ObligationID :: "(identity \<Rightarrow> string) \<Rightarrow> string \<Rightarrow> string \<Rightarrow> string \<Rightarrow> string list \<Rightarrow> string result" where
  "ObligationID sha policyDigest ruleID generation triggerRefs = referenceSetID sha ''obl_'' policyDigest ruleID generation triggerRefs"

definition PolicyGapID :: "(identity \<Rightarrow> string) \<Rightarrow> string \<Rightarrow> string \<Rightarrow> string \<Rightarrow> string list \<Rightarrow> string result" where
  "PolicyGapID sha policyDigest classID generation surfaceRefs = referenceSetID sha ''gap_'' policyDigest classID generation surfaceRefs"

section \<open>Obligations\<close>

fun ObligationDisposition_Validate :: "ObligationDisposition \<Rightarrow> goerr option" where
  "ObligationDisposition_Validate (OtherDisposition s) = Some (Errorf ''invalid obligation disposition'')"
| "ObligationDisposition_Validate _ = None"

fun EvidenceStatus_Validate :: "EvidenceStatus \<Rightarrow> goerr option" where
  "EvidenceStatus_Validate (OtherEvidenceStatus s) = Some (Errorf ''invalid evidence status'')"
| "EvidenceStatus_Validate _ = None"

definition tail_over :: "string \<Rightarrow> nat \<Rightarrow> string \<Rightarrow> bool" where
  "tail_over p n v \<longleftrightarrow> HasPrefix v p \<and> bytes_over (\<lambda>c. is_alnum c \<or> c = CHR ''_'' \<or> c = CHR ''-'') n (drop (length p) v)"

definition ValidateActivationID :: "string \<Rightarrow> goerr option" where
  "ValidateActivationID v = reject (\<not> tail_over ''act_'' 120 v) (Errorf ''invalid activation id'')"

definition ValidateWaiverID :: "string \<Rightarrow> goerr option" where
  "ValidateWaiverID v = reject (\<not> tail_over ''wv_'' 121 v) (Errorf ''invalid waiver id'')"

record VerificationObligation =
  vo_SchemaVersion :: int
  vo_ObligationID :: string
  vo_PolicyDigest :: string
  vo_SourceRuleID :: string
  vo_TriggerRefs :: "string list"
  vo_AffectedScopeRefs :: "string list"
  vo_Ownership :: OwnershipClass
  vo_RiskClass :: RiskClass
  vo_RequiredPhase :: VerificationPhase
  vo_SufficiencyBasis :: string
  vo_MinimumAffectedAuthority :: DerivationAuthority
  vo_EvidenceRequirements :: "BoundEvidenceRequirement list"
  vo_AppliesToGeneration :: string
  vo_Disposition :: ObligationDisposition
  vo_EvidenceStatus :: EvidenceStatus
  vo_EvidenceRefs :: "string list"
  vo_WaiverID :: string

definition VerificationObligation_Validate :: "VerificationObligation \<Rightarrow> goerr option" where
  "VerificationObligation_Validate o' = first_error
     [reject (vo_SchemaVersion o' \<noteq> 1 \<or> \<not> isDerivedID (vo_ObligationID o') ''obl_'' \<or> \<not> isDerivedID (vo_PolicyDigest o') ''pol_'' \<or>
          \<not> boundedToken (vo_SourceRuleID o') 128) (Errorf ''invalid obligation identity''),
      reject (\<not> validGeneration (vo_AppliesToGeneration o') \<or> VerificationPhase_Validate (vo_RequiredPhase o') \<noteq> None \<or>
          DerivationAuthority_Validate (vo_MinimumAffectedAuthority o') \<noteq> None \<or> ObligationDisposition_Validate (vo_Disposition o') \<noteq> None \<or>
          EvidenceStatus_Validate (vo_EvidenceStatus o') \<noteq> None) (Errorf ''invalid obligation semantics''),
      reject (\<not> validOwnership (vo_Ownership o') \<or> \<not> validRiskClass (vo_RiskClass o') \<or> \<not> boundedToken (vo_SufficiencyBasis o') 1024)
        (Errorf ''invalid obligation policy metadata''),
      reject (vo_TriggerRefs o' = [] \<or> vo_AffectedScopeRefs o' = []) (Errorf ''obligation requires trigger/scope refs''),
      validateRefs (vo_TriggerRefs o') 128 2048,
      validateRefs (vo_AffectedScopeRefs o') 256 2048,
      validateRefs (vo_EvidenceRefs o') 256 2048,
      reject (length (vo_EvidenceRequirements o') > 32) (Errorf ''too many bound evidence requirements''),
      wrap_errors ''bound evidence'' (map BoundEvidenceRequirement_Validate (vo_EvidenceRequirements o')),
      (if vo_Disposition o' = DispositionWaived
       then reject (ValidateWaiverID (vo_WaiverID o') \<noteq> None) (Errorf ''waived obligation requires valid waiver id'')
       else reject (vo_WaiverID o' \<noteq> []) (Errorf ''waiver id on non-waived obligation''))]"

record PolicyGap =
  gp_GapID :: string
  gp_SurfaceRef :: string
  gp_DeclaredClass :: string
  gp_ClassificationSource :: string
  gp_MissingPolicyClass :: string
  gp_Authority :: DerivationAuthority
  gp_ProvenanceRefs :: "string list"

definition PolicyGap_Validate :: "PolicyGap \<Rightarrow> goerr option" where
  "PolicyGap_Validate g = first_error
     [reject (\<not> isDerivedID (gp_GapID g) ''gap_'' \<or> \<not> boundedToken (gp_SurfaceRef g) 2048 \<or> \<not> boundedToken (gp_DeclaredClass g) 128 \<or>
          \<not> boundedToken (gp_ClassificationSource g) 128 \<or> \<not> boundedToken (gp_MissingPolicyClass g) 128) (Errorf ''invalid policy gap identity''),
      reject (\<not> MeetsMinimumAuthority (gp_Authority g) AuthorityMechanical) (Errorf ''policy gap lacks mechanical classification authority''),
      reject (gp_ProvenanceRefs g = []) (Errorf ''policy gap requires provenance''),
      validateRefs (gp_ProvenanceRefs g) 128 2048]"

section \<open>Candidates of evidence\<close>

datatype CandidateFreshness = CandidateCurrent | CandidateStale | CandidateUnknown | OtherFreshness string

datatype CandidateResult = CandidatePass | CandidateFail | CandidateIncomplete | CandidateAmbiguous | OtherResult string

datatype RerunReason = RerunDiagnoseFlake | RerunFlakeQualification | OtherRerun string

record VerificationAttemptIntent =
  va_RerunOfEvidenceID :: string
  va_RerunReason :: RerunReason

definition VerificationAttemptIntent_Validate :: "VerificationAttemptIntent \<Rightarrow> goerr option" where
  "VerificationAttemptIntent_Validate i = first_error
     [reject (case va_RerunReason i of OtherRerun s \<Rightarrow> s \<noteq> [] | _ \<Rightarrow> False) (Errorf ''invalid verification attempt rerun reason''),
      (if va_RerunOfEvidenceID i = []
       then reject (va_RerunReason i \<noteq> OtherRerun []) (Errorf ''rerun reason requires rerun evidence id'')
       else reject (\<not> isDerivedID (va_RerunOfEvidenceID i) ''ev_'') (Errorf ''invalid rerun evidence id''))]"

text \<open>Structured test results (core/structuredresult), whose enumerations are compared as strings.\<close>

record ObservedEntryCounts =
  oc_Namespace :: string
  oc_VocabularyVersion :: int
  oc_Files :: int
  oc_Entries :: int
  oc_Pass :: int
  oc_Fail :: int
  oc_Skip :: int
  oc_Error :: int

record ProducerSemanticsCoverage =
  pm_Namespace :: string
  pm_VocabularyVersion :: int
  pm_Format :: string
  pm_Family :: string
  pm_MechanicallyObservable :: "string list"
  pm_Unavailable :: "string list"

record StructuredEvidenceDetail =
  sd_DerivationKey :: string
  sd_ParseOutcome :: string
  sd_Completeness :: string
  sd_CompletenessReason :: string
  sd_ObservedEntries :: "ObservedEntryCounts option"
  sd_MechanicalTestStatuses :: "string list"
  sd_SemanticsCoverage :: "ProducerSemanticsCoverage option"

definition safeStructuredText :: "string \<Rightarrow> nat \<Rightarrow> bool" where
  "safeStructuredText v n \<longleftrightarrow> trim_runes (runes v) \<noteq> [] \<and> trim_runes (runes v) = runes v \<and> length v \<le> n \<and> list_all (\<lambda>r. \<not> IsControl r) (runes v)"

definition ObservedEntryCounts_Validate :: "ObservedEntryCounts \<Rightarrow> goerr option" where
  "ObservedEntryCounts_Validate c = first_error
     [reject (\<not> safeStructuredText (oc_Namespace c) 128 \<or> oc_VocabularyVersion c \<noteq> 1) (Errorf ''invalid observed entry vocabulary''),
      reject (\<not> list_all (\<lambda>n. 0 \<le> n \<and> n \<le> 65536) [oc_Files c, oc_Entries c, oc_Pass c, oc_Fail c, oc_Skip c, oc_Error c])
        (Errorf ''invalid observed entry count''),
      reject (int64 (oc_Pass c + oc_Fail c + oc_Skip c + oc_Error c) \<noteq> oc_Entries c)
        (Errorf ''observed entry status counts do not partition entries'')]"

definition validClaimSet :: "string list \<Rightarrow> bool" where
  "validClaimSet vs \<longleftrightarrow> length vs \<le> 32 \<and> list_all (\<lambda>v. safeStructuredText v 128) vs \<and> sorted_wrt (<) vs"

definition ProducerSemanticsCoverage_Validate :: "ProducerSemanticsCoverage \<Rightarrow> goerr option" where
  "ProducerSemanticsCoverage_Validate c = first_error
     [reject (\<not> (safeStructuredText (pm_Namespace c) 64 \<and> pm_VocabularyVersion c \<ge> 1) \<or> \<not> safeStructuredText (pm_Format c) 128 \<or>
          \<not> safeStructuredText (pm_Family c) 128) (Errorf ''invalid producer semantics coverage''),
      reject (\<not> validClaimSet (pm_MechanicallyObservable c) \<or> \<not> validClaimSet (pm_Unavailable c)) (Errorf ''invalid producer semantics claims''),
      reject (set (pm_Unavailable c) \<inter> set (pm_MechanicallyObservable c) \<noteq> {}) (Errorf ''producer semantic claim has contradictory coverage'')]"

fun test_status_errors :: "string \<Rightarrow> string list \<Rightarrow> goerr option" where
  "test_status_errors previous [] = None"
| "test_status_errors previous (s # ss) = first_error
     [reject (s \<notin> {''pass'', ''fail'', ''skip'', ''error''}) (Errorf ''invalid structured evidence test status''),
      reject (previous \<noteq> [] \<and> s \<le> previous) (Errorf ''structured evidence test statuses must be unique sorted''),
      test_status_errors s ss]"

definition StructuredEvidenceDetail_Validate :: "StructuredEvidenceDetail \<Rightarrow> goerr option" where
  "StructuredEvidenceDetail_Validate d = first_error
     [reject (\<not> candidateDigest (sd_DerivationKey d)) (Errorf ''invalid structured evidence detail''),
      reject (sd_Completeness d \<notin> {''complete'', ''partial'', ''unavailable'', ''compacted''}) (Errorf ''invalid structured evidence completeness''),
      reject (sd_ParseOutcome d \<notin> {[], ''complete'', ''partial'', ''malformed'', ''unavailable'', ''budget_exceeded''})
        (Errorf ''invalid structured evidence parse outcome''),
      reject (sd_CompletenessReason d \<notin> {[], ''pass_records_elided'', ''zero_match''}) (Errorf ''invalid structured evidence completeness reason''),
      reject (case sd_ObservedEntries d of None \<Rightarrow> False | Some c \<Rightarrow> ObservedEntryCounts_Validate c \<noteq> None)
        (Errorf ''invalid structured evidence observed entries''),
      (if sd_CompletenessReason d \<noteq> []
       then first_error
         [reject (sd_ParseOutcome d \<noteq> ''partial'' \<or> sd_Completeness d \<noteq> ''partial'' \<and> sd_Completeness d \<noteq> ''compacted'' \<or> sd_ObservedEntries d = None)
            (Errorf ''invalid structured evidence partiality metadata''),
          reject (sd_CompletenessReason d = ''zero_match'' \<and> (case sd_ObservedEntries d of None \<Rightarrow> False | Some c \<Rightarrow> oc_Entries c \<noteq> 0))
            (Errorf ''invalid structured evidence zero-match metadata'')]
       else None),
      reject (sd_ObservedEntries d \<noteq> None \<and> sd_ParseOutcome d = []) (Errorf ''structured evidence observed entries require parse outcome''),
      test_status_errors [] (sd_MechanicalTestStatuses d),
      reject (case sd_SemanticsCoverage d of None \<Rightarrow> False | Some c \<Rightarrow> ProducerSemanticsCoverage_Validate c \<noteq> None)
        (Errorf ''invalid structured evidence semantics coverage'')]"

record EvidenceCandidate =
  ec_EvidenceID :: string
  ec_VerificationKind :: string
  ec_ProviderClass :: ProviderClass
  ec_ProviderClassKnown :: bool
  ec_ProjectCommandID :: string
  ec_OperationID :: string
  ec_SessionID :: string
  ec_ActivityID :: string
  ec_WorkspaceID :: string
  ec_SourceGeneration :: string
  ec_SourceContentDigest :: string
  ec_ProjectBindingDigest :: string
  ec_ManifestDigest :: string
  ec_ContractDigest :: string
  ec_EnvironmentFingerprint :: string
  ec_EnvironmentFingerprintVersion :: int
  ec_ToolchainFingerprint :: string
  ec_ToolchainFingerprintVersion :: int
  ec_Authority :: DerivationAuthority
  ec_AuthorityKnown :: bool
  ec_Freshness :: CandidateFreshness
  ec_Result :: CandidateResult
  ec_StructuredDetail :: "StructuredEvidenceDetail option"
  ec_Attempt :: "VerificationAttemptIntent option"
  ec_SemanticContractDigest :: string
  ec_CompletedAt :: time

definition validEvidenceVerificationKind :: "string \<Rightarrow> bool" where
  "validEvidenceVerificationKind k \<longleftrightarrow> k \<in> {''format'', ''test'', ''build'', ''generate'', ''release'', ''artifact''}"

definition projectCommandID_ok :: "string \<Rightarrow> bool" where
  "projectCommandID_ok v = bytes_headed is_lower (\<lambda>c. is_lower c \<or> is_digit c \<or> c = CHR ''_'' \<or> c = CHR ''-'') 64 v"

definition validateProviderAuthority :: "EvidenceCandidate \<Rightarrow> goerr option" where
  "validateProviderAuthority c =
     (if \<not> ec_ProviderClassKnown c
      then reject (ec_ProviderClass c \<noteq> OtherProviderClass [] \<or> ec_AuthorityKnown c \<or> ec_Authority c \<noteq> OtherAuthority [])
        (Errorf ''unknown candidate provider claims authority'')
      else first_error
        [reject (ProviderClass_Validate (ec_ProviderClass c) \<noteq> None \<or> \<not> ec_AuthorityKnown c \<or> DerivationAuthority_Validate (ec_Authority c) \<noteq> None)
           (Errorf ''invalid known candidate provider authority''),
         (if ec_ProviderClass c = ProviderProjectCommand
          then reject (\<not> projectCommandID_ok (ec_ProjectCommandID c) \<or> \<not> candidateDigest (ec_ProjectBindingDigest c))
            (Errorf ''invalid typed project-command candidate authority'')
          else reject (ec_ProjectCommandID c \<noteq> [] \<or> ec_ProjectBindingDigest c \<noteq> []) (Errorf ''non-project provider claims project binding authority''))])"

definition EvidenceCandidate_Validate :: "EvidenceCandidate \<Rightarrow> goerr option" where
  "EvidenceCandidate_Validate c = first_error
     [reject (\<not> isDerivedID (ec_EvidenceID c) ''ev_'' \<or> ec_OperationID c = [] \<or> ec_SessionID c = [] \<or> ec_WorkspaceID c = [] \<or> IsZero (ec_CompletedAt c))
        (Errorf ''invalid candidate identity''),
      reject (\<not> validEvidenceVerificationKind (ec_VerificationKind c) \<or> \<not> candidateDigest (ec_ContractDigest c) \<or>
          ec_SemanticContractDigest c \<noteq> [] \<and> \<not> candidateDigest (ec_SemanticContractDigest c)) (Errorf ''invalid candidate evidence contract''),
      reject ((case ec_Freshness c of OtherFreshness _ \<Rightarrow> True | _ \<Rightarrow> False) \<or> (case ec_Result c of OtherResult _ \<Rightarrow> True | _ \<Rightarrow> False))
        (Errorf ''invalid candidate status''),
      reject (ec_SourceGeneration c \<noteq> [] \<and> \<not> isDerivedID (ec_SourceGeneration c) ''gen_'') (Errorf ''invalid candidate source generation''),
      reject (\<not> list_all (\<lambda>d. d = [] \<or> candidateDigest d)
          [ec_SourceContentDigest c, ec_ProjectBindingDigest c, ec_ManifestDigest c, ec_EnvironmentFingerprint c, ec_ToolchainFingerprint c])
        (Errorf ''invalid candidate digest''),
      reject (case ec_Attempt c of None \<Rightarrow> False | Some a \<Rightarrow> VerificationAttemptIntent_Validate a \<noteq> None) (Errorf ''invalid candidate attempt''),
      reject (case ec_StructuredDetail c of None \<Rightarrow> False | Some d \<Rightarrow> StructuredEvidenceDetail_Validate d \<noteq> None) (Errorf ''invalid candidate structured detail''),
      validateProviderAuthority c,
      reject ((ec_EnvironmentFingerprint c = []) \<noteq> (ec_EnvironmentFingerprintVersion c = 0) \<or>
          (ec_ToolchainFingerprint c = []) \<noteq> (ec_ToolchainFingerprintVersion c = 0)) (Errorf ''candidate fingerprint/version mismatch'')]"

text \<open>The environment an evaluation runs in (core/environment).\<close>

record EnvironmentBinding =
  eb_SnapshotID :: string
  eb_EnvironmentFingerprint :: string
  eb_EnvironmentFingerprintVersion :: int
  eb_ToolchainFingerprint :: string
  eb_ToolchainFingerprintVersion :: int
  eb_CapturedAt :: time

definition EnvironmentBinding_Validate :: "EnvironmentBinding \<Rightarrow> goerr option" where
  "EnvironmentBinding_Validate b = first_error
     [reject (\<not> isDerivedID (eb_SnapshotID b) ''env_'' \<or> IsZero (eb_CapturedAt b) \<or> eb_EnvironmentFingerprintVersion b \<noteq> 1 \<or>
          \<not> candidateDigest (eb_EnvironmentFingerprint b)) (Errorf ''invalid environment binding''),
      (if eb_ToolchainFingerprint b = []
       then reject (eb_ToolchainFingerprintVersion b \<noteq> 0) (Errorf ''invalid empty toolchain binding'')
       else reject (eb_ToolchainFingerprintVersion b \<noteq> 1 \<or> \<not> candidateDigest (eb_ToolchainFingerprint b)) (Errorf ''invalid toolchain binding''))]"

section \<open>Authority records\<close>

text \<open>Activations of a policy, waivers of a rule and their revocations (authority.go).\<close>

datatype ProposalOrigin = ProposalRepositoryAuthored | ProposalStarterProfile | ProposalGenerated | OtherOrigin string

record PolicyProposal =
  pp_RepositoryID :: string
  pp_Digest :: string
  pp_Origin :: ProposalOrigin
  pp_ProfileOrigin :: string
  pp_Content :: PolicyContent

record MaterializedPolicy =
  mp_Snapshot :: PolicySnapshot
  mp_Source :: string
  mp_ProfileOrigin :: string
  mp_ApprovalRef :: string
  mp_ApprovalAuthority :: string
  mp_ApprovedAt :: time

record PolicyActivationCommit =
  ac_Intent :: PolicyActivationIntent
  ac_ProposalOrigin :: ProposalOrigin
  ac_ProfileOrigin :: string
  ac_ActivationGeneration :: string

record PolicyActivation =
  av_SchemaVersion :: int
  av_ActivationID :: string
  av_IntentFingerprint :: string
  av_RepositoryID :: string
  av_PreviousEffectiveDigest :: string
  av_ProposedPolicyDigest :: string
  av_ProposalOrigin :: ProposalOrigin
  av_ProfileOrigin :: string
  av_ProposalGeneration :: string
  av_ActivationGeneration :: string
  av_Authority :: string
  av_Actor :: string
  av_ActivatedAt :: time

record VerificationWaiver =
  wv_SchemaVersion :: int
  wv_WaiverID :: string
  wv_IntentFingerprint :: string
  wv_RepositoryID :: string
  wv_PolicyDigest :: string
  wv_RuleID :: string
  wv_Phase :: VerificationPhase
  wv_Generation :: string
  wv_CheckpointID :: string
  wv_Authority :: string
  wv_Actor :: string
  wv_Reason :: string
  wv_CreatedAt :: time
  wv_ExpiresAt :: time
  wv_ExpiresPhase :: VerificationPhase

record WaiverRevocation =
  rv_SchemaVersion :: int
  rv_WaiverID :: string
  rv_IntentFingerprint :: string
  rv_Authority :: string
  rv_Actor :: string
  rv_RevokedAt :: time

definition PolicyActivationIntent_Validate :: "PolicyActivationIntent \<Rightarrow> goerr option" where
  "PolicyActivationIntent_Validate v = reject
     (ValidateActivationID (ai_ActivationID v) \<noteq> None \<or> \<not> boundedToken (ai_RepositoryID v) 128 \<or>
      \<not> isDerivedID (ai_PreviousEffectiveDigest v) ''pol_'' \<and> ai_PreviousEffectiveDigest v \<noteq> ''absent'' \<or>
      \<not> isDerivedID (ai_ProposedPolicyDigest v) ''pol_'' \<or> \<not> validGeneration (ai_ProposalGeneration v) \<or>
      \<not> boundedToken (ai_Authority v) 64 \<or> \<not> boundedToken (ai_Actor v) 128) (Errorf ''invalid activation intent'')"

definition PolicyActivationCommit_Validate :: "PolicyActivationCommit \<Rightarrow> goerr option" where
  "PolicyActivationCommit_Validate v = first_error
     [PolicyActivationIntent_Validate (ac_Intent v),
      reject (case ac_ProposalOrigin v of OtherOrigin _ \<Rightarrow> True | _ \<Rightarrow> False) (Errorf ''invalid proposal origin''),
      reject (ac_ProfileOrigin v \<noteq> [] \<and> \<not> boundedToken (ac_ProfileOrigin v) 256) (Errorf ''invalid profile origin''),
      reject (\<not> validGeneration (ac_ActivationGeneration v)) (Errorf ''invalid activation generation'')]"

definition VerificationWaiverIntent_Validate :: "VerificationWaiverIntent \<Rightarrow> goerr option" where
  "VerificationWaiverIntent_Validate v = first_error
     [reject (ValidateWaiverID (wi_WaiverID v) \<noteq> None \<or> \<not> boundedToken (wi_RepositoryID v) 128 \<or> \<not> isDerivedID (wi_PolicyDigest v) ''pol_'' \<or>
          \<not> boundedToken (wi_RuleID v) 128 \<or> VerificationPhase_Validate (wi_Phase v) \<noteq> None \<or> \<not> boundedToken (wi_Authority v) 64 \<or>
          \<not> boundedToken (wi_Actor v) 128 \<or> \<not> boundedToken (wi_Reason v) 1024) (Errorf ''invalid waiver intent''),
      reject (wi_Generation v \<noteq> [] \<and> \<not> validGeneration (wi_Generation v)) (Errorf ''invalid waiver generation''),
      reject (wi_CheckpointID v \<noteq> [] \<and> \<not> boundedToken (wi_CheckpointID v) 128) (Errorf ''invalid checkpoint id''),
      reject (wi_ExpiresPhase v \<noteq> OtherVerificationPhase [] \<and> VerificationPhase_Validate (wi_ExpiresPhase v) \<noteq> None) (Errorf ''invalid expiry phase'')]"

definition WaiverRevocationIntent_Validate :: "WaiverRevocationIntent \<Rightarrow> goerr option" where
  "WaiverRevocationIntent_Validate v = reject
     (\<not> boundedToken (vi_RepositoryID v) 128 \<or> ValidateWaiverID (vi_WaiverID v) \<noteq> None \<or> \<not> boundedToken (vi_Authority v) 64 \<or>
      \<not> boundedToken (vi_Actor v) 128) (Errorf ''invalid waiver revocation intent'')"

text \<open>The JSON encoding of a time fails outside the years 0 to 9999.\<close>

definition json_time :: "time \<Rightarrow> bool" where
  "json_time t \<longleftrightarrow> - 31622400 * 10 ^ 9 \<le> t \<and> t < 315537897600 * 10 ^ 9"

definition ActivationIntentFingerprint :: "(identity \<Rightarrow> string) \<Rightarrow> PolicyActivationIntent \<Rightarrow> string result" where
  "ActivationIntentFingerprint sha v = guard_result (PolicyActivationIntent_Validate v) (Inr (hashID sha ''ifp_'' (IdActivation v)))"

definition WaiverIntentFingerprint :: "(identity \<Rightarrow> string) \<Rightarrow> VerificationWaiverIntent \<Rightarrow> string result" where
  "WaiverIntentFingerprint sha v = guard_result (VerificationWaiverIntent_Validate v)
     (if json_time (wi_ExpiresAt v) then Inr (hashID sha ''ifp_'' (IdWaiver v)) else Inl (Errorf ''year outside of range''))"

definition RevocationIntentFingerprint :: "(identity \<Rightarrow> string) \<Rightarrow> WaiverRevocationIntent \<Rightarrow> string result" where
  "RevocationIntentFingerprint sha v = guard_result (WaiverRevocationIntent_Validate v) (Inr (hashID sha ''ifp_'' (IdRevocation v)))"

end
