(* ===== verification/VerificationEvaluate.thy ===== *)
theory VerificationEvaluate
  imports VerificationTypes
begin

text \<open>
  Evaluation of obligations against evidence: quiescence (core/verification/quiescence.go), the
  stability of a set of runs (app/verification/stability.go), the evaluation of a requirement and
  of an obligation (app/verification/sufficiency.go) and the fold of all of them into a gate
  (core/verification/sufficiency.go).
\<close>

section \<open>Quiescence\<close>

datatype QuiescenceStatus = QuiescenceComplete | QuiescenceIncomplete | QuiescenceUnknown | QuiescenceUnavailable | OtherQuiescence string

record ResourceRef =
  rf_Kind :: string
  rf_Ref :: string

record QuiescenceObservation =
  qo_SchemaVersion :: int
  qo_OperationID :: string
  qo_SessionID :: string
  qo_Status :: QuiescenceStatus
  qo_LiveResources :: "ResourceRef list"
  qo_Transferred :: "ResourceRef list"
  qo_Unexpected :: "ResourceRef list"
  qo_ObservedAt :: time
  qo_Quality :: string

record QuiescenceInput =
  qi_Lifecycle :: "QuiescenceObservation option"
  qi_AllowedTransfers :: "ResourceRef list"
  qi_CleanupIncomplete :: bool

fun QuiescenceStatus_Validate :: "QuiescenceStatus \<Rightarrow> goerr option" where
  "QuiescenceStatus_Validate (OtherQuiescence s) = Some (Errorf ''invalid quiescence status'')"
| "QuiescenceStatus_Validate _ = None"

definition ResourceRef_Validate :: "ResourceRef \<Rightarrow> goerr option" where
  "ResourceRef_Validate r = first_error
     [reject (rf_Kind r \<notin> {''process'', ''port'', ''persistent_session''}) (Errorf ''invalid resource kind''),
      reject (length (rf_Ref r) < 1 \<or> length (rf_Ref r) > 256 \<or> trim_runes (runes (rf_Ref r)) \<noteq> runes (rf_Ref r) \<or>
          \<not> list_all (\<lambda>c. c \<notin> {CHR 0x0D, CHR 0x0A, CHR 0x00}) (rf_Ref r)) (Errorf ''invalid resource ref'')]"

definition QuiescenceObservation_Validate :: "QuiescenceObservation \<Rightarrow> goerr option" where
  "QuiescenceObservation_Validate q = first_error
     ([reject (qo_SchemaVersion q \<noteq> 1 \<or> QuiescenceStatus_Validate (qo_Status q) \<noteq> None \<or> \<not> boundedOptionalToken (qo_OperationID q) 128 \<or>
          \<not> boundedOptionalToken (qo_SessionID q) 128 \<or> IsZero (qo_ObservedAt q)) (Errorf ''invalid quiescence observation''),
       reject (qo_Quality q \<notin> {''qualified_lifecycle'', ''unavailable'', ''receipt_negative''}) (Errorf ''invalid quiescence quality'')] @
      map (\<lambda>refs. first_error [reject (length refs > 256) (Errorf ''too many quiescence resources''), first_error (map ResourceRef_Validate refs)])
        [qo_LiveResources q, qo_Transferred q, qo_Unexpected q])"

definition normalizeResourceRefs :: "ResourceRef list \<Rightarrow> ResourceRef list" where
  "normalizeResourceRefs refs = remdups_adj (sort_key rf_Kind (sort_key rf_Ref refs))"

definition resourceRefKey :: "ResourceRef \<Rightarrow> string" where
  "resourceRefKey r = rf_Kind r @ CHR 0x00 # rf_Ref r"

definition resourceRefSet :: "ResourceRef list \<Rightarrow> string set" where
  "resourceRefSet refs = set (map resourceRefKey refs)"

text \<open>\<open>now\<close> is the instant \<open>ReconcileQuiescence\<close> reads from the clock.\<close>

definition quiescence_only :: "time \<Rightarrow> QuiescenceStatus \<Rightarrow> string \<Rightarrow> QuiescenceObservation" where
  "quiescence_only now st quality = \<lparr>qo_SchemaVersion = 1, qo_OperationID = [], qo_SessionID = [], qo_Status = st, qo_LiveResources = [],
     qo_Transferred = [], qo_Unexpected = [], qo_ObservedAt = now, qo_Quality = quality\<rparr>"

definition ReconcileQuiescence :: "time \<Rightarrow> QuiescenceInput \<Rightarrow> QuiescenceObservation" where
  "ReconcileQuiescence now i =
     (if qi_CleanupIncomplete i then quiescence_only now QuiescenceIncomplete ''receipt_negative''
      else case qi_Lifecycle i of
          None \<Rightarrow> quiescence_only now QuiescenceUnknown ''unavailable''
        | Some lifecycle \<Rightarrow>
            let proof0 = lifecycle\<lparr>qo_LiveResources := normalizeResourceRefs (qo_LiveResources lifecycle),
                  qo_Transferred := normalizeResourceRefs (qo_Transferred lifecycle),
                  qo_Unexpected := normalizeResourceRefs (qo_Unexpected lifecycle)\<rparr> in
            if QuiescenceObservation_Validate proof0 \<noteq> None \<or> qo_Quality proof0 \<noteq> ''qualified_lifecycle''
            then (if qo_Status proof0 = QuiescenceUnavailable \<or> qo_Quality proof0 = ''unavailable''
                  then proof0\<lparr>qo_Status := QuiescenceUnavailable, qo_Quality := ''unavailable''\<rparr>
                  else proof0\<lparr>qo_Status := QuiescenceUnknown, qo_Quality := ''unavailable''\<rparr>)
            else if qo_Status proof0 \<noteq> QuiescenceComplete then proof0
            else let declared = (\<lambda>live. rf_Kind live = ''persistent_session'' \<and> resourceRefKey live \<in> resourceRefSet (qo_Transferred proof0) \<and>
                       resourceRefKey live \<in> resourceRefSet (qi_AllowedTransfers i));
                     unexpected = normalizeResourceRefs (qo_Unexpected proof0 @ filter (\<lambda>live. \<not> declared live) (qo_LiveResources proof0)) in
              proof0\<lparr>qo_Transferred := normalizeResourceRefs (filter declared (qo_LiveResources proof0)), qo_Unexpected := unexpected,
                qo_Status := (if unexpected \<noteq> [] then QuiescenceIncomplete else QuiescenceComplete)\<rparr>)"

section \<open>Stability of evidence\<close>

record StabilityCounts =
  sq_Runs :: int
  sq_Passes :: int
  sq_Failures :: int
  sq_Incomplete :: int
  sq_Ambiguous :: int

record StabilityCohort =
  co_CompatibilityKey :: string
  co_Status :: EvidenceStatus
  co_Counts :: StabilityCounts
  co_EvidenceRefs :: "string list"

record FlakeEvaluation =
  fe_ProtocolID :: string
  fe_CompatibilityKey :: string
  fe_Counts :: StabilityCounts
  fe_QualifiedEvidenceRefs :: "string list"

record StabilityEvaluation =
  sy_Status :: EvidenceStatus
  sy_Cohorts :: "StabilityCohort list"
  sy_EvidenceRefs :: "string list"
  sy_ReasonCode :: string
  sy_DiagnosticReruns :: int
  sy_Flake :: "FlakeEvaluation option"

record CandidateResultSet =
  cr_Candidates :: "EvidenceCandidate list"
  cr_Coverage :: Coverage
  cr_Diagnostics :: "string list"

definition compatibility_input :: "EvidenceCandidate \<Rightarrow> CompatibilityKeyInput" where
  "compatibility_input c = \<lparr>ck_ProviderClass = ec_ProviderClass c, ck_ProjectCommandID = ec_ProjectCommandID c,
     ck_SourceGeneration = ec_SourceGeneration c, ck_SourceContentDigest = ec_SourceContentDigest c,
     ck_ProjectBindingDigest = ec_ProjectBindingDigest c, ck_SemanticContractDigest = ec_SemanticContractDigest c,
     ck_EnvironmentFingerprint = ec_EnvironmentFingerprint c, ck_EnvironmentFingerprintVersion = ec_EnvironmentFingerprintVersion c,
     ck_ToolchainFingerprint = ec_ToolchainFingerprint c, ck_ToolchainFingerprintVersion = ec_ToolchainFingerprintVersion c\<rparr>"

definition CompatibilityKey :: "(identity \<Rightarrow> string) \<Rightarrow> EvidenceCandidate \<Rightarrow> string option" where
  "CompatibilityKey sha c =
     (if EvidenceCandidate_Validate c \<noteq> None \<or> \<not> ec_ProviderClassKnown c \<or> ProviderClass_Validate (ec_ProviderClass c) \<noteq> None \<or>
         ec_SourceGeneration c = [] \<or> ec_SemanticContractDigest c = [] then None
      else if ec_ProviderClass c = ProviderProjectCommand \<and> (ec_ProjectCommandID c = [] \<or> ec_ProjectBindingDigest c = []) then None
      else Some (sha (IdCompatibility (compatibility_input c))))"

definition FlakeProtocolID :: "(identity \<Rightarrow> string) \<Rightarrow> FlakeProtocol \<Rightarrow> string option" where
  "FlakeProtocolID sha p = (if validFlakeProtocol p then Some (sha (IdFlakeProtocol p)) else None)"

text \<open>By completion time, then by identifier.\<close>

definition SortedEvidenceRefs :: "EvidenceCandidate list \<Rightarrow> string list" where
  "SortedEvidenceRefs cs = map ec_EvidenceID (sort_key ec_CompletedAt (sort_key ec_EvidenceID cs))"

definition count_result :: "CandidateResult \<Rightarrow> EvidenceCandidate list \<Rightarrow> int" where
  "count_result r cs = int (length (filter (\<lambda>c. ec_Result c = r) cs))"

definition count_results :: "EvidenceCandidate list \<Rightarrow> StabilityCounts" where
  "count_results cs = \<lparr>sq_Runs = int (length cs), sq_Passes = count_result CandidatePass cs, sq_Failures = count_result CandidateFail cs,
     sq_Incomplete = count_result CandidateIncomplete cs, sq_Ambiguous = count_result CandidateAmbiguous cs\<rparr>"

text \<open>The groups of compatible candidates in the order of their keys, and the candidates without a key.\<close>

definition compatibility_groups :: "(identity \<Rightarrow> string) \<Rightarrow> EvidenceCandidate list \<Rightarrow> (string \<times> EvidenceCandidate list) list" where
  "compatibility_groups sha cs =
     map (\<lambda>k. (k, filter (\<lambda>c. CompatibilityKey sha c = Some k) cs)) (sortedUnique (List.map_filter (CompatibilityKey sha) cs))"

definition incompatible :: "(identity \<Rightarrow> string) \<Rightarrow> EvidenceCandidate list \<Rightarrow> EvidenceCandidate list" where
  "incompatible sha cs = filter (\<lambda>c. CompatibilityKey sha c = None) cs"

definition diagnostic_reruns :: "EvidenceCandidate list \<Rightarrow> int" where
  "diagnostic_reruns cs = int (length (filter (\<lambda>c. case ec_Attempt c of None \<Rightarrow> False | Some a \<Rightarrow> va_RerunReason a = RerunDiagnoseFlake) cs))"

definition base_status :: "StabilityCounts \<Rightarrow> EvidenceStatus" where
  "base_status n =
     (if sq_Passes n > 0 \<and> sq_Failures n > 0 then EvidenceInconsistent
      else if sq_Failures n > 0 then EvidenceFailed
      else if sq_Ambiguous n > 0 then EvidenceUnknown
      else if sq_Incomplete n > 0 then EvidenceInsufficient
      else if sq_Passes n > 0 then EvidenceSatisfied
      else EvidenceNotEvaluated)"

definition foldBaseCohort :: "string \<Rightarrow> EvidenceCandidate list \<Rightarrow> StabilityCohort" where
  "foldBaseCohort key cs = \<lparr>co_CompatibilityKey = key, co_Status = base_status (count_results cs), co_Counts = count_results cs,
     co_EvidenceRefs = SortedEvidenceRefs cs\<rparr>"

text \<open>\<open>foldStatus\<close> and its ranks; a status outside the table has rank 0.\<close>

fun status_rank :: "EvidenceStatus \<Rightarrow> nat" where
  "status_rank EvidenceSatisfied = 1"
| "status_rank EvidenceUnknown = 2"
| "status_rank EvidenceInsufficient = 3"
| "status_rank EvidenceFailed = 4"
| "status_rank EvidenceInconsistent = 5"
| "status_rank _ = 0"

definition foldStatus :: "EvidenceStatus \<Rightarrow> EvidenceStatus \<Rightarrow> EvidenceStatus" where
  "foldStatus left right = (if status_rank right > status_rank left then right else left)"

definition foldCohortStatuses :: "StabilityCohort list \<Rightarrow> EvidenceStatus" where
  "foldCohortStatuses cohorts = foldl (\<lambda>st c. foldStatus st (co_Status c)) EvidenceNotEvaluated cohorts"

definition qualified_runs :: "EvidenceCandidate list \<Rightarrow> EvidenceCandidate list" where
  "qualified_runs cs = filter (\<lambda>c. case ec_Attempt c of None \<Rightarrow> False | Some a \<Rightarrow>
     va_RerunReason a = RerunFlakeQualification \<and> va_RerunOfEvidenceID a \<in> set (map ec_EvidenceID cs)) cs"

definition flake_status :: "EvidenceStatus \<Rightarrow> StabilityCounts \<Rightarrow> FlakeProtocol \<Rightarrow> EvidenceStatus" where
  "flake_status base n p =
     (if sq_Runs n \<noteq> fk_Runs p then (if base \<noteq> EvidenceInconsistent \<and> base \<noteq> EvidenceFailed then EvidenceInsufficient else base)
      else if sq_Incomplete n > 0 then EvidenceInsufficient
      else if sq_Ambiguous n > 0 then EvidenceUnknown
      else if sq_Passes n \<ge> fk_MinPasses p \<and> sq_Failures n \<le> fk_MaxFailures p then EvidenceSatisfied
      else EvidenceFailed)"

definition foldFlakeCohort ::
  "(identity \<Rightarrow> string) \<Rightarrow> StabilityCohort \<Rightarrow> EvidenceCandidate list \<Rightarrow> FlakeProtocol \<Rightarrow> FlakeEvaluation option \<Rightarrow> StabilityCohort \<times> FlakeEvaluation option" where
  "foldFlakeCohort sha base cs p previous =
     (case FlakeProtocolID sha p of
        None \<Rightarrow> (base\<lparr>co_Status := EvidenceUnknown\<rparr>, previous)
      | Some pid \<Rightarrow>
          let flake = \<lparr>fe_ProtocolID = pid, fe_CompatibilityKey = co_CompatibilityKey base, fe_Counts = count_results (qualified_runs cs),
                fe_QualifiedEvidenceRefs = SortedEvidenceRefs (qualified_runs cs)\<rparr> in
          if (case previous of None \<Rightarrow> False | Some f \<Rightarrow> fe_CompatibilityKey f \<noteq> co_CompatibilityKey base)
          then (base\<lparr>co_Status := foldStatus (co_Status base) EvidenceInsufficient\<rparr>, previous)
          else (base\<lparr>co_Status := flake_status (co_Status base) (fe_Counts flake) p\<rparr>, Some flake))"

text \<open>The cohorts in the order of their keys; under a flake protocol the evaluation is threaded through.\<close>

fun fold_cohorts ::
  "(identity \<Rightarrow> string) \<Rightarrow> StabilityRequirement \<Rightarrow> FlakeProtocol option \<Rightarrow> (string \<times> EvidenceCandidate list) list \<Rightarrow> FlakeEvaluation option
     \<Rightarrow> StabilityCohort list \<times> FlakeEvaluation option" where
  "fold_cohorts sha req p [] flake = ([], flake)"
| "fold_cohorts sha req p ((key, cs) # groups) flake =
     (let (cohort, flake') = (case p of Some pr \<Rightarrow> if req = StabilityFlakeProtocol then foldFlakeCohort sha (foldBaseCohort key cs) cs pr flake
              else (foldBaseCohort key cs, flake) | None \<Rightarrow> (foldBaseCohort key cs, flake));
          (cohorts, flake'') = fold_cohorts sha req p groups flake' in (cohort # cohorts, flake''))"

definition settle_stability :: "Coverage \<Rightarrow> bool \<Rightarrow> bool \<Rightarrow> EvidenceStatus \<Rightarrow> EvidenceStatus \<times> string" where
  "settle_stability coverage unknown any st =
     (let s1 = (if unknown \<and> st \<noteq> EvidenceFailed \<and> st \<noteq> EvidenceInconsistent then (EvidenceUnknown, ''compatibility_unknown'') else (st, []));
          s2 = (if coverage \<noteq> CoverageComplete \<and> fst s1 = EvidenceSatisfied then (EvidenceUnknown, ''bounded_evidence_history'') else s1) in
      if fst s2 = EvidenceNotEvaluated \<and> any then (EvidenceUnknown, ''compatibility_unknown'') else s2)"

definition EvaluateStability ::
  "(identity \<Rightarrow> string) \<Rightarrow> StabilityRequirement \<Rightarrow> FlakeProtocol option \<Rightarrow> CandidateResultSet \<Rightarrow> StabilityEvaluation" where
  "EvaluateStability sha req p cands =
     (let cs = cr_Candidates cands; refs = SortedEvidenceRefs cs in
      if StabilityRequirement_Validate req \<noteq> None \<or> (req = StabilityFlakeProtocol) \<noteq> (p \<noteq> None)
      then \<lparr>sy_Status = EvidenceUnknown, sy_Cohorts = [], sy_EvidenceRefs = refs, sy_ReasonCode = ''invalid_stability_requirement'',
        sy_DiagnosticReruns = 0, sy_Flake = None\<rparr>
      else let (cohorts, flake) = fold_cohorts sha req p (compatibility_groups sha cs) None;
               (st, reason) = settle_stability (cr_Coverage cands) (incompatible sha cs \<noteq> []) (cs \<noteq> []) (foldCohortStatuses cohorts) in
        \<lparr>sy_Status = st, sy_Cohorts = cohorts, sy_EvidenceRefs = refs, sy_ReasonCode = reason,
         sy_DiagnosticReruns = diagnostic_reruns cs, sy_Flake = flake\<rparr>)"

section \<open>Requirements and obligations\<close>

datatype Availability = AvailabilityAvailable | AvailabilityUnavailable | AvailabilityUnknown | OtherAvailability string

type_synonym ProviderAvailability = "(ProviderClass \<times> Availability) list"

record RequirementEvaluation =
  rx_EvaluationID :: string
  rx_PolicyDigest :: string
  rx_RuleID :: string
  rx_ObligationID :: string
  rx_RequirementID :: string
  rx_Status :: EvidenceStatus
  rx_EvidenceRefs :: "string list"
  rx_ReasonCode :: string

record ObligationEvaluation =
  oe_ObligationID :: string
  oe_EvidenceStatus :: EvidenceStatus
  oe_RequirementResults :: "RequirementEvaluation list"
  oe_EvidenceRefs :: "string list"

definition normalizeEvaluationEvidenceRefs :: "string list \<Rightarrow> string list result" where
  "normalizeEvaluationEvidenceRefs refs =
     guard_result (reject (\<not> list_all (\<lambda>r. isDerivedID r ''ev_'') refs) (Errorf ''invalid evaluation evidence ref'')) (Inr (sortedUnique refs))"

definition EvaluationID :: "(identity \<Rightarrow> string) \<Rightarrow> string \<Rightarrow> string \<Rightarrow> string \<Rightarrow> string \<Rightarrow> string list \<Rightarrow> string result" where
  "EvaluationID sha policyDigest ruleID obligationID requirementID refs =
     guard_result (reject (\<not> isDerivedID policyDigest ''pol_'' \<or> \<not> boundedToken ruleID 128 \<or> \<not> isDerivedID obligationID ''obl_'' \<or>
        \<not> boundedToken requirementID 128) (Errorf ''invalid evaluation identity''))
     (bind_result (normalizeEvaluationEvidenceRefs refs) (\<lambda>rs.
        Inr (hashID sha ''eval_'' (IdEvaluation policyDigest ruleID obligationID requirementID rs))))"

definition RequirementEvaluation_Validate :: "(identity \<Rightarrow> string) \<Rightarrow> RequirementEvaluation \<Rightarrow> goerr option" where
  "RequirementEvaluation_Validate sha r = first_error
     [reject (EvidenceStatus_Validate (rx_Status r) \<noteq> None \<or> \<not> boundedOptionalToken (rx_ReasonCode r) 128)
        (Errorf ''invalid requirement evaluation status''),
      reject (EvaluationID sha (rx_PolicyDigest r) (rx_RuleID r) (rx_ObligationID r) (rx_RequirementID r) (rx_EvidenceRefs r) \<noteq> Inr (rx_EvaluationID r))
        (Errorf ''invalid requirement evaluation identity'')]"

definition ObligationEvaluation_Validate :: "(identity \<Rightarrow> string) \<Rightarrow> ObligationEvaluation \<Rightarrow> goerr option" where
  "ObligationEvaluation_Validate sha e = first_error
     [reject (\<not> isDerivedID (oe_ObligationID e) ''obl_'' \<or> EvidenceStatus_Validate (oe_EvidenceStatus e) \<noteq> None \<or> length (oe_RequirementResults e) > 32)
        (Errorf ''invalid obligation evaluation''),
      reject (\<not> list_all (\<lambda>r. rx_ObligationID r = oe_ObligationID e \<and> RequirementEvaluation_Validate sha r = None) (oe_RequirementResults e))
        (Errorf ''invalid requirement evaluation''),
      (case normalizeEvaluationEvidenceRefs (oe_EvidenceRefs e) of Inl x \<Rightarrow> Some x | Inr _ \<Rightarrow> None)]"

definition validCandidates :: "EvidenceCandidate list \<Rightarrow> EvidenceCandidate list" where
  "validCandidates cs = filter (\<lambda>c. EvidenceCandidate_Validate c = None) cs"

definition bound_to :: "EvidenceRequirement \<Rightarrow> string \<Rightarrow> EvidenceCandidate \<Rightarrow> bool" where
  "bound_to req expected c \<longleftrightarrow> ec_ProviderClass c = ProviderProjectCommand \<and> ec_ProjectCommandID c = er_ProjectCommandID req \<and>
     ec_ProjectBindingDigest c = expected"

definition filterProjectBinding :: "EvidenceCandidate list \<Rightarrow> EvidenceRequirement \<Rightarrow> string \<Rightarrow> EvidenceCandidate list \<times> bool" where
  "filterProjectBinding cs req expected =
     (if er_ProjectCommandID req = [] then (cs, False)
      else (filter (bound_to req expected) cs, \<not> list_all (bound_to req expected) cs))"

definition filterProviderSemantics :: "EvidenceCandidate list \<Rightarrow> EvidenceRequirement \<Rightarrow> string \<Rightarrow> EvidenceCandidate list" where
  "filterProviderSemantics cs req expected = filter (\<lambda>c. ec_ProviderClassKnown c \<and>
     (if er_ProjectCommandID req \<noteq> [] \<and> expected \<noteq> [] then ec_ProviderClass c = ProviderProjectCommand
      else ec_ProviderClass c = er_ProviderClass req)) cs"

definition filterAuthority :: "EvidenceCandidate list \<Rightarrow> DerivationAuthority \<Rightarrow> EvidenceCandidate list" where
  "filterAuthority cs minimum = filter (\<lambda>c. ec_AuthorityKnown c \<and> MeetsMinimumAuthority (ec_Authority c) minimum) cs"

definition same_generation :: "string \<Rightarrow> EvidenceCandidate \<Rightarrow> bool" where
  "same_generation generation c \<longleftrightarrow> ec_SourceGeneration c \<noteq> [] \<and> ec_SourceGeneration c = generation"

definition filterCurrent :: "EvidenceCandidate list \<Rightarrow> string \<Rightarrow> EvidenceCandidate list \<times> bool" where
  "filterCurrent cs generation =
     (filter (\<lambda>c. ec_Freshness c = CandidateCurrent \<or> ec_Freshness c = CandidateUnknown \<and> same_generation generation c) cs,
      list_ex (\<lambda>c. ec_Freshness c = CandidateUnknown \<and> \<not> same_generation generation c) cs)"

definition same_environment :: "EnvironmentBinding \<Rightarrow> EvidenceCandidate \<Rightarrow> bool" where
  "same_environment current c \<longleftrightarrow> ec_EnvironmentFingerprint c = eb_EnvironmentFingerprint current \<and>
     ec_EnvironmentFingerprintVersion c = eb_EnvironmentFingerprintVersion current"

definition same_toolchain :: "EnvironmentBinding \<Rightarrow> EvidenceCandidate \<Rightarrow> bool" where
  "same_toolchain current c \<longleftrightarrow> ec_ToolchainFingerprint c \<noteq> [] \<and> eb_ToolchainFingerprint current \<noteq> [] \<and>
     ec_ToolchainFingerprint c = eb_ToolchainFingerprint current \<and> ec_ToolchainFingerprintVersion c = eb_ToolchainFingerprintVersion current"

text \<open>The status of the result is \<open>None\<close> when candidates are left.\<close>

definition filterEnvironment ::
  "EvidenceCandidate list \<Rightarrow> EnvironmentRequirement \<Rightarrow> EnvironmentBinding option \<Rightarrow> EvidenceCandidate list \<times> EvidenceStatus option \<times> string" where
  "filterEnvironment cs req current =
     (if req = EnvironmentNone then (cs, None, [])
      else case current of
          None \<Rightarrow> ([], Some EvidenceUnavailable, ''current_environment_unavailable'')
        | Some cur \<Rightarrow>
            if EnvironmentBinding_Validate cur \<noteq> None then ([], Some EvidenceUnavailable, ''current_environment_unavailable'')
            else
              let here = filter (\<lambda>c. ec_EnvironmentFingerprint c \<noteq> [] \<and> same_environment cur c \<and>
                    (req = EnvironmentSameCurrentToolchain \<longrightarrow> same_toolchain cur c)) cs in
              if here \<noteq> [] then (here, None, [])
              else if list_ex (\<lambda>c. ec_EnvironmentFingerprint c = []) cs then ([], Some EvidenceInsufficient, ''evidence_environment_unbound'')
              else if list_ex (\<lambda>c. ec_EnvironmentFingerprint c \<noteq> [] \<and> \<not> same_environment cur c) cs
              then ([], Some EvidenceInsufficient, ''environment_mismatch'')
              else if list_ex (\<lambda>c. ec_EnvironmentFingerprint c \<noteq> [] \<and> same_environment cur c \<and> req = EnvironmentSameCurrentToolchain \<and> \<not> same_toolchain cur c) cs
              then ([], Some EvidenceInsufficient, ''toolchain_mismatch'')
              else ([], Some EvidenceInsufficient, ''environment_mismatch''))"

definition stabilityStatus :: "StabilityEvaluation \<Rightarrow> EvidenceStatus \<times> string" where
  "stabilityStatus s =
     (if sy_ReasonCode s \<noteq> [] then (sy_Status s, sy_ReasonCode s)
      else (sy_Status s,
        (case sy_Status s of EvidenceFailed \<Rightarrow> ''evidence_failed'' | EvidenceInconsistent \<Rightarrow> ''contradictory_evidence''
         | EvidenceInsufficient \<Rightarrow> ''evidence_incomplete'' | EvidenceUnknown \<Rightarrow> ''evidence_ambiguous'' | _ \<Rightarrow> [])))"

fun quiescence_of :: "(string \<times> QuiescenceObservation) list \<Rightarrow> EvidenceCandidate list \<Rightarrow> EvidenceStatus \<times> string" where
  "quiescence_of obs [] = (EvidenceSatisfied, [])"
| "quiescence_of obs (c # cs) =
     (case map_of obs (ec_OperationID c) of
        None \<Rightarrow> (EvidenceUnavailable, ''quiescence_unavailable'')
      | Some q \<Rightarrow>
          if QuiescenceObservation_Validate q \<noteq> None then (EvidenceUnknown, ''quiescence_unknown'')
          else (case qo_Status q of
              QuiescenceComplete \<Rightarrow> quiescence_of obs cs
            | QuiescenceIncomplete \<Rightarrow> (EvidenceInsufficient, ''undeclared_live_resources'')
            | QuiescenceUnknown \<Rightarrow> (EvidenceUnknown, ''quiescence_unknown'')
            | _ \<Rightarrow> (EvidenceUnavailable, ''quiescence_unavailable'')))"

definition evaluateQuiescence :: "EvidenceCandidate list \<Rightarrow> (string \<times> QuiescenceObservation) list \<Rightarrow> EvidenceStatus \<times> string" where
  "evaluateQuiescence cs obs = (if cs = [] then (EvidenceUnavailable, ''quiescence_unavailable'') else quiescence_of obs cs)"

definition noEvidenceResult :: "EvidenceRequirement \<Rightarrow> BoundEvidenceRequirement \<Rightarrow> ProviderAvailability \<Rightarrow> EvidenceStatus \<times> string" where
  "noEvidenceResult req bnd providers =
     (if er_ProjectCommandID req \<noteq> [] \<and> be_ExpectedProjectBindingDigest bnd \<noteq> [] then (EvidenceNotEvaluated, ''no_evidence'')
      else (case map_of providers (er_ProviderClass req) of
          Some AvailabilityAvailable \<Rightarrow> (EvidenceNotEvaluated, ''no_evidence'')
        | Some AvailabilityUnavailable \<Rightarrow> (EvidenceUnavailable, ''provider_unavailable'')
        | _ \<Rightarrow> (EvidenceUnknown, ''provider_availability_unknown'')))"

text \<open>The status and the reason code that \<open>evaluateRequirement\<close> gives to \<open>setResult\<close>.\<close>

definition requirement_status ::
  "(identity \<Rightarrow> string) \<Rightarrow> VerificationObligation \<Rightarrow> BoundEvidenceRequirement \<Rightarrow> CandidateResultSet \<Rightarrow> ProviderAvailability \<Rightarrow>
     EnvironmentBinding option \<Rightarrow> (string \<times> QuiescenceObservation) list \<Rightarrow> EvidenceStatus \<times> string" where
  "requirement_status sha obl bnd cands providers current quiescence =
     (let req = be_Requirement bnd; expected = be_ExpectedProjectBindingDigest bnd in
      if BoundEvidenceRequirement_Validate bnd \<noteq> None then (EvidenceUnknown, ''invalid_evidence_requirement'')
      else if er_ProjectCommandID req \<noteq> [] \<and> expected = [] then (EvidenceUnavailable, ''project_binding_unavailable'')
      else if cr_Candidates cands = []
      then (if cr_Coverage cands \<in> {CoverageBounded, CoveragePartial, CoverageUnknown} then (EvidenceUnknown, ''bounded_evidence_history'')
            else noEvidenceResult req bnd providers)
      else let valid = validCandidates (cr_Candidates cands) in
      if length valid \<noteq> length (cr_Candidates cands) then (EvidenceUnknown, ''invalid_evidence_candidate'')
      else let (bound_cs, mismatch) = filterProjectBinding valid req expected in
      if bound_cs = [] then (EvidenceInsufficient, if mismatch then ''project_binding_mismatch'' else ''provider_semantics_mismatch'')
      else let provider_cs = filterProviderSemantics bound_cs req expected in
      if provider_cs = [] then (EvidenceInsufficient, ''provider_semantics_mismatch'')
      else let authority_cs = filterAuthority provider_cs (er_MinimumAuthority req) in
      if authority_cs = [] then (EvidenceInsufficient, ''evidence_authority_insufficient'')
      else let (fresh_cs, unknown) = (if er_RequireCurrent req then filterCurrent authority_cs (vo_AppliesToGeneration obl) else (authority_cs, False)) in
      if fresh_cs = [] then (if unknown then (EvidenceUnknown, ''evidence_freshness_unknown'') else (EvidenceInsufficient, ''evidence_stale''))
      else let (env_cs, st, reason) = filterEnvironment fresh_cs (er_Environment req) current in
      (case st of
         Some s \<Rightarrow> (s, reason)
       | None \<Rightarrow>
           let (s, r) = stabilityStatus (EvaluateStability sha (er_Stability req) (er_Flake req) (cands\<lparr>cr_Candidates := env_cs\<rparr>)) in
           if er_RequireQuiescence req \<and> s = EvidenceSatisfied then evaluateQuiescence env_cs quiescence else (s, r)))"

definition candidateEvidenceRefs :: "EvidenceCandidate list \<Rightarrow> string list" where
  "candidateEvidenceRefs cs = sortedUnique (map ec_EvidenceID cs)"

definition evaluateRequirement ::
  "(identity \<Rightarrow> string) \<Rightarrow> VerificationObligation \<Rightarrow> BoundEvidenceRequirement \<Rightarrow> CandidateResultSet \<Rightarrow> ProviderAvailability \<Rightarrow>
     EnvironmentBinding option \<Rightarrow> (string \<times> QuiescenceObservation) list \<Rightarrow> RequirementEvaluation" where
  "evaluateRequirement sha obl bnd cands providers current quiescence =
     (let refs = candidateEvidenceRefs (cr_Candidates cands); rid = er_ID (be_Requirement bnd);
          (st, reason) = requirement_status sha obl bnd cands providers current quiescence in
      \<lparr>rx_EvaluationID = (case EvaluationID sha (vo_PolicyDigest obl) (vo_SourceRuleID obl) (vo_ObligationID obl) rid refs of Inl _ \<Rightarrow> [] | Inr i \<Rightarrow> i),
       rx_PolicyDigest = vo_PolicyDigest obl, rx_RuleID = vo_SourceRuleID obl, rx_ObligationID = vo_ObligationID obl, rx_RequirementID = rid,
       rx_Status = st, rx_EvidenceRefs = refs, rx_ReasonCode = reason\<rparr>)"

definition foldRequirementStatuses :: "RequirementEvaluation list \<Rightarrow> EvidenceStatus" where
  "foldRequirementStatuses results =
     (case find (\<lambda>st. st \<in> set (map rx_Status results))
        [EvidenceFailed, EvidenceInconsistent, EvidenceInsufficient, EvidenceUnavailable, EvidenceUnknown, EvidenceNotEvaluated] of
        Some st \<Rightarrow> st
      | None \<Rightarrow> if results \<noteq> [] then EvidenceSatisfied else EvidenceNotEvaluated)"

definition EvaluateObligation ::
  "(identity \<Rightarrow> string) \<Rightarrow> VerificationObligation \<Rightarrow> CandidateResultSet \<Rightarrow> ProviderAvailability \<Rightarrow> EnvironmentBinding option \<Rightarrow>
     (string \<times> QuiescenceObservation) list \<Rightarrow> ObligationEvaluation" where
  "EvaluateObligation sha obl cands providers current quiescence =
     (if VerificationObligation_Validate obl \<noteq> None
      then \<lparr>oe_ObligationID = vo_ObligationID obl, oe_EvidenceStatus = EvidenceUnknown, oe_RequirementResults = [], oe_EvidenceRefs = []\<rparr>
      else let results = map (\<lambda>b. evaluateRequirement sha obl b cands providers current quiescence) (vo_EvidenceRequirements obl) in
        \<lparr>oe_ObligationID = vo_ObligationID obl, oe_EvidenceStatus = foldRequirementStatuses results, oe_RequirementResults = results,
         oe_EvidenceRefs = sortedUnique (concat (map rx_EvidenceRefs results))\<rparr>)"

section \<open>The gate\<close>

datatype GateStatus = GateClear | GateBlocked | GateIndeterminate | OtherGate string

record GateBreakdown =
  gb_EvidenceSatisfied :: int
  gb_Waived :: int
  gb_Blocking :: int
  gb_Indeterminate :: int

record GateEvaluation =
  ge_Status :: GateStatus
  ge_Breakdown :: GateBreakdown
  ge_ReasonCodes :: "string list"

fun gateEvidenceReason :: "EvidenceStatus \<Rightarrow> string" where
  "gateEvidenceReason EvidenceFailed = ''evidence_failed''"
| "gateEvidenceReason EvidenceInsufficient = ''evidence_insufficient''"
| "gateEvidenceReason EvidenceInconsistent = ''evidence_inconsistent''"
| "gateEvidenceReason EvidenceNotEvaluated = ''evidence_not_evaluated''"
| "gateEvidenceReason EvidenceUnknown = ''evidence_unknown''"
| "gateEvidenceReason EvidenceUnavailable = ''evidence_unavailable''"
| "gateEvidenceReason _ = ''evidence_status_invalid''"

definition GateBreakdown_Validate :: "GateBreakdown \<Rightarrow> goerr option" where
  "GateBreakdown_Validate g = reject (gb_EvidenceSatisfied g < 0 \<or> gb_Waived g < 0 \<or> gb_Blocking g < 0 \<or> gb_Indeterminate g < 0)
     (Errorf ''invalid gate breakdown'')"

definition GateEvaluation_Validate :: "GateEvaluation \<Rightarrow> goerr option" where
  "GateEvaluation_Validate g = first_error
     [reject ((case ge_Status g of OtherGate _ \<Rightarrow> True | _ \<Rightarrow> False) \<or> GateBreakdown_Validate (ge_Breakdown g) \<noteq> None)
        (Errorf ''invalid gate evaluation''),
      reject (length (ge_ReasonCodes g) > 32) (Errorf ''too many gate reasons''),
      reject (\<not> list_all (\<lambda>r. boundedToken r 128) (ge_ReasonCodes g) \<or> \<not> sorted_wrt (<) (ge_ReasonCodes g)) (Errorf ''invalid gate reason codes'')]"

text \<open>The loop of \<open>FoldGate\<close> over the obligations: what is seen, the counts, and the reasons.\<close>

fun fold_obligations ::
  "(identity \<Rightarrow> string) \<Rightarrow> (string \<rightharpoonup> ObligationEvaluation) \<Rightarrow> VerificationObligation list \<Rightarrow> string list \<Rightarrow> GateBreakdown \<Rightarrow> string list
     \<Rightarrow> (GateBreakdown \<times> string list) result" where
  "fold_obligations sha evals [] seen n reasons = Inr (n, reasons)"
| "fold_obligations sha evals (obl # obls) seen n reasons =
     guard_result (first_error
       [VerificationObligation_Validate obl, reject (vo_ObligationID obl \<in> set seen) (Errorf ''duplicate obligation id'')])
     (let rest = fold_obligations sha evals obls (vo_ObligationID obl # seen) in
      if vo_Disposition obl \<in> {DispositionDeferred, DispositionOptional, DispositionNotTriggered} then rest n reasons
      else if vo_Disposition obl \<notin> {DispositionRequiredNow, DispositionWaived} then Inl (Errorf ''invalid gate obligation disposition'')
      else case evals (vo_ObligationID obl) of
          None \<Rightarrow> Inl (Errorf ''missing or invalid obligation evaluation'')
        | Some e \<Rightarrow>
            if oe_ObligationID e \<noteq> vo_ObligationID obl \<or> ObligationEvaluation_Validate sha e \<noteq> None
            then Inl (Errorf ''missing or invalid obligation evaluation'')
            else if vo_Disposition obl = DispositionWaived then rest (n\<lparr>gb_Waived := gb_Waived n + 1\<rparr>) reasons
            else if oe_EvidenceStatus e = EvidenceSatisfied then rest (n\<lparr>gb_EvidenceSatisfied := gb_EvidenceSatisfied n + 1\<rparr>) reasons
            else if oe_EvidenceStatus e \<in> {EvidenceFailed, EvidenceInsufficient, EvidenceInconsistent}
            then rest (n\<lparr>gb_Blocking := gb_Blocking n + 1\<rparr>) (gateEvidenceReason (oe_EvidenceStatus e) # reasons)
            else if oe_EvidenceStatus e \<in> {EvidenceNotEvaluated, EvidenceUnknown, EvidenceUnavailable}
            then rest (n\<lparr>gb_Indeterminate := gb_Indeterminate n + 1\<rparr>) (gateEvidenceReason (oe_EvidenceStatus e) # reasons)
            else Inl (Errorf ''invalid gate evidence status''))"

definition no_counts :: GateBreakdown where
  "no_counts = \<lparr>gb_EvidenceSatisfied = 0, gb_Waived = 0, gb_Blocking = 0, gb_Indeterminate = 0\<rparr>"

definition FoldGate :: "(identity \<Rightarrow> string) \<Rightarrow> VerificationObligation list \<Rightarrow> (string \<rightharpoonup> ObligationEvaluation) \<Rightarrow> GateEvaluation result" where
  "FoldGate sha obls evals =
     bind_result (fold_obligations sha evals obls [] no_counts []) (\<lambda>(n, reasons).
       let g = \<lparr>ge_Status = (if gb_Blocking n > 0 then GateBlocked else if gb_Indeterminate n > 0 then GateIndeterminate else GateClear),
             ge_Breakdown = n, ge_ReasonCodes = sortedUnique reasons\<rparr> in
       guard_result (GateEvaluation_Validate g) (Inr g))"

datatype PolicyState = PolicyStateAbsent | PolicyStateEffective | PolicyStateProposalPending | PolicyStateInvalid | PolicyStateUnsupported | OtherPolicyState string

fun policy_state_reason :: "PolicyState \<Rightarrow> string option" where
  "policy_state_reason PolicyStateAbsent = Some ''policy_absent''"
| "policy_state_reason PolicyStateInvalid = Some ''policy_invalid''"
| "policy_state_reason PolicyStateUnsupported = Some ''policy_unsupported''"
| "policy_state_reason PolicyStateProposalPending = Some ''policy_proposal_pending''"
| "policy_state_reason PolicyStateEffective = Some ''effective_policy_unavailable''"
| "policy_state_reason (OtherPolicyState _) = None"

definition GateForPolicyState ::
  "(identity \<Rightarrow> string) \<Rightarrow> PolicyState \<Rightarrow> bool \<Rightarrow> VerificationObligation list \<Rightarrow> (string \<rightharpoonup> ObligationEvaluation) \<Rightarrow> GateEvaluation result" where
  "GateForPolicyState sha state hasEffective obls evals =
     (if hasEffective then FoldGate sha obls evals
      else case policy_state_reason state of
          None \<Rightarrow> Inl (Errorf ''invalid verification policy state'')
        | Some reason \<Rightarrow> Inr \<lparr>ge_Status = GateIndeterminate, ge_Breakdown = no_counts, ge_ReasonCodes = [reason]\<rparr>)"

end
