(* ===== verification/GoPath.thy ===== *)
theory GoPath
  imports GoText
begin

text \<open>
  \<open>path.Match\<close> of the Go library: shell patterns with \<open>*\<close>, \<open>?\<close>, character classes and escapes,
  on the bytes of pattern and name.  A malformed pattern gives no result.
\<close>

section \<open>Chunks\<close>

lemma decode_rune_width: "bs \<noteq> [] \<Longrightarrow> 0 < snd (decode_rune bs) \<and> snd (decode_rune bs) \<le> length bs"
  by (cases bs rule: decode_rune.cases) (auto split: list.splits)

text \<open>\<open>scanChunk\<close>: whether stars lead, the chunk up to the next star outside a class, and the rest.\<close>

fun skip_stars :: "nat list \<Rightarrow> bool \<times> nat list" where
  "skip_stars (c # p) = (if c = 42 then (True, snd (skip_stars p)) else (False, c # p))"
| "skip_stars [] = (False, [])"

fun scan :: "bool \<Rightarrow> nat list \<Rightarrow> nat list \<times> nat list" where
  "scan inrange [] = ([], [])"
| "scan inrange (c # p) =
     (if c = 92 then (case p of [] \<Rightarrow> ([c], []) | d # q \<Rightarrow> (c # d # fst (scan inrange q), snd (scan inrange q)))
      else if c = 42 \<and> \<not> inrange then ([], c # p)
      else let r = scan (if c = 91 then True else if c = 93 then False else inrange) p in (c # fst r, snd r))"

text \<open>\<open>getEsc\<close>: a possibly escaped rune of a character class.\<close>

definition getEsc :: "nat list \<Rightarrow> (nat \<times> nat list) option" where
  "getEsc chunk =
     (if chunk = [] \<or> hd chunk = 45 \<or> hd chunk = 93 then None
      else let c = (if hd chunk = 92 then tl chunk else chunk) in
        if c = [] then None
        else let (r, n) = decode_rune c; rest = drop n c in
          if r = RuneError \<and> n = 1 \<or> rest = [] then None else Some (r, rest))"

lemma getEsc_shorter: "getEsc chunk = Some (r, rest) \<Longrightarrow> length rest < length chunk"
proof -
  assume a: "getEsc chunk = Some (r, rest)"
  let ?c = "if hd chunk = 92 then tl chunk else chunk"
  have "?c \<noteq> []" "rest = drop (snd (decode_rune ?c)) ?c" "chunk \<noteq> []"
    using a by (auto simp: getEsc_def Let_def split: if_splits prod.splits)
  then show ?thesis using decode_rune_width [of ?c] by (auto split: if_splits)
qed

text \<open>The ranges of a class after its negation sign: whether the rune is in one of them, and the rest.\<close>

function class_ranges :: "nat \<Rightarrow> bool \<Rightarrow> nat \<Rightarrow> nat list \<Rightarrow> (bool \<times> nat list) option" where
  "class_ranges r found nrange chunk =
     (if chunk \<noteq> [] \<and> hd chunk = 93 \<and> nrange > 0 then Some (found, tl chunk)
      else case getEsc chunk of
          None \<Rightarrow> None
        | Some (lo, c1) \<Rightarrow>
            if hd c1 = 45
            then (case getEsc (tl c1) of
                None \<Rightarrow> None
              | Some (hi, c2) \<Rightarrow> class_ranges r (found \<or> lo \<le> r \<and> r \<le> hi) (Suc nrange) c2)
            else class_ranges r (found \<or> lo = r) (Suc nrange) c1)"
  by pat_completeness auto
termination
  by (relation "measure (\<lambda>(_, _, _, chunk). length chunk)") (fastforce dest!: getEsc_shorter)+

declare class_ranges.simps [simp del]

lemma class_ranges_shorter: "class_ranges r found n chunk = Some (b, rest) \<Longrightarrow> length rest < length chunk"
proof (induction r found n chunk arbitrary: b rest rule: class_ranges.induct)
  case (1 r found n chunk)
  show ?case
  proof (cases "chunk \<noteq> [] \<and> hd chunk = 93 \<and> n > 0")
    case True
    with 1 show ?thesis by (subst (asm) class_ranges.simps) auto
  next
    case False
    then obtain lo c1 where c1: "getEsc chunk = Some (lo, c1)"
      using "1.prems" by (subst (asm) class_ranges.simps) (auto split: option.splits)
    show ?thesis
    proof (cases "hd c1 = 45")
      case True
      then obtain hi c2 where "getEsc (tl c1) = Some (hi, c2)" "class_ranges r (found \<or> lo \<le> r \<and> r \<le> hi) (Suc n) c2 = Some (b, rest)"
        using "1.prems" False c1 by (subst (asm) class_ranges.simps) (auto split: option.splits)
      with "1.IH"(1) [OF False c1 refl True] getEsc_shorter [OF c1] getEsc_shorter [of "tl c1"] show ?thesis by fastforce
    next
      case nodash: False
      then have "class_ranges r (found \<or> lo = r) (Suc n) c1 = Some (b, rest)"
        using "1.prems" False c1 by (subst (asm) class_ranges.simps) (auto split: option.splits)
      with "1.IH"(2) [OF False c1 refl nodash] getEsc_shorter [OF c1] show ?thesis by fastforce
    qed
  qed
qed

text \<open>
  \<open>matchChunk\<close>: the name still to match, or \<open>None\<close> once the match has failed (the chunk is then only
  checked for its form).  The result is \<open>None\<close> for a malformed chunk.
\<close>

definition next_name :: "nat list option \<Rightarrow> nat list option" where
  "next_name s = (case s of Some [] \<Rightarrow> None | _ \<Rightarrow> s)"

definition step_class :: "nat list option \<Rightarrow> bool \<Rightarrow> bool \<Rightarrow> nat list option" where
  "step_class s found negated = (if found = negated then None else map_option (\<lambda>t. drop (snd (decode_rune t)) t) s)"

definition step_any :: "nat list option \<Rightarrow> nat list option" where
  "step_any s = (case s of None \<Rightarrow> None | Some t \<Rightarrow> if hd t = 47 then None else Some (drop (snd (decode_rune t)) t))"

definition step_byte :: "nat \<Rightarrow> nat list option \<Rightarrow> nat list option" where
  "step_byte c s = (case s of None \<Rightarrow> None | Some t \<Rightarrow> if hd t \<noteq> c then None else Some (tl t))"

function matchChunk :: "nat list \<Rightarrow> nat list option \<Rightarrow> nat list option option" where
  "matchChunk [] s = Some s"
| "matchChunk (c # chunk) s =
     (let s1 = next_name s in
      if c = 91 then
        (let negated = (chunk \<noteq> [] \<and> hd chunk = 94);
             r = (case s1 of None \<Rightarrow> 0 | Some t \<Rightarrow> fst (decode_rune t)) in
         case class_ranges r False 0 (if negated then tl chunk else chunk) of
           None \<Rightarrow> None
         | Some (found, rest) \<Rightarrow> matchChunk rest (step_class s1 found negated))
      else if c = 63 then matchChunk chunk (step_any s1)
      else if c = 92 then (case chunk of [] \<Rightarrow> None | d # rest \<Rightarrow> matchChunk rest (step_byte d s1))
      else matchChunk chunk (step_byte c s1))"
  by pat_completeness auto
termination
  by (relation "measure (\<lambda>(chunk, _). length chunk)") (fastforce dest!: class_ranges_shorter split: if_splits)+

section \<open>Match\<close>

text \<open>The first place at or after the current one, before a slash, where the chunk matches well enough.\<close>

fun find_chunk :: "nat list \<Rightarrow> bool \<Rightarrow> nat list \<Rightarrow> nat list option option" where
  "find_chunk chunk final [] = Some None"
| "find_chunk chunk final (c # name) =
     (if c = 47 then Some None
      else case matchChunk chunk (Some name) of
          None \<Rightarrow> None
        | Some (Some t) \<Rightarrow> if final \<and> t \<noteq> [] then find_chunk chunk final name else Some (Some t)
        | Some None \<Rightarrow> find_chunk chunk final name)"

lemma skip_stars_length: "length (snd (skip_stars p)) \<le> length p"
  by (induction p rule: skip_stars.induct) auto

lemma scan_length: "length (fst (scan b p)) + length (snd (scan b p)) = length p"
  by (induction b p rule: scan.induct) (auto simp: Let_def split: list.splits)

lemma scan_progress:
  assumes "p \<noteq> []" "skip_stars p = (star, q)" "scan False q = (chunk, rest)"
  shows "length rest < length p"
proof (cases star)
  case True
  then have "length q < length p"
    using assms(1,2) skip_stars_length [of "tl p"] by (cases p) (auto split: if_splits)
  then show ?thesis using scan_length [of False q] assms(3) by simp
next
  case False
  then have "q = p" "hd p \<noteq> 42" using assms(1,2) by (cases p; auto split: if_splits)+
  then have "chunk \<noteq> []" using assms(1,3) by (cases p) (auto simp: Let_def split: if_splits list.splits)
  then show ?thesis using scan_length [of False q] assms(3) \<open>q = p\<close> by (cases chunk) auto
qed

function match_bytes :: "nat list \<Rightarrow> nat list \<Rightarrow> bool option" where
  "match_bytes pattern name =
     (if pattern = [] then Some (name = [])
      else let (star, q) = skip_stars pattern; (chunk, rest) = scan False q in
        if star \<and> chunk = [] then Some (47 \<notin> set name)
        else (case matchChunk chunk (Some name) of
            None \<Rightarrow> None
          | Some t \<Rightarrow>
              if (case t of None \<Rightarrow> False | Some t' \<Rightarrow> t' = [] \<or> rest \<noteq> []) then match_bytes rest (the t)
              else if star then (case find_chunk chunk (rest = []) name of
                  None \<Rightarrow> None
                | Some (Some t') \<Rightarrow> match_bytes rest t'
                | Some None \<Rightarrow> Some False)
              else Some False))"
  by pat_completeness auto
termination
  by (relation "measure (\<lambda>(pattern, _). length pattern)") (auto intro: scan_progress [OF _ sym sym])

declare match_bytes.simps [simp del]

text \<open>
  Before it reports a mismatch \<open>path.Match\<close> also checks the rest of the pattern, which turns a mismatch into an
  error; for the callers here, which ignore the error, both are no match.
\<close>

definition path_Match :: "string \<Rightarrow> string \<Rightarrow> bool" where
  "path_Match pattern name = (match_bytes (map of_char pattern) (map of_char name) = Some True)"

section \<open>Plain patterns\<close>

text \<open>A pattern without special bytes matches exactly itself.\<close>

definition plain :: "nat list \<Rightarrow> bool" where
  "plain p \<longleftrightarrow> list_all (\<lambda>c. c \<notin> {42, 63, 91, 92}) p"

lemma scan_plain: "plain p \<Longrightarrow> scan b p = (p, [])"
  by (induction b p rule: scan.induct) (auto simp: plain_def Let_def)

lemma skip_stars_plain: "plain p \<Longrightarrow> skip_stars p = (False, p)"
  by (cases p) (auto simp: plain_def)

lemma matchChunk_plain:
  "plain p \<Longrightarrow> matchChunk p (Some name) = Some (if take (length p) name = p then Some (drop (length p) name) else None)"
proof -
  have failed: "plain p \<Longrightarrow> matchChunk p None = Some None" for p
    by (induction p) (auto simp: plain_def next_name_def step_byte_def)
  show "plain p \<Longrightarrow> matchChunk p (Some name) = Some (if take (length p) name = p then Some (drop (length p) name) else None)"
  proof (induction p arbitrary: name)
    case (Cons c p)
    then show ?case using failed [of p] by (cases name) (auto simp: plain_def next_name_def step_byte_def)
  qed simp
qed

lemma match_plain: "plain p \<Longrightarrow> match_bytes p name = Some (name = p)"
  by (subst match_bytes.simps) (auto simp: skip_stars_plain scan_plain matchChunk_plain match_bytes.simps [of "[]"])

lemma path_Match_plain: "plain (map of_char p) \<Longrightarrow> path_Match p name \<longleftrightarrow> name = p"
  by (auto simp: path_Match_def match_plain dest: map_injective [OF _ inj_of_char] simp: inj_map_eq_map [OF inj_of_char])

end
