(* ===== verification/VerificationObligations.thy ===== *)
theory VerificationObligations
  imports VerificationEvaluate GoPath
begin

text \<open>
  From a policy and what a change affects to obligations: the classification of affected paths
  (app/verification/affected.go, from \<open>ApplyEffectiveClassifications\<close> on) and the derivation of one
  obligation per rule with the gaps of the policy (app/verification/obligations.go).  The resolver
  of project commands is a parameter: it gives, for a workspace, a command and its parameters, the
  command's binding or an error, and the binding gives its digest or an error.
\<close>

section \<open>Classification\<close>

definition TrimPrefix :: "string \<Rightarrow> string \<Rightarrow> string" where
  "TrimPrefix s p = (if HasPrefix s p then drop (length p) s else s)"

definition TrimSuffix :: "string \<Rightarrow> string \<Rightarrow> string" where
  "TrimSuffix s p = (if HasSuffix s p then take (length s - length p) s else s)"

definition matches_pattern :: "string \<Rightarrow> string \<Rightarrow> bool" where
  "matches_pattern pattern v =
     (if HasSuffix pattern ''/**''
      then let p = TrimSuffix pattern ''/**'' in v = p \<or> HasPrefix v (p @ ''/'')
      else path_Match pattern v)"

definition matchesPolicyPath :: "string list \<Rightarrow> string \<Rightarrow> bool" where
  "matchesPolicyPath patterns v = list_ex (\<lambda>p. matches_pattern p v) patterns"

definition path_subjects :: "AffectedRelation \<Rightarrow> string list" where
  "path_subjects r = (if su_Kind (rl_From r) = SubjectPath then [su_Value (rl_From r)] else []) @
     (if su_Kind (rl_To r) = SubjectPath then [su_Value (rl_To r)] else [])"

definition affectedPathSubjects :: "AffectedSurface \<Rightarrow> string list" where
  "affectedPathSubjects s = sortedUnique (concat (map path_subjects (sf_Relations s)))"

text \<open>The results of a loop that stops at the first error.\<close>

fun collect :: "'a result list \<Rightarrow> 'a list result" where
  "collect [] = Inr []"
| "collect (x # xs) = bind_result x (\<lambda>y. bind_result (collect xs) (\<lambda>ys. Inr (y # ys)))"

definition selection_coverage :: "AffectedSurface \<Rightarrow> Coverage" where
  "selection_coverage s =
     (if sf_SourceGeneration s = [] then CoverageUnknown
      else case find (\<lambda>d. dm_Kind d = DomainSourceSelection) (sf_Domains s) of None \<Rightarrow> CoverageUnknown | Some d \<Rightarrow> dm_Coverage d)"

definition policy_provider :: VerificationProvider where
  "policy_provider = \<lparr>vp_ID = ''verification_policy'', vp_Version = 1\<rparr>"

definition approved_time :: "MaterializedPolicy \<Rightarrow> time" where
  "approved_time p = (if IsZero (mp_ApprovedAt p) then 62135596801 * 10 ^ 9 else mp_ApprovedAt p)"

definition classification_domain :: "(identity \<Rightarrow> string) \<Rightarrow> AffectedSurface \<Rightarrow> MaterializedPolicy \<Rightarrow> string \<Rightarrow> AffectedDomain result" where
  "classification_domain sha s policy digest =
     (let refs = [''policy:'' @ digest] in
      bind_result (if sf_SourceGeneration s = [] then DomainIDWithoutGeneration sha DomainPolicyClassification (Some policy_provider) refs
                   else DomainID sha DomainPolicyClassification (Some policy_provider) (sf_SourceGeneration s) refs) (\<lambda>i.
      Inr \<lparr>dm_DomainID = i, dm_Kind = DomainPolicyClassification, dm_DerivationAuthority = AuthorityMechanical,
        dm_Coverage = selection_coverage s, dm_Provider = Some policy_provider, dm_SourceGeneration = sf_SourceGeneration s,
        dm_ProvenanceRefs = refs, dm_CapturedAt = approved_time policy, dm_Caveats = []\<rparr>))"

definition classified_relation ::
  "(identity \<Rightarrow> string) \<Rightarrow> AffectedSurface \<Rightarrow> MaterializedPolicy \<Rightarrow> string \<Rightarrow> Classification \<Rightarrow> string \<Rightarrow> AffectedRelation result" where
  "classified_relation sha s policy digest c p =
     (let r = \<lparr>rl_RelationID = [], rl_From = \<lparr>su_Kind = SubjectPath, su_Value = p\<rparr>, rl_To = \<lparr>su_Kind = SubjectSurfaceClass, su_Value = cl_SurfaceClass c\<rparr>,
        rl_Kind = ''classified_as'', rl_Basis = BasisProjectPolicy, rl_DerivationAuthority = AuthorityMechanical, rl_Coverage = selection_coverage s,
        rl_Provider = Some policy_provider, rl_SourceGeneration = sf_SourceGeneration s,
        rl_ProvenanceRefs = [''policy:'' @ digest, ''classification:'' @ cl_ID c], rl_CapturedAt = approved_time policy, rl_Caveats = []\<rparr> in
      bind_result (RelationID sha r) (\<lambda>i. Inr (r\<lparr>rl_RelationID := i\<rparr>)))"

definition classification_pairs :: "AffectedSurface \<Rightarrow> PolicyContent \<Rightarrow> (Classification \<times> string) list" where
  "classification_pairs s content =
     concat (map (\<lambda>c. map (Pair c) (filter (matchesPolicyPath (cl_Paths c)) (affectedPathSubjects s))) (pc_Classifiers content))"

definition ApplyEffectiveClassifications :: "(identity \<Rightarrow> string) \<Rightarrow> AffectedSurface \<Rightarrow> MaterializedPolicy \<Rightarrow> AffectedSurface result" where
  "ApplyEffectiveClassifications sha base policy =
     (let content = pn_Content (mp_Snapshot policy) in
      guard_result (AffectedSurface_Validate base)
      (bind_result (VerificationPolicyDigest sha content) (\<lambda>digest.
       guard_result (reject (digest \<noteq> pn_Digest (mp_Snapshot policy) \<or> pn_RepositoryID (mp_Snapshot policy) \<noteq> sf_RepositoryID base)
          (Errorf ''effective policy binding mismatch''))
       (bind_result (classification_domain sha base policy digest) (\<lambda>d.
        bind_result (if sf_SourceGeneration base = [] then Inr []
          else collect (map (\<lambda>(c, p). classified_relation sha base policy digest c p) (classification_pairs base content))) (\<lambda>rs.
        let out = base\<lparr>sf_Domains := sf_Domains base @ [d], sf_Relations := sort_key rl_RelationID (sf_Relations base @ rs)\<rparr> in
        guard_result (AffectedSurface_Validate out) (Inr out)))))))"

section \<open>Selectors of a rule\<close>

record selectorEvaluation =
  sl_positive :: bool
  sl_provenNonMatch :: bool
  sl_triggerRefs :: "string list"
  sl_scopeRefs :: "string list"
  sl_uncertain :: bool

definition surfaceDomainRefs :: "AffectedSurface \<Rightarrow> string list" where
  "surfaceDomainRefs s = sortedUniqueStrings (filter (\<lambda>i. i \<noteq> []) (map dm_DomainID (sf_Domains s)))"

definition relationMatchesPath :: "AffectedRelation \<Rightarrow> string list \<Rightarrow> bool" where
  "relationMatchesPath r patterns \<longleftrightarrow> patterns \<noteq> [] \<and>
     (su_Kind (rl_From r) = SubjectPath \<and> matchesPolicyPath patterns (su_Value (rl_From r)) \<or>
      su_Kind (rl_To r) = SubjectPath \<and> matchesPolicyPath patterns (su_Value (rl_To r)))"

definition relationMatchesClass :: "AffectedRelation \<Rightarrow> string \<Rightarrow> string list \<Rightarrow> bool" where
  "relationMatchesClass r digest classes \<longleftrightarrow> classes \<noteq> [] \<and> rl_Kind r = ''classified_as'' \<and> su_Kind (rl_To r) = SubjectSurfaceClass \<and>
     su_Value (rl_To r) \<in> set classes \<and> (''policy:'' @ digest) \<in> set (rl_ProvenanceRefs r)"

definition strongDomain :: "AffectedSurface \<Rightarrow> AffectedDomainKind \<Rightarrow> string \<Rightarrow> DerivationAuthority \<Rightarrow> bool" where
  "strongDomain s kind provenance minimum = list_ex (\<lambda>d. dm_Kind d = kind \<and> dm_Coverage d = CoverageComplete \<and>
     MeetsMinimumAuthority (dm_DerivationAuthority d) minimum \<and> (provenance = [] \<or> provenance \<in> set (dm_ProvenanceRefs d))) (sf_Domains s)"

definition strongPathNonMatchDomain :: "AffectedSurface \<Rightarrow> DerivationAuthority \<Rightarrow> bool" where
  "strongPathNonMatchDomain s minimum \<longleftrightarrow> strongDomain s DomainSourceSelection [] minimum \<and>
     list_all (\<lambda>d. dm_Kind d = DomainGoImportGraph \<longrightarrow>
        dm_Coverage d = CoverageComplete \<and> MeetsMinimumAuthority (dm_DerivationAuthority d) minimum) (sf_Domains s)"

definition strongClassNonMatchDomain :: "AffectedSurface \<Rightarrow> string \<Rightarrow> DerivationAuthority \<Rightarrow> bool" where
  "strongClassNonMatchDomain s digest minimum = strongDomain s DomainPolicyClassification (''policy:'' @ digest) minimum"

definition rule_matches :: "string \<Rightarrow> Rule \<Rightarrow> AffectedRelation \<Rightarrow> bool" where
  "rule_matches digest rule r \<longleftrightarrow> MeetsMinimumAuthority (rl_DerivationAuthority r) (ru_MinimumAffectedAuthority rule) \<and>
     (relationMatchesPath r (ru_MatchPaths rule) \<or> relationMatchesClass r digest (ru_MatchClasses rule))"

definition evaluateRuleSelectors :: "AffectedSurface \<Rightarrow> string \<Rightarrow> Rule \<Rightarrow> selectorEvaluation" where
  "evaluateRuleSelectors s digest rule =
     (if ru_MatchPaths rule = [] \<and> ru_MatchClasses rule = []
      then \<lparr>sl_positive = True, sl_provenNonMatch = False, sl_triggerRefs = [''policy:'' @ digest, ''rule:'' @ ru_ID rule],
        sl_scopeRefs = surfaceDomainRefs s, sl_uncertain = False\<rparr>
      else let hits = filter (rule_matches digest rule) (sf_Relations s) in
        if hits \<noteq> []
        then \<lparr>sl_positive = True, sl_provenNonMatch = False, sl_triggerRefs = map rl_RelationID hits, sl_scopeRefs = surfaceDomainRefs s, sl_uncertain = False\<rparr>
        else let proven = (ru_MatchPaths rule = [] \<or> strongPathNonMatchDomain s (ru_MinimumAffectedAuthority rule)) \<and>
                  (ru_MatchClasses rule = [] \<or> strongClassNonMatchDomain s digest (ru_MinimumAffectedAuthority rule)) in
          \<lparr>sl_positive = False, sl_provenNonMatch = proven, sl_triggerRefs = [], sl_scopeRefs = surfaceDomainRefs s, sl_uncertain = \<not> proven\<rparr>)"

section \<open>Phases\<close>

fun pipelinePhaseRank :: "VerificationPhase \<Rightarrow> nat option" where
  "pipelinePhaseRank PhaseInnerLoop = Some 0"
| "pipelinePhaseRank PhaseCheckpoint = Some 1"
| "pipelinePhaseRank PhasePreMerge = Some 2"
| "pipelinePhaseRank PhaseRelease = Some 3"
| "pipelinePhaseRank _ = None"

text \<open>The loop of \<open>nextPipelinePhase\<close>, with the best phase so far and its rank.\<close>

fun next_phase :: "nat \<Rightarrow> VerificationPhase list \<Rightarrow> nat \<Rightarrow> VerificationPhase option \<Rightarrow> VerificationPhase option" where
  "next_phase cur [] best_rank best = best"
| "next_phase cur (p # ps) best_rank best =
     (case pipelinePhaseRank p of
        None \<Rightarrow> next_phase cur ps best_rank best
      | Some r \<Rightarrow> if r \<le> cur \<or> r \<ge> best_rank then next_phase cur ps best_rank best else next_phase cur ps r (Some p))"

definition nextPipelinePhase :: "VerificationPhase list \<Rightarrow> VerificationPhase \<Rightarrow> VerificationPhase option" where
  "nextPipelinePhase phases current = (case pipelinePhaseRank current of None \<Rightarrow> None | Some r \<Rightarrow> next_phase r phases 99 None)"

definition phaseSortKey :: "VerificationPhase \<Rightarrow> nat" where
  "phaseSortKey p = (case pipelinePhaseRank p of Some r \<Rightarrow> r | None \<Rightarrow> if p = PhaseNightly then 10 else if p = PhasePeriodic then 11 else 99)"

definition selectedRequiredPhase :: "VerificationPhase list \<Rightarrow> VerificationPhase \<Rightarrow> VerificationPhase" where
  "selectedRequiredPhase phases current =
     (if current \<in> set phases then current
      else case nextPipelinePhase phases current of
          Some p \<Rightarrow> p
        | None \<Rightarrow> (case sort_key phaseSortKey phases of [] \<Rightarrow> current | p # _ \<Rightarrow> p))"

definition ruleDisposition :: "Rule \<Rightarrow> VerificationPhase \<Rightarrow> selectorEvaluation \<Rightarrow> VerificationPhase \<times> ObligationDisposition" where
  "ruleDisposition rule current sel =
     (let required = selectedRequiredPhase (ru_Phases rule) current in
      if sl_provenNonMatch sel then (required, DispositionNotTriggered)
      else if \<not> ru_Required rule
      then (if current \<in> set (ru_Phases rule) then (current, DispositionOptional) else (required, DispositionNotTriggered))
      else if current \<in> set (ru_Phases rule) then (current, DispositionRequiredNow)
      else case nextPipelinePhase (ru_Phases rule) current of
          Some later \<Rightarrow> (later, DispositionDeferred)
        | None \<Rightarrow> (required, DispositionNotTriggered))"

section \<open>Derivation\<close>

type_synonym CommandResolver = "string \<Rightarrow> string \<Rightarrow> (string \<times> string) list \<Rightarrow> string result result"

definition declaredEvidenceRequirements :: "Rule \<Rightarrow> BoundEvidenceRequirement list" where
  "declaredEvidenceRequirements rule =
     map (\<lambda>r. \<lparr>be_Requirement = r, be_ExpectedProjectBindingDigest = []\<rparr>) (sort_key er_ID (ru_Evidence rule))"

text \<open>The bound requirement, and the diagnostic when its command cannot be bound.\<close>

definition bind_requirement :: "CommandResolver option \<Rightarrow> string \<Rightarrow> Rule \<Rightarrow> EvidenceRequirement \<Rightarrow> BoundEvidenceRequirement \<times> string option" where
  "bind_requirement commands ws rule req =
     (let unbound = \<lparr>be_Requirement = req, be_ExpectedProjectBindingDigest = []\<rparr>;
          failed = (\<lambda>what. Some (what @ '':'' @ ru_ID rule @ '':'' @ er_ID req)) in
      if er_ProjectCommandID req = [] then (unbound, None)
      else case commands of
          None \<Rightarrow> (unbound, failed ''project_binding_unavailable'')
        | Some resolve \<Rightarrow>
            (case resolve ws (er_ProjectCommandID req) (er_Params req) of
               Inl _ \<Rightarrow> (unbound, failed ''project_binding_unavailable'')
             | Inr (Inl _) \<Rightarrow> (unbound, failed ''project_binding_invalid'')
             | Inr (Inr digest) \<Rightarrow> (unbound\<lparr>be_ExpectedProjectBindingDigest := digest\<rparr>, None)))"

definition bindEvidence :: "CommandResolver option \<Rightarrow> string \<Rightarrow> Rule \<Rightarrow> BoundEvidenceRequirement list \<times> EvidenceStatus \<times> string list" where
  "bindEvidence commands ws rule =
     (let bs = map (bind_requirement commands ws rule) (sort_key er_ID (ru_Evidence rule)); ds = List.map_filter snd bs in
      (map fst bs, if ds = [] then EvidenceNotEvaluated else EvidenceUnavailable, ds))"

definition matchingWaiver ::
  "VerificationWaiver list \<Rightarrow> string \<Rightarrow> string \<Rightarrow> string \<Rightarrow> VerificationPhase \<Rightarrow> string \<Rightarrow> VerificationWaiver option" where
  "matchingWaiver waivers repo digest rule phase generation =
     find (\<lambda>w. wv_RepositoryID w = repo \<and> wv_PolicyDigest w = digest \<and> wv_RuleID w = rule \<and> wv_Phase w = phase \<and>
        (wv_Generation w = [] \<or> wv_Generation w = generation)) (sort_key wv_WaiverID waivers)"

record ObligationRequest =
  oq_WorkspaceID :: string
  oq_Phase :: VerificationPhase
  oq_Policy :: MaterializedPolicy
  oq_Surface :: AffectedSurface
  oq_ActiveWaivers :: "VerificationWaiver list"

record ObligationResult =
  ox_Obligations :: "VerificationObligation list"
  ox_PolicyGaps :: "PolicyGap list"
  ox_Diagnostics :: "string list"

definition apply_waiver :: "ObligationRequest \<Rightarrow> string \<Rightarrow> VerificationObligation \<Rightarrow> VerificationObligation" where
  "apply_waiver req digest obl =
     (if vo_Disposition obl = DispositionRequiredNow then
        (case matchingWaiver (oq_ActiveWaivers req) (sf_RepositoryID (oq_Surface req)) digest (vo_SourceRuleID obl) (oq_Phase req)
              (sf_SourceGeneration (oq_Surface req)) of
           None \<Rightarrow> obl
         | Some w \<Rightarrow> obl\<lparr>vo_Disposition := DispositionWaived, vo_WaiverID := wv_WaiverID w\<rparr>)
      else obl)"

definition deriveRule ::
  "(identity \<Rightarrow> string) \<Rightarrow> CommandResolver option \<Rightarrow> ObligationRequest \<Rightarrow> string \<Rightarrow> Rule \<Rightarrow> (VerificationObligation \<times> string list) result" where
  "deriveRule sha commands req digest rule =
     (let surface = oq_Surface req; sel = evaluateRuleSelectors surface digest rule;
          (required, disposition) = ruleDisposition rule (oq_Phase req) sel;
          (bound, st, diags) = (if disposition \<noteq> DispositionNotTriggered then bindEvidence commands (oq_WorkspaceID req) rule
             else (declaredEvidenceRequirements rule, EvidenceNotEvaluated, []));
          triggers = (if sl_triggerRefs sel = [] then [''policy:'' @ digest, ''rule:'' @ ru_ID rule] else sl_triggerRefs sel);
          scope1 = (if sl_scopeRefs sel = [] then surfaceDomainRefs surface else sl_scopeRefs sel);
          scope = (if scope1 = [] then triggers else scope1) in
      bind_result (ObligationID sha digest (ru_ID rule) (sf_SourceGeneration surface) triggers) (\<lambda>i.
      let obl = apply_waiver req digest
            \<lparr>vo_SchemaVersion = 1, vo_ObligationID = i, vo_PolicyDigest = digest, vo_SourceRuleID = ru_ID rule,
             vo_TriggerRefs = sortedUniqueStrings triggers, vo_AffectedScopeRefs = sortedUniqueStrings scope, vo_Ownership = ru_Ownership rule,
             vo_RiskClass = ru_RiskClass rule, vo_RequiredPhase = required, vo_SufficiencyBasis = ru_SufficiencyBasis rule,
             vo_MinimumAffectedAuthority = ru_MinimumAffectedAuthority rule, vo_EvidenceRequirements = bound,
             vo_AppliesToGeneration = sf_SourceGeneration surface, vo_Disposition = disposition, vo_EvidenceStatus = st,
             vo_EvidenceRefs = [], vo_WaiverID = []\<rparr>;
          widened = (if sl_uncertain sel \<and> ru_Required rule \<and> disposition \<noteq> DispositionNotTriggered
             then [''applicability_uncertain_widened:'' @ ru_ID rule] else []) in
      guard_result (VerificationObligation_Validate obl) (Inr (obl, diags @ widened))))"

definition classificationSource :: "string list \<Rightarrow> string" where
  "classificationSource refs = (case find (\<lambda>r. HasPrefix r ''classification:'') refs of None \<Rightarrow> [] | Some r \<Rightarrow> TrimPrefix r ''classification:'')"

definition uncovered :: "PolicyContent \<Rightarrow> string \<Rightarrow> AffectedRelation \<Rightarrow> bool" where
  "uncovered policy digest r \<longleftrightarrow> rl_Kind r = ''classified_as'' \<and> su_Kind (rl_From r) = SubjectPath \<and> su_Kind (rl_To r) = SubjectSurfaceClass \<and>
     MeetsMinimumAuthority (rl_DerivationAuthority r) AuthorityMechanical \<and> (''policy:'' @ digest) \<in> set (rl_ProvenanceRefs r) \<and>
     su_Value (rl_To r) \<notin> set (concat (map ru_MatchClasses (pc_Rules policy))) \<and> classificationSource (rl_ProvenanceRefs r) \<noteq> []"

definition gap_of :: "(identity \<Rightarrow> string) \<Rightarrow> AffectedSurface \<Rightarrow> string \<Rightarrow> AffectedRelation \<Rightarrow> PolicyGap result" where
  "gap_of sha s digest r =
     (let src = classificationSource (rl_ProvenanceRefs r) in
      bind_result (PolicyGapID sha digest src (sf_SourceGeneration s) [rl_RelationID r]) (\<lambda>i.
      let gap = \<lparr>gp_GapID = i, gp_SurfaceRef = su_Value (rl_From r), gp_DeclaredClass = su_Value (rl_To r), gp_ClassificationSource = src,
            gp_MissingPolicyClass = su_Value (rl_To r), gp_Authority = rl_DerivationAuthority r, gp_ProvenanceRefs = rl_ProvenanceRefs r\<rparr> in
      guard_result (PolicyGap_Validate gap) (Inr gap)))"

definition derivePolicyGaps :: "(identity \<Rightarrow> string) \<Rightarrow> AffectedSurface \<Rightarrow> PolicyContent \<Rightarrow> string \<Rightarrow> PolicyGap list result" where
  "derivePolicyGaps sha s policy digest =
     bind_result (collect (map (gap_of sha s digest) (filter (uncovered policy digest) (sf_Relations s))))
       (\<lambda>gaps. Inr (sort_key gp_SurfaceRef (sort_key gp_DeclaredClass gaps)))"

definition Derive :: "(identity \<Rightarrow> string) \<Rightarrow> CommandResolver option \<Rightarrow> ObligationRequest \<Rightarrow> ObligationResult result" where
  "Derive sha commands req =
     (let snapshot = mp_Snapshot (oq_Policy req); surface = oq_Surface req; content = pn_Content snapshot in
      guard_result (reject (VerificationPhase_Validate (oq_Phase req) \<noteq> None \<or> AffectedSurface_Validate surface \<noteq> None)
         (Errorf ''invalid obligation request''))
      (case VerificationPolicyDigest sha content of
         Inl _ \<Rightarrow> Inl (Errorf ''effective policy binding mismatch'')
       | Inr digest \<Rightarrow>
           guard_result (first_error
             [reject (digest \<noteq> pn_Digest snapshot \<or> pn_RepositoryID snapshot \<noteq> sf_RepositoryID surface) (Errorf ''effective policy binding mismatch''),
              reject (sf_SourceGeneration surface = []) (Errorf ''source generation unavailable for obligation identity'')])
           (bind_result (collect (map (deriveRule sha commands req digest) (sort_key ru_ID (pc_Rules content)))) (\<lambda>rs.
            bind_result (derivePolicyGaps sha surface content digest) (\<lambda>gaps.
            Inr \<lparr>ox_Obligations = map fst rs, ox_PolicyGaps = gaps, ox_Diagnostics = sortedUniqueStrings (concat (map snd rs))\<rparr>)))))"

end
