(* ===== verification/VerificationStore.thy ===== *)
theory VerificationStore
  imports VerificationObligations Storage
begin

text \<open>
  The files of the authority over verification: policy snapshots, activations, the effective
  policy, waivers and revocations (internal/adapter/store/verification_policy.go).  Each operation
  of the store holds one lock, so it is a step on the files; the outcomes of its writes and the
  readings of its clock are given with the state.
\<close>

section \<open>Files\<close>

record verificationEffectiveIndex =
  ei_SchemaVersion :: int
  ei_ActivationID :: string
  ei_PolicyDigest :: string

text \<open>The directories, one per repository; the effective index is one file per repository.\<close>

record VerificationStore =
  vs_policies :: "string \<Rightarrow> PolicySnapshot dir"
  vs_activations :: "string \<Rightarrow> PolicyActivation dir"
  vs_effective :: "verificationEffectiveIndex dir"
  vs_waivers :: "string \<Rightarrow> VerificationWaiver dir"
  vs_revocations :: "string \<Rightarrow> WaiverRevocation dir"
  vs_io :: "file_write list"
  vs_clock :: "time list"

definition readStrict :: "'a dir \<Rightarrow> string \<Rightarrow> 'a result" where
  "readStrict d k = readPrivateJSON d k"

text \<open>\<open>None\<close> when the file is missing.\<close>

definition find_strict :: "'a dir \<Rightarrow> string \<Rightarrow> 'a option result" where
  "find_strict d k = (case readStrict d k of Inr x \<Rightarrow> Inr (Some x) | Inl e \<Rightarrow> if is_not_found e then Inr None else Inl e)"

definition clock :: "VerificationStore \<Rightarrow> time \<times> VerificationStore" where
  "clock s = (case vs_clock s of [] \<Rightarrow> (1, s) | t # ts \<Rightarrow> (t, s\<lparr>vs_clock := ts\<rparr>))"

definition take_io :: "VerificationStore \<Rightarrow> file_write \<times> VerificationStore" where
  "take_io s = (fst (next_io (vs_io s)), s\<lparr>vs_io := snd (next_io (vs_io s))\<rparr>)"

text \<open>\<open>ensureVerificationRepoDir\<close>: creating the directory may fail; it holds no file of its own.\<close>

definition ensureVerificationRepoDir :: "VerificationStore \<Rightarrow> goerr option \<times> VerificationStore" where
  "ensureVerificationRepoDir s = (case take_io s of (WriteFailed e, s') \<Rightarrow> (Some e, s') | (_, s') \<Rightarrow> (None, s'))"

definition put_policy :: "string \<Rightarrow> string \<Rightarrow> PolicySnapshot \<Rightarrow> VerificationStore \<Rightarrow> goerr option \<times> VerificationStore" where
  "put_policy repo k v s = (case take_io s of (io, s1) \<Rightarrow> case atomic_Create io (vs_policies s1 repo) k v of (res, d) \<Rightarrow>
     (sr_Err res, s1\<lparr>vs_policies := (vs_policies s1)(repo := d)\<rparr>))"

definition put_activation :: "string \<Rightarrow> string \<Rightarrow> PolicyActivation \<Rightarrow> VerificationStore \<Rightarrow> goerr option \<times> VerificationStore" where
  "put_activation repo k v s = (case take_io s of (io, s1) \<Rightarrow> case atomic_Create io (vs_activations s1 repo) k v of (res, d) \<Rightarrow>
     (sr_Err res, s1\<lparr>vs_activations := (vs_activations s1)(repo := d)\<rparr>))"

definition put_waiver :: "string \<Rightarrow> string \<Rightarrow> VerificationWaiver \<Rightarrow> VerificationStore \<Rightarrow> goerr option \<times> VerificationStore" where
  "put_waiver repo k v s = (case take_io s of (io, s1) \<Rightarrow> case atomic_Create io (vs_waivers s1 repo) k v of (res, d) \<Rightarrow>
     (sr_Err res, s1\<lparr>vs_waivers := (vs_waivers s1)(repo := d)\<rparr>))"

definition put_revocation :: "string \<Rightarrow> string \<Rightarrow> WaiverRevocation \<Rightarrow> VerificationStore \<Rightarrow> goerr option \<times> VerificationStore" where
  "put_revocation repo k v s = (case take_io s of (io, s1) \<Rightarrow> case atomic_Create io (vs_revocations s1 repo) k v of (res, d) \<Rightarrow>
     (sr_Err res, s1\<lparr>vs_revocations := (vs_revocations s1)(repo := d)\<rparr>))"

definition put_effective :: "string \<Rightarrow> verificationEffectiveIndex \<Rightarrow> VerificationStore \<Rightarrow> goerr option \<times> VerificationStore" where
  "put_effective repo v s = (case take_io s of (io, s1) \<Rightarrow> case atomic_Replace io (vs_effective s1) repo v of (res, d) \<Rightarrow>
     (sr_Err res, s1\<lparr>vs_effective := d\<rparr>))"

section \<open>Operations of the store\<close>

definition ulid_tail :: "string \<Rightarrow> string \<Rightarrow> bool" where
  "ulid_tail p v \<longleftrightarrow> HasPrefix v p \<and> length v = length p + 26 \<and>
     list_all (\<lambda>c. is_digit c \<or> is_upper c \<and> c \<notin> {CHR ''I'', CHR ''L'', CHR ''O'', CHR ''U''}) (drop (length p) v)"

definition ParseRepositoryID :: "string \<Rightarrow> string result" where
  "ParseRepositoryID v = (if ulid_tail ''repo_'' v then Inr v else Inl (Errorf ''invalid repository id''))"

definition ParseWorkspaceID :: "string \<Rightarrow> string result" where
  "ParseWorkspaceID v = (if ulid_tail ''ws_'' v then Inr v else Inl (Errorf ''invalid workspace id''))"

definition PutPolicySnapshot :: "(identity \<Rightarrow> string) \<Rightarrow> PolicySnapshot \<Rightarrow> VerificationStore \<Rightarrow> bool result \<times> VerificationStore" where
  "PutPolicySnapshot sha p s =
     (case ParseRepositoryID (pn_RepositoryID p) of Inl e \<Rightarrow> (Inl e, s) | Inr repo \<Rightarrow>
      if VerificationPolicyDigest sha (pn_Content p) \<noteq> Inr (pn_Digest p) then (Inl (Errorf ''policy snapshot digest mismatch''), s)
      else case ensureVerificationRepoDir s of
          (Some e, s1) \<Rightarrow> (Inl e, s1)
        | (None, s1) \<Rightarrow>
            (case find_strict (vs_policies s1 repo) (pn_Digest p) of
               Inl e \<Rightarrow> (Inl e, s1)
             | Inr (Some existing) \<Rightarrow>
                 (if VerificationPolicyDigest sha (pn_Content existing) \<noteq> Inr (pn_Digest existing) \<or> existing \<noteq> p
                  then Inl (Errorf ''conflicting immutable policy snapshot'') else Inr False, s1)
             | Inr None \<Rightarrow>
                 (case put_policy repo (pn_Digest p) p s1 of (Some e, s2) \<Rightarrow> (Inl e, s2) | (None, s2) \<Rightarrow> (Inr True, s2))))"

definition LoadPolicySnapshot :: "(identity \<Rightarrow> string) \<Rightarrow> string \<Rightarrow> string \<Rightarrow> VerificationStore \<Rightarrow> PolicySnapshot option result" where
  "LoadPolicySnapshot sha repo digest s =
     bind_result (find_strict (vs_policies s repo) digest) (\<lambda>found. case found of None \<Rightarrow> Inr None | Some p \<Rightarrow>
       if VerificationPolicyDigest sha (pn_Content p) \<noteq> Inr (pn_Digest p) \<or> pn_RepositoryID p \<noteq> repo
       then Inl (Errorf ''corrupt policy snapshot'') else Inr (Some p))"

definition findActivationUnlocked :: "string \<Rightarrow> string \<Rightarrow> VerificationStore \<Rightarrow> PolicyActivation option result" where
  "findActivationUnlocked repo i s =
     bind_result (find_strict (vs_activations s repo) i) (\<lambda>found. case found of None \<Rightarrow> Inr None | Some a \<Rightarrow>
       if av_SchemaVersion a \<noteq> 1 \<or> av_ActivationID a \<noteq> i \<or> av_RepositoryID a \<noteq> repo \<or> av_IntentFingerprint a = [] \<or> IsZero (av_ActivatedAt a)
       then Inl (Errorf ''corrupt policy activation'') else Inr (Some a))"

definition readEffectiveUnlocked :: "string \<Rightarrow> VerificationStore \<Rightarrow> verificationEffectiveIndex option result" where
  "readEffectiveUnlocked repo s =
     bind_result (find_strict (vs_effective s) repo) (\<lambda>found. case found of None \<Rightarrow> Inr None | Some i \<Rightarrow>
       if ei_SchemaVersion i \<noteq> 1 \<or> ei_ActivationID i = [] \<or> ei_PolicyDigest i = []
       then Inl (Errorf ''corrupt verification effective index'') else Inr (Some i))"

definition currentDigest :: "verificationEffectiveIndex option \<Rightarrow> string" where
  "currentDigest i = (case i of None \<Rightarrow> ''absent'' | Some x \<Rightarrow> ei_PolicyDigest x)"

record ActivationWriteResult =
  ar_Record :: PolicyActivation
  ar_Created :: bool
  ar_Replayed :: bool
  ar_Effective :: bool

definition effective_of :: "PolicyActivation \<Rightarrow> verificationEffectiveIndex" where
  "effective_of a = \<lparr>ei_SchemaVersion = 1, ei_ActivationID = av_ActivationID a, ei_PolicyDigest = av_ProposedPolicyDigest a\<rparr>"

definition activation_record :: "PolicyActivationCommit \<Rightarrow> string \<Rightarrow> time \<Rightarrow> PolicyActivation" where
  "activation_record c fp t = \<lparr>av_SchemaVersion = 1, av_ActivationID = ai_ActivationID (ac_Intent c), av_IntentFingerprint = fp,
     av_RepositoryID = ai_RepositoryID (ac_Intent c), av_PreviousEffectiveDigest = ai_PreviousEffectiveDigest (ac_Intent c),
     av_ProposedPolicyDigest = ai_ProposedPolicyDigest (ac_Intent c), av_ProposalOrigin = ac_ProposalOrigin c,
     av_ProfileOrigin = ac_ProfileOrigin c, av_ProposalGeneration = ai_ProposalGeneration (ac_Intent c),
     av_ActivationGeneration = ac_ActivationGeneration c, av_Authority = ai_Authority (ac_Intent c), av_Actor = ai_Actor (ac_Intent c),
     av_ActivatedAt = t\<rparr>"

text \<open>An activation that is already recorded: it is effective, becomes effective now, or was overtaken.\<close>

definition replay_activation ::
  "string \<Rightarrow> verificationEffectiveIndex option \<Rightarrow> PolicyActivation \<Rightarrow> VerificationStore \<Rightarrow> ActivationWriteResult result \<times> VerificationStore" where
  "replay_activation repo index existing s =
     (let answer = (\<lambda>eff. \<lparr>ar_Record = existing, ar_Created = False, ar_Replayed = True, ar_Effective = eff\<rparr>) in
      if (case index of None \<Rightarrow> False | Some i \<Rightarrow> ei_ActivationID i = av_ActivationID existing \<and> ei_PolicyDigest i = av_ProposedPolicyDigest existing)
      then (Inr (answer True), s)
      else if currentDigest index = av_PreviousEffectiveDigest existing
      then (case put_effective repo (effective_of existing) s of (Some e, s1) \<Rightarrow> (Inl e, s1) | (None, s1) \<Rightarrow> (Inr (answer True), s1))
      else (Inr (answer False), s))"

definition create_activation ::
  "string \<Rightarrow> PolicyActivationCommit \<Rightarrow> string \<Rightarrow> VerificationStore \<Rightarrow> ActivationWriteResult result \<times> VerificationStore" where
  "create_activation repo c fp s =
     (case clock s of (t, s1) \<Rightarrow> let rec = activation_record c fp t in
      case ensureVerificationRepoDir s1 of
        (Some e, s2) \<Rightarrow> (Inl e, s2)
      | (None, s2) \<Rightarrow>
          (case put_activation repo (av_ActivationID rec) rec s2 of
             (Some e, s3) \<Rightarrow> (Inl e, s3)
           | (None, s3) \<Rightarrow>
               (case put_effective repo (effective_of rec) s3 of
                  (Some e, s4) \<Rightarrow> (Inl e, s4)
                | (None, s4) \<Rightarrow> (Inr \<lparr>ar_Record = rec, ar_Created = True, ar_Replayed = False, ar_Effective = True\<rparr>, s4))))"

definition ActivatePolicyCAS :: "(identity \<Rightarrow> string) \<Rightarrow> PolicyActivationCommit \<Rightarrow> VerificationStore \<Rightarrow> ActivationWriteResult result \<times> VerificationStore" where
  "ActivatePolicyCAS sha c s =
     (case PolicyActivationCommit_Validate c of Some e \<Rightarrow> (Inl e, s) | None \<Rightarrow>
      let intent = ac_Intent c; repo = ai_RepositoryID intent in
      case ActivationIntentFingerprint sha intent of Inl e \<Rightarrow> (Inl e, s) | Inr fp \<Rightarrow>
      case findActivationUnlocked repo (ai_ActivationID intent) s of Inl e \<Rightarrow> (Inl e, s) | Inr found \<Rightarrow>
      case readEffectiveUnlocked repo s of Inl e \<Rightarrow> (Inl e, s) | Inr index \<Rightarrow>
      (case found of
         Some existing \<Rightarrow>
           if av_IntentFingerprint existing \<noteq> fp then (Inl (Errorf ''activation id conflicts with different intent''), s)
           else replay_activation repo index existing s
       | None \<Rightarrow>
           if currentDigest index \<noteq> ai_PreviousEffectiveDigest intent then (Inl (Errorf ''effective policy compare-and-swap mismatch''), s)
           else (case readStrict (vs_policies s repo) (ai_ProposedPolicyDigest intent) of
               Inl e \<Rightarrow> (Inl (Wrapf ''activation policy snapshot unavailable'' e), s)
             | Inr _ \<Rightarrow> create_activation repo c fp s)))"

definition CurrentActivation :: "string \<Rightarrow> VerificationStore \<Rightarrow> PolicyActivation option result" where
  "CurrentActivation repo s =
     bind_result (readEffectiveUnlocked repo s) (\<lambda>index. case index of None \<Rightarrow> Inr None | Some i \<Rightarrow>
       (case findActivationUnlocked repo (ei_ActivationID i) s of
          Inr (Some a) \<Rightarrow>
            if av_ProposedPolicyDigest a \<noteq> ei_PolicyDigest i then Inl (Errorf ''effective index digest mismatch'') else Inr (Some a)
        | _ \<Rightarrow> Inl (Errorf ''effective index target missing or corrupt'')))"

definition findWaiverUnlocked :: "string \<Rightarrow> string \<Rightarrow> VerificationStore \<Rightarrow> VerificationWaiver option result" where
  "findWaiverUnlocked repo i s =
     bind_result (find_strict (vs_waivers s repo) i) (\<lambda>found. case found of None \<Rightarrow> Inr None | Some w \<Rightarrow>
       if wv_SchemaVersion w \<noteq> 1 \<or> wv_WaiverID w \<noteq> i \<or> wv_RepositoryID w \<noteq> repo \<or> wv_IntentFingerprint w = [] \<or> IsZero (wv_CreatedAt w)
       then Inl (Errorf ''corrupt waiver'') else Inr (Some w))"

definition findRevocationUnlocked :: "string \<Rightarrow> string \<Rightarrow> VerificationStore \<Rightarrow> WaiverRevocation option result" where
  "findRevocationUnlocked repo i s =
     bind_result (find_strict (vs_revocations s repo) i) (\<lambda>found. case found of None \<Rightarrow> Inr None | Some w \<Rightarrow>
       if rv_SchemaVersion w \<noteq> 1 \<or> rv_WaiverID w \<noteq> i \<or> rv_IntentFingerprint w = [] \<or> IsZero (rv_RevokedAt w)
       then Inl (Errorf ''corrupt revocation'') else Inr (Some w))"

record WaiverWriteResult =
  ww_Record :: VerificationWaiver
  ww_Created :: bool
  ww_Replayed :: bool
  ww_Active :: bool

definition waiver_record :: "VerificationWaiverIntent \<Rightarrow> string \<Rightarrow> time \<Rightarrow> VerificationWaiver" where
  "waiver_record i fp t = \<lparr>wv_SchemaVersion = 1, wv_WaiverID = wi_WaiverID i, wv_IntentFingerprint = fp, wv_RepositoryID = wi_RepositoryID i,
     wv_PolicyDigest = wi_PolicyDigest i, wv_RuleID = wi_RuleID i, wv_Phase = wi_Phase i, wv_Generation = wi_Generation i,
     wv_CheckpointID = wi_CheckpointID i, wv_Authority = wi_Authority i, wv_Actor = wi_Actor i, wv_Reason = wi_Reason i, wv_CreatedAt = t,
     wv_ExpiresAt = wi_ExpiresAt i, wv_ExpiresPhase = wi_ExpiresPhase i\<rparr>"

definition PutWaiver :: "(identity \<Rightarrow> string) \<Rightarrow> VerificationWaiverIntent \<Rightarrow> VerificationStore \<Rightarrow> WaiverWriteResult result \<times> VerificationStore" where
  "PutWaiver sha i s =
     (case VerificationWaiverIntent_Validate i of Some e \<Rightarrow> (Inl e, s) | None \<Rightarrow>
      let repo = wi_RepositoryID i in
      case WaiverIntentFingerprint sha i of Inl e \<Rightarrow> (Inl e, s) | Inr fp \<Rightarrow>
      case findWaiverUnlocked repo (wi_WaiverID i) s of
        Inl e \<Rightarrow> (Inl e, s)
      | Inr (Some existing) \<Rightarrow>
          (if wv_IntentFingerprint existing \<noteq> fp then Inl (Errorf ''waiver id conflicts with different intent'')
           else bind_result (findRevocationUnlocked repo (wi_WaiverID i) s) (\<lambda>rev.
             Inr \<lparr>ww_Record = existing, ww_Created = False, ww_Replayed = True, ww_Active = (rev = None)\<rparr>), s)
      | Inr None \<Rightarrow>
          (case ensureVerificationRepoDir s of
             (Some e, s1) \<Rightarrow> (Inl e, s1)
           | (None, s1) \<Rightarrow>
               (case clock s1 of (t, s2) \<Rightarrow> let rec = waiver_record i fp t in
                case put_waiver repo (wi_WaiverID i) rec s2 of
                  (Some e, s3) \<Rightarrow> (Inl e, s3)
                | (None, s3) \<Rightarrow> (Inr \<lparr>ww_Record = rec, ww_Created = True, ww_Replayed = False, ww_Active = True\<rparr>, s3))))"

record RevocationWriteResult =
  rw_Record :: WaiverRevocation
  rw_Created :: bool
  rw_Replayed :: bool

definition revocation_record :: "WaiverRevocationIntent \<Rightarrow> string \<Rightarrow> time \<Rightarrow> WaiverRevocation" where
  "revocation_record i fp t = \<lparr>rv_SchemaVersion = 1, rv_WaiverID = vi_WaiverID i, rv_IntentFingerprint = fp, rv_Authority = vi_Authority i,
     rv_Actor = vi_Actor i, rv_RevokedAt = t\<rparr>"

definition PutWaiverRevocation :: "(identity \<Rightarrow> string) \<Rightarrow> WaiverRevocationIntent \<Rightarrow> VerificationStore \<Rightarrow> RevocationWriteResult result \<times> VerificationStore" where
  "PutWaiverRevocation sha i s =
     (case WaiverRevocationIntent_Validate i of Some e \<Rightarrow> (Inl e, s) | None \<Rightarrow>
      case ParseRepositoryID (vi_RepositoryID i) of Inl e \<Rightarrow> (Inl e, s) | Inr repo \<Rightarrow>
      case findWaiverUnlocked repo (vi_WaiverID i) s of
        Inl e \<Rightarrow> (Inl e, s)
      | Inr None \<Rightarrow> (Inl (Errorf ''waiver not found for revocation''), s)
      | Inr (Some _) \<Rightarrow>
      case RevocationIntentFingerprint sha i of Inl e \<Rightarrow> (Inl e, s) | Inr fp \<Rightarrow>
      case findRevocationUnlocked repo (vi_WaiverID i) s of
        Inl e \<Rightarrow> (Inl e, s)
      | Inr (Some existing) \<Rightarrow>
          (if rv_IntentFingerprint existing \<noteq> fp then Inl (Errorf ''revocation conflicts'')
           else Inr \<lparr>rw_Record = existing, rw_Created = False, rw_Replayed = True\<rparr>, s)
      | Inr None \<Rightarrow>
          (case ensureVerificationRepoDir s of
             (Some e, s1) \<Rightarrow> (Inl e, s1)
           | (None, s1) \<Rightarrow>
               (case clock s1 of (t, s2) \<Rightarrow> let rec = revocation_record i fp t in
                case put_revocation repo (vi_WaiverID i) rec s2 of
                  (Some e, s3) \<Rightarrow> (Inl e, s3)
                | (None, s3) \<Rightarrow> (Inr \<lparr>rw_Record = rec, rw_Created = True, rw_Replayed = False\<rparr>, s3))))"

definition list_strict :: "'a dir \<Rightarrow> 'a list result" where
  "list_strict d = collect (map (readStrict d) (ReadDir d))"

definition ListWaivers :: "string \<Rightarrow> VerificationStore \<Rightarrow> (VerificationWaiver list \<times> WaiverRevocation list) result" where
  "ListWaivers repo s =
     bind_result (list_strict (vs_waivers s repo)) (\<lambda>ws. bind_result (list_strict (vs_revocations s repo)) (\<lambda>rs.
       Inr (sort_key wv_WaiverID ws, sort_key rv_WaiverID rs)))"

end
