(* ===== verification/PolicyService.thy ===== *)
theory PolicyService
  imports VerificationStore
begin

text \<open>
  The service over the verification store (internal/app/verification/policy_service.go).  The
  workspaces, the loaded proposal, the fresh snapshot of the sources, the inspection of the
  project and the resolver of its commands are what the service's dependencies answer, or
  \<open>None\<close> for a dependency that is not configured; \<open>now\<close> is the service's clock.
\<close>

section \<open>Values of the dependencies\<close>

text \<open>Of a workspace (core/workspace/types.go) the fields the service uses.\<close>

record Workspace =
  wk_ID :: string
  wk_RepositoryID :: string
  wk_Root :: string

record DirtySummary =
  dy_Dirty :: bool
  dy_Modified :: int
  dy_Added :: int
  dy_Deleted :: int
  dy_Renamed :: int
  dy_Untracked :: int
  dy_Conflicted :: int
  dy_Digest :: string

datatype ObservationQuality = QualityFresh | QualityCached | QualityStale | QualityUnavailable | OtherObservationQuality string

record FastSnapshot =
  fs_SchemaVersion :: int
  fs_RepositoryID :: string
  fs_WorkspaceID :: string
  fs_Generation :: string
  fs_Head :: string
  fs_Ref :: string
  fs_Detached :: bool
  fs_Upstream :: string
  fs_Ahead :: int
  fs_Behind :: int
  fs_UpstreamQuality :: ObservationQuality
  fs_Dirty :: DirtySummary
  fs_Quality :: ObservationQuality
  fs_ObservedAt :: time
  fs_CacheAgeMS :: int

fun validQuality :: "ObservationQuality \<Rightarrow> bool" where
  "validQuality (OtherObservationQuality _) = False"
| "validQuality _ = True"

definition validObjectID :: "string \<Rightarrow> bool" where
  "validObjectID v \<longleftrightarrow> length v \<ge> 40 \<and> length v \<le> 64 \<and> hex_decodes v"

definition FastSnapshot_Validate :: "FastSnapshot \<Rightarrow> goerr option" where
  "FastSnapshot_Validate s =
     (let d = fs_Dirty s in
      first_error
       [reject (fs_SchemaVersion s \<noteq> 1 \<or> \<not> validQuality (fs_Quality s) \<or> IsZero (fs_ObservedAt s) \<or> fs_CacheAgeMS s < 0)
          (Errorf ''invalid fast snapshot metadata''),
        (if fs_Quality s = QualityUnavailable then None
         else first_error
          [(case ParseRepositoryID (fs_RepositoryID s) of Inl e \<Rightarrow> Some e | Inr _ \<Rightarrow> None),
           (case ParseWorkspaceID (fs_WorkspaceID s) of Inl e \<Rightarrow> Some e | Inr _ \<Rightarrow> None),
           reject (\<not> validObjectID (fs_Head s) \<or> \<not> candidateDigest (dy_Digest d) \<or> \<not> validGeneration (fs_Generation s))
             (Errorf ''invalid fast snapshot identity''),
           reject (fs_Ahead s < 0 \<or> fs_Behind s < 0 \<or> dy_Modified d < 0 \<or> dy_Added d < 0 \<or> dy_Deleted d < 0 \<or> dy_Renamed d < 0 \<or>
               dy_Untracked d < 0 \<or> dy_Conflicted d < 0) (Errorf ''invalid fast snapshot counters''),
           reject (fs_Detached s \<and> fs_Ref s \<noteq> []) (Errorf ''detached snapshot has ref''),
           reject (fs_Upstream s = [] \<and> fs_UpstreamQuality s \<noteq> OtherObservationQuality [] \<and> fs_UpstreamQuality s \<noteq> QualityUnavailable)
             (Errorf ''upstream quality without upstream''),
           reject (fs_UpstreamQuality s \<noteq> OtherObservationQuality [] \<and> \<not> validQuality (fs_UpstreamQuality s)) (Errorf ''invalid upstream quality'')])])"

datatype PolicyLoadState = PolicyLoadAbsent | PolicyLoadValid | PolicyLoadInvalid | PolicyLoadUnsupported | OtherLoadState string

record PolicyLoadResult =
  pl_State :: PolicyLoadState
  pl_Proposal :: "PolicyProposal option"

text \<open>Of the inspection of a project: its status and the schema version of its manifest.\<close>

record ProjectInspection =
  pj_Status :: string
  pj_Manifest :: "int option"

record PolicyDependencies =
  pd_workspaces :: "Workspace list result"
  pd_loader :: "(Workspace \<Rightarrow> PolicyLoadResult) option"
  pd_snapshots :: "(string \<Rightarrow> FastSnapshot) option"
  pd_projects :: "(string \<Rightarrow> ProjectInspection result) option"
  pd_commands :: "CommandResolver option"

section \<open>Operations\<close>

definition AuthorityExplicitCaller :: string where
  "AuthorityExplicitCaller = ''explicit_caller''"

definition find_workspace :: "PolicyDependencies \<Rightarrow> string \<Rightarrow> Workspace result" where
  "find_workspace d i =
     bind_result (ParseWorkspaceID i) (\<lambda>wid. bind_result (pd_workspaces d) (\<lambda>values.
       case find (\<lambda>w. wk_ID w = wid) values of Some w \<Rightarrow> Inr w | None \<Rightarrow> Inl (Errorf ''workspace not found'')))"

definition validateProjectRequirements :: "PolicyDependencies \<Rightarrow> string \<Rightarrow> PolicyContent \<Rightarrow> goerr option" where
  "validateProjectRequirements d ws content =
     (let reqs = filter (\<lambda>r. er_ProjectCommandID r \<noteq> []) (concat (map ru_Evidence (pc_Rules content))) in
      if reqs = [] then None
      else case (pd_projects d, pd_commands d) of
          (Some inspect, Some resolve) \<Rightarrow>
            (case inspect ws of
               Inl e \<Rightarrow> Some e
             | Inr i \<Rightarrow>
                 if pj_Status i \<notin> {''valid'', ''review_due''} \<or> pj_Manifest i \<noteq> Some 2
                 then Some (Errorf ''project manifest is not eligible for verification binding'')
                 else first_error (map (\<lambda>r. case resolve ws (er_ProjectCommandID r) (er_Params r) of
                     Inl e \<Rightarrow> Some (Wrapf ''verification project command unresolved'' e) | Inr _ \<Rightarrow> None) reqs))
        | _ \<Rightarrow> Some (Errorf ''project command verification binding unavailable''))"

record ActivateRequest =
  aq_ActivationID :: string
  aq_WorkspaceID :: string
  aq_ProposedPolicyDigest :: string
  aq_ExpectedPreviousDigest :: string
  aq_ProposalGeneration :: string
  aq_Authority :: string
  aq_Actor :: string

definition activation_intent :: "ActivateRequest \<Rightarrow> Workspace \<Rightarrow> PolicyActivationIntent" where
  "activation_intent req ws = \<lparr>ai_ActivationID = aq_ActivationID req, ai_RepositoryID = wk_RepositoryID ws,
     ai_PreviousEffectiveDigest = aq_ExpectedPreviousDigest req, ai_ProposedPolicyDigest = aq_ProposedPolicyDigest req,
     ai_ProposalGeneration = aq_ProposalGeneration req, ai_Authority = aq_Authority req, ai_Actor = aq_Actor req\<rparr>"

text \<open>The checks on the proposal and on the fresh snapshot before a new activation.\<close>

definition activation_checks :: "PolicyDependencies \<Rightarrow> ActivateRequest \<Rightarrow> Workspace \<Rightarrow> (PolicyProposal \<times> FastSnapshot) result" where
  "activation_checks d req ws =
     (case (pd_loader d, pd_snapshots d) of
        (Some load, Some snapshots) \<Rightarrow>
          (case pl_Proposal (load ws) of
             None \<Rightarrow> Inl (Errorf ''current verification policy proposal unavailable'')
           | Some proposal \<Rightarrow>
               let fresh = snapshots (wk_Root ws) in
               guard_result (first_error
                 [reject (pl_State (load ws) \<noteq> PolicyLoadValid) (Errorf ''current verification policy proposal unavailable''),
                  reject (pp_RepositoryID proposal \<noteq> wk_RepositoryID ws \<or> pp_Digest proposal \<noteq> aq_ProposedPolicyDigest req \<or>
                     pp_Origin proposal \<noteq> ProposalRepositoryAuthored) (Errorf ''current verification policy proposal mismatch''),
                  validateProjectRequirements d (aq_WorkspaceID req) (pp_Content proposal),
                  reject (fs_Quality fresh \<noteq> QualityFresh \<or> fs_Generation fresh = []) (Errorf ''fresh activation source generation unavailable''),
                  map_option (Wrapf ''invalid fresh activation snapshot'') (FastSnapshot_Validate fresh),
                  reject (fs_RepositoryID fresh \<noteq> wk_RepositoryID ws \<or> fs_WorkspaceID fresh \<noteq> wk_ID ws) (Errorf ''activation snapshot workspace mismatch''),
                  reject (fs_Generation fresh = aq_ProposalGeneration req) (Errorf ''policy cannot activate for introducing generation'')])
               (Inr (proposal, fresh)))
      | _ \<Rightarrow> Inl (Errorf ''verification activation dependencies unavailable''))"

definition Activate :: "(identity \<Rightarrow> string) \<Rightarrow> PolicyDependencies \<Rightarrow> ActivateRequest \<Rightarrow> VerificationStore \<Rightarrow> ActivationWriteResult result \<times> VerificationStore" where
  "Activate sha d req s =
     (case find_workspace d (aq_WorkspaceID req) of Inl e \<Rightarrow> (Inl e, s) | Inr ws \<Rightarrow>
      let intent = activation_intent req ws in
      case first_error [PolicyActivationIntent_Validate intent,
        reject (aq_Authority req \<noteq> AuthorityExplicitCaller) (Errorf ''unsupported verification activation authority'')] of
        Some e \<Rightarrow> (Inl e, s)
      | None \<Rightarrow>
      (case findActivationUnlocked (wk_RepositoryID ws) (aq_ActivationID req) s of
         Inl e \<Rightarrow> (Inl e, s)
       | Inr (Some existing) \<Rightarrow>
           if ActivationIntentFingerprint sha intent \<noteq> Inr (av_IntentFingerprint existing)
           then (Inl (Errorf ''activation id conflicts with different intent''), s)
           else ActivatePolicyCAS sha \<lparr>ac_Intent = intent, ac_ProposalOrigin = av_ProposalOrigin existing,
             ac_ProfileOrigin = av_ProfileOrigin existing, ac_ActivationGeneration = av_ActivationGeneration existing\<rparr> s
       | Inr None \<Rightarrow>
           (case activation_checks d req ws of
              Inl e \<Rightarrow> (Inl e, s)
            | Inr (proposal, fresh) \<Rightarrow>
                (case PutPolicySnapshot sha \<lparr>pn_RepositoryID = pp_RepositoryID proposal, pn_Digest = pp_Digest proposal, pn_Content = pp_Content proposal\<rparr> s of
                   (Inl e, s1) \<Rightarrow> (Inl e, s1)
                 | (Inr _, s1) \<Rightarrow> ActivatePolicyCAS sha \<lparr>ac_Intent = intent, ac_ProposalOrigin = pp_Origin proposal,
                     ac_ProfileOrigin = pp_ProfileOrigin proposal, ac_ActivationGeneration = fs_Generation fresh\<rparr> s1))))"

definition findPolicyRule :: "PolicyContent \<Rightarrow> string \<Rightarrow> Rule option" where
  "findPolicyRule content i = find (\<lambda>r. ru_ID r = i) (pc_Rules content)"

record SetWaiverRequest =
  sw_WaiverID :: string
  sw_WorkspaceID :: string
  sw_PolicyDigest :: string
  sw_RuleID :: string
  sw_Phase :: VerificationPhase
  sw_Generation :: string
  sw_CheckpointID :: string
  sw_Authority :: string
  sw_Actor :: string
  sw_Reason :: string
  sw_ExpiresAt :: time
  sw_ExpiresPhase :: VerificationPhase

definition waiver_intent :: "SetWaiverRequest \<Rightarrow> Workspace \<Rightarrow> VerificationWaiverIntent" where
  "waiver_intent req ws = \<lparr>wi_WaiverID = sw_WaiverID req, wi_RepositoryID = wk_RepositoryID ws, wi_PolicyDigest = sw_PolicyDigest req,
     wi_RuleID = sw_RuleID req, wi_Phase = sw_Phase req, wi_Generation = sw_Generation req, wi_CheckpointID = sw_CheckpointID req,
     wi_Authority = sw_Authority req, wi_Actor = sw_Actor req, wi_Reason = sw_Reason req, wi_ExpiresAt = sw_ExpiresAt req,
     wi_ExpiresPhase = sw_ExpiresPhase req\<rparr>"

definition waiver_checks :: "(identity \<Rightarrow> string) \<Rightarrow> time \<Rightarrow> SetWaiverRequest \<Rightarrow> Workspace \<Rightarrow> VerificationStore \<Rightarrow> goerr option" where
  "waiver_checks sha now req ws s =
     (if sw_Authority req \<noteq> AuthorityExplicitCaller then Some (Errorf ''unsupported verification waiver authority'')
      else case CurrentActivation (wk_RepositoryID ws) s of
          Inl e \<Rightarrow> Some e
        | Inr current \<Rightarrow>
            if (case current of None \<Rightarrow> True | Some a \<Rightarrow> av_ProposedPolicyDigest a \<noteq> sw_PolicyDigest req) then Some (Errorf ''waiver policy is not current'')
            else (case LoadPolicySnapshot sha (wk_RepositoryID ws) (sw_PolicyDigest req) s of
                Inl e \<Rightarrow> Some e
              | Inr None \<Rightarrow> Some (Errorf ''waiver policy snapshot unavailable'')
              | Inr (Some snapshot) \<Rightarrow> first_error
                  [reject (case findPolicyRule (pn_Content snapshot) (sw_RuleID req) of None \<Rightarrow> True | Some r \<Rightarrow> sw_Phase req \<notin> set (ru_Phases r))
                     (Errorf ''waiver rule/phase not present in current policy''),
                   VerificationWaiverIntent_Validate (waiver_intent req ws),
                   reject (\<not> IsZero (sw_ExpiresAt req) \<and> sw_ExpiresAt req \<le> now) (Errorf ''waiver already expired'')]))"

definition SetWaiver ::
  "(identity \<Rightarrow> string) \<Rightarrow> PolicyDependencies \<Rightarrow> time \<Rightarrow> SetWaiverRequest \<Rightarrow> VerificationStore \<Rightarrow> WaiverWriteResult result \<times> VerificationStore" where
  "SetWaiver sha d now req s =
     (case find_workspace d (sw_WorkspaceID req) of Inl e \<Rightarrow> (Inl e, s) | Inr ws \<Rightarrow>
      case waiver_checks sha now req ws s of Some e \<Rightarrow> (Inl e, s) | None \<Rightarrow> PutWaiver sha (waiver_intent req ws) s)"

record RevokeWaiverRequest =
  rk_WaiverID :: string
  rk_WorkspaceID :: string
  rk_Authority :: string
  rk_Actor :: string

definition RevokeWaiver ::
  "(identity \<Rightarrow> string) \<Rightarrow> PolicyDependencies \<Rightarrow> RevokeWaiverRequest \<Rightarrow> VerificationStore \<Rightarrow> RevocationWriteResult result \<times> VerificationStore" where
  "RevokeWaiver sha d req s =
     (case find_workspace d (rk_WorkspaceID req) of Inl e \<Rightarrow> (Inl e, s) | Inr ws \<Rightarrow>
      if rk_Authority req \<noteq> AuthorityExplicitCaller then (Inl (Errorf ''unsupported verification waiver authority''), s)
      else case findWaiverUnlocked (wk_RepositoryID ws) (rk_WaiverID req) s of
          Inl e \<Rightarrow> (Inl e, s)
        | Inr None \<Rightarrow> (Inl (Errorf ''waiver not found''), s)
        | Inr (Some _) \<Rightarrow> PutWaiverRevocation sha \<lparr>vi_RepositoryID = wk_RepositoryID ws, vi_WaiverID = rk_WaiverID req,
            vi_Authority = rk_Authority req, vi_Actor = rk_Actor req\<rparr> s)"

record WaiverScope =
  sp_WorkspaceID :: string
  sp_Phase :: VerificationPhase
  sp_Generation :: string
  sp_CheckpointID :: string

definition waiver_active :: "time \<Rightarrow> string \<Rightarrow> string list \<Rightarrow> WaiverScope \<Rightarrow> VerificationWaiver \<Rightarrow> bool" where
  "waiver_active now digest revoked scope w \<longleftrightarrow> wv_WaiverID w \<notin> set revoked \<and> wv_PolicyDigest w = digest \<and> wv_Phase w = sp_Phase scope \<and>
     (wv_Generation w = [] \<or> wv_Generation w = sp_Generation scope) \<and> (wv_CheckpointID w = [] \<or> wv_CheckpointID w = sp_CheckpointID scope) \<and>
     (IsZero (wv_ExpiresAt w) \<or> now < wv_ExpiresAt w) \<and>
     \<not> (wv_ExpiresPhase w \<noteq> OtherVerificationPhase [] \<and> wv_ExpiresPhase w = sp_Phase scope)"

definition ActiveWaivers :: "PolicyDependencies \<Rightarrow> time \<Rightarrow> WaiverScope \<Rightarrow> VerificationStore \<Rightarrow> VerificationWaiver list result" where
  "ActiveWaivers d now scope s =
     bind_result (find_workspace d (sp_WorkspaceID scope)) (\<lambda>ws.
     bind_result (CurrentActivation (wk_RepositoryID ws) s) (\<lambda>current. case current of None \<Rightarrow> Inr [] | Some a \<Rightarrow>
     bind_result (ListWaivers (wk_RepositoryID ws) s) (\<lambda>(waivers, revocations).
       Inr (sort_key wv_WaiverID (filter (waiver_active now (av_ProposedPolicyDigest a) (map rv_WaiverID revocations) scope) waivers)))))"

end
