(* ===== verification/VerificationInspect.thy ===== *)
theory VerificationInspect
  imports PolicyService
begin

text \<open>
  The inspection of a workspace (internal/app/verification/inspect.go): from the affected surface,
  the effective policy, the active waivers and the evidence to the gate of a phase.  What the
  inspection reads elsewhere is given in \<open>InspectSources\<close>: the workspace, the affected surface,
  the proposal in the repository, the evidence with its environment and quiescence.  The costs
  that the inspection reports besides are left out.
\<close>

section \<open>Inputs and results\<close>

record InspectSources =
  is_workspace :: "Workspace result"
  is_affected :: "AffectedSurface result"
  is_load :: "Workspace \<Rightarrow> PolicyLoadResult"
  is_evidence :: "CandidateResultSet result option"
  is_environment :: "EnvironmentBinding option result option"
  is_quiescence :: "(string \<Rightarrow> string \<Rightarrow> string \<Rightarrow> QuiescenceObservation option result) option"

record PolicySummary =
  py_PolicyID :: string
  py_Digest :: string
  py_Source :: string
  py_ProfileOrigin :: string
  py_ApprovalRef :: string
  py_ApprovalAuthority :: string
  py_ApprovedAt :: time

record PolicyProposalSummary =
  po_PolicyID :: string
  po_Digest :: string
  po_Origin :: ProposalOrigin
  po_ProfileOrigin :: string

record AffectedSurfaceSummary =
  as_RelationCount :: nat
  as_Domains :: "AffectedDomain list"
  as_ByAuthority :: "DerivationAuthority \<Rightarrow> nat"
  as_ByCoverage :: "Coverage \<Rightarrow> nat"
  as_Diagnostics :: "string list"

record ObligationView =
  ow_ObligationID :: string
  ow_SourceRuleID :: string
  ow_Disposition :: ObligationDisposition
  ow_EvidenceStatus :: EvidenceStatus
  ow_SufficiencyBasis :: string
  ow_RequirementResults :: "RequirementEvaluation list"
  ow_EvidenceRefs :: "string list"
  ow_WaiverID :: string
  ow_ReasonCodes :: "string list"

record InspectRequest =
  iq_WorkspaceID :: string
  iq_ActivityID :: string
  iq_Phase :: VerificationPhase

record Inspection =
  in_SchemaVersion :: int
  in_Phase :: VerificationPhase
  in_RepositoryID :: string
  in_WorkspaceID :: string
  in_SourceGeneration :: string
  in_EffectivePolicy :: "PolicySummary option"
  in_ProposedPolicy :: "PolicyProposalSummary option"
  in_PolicyState :: PolicyState
  in_Affected :: AffectedSurfaceSummary
  in_Gate :: GateEvaluation
  in_Obligations :: "VerificationObligation list"
  in_ObligationViews :: "ObligationView list"
  in_PolicyGaps :: "PolicyGap list"

definition Summary :: "AffectedSurface \<Rightarrow> AffectedSurfaceSummary" where
  "Summary s = \<lparr>as_RelationCount = length (sf_Relations s), as_Domains = sf_Domains s,
     as_ByAuthority = (\<lambda>a. length (filter (\<lambda>r. rl_DerivationAuthority r = a) (sf_Relations s))),
     as_ByCoverage = (\<lambda>c. length (filter (\<lambda>r. rl_Coverage r = c) (sf_Relations s))), as_Diagnostics = sf_Diagnostics s\<rparr>"

section \<open>Policy\<close>

definition materializedPolicy :: "(identity \<Rightarrow> string) \<Rightarrow> string \<Rightarrow> VerificationStore \<Rightarrow> (MaterializedPolicy \<times> PolicySummary) option result" where
  "materializedPolicy sha repo s =
     bind_result (CurrentActivation repo s) (\<lambda>current. case current of None \<Rightarrow> Inr None | Some a \<Rightarrow>
     bind_result (LoadPolicySnapshot sha repo (av_ProposedPolicyDigest a) s) (\<lambda>found. case found of
         None \<Rightarrow> Inl (Errorf ''effective verification policy snapshot unavailable'')
       | Some p \<Rightarrow>
           if pn_RepositoryID p \<noteq> repo \<or> pn_Digest p \<noteq> av_ProposedPolicyDigest a then Inl (Errorf ''effective verification policy snapshot unavailable'')
           else if VerificationPolicyDigest sha (pn_Content p) \<noteq> Inr (pn_Digest p) then Inl (Errorf ''effective verification policy snapshot invalid'')
           else let m = \<lparr>mp_Snapshot = p, mp_Source = ''repository_authored'', mp_ProfileOrigin = av_ProfileOrigin a,
                  mp_ApprovalRef = av_ActivationID a, mp_ApprovalAuthority = av_Authority a, mp_ApprovedAt = av_ActivatedAt a\<rparr> in
             Inr (Some (m, \<lparr>py_PolicyID = pc_PolicyID (pn_Content p), py_Digest = pn_Digest p, py_Source = mp_Source m,
               py_ProfileOrigin = mp_ProfileOrigin m, py_ApprovalRef = mp_ApprovalRef m, py_ApprovalAuthority = mp_ApprovalAuthority m,
               py_ApprovedAt = mp_ApprovedAt m\<rparr>))))"

definition resolvePolicyState :: "PolicyLoadResult \<Rightarrow> MaterializedPolicy option \<Rightarrow> PolicyState" where
  "resolvePolicyState load effective =
     (case pl_State load of
        PolicyLoadInvalid \<Rightarrow> PolicyStateInvalid
      | PolicyLoadUnsupported \<Rightarrow> PolicyStateUnsupported
      | PolicyLoadValid \<Rightarrow>
          (case pl_Proposal load of
             None \<Rightarrow> PolicyStateInvalid
           | Some p \<Rightarrow>
               (case effective of None \<Rightarrow> PolicyStateProposalPending
                | Some m \<Rightarrow> if pp_Digest p \<noteq> pn_Digest (mp_Snapshot m) then PolicyStateProposalPending else PolicyStateEffective))
      | PolicyLoadAbsent \<Rightarrow> if effective = None then PolicyStateAbsent else PolicyStateEffective
      | _ \<Rightarrow> PolicyStateInvalid)"

definition proposalSummary :: "PolicyLoadResult \<Rightarrow> MaterializedPolicy option \<Rightarrow> PolicyProposalSummary option" where
  "proposalSummary load effective =
     (case pl_Proposal load of
        None \<Rightarrow> None
      | Some p \<Rightarrow>
          if pl_State load \<noteq> PolicyLoadValid \<or> (case effective of None \<Rightarrow> False | Some m \<Rightarrow> pp_Digest p = pn_Digest (mp_Snapshot m)) then None
          else Some \<lparr>po_PolicyID = pc_PolicyID (pp_Content p), po_Digest = pp_Digest p, po_Origin = pp_Origin p, po_ProfileOrigin = pp_ProfileOrigin p\<rparr>)"

section \<open>Evidence\<close>

definition applicableObligations :: "VerificationObligation list \<Rightarrow> VerificationObligation list" where
  "applicableObligations obls = filter (\<lambda>o'. vo_Disposition o' = DispositionRequiredNow \<or> vo_Disposition o' = DispositionWaived) obls"

definition readInspectionCandidates :: "InspectSources \<Rightarrow> CandidateResultSet" where
  "readInspectionCandidates src =
     (case is_evidence src of
        Some (Inr cs) \<Rightarrow> cs
      | _ \<Rightarrow> \<lparr>cr_Candidates = [], cr_Coverage = CoverageUnknown, cr_Diagnostics = [''evidence_source_unavailable'']\<rparr>)"

definition requirements_of :: "VerificationObligation list \<Rightarrow> BoundEvidenceRequirement list" where
  "requirements_of obls = concat (map vo_EvidenceRequirements obls)"

definition readCurrentEnvironment :: "InspectSources \<Rightarrow> VerificationObligation list \<Rightarrow> EnvironmentBinding option" where
  "readCurrentEnvironment src obls =
     (if \<not> list_ex (\<lambda>b. er_Environment (be_Requirement b) \<noteq> EnvironmentNone) (requirements_of obls) then None
      else case is_environment src of
          Some (Inr (Some b)) \<Rightarrow> if EnvironmentBinding_Validate b \<noteq> None then None else Some b
        | _ \<Rightarrow> None)"

definition candidateRelevantToRequirement :: "EvidenceCandidate \<Rightarrow> EvidenceRequirement \<Rightarrow> string \<Rightarrow> bool" where
  "candidateRelevantToRequirement c req expected \<longleftrightarrow> ec_ProviderClassKnown c \<and>
     (if er_ProjectCommandID req \<noteq> []
      then ec_ProviderClass c = ProviderProjectCommand \<and> ec_ProjectCommandID c = er_ProjectCommandID req \<and> expected \<noteq> [] \<and> ec_ProjectBindingDigest c = expected
      else ec_ProviderClass c = er_ProviderClass req)"

definition candidateRequiresQuiescence :: "EvidenceCandidate \<Rightarrow> VerificationObligation list \<Rightarrow> bool" where
  "candidateRequiresQuiescence c obls = list_ex (\<lambda>b. er_RequireQuiescence (be_Requirement b) \<and>
     candidateRelevantToRequirement c (be_Requirement b) (be_ExpectedProjectBindingDigest b)) (requirements_of obls)"

text \<open>The observations, one per operation in the order of the candidates.\<close>

fun read_quiescence ::
  "(string \<Rightarrow> string \<Rightarrow> string \<Rightarrow> QuiescenceObservation option result) \<Rightarrow> string \<Rightarrow> VerificationObligation list \<Rightarrow> EvidenceCandidate list \<Rightarrow> string list
     \<Rightarrow> (string \<times> QuiescenceObservation) list" where
  "read_quiescence observe ws obls [] seen = []"
| "read_quiescence observe ws obls (c # cs) seen =
     (if ec_OperationID c \<in> set seen \<or> \<not> candidateRequiresQuiescence c obls then read_quiescence observe ws obls cs seen
      else (case observe (ec_OperationID c) (ec_SessionID c) ws of
          Inr (Some q) \<Rightarrow> [(ec_OperationID c, q)]
        | _ \<Rightarrow> []) @ read_quiescence observe ws obls cs (ec_OperationID c # seen))"

definition readQuiescence :: "InspectSources \<Rightarrow> string \<Rightarrow> VerificationObligation list \<Rightarrow> CandidateResultSet \<Rightarrow> (string \<times> QuiescenceObservation) list" where
  "readQuiescence src ws obls cands =
     (case is_quiescence src of None \<Rightarrow> [] | Some observe \<Rightarrow> read_quiescence observe ws obls (cr_Candidates cands) [])"

section \<open>Inspection\<close>

fun applyObligationEvaluation :: "VerificationObligation list \<Rightarrow> ObligationEvaluation \<Rightarrow> VerificationObligation list" where
  "applyObligationEvaluation [] e = []"
| "applyObligationEvaluation (o' # os) e =
     (if vo_ObligationID o' \<noteq> oe_ObligationID e then o' # applyObligationEvaluation os e
      else o'\<lparr>vo_EvidenceStatus := oe_EvidenceStatus e, vo_EvidenceRefs := oe_EvidenceRefs e\<rparr> # os)"

definition evaluationReasonCodes :: "ObligationEvaluation \<Rightarrow> string list" where
  "evaluationReasonCodes e = sortedUnique (filter (\<lambda>r. r \<noteq> []) (map rx_ReasonCode (oe_RequirementResults e)))"

definition projectObligationViews :: "VerificationObligation list \<Rightarrow> (string \<rightharpoonup> ObligationEvaluation) \<Rightarrow> ObligationView list" where
  "projectObligationViews obls evals = map (\<lambda>o'.
     let e = evals (vo_ObligationID o') in
     \<lparr>ow_ObligationID = vo_ObligationID o', ow_SourceRuleID = vo_SourceRuleID o', ow_Disposition = vo_Disposition o',
      ow_EvidenceStatus = vo_EvidenceStatus o', ow_SufficiencyBasis = vo_SufficiencyBasis o',
      ow_RequirementResults = (case e of None \<Rightarrow> [] | Some x \<Rightarrow> oe_RequirementResults x), ow_EvidenceRefs = vo_EvidenceRefs o',
      ow_WaiverID = vo_WaiverID o', ow_ReasonCodes = (case e of None \<Rightarrow> [] | Some x \<Rightarrow> evaluationReasonCodes x)\<rparr>) obls"

definition evaluate_all ::
  "(identity \<Rightarrow> string) \<Rightarrow> InspectSources \<Rightarrow> string \<Rightarrow> VerificationObligation list \<Rightarrow> ObligationEvaluation list" where
  "evaluate_all sha src ws applicable =
     (let cands = readInspectionCandidates src in
      map (\<lambda>o'. EvaluateObligation sha o' cands [] (readCurrentEnvironment src applicable) (readQuiescence src ws applicable cands)) applicable)"

definition evaluation_map :: "ObligationEvaluation list \<Rightarrow> string \<rightharpoonup> ObligationEvaluation" where
  "evaluation_map es = map_of (rev (map (\<lambda>e. (oe_ObligationID e, e)) es))"

definition Inspect ::
  "(identity \<Rightarrow> string) \<Rightarrow> PolicyDependencies \<Rightarrow> InspectSources \<Rightarrow> time \<Rightarrow> InspectRequest \<Rightarrow> VerificationStore \<Rightarrow> Inspection result" where
  "Inspect sha d src now req s =
     guard_result (VerificationPhase_Validate (iq_Phase req))
     (bind_result (is_workspace src) (\<lambda>ws.
      bind_result (is_affected src) (\<lambda>surface.
      bind_result (materializedPolicy sha (wk_RepositoryID ws) s) (\<lambda>effective.
      let load = is_load src ws; policy = map_option fst effective; state = resolvePolicyState load policy;
          report = (\<lambda>summary gate obls views gaps. \<lparr>in_SchemaVersion = 2, in_Phase = iq_Phase req, in_RepositoryID = wk_RepositoryID ws,
            in_WorkspaceID = wk_ID ws, in_SourceGeneration = sf_SourceGeneration surface, in_EffectivePolicy = map_option snd effective,
            in_ProposedPolicy = proposalSummary load policy, in_PolicyState = state, in_Affected = summary, in_Gate = gate,
            in_Obligations = obls, in_ObligationViews = views, in_PolicyGaps = gaps\<rparr>) in
      case policy of
        None \<Rightarrow> bind_result (GateForPolicyState sha state False [] Map.empty) (\<lambda>g. Inr (report (Summary surface) g [] [] []))
      | Some m \<Rightarrow>
          bind_result (ApplyEffectiveClassifications sha surface m) (\<lambda>classified.
          bind_result (ActiveWaivers d now \<lparr>sp_WorkspaceID = iq_WorkspaceID req, sp_Phase = iq_Phase req,
              sp_Generation = sf_SourceGeneration classified, sp_CheckpointID = []\<rparr> s) (\<lambda>waivers.
          bind_result (Derive sha (pd_commands d) \<lparr>oq_WorkspaceID = iq_WorkspaceID req, oq_Phase = iq_Phase req, oq_Policy = m,
              oq_Surface = classified, oq_ActiveWaivers = waivers\<rparr>) (\<lambda>derived.
          let es = evaluate_all sha src (iq_WorkspaceID req) (applicableObligations (ox_Obligations derived)); evals = evaluation_map es;
              obls = foldl applyObligationEvaluation (ox_Obligations derived) es in
          bind_result (GateForPolicyState sha state True obls evals) (\<lambda>g.
            Inr (report (Summary classified) g obls (projectObligationViews obls evals) (ox_PolicyGaps derived))))))))))"

end
