(* ===== verification/VerificationFacts.thy ===== *)
theory VerificationFacts
  imports VerificationInspect
begin

text \<open>
  Facts on the evaluation of evidence and on the gate: what a satisfied requirement says about the
  candidates of evidence, and the gate as a function of the set of obligations.
\<close>

section \<open>Loops and sorted lists\<close>

lemma collect_Inr: "collect xs = Inr ys \<longleftrightarrow> xs = map Inr ys"
  by (induction xs arbitrary: ys) (auto simp: Cons_eq_map_conv)

lemma set_sortedUnique [simp]: "set (sortedUnique xs) = set xs"
  by (simp add: sortedUnique_def)

lemma sorted_remdups_adj_distinct: "sorted xs \<Longrightarrow> distinct (remdups_adj xs)"
  by (induction xs rule: remdups_adj.induct) (auto simp: less_le)

lemma sortedUnique_set: "sortedUnique xs = sorted_list_of_set (set xs)"
  by (rule sorted_distinct_set_unique) (simp_all add: sortedUnique_def sorted_remdups_adj_distinct)

lemma sortedUnique_strict: "sorted_wrt (<) (sortedUnique xs)"
  by (simp add: strict_sorted_iff sortedUnique_def sorted_remdups_adj_distinct)

section \<open>Texts\<close>

lemma valid_utf8_of_ascii: "list_all (\<lambda>b. b < 128) bs \<Longrightarrow> valid_utf8_of bs"
  by (induction bs) (simp_all add: RuneError_def)

lemma valid_utf8_ascii: "list_all (\<lambda>c. (of_char c :: nat) < 128) s \<Longrightarrow> valid_utf8 s"
  by (simp add: valid_utf8_def valid_utf8_of_ascii list.pred_map o_def)

lemma boundedToken_ascii:
  "boundedToken s n = (s \<noteq> [] \<and> length s \<le> n \<and> list_all (\<lambda>c. c \<notin> {CHR 0x00, CHR 0x0D, CHR 0x0A}) s)" if "list_all (\<lambda>c. (of_char c :: nat) < 128) s"
  using valid_utf8_ascii [OF that] by (simp add: boundedToken_def)

section \<open>The gate\<close>

text \<open>What an obligation contributes to the gate.\<close>

datatype contribution = Skipped | Waived | Met | Blocks EvidenceStatus | Undecided EvidenceStatus

fun status_contribution :: "EvidenceStatus \<Rightarrow> contribution" where
  "status_contribution EvidenceSatisfied = Met"
| "status_contribution EvidenceFailed = Blocks EvidenceFailed"
| "status_contribution EvidenceInsufficient = Blocks EvidenceInsufficient"
| "status_contribution EvidenceInconsistent = Blocks EvidenceInconsistent"
| "status_contribution st = Undecided st"

definition applicable :: "VerificationObligation \<Rightarrow> bool" where
  "applicable o' \<longleftrightarrow> vo_Disposition o' = DispositionRequiredNow \<or> vo_Disposition o' = DispositionWaived"

definition contribution :: "(string \<rightharpoonup> ObligationEvaluation) \<Rightarrow> VerificationObligation \<Rightarrow> contribution" where
  "contribution evals o' =
     (if vo_Disposition o' = DispositionWaived then Waived
      else if vo_Disposition o' = DispositionRequiredNow then
        (case evals (vo_ObligationID o') of None \<Rightarrow> Skipped | Some e \<Rightarrow> status_contribution (oe_EvidenceStatus e))
      else Skipped)"

definition tally :: "contribution list \<Rightarrow> GateBreakdown" where
  "tally cs = \<lparr>gb_EvidenceSatisfied = int (length (filter (\<lambda>c. c = Met) cs)), gb_Waived = int (length (filter (\<lambda>c. c = Waived) cs)),
     gb_Blocking = int (length (filter (\<lambda>c. case c of Blocks _ \<Rightarrow> True | _ \<Rightarrow> False) cs)),
     gb_Indeterminate = int (length (filter (\<lambda>c. case c of Undecided _ \<Rightarrow> True | _ \<Rightarrow> False) cs))\<rparr>"

definition reasons_of :: "contribution list \<Rightarrow> string set" where
  "reasons_of cs = gateEvidenceReason ` {st. Blocks st \<in> set cs \<or> Undecided st \<in> set cs}"

text \<open>The gate by reference: a function of the contributions of the obligations.\<close>

definition reference_gate :: "contribution list \<Rightarrow> GateEvaluation" where
  "reference_gate cs = \<lparr>ge_Status = (if \<exists>st. Blocks st \<in> set cs then GateBlocked else if \<exists>st. Undecided st \<in> set cs then GateIndeterminate else GateClear),
     ge_Breakdown = tally cs, ge_ReasonCodes = sorted_list_of_set (reasons_of cs)\<rparr>"

definition gate_inputs_ok :: "(identity \<Rightarrow> string) \<Rightarrow> VerificationObligation list \<Rightarrow> (string \<rightharpoonup> ObligationEvaluation) \<Rightarrow> bool" where
  "gate_inputs_ok sha obls evals \<longleftrightarrow> (\<forall>o' \<in> set obls. VerificationObligation_Validate o' = None) \<and> distinct (map vo_ObligationID obls) \<and>
     (\<forall>o' \<in> set obls. applicable o' \<longrightarrow> (\<exists>e. evals (vo_ObligationID o') = Some e \<and> oe_ObligationID e = vo_ObligationID o' \<and> ObligationEvaluation_Validate sha e = None))"

definition add_counts :: "GateBreakdown \<Rightarrow> GateBreakdown \<Rightarrow> GateBreakdown" where
  "add_counts m n = \<lparr>gb_EvidenceSatisfied = gb_EvidenceSatisfied m + gb_EvidenceSatisfied n, gb_Waived = gb_Waived m + gb_Waived n,
     gb_Blocking = gb_Blocking m + gb_Blocking n, gb_Indeterminate = gb_Indeterminate m + gb_Indeterminate n\<rparr>"

fun reason_of :: "contribution \<Rightarrow> string list" where
  "reason_of (Blocks st) = [gateEvidenceReason st]"
| "reason_of (Undecided st) = [gateEvidenceReason st]"
| "reason_of _ = []"

lemma disposition_valid: "ObligationDisposition_Validate x = None \<longleftrightarrow> (\<forall>s. x \<noteq> OtherDisposition s)"
  by (cases x) auto

lemma status_valid: "EvidenceStatus_Validate x = None \<longleftrightarrow> (\<forall>s. x \<noteq> OtherEvidenceStatus s)"
  by (cases x) auto

lemma valid_obligation_disposition: "VerificationObligation_Validate o' = None \<Longrightarrow> vo_Disposition o' \<noteq> OtherDisposition s"
  by (auto simp: VerificationObligation_Validate_def)

lemma valid_evaluation_status: "ObligationEvaluation_Validate sha e = None \<Longrightarrow> oe_EvidenceStatus e \<noteq> OtherEvidenceStatus s"
  by (auto simp: ObligationEvaluation_Validate_def)

lemma add_counts_simps:
  "add_counts n (tally []) = n"
  "add_counts n (tally (Met # cs)) = add_counts (n\<lparr>gb_EvidenceSatisfied := gb_EvidenceSatisfied n + 1\<rparr>) (tally cs)"
  "add_counts n (tally (Waived # cs)) = add_counts (n\<lparr>gb_Waived := gb_Waived n + 1\<rparr>) (tally cs)"
  "add_counts n (tally (Blocks st # cs)) = add_counts (n\<lparr>gb_Blocking := gb_Blocking n + 1\<rparr>) (tally cs)"
  "add_counts n (tally (Undecided st # cs)) = add_counts (n\<lparr>gb_Indeterminate := gb_Indeterminate n + 1\<rparr>) (tally cs)"
  "add_counts n (tally (Skipped # cs)) = add_counts n (tally cs)"
  by (simp_all add: add_counts_def tally_def)

text \<open>One step of the fold: the contribution of the obligation is counted, its reason remembered.\<close>

lemma fold_obligations_step:
  assumes "VerificationObligation_Validate o' = None" "vo_ObligationID o' \<notin> set seen"
    and "applicable o' \<Longrightarrow> \<exists>e. evals (vo_ObligationID o') = Some e \<and> oe_ObligationID e = vo_ObligationID o' \<and> ObligationEvaluation_Validate sha e = None"
  shows "fold_obligations sha evals (o' # obls) seen n reasons =
    fold_obligations sha evals obls (vo_ObligationID o' # seen)
      (case contribution evals o' of Met \<Rightarrow> n\<lparr>gb_EvidenceSatisfied := gb_EvidenceSatisfied n + 1\<rparr> | Waived \<Rightarrow> n\<lparr>gb_Waived := gb_Waived n + 1\<rparr>
       | Blocks _ \<Rightarrow> n\<lparr>gb_Blocking := gb_Blocking n + 1\<rparr> | Undecided _ \<Rightarrow> n\<lparr>gb_Indeterminate := gb_Indeterminate n + 1\<rparr> | Skipped \<Rightarrow> n)
      (reason_of (contribution evals o') @ reasons)"
proof (cases "applicable o'")
  case True
  then obtain e where e: "evals (vo_ObligationID o') = Some e" "oe_ObligationID e = vo_ObligationID o'" "ObligationEvaluation_Validate sha e = None"
    using assms(3) by blast
  show ?thesis
    using True assms(1,2) e valid_evaluation_status [OF e(3)]
    by (cases "oe_EvidenceStatus e") (auto simp: contribution_def applicable_def reject_def)
next
  case False
  then show ?thesis
    using assms(1,2) valid_obligation_disposition [OF assms(1)]
    by (cases "vo_Disposition o'") (auto simp: contribution_def applicable_def reject_def)
qed

lemma fold_obligations_ok:
  assumes "gate_inputs_ok sha obls evals" "set (map vo_ObligationID obls) \<inter> set seen = {}"
  shows "\<exists>rs. fold_obligations sha evals obls seen n reasons =
    Inr (add_counts n (tally (map (contribution evals) obls)), rs) \<and> set rs = set reasons \<union> set (concat (map (reason_of \<circ> contribution evals) obls))"
  using assms
proof (induction obls arbitrary: seen n reasons)
  case (Cons o' obls)
  have ok: "VerificationObligation_Validate o' = None" "vo_ObligationID o' \<notin> set seen"
    "applicable o' \<Longrightarrow> \<exists>e. evals (vo_ObligationID o') = Some e \<and> oe_ObligationID e = vo_ObligationID o' \<and> ObligationEvaluation_Validate sha e = None"
    and rest: "gate_inputs_ok sha obls evals" "set (map vo_ObligationID obls) \<inter> set (vo_ObligationID o' # seen) = {}"
    using Cons.prems by (auto simp: gate_inputs_ok_def)
  obtain n' where n': "add_counts n (tally (contribution evals o' # cs)) = add_counts n' (tally cs)"
    and step: "fold_obligations sha evals (o' # obls) seen n reasons =
      fold_obligations sha evals obls (vo_ObligationID o' # seen) n' (reason_of (contribution evals o') @ reasons)" for cs
    using fold_obligations_step [where evals = evals and o' = o', OF ok] by (cases "contribution evals o'") (auto simp: add_counts_simps)
  show ?case
    unfolding step using Cons.IH [OF rest, of n' "reason_of (contribution evals o') @ reasons"] n' by auto
qed (simp add: add_counts_simps)

lemma fold_obligations_inputs:
  assumes "fold_obligations sha evals obls seen n reasons = Inr x"
  shows "gate_inputs_ok sha obls evals \<and> set (map vo_ObligationID obls) \<inter> set seen = {}"
  using assms
proof (induction obls arbitrary: seen n reasons)
  case (Cons o' obls)
  then have v: "VerificationObligation_Validate o' = None" "vo_ObligationID o' \<notin> set seen" by auto
  have "\<exists>n' rs. fold_obligations sha evals obls (vo_ObligationID o' # seen) n' rs = Inr x"
    using Cons.prems by (auto simp: Let_def split: if_splits option.splits)
  then have rest: "gate_inputs_ok sha obls evals" "set (map vo_ObligationID obls) \<inter> set (vo_ObligationID o' # seen) = {}"
    using Cons.IH by blast+
  have "applicable o' \<Longrightarrow> \<exists>e. evals (vo_ObligationID o') = Some e \<and> oe_ObligationID e = vo_ObligationID o' \<and> ObligationEvaluation_Validate sha e = None"
    using Cons.prems by (auto simp: Let_def applicable_def split: if_splits option.splits)
  then show ?case using v rest by (auto simp: gate_inputs_ok_def)
qed (simp add: gate_inputs_ok_def)

lemma reasons_of_concat: "set (concat (map reason_of cs)) = reasons_of cs"
proof -
  have "set (reason_of c) = {gateEvidenceReason st |st. c = Blocks st \<or> c = Undecided st}" for c
    by (cases c) auto
  then show ?thesis by (auto simp: reasons_of_def image_iff)
qed

definition gate_reasons :: "string list" where
  "gate_reasons = [''evidence_failed'', ''evidence_insufficient'', ''evidence_inconsistent'', ''evidence_not_evaluated'', ''evidence_unknown'',
     ''evidence_unavailable'', ''evidence_status_invalid'']"

lemma gateEvidenceReason_known: "gateEvidenceReason st \<in> set gate_reasons"
  by (cases st) (simp_all add: gate_reasons_def)

lemma gate_reasons_bounded: "\<forall>r \<in> set gate_reasons. boundedToken r 128"
  by (simp add: gate_reasons_def boundedToken_def valid_utf8_def RuneError_def)

lemma reference_gate_valid: "GateEvaluation_Validate (reference_gate cs) = None"
proof -
  let ?R = "reasons_of cs"
  have sub: "?R \<subseteq> set gate_reasons" using gateEvidenceReason_known by (auto simp: reasons_of_def)
  then have fin: "finite ?R" using finite_subset by blast
  have "card ?R \<le> card (set gate_reasons)" by (rule card_mono [OF _ sub]) simp
  also have "\<dots> \<le> length gate_reasons" by (rule card_length)
  finally have "length (sorted_list_of_set ?R) \<le> 32" by (simp add: gate_reasons_def)
  moreover have "\<forall>r \<in> ?R. boundedToken r 128" using sub gate_reasons_bounded by blast
  ultimately show ?thesis
    using fin by (simp add: GateEvaluation_Validate_def GateBreakdown_Validate_def reference_gate_def tally_def list_all_iff)
qed

lemma tally_positive:
  "gb_Blocking (tally cs) > 0 \<longleftrightarrow> (\<exists>st. Blocks st \<in> set cs)" "gb_Indeterminate (tally cs) > 0 \<longleftrightarrow> (\<exists>st. Undecided st \<in> set cs)"
proof -
  have "(case c of Blocks _ \<Rightarrow> True | _ \<Rightarrow> False) \<longleftrightarrow> (\<exists>st. c = Blocks st)" "(case c of Undecided _ \<Rightarrow> True | _ \<Rightarrow> False) \<longleftrightarrow> (\<exists>st. c = Undecided st)" for c
    by (cases c; simp)+
  then show "gb_Blocking (tally cs) > 0 \<longleftrightarrow> (\<exists>st. Blocks st \<in> set cs)" "gb_Indeterminate (tally cs) > 0 \<longleftrightarrow> (\<exists>st. Undecided st \<in> set cs)"
    by (auto simp: tally_def filter_empty_conv)
qed

lemma FoldGate_reference:
  "FoldGate sha obls evals = Inr g \<longleftrightarrow> gate_inputs_ok sha obls evals \<and> g = reference_gate (map (contribution evals) obls)"
proof -
  let ?cs = "map (contribution evals) obls"
  have ref: "FoldGate sha obls evals = Inr (reference_gate ?cs)" if ok: "gate_inputs_ok sha obls evals"
  proof -
    obtain rs where fold: "fold_obligations sha evals obls [] no_counts [] = Inr (add_counts no_counts (tally ?cs), rs)"
      and rs: "set rs = set (concat (map (reason_of \<circ> contribution evals) obls))"
      using fold_obligations_ok [OF ok, of "[]" no_counts "[]"] by auto
    have counts: "add_counts no_counts (tally ?cs) = tally ?cs" by (simp add: add_counts_def no_counts_def tally_def)
    have "set rs = reasons_of ?cs" using rs reasons_of_concat [of ?cs] by simp
    then have "sortedUnique rs = sorted_list_of_set (reasons_of ?cs)" by (simp add: sortedUnique_set)
    then have "FoldGate sha obls evals = guard_result (GateEvaluation_Validate (reference_gate ?cs)) (Inr (reference_gate ?cs))"
      unfolding FoldGate_def fold counts reference_gate_def by (simp only: tally_positive Let_def prod.case bind_result_simps)
    then show ?thesis by (simp add: reference_gate_valid)
  qed
  have "gate_inputs_ok sha obls evals" if "FoldGate sha obls evals = Inr g"
    using that fold_obligations_inputs by (fastforce simp: FoldGate_def)
  with ref show ?thesis by auto
qed

section \<open>Satisfied requirements\<close>

text \<open>The candidates of evidence that count for a requirement under a source generation.\<close>

definition usable :: "string \<Rightarrow> BoundEvidenceRequirement \<Rightarrow> EnvironmentBinding option \<Rightarrow> EvidenceCandidate \<Rightarrow> bool" where
  "usable generation bnd current c \<longleftrightarrow>
     (let req = be_Requirement bnd in
      ec_ProviderClassKnown c \<and> ec_AuthorityKnown c \<and> MeetsMinimumAuthority (ec_Authority c) (er_MinimumAuthority req) \<and>
      (if er_ProjectCommandID req = [] then ec_ProviderClass c = er_ProviderClass req
       else bound_to req (be_ExpectedProjectBindingDigest bnd) c) \<and>
      (er_RequireCurrent req \<longrightarrow> ec_Freshness c = CandidateCurrent \<or> ec_Freshness c = CandidateUnknown \<and> same_generation generation c) \<and>
      (er_Environment req \<noteq> EnvironmentNone \<longrightarrow> (case current of None \<Rightarrow> False | Some cur \<Rightarrow> EnvironmentBinding_Validate cur = None \<and>
         ec_EnvironmentFingerprint c \<noteq> [] \<and> same_environment cur c \<and> (er_Environment req = EnvironmentSameCurrentToolchain \<longrightarrow> same_toolchain cur c))))"

text \<open>Their results: all of them pass, or the qualification runs of the flake protocol do as it demands.\<close>

definition results_suffice :: "EvidenceRequirement \<Rightarrow> EvidenceCandidate list \<Rightarrow> bool" where
  "results_suffice req cs =
     (case er_Flake req of
        None \<Rightarrow> \<forall>c \<in> set cs. ec_Result c = CandidatePass
      | Some p \<Rightarrow> let runs = qualified_runs cs in
          int (length runs) = fk_Runs p \<and> fk_MinPasses p \<le> count_result CandidatePass runs \<and> count_result CandidateFail runs \<le> fk_MaxFailures p \<and>
          (\<forall>c \<in> set runs. ec_Result c = CandidatePass \<or> ec_Result c = CandidateFail))"

definition quiescent :: "(string \<times> QuiescenceObservation) list \<Rightarrow> EvidenceCandidate \<Rightarrow> bool" where
  "quiescent obs c \<longleftrightarrow> (\<exists>q. map_of obs (ec_OperationID c) = Some q \<and> QuiescenceObservation_Validate q = None \<and> qo_Status q = QuiescenceComplete)"

definition supported ::
  "string \<Rightarrow> BoundEvidenceRequirement \<Rightarrow> CandidateResultSet \<Rightarrow> EnvironmentBinding option \<Rightarrow> (string \<times> QuiescenceObservation) list \<Rightarrow> bool" where
  "supported generation bnd cands current quiescence \<longleftrightarrow>
     (let cs = filter (usable generation bnd current) (cr_Candidates cands) in
      cs \<noteq> [] \<and> (\<forall>c \<in> set (cr_Candidates cands). EvidenceCandidate_Validate c = None) \<and> cr_Coverage cands = CoverageComplete \<and>
      results_suffice (be_Requirement bnd) cs \<and> (er_RequireQuiescence (be_Requirement bnd) \<longrightarrow> (\<forall>c \<in> set cs. quiescent quiescence c)))"

subsection \<open>Quiescence\<close>

lemma quiescence_of_satisfied: "quiescence_of obs cs = (EvidenceSatisfied, r) \<Longrightarrow> c \<in> set cs \<Longrightarrow> quiescent obs c"
  by (induction cs) (auto simp: quiescent_def split: option.splits if_splits QuiescenceStatus.splits)

subsection \<open>Stability\<close>

lemma foldStatus_rank: "status_rank (foldStatus a b) = max (status_rank a) (status_rank b)"
  by (auto simp: foldStatus_def)

lemma foldl_status_rank:
  "status_rank (foldl (\<lambda>st c. foldStatus st (co_Status c)) st0 cohorts) = foldl max (status_rank st0) (map (status_rank \<circ> co_Status) cohorts)"
  by (induction cohorts arbitrary: st0) (simp_all add: foldStatus_rank)

lemma foldl_max_bound: "x \<in> set xs \<Longrightarrow> x \<le> foldl max (n::nat) xs"
proof (induction xs arbitrary: n)
  case (Cons y ys)
  have le: "m \<le> foldl max m zs" for m :: nat and zs by (induction zs arbitrary: m) (auto intro: le_trans [OF max.cobounded1])
  show ?case
  proof (cases "x = y")
    case True
    then show ?thesis using le [of "max n y" ys] by simp
  next
    case False
    then show ?thesis using Cons by simp
  qed
qed simp

lemma satisfied_cohorts:
  assumes "foldCohortStatuses cohorts = EvidenceSatisfied" "c \<in> set cohorts"
  shows "status_rank (co_Status c) \<le> 1"
proof -
  have "status_rank (co_Status c) \<le> foldl max (status_rank EvidenceNotEvaluated) (map (status_rank \<circ> co_Status) cohorts)"
    using assms(2) by (intro foldl_max_bound) auto
  then show ?thesis
    using assms(1) unfolding foldCohortStatuses_def by (metis foldl_status_rank status_rank.simps(1))
qed

lemma settle_satisfied:
  "settle_stability coverage unknown any st = (EvidenceSatisfied, r) \<Longrightarrow> \<not> unknown \<and> coverage = CoverageComplete \<and> st = EvidenceSatisfied"
  by (auto simp: settle_stability_def Let_def split: if_splits)

text \<open>The counts of a cohort that is not worse than satisfied.\<close>

lemma count_result_zero: "count_result r cs = 0 \<longleftrightarrow> (\<forall>c \<in> set cs. ec_Result c \<noteq> r)"
  by (auto simp: count_result_def filter_empty_conv)

lemma base_status_low:
  assumes "status_rank (base_status (count_results cs)) \<le> 1" "c \<in> set cs" "\<And>s. ec_Result c \<noteq> OtherResult s"
  shows "ec_Result c = CandidatePass"
proof -
  have "count_result CandidateFail cs = 0" "count_result CandidateAmbiguous cs = 0" "count_result CandidateIncomplete cs = 0"
    using assms(1) by (auto simp: base_status_def count_results_def count_result_def split: if_splits)
  then show ?thesis using assms(2,3) by (cases "ec_Result c") (auto simp: count_result_zero)
qed

lemma flake_status_low:
  assumes "status_rank (flake_status st (count_results cs) p) \<le> 1" "\<And>c s. c \<in> set cs \<Longrightarrow> ec_Result c \<noteq> OtherResult s"
  shows "int (length cs) = fk_Runs p \<and> fk_MinPasses p \<le> count_result CandidatePass cs \<and> count_result CandidateFail cs \<le> fk_MaxFailures p \<and>
    (\<forall>c \<in> set cs. ec_Result c = CandidatePass \<or> ec_Result c = CandidateFail)"
proof -
  have n: "int (length cs) = fk_Runs p" "fk_MinPasses p \<le> count_result CandidatePass cs" "count_result CandidateFail cs \<le> fk_MaxFailures p"
    "\<not> count_result CandidateAmbiguous cs > 0" "\<not> count_result CandidateIncomplete cs > 0"
    using assms(1) by (auto simp: flake_status_def count_results_def split: if_splits)
  then have "count_result CandidateAmbiguous cs = 0" "count_result CandidateIncomplete cs = 0"
    by (simp_all add: count_result_def)
  then have "ec_Result c = CandidatePass \<or> ec_Result c = CandidateFail" if "c \<in> set cs" for c
    using that assms(2) [OF that] by (cases "ec_Result c") (auto simp: count_result_zero)
  with n show ?thesis by blast
qed

lemma in_group:
  assumes "incompatible sha cs = []" "c \<in> set cs"
  shows "\<exists>k. (k, filter (\<lambda>x. CompatibilityKey sha x = Some k) cs) \<in> set (compatibility_groups sha cs) \<and> CompatibilityKey sha c = Some k"
proof -
  obtain k where k: "CompatibilityKey sha c = Some k" using assms by (auto simp: incompatible_def filter_empty_conv)
  then have "k \<in> set (List.map_filter (CompatibilityKey sha) cs)" using assms(2) by (force simp: map_filter_def)
  then show ?thesis using k by (auto simp: compatibility_groups_def)
qed

lemma distinct_groups: "distinct (map fst (compatibility_groups sha cs))"
  using sortedUnique_strict [of "List.map_filter (CompatibilityKey sha) cs"] by (simp add: compatibility_groups_def o_def strict_sorted_iff)

lemma fold_cohorts_base: "fold_cohorts sha req None groups flake = (map (\<lambda>(k, cs). foldBaseCohort k cs) groups, flake)"
  by (induction groups arbitrary: flake) auto

lemma single_flake_group:
  assumes "fold_cohorts sha StabilityFlakeProtocol (Some p) groups None = (cohorts, flake)"
    and low: "\<forall>c \<in> set cohorts. status_rank (co_Status c) \<le> 1" and "groups \<noteq> []" "distinct (map fst groups)"
  obtains k cs where "groups = [(k, cs)]" "status_rank (flake_status (base_status (count_results cs)) (count_results (qualified_runs cs)) p) \<le> 1"
proof -
  obtain k cs gs where g: "groups = (k, cs) # gs" using assms(3) by (cases groups) auto
  obtain pid where pid: "FlakeProtocolID sha p = Some pid"
    using assms(1) low g by (cases "FlakeProtocolID sha p") (auto simp: foldFlakeCohort_def Let_def split: prod.splits)
  have first: "status_rank (flake_status (base_status (count_results cs)) (count_results (qualified_runs cs)) p) \<le> 1"
    using assms(1) low g pid by (auto simp: foldFlakeCohort_def foldBaseCohort_def Let_def split: prod.splits)
  have "gs = []"
  proof (rule ccontr)
    assume "gs \<noteq> []"
    then obtain k2 cs2 gs2 where gs: "gs = (k2, cs2) # gs2" by (cases gs) auto
    then have "k \<noteq> k2" using assms(4) g by auto
    then have "\<exists>c \<in> set cohorts. status_rank (co_Status c) \<ge> 3"
      using assms(1) g gs pid by (auto simp: foldFlakeCohort_def foldBaseCohort_def Let_def foldStatus_def split: prod.splits)
    with low show False by fastforce
  qed
  with g first that show ?thesis by blast
qed

lemma stability_satisfied:
  assumes sat: "sy_Status (EvaluateStability sha st fl cands) = EvidenceSatisfied" and some: "cr_Candidates cands \<noteq> []"
    and results: "\<And>c s. c \<in> set (cr_Candidates cands) \<Longrightarrow> ec_Result c \<noteq> OtherResult s" and "fl = er_Flake req"
  shows "cr_Coverage cands = CoverageComplete \<and> results_suffice req (cr_Candidates cands)"
proof -
  let ?cs = "cr_Candidates cands" and ?g = "compatibility_groups sha (cr_Candidates cands)"
  obtain cohorts flake where f: "fold_cohorts sha st fl ?g None = (cohorts, flake)" by (metis surj_pair)
  obtain r where settled: "settle_stability (cr_Coverage cands) (incompatible sha ?cs \<noteq> []) (?cs \<noteq> []) (foldCohortStatuses cohorts) = (EvidenceSatisfied, r)"
    and kind: "(st = StabilityFlakeProtocol) = (fl \<noteq> None)"
    using sat f by (auto simp: EvaluateStability_def Let_def split: if_splits prod.splits)
  from settle_satisfied [OF this(1)] have ok: "incompatible sha ?cs = []" "cr_Coverage cands = CoverageComplete" "foldCohortStatuses cohorts = EvidenceSatisfied"
    by auto
  have low: "\<forall>c \<in> set cohorts. status_rank (co_Status c) \<le> 1" using satisfied_cohorts [OF ok(3)] by blast
  have "results_suffice req ?cs"
  proof (cases fl)
    case None
    have "ec_Result c = CandidatePass" if c: "c \<in> set ?cs" for c
    proof -
      obtain k where k: "(k, filter (\<lambda>x. CompatibilityKey sha x = Some k) ?cs) \<in> set ?g" "CompatibilityKey sha c = Some k"
        using in_group [OF ok(1) c] by blast
      then have "foldBaseCohort k (filter (\<lambda>x. CompatibilityKey sha x = Some k) ?cs) \<in> set cohorts"
        using f None by (force simp: fold_cohorts_base)
      from bspec [OF low this] show ?thesis
        by (intro base_status_low [of "filter (\<lambda>x. CompatibilityKey sha x = Some k) ?cs"]) (use k(2) c results in \<open>auto simp: foldBaseCohort_def\<close>)
    qed
    with None assms(4) show ?thesis by (simp add: results_suffice_def)
  next
    case (Some p)
    then have "st = StabilityFlakeProtocol" using kind by simp
    moreover have "?g \<noteq> []" using in_group [OF ok(1)] some by (cases ?cs) fastforce+
    ultimately obtain k cs where g: "?g = [(k, cs)]" and fs: "status_rank (flake_status (base_status (count_results cs)) (count_results (qualified_runs cs)) p) \<le> 1"
      using single_flake_group [of sha p ?g cohorts flake] f Some low distinct_groups by blast
    have "CompatibilityKey sha c = Some k" if "c \<in> set ?cs" for c using in_group [OF ok(1) that] g by auto
    then have "filter (\<lambda>x. CompatibilityKey sha x = Some k) ?cs = ?cs" by (simp add: filter_id_conv)
    moreover have "cs = filter (\<lambda>x. CompatibilityKey sha x = Some k) ?cs" using g by (auto simp: compatibility_groups_def)
    ultimately have "cs = ?cs" by simp
    have "ec_Result c \<noteq> OtherResult s" if "c \<in> set (qualified_runs ?cs)" for c s
      using that results by (auto simp: qualified_runs_def)
    from flake_status_low [OF fs [unfolded \<open>cs = ?cs\<close>] this] show ?thesis
      using Some assms(4) by (auto simp: results_suffice_def Let_def)
  qed
  with ok(2) show ?thesis by blast
qed

subsection \<open>Requirements\<close>

lemma valid_candidate_result: "EvidenceCandidate_Validate c = None \<Longrightarrow> ec_Result c \<noteq> OtherResult s"
  by (auto simp: EvidenceCandidate_Validate_def)

lemma validCandidates_all: "length (validCandidates cs) = length cs \<Longrightarrow> c \<in> set cs \<Longrightarrow> EvidenceCandidate_Validate c = None"
  using length_filter_less [of c cs "\<lambda>c. EvidenceCandidate_Validate c = None"] by (metis nat_neq_iff validCandidates_def)

lemma environment_left:
  assumes "filterEnvironment cs req current = (env, None, r)"
  shows "env = filter (\<lambda>c. req \<noteq> EnvironmentNone \<longrightarrow> (case current of None \<Rightarrow> False | Some cur \<Rightarrow> EnvironmentBinding_Validate cur = None \<and>
    ec_EnvironmentFingerprint c \<noteq> [] \<and> same_environment cur c \<and> (req = EnvironmentSameCurrentToolchain \<longrightarrow> same_toolchain cur c))) cs"
  using assms by (auto simp: filterEnvironment_def Let_def split: if_splits option.splits)

lemma environment_status:
  "filterEnvironment cs req current = (env, Some st, r) \<Longrightarrow> st \<noteq> EvidenceSatisfied"
  "filterEnvironment cs req current = (env, None, r) \<Longrightarrow> cs \<noteq> [] \<Longrightarrow> env \<noteq> []"
  by (auto simp: filterEnvironment_def Let_def split: if_splits option.splits)

lemma requirement_satisfied:
  assumes "requirement_status sha obl bnd cands providers current quiescence = (EvidenceSatisfied, reason)"
  shows "supported (vo_AppliesToGeneration obl) bnd cands current quiescence"
proof -
  let ?req = "be_Requirement bnd" and ?exp = "be_ExpectedProjectBindingDigest bnd" and ?all = "cr_Candidates cands"
  define bs where "bs = fst (filterProjectBinding ?all ?req ?exp)"
  define ps where "ps = filterProviderSemantics bs ?req ?exp"
  define as where "as = filterAuthority ps (er_MinimumAuthority ?req)"
  define fs where "fs = (if er_RequireCurrent ?req then fst (filterCurrent as (vo_AppliesToGeneration obl)) else as)"
  have v: "length (validCandidates ?all) = length ?all"
    using assms by (auto simp: requirement_status_def Let_def noEvidenceResult_def split: if_splits option.splits Availability.splits)
  then have valid: "\<And>c. c \<in> set ?all \<Longrightarrow> EvidenceCandidate_Validate c = None" using validCandidates_all by blast
  then have vc: "validCandidates ?all = ?all" by (simp add: validCandidates_def filter_id_conv)
  have cmd: "er_ProjectCommandID ?req \<noteq> [] \<Longrightarrow> ?exp \<noteq> []"
    using assms by (auto simp: requirement_status_def Let_def split: if_splits)
  obtain env st r where env: "filterEnvironment fs (er_Environment ?req) current = (env, st, r)" by (metis prod_cases3)
  have fs: "fs \<noteq> []" and final: "(case st of Some s \<Rightarrow> (s, r) | None \<Rightarrow>
      let (s, r) = stabilityStatus (EvaluateStability sha (er_Stability ?req) (er_Flake ?req) (cands\<lparr>cr_Candidates := env\<rparr>)) in
      if er_RequireQuiescence ?req \<and> s = EvidenceSatisfied then evaluateQuiescence env quiescence else (s, r)) = (EvidenceSatisfied, reason)"
    using assms env
    by (auto simp: requirement_status_def Let_def vc bs_def ps_def as_def fs_def noEvidenceResult_def
        split: if_splits option.splits Availability.splits prod.splits)
  have "st = None" using final environment_status(1) [of fs "er_Environment ?req" current env] env by (cases st) auto
  then have e: "filterEnvironment fs (er_Environment ?req) current = (env, None, r)" using env by simp
  have env_eq: "env = filter (usable (vo_AppliesToGeneration obl) bnd current) ?all"
    using cmd unfolding environment_left [OF e] fs_def as_def ps_def bs_def
    by (auto simp: filterCurrent_def filterAuthority_def filterProviderSemantics_def filterProjectBinding_def usable_def Let_def bound_to_def intro!: filter_cong)
  have "env \<noteq> []" using environment_status(2) [OF e fs] .
  let ?sy = "EvaluateStability sha (er_Stability ?req) (er_Flake ?req) (cands\<lparr>cr_Candidates := env\<rparr>)"
  have sat: "sy_Status ?sy = EvidenceSatisfied" and qui: "er_RequireQuiescence ?req \<Longrightarrow> evaluateQuiescence env quiescence = (EvidenceSatisfied, reason)"
    using final \<open>st = None\<close> by (auto simp: stabilityStatus_def Let_def split: if_splits)
  have "cr_Coverage cands = CoverageComplete \<and> results_suffice ?req env"
    using stability_satisfied [OF sat] \<open>env \<noteq> []\<close> valid valid_candidate_result env_eq by fastforce
  moreover have "quiescent quiescence c" if "er_RequireQuiescence ?req" "c \<in> set env" for c
    using qui [OF that(1)] that(2) quiescence_of_satisfied by (auto simp: evaluateQuiescence_def split: if_splits)
  ultimately show ?thesis using \<open>env \<noteq> []\<close> valid by (simp add: supported_def Let_def flip: env_eq)
qed

lemma EvaluateObligation_id: "oe_ObligationID (EvaluateObligation sha o' cands providers current quiescence) = vo_ObligationID o'"
  by (simp add: EvaluateObligation_def Let_def)

section \<open>Waivers\<close>

lemma list_strict_iff: "list_strict dir = Inr xs \<Longrightarrow> x \<in> set xs \<longleftrightarrow> (\<exists>k. map_of dir k = Some (Good x))"
proof -
  assume "list_strict dir = Inr xs"
  then have m: "map (readStrict dir) (ReadDir dir) = map Inr xs" by (simp add: list_strict_def collect_Inr)
  show ?thesis
  proof
    assume "x \<in> set xs"
    then have "Inr x \<in> readStrict dir ` set (ReadDir dir)" using m by (metis image_eqI image_set)
    then show "\<exists>k. map_of dir k = Some (Good x)" by (auto simp: readStrict_def readPrivateJSON_Inr eq_commute [of "Inr x"])
  next
    assume "\<exists>k. map_of dir k = Some (Good x)"
    then obtain k where k: "map_of dir k = Some (Good x)" by blast
    then have "k \<in> set (ReadDir dir)" by (force simp: ReadDir_def dest: map_of_SomeD)
    moreover have "readStrict dir k = Inr x" using k by (simp add: readStrict_def readPrivateJSON_Inr)
    ultimately have "(Inr x :: 'a result) \<in> Inr ` set xs" using m by (metis image_eqI image_set)
    then show "x \<in> set xs" by auto
  qed
qed

lemma active_waiver:
  assumes "ActiveWaivers d now scope s = Inr waivers" "w \<in> set waivers"
  shows "\<exists>ws digest ws' rs. find_workspace d (sp_WorkspaceID scope) = Inr ws \<and> ListWaivers (wk_RepositoryID ws) s = Inr (ws', rs) \<and>
    w \<in> set ws' \<and> waiver_active now digest (map rv_WaiverID rs) scope w"
proof -
  obtain ws current where ws: "find_workspace d (sp_WorkspaceID scope) = Inr ws" "CurrentActivation (wk_RepositoryID ws) s = Inr current"
    using assms(1) by (auto simp: ActiveWaivers_def)
  then obtain a where a: "current = Some a" using assms by (cases current) (auto simp: ActiveWaivers_def)
  then obtain ws' rs where l: "ListWaivers (wk_RepositoryID ws) s = Inr (ws', rs)" using assms(1) ws by (auto simp: ActiveWaivers_def)
  then have "waivers = sort_key wv_WaiverID (filter (waiver_active now (av_ProposedPolicyDigest a) (map rv_WaiverID rs) scope) ws')"
    using assms(1) ws a by (simp add: ActiveWaivers_def)
  then show ?thesis using assms(2) ws(1) l by auto
qed

lemma ListWaivers_files:
  assumes "ListWaivers repo s = Inr (ws, rs)"
  shows "w \<in> set ws \<longleftrightarrow> (\<exists>k. map_of (vs_waivers s repo) k = Some (Good w))" "v \<in> set rs \<longleftrightarrow> (\<exists>k. map_of (vs_revocations s repo) k = Some (Good v))"
proof -
  obtain ws' rs' where l: "list_strict (vs_waivers s repo) = Inr ws'" "list_strict (vs_revocations s repo) = Inr rs'" "set ws = set ws'" "set rs = set rs'"
    using assms by (auto simp: ListWaivers_def)
  show "w \<in> set ws \<longleftrightarrow> (\<exists>k. map_of (vs_waivers s repo) k = Some (Good w))" "v \<in> set rs \<longleftrightarrow> (\<exists>k. map_of (vs_revocations s repo) k = Some (Good v))"
    using list_strict_iff [OF l(1)] list_strict_iff [OF l(2)] l(3,4) by simp_all
qed

lemma waiver_active_unrevoked: "waiver_active now x (map rv_WaiverID rs) scope w \<Longrightarrow> wv_WaiverID w \<notin> rv_WaiverID ` set rs"
  by (simp add: waiver_active_def)

section \<open>Inspections\<close>

text \<open>An inspection under an effective policy.\<close>

lemma effective_inspection:
  assumes "VerificationPhase_Validate (iq_Phase req) = None" "is_workspace src = Inr ws" "is_affected src = Inr surface"
    "materializedPolicy sha (wk_RepositoryID ws) s = Inr (Some (m, summary))" "ApplyEffectiveClassifications sha surface m = Inr classified"
    "ActiveWaivers d now \<lparr>sp_WorkspaceID = iq_WorkspaceID req, sp_Phase = iq_Phase req, sp_Generation = sf_SourceGeneration classified, sp_CheckpointID = []\<rparr> s = Inr waivers"
    "Derive sha (pd_commands d) \<lparr>oq_WorkspaceID = iq_WorkspaceID req, oq_Phase = iq_Phase req, oq_Policy = m, oq_Surface = classified, oq_ActiveWaivers = waivers\<rparr> = Inr derived"
    "FoldGate sha (foldl applyObligationEvaluation (ox_Obligations derived) (evaluate_all sha src (iq_WorkspaceID req) (applicableObligations (ox_Obligations derived))))
       (evaluation_map (evaluate_all sha src (iq_WorkspaceID req) (applicableObligations (ox_Obligations derived)))) = Inr g"
  shows "\<exists>insp. Inspect sha d src now req s = Inr insp \<and> in_Gate insp = g"
  using assms by (simp add: Inspect_def GateForPolicyState_def Let_def)

end
