(* ===== verification/VerificationRuns.thy ===== *)
theory VerificationRuns
  imports VerificationFacts
begin

text \<open>
  Runs of the policy service: the steps that change the verification store, what every step keeps
  and the invariant of the store.
\<close>

section \<open>Writes\<close>

definition file_created :: "'a dir \<Rightarrow> string \<Rightarrow> 'a \<Rightarrow> 'a dir \<Rightarrow> bool" where
  "file_created d k v d' \<longleftrightarrow> d' = d \<or> map_of d k = None \<and> d' = put_file k v d"

text \<open>
  The four kinds of immutable records have a directory per repository each, to which files are only
  added: what the store relies on of them is stated once.
\<close>

locale record_files =
  fixes files :: "VerificationStore \<Rightarrow> string \<Rightarrow> 'a dir"
    and with_files :: "VerificationStore \<Rightarrow> string \<Rightarrow> 'a dir \<Rightarrow> VerificationStore"
    and put :: "string \<Rightarrow> string \<Rightarrow> 'a \<Rightarrow> VerificationStore \<Rightarrow> goerr option \<times> VerificationStore"
  assumes put_creates: "put repo k v s = (case atomic_Create (fst (next_io (vs_io s))) (files s repo) k v of
      (res, d) \<Rightarrow> (sr_Err res, with_files (s\<lparr>vs_io := snd (next_io (vs_io s))\<rparr>) repo d))"
begin

lemma put_cases:
  assumes "put repo k v s = (e, s')"
  obtains io d where "s' = with_files (s\<lparr>vs_io := io\<rparr>) repo d" "file_created (files s repo) k v d" "e = None \<Longrightarrow> map_of d k = Some (Good v)"
proof -
  obtain res d where a: "atomic_Create (fst (next_io (vs_io s))) (files s repo) k v = (res, d)" by (metis surj_pair)
  show ?thesis
    by (rule that [of "snd (next_io (vs_io s))" d])
       (use assms a atomic_Create_dir [OF a] atomic_Create_ok [OF a] in \<open>auto simp: put_creates file_created_def\<close>)
qed

lemma put_succeeds:
  assumes "vs_io s = []" "map_of (files s repo) k = None"
  shows "put repo k v s = (None, with_files s repo (put_file k v (files s repo)))"
proof -
  have idle: "s\<lparr>vs_io := []\<rparr> = s" using assms(1) by (cases s) simp
  show ?thesis using assms by (simp add: put_creates atomic_Create_def next_io_def) (simp only: idle)
qed

end

interpretation policy_files: record_files vs_policies "\<lambda>s repo d. s\<lparr>vs_policies := (vs_policies s)(repo := d)\<rparr>" put_policy
  by unfold_locales (simp add: put_policy_def take_io_def split: prod.split)

interpretation activation_files: record_files vs_activations "\<lambda>s repo d. s\<lparr>vs_activations := (vs_activations s)(repo := d)\<rparr>" put_activation
  by unfold_locales (simp add: put_activation_def take_io_def split: prod.split)

interpretation waiver_files: record_files vs_waivers "\<lambda>s repo d. s\<lparr>vs_waivers := (vs_waivers s)(repo := d)\<rparr>" put_waiver
  by unfold_locales (simp add: put_waiver_def take_io_def split: prod.split)

interpretation revocation_files: record_files vs_revocations "\<lambda>s repo d. s\<lparr>vs_revocations := (vs_revocations s)(repo := d)\<rparr>" put_revocation
  by unfold_locales (simp add: put_revocation_def take_io_def split: prod.split)

lemmas put_policy_cases = policy_files.put_cases [simplified]
lemmas put_activation_cases = activation_files.put_cases [simplified]
lemmas put_waiver_cases = waiver_files.put_cases [simplified]
lemmas put_revocation_cases = revocation_files.put_cases [simplified]

lemma put_effective_cases:
  assumes "put_effective repo v s = (e, s')"
  obtains io d where "s' = s\<lparr>vs_io := io, vs_effective := d\<rparr>" "d = vs_effective s \<or> d = put_file repo v (vs_effective s)" "e = None \<Longrightarrow> d = put_file repo v (vs_effective s)"
proof -
  obtain res d where a: "atomic_Replace (fst (next_io (vs_io s))) (vs_effective s) repo v = (res, d)" by (metis surj_pair)
  show ?thesis
    by (rule that [of d "snd (next_io (vs_io s))"])
       (use assms a atomic_Replace_dir [OF a] atomic_Replace_ok [OF a] in \<open>auto simp: put_effective_def take_io_def\<close>)
qed

lemma ensure_dir_cases:
  assumes "ensureVerificationRepoDir s = (e, s')"
  obtains io where "s' = s\<lparr>vs_io := io\<rparr>"
  using assms by (auto simp: ensureVerificationRepoDir_def take_io_def split: prod.splits file_write.splits)

lemma clock_cases:
  assumes "clock s = (t, s')"
  obtains ts where "s' = s\<lparr>vs_clock := ts\<rparr>" "set ts \<subseteq> set (vs_clock s)" "t \<in> insert 1 (set (vs_clock s))"
  using assms that [of "vs_clock s"] that by (cases "vs_clock s") (auto simp: clock_def)

section \<open>Records are kept\<close>

definition files_kept :: "'a dir \<Rightarrow> 'a dir \<Rightarrow> bool" where
  "files_kept d d' \<longleftrightarrow> (\<forall>k x. map_of d k = Some x \<longrightarrow> map_of d' k = Some x)"

definition records_kept :: "VerificationStore \<Rightarrow> VerificationStore \<Rightarrow> bool" where
  "records_kept s s' \<longleftrightarrow> (\<forall>repo. files_kept (vs_policies s repo) (vs_policies s' repo) \<and> files_kept (vs_activations s repo) (vs_activations s' repo) \<and>
     files_kept (vs_waivers s repo) (vs_waivers s' repo) \<and> files_kept (vs_revocations s repo) (vs_revocations s' repo))"

lemma files_kept_refl [simp]: "files_kept d d"
  by (simp add: files_kept_def)

lemma file_created_kept: "file_created d k v d' \<Longrightarrow> files_kept d d'"
  by (auto simp: file_created_def files_kept_def)

lemma records_kept_refl [simp]: "records_kept s s"
  by (simp add: records_kept_def)

lemma records_kept_trans: "records_kept s s1 \<Longrightarrow> records_kept s1 s2 \<Longrightarrow> records_kept s s2"
  by (simp add: records_kept_def files_kept_def)

named_theorems kept

lemma put_policy_kept [kept]: "put_policy repo k v s = (e, s') \<Longrightarrow> records_kept s s'"
  by (erule put_policy_cases) (auto simp: records_kept_def file_created_kept)

lemma put_activation_kept [kept]: "put_activation repo k v s = (e, s') \<Longrightarrow> records_kept s s'"
  by (erule put_activation_cases) (auto simp: records_kept_def file_created_kept)

lemma put_waiver_kept [kept]: "put_waiver repo k v s = (e, s') \<Longrightarrow> records_kept s s'"
  by (erule put_waiver_cases) (auto simp: records_kept_def file_created_kept)

lemma put_revocation_kept [kept]: "put_revocation repo k v s = (e, s') \<Longrightarrow> records_kept s s'"
  by (erule put_revocation_cases) (auto simp: records_kept_def file_created_kept)

lemma put_effective_kept [kept]: "put_effective repo v s = (e, s') \<Longrightarrow> records_kept s s'"
  by (erule put_effective_cases) (auto simp: records_kept_def)

lemma ensure_dir_kept [kept]: "ensureVerificationRepoDir s = (e, s') \<Longrightarrow> records_kept s s'"
  by (erule ensure_dir_cases) (simp add: records_kept_def)

lemma clock_kept [kept]: "clock s = (t, s') \<Longrightarrow> records_kept s s'"
  by (erule clock_cases) (simp add: records_kept_def)

lemma create_activation_kept [kept]: "create_activation repo c fp s = (r, s') \<Longrightarrow> records_kept s s'"
  by (auto simp: create_activation_def Let_def split: prod.splits option.splits dest!: kept intro: records_kept_trans)

lemma replay_activation_kept [kept]: "replay_activation repo index a s = (r, s') \<Longrightarrow> records_kept s s'"
  by (auto simp: replay_activation_def Let_def split: prod.splits option.splits if_splits dest!: kept)

lemma ActivatePolicyCAS_kept [kept]: "ActivatePolicyCAS sha c s = (r, s') \<Longrightarrow> records_kept s s'"
  by (auto simp: ActivatePolicyCAS_def Let_def split: prod.splits option.splits if_splits sum.splits dest!: kept)

lemma PutPolicySnapshot_kept [kept]: "PutPolicySnapshot sha p s = (r, s') \<Longrightarrow> records_kept s s'"
  by (auto simp: PutPolicySnapshot_def split: prod.splits option.splits if_splits sum.splits dest!: kept intro: records_kept_trans)

lemma PutWaiver_kept [kept]: "PutWaiver sha i s = (r, s') \<Longrightarrow> records_kept s s'"
  by (auto simp: PutWaiver_def Let_def split: prod.splits option.splits if_splits sum.splits dest!: kept intro: records_kept_trans)

lemma PutWaiverRevocation_kept [kept]: "PutWaiverRevocation sha i s = (r, s') \<Longrightarrow> records_kept s s'"
  by (auto simp: PutWaiverRevocation_def Let_def split: prod.splits option.splits if_splits sum.splits dest!: kept intro: records_kept_trans)

section \<open>Steps of the service\<close>

inductive verification_step :: "(identity \<Rightarrow> string) \<Rightarrow> VerificationStore \<Rightarrow> VerificationStore \<Rightarrow> bool" for sha where
  activate: "Activate sha d req s = (r, s') \<Longrightarrow> verification_step sha s s'"
| set_waiver: "SetWaiver sha d now req s = (r, s') \<Longrightarrow> verification_step sha s s'"
| revoke_waiver: "RevokeWaiver sha d req s = (r, s') \<Longrightarrow> verification_step sha s s'"

definition verification_run :: "(identity \<Rightarrow> string) \<Rightarrow> VerificationStore \<Rightarrow> VerificationStore \<Rightarrow> bool" where
  "verification_run sha = (verification_step sha)\<^sup>*\<^sup>*"

lemma verification_step_kept: "verification_step sha s s' \<Longrightarrow> records_kept s s'"
proof (induction rule: verification_step.induct)
  case (activate d req s r s')
  then show ?case
    by (auto simp: Activate_def Let_def split: prod.splits option.splits if_splits sum.splits dest!: kept intro: records_kept_trans)
next
  case (set_waiver d now req s r s')
  then show ?case by (auto simp: SetWaiver_def split: option.splits sum.splits dest!: kept)
next
  case (revoke_waiver d req s r s')
  then show ?case by (auto simp: RevokeWaiver_def split: option.splits sum.splits if_splits dest!: kept)
qed

lemma verification_run_kept: "verification_run sha s s' \<Longrightarrow> records_kept s s'"
  unfolding verification_run_def by (induction rule: rtranclp_induct) (auto intro: records_kept_trans verification_step_kept)


section \<open>The invariant of the store\<close>

definition good_files :: "(string \<Rightarrow> 'a \<Rightarrow> bool) \<Rightarrow> 'a dir \<Rightarrow> bool" where
  "good_files P d \<longleftrightarrow> (\<forall>k c. map_of d k = Some c \<longrightarrow> (\<exists>x. c = Good x \<and> P k x))"

definition policy_ok :: "(identity \<Rightarrow> string) \<Rightarrow> string \<Rightarrow> string \<Rightarrow> PolicySnapshot \<Rightarrow> bool" where
  "policy_ok sha repo k p \<longleftrightarrow> pn_RepositoryID p = repo \<and> pn_Digest p = k \<and> VerificationPolicyDigest sha (pn_Content p) = Inr k"

definition activation_ok :: "VerificationStore \<Rightarrow> string \<Rightarrow> string \<Rightarrow> PolicyActivation \<Rightarrow> bool" where
  "activation_ok s repo k a \<longleftrightarrow> av_SchemaVersion a = 1 \<and> av_ActivationID a = k \<and> av_RepositoryID a = repo \<and> av_IntentFingerprint a \<noteq> [] \<and>
     \<not> IsZero (av_ActivatedAt a) \<and> k \<noteq> [] \<and> av_ProposedPolicyDigest a \<noteq> [] \<and> av_Authority a = AuthorityExplicitCaller \<and>
     av_ProposalOrigin a = ProposalRepositoryAuthored \<and> av_ActivationGeneration a \<noteq> av_ProposalGeneration a \<and> map_of (vs_policies s repo) (av_ProposedPolicyDigest a) \<noteq> None"

definition effective_ok :: "VerificationStore \<Rightarrow> string \<Rightarrow> verificationEffectiveIndex \<Rightarrow> bool" where
  "effective_ok s repo i \<longleftrightarrow> ei_SchemaVersion i = 1 \<and>
     (\<exists>a. map_of (vs_activations s repo) (ei_ActivationID i) = Some (Good a) \<and> av_ProposedPolicyDigest a = ei_PolicyDigest i)"

definition waiver_ok :: "string \<Rightarrow> string \<Rightarrow> VerificationWaiver \<Rightarrow> bool" where
  "waiver_ok repo k w \<longleftrightarrow> wv_SchemaVersion w = 1 \<and> wv_WaiverID w = k \<and> wv_RepositoryID w = repo \<and> wv_IntentFingerprint w \<noteq> [] \<and> \<not> IsZero (wv_CreatedAt w) \<and>
     wv_Authority w = AuthorityExplicitCaller"

definition revocation_ok :: "VerificationStore \<Rightarrow> string \<Rightarrow> string \<Rightarrow> WaiverRevocation \<Rightarrow> bool" where
  "revocation_ok s repo k v \<longleftrightarrow> rv_SchemaVersion v = 1 \<and> rv_WaiverID v = k \<and> rv_IntentFingerprint v \<noteq> [] \<and> \<not> IsZero (rv_RevokedAt v) \<and>
     map_of (vs_waivers s repo) k \<noteq> None"

definition store_ok :: "(identity \<Rightarrow> string) \<Rightarrow> VerificationStore \<Rightarrow> bool" where
  "store_ok sha s \<longleftrightarrow> (\<forall>t \<in> set (vs_clock s). \<not> IsZero t) \<and> good_files (effective_ok s) (vs_effective s) \<and>
     (\<forall>repo. good_files (policy_ok sha repo) (vs_policies s repo) \<and> good_files (activation_ok s repo) (vs_activations s repo) \<and>
        good_files (waiver_ok repo) (vs_waivers s repo) \<and> good_files (revocation_ok s repo) (vs_revocations s repo))"

lemma good_files_created: "good_files P d \<Longrightarrow> file_created d k v d' \<Longrightarrow> P k v \<Longrightarrow> good_files P d'"
  by (auto simp: good_files_def file_created_def split: if_splits)

lemma good_files_mono: "good_files P d \<Longrightarrow> (\<And>k x. P k x \<Longrightarrow> Q k x) \<Longrightarrow> good_files Q d"
  by (fastforce simp: good_files_def)

definition stored :: "'a dir \<Rightarrow> string \<Rightarrow> 'a option" where
  "stored d k = (case map_of d k of Some (Good x) \<Rightarrow> Some x | _ \<Rightarrow> None)"

lemma stored_Some: "stored d k = Some x \<longleftrightarrow> map_of d k = Some (Good x)"
  by (auto simp: stored_def split: option.splits content.splits)

lemma good_files_stored: "good_files P d \<Longrightarrow> stored d k = Some x \<Longrightarrow> P k x"
  by (force simp: good_files_def stored_Some)

lemma stored_None: "good_files P d \<Longrightarrow> stored d k = None \<longleftrightarrow> map_of d k = None"
  by (force simp: good_files_def stored_def split: option.splits)

lemma find_stored: "good_files P d \<Longrightarrow> find_strict d k = Inr (stored d k)"
  by (cases "map_of d k") (force simp: good_files_def find_strict_def readStrict_def readPrivateJSON_def stored_def)+

text \<open>What an entry of the invariant says of other files only grows with them.\<close>

lemma ok_kept:
  assumes "records_kept s s'"
  shows "activation_ok s repo k a \<Longrightarrow> activation_ok s' repo k a" "effective_ok s repo i \<Longrightarrow> effective_ok s' repo i" "revocation_ok s repo k v \<Longrightarrow> revocation_ok s' repo k v"
  using assms by (force simp: records_kept_def files_kept_def activation_ok_def effective_ok_def revocation_ok_def)+

lemma store_ok_step:
  assumes "store_ok sha s" "records_kept s s'" "set (vs_clock s') \<subseteq> set (vs_clock s)"
    and "\<And>repo. vs_policies s' repo = vs_policies s repo \<or> (\<exists>k v. file_created (vs_policies s repo) k v (vs_policies s' repo) \<and> policy_ok sha repo k v)"
    and "\<And>repo. vs_activations s' repo = vs_activations s repo \<or> (\<exists>k v. file_created (vs_activations s repo) k v (vs_activations s' repo) \<and> activation_ok s' repo k v)"
    and "\<And>repo. vs_waivers s' repo = vs_waivers s repo \<or> (\<exists>k v. file_created (vs_waivers s repo) k v (vs_waivers s' repo) \<and> waiver_ok repo k v)"
    and "\<And>repo. vs_revocations s' repo = vs_revocations s repo \<or> (\<exists>k v. file_created (vs_revocations s repo) k v (vs_revocations s' repo) \<and> revocation_ok s' repo k v)"
    and "vs_effective s' = vs_effective s \<or> (\<exists>repo i. vs_effective s' = put_file repo i (vs_effective s) \<and> effective_ok s' repo i)"
  shows "store_ok sha s'"
proof -
  have ok: "good_files (policy_ok sha repo) (vs_policies s repo)" "good_files (activation_ok s repo) (vs_activations s repo)"
    "good_files (waiver_ok repo) (vs_waivers s repo)" "good_files (revocation_ok s repo) (vs_revocations s repo)" "good_files (effective_ok s) (vs_effective s)"
    "\<forall>t \<in> set (vs_clock s). \<not> IsZero t" for repo
    using assms(1) by (simp_all add: store_ok_def)
  have up: "good_files (activation_ok s' repo) (vs_activations s repo)" "good_files (revocation_ok s' repo) (vs_revocations s repo)"
    "good_files (effective_ok s') (vs_effective s)" for repo
    using ok_kept [OF assms(2)] by (blast intro: good_files_mono [OF ok(2)] good_files_mono [OF ok(4)] good_files_mono [OF ok(5)])+
  have "good_files (policy_ok sha repo) (vs_policies s' repo)" "good_files (activation_ok s' repo) (vs_activations s' repo)"
    "good_files (waiver_ok repo) (vs_waivers s' repo)" "good_files (revocation_ok s' repo) (vs_revocations s' repo)" for repo
    using assms(4-7) [of repo] ok(1,3) [of repo] up(1,2) [of repo] by (metis good_files_created)+
  moreover have "good_files (effective_ok s') (vs_effective s')" using assms(8) up(3) by (auto simp: good_files_def split: if_splits)
  ultimately show ?thesis using ok assms(3) by (auto simp: store_ok_def)
qed


subsection \<open>Operations keep the invariant\<close>

lemma put_policy_ok: "put_policy repo k v s = (e, s') \<Longrightarrow> store_ok sha s \<Longrightarrow> policy_ok sha repo k v \<Longrightarrow> store_ok sha s'"
  by (rule store_ok_step [OF _ put_policy_kept], assumption+) (erule put_policy_cases; fastforce)+

lemma put_activation_ok: "put_activation repo k v s = (e, s') \<Longrightarrow> store_ok sha s \<Longrightarrow> activation_ok s repo k v \<Longrightarrow> store_ok sha s'"
  by (frule ok_kept(1) [OF put_activation_kept], assumption, rule store_ok_step [OF _ put_activation_kept], assumption+) (erule put_activation_cases; fastforce)+

lemma put_waiver_ok: "put_waiver repo k v s = (e, s') \<Longrightarrow> store_ok sha s \<Longrightarrow> waiver_ok repo k v \<Longrightarrow> store_ok sha s'"
  by (rule store_ok_step [OF _ put_waiver_kept], assumption+) (erule put_waiver_cases; fastforce)+

lemma put_revocation_ok: "put_revocation repo k v s = (e, s') \<Longrightarrow> store_ok sha s \<Longrightarrow> revocation_ok s repo k v \<Longrightarrow> store_ok sha s'"
  by (frule ok_kept(3) [OF put_revocation_kept], assumption, rule store_ok_step [OF _ put_revocation_kept], assumption+) (erule put_revocation_cases; fastforce)+

lemma put_effective_ok: "put_effective repo i s = (e, s') \<Longrightarrow> store_ok sha s \<Longrightarrow> effective_ok s repo i \<Longrightarrow> store_ok sha s'"
  by (frule ok_kept(2) [OF put_effective_kept], assumption, rule store_ok_step [OF _ put_effective_kept], assumption+) (erule put_effective_cases; fastforce)+

lemma ensure_dir_ok: "ensureVerificationRepoDir s = (e, s') \<Longrightarrow> store_ok sha s \<Longrightarrow> store_ok sha s'"
  by (rule store_ok_step [OF _ ensure_dir_kept], assumption+) (erule ensure_dir_cases; simp)+

lemma clock_ok: "clock s = (t, s') \<Longrightarrow> store_ok sha s \<Longrightarrow> store_ok sha s' \<and> \<not> IsZero t"
proof -
  assume c: "clock s = (t, s')" and ok: "store_ok sha s"
  obtain ts where ts: "s' = s\<lparr>vs_clock := ts\<rparr>" "set ts \<subseteq> set (vs_clock s)" "t \<in> insert 1 (set (vs_clock s))" by (rule clock_cases [OF c])
  have "store_ok sha s'" by (rule store_ok_step [OF ok clock_kept [OF c]]) (simp_all add: ts)
  moreover have "\<not> IsZero t" using ts(3) ok by (auto simp: store_ok_def IsZero_def)
  ultimately show ?thesis by blast
qed

subsection \<open>What is read of a store that satisfies the invariant\<close>

lemma find_activation:
  assumes "store_ok sha s"
  shows "findActivationUnlocked repo i s = Inr (stored (vs_activations s repo) i)"
proof -
  have g: "good_files (activation_ok s repo) (vs_activations s repo)" using assms by (simp add: store_ok_def)
  show ?thesis
  proof (cases "stored (vs_activations s repo) i")
    case (Some a)
    then have "activation_ok s repo i a" by (rule good_files_stored [OF g])
    then show ?thesis using Some by (simp add: findActivationUnlocked_def find_stored [OF g] activation_ok_def)
  qed (simp add: findActivationUnlocked_def find_stored [OF g])
qed

lemma effective_read:
  assumes "store_ok sha s"
  shows "readEffectiveUnlocked repo s = Inr (stored (vs_effective s) repo)"
proof -
  have g: "good_files (effective_ok s) (vs_effective s)" "good_files (activation_ok s repo) (vs_activations s repo)" using assms by (simp_all add: store_ok_def)
  show ?thesis
  proof (cases "stored (vs_effective s) repo")
    case (Some i)
    then have i: "effective_ok s repo i" by (rule good_files_stored [OF g(1)])
    then obtain a where "stored (vs_activations s repo) (ei_ActivationID i) = Some a" "av_ProposedPolicyDigest a = ei_PolicyDigest i"
      by (auto simp: effective_ok_def stored_Some)
    then have "ei_ActivationID i \<noteq> []" "ei_PolicyDigest i \<noteq> []" using good_files_stored [OF g(2)] by (auto simp: activation_ok_def)
    then show ?thesis using Some i by (simp add: readEffectiveUnlocked_def find_stored [OF g(1)] effective_ok_def)
  qed (simp add: readEffectiveUnlocked_def find_stored [OF g(1)])
qed

text \<open>The effective policy is always readable.\<close>

lemma current_activation:
  assumes "store_ok sha s"
  shows "CurrentActivation repo s = Inr (case stored (vs_effective s) repo of None \<Rightarrow> None | Some i \<Rightarrow> stored (vs_activations s repo) (ei_ActivationID i))"
proof (cases "stored (vs_effective s) repo")
  case (Some i)
  then have "effective_ok s repo i" using assms good_files_stored by (metis store_ok_def)
  then show ?thesis using Some by (auto simp: CurrentActivation_def effective_read [OF assms] find_activation [OF assms] effective_ok_def stored_Some [symmetric])
qed (simp add: CurrentActivation_def effective_read [OF assms])

lemma policy_loaded:
  assumes "store_ok sha s" "stored (vs_activations s repo) k = Some a"
  shows "\<exists>p. LoadPolicySnapshot sha repo (av_ProposedPolicyDigest a) s = Inr (Some p) \<and> policy_ok sha repo (av_ProposedPolicyDigest a) p"
proof -
  have g: "good_files (policy_ok sha repo) (vs_policies s repo)" and "good_files (activation_ok s repo) (vs_activations s repo)"
    using assms(1) by (simp_all add: store_ok_def)
  then have "activation_ok s repo k a" using assms(2) good_files_stored by metis
  then obtain p where "stored (vs_policies s repo) (av_ProposedPolicyDigest a) = Some p" using g by (force simp: activation_ok_def good_files_def stored_Some)
  then show ?thesis using good_files_stored [OF g] by (force simp: LoadPolicySnapshot_def find_stored [OF g] policy_ok_def)
qed


subsection \<open>Steps keep the invariant\<close>

lemma stored_kept: "records_kept s s' \<Longrightarrow> stored (vs_activations s repo) k = Some a \<Longrightarrow> stored (vs_activations s' repo) k = Some a"
  by (simp add: records_kept_def files_kept_def stored_Some)

text \<open>A commit that the service makes for a new activation.\<close>

definition service_commit :: "PolicyActivationCommit \<Rightarrow> bool" where
  "service_commit c \<longleftrightarrow> ai_Authority (ac_Intent c) = AuthorityExplicitCaller \<and> ac_ProposalOrigin c = ProposalRepositoryAuthored \<and>
     ac_ActivationGeneration c \<noteq> ai_ProposalGeneration (ac_Intent c)"

lemma activation_record_id: "av_ActivationID (activation_record c fp t) = ai_ActivationID (ac_Intent c)"
  by (simp add: activation_record_def)

lemma create_activation_ok:
  assumes "create_activation repo c fp s = (r, s')" "store_ok sha s" "repo = ai_RepositoryID (ac_Intent c)" "fp \<noteq> []" "ai_ActivationID (ac_Intent c) \<noteq> []"
    "ai_ProposedPolicyDigest (ac_Intent c) \<noteq> []" "map_of (vs_policies s repo) (ai_ProposedPolicyDigest (ac_Intent c)) \<noteq> None"
    "service_commit c"
  shows "store_ok sha s'"
proof -
  obtain t s1 where t: "clock s = (t, s1)" by (metis surj_pair)
  then have s1: "store_ok sha s1" "\<not> IsZero t" "records_kept s s1" using clock_ok assms(2) clock_kept by blast+
  obtain e2 s2 where d: "ensureVerificationRepoDir s1 = (e2, s2)" by (metis surj_pair)
  then have s2: "store_ok sha s2" "records_kept s s2" using ensure_dir_ok s1 ensure_dir_kept records_kept_trans by blast+
  let ?rec = "activation_record c fp t" and ?k = "ai_ActivationID (ac_Intent c)"
  obtain e3 s3 where p: "put_activation repo ?k ?rec s2 = (e3, s3)" by (metis surj_pair)
  have "map_of (vs_policies s2 repo) (ai_ProposedPolicyDigest (ac_Intent c)) \<noteq> None"
    using assms(7) s2(2) by (fastforce simp: records_kept_def files_kept_def)
  then have rec: "activation_ok s2 repo ?k ?rec" using assms(3-6,8) s1(2) by (simp add: activation_ok_def activation_record_def service_commit_def)
  have s3: "store_ok sha s3" using put_activation_ok [OF p s2(1) rec] .
  obtain e4 s4 where q: "put_effective repo (effective_of ?rec) s3 = (e4, s4)" by (metis surj_pair)
  have "effective_ok s3 repo (effective_of ?rec)" if "e3 = None"
    using put_activation_cases [OF p] that by (fastforce simp: effective_ok_def effective_of_def activation_record_def)
  then have s4: "store_ok sha s4" if "e3 = None" using put_effective_ok [OF q s3] that by blast
  have "s' \<in> {s2, s3} \<or> e3 = None \<and> s' = s4"
    using assms(1) t d p q activation_record_id by (auto simp: create_activation_def Let_def split: option.splits)
  then show ?thesis using s2 s3 s4 by blast
qed

lemma replay_activation_ok:
  assumes "replay_activation repo index a s = (r, s')" "store_ok sha s" "stored (vs_activations s repo) k = Some a"
  shows "store_ok sha s'"
proof -
  have "activation_ok s repo k a" using assms(2,3) good_files_stored by (metis store_ok_def)
  then have "effective_ok s repo (effective_of a)" using assms(3) by (auto simp: effective_ok_def effective_of_def activation_ok_def stored_Some)
  then have "put_effective repo (effective_of a) s = (e, s1) \<Longrightarrow> store_ok sha s1" for e s1 using put_effective_ok assms(2) by blast
  then show ?thesis using assms(1,2) by (auto simp: replay_activation_def Let_def split: prod.splits option.splits if_splits)
qed

lemma tail_over_nonempty: "tail_over p n v \<Longrightarrow> p \<noteq> [] \<Longrightarrow> v \<noteq> []"
  by (auto simp: tail_over_def HasPrefix_def)

lemma intent_nonempty:
  assumes "PolicyActivationIntent_Validate v = None"
  shows "ai_ActivationID v \<noteq> []" "ai_ProposedPolicyDigest v \<noteq> []"
  using assms by (auto simp: PolicyActivationIntent_Validate_def ValidateActivationID_def isDerivedID_def HasPrefix_def dest: tail_over_nonempty)

lemma ActivatePolicyCAS_ok:
  assumes "ActivatePolicyCAS sha c s = (r, s')" "store_ok sha s"
    and new: "stored (vs_activations s (ai_RepositoryID (ac_Intent c))) (ai_ActivationID (ac_Intent c)) = None \<Longrightarrow> service_commit c"
  shows "store_ok sha s'"
proof -
  let ?repo = "ai_RepositoryID (ac_Intent c)" and ?fp = "hashID sha ''ifp_'' (IdActivation (ac_Intent c))"
  let ?found = "stored (vs_activations s ?repo) (ai_ActivationID (ac_Intent c))" and ?index = "stored (vs_effective s) ?repo"
  show ?thesis
  proof (cases "PolicyActivationCommit_Validate c")
    case None
    then have v: "PolicyActivationIntent_Validate (ac_Intent c) = None" by (simp add: PolicyActivationCommit_Validate_def)
    have ne: "?fp \<noteq> []" by (simp add: hashID_def)
    have "s' = s \<or> (\<exists>a. ?found = Some a \<and> replay_activation ?repo ?index a s = (r, s')) \<or>
        (?found = None \<and> map_of (vs_policies s ?repo) (ai_ProposedPolicyDigest (ac_Intent c)) \<noteq> None \<and> create_activation ?repo c ?fp s = (r, s'))"
      using assms(1) None v
      by (auto simp: ActivatePolicyCAS_def Let_def find_activation [OF assms(2)] effective_read [OF assms(2)] ActivationIntentFingerprint_def readStrict_def
          readPrivateJSON_Inr split: option.splits if_splits sum.splits)
    then show ?thesis using replay_activation_ok create_activation_ok [OF _ assms(2) refl ne intent_nonempty [OF v]] assms(2) new by blast
  next
    case (Some e)
    then show ?thesis using assms by (simp add: ActivatePolicyCAS_def)
  qed
qed

lemma PutPolicySnapshot_ok:
  assumes "PutPolicySnapshot sha p s = (r, s')" "store_ok sha s"
  shows "store_ok sha s'"
proof (cases "ulid_tail ''repo_'' (pn_RepositoryID p) \<and> VerificationPolicyDigest sha (pn_Content p) = Inr (pn_Digest p)")
  case True
  then have p: "policy_ok sha (pn_RepositoryID p) (pn_Digest p) p" by (simp add: policy_ok_def)
  show ?thesis
    using assms True
    by (auto simp: PutPolicySnapshot_def ParseRepositoryID_def split: prod.splits option.splits sum.splits
        dest!: ensure_dir_ok [where sha = sha] dest: put_policy_ok [OF _ _ p])
qed (use assms in \<open>auto simp: PutPolicySnapshot_def ParseRepositoryID_def split: if_splits\<close>)


lemma find_waiver:
  assumes "store_ok sha s"
  shows "findWaiverUnlocked repo i s = Inr (stored (vs_waivers s repo) i)"
proof -
  have g: "good_files (waiver_ok repo) (vs_waivers s repo)" using assms by (simp add: store_ok_def)
  then show ?thesis
    using good_files_stored [OF g, of i] by (cases "stored (vs_waivers s repo) i") (simp_all add: findWaiverUnlocked_def find_stored [OF g] waiver_ok_def)
qed

lemma waiver_id_nonempty: "ValidateWaiverID v = None \<Longrightarrow> v \<noteq> []"
  by (auto simp: ValidateWaiverID_def dest: tail_over_nonempty)

lemma PutWaiver_ok:
  assumes "PutWaiver sha i s = (r, s')" "store_ok sha s" "wi_Authority i = AuthorityExplicitCaller"
  shows "store_ok sha s'"
proof -
  let ?fp = "hashID sha ''ifp_'' (IdWaiver i)"
  have rec: "waiver_ok (wi_RepositoryID i) (wi_WaiverID i) (waiver_record i ?fp t)" if "\<not> IsZero t" for t
    using that assms(3) by (simp add: waiver_ok_def waiver_record_def hashID_def)
  have "store_ok sha s3" if "ensureVerificationRepoDir s = (None, s1)" "clock s1 = (t, s2)"
    "put_waiver (wi_RepositoryID i) (wi_WaiverID i) (waiver_record i ?fp t) s2 = (e, s3)" for t e s1 s2 s3
    using that rec ensure_dir_ok clock_ok put_waiver_ok assms(2) by metis
  moreover have "store_ok sha s1" if "ensureVerificationRepoDir s = (e, s1)" for e s1 using that ensure_dir_ok assms(2) by blast
  ultimately show ?thesis
    using assms
    by (auto simp: PutWaiver_def Let_def WaiverIntentFingerprint_def find_waiver [OF assms(2)] split: prod.splits option.splits sum.splits if_splits)
qed

lemma PutWaiverRevocation_ok:
  assumes "PutWaiverRevocation sha i s = (r, s')" "store_ok sha s"
  shows "store_ok sha s'"
proof -
  let ?fp = "hashID sha ''ifp_'' (IdRevocation i)" and ?repo = "vi_RepositoryID i" and ?k = "vi_WaiverID i"
  have rec: "revocation_ok s2 ?repo ?k (revocation_record i ?fp t)" if "\<not> IsZero t" "stored (vs_waivers s ?repo) ?k = Some w" "records_kept s s2" for t w s2
    using that by (fastforce simp: revocation_ok_def revocation_record_def hashID_def stored_Some records_kept_def files_kept_def)
  have "store_ok sha s3" if w: "stored (vs_waivers s ?repo) ?k = Some w" and "ensureVerificationRepoDir s = (None, s1)" "clock s1 = (t, s2)"
    "put_revocation ?repo ?k (revocation_record i ?fp t) s2 = (e, s3)" for w t e s1 s2 s3
  proof -
    have "records_kept s s2" using that(2,3) ensure_dir_kept clock_kept records_kept_trans by blast
    moreover have "store_ok sha s2" "\<not> IsZero t" using that(2,3) ensure_dir_ok clock_ok assms(2) by blast+
    ultimately show ?thesis using put_revocation_ok [OF that(4)] rec w by blast
  qed
  moreover have "store_ok sha s1" if "ensureVerificationRepoDir s = (e, s1)" for e s1 using that ensure_dir_ok assms(2) by blast
  ultimately show ?thesis
    using assms
    by (auto simp: PutWaiverRevocation_def Let_def RevocationIntentFingerprint_def ParseRepositoryID_def find_waiver [OF assms(2)]
        split: prod.splits option.splits sum.splits if_splits)
qed

lemma activation_checks_commit:
  assumes "activation_checks d req ws = Inr (proposal, fresh)" "aq_Authority req = AuthorityExplicitCaller"
  shows "service_commit \<lparr>ac_Intent = activation_intent req ws, ac_ProposalOrigin = pp_Origin proposal, ac_ProfileOrigin = pp_ProfileOrigin proposal,
     ac_ActivationGeneration = fs_Generation fresh\<rparr>"
  using assms by (auto simp: activation_checks_def service_commit_def activation_intent_def Let_def split: option.splits)

lemma Activate_ok:
  assumes "Activate sha d req s = (r, s')" "store_ok sha s"
  shows "store_ok sha s'"
proof (cases "find_workspace d (aq_WorkspaceID req)")
  case (Inr ws)
  let ?i = "activation_intent req ws"
  have ids: "ai_RepositoryID ?i = wk_RepositoryID ws" "ai_ActivationID ?i = aq_ActivationID req" by (simp_all add: activation_intent_def)
  show ?thesis
  proof (cases "PolicyActivationIntent_Validate ?i = None \<and> aq_Authority req = AuthorityExplicitCaller")
    case True
    have new: "store_ok sha s2" if "activation_checks d req ws = Inr (proposal, fresh)" "PutPolicySnapshot sha p s = (q, s1)"
      "ActivatePolicyCAS sha \<lparr>ac_Intent = ?i, ac_ProposalOrigin = pp_Origin proposal, ac_ProfileOrigin = pp_ProfileOrigin proposal,
        ac_ActivationGeneration = fs_Generation fresh\<rparr> s1 = (r', s2)" for proposal fresh p q s1 r' s2
      using ActivatePolicyCAS_ok [OF that(3) PutPolicySnapshot_ok [OF that(2) assms(2)]] activation_checks_commit [OF that(1)] True by blast
    have old: "store_ok sha s2" if "stored (vs_activations s (wk_RepositoryID ws)) (aq_ActivationID req) = Some a"
      "ActivatePolicyCAS sha \<lparr>ac_Intent = ?i, ac_ProposalOrigin = x, ac_ProfileOrigin = y, ac_ActivationGeneration = z\<rparr> s = (r', s2)" for a x y z r' s2
      using ActivatePolicyCAS_ok [OF that(2) assms(2)] that(1) by (simp add: ids)
    have "PutPolicySnapshot sha p s = (q, s1) \<Longrightarrow> store_ok sha s1" for p q s1 using PutPolicySnapshot_ok assms(2) by blast
    then show ?thesis
      using assms True Inr new old
      by (auto simp: Activate_def Let_def find_activation [OF assms(2)] split: prod.splits option.splits if_splits sum.splits)
  qed (use assms Inr in \<open>auto simp: Activate_def Let_def first_error_Cons split: option.splits\<close>)
qed (use assms in \<open>simp add: Activate_def\<close>)

lemma verification_step_ok: "verification_step sha s s' \<Longrightarrow> store_ok sha s \<Longrightarrow> store_ok sha s'"
proof (induction rule: verification_step.induct)
  case (activate d req s r s')
  then show ?case by (rule Activate_ok)
next
  case (set_waiver d now req s r s')
  then show ?case
    by (auto simp: SetWaiver_def waiver_checks_def waiver_intent_def split: option.splits sum.splits if_splits dest!: PutWaiver_ok)
next
  case (revoke_waiver d req s r s')
  then show ?case by (auto simp: RevokeWaiver_def split: option.splits sum.splits if_splits dest: PutWaiverRevocation_ok)
qed

lemma verification_run_ok: "verification_run sha s s' \<Longrightarrow> store_ok sha s \<Longrightarrow> store_ok sha s'"
  unfolding verification_run_def by (induction rule: rtranclp_induct) (auto intro: verification_step_ok)

end
