(* ===== verification/VerificationActivation.thy ===== *)
theory VerificationActivation
  imports VerificationRuns
begin

text \<open>
  Activation of a policy: when a request can succeed, that failures of its writes do not change that,
  and that it then succeeds.
\<close>

section \<open>Requests that can succeed\<close>

definition in_force :: "verificationEffectiveIndex option \<Rightarrow> PolicyActivation \<Rightarrow> bool" where
  "in_force index a \<longleftrightarrow> (\<exists>i. index = Some i \<and> ei_ActivationID i = av_ActivationID a \<and> ei_PolicyDigest i = av_ProposedPolicyDigest a)"

definition new_commit :: "ActivateRequest \<Rightarrow> Workspace \<Rightarrow> PolicyProposal \<Rightarrow> FastSnapshot \<Rightarrow> PolicyActivationCommit" where
  "new_commit req ws proposal fresh = \<lparr>ac_Intent = activation_intent req ws, ac_ProposalOrigin = pp_Origin proposal,
     ac_ProfileOrigin = pp_ProfileOrigin proposal, ac_ActivationGeneration = fs_Generation fresh\<rparr>"

definition proposal_snapshot :: "PolicyProposal \<Rightarrow> PolicySnapshot" where
  "proposal_snapshot p = \<lparr>pn_RepositoryID = pp_RepositoryID p, pn_Digest = pp_Digest p, pn_Content = pp_Content p\<rparr>"

definition old_commit :: "ActivateRequest \<Rightarrow> Workspace \<Rightarrow> PolicyActivation \<Rightarrow> PolicyActivationCommit" where
  "old_commit req ws a = \<lparr>ac_Intent = activation_intent req ws, ac_ProposalOrigin = av_ProposalOrigin a,
     ac_ProfileOrigin = av_ProfileOrigin a, ac_ActivationGeneration = av_ActivationGeneration a\<rparr>"

text \<open>A recorded activation that is in force or whose predecessor is in force.\<close>

definition replayable :: "(identity \<Rightarrow> string) \<Rightarrow> ActivateRequest \<Rightarrow> Workspace \<Rightarrow> VerificationStore \<Rightarrow> PolicyActivation \<Rightarrow> bool" where
  "replayable sha req ws s a \<longleftrightarrow> ActivationIntentFingerprint sha (activation_intent req ws) = Inr (av_IntentFingerprint a) \<and>
     PolicyActivationCommit_Validate (old_commit req ws a) = None \<and>
     (in_force (stored (vs_effective s) (wk_RepositoryID ws)) a \<or> currentDigest (stored (vs_effective s) (wk_RepositoryID ws)) = av_PreviousEffectiveDigest a)"

text \<open>A new activation whose checks succeed.\<close>

definition creatable :: "(identity \<Rightarrow> string) \<Rightarrow> PolicyDependencies \<Rightarrow> ActivateRequest \<Rightarrow> Workspace \<Rightarrow> VerificationStore \<Rightarrow> bool" where
  "creatable sha d req ws s \<longleftrightarrow> (\<exists>proposal fresh. activation_checks d req ws = Inr (proposal, fresh) \<and>
     PolicyActivationCommit_Validate (new_commit req ws proposal fresh) = None \<and> ulid_tail ''repo_'' (pp_RepositoryID proposal) \<and>
     VerificationPolicyDigest sha (pp_Content proposal) = Inr (pp_Digest proposal) \<and>
     stored (vs_policies s (wk_RepositoryID ws)) (pp_Digest proposal) \<in> {None, Some (proposal_snapshot proposal)} \<and>
     currentDigest (stored (vs_effective s) (wk_RepositoryID ws)) = aq_ExpectedPreviousDigest req)"

definition activation_enabled :: "(identity \<Rightarrow> string) \<Rightarrow> PolicyDependencies \<Rightarrow> ActivateRequest \<Rightarrow> VerificationStore \<Rightarrow> bool" where
  "activation_enabled sha d req s \<longleftrightarrow> (\<exists>ws. find_workspace d (aq_WorkspaceID req) = Inr ws \<and>
     PolicyActivationIntent_Validate (activation_intent req ws) = None \<and> aq_Authority req = AuthorityExplicitCaller \<and>
     (case stored (vs_activations s (wk_RepositoryID ws)) (aq_ActivationID req) of Some a \<Rightarrow> replayable sha req ws s a | None \<Rightarrow> creatable sha d req ws s))"

section \<open>Writes that succeed\<close>

lemma take_io_Nil: "vs_io s = [] \<Longrightarrow> take_io s = (WriteOk, s)"
  by (simp add: take_io_def next_io_def)

lemma ensure_dir_Nil: "vs_io s = [] \<Longrightarrow> ensureVerificationRepoDir s = (None, s)"
  by (simp add: ensureVerificationRepoDir_def take_io_Nil)

lemma put_effective_Nil: "vs_io s = [] \<Longrightarrow> put_effective repo i s = (None, s\<lparr>vs_effective := put_file repo i (vs_effective s)\<rparr>)"
  by (simp add: put_effective_def take_io_Nil atomic_Replace_def)

lemmas put_activation_Nil = activation_files.put_succeeds
lemmas put_policy_Nil = policy_files.put_succeeds

lemma put_policy_stored: "put_policy repo k v s = (None, s') \<Longrightarrow> map_of (vs_policies s' repo) k = Some (Good v)"
  by (erule put_policy_cases) simp

lemma current_of_effective:
  assumes "store_ok sha s" "stored (vs_effective s) repo = Some i" "stored (vs_activations s repo) (ei_ActivationID i) = Some a"
  shows "CurrentActivation repo s = Inr (Some a)"
  using assms by (simp add: current_activation [OF assms(1)])

lemma effective_of_id [simp]: "ei_ActivationID (effective_of a) = av_ActivationID a" "ei_PolicyDigest (effective_of a) = av_ProposedPolicyDigest a"
  by (simp_all add: effective_of_def)

lemma replay_succeeds:
  assumes "store_ok sha s" "vs_io s = []" "stored (vs_activations s repo) k = Some a"
    and "in_force (stored (vs_effective s) repo) a \<or> currentDigest (stored (vs_effective s) repo) = av_PreviousEffectiveDigest a"
  shows "\<exists>r s'. replay_activation repo (stored (vs_effective s) repo) a s = (Inr r, s') \<and> ar_Effective r \<and> ar_Record r = a \<and> CurrentActivation repo s' = Inr (Some a)"
proof -
  have a: "av_ActivationID a = k" using assms(1,3) good_files_stored by (metis store_ok_def activation_ok_def)
  show ?thesis
  proof (cases "in_force (stored (vs_effective s) repo) a")
    case True
    then obtain i where i: "stored (vs_effective s) repo = Some i" "ei_ActivationID i = k" "ei_PolicyDigest i = av_ProposedPolicyDigest a" by (auto simp: in_force_def a)
    then show ?thesis using current_of_effective [OF assms(1) i(1)] assms(3) by (simp add: replay_activation_def a)
  next
    case False
    define s' where "s' = s\<lparr>vs_effective := put_file repo (effective_of a) (vs_effective s)\<rparr>"
    have r: "replay_activation repo (stored (vs_effective s) repo) a s = (Inr \<lparr>ar_Record = a, ar_Created = False, ar_Replayed = True, ar_Effective = True\<rparr>, s')"
      using False assms(2,4) by (auto simp: replay_activation_def Let_def in_force_def put_effective_Nil s'_def split: option.splits)
    have "store_ok sha s'" using replay_activation_ok [OF r assms(1,3)] .
    moreover have "stored (vs_effective s') repo = Some (effective_of a)" "vs_activations s' = vs_activations s" by (simp_all add: s'_def stored_def)
    ultimately have "CurrentActivation repo s' = Inr (Some a)" using assms(3) by (intro current_of_effective [of sha s' repo "effective_of a"]) (simp_all add: a)
    with r show ?thesis by auto
  qed
qed

lemma create_succeeds:
  assumes "store_ok sha s" "vs_io s = []" "map_of (vs_activations s repo) (ai_ActivationID (ac_Intent c)) = None"
    and "\<And>r s'. create_activation repo c fp s = (r, s') \<Longrightarrow> store_ok sha s'"
  shows "\<exists>r s'. create_activation repo c fp s = (Inr r, s') \<and> ar_Effective r \<and> CurrentActivation repo s' = Inr (Some (ar_Record r)) \<and>
    av_ActivationID (ar_Record r) = ai_ActivationID (ac_Intent c)"
proof -
  obtain t s1 where t: "clock s = (t, s1)" by (metis surj_pair)
  obtain ts where s1: "s1 = s\<lparr>vs_clock := ts\<rparr>" by (rule clock_cases [OF t])
  define rec where "rec = activation_record c fp t"
  define s3 where "s3 = s1\<lparr>vs_activations := (vs_activations s1)(repo := put_file (ai_ActivationID (ac_Intent c)) rec (vs_activations s1 repo)),
    vs_effective := put_file repo (effective_of rec) (vs_effective s1)\<rparr>"
  have id: "av_ActivationID rec = ai_ActivationID (ac_Intent c)" by (simp add: rec_def activation_record_id)
  have r: "create_activation repo c fp s = (Inr \<lparr>ar_Record = rec, ar_Created = True, ar_Replayed = False, ar_Effective = True\<rparr>, s3)"
    using assms(2,3) by (simp add: create_activation_def t Let_def ensure_dir_Nil put_activation_Nil put_effective_Nil s1 s3_def id flip: rec_def)
  have "CurrentActivation repo s3 = Inr (Some rec)"
    by (rule current_of_effective [OF assms(4) [OF r], of _ "effective_of rec"]) (simp_all add: s3_def stored_def id)
  with r id show ?thesis by auto
qed


section \<open>The operations on a store that satisfies the invariant\<close>

lemma commit_ids:
  "ac_Intent (old_commit req ws a) = activation_intent req ws" "ac_Intent (new_commit req ws p f) = activation_intent req ws"
  "ai_RepositoryID (activation_intent req ws) = wk_RepositoryID ws" "ai_ActivationID (activation_intent req ws) = aq_ActivationID req"
  "ai_PreviousEffectiveDigest (activation_intent req ws) = aq_ExpectedPreviousDigest req" "ai_ProposedPolicyDigest (activation_intent req ws) = aq_ProposedPolicyDigest req"
  by (simp_all add: old_commit_def new_commit_def activation_intent_def)

lemma ActivatePolicyCAS_found:
  assumes "store_ok sha s" "PolicyActivationCommit_Validate c = None" "stored (vs_activations s (ai_RepositoryID (ac_Intent c))) (ai_ActivationID (ac_Intent c)) = Some a"
    and "ActivationIntentFingerprint sha (ac_Intent c) = Inr (av_IntentFingerprint a)"
  shows "ActivatePolicyCAS sha c s = replay_activation (ai_RepositoryID (ac_Intent c)) (stored (vs_effective s) (ai_RepositoryID (ac_Intent c))) a s"
  using assms by (simp add: ActivatePolicyCAS_def find_activation [OF assms(1)] effective_read [OF assms(1)] Let_def)

lemma commit_intent_valid: "PolicyActivationCommit_Validate c = None \<Longrightarrow> PolicyActivationIntent_Validate (ac_Intent c) = None"
  by (simp add: PolicyActivationCommit_Validate_def)

lemma ActivatePolicyCAS_new:
  assumes "store_ok sha s" "PolicyActivationCommit_Validate c = None" "stored (vs_activations s (ai_RepositoryID (ac_Intent c))) (ai_ActivationID (ac_Intent c)) = None"
  shows "ActivatePolicyCAS sha c s =
    (let repo = ai_RepositoryID (ac_Intent c) in
     if currentDigest (stored (vs_effective s) repo) \<noteq> ai_PreviousEffectiveDigest (ac_Intent c) then (Inl (Errorf ''effective policy compare-and-swap mismatch''), s)
     else case readStrict (vs_policies s repo) (ai_ProposedPolicyDigest (ac_Intent c)) of
         Inl e \<Rightarrow> (Inl (Wrapf ''activation policy snapshot unavailable'' e), s)
       | Inr _ \<Rightarrow> create_activation repo c (hashID sha ''ifp_'' (IdActivation (ac_Intent c))) s)"
  using assms commit_intent_valid [OF assms(2)]
  by (simp add: ActivatePolicyCAS_def find_activation [OF assms(1)] effective_read [OF assms(1)] Let_def ActivationIntentFingerprint_def)

lemma Activate_eq:
  assumes "store_ok sha s" "find_workspace d (aq_WorkspaceID req) = Inr ws" "PolicyActivationIntent_Validate (activation_intent req ws) = None"
    "aq_Authority req = AuthorityExplicitCaller"
  shows "Activate sha d req s =
    (case stored (vs_activations s (wk_RepositoryID ws)) (aq_ActivationID req) of
       Some a \<Rightarrow>
         if ActivationIntentFingerprint sha (activation_intent req ws) \<noteq> Inr (av_IntentFingerprint a)
         then (Inl (Errorf ''activation id conflicts with different intent''), s) else ActivatePolicyCAS sha (old_commit req ws a) s
     | None \<Rightarrow>
         (case activation_checks d req ws of
            Inl e \<Rightarrow> (Inl e, s)
          | Inr (proposal, fresh) \<Rightarrow>
              (case PutPolicySnapshot sha (proposal_snapshot proposal) s of
                 (Inl e, s1) \<Rightarrow> (Inl e, s1)
               | (Inr _, s1) \<Rightarrow> ActivatePolicyCAS sha (new_commit req ws proposal fresh) s1)))"
  using assms by (simp add: Activate_def find_activation [OF assms(1)] Let_def old_commit_def new_commit_def proposal_snapshot_def reject_def split: option.split sum.split prod.split)

text \<open>Writing the snapshot: it is stored when the operation succeeds, and only it is ever written.\<close>

lemma PutPolicySnapshot_effect:
  assumes "store_ok sha s" "PutPolicySnapshot sha p s = (r, s1)"
  shows "vs_activations s1 = vs_activations s \<and> vs_effective s1 = vs_effective s \<and>
    (stored (vs_policies s1 (pn_RepositoryID p)) (pn_Digest p) \<in> {stored (vs_policies s (pn_RepositoryID p)) (pn_Digest p), Some p}) \<and>
    ((\<exists>b. r = Inr b) \<longrightarrow> ulid_tail ''repo_'' (pn_RepositoryID p) \<and> VerificationPolicyDigest sha (pn_Content p) = Inr (pn_Digest p) \<and>
       stored (vs_policies s (pn_RepositoryID p)) (pn_Digest p) \<in> {None, Some p} \<and> stored (vs_policies s1 (pn_RepositoryID p)) (pn_Digest p) = Some p)"
proof (cases "ulid_tail ''repo_'' (pn_RepositoryID p) \<and> VerificationPolicyDigest sha (pn_Content p) = Inr (pn_Digest p)")
  case True
  obtain e s0 where d: "ensureVerificationRepoDir s = (e, s0)" by (metis surj_pair)
  then obtain io where s0: "s0 = s\<lparr>vs_io := io\<rparr>" by (rule ensure_dir_cases)
  have g: "good_files (policy_ok sha (pn_RepositoryID p)) (vs_policies s (pn_RepositoryID p))" using assms(1) by (simp add: store_ok_def)
  obtain e' s' where w: "put_policy (pn_RepositoryID p) (pn_Digest p) p s0 = (e', s')" by (metis surj_pair)
  obtain io' d' where s': "s' = s0\<lparr>vs_io := io', vs_policies := (vs_policies s0)(pn_RepositoryID p := d')\<rparr>" "file_created (vs_policies s0 (pn_RepositoryID p)) (pn_Digest p) p d'"
    by (rule put_policy_cases [OF w]) blast
  show ?thesis
    using assms True d s0 w s' put_policy_stored [of "pn_RepositoryID p" "pn_Digest p" p s0 s'] find_stored [OF g, of "pn_Digest p"]
    by (cases e) (auto simp: PutPolicySnapshot_def ParseRepositoryID_def file_created_def stored_def split: option.splits if_splits)
qed (use assms in \<open>auto simp: PutPolicySnapshot_def ParseRepositoryID_def split: if_splits\<close>)


section \<open>Success\<close>

lemma checked_proposal:
  assumes "activation_checks d req ws = Inr (proposal, fresh)"
  shows "pp_RepositoryID proposal = wk_RepositoryID ws" "pp_Digest proposal = aq_ProposedPolicyDigest req"
    "pn_RepositoryID (proposal_snapshot proposal) = wk_RepositoryID ws" "pn_Digest (proposal_snapshot proposal) = aq_ProposedPolicyDigest req"
    "pn_Content (proposal_snapshot proposal) = pp_Content proposal"
  using assms by (auto simp: activation_checks_def Let_def proposal_snapshot_def split: option.splits)

lemma Activate_accepted:
  assumes "Activate sha d req s = (Inr r, s')"
  obtains ws where "find_workspace d (aq_WorkspaceID req) = Inr ws" "PolicyActivationIntent_Validate (activation_intent req ws) = None" "aq_Authority req = AuthorityExplicitCaller"
  using assms by (auto simp: Activate_def Let_def first_error_Cons reject_def split: sum.splits option.splits if_splits)

lemma enabled_of_success:
  assumes "store_ok sha s" "Activate sha d req s = (Inr r, s')" "ar_Effective r"
  shows "activation_enabled sha d req s"
proof -
  from Activate_accepted [OF assms(2)] obtain ws where ws: "find_workspace d (aq_WorkspaceID req) = Inr ws"
    "PolicyActivationIntent_Validate (activation_intent req ws) = None" "aq_Authority req = AuthorityExplicitCaller" by blast
  note eq = Activate_eq [OF assms(1) ws]
  show ?thesis
  proof (cases "stored (vs_activations s (wk_RepositoryID ws)) (aq_ActivationID req)")
    case (Some a)
    then have fp: "ActivationIntentFingerprint sha (activation_intent req ws) = Inr (av_IntentFingerprint a)"
      and cas: "ActivatePolicyCAS sha (old_commit req ws a) s = (Inr r, s')" using assms(2) eq by (auto split: if_splits)
    then have v: "PolicyActivationCommit_Validate (old_commit req ws a) = None" by (auto simp: ActivatePolicyCAS_def split: option.splits)
    have "replay_activation (wk_RepositoryID ws) (stored (vs_effective s) (wk_RepositoryID ws)) a s = (Inr r, s')"
      using ActivatePolicyCAS_found [OF assms(1) v] Some fp cas by (simp add: commit_ids)
    then have "replayable sha req ws s a"
      using fp v assms(3) by (auto simp: replayable_def replay_activation_def in_force_def Let_def split: if_splits option.splits)
    then show ?thesis using ws Some by (auto simp: activation_enabled_def)
  next
    case None
    then obtain proposal fresh b s1 where ch: "activation_checks d req ws = Inr (proposal, fresh)"
      and put: "PutPolicySnapshot sha (proposal_snapshot proposal) s = (Inr b, s1)" and cas: "ActivatePolicyCAS sha (new_commit req ws proposal fresh) s1 = (Inr r, s')"
      using assms(2) eq by (auto split: sum.splits prod.splits)
    note ids = checked_proposal [OF ch]
    have v: "PolicyActivationCommit_Validate (new_commit req ws proposal fresh) = None" using cas by (auto simp: ActivatePolicyCAS_def split: option.splits)
    have s1: "store_ok sha s1" using PutPolicySnapshot_ok [OF put assms(1)] .
    note eff = PutPolicySnapshot_effect [OF assms(1) put, unfolded ids]
    have "currentDigest (stored (vs_effective s) (wk_RepositoryID ws)) = aq_ExpectedPreviousDigest req"
      using ActivatePolicyCAS_new [OF s1 v] cas None eff by (auto simp: commit_ids Let_def split: if_splits)
    then have "creatable sha d req ws s" unfolding creatable_def using ch v eff ids by auto
    then show ?thesis using ws None by (auto simp: activation_enabled_def)
  qed
qed

lemma PutPolicySnapshot_Nil:
  assumes "store_ok sha s" "vs_io s = []" "ulid_tail ''repo_'' (pn_RepositoryID p)" "VerificationPolicyDigest sha (pn_Content p) = Inr (pn_Digest p)"
    "stored (vs_policies s (pn_RepositoryID p)) (pn_Digest p) \<in> {None, Some p}"
  shows "\<exists>b s1. PutPolicySnapshot sha p s = (Inr b, s1) \<and> vs_io s1 = []"
proof -
  have g: "good_files (policy_ok sha (pn_RepositoryID p)) (vs_policies s (pn_RepositoryID p))" using assms(1) by (simp add: store_ok_def)
  show ?thesis
    using assms stored_None [OF g, of "pn_Digest p"] find_stored [OF g, of "pn_Digest p"]
    by (auto simp: PutPolicySnapshot_def ParseRepositoryID_def ensure_dir_Nil put_policy_Nil split: option.splits)
qed

lemma enabled_succeeds:
  assumes "store_ok sha s" "vs_io s = []" "activation_enabled sha d req s"
  shows "\<exists>r s'. Activate sha d req s = (Inr r, s') \<and> ar_Effective r \<and> av_ActivationID (ar_Record r) = aq_ActivationID req \<and>
    (\<exists>ws. find_workspace d (aq_WorkspaceID req) = Inr ws \<and> CurrentActivation (wk_RepositoryID ws) s' = Inr (Some (ar_Record r)))"
proof -
  obtain ws where ws: "find_workspace d (aq_WorkspaceID req) = Inr ws" "PolicyActivationIntent_Validate (activation_intent req ws) = None"
    "aq_Authority req = AuthorityExplicitCaller"
    and can: "case stored (vs_activations s (wk_RepositoryID ws)) (aq_ActivationID req) of Some a \<Rightarrow> replayable sha req ws s a | None \<Rightarrow> creatable sha d req ws s"
    using assms(3) by (auto simp: activation_enabled_def)
  note eq = Activate_eq [OF assms(1) ws]
  let ?repo = "wk_RepositoryID ws"
  show ?thesis
  proof (cases "stored (vs_activations s ?repo) (aq_ActivationID req)")
    case (Some a)
    then have r: "replayable sha req ws s a" using can by simp
    have "av_ActivationID a = aq_ActivationID req" using Some assms(1) good_files_stored by (metis store_ok_def activation_ok_def)
    moreover have "Activate sha d req s = replay_activation ?repo (stored (vs_effective s) ?repo) a s"
      using r Some ActivatePolicyCAS_found [OF assms(1), of "old_commit req ws a"] by (simp add: eq replayable_def commit_ids)
    ultimately show ?thesis
      using replay_succeeds [OF assms(1,2) Some] r ws(1) by (fastforce simp: replayable_def)
  next
    case None
    then obtain proposal fresh where ch: "activation_checks d req ws = Inr (proposal, fresh)" and c: "PolicyActivationCommit_Validate (new_commit req ws proposal fresh) = None"
      "ulid_tail ''repo_'' ?repo" "VerificationPolicyDigest sha (pp_Content proposal) = Inr (aq_ProposedPolicyDigest req)"
      "stored (vs_policies s ?repo) (aq_ProposedPolicyDigest req) \<in> {None, Some (proposal_snapshot proposal)}"
      "currentDigest (stored (vs_effective s) ?repo) = aq_ExpectedPreviousDigest req"
      using can checked_proposal by (fastforce simp: creatable_def)
    note ids = checked_proposal [OF ch]
    let ?c = "new_commit req ws proposal fresh"
    obtain b s1 where put: "PutPolicySnapshot sha (proposal_snapshot proposal) s = (Inr b, s1)" "vs_io s1 = []"
      using PutPolicySnapshot_Nil [OF assms(1,2), of "proposal_snapshot proposal"] c ids by auto
    have s1: "store_ok sha s1" using PutPolicySnapshot_ok [OF put(1) assms(1)] .
    note eff = PutPolicySnapshot_effect [OF assms(1) put(1), unfolded ids]
    have pol: "map_of (vs_policies s1 ?repo) (aq_ProposedPolicyDigest req) = Some (Good (proposal_snapshot proposal))" using eff by (simp add: stored_Some)
    have read: "readStrict (vs_policies s1 ?repo) (aq_ProposedPolicyDigest req) = Inr (proposal_snapshot proposal)" using pol by (simp add: readStrict_def readPrivateJSON_Inr)
    have act: "stored (vs_activations s1 ?repo) (aq_ActivationID req) = None" using None eff by simp
    have "Activate sha d req s = create_activation ?repo ?c (hashID sha ''ifp_'' (IdActivation (activation_intent req ws))) s1"
      using None ch put(1) ActivatePolicyCAS_new [OF s1 c(1)] act c(5) eff read by (simp add: eq commit_ids Let_def)
    moreover have "store_ok sha s2" if "create_activation ?repo ?c fp s1 = (r, s2)" "fp \<noteq> []" for fp r s2
      using create_activation_ok [OF that(1) s1 _ that(2)] intent_nonempty [OF ws(2)] pol activation_checks_commit [OF ch ws(3), folded new_commit_def]
      by (simp add: commit_ids)
    moreover have "map_of (vs_activations s1 ?repo) (aq_ActivationID req) = None" using act s1 stored_None by (metis store_ok_def)
    ultimately show ?thesis
      using create_succeeds [OF s1 put(2), of ?repo ?c "hashID sha ''ifp_'' (IdActivation (activation_intent req ws))"] ws(1) by (fastforce simp: commit_ids hashID_def)
  qed
qed


section \<open>Failures\<close>

text \<open>An attempt that fails anywhere leaves a request that can still succeed.\<close>

lemma replay_attempt:
  assumes "replay_activation repo (stored (vs_effective s) repo) a s = (r, s')"
  shows "vs_activations s' = vs_activations s \<and> stored (vs_effective s') repo \<in> {stored (vs_effective s) repo, Some (effective_of a)}"
proof -
  have "vs_activations s1 = vs_activations s \<and> stored (vs_effective s1) repo \<in> {stored (vs_effective s) repo, Some (effective_of a)}"
    if "put_effective repo (effective_of a) s = (e, s1)" for e s1
    by (rule put_effective_cases [OF that]) (auto simp: stored_def)
  then show ?thesis using assms by (auto simp: replay_activation_def Let_def split: prod.splits option.splits if_splits)
qed

lemma create_attempt:
  assumes "create_activation repo c fp s = (r, s')"
  shows "vs_policies s' = vs_policies s \<and>
    (vs_activations s' = vs_activations s \<and> vs_effective s' = vs_effective s \<or>
     (\<exists>t. stored (vs_activations s' repo) (ai_ActivationID (ac_Intent c)) = Some (activation_record c fp t) \<and>
        stored (vs_effective s') repo \<in> {stored (vs_effective s) repo, Some (effective_of (activation_record c fp t))}))"
proof -
  obtain t s1 where t: "clock s = (t, s1)" by (metis surj_pair)
  obtain e2 s2 where d: "ensureVerificationRepoDir s1 = (e2, s2)" by (metis surj_pair)
  let ?rec = "activation_record c fp t" and ?k = "ai_ActivationID (ac_Intent c)"
  obtain e3 s3 where p: "put_activation repo ?k ?rec s2 = (e3, s3)" by (metis surj_pair)
  obtain e4 s4 where q: "put_effective repo (effective_of ?rec) s3 = (e4, s4)" by (metis surj_pair)
  obtain ts where s1: "s1 = s\<lparr>vs_clock := ts\<rparr>" by (rule clock_cases [OF t])
  obtain io2 where s2: "s2 = s1\<lparr>vs_io := io2\<rparr>" by (rule ensure_dir_cases [OF d])
  obtain io3 d3 where s3: "s3 = s2\<lparr>vs_io := io3, vs_activations := (vs_activations s2)(repo := d3)\<rparr>" "file_created (vs_activations s2 repo) ?k ?rec d3"
    "e3 = None \<Longrightarrow> map_of d3 ?k = Some (Good ?rec)" by (rule put_activation_cases [OF p]) blast
  obtain io4 d4 where s4: "s4 = s3\<lparr>vs_io := io4, vs_effective := d4\<rparr>" "d4 = vs_effective s3 \<or> d4 = put_file repo (effective_of ?rec) (vs_effective s3)"
    by (rule put_effective_cases [OF q])
  consider "s' = s2" | "s' = s3" | "s' = s4" "e3 = None"
    using assms t d p q by (auto simp: create_activation_def Let_def activation_record_id split: option.splits)
  then show ?thesis
  proof cases
    case 2
    then show ?thesis using s3(2) by (auto simp: file_created_def stored_def s1 s2 s3(1))
  next
    case 3
    then show ?thesis using s3(3) s4(2) by (auto simp: stored_def s1 s2 s3(1) s4(1))
  qed (simp add: s1 s2)
qed


lemma created_replayable:
  assumes "PolicyActivationCommit_Validate (new_commit req ws proposal fresh) = None"
    and "a = activation_record (new_commit req ws proposal fresh) (hashID sha ''ifp_'' (IdActivation (activation_intent req ws))) t"
    and "in_force (stored (vs_effective s) (wk_RepositoryID ws)) a \<or> currentDigest (stored (vs_effective s) (wk_RepositoryID ws)) = aq_ExpectedPreviousDigest req"
  shows "replayable sha req ws s a"
proof -
  have "old_commit req ws a = new_commit req ws proposal fresh" by (simp add: assms(2) old_commit_def new_commit_def activation_record_def)
  moreover have "av_PreviousEffectiveDigest a = aq_ExpectedPreviousDigest req" "av_IntentFingerprint a = hashID sha ''ifp_'' (IdActivation (activation_intent req ws))"
    by (simp_all add: assms(2) activation_record_def commit_ids)
  ultimately show ?thesis
    using assms(1,3) commit_intent_valid [OF assms(1)] by (simp add: replayable_def ActivationIntentFingerprint_def commit_ids)
qed

lemma in_force_effective_of [simp]: "in_force (Some (effective_of a)) a"
  by (simp add: in_force_def)

lemma creatable_attempt:
  assumes "store_ok sha s" "creatable sha d req ws s" "stored (vs_activations s (wk_RepositoryID ws)) (aq_ActivationID req) = None"
    and "find_workspace d (aq_WorkspaceID req) = Inr ws" "PolicyActivationIntent_Validate (activation_intent req ws) = None" "aq_Authority req = AuthorityExplicitCaller"
    and "Activate sha d req s = (r, s')"
  shows "case stored (vs_activations s' (wk_RepositoryID ws)) (aq_ActivationID req) of Some a \<Rightarrow> replayable sha req ws s' a | None \<Rightarrow> creatable sha d req ws s'"
proof -
  let ?repo = "wk_RepositoryID ws"
  obtain proposal fresh where ch: "activation_checks d req ws = Inr (proposal, fresh)" and c: "PolicyActivationCommit_Validate (new_commit req ws proposal fresh) = None"
    "ulid_tail ''repo_'' ?repo" "VerificationPolicyDigest sha (pp_Content proposal) = Inr (aq_ProposedPolicyDigest req)"
    "stored (vs_policies s ?repo) (aq_ProposedPolicyDigest req) \<in> {None, Some (proposal_snapshot proposal)}"
    "currentDigest (stored (vs_effective s) ?repo) = aq_ExpectedPreviousDigest req"
    using assms(2) checked_proposal by (fastforce simp: creatable_def)
  note ids = checked_proposal [OF ch]
  let ?c = "new_commit req ws proposal fresh" and ?fp = "hashID sha ''ifp_'' (IdActivation (activation_intent req ws))"
  obtain b s1 where put: "PutPolicySnapshot sha (proposal_snapshot proposal) s = (b, s1)" by (metis surj_pair)
  have s1: "store_ok sha s1" using PutPolicySnapshot_ok [OF put assms(1)] .
  note eff = PutPolicySnapshot_effect [OF assms(1) put, unfolded ids]
  have again: "creatable sha d req ws s2" if "vs_policies s2 = vs_policies s1" "vs_effective s2 = vs_effective s1" for s2
    using that eff ch c ids unfolding creatable_def by fastforce
  have "s' = s1 \<or> create_activation ?repo ?c ?fp s1 = (r, s')"
    using assms(3,7) put ch ActivatePolicyCAS_new [OF s1 c(1)] eff
    by (auto simp: Activate_eq [OF assms(1,4-6)] commit_ids Let_def split: sum.splits if_splits)
  then show ?thesis
  proof
    assume "s' = s1"
    then show ?thesis using again eff assms(3) by simp
  next
    assume "create_activation ?repo ?c ?fp s1 = (r, s')"
    from create_attempt [OF this] show ?thesis
    proof (elim conjE disjE exE)
      fix t assume a: "stored (vs_activations s' ?repo) (ai_ActivationID (ac_Intent ?c)) = Some (activation_record ?c ?fp t)"
        and e: "stored (vs_effective s') ?repo \<in> {stored (vs_effective s1) ?repo, Some (effective_of (activation_record ?c ?fp t))}"
      then show ?thesis using created_replayable [OF c(1) refl, of s' sha t] eff c(5) by (auto simp: commit_ids)
    qed (use again eff assms(3) in simp)
  qed
qed

lemma enabled_kept:
  assumes "store_ok sha s" "activation_enabled sha d req s" "Activate sha d req s = (r, s')"
  shows "activation_enabled sha d req s'"
proof -
  obtain ws where ws: "find_workspace d (aq_WorkspaceID req) = Inr ws" "PolicyActivationIntent_Validate (activation_intent req ws) = None"
    "aq_Authority req = AuthorityExplicitCaller"
    and can: "case stored (vs_activations s (wk_RepositoryID ws)) (aq_ActivationID req) of Some a \<Rightarrow> replayable sha req ws s a | None \<Rightarrow> creatable sha d req ws s"
    using assms(2) by (auto simp: activation_enabled_def)
  let ?repo = "wk_RepositoryID ws"
  have "case stored (vs_activations s' ?repo) (aq_ActivationID req) of Some a \<Rightarrow> replayable sha req ws s' a | None \<Rightarrow> creatable sha d req ws s'"
  proof (cases "stored (vs_activations s ?repo) (aq_ActivationID req)")
    case None
    then show ?thesis using creatable_attempt [OF assms(1) _ None ws assms(3)] can by simp
  next
    case (Some a)
    then have r: "replayable sha req ws s a" using can by simp
    then have "replay_activation ?repo (stored (vs_effective s) ?repo) a s = (r, s')"
      using assms(3) Some ActivatePolicyCAS_found [OF assms(1), of "old_commit req ws a"]
      by (simp add: Activate_eq [OF assms(1) ws] replayable_def commit_ids)
    from replay_attempt [OF this] show ?thesis using r Some by (auto simp: replayable_def)
  qed
  with ws show ?thesis by (auto simp: activation_enabled_def)
qed

end
