(* ===== verification/VerificationExample.thy ===== *)
theory VerificationExample
  imports VerificationFacts
begin

text \<open>
  A repository with one rule in force (tests must pass before a merge) and one passing test: the
  inspection of it, evaluated step by step, reports a clear gate.  The instance is used where a
  property is applied to concrete values.
\<close>

section \<open>Values\<close>

definition zeros :: "nat \<Rightarrow> string" where
  "zeros n = replicate n (CHR ''0'')"

definition sha0 :: "identity \<Rightarrow> string" where
  "sha0 _ = zeros 64"

definition repo0 :: string where
  "repo0 = ''repo_'' @ zeros 26"
definition ws0 :: Workspace where
  "ws0 = \<lparr>wk_ID = ''ws_'' @ zeros 26, wk_RepositoryID = repo0, wk_Root = ''/w''\<rparr>"
definition gen0 :: string where
  "gen0 = ''gen_'' @ zeros 64"
definition pol0 :: string where
  "pol0 = ''pol_'' @ zeros 64"

definition tests_pass :: EvidenceRequirement where
  "tests_pass = \<lparr>er_ID = ''tests'', er_ProviderClass = ProviderFocusedBehaviorTest, er_ProjectCommandID = [], er_Params = [],
     er_MinimumAuthority = AuthorityMechanical, er_RequireCurrent = True, er_Environment = EnvironmentNone,
     er_Stability = StabilitySingleCurrentPass, er_Flake = None, er_RequireQuiescence = False,
     er_Execution = \<lparr>px_ParallelSafe = None, px_SharedResources = [], px_ExclusiveResourceClass = [], px_ExpectedWorkloadClass = []\<rparr>\<rparr>"

definition test_rule :: Rule where
  "test_rule = \<lparr>ru_ID = ''r1'', ru_Phases = [PhasePreMerge], ru_MatchClasses = [], ru_MatchPaths = [], ru_Ownership = OwnershipApplicationOwned,
     ru_RiskClass = OtherRisk [], ru_Required = True, ru_SufficiencyBasis = ''tests pass'', ru_MinimumAffectedAuthority = AuthorityMechanical,
     ru_Evidence = [tests_pass]\<rparr>"

definition test_policy :: PolicyContent where
  "test_policy = \<lparr>pc_SchemaVersion = 1, pc_PolicyID = ''p'', pc_Classifiers = [], pc_Rules = [test_rule]\<rparr>"

definition passing_test :: EvidenceCandidate where
  "passing_test = \<lparr>ec_EvidenceID = ''ev_'' @ zeros 64, ec_VerificationKind = ''test'', ec_ProviderClass = ProviderFocusedBehaviorTest,
     ec_ProviderClassKnown = True, ec_ProjectCommandID = [], ec_OperationID = ''op'', ec_SessionID = ''s'', ec_ActivityID = [], ec_WorkspaceID = wk_ID ws0,
     ec_SourceGeneration = gen0, ec_SourceContentDigest = zeros 64, ec_ProjectBindingDigest = [], ec_ManifestDigest = [], ec_ContractDigest = zeros 64,
     ec_EnvironmentFingerprint = zeros 64, ec_EnvironmentFingerprintVersion = 1, ec_ToolchainFingerprint = [], ec_ToolchainFingerprintVersion = 0,
     ec_Authority = AuthorityMechanical, ec_AuthorityKnown = True, ec_Freshness = CandidateCurrent, ec_Result = CandidatePass,
     ec_StructuredDetail = None, ec_Attempt = None, ec_SemanticContractDigest = zeros 64, ec_CompletedAt = 1\<rparr>"

definition store_with :: "PolicyContent \<Rightarrow> VerificationStore" where
  "store_with content = \<lparr>vs_policies = (\<lambda>_. [(pol0, Good \<lparr>pn_RepositoryID = repo0, pn_Digest = pol0, pn_Content = content\<rparr>)]),
     vs_activations = (\<lambda>_. [(''act_1'', Good \<lparr>av_SchemaVersion = 1, av_ActivationID = ''act_1'', av_IntentFingerprint = zeros 64, av_RepositoryID = repo0,
       av_PreviousEffectiveDigest = ''absent'', av_ProposedPolicyDigest = pol0, av_ProposalOrigin = ProposalRepositoryAuthored, av_ProfileOrigin = [],
       av_ProposalGeneration = gen0, av_ActivationGeneration = gen0, av_Authority = AuthorityExplicitCaller, av_Actor = ''a'', av_ActivatedAt = 1\<rparr>)]),
     vs_effective = [(repo0, Good \<lparr>ei_SchemaVersion = 1, ei_ActivationID = ''act_1'', ei_PolicyDigest = pol0\<rparr>)],
     vs_waivers = (\<lambda>_. []), vs_revocations = (\<lambda>_. []), vs_io = [], vs_clock = []\<rparr>"

abbreviation test_store :: VerificationStore where
  "test_store \<equiv> store_with test_policy"

definition test_waiver :: VerificationWaiver where
  "test_waiver = \<lparr>wv_SchemaVersion = 1, wv_WaiverID = ''wv_1'', wv_IntentFingerprint = ''ifp_'' @ zeros 64, wv_RepositoryID = repo0, wv_PolicyDigest = pol0,
     wv_RuleID = ''r1'', wv_Phase = PhasePreMerge, wv_Generation = [], wv_CheckpointID = [], wv_Authority = AuthorityExplicitCaller, wv_Actor = ''dev'',
     wv_Reason = ''known'', wv_CreatedAt = 1, wv_ExpiresAt = 0, wv_ExpiresPhase = OtherVerificationPhase []\<rparr>"

definition test_deps :: PolicyDependencies where
  "test_deps = \<lparr>pd_workspaces = Inr [ws0], pd_loader = None, pd_snapshots = None, pd_projects = None, pd_commands = None\<rparr>"

definition test_surface :: AffectedSurface where
  "test_surface = \<lparr>sf_SchemaVersion = 1, sf_RepositoryID = repo0, sf_WorkspaceID = wk_ID ws0, sf_SourceGeneration = gen0, sf_Domains = [], sf_Relations = [], sf_Diagnostics = []\<rparr>"

definition test_sources :: InspectSources where
  "test_sources = \<lparr>is_workspace = Inr ws0, is_affected = Inr test_surface, is_load = (\<lambda>_. \<lparr>pl_State = PolicyLoadAbsent, pl_Proposal = None\<rparr>),
     is_evidence = Some (Inr \<lparr>cr_Candidates = [passing_test], cr_Coverage = CoverageComplete, cr_Diagnostics = []\<rparr>), is_environment = None, is_quiescence = None\<rparr>"

definition test_request :: InspectRequest where
  "test_request = \<lparr>iq_WorkspaceID = wk_ID ws0, iq_ActivityID = [], iq_Phase = PhasePreMerge\<rparr>"

section \<open>Evaluation\<close>

lemma list_all_zeros: "list_all P (zeros n) \<longleftrightarrow> n = 0 \<or> P (CHR ''0'')"
  by (auto simp: zeros_def list_all_iff)

lemma length_zeros: "length (zeros n) = n"
  by (simp add: zeros_def)

lemma zeros_hex: "hex_decodes (zeros 64)" "candidateDigest (zeros 64)" "isDerivedID (''pol_'' @ zeros 64) ''pol_''" "isDerivedID (''ev_'' @ zeros 64) ''ev_''"
  "isDerivedID (''gen_'' @ zeros 64) ''gen_''" "isDerivedID (''obl_'' @ zeros 64) ''obl_''" "zeros 64 \<noteq> []" "isDerivedID (''dom_'' @ zeros 64) ''dom_''" "validGeneration (''gen_'' @ zeros 64)"
  by (simp_all add: hex_decodes_def candidateDigest_def isDerivedID_def validGeneration_def HasPrefix_def list_all_zeros length_zeros is_hex_def is_digit_def)
   (simp add: zeros_def)

lemma tokens:
  "boundedToken repo0 128" "boundedToken (wk_ID ws0) 128" "boundedToken ''tests'' 128" "boundedToken ''r1'' 128" "boundedToken ''p'' 128" "boundedToken ''tests pass'' 1024"
  "boundedToken ''verification_policy'' 128"  "boundedToken (''policy:pol_'' @ zeros 64) 2048" "boundedToken ''rule:r1'' 2048" "boundedToken (''dom_'' @ zeros 64) 2048"
  by (simp_all add: boundedToken_ascii repo0_def ws0_def list_all_zeros length_zeros)

lemmas zeros_simps = zeros_hex [simplified] tokens [simplified]

lemma test_policy_valid: "PolicyContent_Validate test_policy = None"
  by (simp add: PolicyContent_Validate_def test_policy_def test_rule_def Rule_Validate_def validateStrings_def tests_pass_def tokens
      EvidenceRequirement_Validate_def ProviderExecutionSemantics_Validate_def)

lemma test_policy_digest: "VerificationPolicyDigest sha0 test_policy = Inr pol0"
  by (simp add: VerificationPolicyDigest_def test_policy_valid hashID_def sha0_def pol0_def)

definition effective_with :: "PolicyContent \<Rightarrow> MaterializedPolicy" where
  "effective_with content = \<lparr>mp_Snapshot = \<lparr>pn_RepositoryID = repo0, pn_Digest = pol0, pn_Content = content\<rparr>, mp_Source = ''repository_authored'',
     mp_ProfileOrigin = [], mp_ApprovalRef = ''act_1'', mp_ApprovalAuthority = AuthorityExplicitCaller, mp_ApprovedAt = 1\<rparr>"

abbreviation test_effective :: MaterializedPolicy where
  "test_effective \<equiv> effective_with test_policy"

lemma test_CurrentActivation:
  "\<exists>a. CurrentActivation repo0 (store_with content) = Inr (Some a) \<and> av_ProposedPolicyDigest a = pol0 \<and> av_ProfileOrigin a = [] \<and>
    av_ActivationID a = ''act_1'' \<and> av_Authority a = AuthorityExplicitCaller \<and> av_ActivatedAt a = 1"
  by (simp add: CurrentActivation_def readEffectiveUnlocked_def findActivationUnlocked_def find_strict_def readStrict_def readPrivateJSON_def store_with_def
      IsZero_def pol0_def zeros_def)

lemma materialized_with:
  assumes "PolicyContent_Validate content = None"
  shows "\<exists>summary. materializedPolicy sha0 repo0 (store_with content) = Inr (Some (effective_with content, summary))"
proof -
  have d: "VerificationPolicyDigest sha0 content = Inr pol0" using assms by (simp add: VerificationPolicyDigest_def hashID_def sha0_def pol0_def)
  obtain a where a: "CurrentActivation repo0 (store_with content) = Inr (Some a)" "av_ProposedPolicyDigest a = pol0" "av_ProfileOrigin a = []"
    "av_ActivationID a = ''act_1''" "av_Authority a = AuthorityExplicitCaller" "av_ActivatedAt a = 1"
    using test_CurrentActivation by blast
  have "LoadPolicySnapshot sha0 repo0 pol0 (store_with content) = Inr (Some (mp_Snapshot (effective_with content)))"
    by (simp add: LoadPolicySnapshot_def find_strict_def readStrict_def readPrivateJSON_def store_with_def d effective_with_def)
  then show ?thesis using a by (simp add: materializedPolicy_def effective_with_def d)
qed

lemmas test_materialized = materialized_with [OF test_policy_valid]

lemma test_waivers: "ActiveWaivers test_deps now \<lparr>sp_WorkspaceID = iq_WorkspaceID test_request, sp_Phase = p, sp_Generation = g, sp_CheckpointID = c\<rparr> test_store = Inr []"
proof -
  have "find_workspace test_deps (iq_WorkspaceID test_request) = Inr ws0"
    by (simp add: find_workspace_def test_deps_def test_request_def ParseWorkspaceID_def ulid_tail_def ws0_def HasPrefix_def list_all_zeros length_zeros is_digit_def)
  moreover obtain a where "CurrentActivation repo0 test_store = Inr (Some a)" using test_CurrentActivation by blast
  moreover have "ListWaivers repo0 test_store = Inr ([], [])" by (simp add: ListWaivers_def list_strict_def ReadDir_def store_with_def)
  moreover have "wk_RepositoryID ws0 = repo0" by (simp add: ws0_def)
  ultimately show ?thesis by (simp add: ActiveWaivers_def)
qed

definition policy_domain :: AffectedDomain where
  "policy_domain = \<lparr>dm_DomainID = ''dom_'' @ zeros 64, dm_Kind = DomainPolicyClassification, dm_DerivationAuthority = AuthorityMechanical,
     dm_Coverage = CoverageUnknown, dm_Provider = Some policy_provider, dm_SourceGeneration = gen0, dm_ProvenanceRefs = [''policy:'' @ pol0],
     dm_CapturedAt = 1, dm_Caveats = []\<rparr>"

definition classified_surface :: AffectedSurface where
  "classified_surface = test_surface\<lparr>sf_Domains := [policy_domain], sf_Relations := []\<rparr>"

lemma test_surface_valid: "AffectedSurface_Validate test_surface = None" "AffectedSurface_Validate (classified_surface) = None"
  by (simp_all add: AffectedSurface_Validate_def classified_surface_def test_surface_def zeros_simps gen0_def wrap_errors_def validateStrings_def AffectedDomain_Validate_def
      policy_domain_def validateRefs_def pol0_def IsZero_def provider_error_def policy_provider_def VerificationProvider_Validate_def)

lemma test_domain: "classification_domain sha0 test_surface test_effective pol0 = Inr policy_domain"
  by (simp add: classification_domain_def test_surface_def gen0_def DomainID_def zeros_simps provider_error_def policy_provider_def VerificationProvider_Validate_def
      normalizeRefs_def validateRefs_def validateStrings_def hashID_def sha0_def policy_domain_def selection_coverage_def approved_time_def effective_with_def
      IsZero_def pol0_def Let_def reject_def)

lemma test_classified: "ApplyEffectiveClassifications sha0 test_surface test_effective = Inr (classified_surface)"
proof -
  have "sf_RepositoryID test_surface = repo0" "sf_Domains test_surface = []" "sf_Relations test_surface = []" "sf_SourceGeneration test_surface \<noteq> []"
    "classification_pairs test_surface test_policy = []"
    by (simp_all add: test_surface_def gen0_def classification_pairs_def test_policy_def)
  moreover have "mp_Snapshot test_effective = \<lparr>pn_RepositoryID = repo0, pn_Digest = pol0, pn_Content = test_policy\<rparr>" by (simp add: effective_with_def)
  ultimately show ?thesis
    using test_surface_valid test_domain by (simp add: ApplyEffectiveClassifications_def test_policy_digest Let_def reject_def classified_surface_def)
qed

definition test_obligation :: VerificationObligation where
  "test_obligation = \<lparr>vo_SchemaVersion = 1, vo_ObligationID = ''obl_'' @ zeros 64, vo_PolicyDigest = pol0, vo_SourceRuleID = ''r1'',
     vo_TriggerRefs = [''policy:'' @ pol0, ''rule:r1''], vo_AffectedScopeRefs = [''dom_'' @ zeros 64], vo_Ownership = OwnershipApplicationOwned,
     vo_RiskClass = OtherRisk [], vo_RequiredPhase = PhasePreMerge, vo_SufficiencyBasis = ''tests pass'', vo_MinimumAffectedAuthority = AuthorityMechanical,
     vo_EvidenceRequirements = [\<lparr>be_Requirement = tests_pass, be_ExpectedProjectBindingDigest = []\<rparr>], vo_AppliesToGeneration = gen0,
     vo_Disposition = DispositionRequiredNow, vo_EvidenceStatus = EvidenceNotEvaluated, vo_EvidenceRefs = [], vo_WaiverID = []\<rparr>"

lemma tests_pass_valid: "BoundEvidenceRequirement_Validate \<lparr>be_Requirement = tests_pass, be_ExpectedProjectBindingDigest = []\<rparr> = None"
  by (simp add: BoundEvidenceRequirement_Validate_def EvidenceRequirement_Validate_def tests_pass_def zeros_simps ProviderExecutionSemantics_Validate_def)

lemma test_obligation_valid: "VerificationObligation_Validate test_obligation = None"
  by (simp add: VerificationObligation_Validate_def test_obligation_def zeros_simps pol0_def gen0_def validateRefs_def validateStrings_def wrap_errors_def
      tests_pass_valid)

lemma test_rule_derived:
  "deriveRule sha0 None \<lparr>oq_WorkspaceID = wk_ID ws0, oq_Phase = PhasePreMerge, oq_Policy = test_effective, oq_Surface = classified_surface,
     oq_ActiveWaivers = []\<rparr> pol0 test_rule = Inr (test_obligation, [])"
proof -
  let ?req = "\<lparr>oq_WorkspaceID = wk_ID ws0, oq_Phase = PhasePreMerge, oq_Policy = test_effective, oq_Surface = classified_surface, oq_ActiveWaivers = []\<rparr>"
  have b: "bindEvidence None (wk_ID ws0) test_rule = ([\<lparr>be_Requirement = tests_pass, be_ExpectedProjectBindingDigest = []\<rparr>], EvidenceNotEvaluated, [])"
    by (simp add: bindEvidence_def test_rule_def bind_requirement_def tests_pass_def)
  have "(''policy:'' @ pol0) \<le> ''rule:r1''" by (simp add: less_char_def)
  then have sorted: "sortedUniqueStrings [''policy:'' @ pol0, ''rule:r1''] = [''policy:'' @ pol0, ''rule:r1'']" by (simp add: sortedUniqueStrings_def)
  have refs: "surfaceDomainRefs classified_surface = [''dom_'' @ zeros 64]"
    by (simp add: surfaceDomainRefs_def classified_surface_def policy_domain_def sortedUniqueStrings_def)
  have oid: "ObligationID sha0 pol0 ''r1'' gen0 [''policy:'' @ pol0, ''rule:r1''] = Inr (''obl_'' @ zeros 64)"
    by (simp add: ObligationID_def referenceSetID_def normalizeRefs_def validateRefs_def validateStrings_def hashID_def sha0_def pol0_def gen0_def zeros_simps reject_def)
  have sel: "evaluateRuleSelectors classified_surface pol0 test_rule = \<lparr>sl_positive = True, sl_provenNonMatch = False,
      sl_triggerRefs = [''policy:'' @ pol0, ''rule:r1''], sl_scopeRefs = [''dom_'' @ zeros 64], sl_uncertain = False\<rparr>"
    by (simp add: evaluateRuleSelectors_def test_rule_def refs)
  have w: "apply_waiver ?req pol0 test_obligation = test_obligation" by (simp add: apply_waiver_def matchingWaiver_def)
  have gen: "sf_SourceGeneration classified_surface = gen0" by (simp add: classified_surface_def test_surface_def)
  have one: "sortedUniqueStrings [''dom_'' @ zeros 64] = [''dom_'' @ zeros 64]" by (simp add: sortedUniqueStrings_def)
  have disp: "ruleDisposition test_rule PhasePreMerge (evaluateRuleSelectors classified_surface pol0 test_rule) = (PhasePreMerge, DispositionRequiredNow)"
    unfolding sel by (simp add: ruleDisposition_def test_rule_def Let_def)
  have rule: "ru_ID test_rule = ''r1''" "ru_Required test_rule" "ru_Ownership test_rule = OwnershipApplicationOwned" "ru_RiskClass test_rule = OtherRisk []"
    "ru_SufficiencyBasis test_rule = ''tests pass''" "ru_MinimumAffectedAuthority test_rule = AuthorityMechanical"
    by (simp_all add: test_rule_def)
  show ?thesis
    using test_obligation_valid w unfolding test_obligation_def
    by (simp add: deriveRule_def Let_def disp [unfolded sel, simplified] b oid [simplified] sel gen rule sorted [simplified] one [simplified])
qed

lemma test_derived:
  "Derive sha0 None \<lparr>oq_WorkspaceID = wk_ID ws0, oq_Phase = PhasePreMerge, oq_Policy = test_effective, oq_Surface = classified_surface,
     oq_ActiveWaivers = []\<rparr> = Inr \<lparr>ox_Obligations = [test_obligation], ox_PolicyGaps = [], ox_Diagnostics = []\<rparr>"
proof -
  have "pc_Rules test_policy = [test_rule]" "sf_Relations classified_surface = []" "sf_RepositoryID classified_surface = repo0" "sf_SourceGeneration classified_surface \<noteq> []"
    by (simp_all add: test_policy_def classified_surface_def test_surface_def gen0_def)
  moreover have "mp_Snapshot test_effective = \<lparr>pn_RepositoryID = repo0, pn_Digest = pol0, pn_Content = test_policy\<rparr>" by (simp add: effective_with_def)
  ultimately show ?thesis
    using test_rule_derived test_surface_valid(2) by (simp add: Derive_def Let_def reject_def test_policy_digest derivePolicyGaps_def sortedUniqueStrings_def)
qed

lemma passing_test_valid: "EvidenceCandidate_Validate passing_test = None"
  by (simp add: EvidenceCandidate_Validate_def passing_test_def zeros_simps ws0_def validEvidenceVerificationKind_def gen0_def validateProviderAuthority_def IsZero_def)

definition test_candidates :: CandidateResultSet where
  "test_candidates = \<lparr>cr_Candidates = [passing_test], cr_Coverage = CoverageComplete, cr_Diagnostics = []\<rparr>"

lemma passing_key: "CompatibilityKey sha0 passing_test = Some (zeros 64)"
  using passing_test_valid by (simp add: CompatibilityKey_def sha0_def) (simp add: passing_test_def gen0_def zeros_hex)

lemma test_stability: "stabilityStatus (EvaluateStability sha0 StabilitySingleCurrentPass None test_candidates) = (EvidenceSatisfied, [])"
proof -
  have "ec_Result passing_test = CandidatePass" by (simp add: passing_test_def)
  then show ?thesis
    by (simp add: stabilityStatus_def EvaluateStability_def test_candidates_def Let_def compatibility_groups_def map_filter_simps passing_key sortedUnique_def
        incompatible_def foldBaseCohort_def base_status_def count_results_def count_result_def foldCohortStatuses_def settle_stability_def foldStatus_def)
qed

lemma test_requirement: "requirement_status sha0 test_obligation \<lparr>be_Requirement = tests_pass, be_ExpectedProjectBindingDigest = []\<rparr> test_candidates [] None [] =
   (EvidenceSatisfied, [])"
proof -
  have c: "ec_Result passing_test = CandidatePass" "ec_ProviderClassKnown passing_test" "ec_ProviderClass passing_test = ProviderFocusedBehaviorTest"
    "ec_AuthorityKnown passing_test" "ec_Authority passing_test = AuthorityMechanical" "ec_Freshness passing_test = CandidateCurrent"
    by (simp_all add: passing_test_def)
  have r: "er_ProjectCommandID tests_pass = []" "er_ProviderClass tests_pass = ProviderFocusedBehaviorTest" "er_MinimumAuthority tests_pass = AuthorityMechanical"
    "er_RequireCurrent tests_pass" "er_Environment tests_pass = EnvironmentNone" "er_Stability tests_pass = StabilitySingleCurrentPass" "er_Flake tests_pass = None"
    "\<not> er_RequireQuiescence tests_pass"
    by (simp_all add: tests_pass_def)
  have cs: "cr_Candidates test_candidates = [passing_test]" "test_candidates\<lparr>cr_Candidates := [passing_test]\<rparr> = test_candidates" by (simp_all add: test_candidates_def)
  show ?thesis
    by (simp add: requirement_status_def Let_def tests_pass_valid r cs c validCandidates_def passing_test_valid filterProjectBinding_def filterProviderSemantics_def
        filterAuthority_def filterCurrent_def filterEnvironment_def test_stability MeetsMinimumAuthority_def)
qed

lemma test_evaluation:
  "oe_EvidenceStatus (EvaluateObligation sha0 test_obligation test_candidates [] None []) = EvidenceSatisfied"
  "validateRefs (oe_EvidenceRefs (EvaluateObligation sha0 test_obligation test_candidates [] None [])) 256 2048 = None"
  "ObligationEvaluation_Validate sha0 (EvaluateObligation sha0 test_obligation test_candidates [] None []) = None"
proof -
  have refs: "candidateEvidenceRefs (cr_Candidates test_candidates) = [''ev_'' @ zeros 64]"
    by (simp add: candidateEvidenceRefs_def sortedUnique_def test_candidates_def passing_test_def)
  have ids: "vo_ObligationID test_obligation = ''obl_'' @ zeros 64" "vo_PolicyDigest test_obligation = ''pol_'' @ zeros 64" "vo_SourceRuleID test_obligation = ''r1''"
    "vo_EvidenceRequirements test_obligation = [\<lparr>be_Requirement = tests_pass, be_ExpectedProjectBindingDigest = []\<rparr>]" "er_ID tests_pass = ''tests''"
    by (simp_all add: test_obligation_def pol0_def tests_pass_def)
  have eval: "EvaluateObligation sha0 test_obligation test_candidates [] None [] =
     \<lparr>oe_ObligationID = ''obl_'' @ zeros 64, oe_EvidenceStatus = EvidenceSatisfied, oe_RequirementResults =
       [\<lparr>rx_EvaluationID = ''eval_'' @ zeros 64, rx_PolicyDigest = ''pol_'' @ zeros 64, rx_RuleID = ''r1'', rx_ObligationID = ''obl_'' @ zeros 64,
         rx_RequirementID = ''tests'', rx_Status = EvidenceSatisfied, rx_EvidenceRefs = [''ev_'' @ zeros 64], rx_ReasonCode = []\<rparr>],
      oe_EvidenceRefs = [''ev_'' @ zeros 64]\<rparr>"
    by (simp add: EvaluateObligation_def test_obligation_valid evaluateRequirement_def test_requirement refs ids EvaluationID_def zeros_simps
        normalizeEvaluationEvidenceRefs_def hashID_def sha0_def foldRequirementStatuses_def sortedUnique_def reject_def Let_def)
  show "oe_EvidenceStatus (EvaluateObligation sha0 test_obligation test_candidates [] None []) = EvidenceSatisfied"
    "validateRefs (oe_EvidenceRefs (EvaluateObligation sha0 test_obligation test_candidates [] None [])) 256 2048 = None"
    "ObligationEvaluation_Validate sha0 (EvaluateObligation sha0 test_obligation test_candidates [] None []) = None"
    unfolding eval
    by (simp_all add: validateRefs_def validateStrings_def ObligationEvaluation_Validate_def RequirementEvaluation_Validate_def zeros_simps
        EvaluationID_def normalizeEvaluationEvidenceRefs_def hashID_def sha0_def boundedOptionalToken_def reject_def boundedToken_ascii list_all_zeros length_zeros)
qed

lemma test_inspection:
  obtains insp where "Inspect sha0 test_deps test_sources 5 test_request test_store = Inr insp" "ge_Status (in_Gate insp) = GateClear"
proof -
  let ?es = "evaluate_all sha0 test_sources (wk_ID ws0) [test_obligation]"
  define e where "e = EvaluateObligation sha0 test_obligation test_candidates [] None []"
  have "readCurrentEnvironment test_sources [test_obligation] = None" "readQuiescence test_sources (wk_ID ws0) [test_obligation] test_candidates = []"
    "readInspectionCandidates test_sources = test_candidates"
    by (simp_all add: readCurrentEnvironment_def test_sources_def readQuiescence_def readInspectionCandidates_def test_candidates_def)
  then have es: "?es = [e]" by (simp add: evaluate_all_def e_def)
  have app: "applicableObligations [test_obligation] = [test_obligation]" by (simp add: applicableObligations_def test_obligation_def)
  have e: "oe_ObligationID e = vo_ObligationID test_obligation" "oe_EvidenceStatus e = EvidenceSatisfied" "ObligationEvaluation_Validate sha0 e = None"
    using test_evaluation by (simp_all add: e_def EvaluateObligation_id)
  have app': "[test_obligation\<lparr>vo_EvidenceStatus := oe_EvidenceStatus e, vo_EvidenceRefs := oe_EvidenceRefs e\<rparr>] = foldl applyObligationEvaluation [test_obligation] [e]"
    by (simp add: e(1))
  have refs: "validateRefs (oe_EvidenceRefs e) 256 2048 = None" by (simp add: e_def test_evaluation)
  have ok: "gate_inputs_ok sha0 (foldl applyObligationEvaluation [test_obligation] [e]) (evaluation_map [e])"
    using e test_obligation_valid refs
    by (auto simp: gate_inputs_ok_def evaluation_map_def VerificationObligation_Validate_def)
  have clear: "ge_Status (reference_gate (map (contribution (evaluation_map [e])) (foldl applyObligationEvaluation [test_obligation] [e]))) = GateClear"
    using e by (simp add: reference_gate_def contribution_def evaluation_map_def test_obligation_def)
  obtain summary where m: "materializedPolicy sha0 repo0 test_store = Inr (Some (test_effective, summary))" using test_materialized by blast
  have src: "is_workspace test_sources = Inr ws0" "is_affected test_sources = Inr test_surface" "wk_RepositoryID ws0 = repo0"
    "iq_Phase test_request = PhasePreMerge" "iq_WorkspaceID test_request = wk_ID ws0" "pd_commands test_deps = None"
    by (simp_all add: test_sources_def test_request_def ws0_def test_deps_def)
  have fold: "FoldGate sha0 (foldl applyObligationEvaluation [test_obligation] [e]) (evaluation_map [e]) =
     Inr (reference_gate (map (contribution (evaluation_map [e])) (foldl applyObligationEvaluation [test_obligation] [e])))"
    using ok by (simp add: FoldGate_reference)
  have m': "materializedPolicy sha0 (wk_RepositoryID ws0) test_store = Inr (Some (test_effective, summary))" using m src(3) by simp
  have p: "VerificationPhase_Validate (iq_Phase test_request) = None" by (simp add: src)
  have "\<exists>insp. Inspect sha0 test_deps test_sources 5 test_request test_store = Inr insp \<and>
      in_Gate insp = reference_gate (map (contribution (evaluation_map [e])) (foldl applyObligationEvaluation [test_obligation] [e]))"
    by (rule effective_inspection [OF p src(1,2) m' test_classified test_waivers test_derived [folded src]])
       (unfold src ObligationResult.select_convs app es, rule fold)
  with clear that show ?thesis by fastforce
qed

end
