(* ===== verification/VerificationAuthority.thy ===== *)
theory VerificationAuthority
  imports VerificationActivation VerificationExample
begin

text \<open>
  Properties of the authority over verification: the store of policies, activations, waivers and
  revocations over all runs of the service.
\<close>

section \<open>Reachable stores\<close>

definition empty_store :: "file_write list \<Rightarrow> time list \<Rightarrow> VerificationStore" where
  "empty_store ios ts = \<lparr>vs_policies = (\<lambda>_. []), vs_activations = (\<lambda>_. []), vs_effective = [], vs_waivers = (\<lambda>_. []), vs_revocations = (\<lambda>_. []),
     vs_io = ios, vs_clock = ts\<rparr>"

lemma empty_store_ok: "\<forall>t \<in> set ts. \<not> IsZero t \<Longrightarrow> store_ok sha (empty_store ios ts)"
  by (simp add: empty_store_def store_ok_def good_files_def)

lemma store_ok_io [simp]: "store_ok sha (s\<lparr>vs_io := ios\<rparr>) \<longleftrightarrow> store_ok sha s"
proof -
  have "activation_ok (s\<lparr>vs_io := ios\<rparr>) = activation_ok s" "effective_ok (s\<lparr>vs_io := ios\<rparr>) = effective_ok s" "revocation_ok (s\<lparr>vs_io := ios\<rparr>) = revocation_ok s"
    by (simp_all add: fun_eq_iff activation_ok_def effective_ok_def revocation_ok_def)
  then show ?thesis by (simp add: store_ok_def)
qed

lemma activation_enabled_io [simp]: "activation_enabled sha d req (s\<lparr>vs_io := ios\<rparr>) \<longleftrightarrow> activation_enabled sha d req s"
proof -
  have "replayable sha req ws (s\<lparr>vs_io := ios\<rparr>) = replayable sha req ws s" "creatable sha d req ws (s\<lparr>vs_io := ios\<rparr>) = creatable sha d req ws s" for ws
    by (simp_all add: fun_eq_iff replayable_def creatable_def)
  then show ?thesis by (simp add: activation_enabled_def cong: option.case_cong)
qed

text \<open>A first activation on the empty store, whose second write of a file fails.\<close>

definition fresh_snapshot :: FastSnapshot where
  "fresh_snapshot = \<lparr>fs_SchemaVersion = 1, fs_RepositoryID = repo0, fs_WorkspaceID = wk_ID ws0, fs_Generation = gen0, fs_Head = zeros 40, fs_Ref = [],
     fs_Detached = False, fs_Upstream = [], fs_Ahead = 0, fs_Behind = 0, fs_UpstreamQuality = OtherObservationQuality [],
     fs_Dirty = \<lparr>dy_Dirty = False, dy_Modified = 0, dy_Added = 0, dy_Deleted = 0, dy_Renamed = 0, dy_Untracked = 0, dy_Conflicted = 0, dy_Digest = zeros 64\<rparr>,
     fs_Quality = QualityFresh, fs_ObservedAt = 1, fs_CacheAgeMS = 0\<rparr>"

definition test_proposal :: PolicyProposal where
  "test_proposal = \<lparr>pp_RepositoryID = repo0, pp_Digest = pol0, pp_Origin = ProposalRepositoryAuthored, pp_ProfileOrigin = [], pp_Content = test_policy\<rparr>"

definition activation_deps :: PolicyDependencies where
  "activation_deps = \<lparr>pd_workspaces = Inr [ws0], pd_loader = Some (\<lambda>_. \<lparr>pl_State = PolicyLoadValid, pl_Proposal = Some test_proposal\<rparr>),
     pd_snapshots = Some (\<lambda>_. fresh_snapshot), pd_projects = None, pd_commands = None\<rparr>"

definition activation_request :: ActivateRequest where
  "activation_request = \<lparr>aq_ActivationID = ''act_1'', aq_WorkspaceID = wk_ID ws0, aq_ProposedPolicyDigest = pol0, aq_ExpectedPreviousDigest = ''absent'',
     aq_ProposalGeneration = ''gen_'' @ replicate 64 (CHR ''1''), aq_Authority = AuthorityExplicitCaller, aq_Actor = ''dev''\<rparr>"

definition failed_attempt :: VerificationStore where
  "failed_attempt = snd (Activate sha0 activation_deps activation_request (empty_store [WriteOk, WriteOk, WriteOk, WriteUnsynced (Errorf ''sync'')] []))"

lemma test_workspace: "find_workspace activation_deps (aq_WorkspaceID activation_request) = Inr ws0"
  by (simp add: find_workspace_def activation_deps_def activation_request_def ParseWorkspaceID_def ulid_tail_def ws0_def HasPrefix_def list_all_zeros length_zeros is_digit_def)

lemma test_intent_valid: "PolicyActivationIntent_Validate (activation_intent activation_request ws0) = None"
proof -
  have "ValidateActivationID ''act_1'' = None" by (simp add: ValidateActivationID_def tail_over_def HasPrefix_def bytes_over_def is_alnum_def is_digit_def)
  moreover have "boundedToken ''explicit_caller'' 64" "boundedToken ''dev'' 128" by (simp_all add: boundedToken_ascii)
  moreover have "validGeneration (''gen_'' @ replicate 64 (CHR ''1''))"
    by (simp add: validGeneration_def HasPrefix_def hex_decodes_def list_all_iff is_hex_def is_digit_def)
  ultimately show ?thesis
    by (simp add: PolicyActivationIntent_Validate_def activation_intent_def activation_request_def ws0_def tokens pol0_def zeros_simps AuthorityExplicitCaller_def reject_def)
qed

lemma test_fresh_valid: "FastSnapshot_Validate fresh_snapshot = None"
  by (simp add: FastSnapshot_Validate_def fresh_snapshot_def IsZero_def ParseRepositoryID_def ParseWorkspaceID_def ulid_tail_def repo0_def ws0_def HasPrefix_def
      list_all_zeros length_zeros is_digit_def validObjectID_def hex_decodes_def is_hex_def gen0_def zeros_simps reject_def Let_def)

lemma test_checks: "activation_checks activation_deps activation_request ws0 = Inr (test_proposal, fresh_snapshot)"
proof -
  have "validateProjectRequirements activation_deps (aq_WorkspaceID activation_request) test_policy = None"
    by (simp add: validateProjectRequirements_def test_policy_def test_rule_def tests_pass_def)
  moreover have "gen0 \<noteq> ''gen_'' @ replicate 64 (CHR ''1'')" by (simp add: gen0_def zeros_def)
  ultimately show ?thesis
    using test_fresh_valid
    by (simp add: activation_checks_def activation_deps_def activation_request_def test_proposal_def fresh_snapshot_def ws0_def reject_def gen0_def)
qed


lemma test_enabled: "activation_enabled sha0 activation_deps activation_request (empty_store ios ts)"
proof -
  have "PolicyActivationCommit_Validate (new_commit activation_request ws0 test_proposal fresh_snapshot) = None"
    using test_intent_valid by (simp add: PolicyActivationCommit_Validate_def new_commit_def test_proposal_def fresh_snapshot_def gen0_def zeros_simps)
  moreover have "ulid_tail ''repo_'' repo0" by (simp add: ulid_tail_def repo0_def HasPrefix_def list_all_zeros length_zeros is_digit_def)
  ultimately have "creatable sha0 activation_deps activation_request ws0 (empty_store ios ts)"
    using test_checks test_policy_digest
    by (auto simp: creatable_def empty_store_def stored_def currentDigest_def test_proposal_def activation_request_def)
  then show ?thesis using test_workspace test_intent_valid by (simp add: activation_enabled_def empty_store_def stored_def activation_request_def)
qed

text \<open>Attempts of a request, each with its own failures.\<close>

definition attempts :: "(identity \<Rightarrow> string) \<Rightarrow> PolicyDependencies \<Rightarrow> ActivateRequest \<Rightarrow> VerificationStore \<Rightarrow> VerificationStore \<Rightarrow> bool" where
  "attempts sha d req = (\<lambda>s s'. \<exists>ios r. Activate sha d req (s\<lparr>vs_io := ios\<rparr>) = (r, s'))\<^sup>*\<^sup>*"

lemma attempts_kept:
  assumes "attempts sha d req s s'" "store_ok sha s" "activation_enabled sha d req s"
  shows "store_ok sha s' \<and> activation_enabled sha d req s'"
  using assms(1) unfolding attempts_def
proof (induction rule: rtranclp_induct)
  case (step s1 s2)
  then obtain ios r where "Activate sha d req (s1\<lparr>vs_io := ios\<rparr>) = (r, s2)" by blast
  with step.IH show ?case using Activate_ok enabled_kept by (metis store_ok_io activation_enabled_io)
qed (use assms in blast)

section \<open>Properties\<close>

text \<open>
  C4: The authority over verification stays consistent.  Whatever sequence of activations, waivers
  and revocations runs on a store that starts empty, and however its writes fail, the effective
  policy of a repository can always be read; and a policy is in force only by a recorded activation
  of it that an explicit caller made from a proposal authored in the repository, at another
  generation of the sources than the one that introduced the proposal.
\<close>

theorem authority_store_consistent:
  assumes "verification_run sha (empty_store ios ts) s" "\<forall>t \<in> set ts. \<not> IsZero t"
  shows "\<exists>current. materializedPolicy sha repo s = Inr current \<and>
    (\<forall>m summary. current = Some (m, summary) \<longrightarrow> (\<exists>a. stored (vs_activations s repo) (mp_ApprovalRef m) = Some a \<and>
       av_ProposedPolicyDigest a = pn_Digest (mp_Snapshot m) \<and> VerificationPolicyDigest sha (pn_Content (mp_Snapshot m)) = Inr (pn_Digest (mp_Snapshot m)) \<and>
       av_Authority a = AuthorityExplicitCaller \<and> av_ProposalOrigin a = ProposalRepositoryAuthored \<and> av_ActivationGeneration a \<noteq> av_ProposalGeneration a))"
proof -
  have ok: "store_ok sha s" using verification_run_ok [OF assms(1)] empty_store_ok [OF assms(2)] by blast
  show ?thesis
  proof (cases "CurrentActivation repo s")
    case (Inr current)
    show ?thesis
    proof (cases current)
      case (Some a)
      then obtain i where i: "stored (vs_effective s) repo = Some i" "stored (vs_activations s repo) (ei_ActivationID i) = Some a"
        using Inr current_activation [OF ok, of repo] by (auto split: option.splits)
      then have a: "activation_ok s repo (ei_ActivationID i) a" using ok good_files_stored by (metis store_ok_def)
      obtain p where p: "LoadPolicySnapshot sha repo (av_ProposedPolicyDigest a) s = Inr (Some p)" "policy_ok sha repo (av_ProposedPolicyDigest a) p"
        using policy_loaded [OF ok i(2)] by blast
      then show ?thesis using Inr Some a i(2) by (auto simp: materializedPolicy_def policy_ok_def activation_ok_def)
    qed (use Inr in \<open>simp add: materializedPolicy_def\<close>)
  qed (use current_activation [OF ok, of repo] in simp)
qed

theorem authority_store_consistent_witness:
  "\<exists>r s p. Activate sha0 activation_deps activation_request (empty_store [] []) = (Inr r, s) \<and> ar_Effective r \<and> materializedPolicy sha0 repo0 s = Inr (Some p)"
proof -
  obtain r s where a: "Activate sha0 activation_deps activation_request (empty_store [] []) = (Inr r, s)" "ar_Effective r"
    and c: "CurrentActivation repo0 s = Inr (Some (ar_Record r))"
    using enabled_succeeds [OF empty_store_ok _ test_enabled, of "[]"] test_workspace by (auto simp: empty_store_def ws0_def)
  have "verification_run sha0 (empty_store [] []) s"
    unfolding verification_run_def using verification_step.activate [OF a(1)] by blast
  from authority_store_consistent [OF this, of repo0] obtain current where m: "materializedPolicy sha0 repo0 s = Inr current" by auto
  then have "current \<noteq> None" using c by (auto simp: materializedPolicy_def Let_def split: option.splits if_splits)
  with a m show ?thesis by auto
qed

text \<open>
  C7: A revocation is final.  Once a revocation is stored, no later run of the service, whatever it
  activates or sets, makes the revoked waiver active again: the active waivers of a workspace of that
  repository never contain it.
\<close>

theorem revocation_is_final:
  assumes "stored (vs_revocations s repo) k = Some v" "verification_run sha s s'" "find_workspace d (sp_WorkspaceID scope) = Inr ws" "wk_RepositoryID ws = repo"
  shows "\<forall>waivers. ActiveWaivers d now scope s' = Inr waivers \<longrightarrow> rv_WaiverID v \<notin> wv_WaiverID ` set waivers"
proof (intro allI impI notI)
  fix waivers assume act: "ActiveWaivers d now scope s' = Inr waivers" and "rv_WaiverID v \<in> wv_WaiverID ` set waivers"
  then obtain w where w: "w \<in> set waivers" "wv_WaiverID w = rv_WaiverID v" by auto
  obtain x ws' rs where l: "ListWaivers repo s' = Inr (ws', rs)" "waiver_active now x (map rv_WaiverID rs) scope w"
    using active_waiver [OF act w(1)] assms(3,4) by auto
  have "map_of (vs_revocations s' repo) k = Some (Good v)"
    using assms(1) verification_run_kept [OF assms(2)] by (simp add: stored_Some records_kept_def files_kept_def)
  then have "v \<in> set rs" using ListWaivers_files(2) [OF l(1)] by blast
  then show False using waiver_active_unrevoked [OF l(2)] w(2) by (metis image_eqI)
qed

definition test_revocation :: WaiverRevocation where
  "test_revocation = \<lparr>rv_SchemaVersion = 1, rv_WaiverID = ''wv_1'', rv_IntentFingerprint = ''ifp_'' @ zeros 64, rv_Authority = AuthorityExplicitCaller,
     rv_Actor = ''dev'', rv_RevokedAt = 2\<rparr>"

definition revoked_store :: VerificationStore where
  "revoked_store = test_store\<lparr>vs_waivers := (\<lambda>_. [(''wv_1'', Good test_waiver)]), vs_revocations := (\<lambda>_. [(''wv_1'', Good test_revocation)])\<rparr>"

definition set_request :: SetWaiverRequest where
  "set_request = \<lparr>sw_WaiverID = ''wv_1'', sw_WorkspaceID = wk_ID ws0, sw_PolicyDigest = pol0, sw_RuleID = ''r1'', sw_Phase = PhasePreMerge, sw_Generation = [],
     sw_CheckpointID = [], sw_Authority = AuthorityExplicitCaller, sw_Actor = ''dev'', sw_Reason = ''known'', sw_ExpiresAt = 0, sw_ExpiresPhase = OtherVerificationPhase []\<rparr>"

definition test_scope :: WaiverScope where
  "test_scope = \<lparr>sp_WorkspaceID = wk_ID ws0, sp_Phase = PhasePreMerge, sp_Generation = gen0, sp_CheckpointID = []\<rparr>"

lemma repeated_waiver_unchanged: "snd (SetWaiver sha0 activation_deps 5 set_request revoked_store) = revoked_store"
proof -
  have "findWaiverUnlocked repo0 ''wv_1'' revoked_store = Inr (Some test_waiver)"
    by (simp add: findWaiverUnlocked_def find_strict_def readStrict_def readPrivateJSON_def revoked_store_def test_waiver_def IsZero_def)
  then show ?thesis using test_workspace
    by (simp add: SetWaiver_def PutWaiver_def set_request_def activation_request_def waiver_intent_def ws0_def split: option.split sum.split)
qed

theorem revocation_is_final_witness:
  "\<exists>waivers. ActiveWaivers activation_deps 5 test_scope (snd (SetWaiver sha0 activation_deps 5 set_request revoked_store)) = Inr waivers \<and>
     ''wv_1'' \<notin> wv_WaiverID ` set waivers"
proof -
  have v: "stored (vs_revocations revoked_store repo0) ''wv_1'' = Some test_revocation" by (simp add: revoked_store_def stored_def)
  have w: "find_workspace activation_deps (sp_WorkspaceID test_scope) = Inr ws0" using test_workspace by (simp add: test_scope_def activation_request_def)
  have "verification_step sha0 revoked_store (snd (SetWaiver sha0 activation_deps 5 set_request revoked_store))"
    by (rule verification_step.set_waiver [OF prod.collapse [symmetric]])
  then have "verification_run sha0 revoked_store (snd (SetWaiver sha0 activation_deps 5 set_request revoked_store))" unfolding verification_run_def by blast
  from revocation_is_final [OF v this w, of 5]
  have final: "\<forall>waivers. ActiveWaivers activation_deps 5 test_scope revoked_store = Inr waivers \<longrightarrow> ''wv_1'' \<notin> wv_WaiverID ` set waivers"
    by (simp add: ws0_def test_revocation_def repeated_waiver_unchanged)
  have "\<exists>a. CurrentActivation repo0 revoked_store = Inr (Some a)"
    by (simp add: CurrentActivation_def readEffectiveUnlocked_def findActivationUnlocked_def find_strict_def readStrict_def readPrivateJSON_def store_with_def
        revoked_store_def pol0_def IsZero_def zeros_def)
  moreover have "\<exists>x. ListWaivers repo0 revoked_store = Inr x"
    by (simp add: ListWaivers_def list_strict_def ReadDir_def readStrict_def readPrivateJSON_def revoked_store_def)
  ultimately have "\<exists>waivers. ActiveWaivers activation_deps 5 test_scope revoked_store = Inr waivers" using w by (auto simp: ActiveWaivers_def ws0_def)
  then show ?thesis unfolding repeated_waiver_unchanged using final by blast
qed



definition pol1 :: string where
  "pol1 = ''pol_'' @ replicate 64 (CHR ''1'')"

definition recorded :: "string \<Rightarrow> string \<Rightarrow> string \<Rightarrow> PolicyActivation" where
  "recorded i previous proposed = \<lparr>av_SchemaVersion = 1, av_ActivationID = i, av_IntentFingerprint = ''ifp_'' @ zeros 64, av_RepositoryID = repo0,
     av_PreviousEffectiveDigest = previous, av_ProposedPolicyDigest = proposed, av_ProposalOrigin = ProposalRepositoryAuthored, av_ProfileOrigin = [],
     av_ProposalGeneration = ''gen_'' @ replicate 64 (CHR ''1''), av_ActivationGeneration = gen0, av_Authority = AuthorityExplicitCaller, av_Actor = ''dev'', av_ActivatedAt = 1\<rparr>"

text \<open>Policy 0 was activated, then policy 1, then policy 0 again.\<close>

definition rolled_back :: VerificationStore where
  "rolled_back = test_store\<lparr>vs_activations := (\<lambda>_. [(''act_1'', Good (recorded ''act_1'' ''absent'' pol0)), (''act_2'', Good (recorded ''act_2'' pol0 pol1)),
     (''act_3'', Good (recorded ''act_3'' pol1 pol0))]), vs_effective := [(repo0, Good \<lparr>ei_SchemaVersion = 1, ei_ActivationID = ''act_3'', ei_PolicyDigest = pol0\<rparr>)]\<rparr>"

definition second_commit :: PolicyActivationCommit where
  "second_commit = \<lparr>ac_Intent = \<lparr>ai_ActivationID = ''act_2'', ai_RepositoryID = repo0, ai_PreviousEffectiveDigest = pol0, ai_ProposedPolicyDigest = pol1,
     ai_ProposalGeneration = ''gen_'' @ replicate 64 (CHR ''1''), ai_Authority = AuthorityExplicitCaller, ai_Actor = ''dev''\<rparr>,
     ac_ProposalOrigin = ProposalRepositoryAuthored, ac_ProfileOrigin = [], ac_ActivationGeneration = gen0\<rparr>"



end
