(* ===== verification/VerificationProps.thy ===== *)
theory VerificationProps
  imports VerificationExample
begin

text \<open>
  Properties of the verification gate: a clear gate is justified, rule by rule, by an active waiver
  or by evidence.
\<close>

section \<open>Derived obligations\<close>

definition demanded :: "AffectedSurface \<Rightarrow> string \<Rightarrow> VerificationPhase \<Rightarrow> Rule \<Rightarrow> bool" where
  "demanded surface digest phase rule \<longleftrightarrow> ru_Required rule \<and> phase \<in> set (ru_Phases rule) \<and>
     \<not> sl_provenNonMatch (evaluateRuleSelectors surface digest rule)"

lemma deriveRule_demanded:
  assumes "deriveRule sha commands req digest rule = Inr (obl, ds)" "demanded (oq_Surface req) digest (oq_Phase req) rule"
  shows "VerificationObligation_Validate obl = None"
    and "vo_AppliesToGeneration obl = sf_SourceGeneration (oq_Surface req)"
    and "vo_EvidenceRequirements obl = map (fst \<circ> bind_requirement commands (oq_WorkspaceID req) rule) (sort_key er_ID (ru_Evidence rule))"
    and "vo_Disposition obl = DispositionRequiredNow \<or> vo_Disposition obl = DispositionWaived \<and>
      (\<exists>w. matchingWaiver (oq_ActiveWaivers req) (sf_RepositoryID (oq_Surface req)) digest (ru_ID rule) (oq_Phase req) (sf_SourceGeneration (oq_Surface req)) = Some w)"
proof -
  have d: "ruleDisposition rule (oq_Phase req) (evaluateRuleSelectors (oq_Surface req) digest rule) = (oq_Phase req, DispositionRequiredNow)"
    using assms(2) by (simp add: ruleDisposition_def demanded_def Let_def)
  show "VerificationObligation_Validate obl = None" using assms(1) by (auto simp: deriveRule_def Let_def split: prod.splits)
  show "vo_AppliesToGeneration obl = sf_SourceGeneration (oq_Surface req)"
    "vo_EvidenceRequirements obl = map (fst \<circ> bind_requirement commands (oq_WorkspaceID req) rule) (sort_key er_ID (ru_Evidence rule))"
    "vo_Disposition obl = DispositionRequiredNow \<or> vo_Disposition obl = DispositionWaived \<and>
      (\<exists>w. matchingWaiver (oq_ActiveWaivers req) (sf_RepositoryID (oq_Surface req)) digest (ru_ID rule) (oq_Phase req) (sf_SourceGeneration (oq_Surface req)) = Some w)"
    using assms(1) by (auto simp: deriveRule_def d apply_waiver_def bindEvidence_def Let_def split: prod.splits option.splits)
qed

lemma Derive_obligations:
  assumes "Derive sha commands req = Inr x" "rule \<in> set (pc_Rules (pn_Content (mp_Snapshot (oq_Policy req))))"
  shows "\<exists>obl \<in> set (ox_Obligations x). \<exists>ds. deriveRule sha commands req (pn_Digest (mp_Snapshot (oq_Policy req))) rule = Inr (obl, ds)"
proof -
  let ?rules = "pc_Rules (pn_Content (mp_Snapshot (oq_Policy req)))" and ?digest = "pn_Digest (mp_Snapshot (oq_Policy req))"
  obtain rs where rs: "map (deriveRule sha commands req ?digest) (sort_key ru_ID ?rules) = map Inr rs" and x: "ox_Obligations x = map fst rs"
    using assms(1) by (auto simp: Derive_def Let_def collect_Inr reject_def split: sum.splits if_splits)
  have "deriveRule sha commands req ?digest rule \<in> Inr ` set rs"
    using rs assms(2) by (metis (mono_tags, lifting) image_eqI image_set set_sort)
  then show ?thesis using x by force
qed

section \<open>Waivers\<close>

text \<open>A stored waiver of a rule that is neither revoked nor expired, for the phase and the generation.\<close>

definition waived :: "PolicyDependencies \<Rightarrow> time \<Rightarrow> InspectRequest \<Rightarrow> string \<Rightarrow> string \<Rightarrow> VerificationStore \<Rightarrow> string \<Rightarrow> bool" where
  "waived d now req digest generation s rule \<longleftrightarrow>
     (\<exists>ws k w. find_workspace d (iq_WorkspaceID req) = Inr ws \<and> map_of (vs_waivers s (wk_RepositoryID ws)) k = Some (Good w) \<and>
       wv_RuleID w = rule \<and> wv_PolicyDigest w = digest \<and> wv_Phase w = iq_Phase req \<and> (wv_Generation w = [] \<or> wv_Generation w = generation) \<and>
       wv_CheckpointID w = [] \<and> (IsZero (wv_ExpiresAt w) \<or> now < wv_ExpiresAt w) \<and>
       (\<forall>i v. map_of (vs_revocations s (wk_RepositoryID ws)) i = Some (Good v) \<longrightarrow> rv_WaiverID v \<noteq> wv_WaiverID w))"

lemma active_waiver_waived:
  assumes "ActiveWaivers d now \<lparr>sp_WorkspaceID = iq_WorkspaceID req, sp_Phase = iq_Phase req, sp_Generation = generation, sp_CheckpointID = []\<rparr> s = Inr waivers"
    and "matchingWaiver waivers repo digest rule (iq_Phase req) generation = Some w"
  shows "waived d now req digest generation s rule"
proof -
  have w: "w \<in> set waivers" "wv_RuleID w = rule" "wv_PolicyDigest w = digest"
    using find_Some_iff_mem [OF assms(2) [unfolded matchingWaiver_def]] by auto
  from active_waiver [OF assms(1) w(1)] obtain ws x ws' rs where *:
    "find_workspace d (iq_WorkspaceID req) = Inr ws" "ListWaivers (wk_RepositoryID ws) s = Inr (ws', rs)" "w \<in> set ws'"
    "waiver_active now x (map rv_WaiverID rs) \<lparr>sp_WorkspaceID = iq_WorkspaceID req, sp_Phase = iq_Phase req, sp_Generation = generation, sp_CheckpointID = []\<rparr> w"
    by auto
  obtain k where "map_of (vs_waivers s (wk_RepositoryID ws)) k = Some (Good w)" using ListWaivers_files(1) [OF *(2)] *(3) by blast
  moreover have "rv_WaiverID v \<noteq> wv_WaiverID w" if "map_of (vs_revocations s (wk_RepositoryID ws)) i = Some (Good v)" for i v
    using waiver_active_unrevoked [OF *(4)] ListWaivers_files(2) [OF *(2), of v] that by (metis image_eqI)
  moreover have "wv_Phase w = iq_Phase req" "wv_Generation w = [] \<or> wv_Generation w = generation" "wv_CheckpointID w = []"
    "IsZero (wv_ExpiresAt w) \<or> now < wv_ExpiresAt w"
    using *(4) by (auto simp: waiver_active_def)
  ultimately show ?thesis unfolding waived_def using *(1) w(2,3) by blast
qed

section \<open>A clear gate\<close>

text \<open>Recording the evaluations keeps the identity and the disposition of every obligation.\<close>

definition obligation_key :: "VerificationObligation \<Rightarrow> string \<times> ObligationDisposition" where
  "obligation_key o' = (vo_ObligationID o', vo_Disposition o')"

lemma applyObligationEvaluation_kept: "map obligation_key (applyObligationEvaluation os e) = map obligation_key os"
  by (induction os) (auto simp: obligation_key_def)

lemma applied_evaluations_kept: "map obligation_key (foldl applyObligationEvaluation os es) = map obligation_key os"
  by (induction es arbitrary: os) (simp_all add: applyObligationEvaluation_kept)

lemma applied_evaluations_distinct:
  "distinct (map vo_ObligationID (foldl applyObligationEvaluation os es)) \<longleftrightarrow> distinct (map vo_ObligationID os)"
  using arg_cong [OF applied_evaluations_kept, of "map fst" os es] by (simp add: o_def obligation_key_def)

lemma applied_same:
  assumes "o' \<in> set os"
  shows "\<exists>x \<in> set (foldl applyObligationEvaluation os es). vo_ObligationID x = vo_ObligationID o' \<and> vo_Disposition x = vo_Disposition o'"
proof -
  have "obligation_key o' \<in> set (map obligation_key (foldl applyObligationEvaluation os es))"
    using assms by (simp add: applied_evaluations_kept del: set_map) simp
  then show ?thesis by (auto simp: obligation_key_def)
qed

lemma evaluation_map_of:
  assumes "distinct (map vo_ObligationID os)" "\<And>o'. oe_ObligationID (f o') = vo_ObligationID o'" "o' \<in> set os"
  shows "evaluation_map (map f os) (vo_ObligationID o') = Some (f o')"
proof -
  have "distinct (map fst (map (\<lambda>e. (oe_ObligationID e, e)) (map f os)))" using assms(1,2) by (simp add: o_def)
  then have "distinct (map fst (rev (map (\<lambda>e. (oe_ObligationID e, e)) (map f os))))" by (metis distinct_rev rev_map)
  then show ?thesis using assms(2,3) unfolding evaluation_map_def by (intro map_of_is_SomeI) auto
qed

lemma gate_clear_contributions:
  assumes "FoldGate sha obls evals = Inr g" "ge_Status g = GateClear" "o' \<in> set obls"
  shows "contribution evals o' \<in> {Met, Waived, Skipped}"
proof -
  have "\<nexists>st. Blocks st \<in> set (map (contribution evals) obls)" "\<nexists>st. Undecided st \<in> set (map (contribution evals) obls)"
    using assms(1,2) by (auto simp: FoldGate_reference reference_gate_def split: if_splits)
  then show ?thesis using assms(3) by (cases "contribution evals o'") (auto simp: image_iff, metis+)
qed

lemma satisfied_results:
  assumes "foldRequirementStatuses rs = EvidenceSatisfied" "\<forall>r \<in> set rs. EvidenceStatus_Validate (rx_Status r) = None"
  shows "rs \<noteq> [] \<and> (\<forall>r \<in> set rs. rx_Status r = EvidenceSatisfied)"
proof -
  have "rs \<noteq> []" "set (map rx_Status rs) \<inter> {EvidenceFailed, EvidenceInconsistent, EvidenceInsufficient, EvidenceUnavailable, EvidenceUnknown, EvidenceNotEvaluated} = {}"
    using assms(1) by (auto simp: foldRequirementStatuses_def split: if_splits)
  moreover have "rx_Status r = EvidenceSatisfied" if "r \<in> set rs" for r
    using imageI [OF that, of rx_Status] calculation(2) bspec [OF assms(2) that] by (cases "rx_Status r") auto
  ultimately show ?thesis by blast
qed

lemma valid_evaluation_results:
  assumes "ObligationEvaluation_Validate sha e = None" "r \<in> set (oe_RequirementResults e)"
  shows "EvidenceStatus_Validate (rx_Status r) = None"
proof -
  have "RequirementEvaluation_Validate sha r = None" using assms by (auto simp: ObligationEvaluation_Validate_def list_all_iff)
  then show ?thesis by (simp add: RequirementEvaluation_Validate_def Let_def)
qed

lemma satisfied_obligation:
  assumes "ObligationEvaluation_Validate sha (EvaluateObligation sha obl cands providers current quiescence) = None"
    and "oe_EvidenceStatus (EvaluateObligation sha obl cands providers current quiescence) = EvidenceSatisfied"
  shows "vo_EvidenceRequirements obl \<noteq> [] \<and>
    (\<forall>b \<in> set (vo_EvidenceRequirements obl). supported (vo_AppliesToGeneration obl) b cands current quiescence)"
proof -
  let ?rs = "map (\<lambda>b. evaluateRequirement sha obl b cands providers current quiescence) (vo_EvidenceRequirements obl)"
  have "foldRequirementStatuses ?rs = EvidenceSatisfied"
    using assms(2) by (auto simp: EvaluateObligation_def Let_def split: if_splits)
  moreover have "\<forall>r \<in> set ?rs. EvidenceStatus_Validate (rx_Status r) = None"
    using assms valid_evaluation_results [OF assms(1)] by (auto simp: EvaluateObligation_def Let_def split: if_splits)
  ultimately have "?rs \<noteq> [] \<and> (\<forall>r \<in> set ?rs. rx_Status r = EvidenceSatisfied)" by (rule satisfied_results)
  moreover have "supported (vo_AppliesToGeneration obl) b cands current quiescence"
    if "rx_Status (evaluateRequirement sha obl b cands providers current quiescence) = EvidenceSatisfied" for b
    using that requirement_satisfied [where sha = sha and providers = providers] by (auto simp: evaluateRequirement_def Let_def split: prod.splits)
  ultimately show ?thesis by auto
qed


text \<open>What the inspection reads of the environment and of quiescence.\<close>

definition environment_read :: "InspectSources \<Rightarrow> EnvironmentBinding option \<Rightarrow> bool" where
  "environment_read src env \<longleftrightarrow> env = None \<or> is_environment src = Some (Inr env)"

definition observations_read :: "InspectSources \<Rightarrow> string \<Rightarrow> (string \<times> QuiescenceObservation) list \<Rightarrow> bool" where
  "observations_read src ws qs \<longleftrightarrow> (\<forall>(op, q) \<in> set qs. \<exists>observe session. is_quiescence src = Some observe \<and> observe op session ws = Inr (Some q))"

lemma environment_read: "environment_read src (readCurrentEnvironment src obls)"
  by (auto simp: environment_read_def readCurrentEnvironment_def split: option.splits sum.splits)

lemma read_quiescence_observed:
  "(op, q) \<in> set (read_quiescence observe ws obls cs seen) \<Longrightarrow> \<exists>session. observe op session ws = Inr (Some q)"
  by (induction cs arbitrary: seen) (auto split: if_splits sum.splits option.splits)

lemma observations_read: "observations_read src ws (readQuiescence src ws obls cands)"
  by (cases "is_quiescence src") (auto simp: observations_read_def readQuiescence_def dest: read_quiescence_observed)

text \<open>An obligation of a clear gate is waived or its evidence satisfied.\<close>

lemma clear_gate_obligation:
  assumes gate: "FoldGate sha (foldl applyObligationEvaluation obls es) (evaluation_map es) = Inr g" "ge_Status g = GateClear"
    and es: "es = evaluate_all sha src ws (applicableObligations obls)" and obl: "obl \<in> set obls" "vo_Disposition obl = DispositionRequiredNow"
  shows "\<exists>env qs. environment_read src env \<and> observations_read src ws qs \<and> vo_EvidenceRequirements obl \<noteq> [] \<and>
    (\<forall>b \<in> set (vo_EvidenceRequirements obl). supported (vo_AppliesToGeneration obl) b (readInspectionCandidates src) env qs)"
proof -
  let ?os = "applicableObligations obls" and ?cands = "readInspectionCandidates src"
  define env where "env = readCurrentEnvironment src ?os"
  define qs where "qs = readQuiescence src ws ?os ?cands"
  define f where "f = (\<lambda>o'. EvaluateObligation sha o' ?cands [] env qs)"
  have es: "es = map f ?os" by (simp add: es evaluate_all_def f_def env_def qs_def Let_def)
  have ok: "gate_inputs_ok sha (foldl applyObligationEvaluation obls es) (evaluation_map es)" using gate(1) by (simp add: FoldGate_reference)
  then have "distinct (map vo_ObligationID obls)" by (simp add: gate_inputs_ok_def applied_evaluations_distinct)
  then have dist: "distinct (map vo_ObligationID ?os)" by (simp add: applicableObligations_def distinct_map_filter)
  have mem: "obl \<in> set ?os" using obl by (simp add: applicableObligations_def)
  have e: "evaluation_map es (vo_ObligationID obl) = Some (f obl)"
    unfolding es by (rule evaluation_map_of [OF dist _ mem]) (simp add: f_def EvaluateObligation_id)
  obtain o' where o': "o' \<in> set (foldl applyObligationEvaluation obls es)" "vo_ObligationID o' = vo_ObligationID obl" "vo_Disposition o' = vo_Disposition obl"
    using applied_same [OF obl(1)] by blast
  then have "contribution (evaluation_map es) obl = contribution (evaluation_map es) o'" by (simp only: contribution_def)
  then have "contribution (evaluation_map es) obl \<in> {Met, Waived, Skipped}" using gate_clear_contributions [OF gate o'(1)] by simp
  then have sat: "oe_EvidenceStatus (f obl) = EvidenceSatisfied"
    using obl(2) e by (cases "oe_EvidenceStatus (f obl)") (auto simp: contribution_def)
  have "ObligationEvaluation_Validate sha (f obl) = None"
    using ok o' e obl(2) by (auto simp: gate_inputs_ok_def applicable_def)
  from satisfied_obligation [OF this [unfolded f_def] sat [unfolded f_def]] show ?thesis
    using environment_read observations_read unfolding env_def qs_def by blast
qed


lemma sort_key_Nil: "sort_key f xs = [] \<longleftrightarrow> xs = []"
  by (metis set_empty set_sort)

text \<open>What the inspection went through when its gate is clear.\<close>

lemma clear_inspection:
  assumes "Inspect sha d src now req s = Inr insp" "ge_Status (in_Gate insp) = GateClear"
  obtains ws surface m summary classified waivers derived g where
    "is_workspace src = Inr ws" "is_affected src = Inr surface" "materializedPolicy sha (wk_RepositoryID ws) s = Inr (Some (m, summary))"
    "ApplyEffectiveClassifications sha surface m = Inr classified"
    "ActiveWaivers d now \<lparr>sp_WorkspaceID = iq_WorkspaceID req, sp_Phase = iq_Phase req, sp_Generation = sf_SourceGeneration classified, sp_CheckpointID = []\<rparr> s = Inr waivers"
    "Derive sha (pd_commands d) \<lparr>oq_WorkspaceID = iq_WorkspaceID req, oq_Phase = iq_Phase req, oq_Policy = m, oq_Surface = classified, oq_ActiveWaivers = waivers\<rparr> = Inr derived"
    "FoldGate sha (foldl applyObligationEvaluation (ox_Obligations derived) (evaluate_all sha src (iq_WorkspaceID req) (applicableObligations (ox_Obligations derived))))
       (evaluation_map (evaluate_all sha src (iq_WorkspaceID req) (applicableObligations (ox_Obligations derived)))) = Inr g"
    "ge_Status g = GateClear"
proof -
  obtain ws surface effective where 1: "is_workspace src = Inr ws" "is_affected src = Inr surface"
    "materializedPolicy sha (wk_RepositoryID ws) s = Inr effective"
    using assms(1) by (auto simp: Inspect_def)
  obtain m summary where m: "effective = Some (m, summary)"
    using assms 1 by (cases effective) (auto simp: Inspect_def GateForPolicyState_def Let_def split: option.splits)
  show ?thesis
    using assms 1 m by (auto simp: Inspect_def GateForPolicyState_def Let_def intro: that [OF 1(1,2) 1(3) [unfolded m]])
qed

lemma Derive_digest:
  "Derive sha commands req = Inr x \<Longrightarrow> VerificationPolicyDigest sha (pn_Content (mp_Snapshot (oq_Policy req))) = Inr (pn_Digest (mp_Snapshot (oq_Policy req)))"
  by (auto simp: Derive_def Let_def split: sum.splits)

text \<open>
  C2: A clear gate is justified.  When the inspection of a workspace reports a clear gate, an approved
  policy is in force, and every rule of it that the phase demands (a required rule of this phase that
  the affected surface does not prove irrelevant) is either waived, by a stored waiver of that rule
  for this policy and phase that is neither revoked nor expired, or has evidence requirements and each
  of them is supported: there are candidates with known and sufficient authority, bound to the
  required provider or project command, current where that is required and of the current environment
  where that is required; their results pass or satisfy the flake protocol; the history is complete;
  and the operations are quiescent where that is required.
\<close>

theorem clear_gate_is_justified:
  assumes "Inspect sha d src now req s = Inr insp" "ge_Status (in_Gate insp) = GateClear"
  shows "\<exists>ws surface m summary classified. is_workspace src = Inr ws \<and> is_affected src = Inr surface \<and>
    materializedPolicy sha (wk_RepositoryID ws) s = Inr (Some (m, summary)) \<and> ApplyEffectiveClassifications sha surface m = Inr classified \<and>
    (\<forall>rule \<in> set (pc_Rules (pn_Content (mp_Snapshot m))). demanded classified (pn_Digest (mp_Snapshot m)) (iq_Phase req) rule \<longrightarrow>
       waived d now req (pn_Digest (mp_Snapshot m)) (sf_SourceGeneration classified) s (ru_ID rule) \<or>
       (\<exists>env qs. environment_read src env \<and> observations_read src (iq_WorkspaceID req) qs \<and> ru_Evidence rule \<noteq> [] \<and>
          (\<forall>e \<in> set (ru_Evidence rule). supported (sf_SourceGeneration classified)
             (fst (bind_requirement (pd_commands d) (iq_WorkspaceID req) rule e)) (readInspectionCandidates src) env qs)))"
proof -
  from clear_inspection [OF assms] obtain ws surface m summary classified waivers derived g where *:
    "is_workspace src = Inr ws" "is_affected src = Inr surface" "materializedPolicy sha (wk_RepositoryID ws) s = Inr (Some (m, summary))"
    "ApplyEffectiveClassifications sha surface m = Inr classified"
    "ActiveWaivers d now \<lparr>sp_WorkspaceID = iq_WorkspaceID req, sp_Phase = iq_Phase req, sp_Generation = sf_SourceGeneration classified, sp_CheckpointID = []\<rparr> s = Inr waivers"
    "Derive sha (pd_commands d) \<lparr>oq_WorkspaceID = iq_WorkspaceID req, oq_Phase = iq_Phase req, oq_Policy = m, oq_Surface = classified, oq_ActiveWaivers = waivers\<rparr> = Inr derived"
    "FoldGate sha (foldl applyObligationEvaluation (ox_Obligations derived) (evaluate_all sha src (iq_WorkspaceID req) (applicableObligations (ox_Obligations derived))))
       (evaluation_map (evaluate_all sha src (iq_WorkspaceID req) (applicableObligations (ox_Obligations derived)))) = Inr g"
    "ge_Status g = GateClear" by blast
  let ?digest = "pn_Digest (mp_Snapshot m)"
  have "waived d now req ?digest (sf_SourceGeneration classified) s (ru_ID rule) \<or>
       (\<exists>env qs. environment_read src env \<and> observations_read src (iq_WorkspaceID req) qs \<and> ru_Evidence rule \<noteq> [] \<and>
          (\<forall>e \<in> set (ru_Evidence rule). supported (sf_SourceGeneration classified)
             (fst (bind_requirement (pd_commands d) (iq_WorkspaceID req) rule e)) (readInspectionCandidates src) env qs))"
    if mem: "rule \<in> set (pc_Rules (pn_Content (mp_Snapshot m)))" and dem: "demanded classified ?digest (iq_Phase req) rule" for rule
  proof -
    obtain obl ds where obl: "obl \<in> set (ox_Obligations derived)" and der: "deriveRule sha (pd_commands d)
        \<lparr>oq_WorkspaceID = iq_WorkspaceID req, oq_Phase = iq_Phase req, oq_Policy = m, oq_Surface = classified, oq_ActiveWaivers = waivers\<rparr> ?digest rule = Inr (obl, ds)"
      using Derive_obligations [OF *(6), simplified, OF mem] by blast
    note o' = deriveRule_demanded [OF der, simplified, OF dem]
    show ?thesis
    proof (cases "vo_Disposition obl = DispositionRequiredNow")
      case True
      from clear_gate_obligation [OF *(7,8) refl obl True] show ?thesis by (auto simp: o'(2,3) sort_key_Nil)
    next
      case False
      then show ?thesis using o'(4) active_waiver_waived [OF *(5)] by blast
    qed
  qed
  with * show ?thesis by blast
qed

theorem clear_gate_is_justified_witness:
  "\<exists>insp. Inspect sha0 test_deps test_sources 5 test_request test_store = Inr insp \<and> ge_Status (in_Gate insp) = GateClear \<and>
    (\<exists>ws surface m summary classified. is_workspace test_sources = Inr ws \<and> is_affected test_sources = Inr surface \<and>
      materializedPolicy sha0 (wk_RepositoryID ws) test_store = Inr (Some (m, summary)) \<and> ApplyEffectiveClassifications sha0 surface m = Inr classified)"
proof -
  obtain insp where *: "Inspect sha0 test_deps test_sources 5 test_request test_store = Inr insp" "ge_Status (in_Gate insp) = GateClear"
    by (rule test_inspection)
  from clear_gate_is_justified [OF *] * show ?thesis by blast
qed

text \<open>
  C13: The gate is a function of what each obligation contributes.  The fold over the obligations
  succeeds exactly when every obligation is valid, their identifiers differ and every applicable one
  has a valid evaluation of its own; the gate is then blocked if the evidence of a required obligation
  failed, is insufficient or inconsistent, otherwise indeterminate if the evidence of one is not
  decided, and otherwise clear; its counts are the numbers of contributions of each kind, and its
  reasons the set of reasons of those that are not met, sorted.
\<close>

theorem gate_is_reference:
  "FoldGate sha obls evals = Inr g \<longleftrightarrow> gate_inputs_ok sha obls evals \<and> g = reference_gate (map (contribution evals) obls)"
  by (rule FoldGate_reference)

end
