(* ===== verification/VerificationLimits.thy ===== *)
theory VerificationLimits
  imports VerificationProps "HOL-Library.Multiset"
begin

text \<open>
  Quiescence and the identity of policies, and the limits of the inspection: waivers that it never
  applies, and policies and changes for which it fails.
\<close>

section \<open>Quiescence\<close>

lemma normalizeResourceRefs_set [simp]: "set (normalizeResourceRefs refs) = set refs"
  by (simp add: normalizeResourceRefs_def)

lemma normalizeResourceRefs_Nil [simp]: "normalizeResourceRefs refs = [] \<longleftrightarrow> refs = []"
  by (metis normalizeResourceRefs_set set_empty)

text \<open>The key of a valid reference determines it, because neither part contains the separator.\<close>

lemma resourceRefKey_inj:
  assumes "ResourceRef_Validate r = None"
  shows "resourceRefKey r \<in> resourceRefSet refs \<longleftrightarrow> r \<in> set refs"
proof -
  have kind: "rf_Kind r \<in> {''process'', ''port'', ''persistent_session''}" and ref: "list_all (\<lambda>c. c \<notin> {CHR 0x0D, CHR 0x0A, CHR 0x00}) (rf_Ref r)"
    using assms by (simp_all add: ResourceRef_Validate_def)
  have r: "CHR 0x00 \<notin> set (rf_Kind r)" "CHR 0x00 \<notin> set (rf_Ref r)"
    using kind by (elim insertE; simp) (use ref in \<open>simp add: list_all_iff, blast\<close>)
  have "resourceRefKey r = resourceRefKey x \<longleftrightarrow> rf_Kind r = rf_Kind x \<and> rf_Ref r = rf_Ref x" for x
    unfolding resourceRefKey_def by (rule append_Cons_eq_iff [OF r])
  then have "resourceRefKey r = resourceRefKey x \<longleftrightarrow> r = x" for x by (metis ResourceRef.equality old.unit.exhaust)
  then show ?thesis unfolding resourceRefSet_def set_map by (metis image_iff)
qed

text \<open>
  C39: An operation counts as quiescent only on a qualified proof.  The reconciled observation is
  complete exactly when no cleanup is incomplete and there is a lifecycle observation that is valid,
  qualified and complete, reports nothing unexpected, and every resource it saw alive is a persistent
  session that the observation declares transferred and that is allowed to be.
\<close>

theorem quiescence_complete_iff:
  "qo_Status (ReconcileQuiescence now i) = QuiescenceComplete \<longleftrightarrow>
     \<not> qi_CleanupIncomplete i \<and>
     (\<exists>l. qi_Lifecycle i = Some l \<and>
        QuiescenceObservation_Validate (l\<lparr>qo_LiveResources := normalizeResourceRefs (qo_LiveResources l), qo_Transferred := normalizeResourceRefs (qo_Transferred l),
          qo_Unexpected := normalizeResourceRefs (qo_Unexpected l)\<rparr>) = None \<and>
        qo_Quality l = ''qualified_lifecycle'' \<and> qo_Status l = QuiescenceComplete \<and> qo_Unexpected l = [] \<and>
        set (qo_LiveResources l) \<subseteq> {live. rf_Kind live = ''persistent_session''} \<inter> set (qo_Transferred l) \<inter> set (qi_AllowedTransfers i))"
proof (cases "qi_Lifecycle i")
  case (Some l)
  let ?l = "l\<lparr>qo_LiveResources := normalizeResourceRefs (qo_LiveResources l), qo_Transferred := normalizeResourceRefs (qo_Transferred l),
    qo_Unexpected := normalizeResourceRefs (qo_Unexpected l)\<rparr>"
  have key: "resourceRefKey live \<in> resourceRefSet refs \<longleftrightarrow> live \<in> set refs" if "QuiescenceObservation_Validate ?l = None" "live \<in> set (qo_LiveResources l)" for live refs
    using that by (intro resourceRefKey_inj) (auto simp: QuiescenceObservation_Validate_def)
  show ?thesis
  proof (cases "qi_CleanupIncomplete i \<or> QuiescenceObservation_Validate ?l \<noteq> None \<or> qo_Quality l \<noteq> ''qualified_lifecycle'' \<or> qo_Status l \<noteq> QuiescenceComplete")
    case True
    then show ?thesis by (auto simp: ReconcileQuiescence_def Some quiescence_only_def Let_def)
  next
    case False
    then show ?thesis
      using key by (auto simp: ReconcileQuiescence_def Some Let_def filter_empty_conv)
  qed
qed (simp add: ReconcileQuiescence_def quiescence_only_def)

section \<open>The identity of a policy\<close>

lemma classifier_errors_iff:
  "classifier_errors seen cs = None \<longleftrightarrow> (\<forall>c \<in> set cs. classifier_errors [] [c] = None) \<and> distinct (map cl_ID cs) \<and> set (map cl_ID cs) \<inter> set seen = {}"
  by (induction cs arbitrary: seen) auto

lemma rule_errors_iff:
  "rule_errors seen rs = None \<longleftrightarrow> (\<forall>r \<in> set rs. Rule_Validate r = None) \<and> distinct (map ru_ID rs) \<and> set (map ru_ID rs) \<inter> set seen = {}"
  by (induction rs arbitrary: seen) auto

lemma sort_key_mset: "mset xs = mset ys \<Longrightarrow> distinct (map f xs) \<Longrightarrow> sort_key f xs = sort_key f ys"
  by (intro sort_key_inj_key_eq) (auto simp: distinct_map)

text \<open>
  C40: The digest of a policy does not depend on the order in which its classifiers and rules are
  written: two policies that differ only in it are valid together and have the same digest.
\<close>

theorem policy_digest_order:
  assumes "PolicyContent_Validate p = None" "mset classifiers = mset (pc_Classifiers p)" "mset rules = mset (pc_Rules p)"
  shows "VerificationPolicyDigest sha (p\<lparr>pc_Classifiers := classifiers, pc_Rules := rules\<rparr>) = VerificationPolicyDigest sha p"
proof -
  let ?q = "p\<lparr>pc_Classifiers := classifiers, pc_Rules := rules\<rparr>"
  have errs: "classifier_errors [] (pc_Classifiers p) = None" "rule_errors [] (pc_Rules p) = None" using assms(1) by (simp_all add: PolicyContent_Validate_def)
  then have d: "distinct (map cl_ID (pc_Classifiers p))" "distinct (map ru_ID (pc_Rules p))" by (simp_all add: classifier_errors_iff rule_errors_iff)
  have dq: "distinct (map cl_ID classifiers)" "distinct (map ru_ID rules)"
    using d mset_eq_imp_distinct_iff [of "map cl_ID classifiers" "map cl_ID (pc_Classifiers p)"] mset_eq_imp_distinct_iff [of "map ru_ID rules" "map ru_ID (pc_Rules p)"]
      assms(2,3) by simp_all
  have "set classifiers = set (pc_Classifiers p)" "set rules = set (pc_Rules p)" "length classifiers = length (pc_Classifiers p)" "length rules = length (pc_Rules p)"
    using assms(2,3) by (auto dest: mset_eq_setD mset_eq_length)
  then have v: "PolicyContent_Validate ?q = None"
    using assms(1) errs dq by (simp add: PolicyContent_Validate_def classifier_errors_iff [of "[]"] rule_errors_iff)
  have "sort_key cl_ID classifiers = sort_key cl_ID (pc_Classifiers p)" "sort_key ru_ID rules = sort_key ru_ID (pc_Rules p)"
    using sort_key_mset assms(2,3) dq by blast+
  then have "canonicalPolicy ?q = canonicalPolicy p" by (simp add: canonicalPolicy_def)
  then show ?thesis using v assms(1) by (simp add: VerificationPolicyDigest_def)
qed

definition second_rule :: Rule where
  "second_rule = test_rule\<lparr>ru_ID := ''p''\<rparr>"

theorem policy_digest_order_witness:
  "VerificationPolicyDigest sha0 (test_policy\<lparr>pc_Rules := [test_rule, second_rule]\<rparr>) = VerificationPolicyDigest sha0 (test_policy\<lparr>pc_Rules := [second_rule, test_rule]\<rparr>)"
proof -
  have "PolicyContent_Validate (test_policy\<lparr>pc_Rules := [second_rule, test_rule]\<rparr>) = None"
    by (simp add: PolicyContent_Validate_def second_rule_def test_policy_def test_rule_def Rule_Validate_def validateStrings_def tests_pass_def tokens
      EvidenceRequirement_Validate_def ProviderExecutionSemantics_Validate_def)
  from policy_digest_order [OF this, of "[]" "[test_rule, second_rule]"] show ?thesis by (simp add: test_policy_def)
qed

section \<open>Waivers of a checkpoint\<close>

definition without_checkpoint_waivers :: "VerificationStore \<Rightarrow> VerificationStore" where
  "without_checkpoint_waivers s = s\<lparr>vs_waivers := (\<lambda>repo. filter (\<lambda>(k, c). case c of Good w \<Rightarrow> wv_CheckpointID w = [] | Bad _ \<Rightarrow> True) (vs_waivers s repo))\<rparr>"

lemma bind_result_cong: "(\<And>x. r = Inr x \<Longrightarrow> f x = g x) \<Longrightarrow> bind_result r f = bind_result r g"
  by (cases r) simp_all

lemma map_of_filter_values:
  "distinct (map fst d) \<Longrightarrow> map_of (filter (\<lambda>(k, c). P c) d) k = (case map_of d k of None \<Rightarrow> None | Some c \<Rightarrow> if P c then Some c else None)"
  by (induction d) (auto split: option.splits dest: map_of_SomeD, force+)

lemma ReadDir_filter:
  assumes "distinct (map fst d)"
  shows "ReadDir (filter (\<lambda>(k, c). P c) d) = filter (\<lambda>k. \<exists>c. map_of d k = Some c \<and> P c) (ReadDir d)"
proof -
  have "distinct (map fst (filter (\<lambda>(k, c). P c) d))" using assms by (simp add: distinct_map_filter)
  moreover have "map fst (filter (\<lambda>(k, c). P c) d) = filter (\<lambda>k. \<exists>c. map_of d k = Some c \<and> P c) (map fst d)"
    unfolding filter_map o_def using assms by (intro arg_cong [of _ _ "map fst"] filter_cong) (auto simp: map_of_eq_Some_iff dest: eq_key_imp_eq_value)
  ultimately show ?thesis using assms by (simp add: ReadDir_def distinct_remdups_id filter_sort)
qed

lemma collect_filter:
  assumes "\<forall>k \<in> set ks. if Q k then f' k = f k \<and> (\<forall>w. f k = Inr w \<longrightarrow> holds w) else \<exists>w. f k = Inr w \<and> \<not> holds w"
  shows "collect (map f' (filter Q ks)) = bind_result (collect (map f ks)) (\<lambda>ws. Inr (filter holds ws))"
  using assms
proof (induction ks)
  case (Cons k ks)
  then show ?case by (cases "f k"; cases "collect (map f ks)") (auto split: if_splits)
qed simp

lemma list_strict_filter:
  assumes "distinct (map fst d)" "\<forall>b. P (Bad b)"
  shows "list_strict (filter (\<lambda>(k, c). P c) d) = bind_result (list_strict d) (\<lambda>ws. Inr (filter (P \<circ> Good) ws))"
  unfolding list_strict_def ReadDir_filter [OF assms(1)]
proof (rule collect_filter, rule ballI)
  fix k assume "k \<in> set (ReadDir d)"
  then obtain c where "map_of d k = Some c" by (auto simp: ReadDir_def) (metis option.exhaust map_of_eq_None_iff image_eqI fst_conv)
  then show "if \<exists>c. map_of d k = Some c \<and> P c then readStrict (filter (\<lambda>(k, c). P c) d) k = readStrict d k \<and> (\<forall>w. readStrict d k = Inr w \<longrightarrow> (P \<circ> Good) w)
      else \<exists>w. readStrict d k = Inr w \<and> \<not> (P \<circ> Good) w"
    using assms by (cases c) (auto simp: readStrict_def readPrivateJSON_def map_of_filter_values)
qed

lemma ListWaivers_filter:
  assumes "distinct (map fst (vs_waivers s repo))"
  shows "ListWaivers repo (without_checkpoint_waivers s) = bind_result (ListWaivers repo s) (\<lambda>(ws, rs). Inr (filter (\<lambda>w. wv_CheckpointID w = []) ws, rs))"
proof -
  have "list_strict (vs_waivers (without_checkpoint_waivers s) repo) = bind_result (list_strict (vs_waivers s repo)) (\<lambda>ws. Inr (filter (\<lambda>w. wv_CheckpointID w = []) ws))"
    using list_strict_filter [OF assms, of "\<lambda>c. case c of Good w \<Rightarrow> wv_CheckpointID w = [] | Bad _ \<Rightarrow> True"] by (simp add: without_checkpoint_waivers_def o_def)
  moreover have "vs_revocations (without_checkpoint_waivers s) = vs_revocations s" by (simp add: without_checkpoint_waivers_def)
  ultimately show ?thesis
    by (cases "list_strict (vs_waivers s repo)"; cases "list_strict (vs_revocations s repo)") (simp_all add: ListWaivers_def filter_sort)
qed

lemma find_activation_waivers:
  "vs_effective (without_checkpoint_waivers s) = vs_effective s" "vs_policies (without_checkpoint_waivers s) = vs_policies s"
  "findActivationUnlocked repo i (without_checkpoint_waivers s) = findActivationUnlocked repo i s"
  by (simp_all add: findActivationUnlocked_def without_checkpoint_waivers_def)

lemma current_waivers: "CurrentActivation repo (without_checkpoint_waivers s) = CurrentActivation repo s"
  unfolding CurrentActivation_def readEffectiveUnlocked_def find_activation_waivers ..

lemma ActiveWaivers_filter:
  assumes "\<And>repo. distinct (map fst (vs_waivers s repo))" "sp_CheckpointID scope = []"
  shows "ActiveWaivers d now scope (without_checkpoint_waivers s) = ActiveWaivers d now scope s"
proof -
  have "filter (waiver_active now x rs scope) (filter (\<lambda>w. wv_CheckpointID w = []) ws) = filter (waiver_active now x rs scope) ws" for x rs ws
    using assms(2) by (auto simp: waiver_active_def intro: filter_cong)
  then show ?thesis
    by (cases "find_workspace d (sp_WorkspaceID scope)"; simp add: ActiveWaivers_def current_waivers)
       (rule bind_result_cong, simp add: ListWaivers_filter [OF assms(1)] bind_result_def split: option.split sum.split)
qed


definition checkpoint_store :: VerificationStore where
  "checkpoint_store = test_store\<lparr>vs_waivers := (\<lambda>_. [(''wv_1'', Good (test_waiver\<lparr>wv_CheckpointID := ''chk_1''\<rparr>))])\<rparr>"

text \<open>
  C36: Waivers of a checkpoint are never applied.  Removing every waiver that names a checkpoint from
  the store does not change the inspection of any workspace in any phase: a waiver for a checkpoint
  is accepted and stored, but no gate ever honours it.
\<close>

theorem checkpoint_waivers_inert:
  assumes "\<forall>repo. distinct (map fst (vs_waivers s repo))"
  shows "Inspect sha d src now req (without_checkpoint_waivers s) = Inspect sha d src now req s"
proof -
  have "materializedPolicy sha repo (without_checkpoint_waivers s) = materializedPolicy sha repo s" for repo
    unfolding materializedPolicy_def current_waivers LoadPolicySnapshot_def find_activation_waivers ..
  moreover have "ActiveWaivers d now \<lparr>sp_WorkspaceID = w, sp_Phase = p, sp_Generation = g, sp_CheckpointID = []\<rparr> (without_checkpoint_waivers s) =
      ActiveWaivers d now \<lparr>sp_WorkspaceID = w, sp_Phase = p, sp_Generation = g, sp_CheckpointID = []\<rparr> s" for w p g
    using assms by (intro ActiveWaivers_filter) simp_all
  ultimately show ?thesis by (simp only: Inspect_def)
qed

theorem checkpoint_waivers_inert_witness:
  "Inspect sha0 test_deps test_sources 5 test_request (without_checkpoint_waivers (checkpoint_store)) = Inspect sha0 test_deps test_sources 5 test_request checkpoint_store \<and>
   vs_waivers (without_checkpoint_waivers checkpoint_store) \<noteq> vs_waivers checkpoint_store"
proof -
  have "\<forall>repo. distinct (map fst (vs_waivers checkpoint_store repo))" by (simp add: checkpoint_store_def)
  moreover have "vs_waivers (without_checkpoint_waivers checkpoint_store) \<noteq> vs_waivers checkpoint_store"
    by (simp add: fun_eq_iff checkpoint_store_def without_checkpoint_waivers_def)
  ultimately show ?thesis using checkpoint_waivers_inert by blast
qed

section \<open>Inspections that fail\<close>

lemma collect_error: "Inl e \<in> set xs \<Longrightarrow> \<exists>e'. collect xs = Inl e'"
  by (induction xs) (auto simp: bind_result_def split: sum.splits)

lemma Derive_error:
  assumes "rule \<in> set (pc_Rules (pn_Content (mp_Snapshot (oq_Policy req))))"
    and "\<exists>e. deriveRule sha commands req (pn_Digest (mp_Snapshot (oq_Policy req))) rule = Inl e"
  shows "\<exists>e. Derive sha commands req = Inl e"
proof (cases "Derive sha commands req")
  case (Inr x)
  then show ?thesis using Derive_obligations [OF Inr assms(1)] assms(2) by auto
qed simp

lemma Inspect_error:
  assumes "is_workspace src = Inr ws" "is_affected src = Inr surface" "materializedPolicy sha (wk_RepositoryID ws) s = Inr (Some (m, summary))"
    and "rule \<in> set (pc_Rules (pn_Content (mp_Snapshot m)))"
    and err: "\<And>classified waivers. ApplyEffectiveClassifications sha surface m = Inr classified \<Longrightarrow> \<exists>e. deriveRule sha (pd_commands d)
      \<lparr>oq_WorkspaceID = iq_WorkspaceID req, oq_Phase = iq_Phase req, oq_Policy = m, oq_Surface = classified, oq_ActiveWaivers = waivers\<rparr> (pn_Digest (mp_Snapshot m)) rule = Inl e"
  shows "\<exists>e. Inspect sha d src now req s = Inl e"
proof (cases "Inspect sha d src now req s")
  case (Inr insp)
  then obtain classified waivers x where "ApplyEffectiveClassifications sha surface m = Inr classified"
    "Derive sha (pd_commands d) \<lparr>oq_WorkspaceID = iq_WorkspaceID req, oq_Phase = iq_Phase req, oq_Policy = m, oq_Surface = classified, oq_ActiveWaivers = waivers\<rparr> = Inr x"
    using assms(1-3) by (auto simp: Inspect_def Let_def)
  then show ?thesis
    using Derive_error [where sha = sha and commands = "pd_commands d" and rule = rule and req = "\<lparr>oq_WorkspaceID = iq_WorkspaceID req, oq_Phase = iq_Phase req, oq_Policy = m,
      oq_Surface = classified, oq_ActiveWaivers = waivers\<rparr>"] assms(4) err by auto
qed simp

lemma deriveRule_Inr:
  assumes "deriveRule sha commands req digest rule = Inr (obl, ds)"
  shows "VerificationObligation_Validate obl = None" "vo_SufficiencyBasis obl = ru_SufficiencyBasis rule"
    "sl_triggerRefs (evaluateRuleSelectors (oq_Surface req) digest rule) \<noteq> [] \<Longrightarrow>
      \<exists>i. ObligationID sha digest (ru_ID rule) (sf_SourceGeneration (oq_Surface req)) (sl_triggerRefs (evaluateRuleSelectors (oq_Surface req) digest rule)) = Inr i"
  using assms by (auto simp: deriveRule_def Let_def apply_waiver_def split: prod.splits option.splits if_splits)

lemma too_many_refs: "length refs > 128 \<Longrightarrow> \<exists>e. ObligationID sha digest rule gen refs = Inl e"
  by (auto simp: ObligationID_def referenceSetID_def normalizeRefs_def validateRefs_def validateStrings_def reject_def bind_result_def guard_result_def split: option.splits)

lemma classified_relations:
  assumes "ApplyEffectiveClassifications sha surface m = Inr classified"
  shows "mset (sf_Relations surface) \<subseteq># mset (sf_Relations classified)"
  using assms by (auto simp: ApplyEffectiveClassifications_def Let_def split: if_splits)

definition path_rule :: Rule where
  "path_rule = test_rule\<lparr>ru_MatchPaths := [''src/**'']\<rparr>"

definition path_policy :: PolicyContent where
  "path_policy = test_policy\<lparr>pc_Rules := [path_rule]\<rparr>"

definition path_relation :: AffectedRelation where
  "path_relation = \<lparr>rl_RelationID = ''rel_'' @ zeros 64, rl_From = \<lparr>su_Kind = SubjectSourceRef, su_Value = gen0\<rparr>, rl_To = \<lparr>su_Kind = SubjectPath, su_Value = ''src/a.go''\<rparr>,
     rl_Kind = ''modified'', rl_Basis = BasisObservedMutation, rl_DerivationAuthority = AuthorityMechanical, rl_Coverage = CoverageComplete, rl_Provider = None,
     rl_SourceGeneration = gen0, rl_ProvenanceRefs = [''git''], rl_CapturedAt = 1, rl_Caveats = []\<rparr>"

definition wide_surface :: AffectedSurface where
  "wide_surface = test_surface\<lparr>sf_Relations := replicate 129 path_relation\<rparr>"

lemma path_policy_valid: "PolicyContent_Validate path_policy = None"
  by (simp add: PolicyContent_Validate_def path_policy_def path_rule_def test_policy_def test_rule_def Rule_Validate_def validateStrings_def tests_pass_def tokens
      EvidenceRequirement_Validate_def ProviderExecutionSemantics_Validate_def boundedToken_ascii)

text \<open>
  C37: A wide change makes the inspection fail.  When a rule of the effective policy matches more than
  128 relations of the affected surface, the inspection reports an error instead of a gate, in every
  phase; the surface itself may hold up to 512 relations.
\<close>

theorem wide_change_blocks_inspection:
  assumes "is_workspace src = Inr ws" "is_affected src = Inr surface" "materializedPolicy sha (wk_RepositoryID ws) s = Inr (Some (m, summary))"
    and "rule \<in> set (pc_Rules (pn_Content (mp_Snapshot m)))"
    and "length (filter (rule_matches (pn_Digest (mp_Snapshot m)) rule) (sf_Relations surface)) > 128"
  shows "\<exists>e. Inspect sha d src now req s = Inl e"
proof (rule Inspect_error [OF assms(1-4)])
  fix classified waivers assume c: "ApplyEffectiveClassifications sha surface m = Inr classified"
  let ?digest = "pn_Digest (mp_Snapshot m)"
  let ?hits = "filter (rule_matches ?digest rule) (sf_Relations classified)"
  have "mset (filter (rule_matches ?digest rule) (sf_Relations surface)) \<subseteq># mset ?hits"
    using classified_relations [OF c] by (simp add: multiset_filter_mono)
  from size_mset_mono [OF this] have "length (filter (rule_matches ?digest rule) (sf_Relations surface)) \<le> length ?hits" by (simp only: size_mset)
  then have n: "length ?hits > 128" using assms(5) by simp
  then have "?hits \<noteq> []" by auto
  then obtain r where "rule_matches ?digest rule r" by (auto simp: filter_empty_conv)
  then have "\<not> (ru_MatchPaths rule = [] \<and> ru_MatchClasses rule = [])" by (auto simp: rule_matches_def relationMatchesPath_def relationMatchesClass_def)
  then have sel: "sl_triggerRefs (evaluateRuleSelectors classified ?digest rule) = map rl_RelationID ?hits" using n by (auto simp: evaluateRuleSelectors_def Let_def)
  let ?q = "\<lparr>oq_WorkspaceID = iq_WorkspaceID req, oq_Phase = iq_Phase req, oq_Policy = m, oq_Surface = classified, oq_ActiveWaivers = waivers\<rparr>"
  show "\<exists>e. deriveRule sha (pd_commands d) ?q ?digest rule = Inl e"
  proof (cases "deriveRule sha (pd_commands d) ?q ?digest rule")
    case (Inr x)
    then show ?thesis
      using deriveRule_Inr(3) [of sha "pd_commands d" ?q ?digest rule "fst x" "snd x"] too_many_refs [of "map rl_RelationID ?hits" sha ?digest "ru_ID rule" "sf_SourceGeneration classified"]
        sel n \<open>?hits \<noteq> []\<close> by auto
  qed simp
qed

theorem wide_change_blocks_inspection_witness:
  "\<exists>e. Inspect sha0 test_deps (test_sources\<lparr>is_affected := Inr wide_surface\<rparr>) 5 test_request (store_with path_policy) = Inl e"
proof -
  obtain summary where m: "materializedPolicy sha0 (wk_RepositoryID ws0) (store_with path_policy) = Inr (Some (effective_with path_policy, summary))"
    using materialized_with [OF path_policy_valid] by (auto simp: ws0_def)
  have w: "is_workspace (test_sources\<lparr>is_affected := Inr wide_surface\<rparr>) = Inr ws0" by (simp add: test_sources_def)
  have "rule_matches pol0 path_rule (path_relation)"
    by (simp add: rule_matches_def path_rule_def test_rule_def path_relation_def MeetsMinimumAuthority_def relationMatchesPath_def matchesPolicyPath_def matches_pattern_def
        HasSuffix_def TrimSuffix_def HasPrefix_def Let_def)
  then have n: "length (filter (rule_matches (pn_Digest (mp_Snapshot (effective_with path_policy))) path_rule) (sf_Relations wide_surface)) > 128"
    by (simp add: wide_surface_def effective_with_def)
  show ?thesis
    by (rule wide_change_blocks_inspection [OF w _ m _ n]) (simp_all add: effective_with_def path_policy_def)
qed



definition optional_policy :: PolicyContent where
  "optional_policy = test_policy\<lparr>pc_Rules := [test_rule\<lparr>ru_Required := False, ru_SufficiencyBasis := []\<rparr>]\<rparr>"


end
