(* ===== verification/Spec2Isabelle.thy ===== *)
theory Spec2Isabelle
  imports Session Failure SupervisorLedger ControlProps ShellIntegration HandoffPrivacy HandoffProps Spool DelegatedLane VerificationAuthority VerificationLimits
begin

text \<open>
  ShellBeam lets a coding agent run commands on a developer's machine and keeps a durable record of
  what happened.  A daemon owns execution sessions; a supervisor process per session feeds its input
  and captures its output; a session may be delegated to an external terminal provider and handed
  over to a human and back; and a verification gate says whether the evidence that the recorded runs
  give is enough for a change.  This library models the parts that decide about authority,
  durability and evidence, and proves what they promise.  All paths below are relative to
  \<open>src/internal\<close>.

  \<^bold>\<open>Conventions.\<close>  A Go struct is a record whose fields carry a short prefix, a string enumeration a
  datatype with one more constructor for any other string, a map an association list or a partial
  function, an \<open>error\<close> a \<open>goerr option\<close>, and a pair of a value and an error a value of the sum type
  \<open>'a result\<close>; a chain of early returns is \<open>first_error\<close> over its checks, in their order (Prelude).
  Integers keep their width where they can wrap (\<open>uint64\<close>) and are \<open>int\<close> where every value is
  checked against bounds; instants are nanoseconds.  A write to a file succeeds, fails, or fails
  after the file was replaced, and the outcomes of the writes to come are a list in the state
  (Storage), so every theorem about a run covers every crash between two writes.  SHA-256, JSON and
  the answers of other processes are parameters.

  \<^bold>\<open>Sessions and ledgers.\<close>  Session: life cycle, input ledger and kill ledger in memory
  (core/session).  SupervisorLedger: the durable ledgers of the supervisor (adapter/supervisor/
  ledger.go).  InputLog is the contract of an input ledger as a locale; both models interpret it.
  Shown: the life cycle terminates, input is accepted exactly once, crashes between writes lose or
  repeat nothing that was acknowledged, a kill is signalled at most once.  Spool: the captured
  output (adapter/supervisor/spool.go); its offsets stay in bounds and a range reads back as written
  while writes complete, and a write that fails half-way shifts all later ranges.  Failure: the
  public failures (core/failure) reveal only declared, cleaned details; GoText models the runes they
  are cleaned by.

  \<^bold>\<open>Delegated sessions.\<close>  Delegated, ShellIntegration, Handoff and Capture hold the values with their
  validation (core/delegatedsession, core/shellintegration, core/interactivehandoff, core/receipt/
  capture_quality.go).  DelegatedStore, DelegatedCapture and HandoffStore are the store
  (adapter/store/delegated_*.go, interactive_handoff*.go, human_control_ledger.go,
  context_exec_lease.go); HandoffStoreFacts, StoreRuns, StoredStates and MutationFiles reduce each
  operation to a few kinds of file writes and carry the invariants over runs, AuthorityProps and
  ControlProps state what follows: handoffs stay within the binding of their session, epochs never
  go back, handoffs and leases exclude each other, recovery completes an interrupted handoff, a
  control signal is decided once.

  \<^bold>\<open>The coordinator.\<close>  HandoffService is the coordinator of handoffs (app/interactivehandoff) as
  actions (Acts) on an arbitrary world behind the Go interfaces it is built on; HandoffContract is a
  small Hoare logic for it, with the laws of its store as a locale, and DaemonHandoff composes it
  with the store model and interprets that locale (app/daemon/handoff_port.go).  HandoffProps and
  HandoffPrivacy: at any time at most one side may write, the human's writes are recorded first,
  waiting returns, and a secret handoff opens only behind the privacy barrier.
  DelegatedControl and DelegatedLane are the agent's writes and signals (app/daemon/
  delegated_control.go): at most one delivery per mutation, none after a handoff.
  DelegatedTerminal is the end of a delegated session (delegated_capture_truth.go and the terminal
  part of delegated_start.go).

  \<^bold>\<open>The verification gate.\<close>  VerificationTypes: policies, affected surfaces, obligations, evidence
  candidates and the identifiers derived from them (core/verification).  GoPath: \<open>path.Match\<close>.
  VerificationObligations: classification of a surface and derivation of obligations
  (app/verification/affected.go, obligations.go).  VerificationEvaluate: stability, sufficiency,
  quiescence and the fold to the gate.  VerificationStore and PolicyService: the stored authority,
  that is snapshots, activations, waivers and revocations, and the service over it
  (adapter/store/verification_policy.go, app/verification/policy_service.go).  VerificationInspect:
  the inspection that composes them (app/verification/inspect.go).  VerificationFacts,
  VerificationRuns and VerificationActivation are the lemmas (the locale \<open>record_files\<close> is the
  contract of a directory of immutable records, interpreted for each of the four directories),
  VerificationExample a concrete repository, and VerificationProps, VerificationAuthority and
  VerificationLimits the properties: a clear gate is justified rule by rule, the gate equals a
  reference definition, the stored authority is consistent under any failures, a revocation is
  final, an interrupted activation completes, and the inputs on which inspection fails or a request
  has an effect it should not have.

  \<^bold>\<open>Bounds and termination.\<close>  No fuel is used except for the waiting loop of the coordinator, the
  retry loop at the end of a session and the re-creation of a file (Storage), whose length is that
  of the list of write outcomes or polls given; the theorems quantify over these lists.

  \<^bold>\<open>Not modelled.\<close>  Command line, MCP and IPC transport, process supervision and the providers
  themselves (system calls and external programs: their answers are parameters); receipts,
  operations, persistent sessions, the decision protocol and checkpoints (records of their own,
  outside the chain of authority above); parsers of test output, environment probing, git, code
  intelligence (external formats and programs, whose results enter as evidence candidates); the
  sampling of a workspace for its affected surface, starter policies and cost summaries.
  Concurrency is modelled at the granularity of the store's and the lane's mutexes: each operation
  that holds one is a step.
\<close>

end
